(* ===== verification/Prelude.thy ===== *)
theory Prelude
  imports Main "HOL-Library.List_Lexorder" "HOL-Library.Char_ord"
begin

text \<open>
  Prelude of the development: Go's error values, the effectful operations of the panel as
  functions on a state (\<open>io\<close>), the relation every operation is checked against
  (\<open>preorder_on_states\<close>), and the list functions the components share.

  A Go function \<open>func f(...) (T, error)\<close> that touches the outside world is an \<open>io\<close>
  value: it takes the state, returns either the error or the value, and the state afterwards.
  The state is kept on an error too, as effects that happened before a \<^verbatim>\<open>return err\<close>
  stay.  An early return is \<open>bindE\<close>, which stops at the first error.
\<close>

section \<open>Proof collections\<close>

named_theorems io_simps \<open>how the combinators of effectful operations compute\<close>
named_theorems within_intros \<open>an operation stays within a preorder on states\<close>

section \<open>Errors\<close>

text \<open>
  The error values the panel creates or passes on.  \<open>Errorf\<close> is \<^verbatim>\<open>fmt.Errorf\<close> or
  \<^verbatim>\<open>errors.New\<close> with its finished text, \<open>Wrapf p e\<close> is \<^verbatim>\<open>fmt.Errorf("p: %w", e)\<close>,
  \<open>NoRows\<close> is \<^verbatim>\<open>pgx.ErrNoRows\<close>, \<open>PgError\<close> carries message and SQLSTATE of an error the
  database server reports.
\<close>

datatype goerr =
    Errorf string
  | Wrapf string goerr
  | NoRows
  | PgError string string

fun error_text :: "goerr \<Rightarrow> string" where
  "error_text (Errorf s) = s"
| "error_text (Wrapf p e) = p @ '': '' @ error_text e"
| "error_text NoRows = ''no rows in result set''"
| "error_text (PgError msg code) = ''ERROR: '' @ msg @ '' (SQLSTATE '' @ code @ '')''"

type_synonym time = int

section \<open>Effectful operations\<close>

type_synonym ('w, 'a) io = "'w \<Rightarrow> (goerr + 'a) \<times> 'w"

definition retE :: "'a \<Rightarrow> ('w, 'a) io" where
  "retE x w = (Inr x, w)"

definition failE :: "goerr \<Rightarrow> ('w, 'a) io" where
  "failE err w = (Inl err, w)"

definition bindE :: "('w, 'a) io \<Rightarrow> ('a \<Rightarrow> ('w, 'b) io) \<Rightarrow> ('w, 'b) io" where
  "bindE m f w =
     (case m w of (Inl err, w') \<Rightarrow> (Inl err, w') | (Inr x, w') \<Rightarrow> f x w')"

definition thenE :: "('w, 'a) io \<Rightarrow> ('w, 'b) io \<Rightarrow> ('w, 'b) io" where
  "thenE m k = bindE m (\<lambda>_. k)"

text \<open>
  \<open>attemptE m\<close> hands the outcome of \<open>m\<close> to the caller as a value, for code that inspects
  \<^verbatim>\<open>err\<close> instead of returning it; \<open>ignoreE m\<close> is \<^verbatim>\<open>_ = m()\<close>.
\<close>

definition attemptE :: "('w, 'a) io \<Rightarrow> ('w, goerr + 'a) io" where
  "attemptE m w = (case m w of (r, w') \<Rightarrow> (Inr r, w'))"

definition ignoreE :: "('w, 'a) io \<Rightarrow> ('w, unit) io" where
  "ignoreE m w = (Inr (), snd (m w))"

definition liftE :: "goerr + 'a \<Rightarrow> ('w, 'a) io" where
  "liftE r w = (r, w)"

text \<open>A \<^verbatim>\<open>for\<close> loop over a slice with the loop's variables as accumulator.\<close>

fun forE :: "('b \<Rightarrow> 's \<Rightarrow> ('w, 's) io) \<Rightarrow> 'b list \<Rightarrow> 's \<Rightarrow> ('w, 's) io" where
  "forE body [] s = retE s"
| "forE body (x # xs) s = bindE (body x s) (forE body xs)"

lemma retE_apply [io_simps]: "retE x w = (Inr x, w)"
  by (simp add: retE_def)

lemma failE_apply [io_simps]: "failE err w = (Inl err, w)"
  by (simp add: failE_def)

lemma bindE_Inl [io_simps]: "m w = (Inl err, w') \<Longrightarrow> bindE m f w = (Inl err, w')"
  by (simp add: bindE_def)

lemma bindE_Inr [io_simps]: "m w = (Inr x, w') \<Longrightarrow> bindE m f w = f x w'"
  by (simp add: bindE_def)

lemma thenE_apply [io_simps]: "thenE m k w = bindE m (\<lambda>_. k) w"
  by (simp add: thenE_def)

lemma attemptE_apply [io_simps]: "m w = (r, w') \<Longrightarrow> attemptE m w = (Inr r, w')"
  by (simp add: attemptE_def)

lemma ignoreE_apply [io_simps]: "ignoreE m w = (Inr (), snd (m w))"
  by (simp add: ignoreE_def)

lemma liftE_apply [io_simps]: "liftE r w = (r, w)"
  by (simp add: liftE_def)

lemma bindE_cases:
  assumes "bindE m f w = (r, w')"
  obtains (error) err where "m w = (Inl err, w')" and "r = Inl err"
    | (ok) x w1 where "m w = (Inr x, w1)" and "f x w1 = (r, w')"
  using assms by (auto simp: bindE_def split: prod.splits sum.splits)

lemma bindE_Inr_iff:
  "bindE m f w = (Inr y, w') \<longleftrightarrow> (\<exists>x w1. m w = (Inr x, w1) \<and> f x w1 = (Inr y, w'))"
  by (auto simp: bindE_def split: prod.splits sum.splits)

section \<open>Operations that stay within a preorder on states\<close>

text \<open>
  \<open>within R m\<close>: running \<open>m\<close> from any state, to success or to an error, ends in a state
  related by \<open>R\<close> to the one it started from.  With \<open>R s t = (I s \<longrightarrow> I t)\<close> this is
  "\<open>m\<close> keeps the invariant \<open>I\<close>"; with \<open>R s t = (v s \<le> v t)\<close> it is "\<open>m\<close> never
  lowers \<open>v\<close>".  The locale is the contract every such relation has to meet; its lemmas
  are the composition rules, proved once for all of them.
\<close>

definition within :: "('w \<Rightarrow> 'w \<Rightarrow> bool) \<Rightarrow> ('w, 'a) io \<Rightarrow> bool" where
  "within R m \<longleftrightarrow> (\<forall>w. R w (snd (m w)))"

lemma withinI: "(\<And>w. R w (snd (m w))) \<Longrightarrow> within R m"
  by (simp add: within_def)

lemma withinD: "within R m \<Longrightarrow> m w = (r, w') \<Longrightarrow> R w w'"
  by (metis within_def snd_conv)

lemma within_snd: "within R m \<Longrightarrow> R w (snd (m w))"
  by (simp add: within_def)

locale preorder_on_states =
  fixes R :: "'w \<Rightarrow> 'w \<Rightarrow> bool"
  assumes R_refl: "R w w"
    and R_trans: "R u v \<Longrightarrow> R v w \<Longrightarrow> R u w"
begin

lemma pure: "within R (retE x)" "within R (failE err)" "within R (liftE r)"
  by (auto intro!: withinI simp: io_simps R_refl)

lemma bind:
  assumes "within R m" and "\<And>x. within R (f x)"
  shows "within R (bindE m f)"
proof (rule withinI)
  fix w
  show "R w (snd (bindE m f w))"
  proof (cases "m w")
    case (Pair r w1)
    with assms(1) have "R w w1" by (rule withinD)
    moreover have "R w1 (snd (f x w1))" for x
      using assms(2) by (simp add: within_def)
    ultimately show ?thesis
      using Pair by (auto simp: bindE_def intro: R_trans split: sum.splits)
  qed
qed

lemma then_:
  "within R m \<Longrightarrow> within R k \<Longrightarrow> within R (thenE m k)"
  by (simp add: thenE_def bind)

lemma attempt: "within R m \<Longrightarrow> within R (attemptE m)"
  by (auto simp: within_def attemptE_def split: prod.splits) (metis snd_conv)

lemma ignore: "within R m \<Longrightarrow> within R (ignoreE m)"
  by (simp add: within_def ignoreE_def)

lemma loop: "(\<And>x s. within R (body x s)) \<Longrightarrow> within R (forE body xs s)"
  by (induction xs arbitrary: s) (auto intro: pure bind)

lemma cond: "(b \<Longrightarrow> within R m) \<Longrightarrow> (\<not> b \<Longrightarrow> within R k) \<Longrightarrow> within R (if b then m else k)"
  by simp

lemma case_sum_:
  "(\<And>x. within R (f x)) \<Longrightarrow> (\<And>y. within R (g y)) \<Longrightarrow> within R (case r of Inl x \<Rightarrow> f x | Inr y \<Rightarrow> g y)"
  by (cases r) auto

lemma case_option_:
  "within R m \<Longrightarrow> (\<And>x. within R (f x)) \<Longrightarrow> within R (case r of None \<Rightarrow> m | Some x \<Rightarrow> f x)"
  by (cases r) auto

lemma case_prod_: "(\<And>x y. within R (f x y)) \<Longrightarrow> within R (case p of (x, y) \<Rightarrow> f x y)"
  by (cases p) auto

lemmas rules = pure bind then_ attempt ignore loop cond case_sum_ case_option_ case_prod_

end

section \<open>Lists\<close>

text \<open>
  A stable sort by an arbitrary comparison, for SQL's \<^verbatim>\<open>order by\<close> (whose text order is
  the database's collation) and for Go's \<^verbatim>\<open>sort.SliceStable\<close>: insertion from the right
  keeps the order of elements of which neither is less than the other.
\<close>

fun insert_by :: "('a \<Rightarrow> 'a \<Rightarrow> bool) \<Rightarrow> 'a \<Rightarrow> 'a list \<Rightarrow> 'a list" where
  "insert_by lt x [] = [x]"
| "insert_by lt x (y # ys) = (if lt y x then y # insert_by lt x ys else x # y # ys)"

fun sort_by :: "('a \<Rightarrow> 'a \<Rightarrow> bool) \<Rightarrow> 'a list \<Rightarrow> 'a list" where
  "sort_by lt [] = []"
| "sort_by lt (x # xs) = insert_by lt x (sort_by lt xs)"

lemma set_insert_by [simp]: "set (insert_by lt x xs) = insert x (set xs)"
  by (induction xs) auto

lemma set_sort_by [simp]: "set (sort_by lt xs) = set xs"
  by (induction xs) auto

lemma length_insert_by [simp]: "length (insert_by lt x xs) = Suc (length xs)"
  by (induction xs) auto

lemma length_sort_by [simp]: "length (sort_by lt xs) = length xs"
  by (induction xs) auto

lemma distinct_insert_by [simp]:
  "distinct (insert_by lt x xs) \<longleftrightarrow> x \<notin> set xs \<and> distinct xs"
  by (induction xs) auto

lemma distinct_sort_by [simp]: "distinct (sort_by lt xs) \<longleftrightarrow> distinct xs"
  by (induction xs) auto

lemma distinct_map_insert_by:
  "distinct (map f (insert_by lt x xs)) \<longleftrightarrow> f x \<notin> f ` set xs \<and> distinct (map f xs)"
  by (induction xs) auto

lemma sort_by_Nil_iff [simp]: "sort_by lt xs = [] \<longleftrightarrow> xs = []"
  by (metis length_0_conv length_sort_by)

text \<open>The first element in a list that has a property.\<close>

lemma find_SomeD: "find P xs = Some x \<Longrightarrow> P x \<and> x \<in> set xs"
  by (auto simp: find_Some_iff in_set_conv_nth)

lemma find_unique:
  "distinct (map f xs) \<Longrightarrow> x \<in> set xs \<Longrightarrow> find (\<lambda>y. f y = f x) xs = Some x"
  by (induction xs) (auto simp: image_iff)

text \<open>
  Replacing the row with a given key in a table: the keys stay as they are, and another
  column stays free of duplicates when no other row has the new row's value.
\<close>

lemma map_replace_key:
  "key new = k \<Longrightarrow> map key (map (\<lambda>r. if key r = k then new else r) rows) = map key rows"
  by (induction rows) auto

lemma image_replace_key:
  "key new = k \<Longrightarrow> key ` (\<lambda>r. if key r = k then new else r) ` set rows = key ` set rows"
  using map_replace_key [of key new k rows] by (metis list.set_map)

lemma distinct_replace:
  assumes "distinct (map key rows)" and "distinct (map col rows)"
    and "\<forall>r \<in> set rows. key r \<noteq> k \<longrightarrow> col r \<noteq> col new"
  shows "distinct (map col (map (\<lambda>r. if key r = k then new else r) rows))"
  using assms
proof (induction rows)
  case (Cons r rows)
  show ?case
  proof (cases "key r = k")
    case True
    with Cons.prems have others: "\<forall>x \<in> set rows. key x \<noteq> k" by (auto simp: image_iff)
    then have "map (\<lambda>r. if key r = k then new else r) rows = rows"
      by (induction rows) auto
    with True others Cons.prems show ?thesis by auto
  next
    case False
    with Cons show ?thesis by (auto simp: image_iff)
  qed
qed simp

lemma distinct_map_filter_col: "distinct (map col rows) \<Longrightarrow> distinct (map col (filter P rows))"
  by (rule distinct_map_filter)

lemma set_replace:
  "x \<in> set (map (\<lambda>r. if key r = k then new else r) rows) \<Longrightarrow> x = new \<or> x \<in> set rows"
  by (auto split: if_splits)

text \<open>The rows of a join, as a list comprehension with all its conditions.\<close>

lemma if_nested: "(if a then (if b then x else z) else z) = (if a \<and> b then x else z)"
  by simp

lemma set_join:
  "set (concat (map (\<lambda>x. concat (map (\<lambda>y. if P x y then [f x y] else []) ys)) xs)) =
     {f x y | x y. x \<in> set xs \<and> y \<in> set ys \<and> P x y}"
  by (induction xs) auto

section \<open>Sorting by a comparison\<close>

text \<open>
  What \<open>sort_by\<close> needs of its comparison to be a stable sort: the contract of Go's
  \<^verbatim>\<open>less\<close> functions.
\<close>

locale strict_weak_order =
  fixes lt :: "'a \<Rightarrow> 'a \<Rightarrow> bool"
  assumes lt_asym: "lt x y \<Longrightarrow> \<not> lt y x"
    and lt_neg_trans: "\<not> lt x y \<Longrightarrow> \<not> lt y z \<Longrightarrow> \<not> lt x z"
begin

lemma insert_by_sorted:
  "sorted_wrt (\<lambda>x y. \<not> lt y x) ys \<Longrightarrow> sorted_wrt (\<lambda>x y. \<not> lt y x) (insert_by lt x ys)"
proof (induction ys)
  case (Cons y ys)
  show ?case
  proof (cases "lt y x")
    case True
    with Cons lt_asym show ?thesis by auto
  next
    case False
    with Cons.prems lt_neg_trans show ?thesis by fastforce
  qed
qed simp

lemma sort_by_sorted: "sorted_wrt (\<lambda>x y. \<not> lt y x) (sort_by lt xs)"
  by (induction xs) (simp_all add: insert_by_sorted)

text \<open>Elements of which neither is less than the other keep their order.\<close>

definition alike :: "'a \<Rightarrow> 'a \<Rightarrow> bool" where
  "alike x y \<longleftrightarrow> \<not> lt x y \<and> \<not> lt y x"

lemma insert_by_stable: "filter (alike z) (insert_by lt x ys) = filter (alike z) (x # ys)"
proof (induction ys)
  case (Cons y ys)
  have "\<not> (alike z x \<and> alike z y)" if "lt y x"
    using that lt_neg_trans by (auto simp: alike_def)
  with Cons show ?case by auto
qed simp

lemma sort_by_stable: "filter (alike z) (sort_by lt xs) = filter (alike z) xs"
  by (induction xs) (auto simp: insert_by_stable)

end

lemma count_list_insert_by [simp]: "count_list (insert_by lt x xs) y = count_list (x # xs) y"
  by (induction xs) auto

lemma count_list_sort_by [simp]: "count_list (sort_by lt xs) y = count_list xs y"
  by (induction xs) auto

lemma strict_weak_order_key: "strict_weak_order (\<lambda>x y. f x < (f y :: 'b :: linorder))"
  by unfold_locales auto

interpretation names: strict_weak_order "(<) :: string \<Rightarrow> string \<Rightarrow> bool"
  by unfold_locales auto

section \<open>Loops\<close>

text \<open>
  The rule for a loop that runs to its end: an invariant over the elements done so far.
\<close>

lemma forE_prefix:
  assumes "forE body xs s w = (Inr s', w')" and "P [] s w"
    and step: "\<And>dn x todo s w s1 w1. xs = dn @ x # todo \<Longrightarrow> P dn s w \<Longrightarrow> body x s w = (Inr s1, w1)
      \<Longrightarrow> P (dn @ [x]) s1 w1"
  shows "P xs s' w'"
proof -
  have "P (dn @ ys) s' w'"
    if "forE body ys s w = (Inr s', w')" and "P dn s w" and "xs = dn @ ys" for ys dn s w
    using that
  proof (induction ys arbitrary: dn s w)
    case Nil
    then show ?case by (simp add: retE_def)
  next
    case (Cons y ys)
    obtain s1 w1 where "body y s w = (Inr s1, w1)" "forE body ys s1 w1 = (Inr s', w')"
      using Cons.prems(1) by (auto simp: bindE_Inr_iff)
    with Cons.IH [of s1 w1 "dn @ [y]"] step [OF Cons.prems(3,2)] Cons.prems(3) show ?case by simp
  qed
  from this [of xs s w "[]"] assms(1,2) show ?thesis by simp
qed

text \<open>A loop whose body never returns early never does either.\<close>

lemma forE_total:
  assumes "\<And>x s w. \<exists>s1 w1. body x s w = (Inr s1, w1)"
  shows "\<exists>s' w'. forE body xs s w = (Inr s', w')"
  using assms
proof (induction xs arbitrary: s w)
  case (Cons x xs)
  obtain s1 w1 where "body x s w = (Inr s1, w1)" using Cons.prems by blast
  with Cons.IH [OF Cons.prems, of s1 w1] show ?case by (simp add: bindE_def)
qed (simp add: retE_def)

end
