(* ===== verification/Go_Strings.thy ===== *)
theory Go_Strings
  imports Go_Unicode
begin

text \<open>
  The functions of Go's \<^verbatim>\<open>strings\<close>, \<^verbatim>\<open>strconv\<close> and \<^verbatim>\<open>encoding/base64\<close> packages
  that the panel calls, on byte strings, with the lemmas the components use.
\<close>

section \<open>Prefixes, suffixes, substrings\<close>

definition HasPrefix :: "string \<Rightarrow> string \<Rightarrow> bool" where
  "HasPrefix s p \<longleftrightarrow> take (length p) s = p"

definition HasSuffix :: "string \<Rightarrow> string \<Rightarrow> bool" where
  "HasSuffix s p \<longleftrightarrow> length p \<le> length s \<and> drop (length s - length p) s = p"

definition TrimPrefix :: "string \<Rightarrow> string \<Rightarrow> string" where
  "TrimPrefix s p = (if HasPrefix s p then drop (length p) s else s)"

fun Contains :: "string \<Rightarrow> string \<Rightarrow> bool" where
  "Contains [] sub = (sub = [])"
| "Contains (c # s) sub = (HasPrefix (c # s) sub \<or> Contains s sub)"

text \<open>\<^verbatim>\<open>strings.Cut\<close>: what stands before and after the first occurrence, and whether there is one.\<close>

fun Cut :: "string \<Rightarrow> string \<Rightarrow> string \<times> string \<times> bool" where
  "Cut [] sep = (if sep = [] then ([], [], True) else ([], [], False))"
| "Cut (c # s) sep =
     (if HasPrefix (c # s) sep then ([], drop (length sep) (c # s), True)
      else (case Cut s sep of (a, b, found) \<Rightarrow> (c # a, b, found)))"

fun Join :: "string list \<Rightarrow> string \<Rightarrow> string" where
  "Join [] sep = []"
| "Join [x] sep = x"
| "Join (x # y # xs) sep = x @ sep @ Join (y # xs) sep"

text \<open>\<^verbatim>\<open>strings.Split(s, sep)\<close> for a separator of one byte.\<close>

fun SplitByte :: "string \<Rightarrow> char \<Rightarrow> string list" where
  "SplitByte [] sep = [[]]"
| "SplitByte (c # s) sep =
     (if c = sep then [] # SplitByte s sep
      else (case SplitByte s sep of w # ws \<Rightarrow> (c # w) # ws | [] \<Rightarrow> [[c]]))"

text \<open>\<^verbatim>\<open>strings.TrimLeft\<close>, \<^verbatim>\<open>TrimRight\<close> and \<^verbatim>\<open>Trim\<close> with a cut set of one byte.\<close>

definition TrimLeftByte :: "string \<Rightarrow> char \<Rightarrow> string" where
  "TrimLeftByte s c = dropWhile (\<lambda>x. x = c) s"

definition TrimRightByte :: "string \<Rightarrow> char \<Rightarrow> string" where
  "TrimRightByte s c = rev (dropWhile (\<lambda>x. x = c) (rev s))"

definition TrimByte :: "string \<Rightarrow> char \<Rightarrow> string" where
  "TrimByte s c = TrimRightByte (TrimLeftByte s c) c"

lemma HasPrefix_iff: "HasPrefix s p \<longleftrightarrow> (\<exists>t. s = p @ t)"
  unfolding HasPrefix_def
  by (metis append_eq_conv_conj append_take_drop_id)

lemma HasPrefix_append [simp]: "HasPrefix (p @ t) p"
  by (simp add: HasPrefix_def)

lemma HasSuffix_iff: "HasSuffix s p \<longleftrightarrow> (\<exists>t. s = t @ p)"
proof
  assume "HasSuffix s p"
  then have "s = take (length s - length p) s @ p"
    unfolding HasSuffix_def by (metis append_take_drop_id)
  then show "\<exists>t. s = t @ p" ..
next
  assume "\<exists>t. s = t @ p"
  then show "HasSuffix s p" by (auto simp: HasSuffix_def)
qed

lemma Contains_Nil [simp]: "Contains s []"
  by (cases s) (auto simp: HasPrefix_def)

lemma Contains_iff: "Contains s sub \<longleftrightarrow> (\<exists>a b. s = a @ sub @ b)"
proof (induction s)
  case Nil
  then show ?case by auto
next
  case (Cons c s)
  show ?case
  proof
    assume "Contains (c # s) sub"
    then consider "HasPrefix (c # s) sub" | "Contains s sub" by auto
    then show "\<exists>a b. c # s = a @ sub @ b"
    proof cases
      case 1
      then obtain t where "c # s = [] @ sub @ t" by (auto simp: HasPrefix_iff)
      then show ?thesis by blast
    next
      case 2
      then obtain a b where "c # s = (c # a) @ sub @ b" using Cons.IH by auto
      then show ?thesis by blast
    qed
  next
    assume "\<exists>a b. c # s = a @ sub @ b"
    then obtain a b where ab: "c # s = a @ sub @ b" by blast
    show "Contains (c # s) sub"
    proof (cases a)
      case Nil
      with ab have "HasPrefix (c # s) sub" by simp
      then show ?thesis by simp
    next
      case (Cons x a')
      with ab have "s = a' @ sub @ b" by simp
      then have "Contains s sub" using Cons.IH by blast
      then show ?thesis by simp
    qed
  qed
qed

lemma TrimLeftByte_hd: "TrimLeftByte s c = d # t \<Longrightarrow> d \<noteq> c"
  using hd_dropWhile [of "\<lambda>x. x = c" s] by (simp add: TrimLeftByte_def)

lemma set_TrimLeftByte: "set (TrimLeftByte s c) \<subseteq> set s"
  by (auto simp: TrimLeftByte_def dest: set_dropWhileD)

lemma set_TrimRightByte: "set (TrimRightByte s c) \<subseteq> set s"
  by (auto simp: TrimRightByte_def dest: set_dropWhileD)

lemma set_TrimByte: "set (TrimByte s c) \<subseteq> set s"
  using set_TrimLeftByte set_TrimRightByte by (fastforce simp: TrimByte_def)

section \<open>White space\<close>

text \<open>
  \<^verbatim>\<open>strings.TrimSpace\<close> removes Unicode white space at both ends: the UTF-8 encodings of
  the 25 code points for which \<^verbatim>\<open>unicode.IsSpace\<close> holds.
\<close>

definition space_encodings :: "string list" where
  "space_encodings =
     [[CHR 0x09], [CHR 0x0A], [CHR 0x0B], [CHR 0x0C], [CHR 0x0D], [CHR 0x20],
      [CHR 0xC2, CHR 0x85], [CHR 0xC2, CHR 0xA0], [CHR 0xE1, CHR 0x9A, CHR 0x80],
      [CHR 0xE2, CHR 0x80, CHR 0x80], [CHR 0xE2, CHR 0x80, CHR 0x81],
      [CHR 0xE2, CHR 0x80, CHR 0x82], [CHR 0xE2, CHR 0x80, CHR 0x83],
      [CHR 0xE2, CHR 0x80, CHR 0x84], [CHR 0xE2, CHR 0x80, CHR 0x85],
      [CHR 0xE2, CHR 0x80, CHR 0x86], [CHR 0xE2, CHR 0x80, CHR 0x87],
      [CHR 0xE2, CHR 0x80, CHR 0x88], [CHR 0xE2, CHR 0x80, CHR 0x89],
      [CHR 0xE2, CHR 0x80, CHR 0x8A], [CHR 0xE2, CHR 0x80, CHR 0xA8],
      [CHR 0xE2, CHR 0x80, CHR 0xA9], [CHR 0xE2, CHR 0x80, CHR 0xAF],
      [CHR 0xE2, CHR 0x81, CHR 0x9F], [CHR 0xE3, CHR 0x80, CHR 0x80]]"

primrec strip_any :: "string list \<Rightarrow> string \<Rightarrow> string option" where
  "strip_any [] s = None"
| "strip_any (p # ps) s =
     (if p \<noteq> [] \<and> HasPrefix s p then Some (drop (length p) s) else strip_any ps s)"

lemma strip_any_Some:
  "strip_any ps s = Some t \<Longrightarrow> \<exists>p \<in> set ps. p \<noteq> [] \<and> s = p @ t"
proof (induction ps)
  case (Cons p ps)
  show ?case
  proof (cases "p \<noteq> [] \<and> HasPrefix s p")
    case True
    with Cons.prems have "s = p @ t" by (auto simp: HasPrefix_iff)
    with True show ?thesis by auto
  next
    case False
    then have "strip_any ps s = Some t" using Cons.prems by auto
    with Cons.IH show ?thesis by auto
  qed
qed simp

lemma strip_any_shorter: "strip_any ps s = Some t \<Longrightarrow> length t < length s"
  by (auto dest!: strip_any_Some)

lemma strip_any_None:
  "strip_any ps s = None \<longleftrightarrow> (\<forall>p \<in> set ps. p \<noteq> [] \<longrightarrow> \<not> HasPrefix s p)"
  by (induction ps) auto

function trim_front :: "string list \<Rightarrow> string \<Rightarrow> string" where
  "trim_front ps s = (case strip_any ps s of None \<Rightarrow> s | Some t \<Rightarrow> trim_front ps t)"
  by pat_completeness auto
termination
  by (relation "measure (\<lambda>(ps, s). length s)") (auto dest: strip_any_shorter)

declare trim_front.simps [simp del]

definition TrimLeftSpace :: "string \<Rightarrow> string" where
  "TrimLeftSpace s = trim_front space_encodings s"

definition TrimRightSpace :: "string \<Rightarrow> string" where
  "TrimRightSpace s = rev (trim_front (map rev space_encodings) (rev s))"

definition TrimSpace :: "string \<Rightarrow> string" where
  "TrimSpace s = TrimRightSpace (TrimLeftSpace s)"

lemma trim_front_fixed: "strip_any ps (trim_front ps s) = None"
proof (induction ps s rule: trim_front.induct)
  case (1 ps s)
  then show ?case
    by (cases "strip_any ps s") (auto simp: trim_front.simps [of ps s])
qed

lemma trim_front_suffix: "\<exists>a. s = a @ trim_front ps s"
proof (induction ps s rule: trim_front.induct)
  case (1 ps s)
  show ?case
  proof (cases "strip_any ps s")
    case None
    then show ?thesis by (simp add: trim_front.simps [of ps s])
  next
    case (Some t)
    with "1.IH" obtain a where "t = a @ trim_front ps t" by blast
    moreover obtain p where "s = p @ t"
      using strip_any_Some [OF Some] by blast
    ultimately show ?thesis
      using Some by (metis append.assoc option.simps(5) trim_front.simps)
  qed
qed

lemma trim_front_id: "strip_any ps s = None \<Longrightarrow> trim_front ps s = s"
  by (simp add: trim_front.simps [of ps s])

lemma HasPrefix_mono: "HasPrefix s p \<Longrightarrow> HasPrefix (s @ t) p"
  by (auto simp: HasPrefix_iff)

lemma TrimRightSpace_prefix: "\<exists>b. s = TrimRightSpace s @ b"
proof -
  obtain a where "rev s = a @ trim_front (map rev space_encodings) (rev s)"
    using trim_front_suffix by blast
  then have "s = TrimRightSpace s @ rev a"
    unfolding TrimRightSpace_def by (metis rev_append rev_rev_ident)
  then show ?thesis ..
qed

lemma TrimRightSpace_fixed: "strip_any (map rev space_encodings) (rev (TrimRightSpace s)) = None"
  by (simp add: TrimRightSpace_def trim_front_fixed)

lemma TrimSpace_front: "strip_any space_encodings (TrimSpace s) = None"
proof -
  obtain b where "TrimLeftSpace s = TrimSpace s @ b"
    using TrimRightSpace_prefix by (metis TrimSpace_def)
  moreover have "strip_any space_encodings (TrimLeftSpace s) = None"
    by (simp add: TrimLeftSpace_def trim_front_fixed)
  ultimately show ?thesis
    by (metis HasPrefix_mono strip_any_None)
qed

lemma TrimSpace_idem [simp]: "TrimSpace (TrimSpace s) = TrimSpace s"
proof -
  have "TrimLeftSpace (TrimSpace s) = TrimSpace s"
    by (simp add: TrimLeftSpace_def trim_front_id TrimSpace_front)
  moreover have "TrimRightSpace (TrimSpace s) = TrimSpace s"
    using TrimRightSpace_fixed [of "TrimLeftSpace s"]
    by (metis TrimRightSpace_def TrimSpace_def rev_rev_ident trim_front_id)
  ultimately show ?thesis by (simp add: TrimSpace_def)
qed

lemma TrimSpace_Nil [simp]: "TrimSpace [] = []"
  by (simp add: TrimSpace_def TrimLeftSpace_def TrimRightSpace_def trim_front.simps
      space_encodings_def HasPrefix_def)

text \<open>The first argument that is not blank, or the empty string.\<close>

fun includesText :: "string list \<Rightarrow> string" where
  "includesText [] = []"
| "includesText (v # vs) = (if TrimSpace v \<noteq> [] then v else includesText vs)"

section \<open>Quoting\<close>

text \<open>
  \<^verbatim>\<open>fmt\<close>'s verb \<^verbatim>\<open>%q\<close>, used in error texts.  Of the runes beyond ASCII, the C1 controls,
  the spaces, the soft hyphen and the invisible marks U+200B to U+200F, U+2028 to U+202F and
  U+2060 to U+206F are escaped and the others taken as printable.
\<close>

definition hex_digit :: "nat \<Rightarrow> char" where
  "hex_digit d = ''0123456789abcdef'' ! (d mod 16)"

definition printable_rune :: "nat \<Rightarrow> bool" where
  "printable_rune r \<longleftrightarrow>
     (32 \<le> r \<and> r < 127) \<or>
     (160 < r \<and> r \<noteq> 173 \<and> r \<noteq> 5760 \<and> \<not> (8192 \<le> r \<and> r \<le> 8207) \<and> \<not> (8232 \<le> r \<and> r \<le> 8239)
      \<and> \<not> (8287 \<le> r \<and> r \<le> 8303) \<and> r \<noteq> 12288 \<and> r \<noteq> 65279)"

definition quote_rune :: "nat \<Rightarrow> string" where
  "quote_rune r =
     (if r = 34 \<or> r = 92 then [CHR 0x5C, char_of r]
      else if printable_rune r then encode_rune r
      else if r = 7 then [CHR 0x5C, CHR ''a''] else if r = 8 then [CHR 0x5C, CHR ''b'']
      else if r = 12 then [CHR 0x5C, CHR ''f''] else if r = 10 then [CHR 0x5C, CHR ''n'']
      else if r = 13 then [CHR 0x5C, CHR ''r''] else if r = 9 then [CHR 0x5C, CHR ''t'']
      else if r = 11 then [CHR 0x5C, CHR ''v'']
      else if r < 32 \<or> r = 127 then [CHR 0x5C, CHR ''x'', hex_digit (r div 16), hex_digit r]
      else if r < 65536 then
        [CHR 0x5C, CHR ''u'', hex_digit (r div 4096), hex_digit (r div 256), hex_digit (r div 16), hex_digit r]
      else [CHR 0x5C, CHR ''U'', CHR ''0'', CHR ''0'', hex_digit (r div 1048576), hex_digit (r div 65536),
            hex_digit (r div 4096), hex_digit (r div 256), hex_digit (r div 16), hex_digit r])"

function quote_body :: "string \<Rightarrow> string" where
  "quote_body [] = []"
| "quote_body (c # s) =
     (case decode_rune (c # s) of (r, k) \<Rightarrow>
        (if k = 1 \<and> 128 \<le> byte c then [CHR 0x5C, CHR ''x'', hex_digit (byte c div 16), hex_digit (byte c)]
         else quote_rune r) @ quote_body (drop (k - 1) s))"
  by pat_completeness auto
termination
  by (relation "measure length") auto

definition Quote :: "string \<Rightarrow> string" where
  "Quote s = [CHR 0x22] @ quote_body s @ [CHR 0x22]"

lemma Quote_example: "Quote ''a\"b'' = [CHR 0x22, CHR ''a'', CHR 0x5C, CHR 0x22, CHR ''b'', CHR 0x22]"
  by (simp add: Quote_def quote_rune_def printable_rune_def encode_rune_def char_of_def bit_iff_odd)

end
