(* ===== verification/Go_Encoding.thy ===== *)
theory Go_Encoding
  imports Go_Strings
begin

text \<open>
  Text encodings of Go's standard library the panel relies on: decimal integers
  (\<^verbatim>\<open>strconv\<close>), base64 (\<^verbatim>\<open>encoding/base64\<close>) and percent escaping
  (\<^verbatim>\<open>net/url\<close>), each with the decoder that inverts it.
\<close>

section \<open>Decimal integers\<close>

definition int64_min :: int where
  "int64_min = - (2 ^ 63)"

definition int64_max :: int where
  "int64_max = 2 ^ 63 - 1"

definition is_int64 :: "int \<Rightarrow> bool" where
  "is_int64 n \<longleftrightarrow> int64_min \<le> n \<and> n \<le> int64_max"

fun dec :: "nat \<Rightarrow> string" where
  "dec n = (if n < 10 then [char_of (48 + n)] else dec (n div 10) @ [char_of (48 + n mod 10)])"

declare dec.simps [simp del]

text \<open>\<^verbatim>\<open>strconv.Itoa\<close>, \<^verbatim>\<open>strconv.FormatInt(n, 10)\<close> and \<^verbatim>\<open>%d\<close>.\<close>

definition Itoa :: "int \<Rightarrow> string" where
  "Itoa n = (if n < 0 then CHR ''-'' # dec (nat (- n)) else dec (nat n))"

fun undec :: "nat \<Rightarrow> string \<Rightarrow> nat option" where
  "undec acc [] = Some acc"
| "undec acc (c # s) =
     (if 48 \<le> byte c \<and> byte c \<le> 57 then undec (acc * 10 + (byte c - 48)) s else None)"

text \<open>\<^verbatim>\<open>strconv.Atoi\<close>: an optional sign, at least one digit, a value that fits 64 bits.\<close>

definition split_sign :: "string \<Rightarrow> bool \<times> string" where
  "split_sign s =
     (case s of
        c # t \<Rightarrow> if c = CHR ''-'' then (True, t) else if c = CHR ''+'' then (False, t) else (False, s)
      | [] \<Rightarrow> (False, []))"

definition Atoi :: "string \<Rightarrow> int option" where
  "Atoi s =
     (case split_sign s of (neg, t) \<Rightarrow>
        if t = [] then None
        else (case undec 0 t of
                None \<Rightarrow> None
              | Some n \<Rightarrow> (let v = (if neg then - int n else int n)
                          in if is_int64 v then Some v else None)))"

lemma dec_digit [simp]: "n < 10 \<Longrightarrow> dec n = [char_of (48 + n)]"
  by (simp add: dec.simps)

lemma dec_nonempty [simp]: "dec n \<noteq> []"
  by (subst dec.simps) simp

lemma undec_append: "undec acc (s @ t) = (case undec acc s of None \<Rightarrow> None | Some m \<Rightarrow> undec m t)"
  by (induction acc s rule: undec.induct) auto

lemma undec_dec_aux: "undec 0 (dec n) = Some n"
proof (induction n rule: dec.induct)
  case (1 n)
  show ?case
  proof (cases "n < 10")
    case True
    then show ?thesis by simp
  next
    case False
    with "1.IH" have "undec 0 (dec (n div 10)) = Some (n div 10)" by simp
    moreover have "n div 10 * 10 + n mod 10 = n" by simp
    moreover have "byte (char_of (48 + n mod 10)) = 48 + n mod 10"
      by (rule byte_char_of) simp
    ultimately show ?thesis using False by (simp add: dec.simps [of n] undec_append)
  qed
qed

lemma dec_bytes: "c \<in> set (dec n) \<Longrightarrow> 48 \<le> byte c \<and> byte c \<le> 57"
proof (induction n rule: dec.induct)
  case (1 n)
  have "byte (char_of (48 + n mod 10)) = 48 + n mod 10"
    by (rule byte_char_of) simp
  then show ?case
    using 1 by (cases "n < 10") (auto simp: dec.simps [of n])
qed

lemma dec_hd: "dec n = c # s \<Longrightarrow> c \<noteq> CHR ''-'' \<and> c \<noteq> CHR ''+''"
  using dec_bytes [of c n] by auto

lemma Atoi_Itoa: "is_int64 n \<Longrightarrow> Atoi (Itoa n) = Some n"
proof (cases "n < 0")
  case True
  assume "is_int64 n"
  with True show ?thesis
    by (simp add: Atoi_def Itoa_def split_sign_def undec_dec_aux)
next
  case False
  assume ok: "is_int64 n"
  obtain c s where cs: "dec (nat n) = c # s"
    by (cases "dec (nat n)") auto
  with dec_hd have "split_sign (dec (nat n)) = (False, dec (nat n))"
    by (fastforce simp: split_sign_def)
  with False ok cs show ?thesis
    by (simp add: Atoi_def Itoa_def undec_dec_aux flip: cs)
qed

lemma Itoa_inj: "Itoa m = Itoa n \<Longrightarrow> is_int64 m \<Longrightarrow> is_int64 n \<Longrightarrow> m = n"
  by (metis Atoi_Itoa option.inject)

section \<open>Base64\<close>

text \<open>
  \<^verbatim>\<open>base64.StdEncoding\<close> and \<^verbatim>\<open>base64.URLEncoding\<close> differ in the characters for the
  values 62 and 63 only; both pad to a multiple of four with \<^verbatim>\<open>=\<close>.
\<close>

type_synonym alphabet = "char \<times> char"

definition std_alphabet :: alphabet where
  "std_alphabet = (CHR ''+'', CHR ''/'')"

definition url_alphabet :: alphabet where
  "url_alphabet = (CHR ''-'', CHR ''_'')"

definition char64 :: "alphabet \<Rightarrow> nat \<Rightarrow> char" where
  "char64 al n =
     (if n < 26 then char_of (65 + n) else if n < 52 then char_of (71 + n)
      else if n < 62 then char_of (n - 4) else if n = 62 then fst al else snd al)"

definition value64 :: "alphabet \<Rightarrow> char \<Rightarrow> nat option" where
  "value64 al c =
     (if 65 \<le> byte c \<and> byte c \<le> 90 then Some (byte c - 65)
      else if 97 \<le> byte c \<and> byte c \<le> 122 then Some (byte c - 71)
      else if 48 \<le> byte c \<and> byte c \<le> 57 then Some (byte c + 4)
      else if c = fst al then Some 62 else if c = snd al then Some 63 else None)"

abbreviation pad64 :: char where
  "pad64 \<equiv> CHR ''=''"

fun EncodeToString :: "alphabet \<Rightarrow> string \<Rightarrow> string" where
  "EncodeToString al [] = []"
| "EncodeToString al [a] =
     [char64 al (byte a div 4), char64 al (byte a mod 4 * 16), pad64, pad64]"
| "EncodeToString al [a, b] =
     [char64 al (byte a div 4), char64 al (byte a mod 4 * 16 + byte b div 16),
      char64 al (byte b mod 16 * 4), pad64]"
| "EncodeToString al (a # b # c # s) =
     [char64 al (byte a div 4), char64 al (byte a mod 4 * 16 + byte b div 16),
      char64 al (byte b mod 16 * 4 + byte c div 64), char64 al (byte c mod 64)]
     @ EncodeToString al s"

text \<open>The same without the padding, as the code gets it with \<^verbatim>\<open>strings.TrimRight(s, "=")\<close>.\<close>

fun encode_raw :: "alphabet \<Rightarrow> string \<Rightarrow> string" where
  "encode_raw al [] = []"
| "encode_raw al [a] = [char64 al (byte a div 4), char64 al (byte a mod 4 * 16)]"
| "encode_raw al [a, b] =
     [char64 al (byte a div 4), char64 al (byte a mod 4 * 16 + byte b div 16),
      char64 al (byte b mod 16 * 4)]"
| "encode_raw al (a # b # c # s) =
     [char64 al (byte a div 4), char64 al (byte a mod 4 * 16 + byte b div 16),
      char64 al (byte b mod 16 * 4 + byte c div 64), char64 al (byte c mod 64)]
     @ encode_raw al s"

text \<open>A decoder for the unpadded text, on the values of its characters.\<close>

fun decode_values :: "nat list \<Rightarrow> string" where
  "decode_values (p # q # r # t # vs) =
     char_of (p * 4 + q div 16) # char_of (q mod 16 * 16 + r div 4)
     # char_of (r mod 4 * 64 + t) # decode_values vs"
| "decode_values [p, q, r] = [char_of (p * 4 + q div 16), char_of (q mod 16 * 16 + r div 4)]"
| "decode_values [p, q] = [char_of (p * 4 + q div 16)]"
| "decode_values _ = []"

definition decode_raw :: "alphabet \<Rightarrow> string \<Rightarrow> string" where
  "decode_raw al s = decode_values (map (\<lambda>c. the (value64 al c)) s)"

definition good_alphabet :: "alphabet \<Rightarrow> bool" where
  "good_alphabet al \<longleftrightarrow> al = std_alphabet \<or> al = url_alphabet"

lemma good_alphabet_simps [simp]: "good_alphabet std_alphabet" "good_alphabet url_alphabet"
  by (simp_all add: good_alphabet_def)

lemma value64_char64 [simp]:
  "good_alphabet al \<Longrightarrow> n < 64 \<Longrightarrow> value64 al (char64 al n) = Some n"
  by (auto simp: good_alphabet_def value64_def char64_def std_alphabet_def url_alphabet_def)

lemma char64_not_pad [simp]: "good_alphabet al \<Longrightarrow> n < 64 \<Longrightarrow> char64 al n \<noteq> pad64"
proof
  assume "good_alphabet al" and "n < 64" and "char64 al n = pad64"
  then have "value64 al pad64 = Some n" by (metis value64_char64)
  with \<open>good_alphabet al\<close> show False
    by (auto simp: good_alphabet_def value64_def std_alphabet_def url_alphabet_def)
qed

lemma byte_lt [simp]: "byte c < 256"
  by (simp add: of_char_def horner_sum_of_bool_2_less [where 'a = nat, of "[_, _, _, _, _, _, _, _]", simplified])

lemma byte_div_lt [simp]: "byte c div 4 < 64" "byte c div 16 < 16" "byte c div 64 < 4"
  using byte_lt [of c] by linarith+

lemma sextet_lt [simp]:
  "byte a mod 4 * 16 < 64" "byte a mod 4 * 16 + byte b div 16 < 64"
  "byte b mod 16 * 4 < 64" "byte b mod 16 * 4 + byte c div 64 < 64"
proof -
  have "byte a mod 4 \<le> 3" "byte b mod 16 \<le> 15" "byte b div 16 \<le> 15" "byte c div 64 \<le> 3"
    using byte_div_lt [of b] byte_div_lt [of c] by linarith+
  then show "byte a mod 4 * 16 < 64" "byte a mod 4 * 16 + byte b div 16 < 64"
    "byte b mod 16 * 4 < 64" "byte b mod 16 * 4 + byte c div 64 < 64"
    by linarith+
qed

lemma join_first: "byte a div 4 * 4 + (byte a mod 4 * 16 + k) div 16 = byte a" if "k < 16" for k
  using that by simp

lemma join_second: "(byte a mod 4 * 16 + byte b div 16) mod 16 * 16 + (byte b mod 16 * 4 + k) div 4 = byte b"
  if "k < 4" for k
proof -
  have "(byte a mod 4 * 16 + byte b div 16) mod 16 = byte b div 16"
    using byte_div_lt(2) [of b] by simp
  moreover have "(byte b mod 16 * 4 + k) div 4 = byte b mod 16" using that by simp
  ultimately show ?thesis by simp
qed

lemma join_third: "(byte b mod 16 * 4 + byte c div 64) mod 4 * 64 + byte c mod 64 = byte c"
proof -
  have "(byte b mod 16 * 4 + byte c div 64) mod 4 = byte c div 64"
    using byte_div_lt(3) [of c] by simp
  then show ?thesis by simp
qed

lemma decode_encode_raw: "good_alphabet al \<Longrightarrow> decode_raw al (encode_raw al s) = s"
proof (induction al s rule: encode_raw.induct)
  case (2 al a)
  then show ?case using join_first [of 0 a] by (simp add: decode_raw_def)
next
  case (3 al a b)
  then show ?case
    using join_first [of "byte b div 16" a] join_second [of 0 a b] by (simp add: decode_raw_def)
next
  case (4 al a b c s)
  then show ?case
    using join_first [of "byte b div 16" a] join_second [of "byte c div 64" a b] join_third [of b c]
    by (simp add: decode_raw_def)
qed (simp add: decode_raw_def)

lemma encode_raw_inj: "good_alphabet al \<Longrightarrow> encode_raw al s = encode_raw al t \<Longrightarrow> s = t"
  by (metis decode_encode_raw)

lemma length_encode_raw: "length (encode_raw al s) = (4 * length s + 2) div 3"
  by (induction al s rule: encode_raw.induct) auto

lemma encode_raw_chars:
  "c \<in> set (encode_raw al s) \<Longrightarrow> \<exists>n < 64. c = char64 al n"
proof (induction al s rule: encode_raw.induct)
  case (4 al a b x s)
  have m: "byte x mod 64 < 64" by simp
  from "4.prems" consider "c = char64 al (byte a div 4)"
    | "c = char64 al (byte a mod 4 * 16 + byte b div 16)"
    | "c = char64 al (byte b mod 16 * 4 + byte x div 64)"
    | "c = char64 al (byte x mod 64)" | "c \<in> set (encode_raw al s)" by auto
  then show ?case
    by cases (use m "4.IH" byte_div_lt sextet_lt in blast)+
qed (auto intro: byte_div_lt sextet_lt)

lemma EncodeToString_pad:
  "\<exists>k. EncodeToString al s = encode_raw al s @ replicate k pad64"
proof (induction al s rule: EncodeToString.induct)
  case (2 al a)
  have "EncodeToString al [a] = encode_raw al [a] @ replicate 2 pad64"
    by (simp add: numeral_2_eq_2)
  then show ?case by blast
next
  case (3 al a b)
  have "EncodeToString al [a, b] = encode_raw al [a, b] @ replicate 1 pad64" by simp
  then show ?case by blast
qed auto

lemma TrimRight_EncodeToString:
  assumes "good_alphabet al"
  shows "TrimRightByte (EncodeToString al s) pad64 = encode_raw al s"
proof -
  obtain k where k: "EncodeToString al s = encode_raw al s @ replicate k pad64"
    using EncodeToString_pad by blast
  have "pad64 \<notin> set (encode_raw al s)"
  proof
    assume "pad64 \<in> set (encode_raw al s)"
    then obtain n where "n < 64" and "pad64 = char64 al n" using encode_raw_chars by blast
    with assms show False using char64_not_pad by metis
  qed
  then have "dropWhile (\<lambda>x. x = pad64) (rev (encode_raw al s)) = rev (encode_raw al s)"
    by (subst dropWhile_eq_self_iff) (metis hd_in_set set_rev)
  moreover have "dropWhile (\<lambda>x. x = pad64) (replicate k pad64 @ t) = dropWhile (\<lambda>x. x = pad64) t" for t
    by (induction k) auto
  ultimately show ?thesis by (simp add: TrimRightByte_def k)
qed

lemma EncodeToString_inj:
  "good_alphabet al \<Longrightarrow> EncodeToString al s = EncodeToString al t \<Longrightarrow> s = t"
  by (metis TrimRight_EncodeToString encode_raw_inj)

end
