(* ===== verification/Models.thy ===== *)
theory Models
  imports Go_Encoding
begin

text \<open>
  The data of the panel: the structs of internal/nodes/models.go, internal/users/models.go,
  internal/users/assignments.go and internal/users/repository.go, and the constants.  A field
  keeps its Go name in snake case behind a prefix for its struct; a pointer is an option, a
  \<^verbatim>\<open>time.Time\<close> an integer number of nanoseconds since the Unix epoch, an \<^verbatim>\<open>int64\<close>
  an integer whose range is stated where it matters.
\<close>

section \<open>Nodes\<close>

definition SetupStatePlanned :: string where "SetupStatePlanned = ''planned''"
definition SetupStateConnected :: string where "SetupStateConnected = ''connected''"
definition SetupStateUnreachable :: string where "SetupStateUnreachable = ''unreachable''"
definition SetupStateDisabled :: string where "SetupStateDisabled = ''disabled''"
definition NodeModePlanned :: string where "NodeModePlanned = ''planned''"
definition NodeModeAdopt :: string where "NodeModeAdopt = ''adopt''"

lemmas node_constants =
  SetupStatePlanned_def SetupStateConnected_def SetupStateUnreachable_def SetupStateDisabled_def
  NodeModePlanned_def NodeModeAdopt_def

record MieruProtocolSettings =
  mi_ports :: "string list"
  mi_protocol :: string
  mi_mtu :: int
  mi_multiplexing :: string
  mi_handshake_mode :: string
  mi_traffic_pattern :: string
  mi_profile :: string

record NaiveProtocolSettings =
  na_port :: int

record ProtocolSettings =
  ps_mieru :: MieruProtocolSettings
  ps_naive :: NaiveProtocolSettings

record Node =
  n_id :: string
  n_node_id :: string
  n_name :: string
  n_domain :: string
  n_api_url :: string
  n_protocol_type :: string
  n_node_secret :: string
  n_enabled :: bool
  n_setup_state :: string
  n_protocol_settings :: ProtocolSettings
  n_desired_config_version :: int
  n_last_applied_version :: int
  n_last_seen_at :: "time option"
  n_last_status :: "string option"
  n_last_error :: "string option"
  n_last_sync_at :: "time option"
  n_created_at :: time
  n_updated_at :: time

record CreateNodeInput =
  in_mode :: string
  in_node_id :: string
  in_name :: string
  in_domain :: string
  in_api_url :: string
  in_protocol_type :: string
  in_node_secret :: string
  in_enabled :: bool
  in_protocol_settings :: ProtocolSettings

type_synonym UpdateNodeInput = CreateNodeInput

record SyncEvent =
  ev_id :: string
  ev_node_id :: string
  ev_config_version :: int
  ev_status :: string
  ev_http_status :: "int option"
  ev_request_json :: "string option"
  ev_response_json :: "string option"
  ev_error :: "string option"
  ev_created_at :: time

record AgentUser =
  au_id :: string
  au_username :: string
  au_password :: string
  au_enabled :: bool
  au_expires_at :: "time option"
  au_quota_mb :: int
  au_protocols :: "string list"
  au_meta :: "(string \<times> string) list"

record SyncPayload =
  sp_node_id :: string
  sp_config_version :: int
  sp_protocol_type :: string
  sp_users :: "AgentUser list"

record AgentResponse =
  ar_ok :: bool
  ar_node_id :: string
  ar_current_version :: int
  ar_applied_version :: int
  ar_received_version :: int
  ar_status :: string
  ar_changed :: bool
  ar_message :: string
  ar_error :: string

record AgentStatusResponse =
  as_ok :: bool
  as_node_id :: string
  as_protocol_type :: string
  as_current_version :: int
  as_applied_version :: int
  as_last_error :: "string option"
  as_users_cached :: int
  as_message :: string
  as_error :: string

text \<open>The zero values the code returns beside an error.\<close>

definition zero_AgentResponse :: AgentResponse where
  "zero_AgentResponse =
     \<lparr>ar_ok = False, ar_node_id = [], ar_current_version = 0, ar_applied_version = 0,
      ar_received_version = 0, ar_status = [], ar_changed = False, ar_message = [],
      ar_error = []\<rparr>"

definition zero_MieruProtocolSettings :: MieruProtocolSettings where
  "zero_MieruProtocolSettings =
     \<lparr>mi_ports = [], mi_protocol = [], mi_mtu = 0, mi_multiplexing = [], mi_handshake_mode = [],
      mi_traffic_pattern = [], mi_profile = []\<rparr>"

definition zero_ProtocolSettings :: ProtocolSettings where
  "zero_ProtocolSettings =
     \<lparr>ps_mieru = zero_MieruProtocolSettings, ps_naive = \<lparr>na_port = 0\<rparr>\<rparr>"

text \<open>The telemetry an agent reports (internal/nodes/telemetry\_models.go).\<close>

record TelemetryCapabilities =
  tc_client_ip :: bool
  tc_per_user_activity :: bool
  tc_traffic_counters :: bool
  tc_first_seen :: bool
  tc_last_seen :: bool

record TelemetrySession =
  ts_user_id :: string
  ts_protocol_username :: string
  ts_user_present_in_cache :: bool
  ts_protocol :: string
  ts_client_ip :: "string option"
  ts_first_seen_at :: "time option"
  ts_last_seen_at :: "time option"
  ts_upload_bytes :: int
  ts_download_bytes :: int
  ts_active :: bool
  ts_ip_observed :: bool
  ts_traffic_observed :: bool
  ts_source :: string
  ts_traffic_scope :: string

record TelemetryResponse =
  tr_ok :: bool
  tr_node_id :: string
  tr_protocol_type :: string
  tr_generated_at :: "time option"
  tr_collector_status :: string
  tr_session_ttl_seconds :: int
  tr_history_ttl_seconds :: int
  tr_last_successful_collection_at :: "time option"
  tr_capabilities :: TelemetryCapabilities
  tr_warnings :: "string list"
  tr_sessions :: "TelemetrySession list"

section \<open>Users\<close>

record User =
  u_id :: string
  u_username :: string
  u_display_name :: "string option"
  u_enabled :: bool
  u_expires_at :: "time option"
  u_expiry_synced_at :: "time option"
  u_quota_mb :: int
  u_subscription_token :: string
  u_notes :: "string option"
  u_created_at :: time
  u_updated_at :: time

record CreateUserInput =
  iu_username :: string
  iu_display_name :: "string option"
  iu_enabled :: bool
  iu_expires_at :: "time option"
  iu_quota_mb :: int
  iu_notes :: "string option"
  iu_node_ids :: "string list"

type_synonym UpdateUserInput = CreateUserInput

record Access =
  a_id :: string
  a_user_id :: string
  a_node_id :: string
  a_protocol_type :: string
  a_protocol_username :: string
  a_protocol_password :: string
  a_enabled :: bool
  a_created_at :: time
  a_updated_at :: time

record AccessWithUser =
  wu_access :: Access
  wu_username :: string
  wu_user_enabled :: bool
  wu_user_expires_at :: "time option"
  wu_user_quota_mb :: int

record AccessWithNode =
  wn_access :: Access
  wn_agent_node_id :: string
  wn_node_name :: string
  wn_node_domain :: string
  wn_node_api_url :: string
  wn_node_protocol_type :: string
  wn_node_protocol_settings :: ProtocolSettings

record AssignmentCredential =
  ac_node_id :: string
  ac_protocol_username :: string
  ac_protocol_password :: string

text \<open>\<^verbatim>\<open>users.IsExpired\<close> at a given reading of the clock.\<close>

definition IsExpired :: "time \<Rightarrow> time option \<Rightarrow> bool" where
  "IsExpired now expires_at = (case expires_at of None \<Rightarrow> False | Some x \<Rightarrow> \<not> now < x)"

lemma IsExpired_simps [simp]: "IsExpired now None = False" "IsExpired now (Some x) \<longleftrightarrow> x \<le> now"
  by (auto simp: IsExpired_def)

end
