(* ===== verification/Schema.thy ===== *)
theory Schema
  imports Models
begin

text \<open>
  The database as the migrations of internal/db/migrations.go define it: four tables as lists of
  rows, and the statements that change them with their primary keys, unique constraints,
  check constraints, foreign keys with \<^verbatim>\<open>on delete cascade\<close>, and triggers.  A statement
  either fails with the error PostgreSQL reports and changes nothing, or gives its result and
  the new tables.

  The JSON columns are held as the values their text stands for.  The \<^verbatim>\<open>current\<close> argument
  of a statement is its \<^verbatim>\<open>now()\<close>, the \<^verbatim>\<open>fresh\<close> argument its \<^verbatim>\<open>gen_random_uuid()\<close>;
  nothing is assumed of either: a generated id that is taken is a primary-key violation.
\<close>

record db =
  t_nodes :: "Node list"
  t_users :: "User list"
  t_access :: "Access list"
  t_events :: "SyncEvent list"

definition empty_db :: db where
  "empty_db = \<lparr>t_nodes = [], t_users = [], t_access = [], t_events = []\<rparr>"

type_synonym 'a stmt = "db \<Rightarrow> goerr + ('a \<times> db)"

section \<open>Errors of the server\<close>

definition unique_violation :: "string \<Rightarrow> goerr" where
  "unique_violation con =
     PgError (''duplicate key value violates unique constraint \"'' @ con @ ''\"'') ''23505''"

definition check_violation :: "string \<Rightarrow> string \<Rightarrow> goerr" where
  "check_violation tab con =
     PgError (''new row for relation \"'' @ tab @ ''\" violates check constraint \"'' @ con @ ''\"'') ''23514''"

definition foreign_key_violation :: "string \<Rightarrow> string \<Rightarrow> goerr" where
  "foreign_key_violation tab con =
     PgError (''insert or update on table \"'' @ tab @ ''\" violates foreign key constraint \"'' @ con @ ''\"'') ''23503''"

definition raise_exception :: "string \<Rightarrow> goerr" where
  "raise_exception msg = PgError msg ''P0001''"

definition bigint_out_of_range :: goerr where
  "bigint_out_of_range = PgError ''bigint out of range'' ''22003''"

section \<open>Check constraints\<close>

definition valid_protocol :: "string \<Rightarrow> bool" where
  "valid_protocol p \<longleftrightarrow> p = ''naive'' \<or> p = ''mieru''"

definition valid_setup_state :: "string \<Rightarrow> bool" where
  "valid_setup_state s \<longleftrightarrow>
     s = SetupStatePlanned \<or> s = SetupStateConnected \<or> s = SetupStateUnreachable
     \<or> s = SetupStateDisabled"

lemma valid_setup_state_simps [simp]:
  "valid_setup_state SetupStatePlanned" "valid_setup_state SetupStateConnected"
  "valid_setup_state SetupStateUnreachable" "valid_setup_state SetupStateDisabled"
  by (simp_all add: valid_setup_state_def)

section \<open>Table nodes\<close>

definition insert_node :: "Node \<Rightarrow> Node stmt" where
  "insert_node new d =
     (if \<not> valid_protocol (n_protocol_type new)
      then Inl (check_violation ''nodes'' ''nodes_protocol_type_check'')
      else if \<not> valid_setup_state (n_setup_state new)
      then Inl (check_violation ''nodes'' ''nodes_setup_state_check'')
      else if n_id new \<in> n_id ` set (t_nodes d) then Inl (unique_violation ''nodes_pkey'')
      else if n_node_id new \<in> n_node_id ` set (t_nodes d)
      then Inl (unique_violation ''nodes_node_id_key'')
      else Inr (new, d\<lparr>t_nodes := t_nodes d @ [new]\<rparr>))"

text \<open>
  \<^verbatim>\<open>update nodes set ... where id = $1\<close>: the before-update triggers run first
  (\<^verbatim>\<open>node_protocol_change_guard\<close>, then \<^verbatim>\<open>nodes_touch_updated_at\<close>), then the
  constraints.  The result is the updated row, or \<open>None\<close> when no row has the id.
\<close>

definition update_node :: "time \<Rightarrow> string \<Rightarrow> (Node \<Rightarrow> Node) \<Rightarrow> Node option stmt" where
  "update_node current key f d =
     (case find (\<lambda>n. n_id n = key) (t_nodes d) of
        None \<Rightarrow> Inr (None, d)
      | Some old \<Rightarrow>
          (let new = (f old)\<lparr>n_updated_at := current\<rparr> in
           if n_protocol_type old \<noteq> n_protocol_type new
              \<and> n_id old \<in> a_node_id ` set (t_access d)
           then Inl (raise_exception ''cannot change node protocol_type while user assignments exist'')
           else if \<not> valid_protocol (n_protocol_type new)
           then Inl (check_violation ''nodes'' ''nodes_protocol_type_check'')
           else if \<not> valid_setup_state (n_setup_state new)
           then Inl (check_violation ''nodes'' ''nodes_setup_state_check'')
           else if list_ex (\<lambda>n. n_id n \<noteq> key \<and> n_node_id n = n_node_id new) (t_nodes d)
           then Inl (unique_violation ''nodes_node_id_key'')
           else Inr (Some new,
                     d\<lparr>t_nodes := map (\<lambda>n. if n_id n = key then new else n) (t_nodes d)\<rparr>)))"

definition delete_node :: "string \<Rightarrow> unit stmt" where
  "delete_node key d =
     Inr ((), d\<lparr>t_nodes := filter (\<lambda>n. n_id n \<noteq> key) (t_nodes d),
               t_access := filter (\<lambda>a. a_node_id a \<noteq> key) (t_access d),
               t_events := filter (\<lambda>ev. ev_node_id ev \<noteq> key) (t_events d)\<rparr>)"

section \<open>Table users\<close>

definition insert_user :: "User \<Rightarrow> User stmt" where
  "insert_user new d =
     (if u_id new \<in> u_id ` set (t_users d) then Inl (unique_violation ''users_pkey'')
      else if u_username new \<in> u_username ` set (t_users d)
      then Inl (unique_violation ''users_username_key'')
      else if u_subscription_token new \<in> u_subscription_token ` set (t_users d)
      then Inl (unique_violation ''users_subscription_token_key'')
      else Inr (new, d\<lparr>t_users := t_users d @ [new]\<rparr>))"

text \<open>No statement of the panel changes a user's id or token, so only the name is checked.\<close>

definition update_user :: "time \<Rightarrow> string \<Rightarrow> (User \<Rightarrow> User) \<Rightarrow> User option stmt" where
  "update_user current key f d =
     (case find (\<lambda>u. u_id u = key) (t_users d) of
        None \<Rightarrow> Inr (None, d)
      | Some old \<Rightarrow>
          (let new = (f old)\<lparr>u_updated_at := current\<rparr> in
           if list_ex (\<lambda>u. u_id u \<noteq> key \<and> u_username u = u_username new) (t_users d)
           then Inl (unique_violation ''users_username_key'')
           else Inr (Some new,
                     d\<lparr>t_users := map (\<lambda>u. if u_id u = key then new else u) (t_users d)\<rparr>)))"

definition delete_user :: "string \<Rightarrow> unit stmt" where
  "delete_user key d =
     Inr ((), d\<lparr>t_users := filter (\<lambda>u. u_id u \<noteq> key) (t_users d),
               t_access := filter (\<lambda>a. a_user_id a \<noteq> key) (t_access d)\<rparr>)"

section \<open>Table user\_node\_access\<close>

text \<open>The trigger function \<^verbatim>\<open>enforce_access_protocol\<close>, before insert and before update.\<close>

definition enforce_access_protocol :: "Access \<Rightarrow> db \<Rightarrow> goerr option" where
  "enforce_access_protocol new d =
     (case find (\<lambda>n. n_id n = a_node_id new) (t_nodes d) of
        None \<Rightarrow> Some (raise_exception ''node not found'')
      | Some n \<Rightarrow>
          (if a_protocol_type new \<noteq> n_protocol_type n
           then Some (raise_exception ''access protocol_type must match node protocol_type'')
           else None))"

text \<open>
  \<^verbatim>\<open>insert into user_node_access ... on conflict(user_id, node_id) do update set protocol_type,
  protocol_username, protocol_password, enabled = true\<close>.  The insert trigger runs before the
  conflict is looked for; with a conflict the existing row is updated and its update triggers
  run; without one the primary key and the foreign key on the user are checked (the trigger
  has already found the node).
\<close>

definition upsert_access :: "time \<Rightarrow> Access \<Rightarrow> unit stmt" where
  "upsert_access current new d =
     (case enforce_access_protocol new d of
        Some err \<Rightarrow> Inl err
      | None \<Rightarrow>
          (if \<not> valid_protocol (a_protocol_type new)
           then Inl (check_violation ''user_node_access'' ''user_node_access_protocol_type_check'')
           else case find (\<lambda>a. a_user_id a = a_user_id new \<and> a_node_id a = a_node_id new) (t_access d) of
             Some old \<Rightarrow>
               (let upd = old\<lparr>a_protocol_type := a_protocol_type new,
                              a_protocol_username := a_protocol_username new,
                              a_protocol_password := a_protocol_password new,
                              a_enabled := True, a_updated_at := current\<rparr>
                in Inr ((), d\<lparr>t_access := map (\<lambda>a. if a_id a = a_id old then upd else a) (t_access d)\<rparr>))
           | None \<Rightarrow>
               (if a_id new \<in> a_id ` set (t_access d)
                then Inl (unique_violation ''user_node_access_pkey'')
                else if a_user_id new \<notin> u_id ` set (t_users d)
                then Inl (foreign_key_violation ''user_node_access'' ''user_node_access_user_id_fkey'')
                else Inr ((), d\<lparr>t_access := t_access d @ [new]\<rparr>))))"

definition delete_access :: "string \<Rightarrow> string \<Rightarrow> unit stmt" where
  "delete_access user_id node_id d =
     Inr ((), d\<lparr>t_access :=
       filter (\<lambda>a. \<not> (a_user_id a = user_id \<and> a_node_id a = node_id)) (t_access d)\<rparr>)"

text \<open>
  \<^verbatim>\<open>update user_node_access set enabled=$3 where user_id=$1 and id=$2\<close>, with the update
  trigger \<^verbatim>\<open>access_protocol_match\<close>.
\<close>

definition set_access_enabled :: "time \<Rightarrow> string \<Rightarrow> string \<Rightarrow> bool \<Rightarrow> unit stmt" where
  "set_access_enabled current user_id access_id enabled d =
     (case find (\<lambda>a. a_user_id a = user_id \<and> a_id a = access_id) (t_access d) of
        None \<Rightarrow> Inr ((), d)
      | Some old \<Rightarrow>
          (let new = old\<lparr>a_enabled := enabled, a_updated_at := current\<rparr> in
           case enforce_access_protocol new d of
             Some err \<Rightarrow> Inl err
           | None \<Rightarrow>
               Inr ((), d\<lparr>t_access := map (\<lambda>a. if a_id a = a_id old then new else a) (t_access d)\<rparr>)))"

section \<open>Table node\_sync\_events\<close>

definition insert_event :: "SyncEvent \<Rightarrow> unit stmt" where
  "insert_event new d =
     (if ev_id new \<in> ev_id ` set (t_events d) then Inl (unique_violation ''node_sync_events_pkey'')
      else if ev_node_id new \<notin> n_id ` set (t_nodes d)
      then Inl (foreign_key_violation ''node_sync_events'' ''node_sync_events_node_id_fkey'')
      else Inr ((), d\<lparr>t_events := t_events d @ [new]\<rparr>))"

section \<open>The integrity of the tables\<close>

text \<open>
  What the keys, constraints and triggers are there to guarantee.  The last two conjuncts of
  \<open>access_ok\<close> are the invariant the README states: an assignment has the protocol of its node.
\<close>

definition access_ok :: "db \<Rightarrow> Access \<Rightarrow> bool" where
  "access_ok d a \<longleftrightarrow>
     a_user_id a \<in> u_id ` set (t_users d)
     \<and> (\<exists>n \<in> set (t_nodes d). n_id n = a_node_id a \<and> n_protocol_type n = a_protocol_type a)"

definition node_ok :: "Node \<Rightarrow> bool" where
  "node_ok n \<longleftrightarrow> valid_protocol (n_protocol_type n) \<and> valid_setup_state (n_setup_state n)"

definition db_ok :: "db \<Rightarrow> bool" where
  "db_ok d \<longleftrightarrow>
     distinct (map n_id (t_nodes d)) \<and> distinct (map n_node_id (t_nodes d))
     \<and> (\<forall>n \<in> set (t_nodes d). node_ok n)
     \<and> distinct (map u_id (t_users d)) \<and> distinct (map u_username (t_users d))
     \<and> distinct (map u_subscription_token (t_users d))
     \<and> distinct (map a_id (t_access d))
     \<and> distinct (map (\<lambda>a. (a_user_id a, a_node_id a)) (t_access d))
     \<and> (\<forall>a \<in> set (t_access d). access_ok d a)
     \<and> distinct (map ev_id (t_events d))
     \<and> ev_node_id ` set (t_events d) \<subseteq> n_id ` set (t_nodes d)"

lemma db_ok_empty: "db_ok empty_db"
  by (simp add: db_ok_def empty_db_def)

end
