(* ===== verification/Schema_Integrity.thy ===== *)
theory Schema_Integrity
  imports Schema
begin

text \<open>
  Every statement that changes a table keeps the integrity of all four (\<open>db_ok\<close>): one lemma
  per statement, collected as \<open>stmt_db_ok\<close> for the proofs about the repositories.
\<close>

named_theorems stmt_db_ok \<open>a statement keeps db_ok\<close>

lemma db_okD:
  assumes "db_ok d"
  shows "distinct (map n_id (t_nodes d))" "distinct (map n_node_id (t_nodes d))"
    "\<And>n. n \<in> set (t_nodes d) \<Longrightarrow> node_ok n"
    "distinct (map u_id (t_users d))" "distinct (map u_username (t_users d))"
    "distinct (map u_subscription_token (t_users d))"
    "distinct (map a_id (t_access d))"
    "distinct (map (\<lambda>a. (a_user_id a, a_node_id a)) (t_access d))"
    "\<And>a. a \<in> set (t_access d) \<Longrightarrow> access_ok d a"
    "distinct (map ev_id (t_events d))"
    "ev_node_id ` set (t_events d) \<subseteq> n_id ` set (t_nodes d)"
  using assms by (auto simp: db_ok_def)

lemma db_ok_access_protocol:
  assumes "db_ok d" and "a \<in> set (t_access d)" and "n \<in> set (t_nodes d)"
    and "a_node_id a = n_id n"
  shows "a_protocol_type a = n_protocol_type n"
proof -
  obtain m where m: "m \<in> set (t_nodes d)" "n_id m = a_node_id a"
      "n_protocol_type m = a_protocol_type a"
    using db_okD(9) [OF assms(1,2)] by (auto simp: access_ok_def)
  then have "m = n"
    using db_okD(1) [OF assms(1)] assms(3,4) by (metis find_unique option.inject)
  with m(3) show ?thesis by simp
qed

section \<open>Nodes\<close>

lemma insert_node_db_ok [stmt_db_ok]:
  assumes "insert_node new d = Inr (x, d')" and "db_ok d"
  shows "db_ok d'"
proof -
  have new: "node_ok new" "n_id new \<notin> n_id ` set (t_nodes d)"
      "n_node_id new \<notin> n_node_id ` set (t_nodes d)"
      and d': "d' = d\<lparr>t_nodes := t_nodes d @ [new]\<rparr>"
    using assms(1) by (auto simp: insert_node_def node_ok_def split: if_splits)
  have "\<forall>a \<in> set (t_access d). access_ok d' a"
    using db_okD(9) [OF assms(2)] by (fastforce simp: access_ok_def d')
  moreover have "ev_node_id ` set (t_events d) \<subseteq> n_id ` set (t_nodes d')"
    using db_okD(11) [OF assms(2)] by (auto simp: d')
  ultimately show ?thesis
    using assms(2) new by (simp add: db_ok_def d')
qed

lemma update_node_cases:
  assumes "update_node now key f d = Inr (x, d')"
  obtains (absent) "find (\<lambda>n. n_id n = key) (t_nodes d) = None" and "x = None" and "d' = d"
    | (updated) old new where "find (\<lambda>n. n_id n = key) (t_nodes d) = Some old"
        and "old \<in> set (t_nodes d)" and "n_id old = key"
        and "new = (f old)\<lparr>n_updated_at := now\<rparr>" and "x = Some new"
        and "n_protocol_type old \<noteq> n_protocol_type new \<longrightarrow> key \<notin> a_node_id ` set (t_access d)"
        and "node_ok new"
        and "\<forall>n \<in> set (t_nodes d). n_id n \<noteq> key \<longrightarrow> n_node_id n \<noteq> n_node_id new"
        and "d' = d\<lparr>t_nodes := map (\<lambda>n. if n_id n = key then new else n) (t_nodes d)\<rparr>"
proof (cases "find (\<lambda>n. n_id n = key) (t_nodes d)")
  case None
  then have "x = None" and "d' = d" using assms by (simp_all add: update_node_def)
  with None show ?thesis by (rule absent)
next
  case (Some old)
  define new where "new = (f old)\<lparr>n_updated_at := now\<rparr>"
  note step = assms [unfolded update_node_def Some option.case Let_def, folded new_def]
  from Some have old: "old \<in> set (t_nodes d)" "n_id old = key"
    by (auto dest: find_SomeD)
  show ?thesis
  proof (rule updated [OF Some old new_def])
    show "x = Some new"
      and "d' = d\<lparr>t_nodes := map (\<lambda>n. if n_id n = key then new else n) (t_nodes d)\<rparr>"
      using step by (simp_all split: if_splits)
    show "n_protocol_type old \<noteq> n_protocol_type new \<longrightarrow> key \<notin> a_node_id ` set (t_access d)"
      using step old by (auto split: if_splits)
    show "node_ok new"
      using step by (simp add: node_ok_def split: if_splits)
    show "\<forall>n \<in> set (t_nodes d). n_id n \<noteq> key \<longrightarrow> n_node_id n \<noteq> n_node_id new"
      using step by (auto simp: list_ex_iff split: if_splits)
  qed
qed

lemma update_node_db_ok [stmt_db_ok]:
  assumes step: "update_node now key f d = Inr (x, d')" and ok: "db_ok d"
    and f: "\<And>n. n_id (f n) = n_id n"
  shows "db_ok d'"
  using step
proof (cases rule: update_node_cases)
  case absent
  with ok show ?thesis by simp
next
  case (updated old new)
  let ?rows = "map (\<lambda>n. if n_id n = key then new else n) (t_nodes d)"
  have key: "n_id new = key" using updated(3,4) f by simp
  have ids: "map n_id ?rows = map n_id (t_nodes d)"
    using key by (rule map_replace_key)
  have names: "distinct (map n_node_id ?rows)"
    using db_okD(1,2) [OF ok] updated(8) by (intro distinct_replace) auto
  have "access_ok d' a" if a: "a \<in> set (t_access d)" for a
  proof -
    obtain m where m: "m \<in> set (t_nodes d)" "n_id m = a_node_id a"
        "n_protocol_type m = a_protocol_type a" and u: "a_user_id a \<in> u_id ` set (t_users d)"
      using db_okD(9) [OF ok a] by (auto simp: access_ok_def)
    show ?thesis
    proof (cases "a_node_id a = key")
      case True
      then have "a_protocol_type a = n_protocol_type new"
        using db_ok_access_protocol [OF ok a updated(2)] updated(3,6) a by (auto simp: image_iff)
      moreover have "new \<in> set ?rows" using updated(2,3) by force
      ultimately show ?thesis
        using True key u updated(9) by (auto simp: access_ok_def)
    next
      case False
      with m have "m \<in> set ?rows" by (force simp: image_iff)
      with m u updated(9) show ?thesis by (auto simp: access_ok_def)
    qed
  qed
  moreover have "\<forall>n \<in> set ?rows. node_ok n"
    using db_okD(3) [OF ok] updated(7) by (auto dest!: set_replace)
  moreover have "ev_node_id ` set (t_events d) \<subseteq> n_id ` set ?rows"
    using db_okD(11) [OF ok] ids by (metis list.set_map)
  ultimately show ?thesis
    using ok names ids updated(9) by (simp add: db_ok_def del: map_map list.map_comp)
qed

lemma delete_node_db_ok [stmt_db_ok]:
  assumes "delete_node key d = Inr (x, d')" and "db_ok d"
  shows "db_ok d'"
proof -
  have d': "d' = d\<lparr>t_nodes := filter (\<lambda>n. n_id n \<noteq> key) (t_nodes d),
      t_access := filter (\<lambda>a. a_node_id a \<noteq> key) (t_access d),
      t_events := filter (\<lambda>ev. ev_node_id ev \<noteq> key) (t_events d)\<rparr>"
    using assms(1) by (simp add: delete_node_def)
  have "\<forall>a \<in> set (t_access d'). access_ok d' a"
    using db_okD(9) [OF assms(2)] by (fastforce simp: access_ok_def d')
  moreover have "ev_node_id ` set (t_events d') \<subseteq> n_id ` set (t_nodes d')"
    using db_okD(11) [OF assms(2)] by (auto simp: d' dest!: subsetD [OF _ imageI])
  ultimately show ?thesis
    using assms(2) by (simp add: db_ok_def d' distinct_map_filter)
qed

section \<open>Users\<close>

lemma insert_user_db_ok [stmt_db_ok]:
  assumes "insert_user new d = Inr (x, d')" and "db_ok d"
  shows "db_ok d'"
proof -
  have new: "u_id new \<notin> u_id ` set (t_users d)" "u_username new \<notin> u_username ` set (t_users d)"
      "u_subscription_token new \<notin> u_subscription_token ` set (t_users d)"
      and d': "d' = d\<lparr>t_users := t_users d @ [new]\<rparr>"
    using assms(1) by (auto simp: insert_user_def split: if_splits)
  have "\<forall>a \<in> set (t_access d). access_ok d' a"
    using db_okD(9) [OF assms(2)] by (fastforce simp: access_ok_def d')
  then show ?thesis
    using assms(2) new by (simp add: db_ok_def d')
qed

lemma update_user_cases:
  assumes "update_user now key f d = Inr (x, d')"
  obtains (absent) "find (\<lambda>u. u_id u = key) (t_users d) = None" and "x = None" and "d' = d"
    | (updated) old new where "find (\<lambda>u. u_id u = key) (t_users d) = Some old"
        and "old \<in> set (t_users d)" and "u_id old = key"
        and "new = (f old)\<lparr>u_updated_at := now\<rparr>" and "x = Some new"
        and "\<forall>u \<in> set (t_users d). u_id u \<noteq> key \<longrightarrow> u_username u \<noteq> u_username new"
        and "d' = d\<lparr>t_users := map (\<lambda>u. if u_id u = key then new else u) (t_users d)\<rparr>"
proof (cases "find (\<lambda>u. u_id u = key) (t_users d)")
  case None
  then have "x = None" and "d' = d" using assms by (simp_all add: update_user_def)
  with None show ?thesis by (rule absent)
next
  case (Some old)
  define new where "new = (f old)\<lparr>u_updated_at := now\<rparr>"
  note step = assms [unfolded update_user_def Some option.case Let_def, folded new_def]
  from Some have old: "old \<in> set (t_users d)" "u_id old = key"
    by (auto dest: find_SomeD)
  show ?thesis
  proof (rule updated [OF Some old new_def])
    show "x = Some new"
      and "d' = d\<lparr>t_users := map (\<lambda>u. if u_id u = key then new else u) (t_users d)\<rparr>"
      using step by (simp_all split: if_splits)
    show "\<forall>u \<in> set (t_users d). u_id u \<noteq> key \<longrightarrow> u_username u \<noteq> u_username new"
      using step by (auto simp: list_ex_iff split: if_splits)
  qed
qed

lemma update_user_db_ok [stmt_db_ok]:
  assumes step: "update_user now key f d = Inr (x, d')" and ok: "db_ok d"
    and f: "\<And>u. u_id (f u) = u_id u" "\<And>u. u_subscription_token (f u) = u_subscription_token u"
  shows "db_ok d'"
  using step
proof (cases rule: update_user_cases)
  case absent
  with ok show ?thesis by simp
next
  case (updated old new)
  let ?rows = "map (\<lambda>u. if u_id u = key then new else u) (t_users d)"
  have key: "u_id new = key" using updated(3,4) f by simp
  have ids: "map u_id ?rows = map u_id (t_users d)"
    using key by (rule map_replace_key)
  have names: "distinct (map u_username ?rows)"
    using db_okD(4,5) [OF ok] updated(6) by (intro distinct_replace) auto
  have tok: "u_subscription_token new = u_subscription_token old"
    using updated(4) f by simp
  have tokens: "distinct (map u_subscription_token ?rows)"
  proof (intro distinct_replace ballI impI)
    fix r
    assume "r \<in> set (t_users d)" and "u_id r \<noteq> key"
    then show "u_subscription_token r \<noteq> u_subscription_token new"
      using db_okD(6) [OF ok] updated(2,3) tok by (metis find_unique option.inject)
  qed (use db_okD(4,6) [OF ok] in auto)
  have "u_id ` set ?rows = u_id ` set (t_users d)"
    using ids by (metis list.set_map)
  then have "access_ok d' a" if "access_ok d a" for a
    using that updated(7) by (simp add: access_ok_def)
  then show ?thesis
    using ok names tokens ids updated(7) by (simp add: db_ok_def del: map_map list.map_comp)
qed

lemma delete_user_db_ok [stmt_db_ok]:
  assumes "delete_user key d = Inr (x, d')" and "db_ok d"
  shows "db_ok d'"
proof -
  have d': "d' = d\<lparr>t_users := filter (\<lambda>u. u_id u \<noteq> key) (t_users d),
      t_access := filter (\<lambda>a. a_user_id a \<noteq> key) (t_access d)\<rparr>"
    using assms(1) by (simp add: delete_user_def)
  have "\<forall>a \<in> set (t_access d'). access_ok d' a"
    using db_okD(9) [OF assms(2)] by (fastforce simp: access_ok_def d')
  then show ?thesis
    using assms(2) by (simp add: db_ok_def d' distinct_map_filter)
qed

section \<open>Assignments and events\<close>

lemma enforce_access_protocol_None:
  assumes "enforce_access_protocol new d = None"
  shows "\<exists>n \<in> set (t_nodes d). n_id n = a_node_id new \<and> n_protocol_type n = a_protocol_type new"
  using assms
  by (auto simp: enforce_access_protocol_def split: option.splits if_splits dest!: find_SomeD)

text \<open>Replacing one assignment by another of the same user and node keeps the tables whole.\<close>

lemma replace_access_db_ok:
  assumes ok: "db_ok d" and old: "old \<in> set (t_access d)"
    and same: "a_id new = a_id old" "a_user_id new = a_user_id old" "a_node_id new = a_node_id old"
    and fits: "enforce_access_protocol new d = None"
  shows "db_ok (d\<lparr>t_access := map (\<lambda>a. if a_id a = a_id old then new else a) (t_access d)\<rparr>)"
    (is "db_ok ?d'")
proof -
  let ?rows = "map (\<lambda>a. if a_id a = a_id old then new else a) (t_access d)"
  have only: "a = old" if "a \<in> set (t_access d)" "a_id a = a_id old" for a
    using db_okD(7) [OF ok] old that by (metis find_unique option.inject)
  have ids: "map a_id ?rows = map a_id (t_access d)"
    using same(1) by (intro map_replace_key)
  have pairs: "map (\<lambda>a. (a_user_id a, a_node_id a)) ?rows
      = map (\<lambda>a. (a_user_id a, a_node_id a)) (t_access d)"
    using only same by (auto simp: comp_def)
  have "access_ok d new"
    using enforce_access_protocol_None [OF fits] db_okD(9) [OF ok old] same(2)
    by (simp add: access_ok_def)
  then have "\<forall>a \<in> set ?rows. access_ok d a"
    using db_okD(9) [OF ok] by (auto dest!: set_replace)
  then have "\<forall>a \<in> set ?rows. access_ok ?d' a"
    by (simp add: access_ok_def)
  then show ?thesis
    using ok ids pairs by (simp add: db_ok_def del: map_map list.map_comp)
qed

lemma upsert_access_db_ok [stmt_db_ok]:
  assumes step: "upsert_access now new d = Inr (x, d')" and ok: "db_ok d"
  shows "db_ok d'"
proof -
  have fits: "enforce_access_protocol new d = None"
    using step by (simp add: upsert_access_def split: option.splits)
  show ?thesis
  proof (cases "find (\<lambda>a. a_user_id a = a_user_id new \<and> a_node_id a = a_node_id new) (t_access d)")
    case (Some old)
    then have old: "old \<in> set (t_access d)" "a_user_id old = a_user_id new"
        "a_node_id old = a_node_id new"
      by (auto dest: find_SomeD)
    let ?upd = "old\<lparr>a_protocol_type := a_protocol_type new,
        a_protocol_username := a_protocol_username new,
        a_protocol_password := a_protocol_password new, a_enabled := True, a_updated_at := now\<rparr>"
    have "enforce_access_protocol ?upd d = None"
      using fits old(3) by (auto simp: enforce_access_protocol_def split: option.splits if_splits)
    then have "db_ok (d\<lparr>t_access := map (\<lambda>a. if a_id a = a_id old then ?upd else a) (t_access d)\<rparr>)"
      using ok old(1) by (intro replace_access_db_ok) auto
    with step fits Some show ?thesis by (auto simp: upsert_access_def Let_def split: if_splits)
  next
    case None
    then have new: "(a_user_id new, a_node_id new)
        \<notin> (\<lambda>a. (a_user_id a, a_node_id a)) ` set (t_access d)"
      by (auto simp: find_None_iff)
    have d': "d' = d\<lparr>t_access := t_access d @ [new]\<rparr>" and id: "a_id new \<notin> a_id ` set (t_access d)"
        and user: "a_user_id new \<in> u_id ` set (t_users d)"
      using step fits None by (auto simp: upsert_access_def split: if_splits)
    have "access_ok d' new"
      using enforce_access_protocol_None [OF fits] user by (simp add: access_ok_def d')
    moreover have "\<forall>a \<in> set (t_access d). access_ok d' a"
      using db_okD(9) [OF ok] by (simp add: access_ok_def d')
    ultimately show ?thesis
      using ok new id by (simp add: db_ok_def d')
  qed
qed

lemma delete_access_db_ok [stmt_db_ok]:
  assumes "delete_access uid nid d = Inr (x, d')" and "db_ok d"
  shows "db_ok d'"
proof -
  have d': "d' = d\<lparr>t_access :=
      filter (\<lambda>a. \<not> (a_user_id a = uid \<and> a_node_id a = nid)) (t_access d)\<rparr>"
    using assms(1) by (simp add: delete_access_def)
  have "\<forall>a \<in> set (t_access d'). access_ok d' a"
    using db_okD(9) [OF assms(2)] by (simp add: access_ok_def d')
  then show ?thesis
    using assms(2) by (simp add: db_ok_def d' distinct_map_filter)
qed

lemma set_access_enabled_db_ok [stmt_db_ok]:
  assumes step: "set_access_enabled now uid aid en d = Inr (x, d')" and ok: "db_ok d"
  shows "db_ok d'"
proof (cases "find (\<lambda>a. a_user_id a = uid \<and> a_id a = aid) (t_access d)")
  case None
  with step ok show ?thesis by (simp add: set_access_enabled_def)
next
  case (Some old)
  then have "old \<in> set (t_access d)" by (auto dest: find_SomeD)
  with Some step ok show ?thesis
    by (auto simp: set_access_enabled_def Let_def split: option.splits
        intro!: replace_access_db_ok)
qed

lemma insert_event_db_ok [stmt_db_ok]:
  assumes "insert_event new d = Inr (x, d')" and "db_ok d"
  shows "db_ok d'"
proof -
  have new: "ev_id new \<notin> ev_id ` set (t_events d)" "ev_node_id new \<in> n_id ` set (t_nodes d)"
      and d': "d' = d\<lparr>t_events := t_events d @ [new]\<rparr>"
    using assms(1) by (auto simp: insert_event_def split: if_splits)
  have "\<forall>a \<in> set (t_access d). access_ok d' a"
    using db_okD(9) [OF assms(2)] by (simp add: access_ok_def d')
  then show ?thesis
    using assms(2) new by (simp add: db_ok_def d')
qed

end
