(* ===== verification/Security.thy ===== *)
theory Security
  imports Go_Encoding
begin

text \<open>
  internal/security/security.go: random tokens, masking of secrets, comparison.  The bytes a
  token is made of are an argument here; World draws them from the environment.
\<close>

text \<open>\<^verbatim>\<open>security.Token\<close> after \<^verbatim>\<open>rand.Read\<close> has filled the buffer.\<close>

definition token_text :: "string \<Rightarrow> string \<Rightarrow> string" where
  "token_text prefix b =
     (let value = TrimRightByte (EncodeToString url_alphabet b) pad64
      in if prefix = [] then value else prefix @ ''_'' @ value)"

definition MaskSecret :: "string \<Rightarrow> string" where
  "MaskSecret secret =
     (if length secret \<le> 8 then ''********''
      else take 4 secret @ replicate (length secret - 8) CHR ''*'' @ drop (length secret - 4) secret)"

text \<open>\<^verbatim>\<open>subtle.ConstantTimeCompare\<close> is 0 for different lengths and otherwise folds the xor of all bytes.\<close>

fun differing_bytes :: "string \<Rightarrow> string \<Rightarrow> nat" where
  "differing_bytes (a # s) (b # t) = (if a = b then 0 else 1) + differing_bytes s t"
| "differing_bytes _ _ = 0"

definition ConstantTimeEqual :: "string \<Rightarrow> string \<Rightarrow> bool" where
  "ConstantTimeEqual a b \<longleftrightarrow> length a = length b \<and> differing_bytes a b = 0"

section \<open>Lemmas\<close>

lemma token_text_raw:
  "token_text prefix b =
     (if prefix = [] then encode_raw url_alphabet b
      else prefix @ CHR ''_'' # encode_raw url_alphabet b)"
  by (simp add: token_text_def TrimRight_EncodeToString)

lemma token_text_inj_prefix: "token_text prefix b = token_text prefix c \<longleftrightarrow> b = c"
  by (auto simp: token_text_raw dest: encode_raw_inj [OF good_alphabet_simps(2)])

lemma token_text_nonempty: "prefix \<noteq> [] \<Longrightarrow> token_text prefix b \<noteq> []"
  by (simp add: token_text_raw)

lemma length_MaskSecret: "length (MaskSecret s) = max 8 (length s)"
  by (auto simp: MaskSecret_def max_def)

lemma differing_bytes_0: "length a = length b \<Longrightarrow> differing_bytes a b = 0 \<longleftrightarrow> a = b"
  by (induction a b rule: differing_bytes.induct) auto

lemma ConstantTimeEqual_iff [simp]: "ConstantTimeEqual a b \<longleftrightarrow> a = b"
  by (auto simp: ConstantTimeEqual_def differing_bytes_0)

end
