(* ===== verification/World.thy ===== *)
theory World
  imports Schema_Integrity Security
begin

text \<open>
  The state the panel's operations run on, and everything outside src/ they talk to.

  The state (\<open>world\<close>) holds the tables, a counter of the interactions with the outside, and
  the requests sent to node agents.  What the outside answers is given by the environment
  (\<open>env\<close>), a parameter of the model: whether the \<open>t\<close>-th interaction with the database fails
  and how, the clocks, the ids the database generates, its collation and its parsers, the
  random bytes, the answer of the node agent to the \<open>t\<close>-th request, and the JSON codec.  A
  theorem over all environments holds for every behaviour of these.
\<close>

section \<open>Environment and state\<close>

record http_request =
  rq_method :: string
  rq_url :: string
  rq_authorization :: string
  rq_x_node_id :: string
  rq_content_type :: string
  rq_body :: string

text \<open>
  A database call fails before the statement takes effect (\<open>Refused\<close>: the connection, the
  timeout, a value the driver cannot encode) or after it (\<open>ReplyLost\<close>).
\<close>

datatype fault = Refused goerr | ReplyLost goerr

record env =
  env_fault :: "nat \<Rightarrow> fault option"
  env_db_now :: "nat \<Rightarrow> time"
  env_now :: "nat \<Rightarrow> time"
  env_uuid :: "nat \<Rightarrow> string"
  env_parse_uuid :: "string \<Rightarrow> string option"
  env_scan_uuid :: "string \<Rightarrow> goerr + string"
  env_timestamptz :: "time \<Rightarrow> time"
  env_int4_error :: "int \<Rightarrow> goerr"
  env_jsonb :: "string \<Rightarrow> string option"
  env_collate :: "string \<Rightarrow> string \<Rightarrow> bool"
  env_rand :: "nat \<Rightarrow> goerr + (nat \<Rightarrow> char)"
  env_http :: "nat \<Rightarrow> http_request \<Rightarrow> goerr + (int \<times> string)"
  env_decode_status :: "string \<Rightarrow> goerr + AgentStatusResponse"
  env_decode_response :: "string \<Rightarrow> goerr + AgentResponse"
  env_decode_telemetry :: "string \<Rightarrow> goerr + TelemetryResponse"
  env_encode_payload :: "SyncPayload \<Rightarrow> goerr + string"

record world =
  w_db :: db
  w_tick :: nat
  w_requests :: "http_request list"

type_synonym 'a act = "(world, 'a) io"

section \<open>Primitive effects\<close>

text \<open>One SQL statement, committed on its own.\<close>

definition exec :: "env \<Rightarrow> (nat \<Rightarrow> 'a stmt) \<Rightarrow> 'a act" where
  "exec e stmt w =
     (let t = w_tick w; w' = w\<lparr>w_tick := Suc t\<rparr> in
      case env_fault e t of
        Some (Refused err) \<Rightarrow> (Inl err, w')
      | Some (ReplyLost err) \<Rightarrow>
          (case stmt t (w_db w) of
             Inl err' \<Rightarrow> (Inl err', w')
           | Inr (x, d) \<Rightarrow> (Inl err, w'\<lparr>w_db := d\<rparr>))
      | None \<Rightarrow>
          (case stmt t (w_db w) of
             Inl err' \<Rightarrow> (Inl err', w')
           | Inr (x, d) \<Rightarrow> (Inr x, w'\<lparr>w_db := d\<rparr>)))"

text \<open>A statement that only reads.\<close>

definition reading :: "(db \<Rightarrow> goerr + 'a) \<Rightarrow> 'a stmt" where
  "reading q d = (case q d of Inl err \<Rightarrow> Inl err | Inr x \<Rightarrow> Inr (x, d))"

definition query :: "env \<Rightarrow> (nat \<Rightarrow> db \<Rightarrow> goerr + 'a) \<Rightarrow> 'a act" where
  "query e q = exec e (\<lambda>t. reading (q t))"

text \<open>
  \<^verbatim>\<open>pool.Begin\<close>, the statements of \<open>m\<close>, then \<^verbatim>\<open>tx.Commit\<close>, with the deferred
  \<^verbatim>\<open>tx.Rollback\<close> undoing everything unless the commit took effect.
\<close>

definition transaction :: "env \<Rightarrow> 'a act \<Rightarrow> 'a act" where
  "transaction e m w =
     bindE (exec e (\<lambda>_ d. Inr ((), d))) (\<lambda>_ w1.
       case m w1 of
         (Inl err, w2) \<Rightarrow> (Inl err, w2\<lparr>w_db := w_db w1\<rparr>)
       | (Inr x, w2) \<Rightarrow>
           (let t = w_tick w2; w3 = w2\<lparr>w_tick := Suc t\<rparr> in
            case env_fault e t of
              Some (Refused err) \<Rightarrow> (Inl err, w3\<lparr>w_db := w_db w1\<rparr>)
            | Some (ReplyLost err) \<Rightarrow> (Inl err, w3)
            | None \<Rightarrow> (Inr x, w3))) w"

text \<open>One HTTP exchange with a node agent; the request is recorded.\<close>

definition http_exchange :: "env \<Rightarrow> http_request \<Rightarrow> (goerr + (int \<times> string)) act" where
  "http_exchange e rq w =
     (Inr (env_http e (w_tick w) rq),
      w\<lparr>w_tick := Suc (w_tick w), w_requests := w_requests w @ [rq]\<rparr>)"

text \<open>\<^verbatim>\<open>time.Now()\<close>.\<close>

definition clock :: "env \<Rightarrow> time act" where
  "clock e w = (Inr (env_now e (w_tick w)), w\<lparr>w_tick := Suc (w_tick w)\<rparr>)"

text \<open>\<^verbatim>\<open>security.Token(prefix, n)\<close>: \<open>n\<close> random bytes, encoded.\<close>

definition Token :: "env \<Rightarrow> string \<Rightarrow> nat \<Rightarrow> string act" where
  "Token e prefix n w =
     (case env_rand e (w_tick w) of
        Inl err \<Rightarrow> (Inl err, w\<lparr>w_tick := Suc (w_tick w)\<rparr>)
      | Inr bytes \<Rightarrow> (Inr (token_text prefix (map bytes [0..<n])), w\<lparr>w_tick := Suc (w_tick w)\<rparr>))"

section \<open>How the primitives compute\<close>

lemma exec_ok [io_simps]:
  "env_fault e (w_tick w) = None \<Longrightarrow> stmt (w_tick w) (w_db w) = Inr (x, d) \<Longrightarrow>
   exec e stmt w = (Inr x, w\<lparr>w_tick := Suc (w_tick w), w_db := d\<rparr>)"
  by (simp add: exec_def Let_def)

lemma exec_err [io_simps]:
  "env_fault e (w_tick w) = None \<Longrightarrow> stmt (w_tick w) (w_db w) = Inl err \<Longrightarrow>
   exec e stmt w = (Inl err, w\<lparr>w_tick := Suc (w_tick w)\<rparr>)"
  by (simp add: exec_def Let_def)

lemma query_ok [io_simps]:
  "env_fault e (w_tick w) = None \<Longrightarrow> q (w_tick w) (w_db w) = Inr x \<Longrightarrow>
   query e q w = (Inr x, w\<lparr>w_tick := Suc (w_tick w)\<rparr>)"
  by (simp add: query_def reading_def exec_def Let_def)

lemma query_err [io_simps]:
  "env_fault e (w_tick w) = None \<Longrightarrow> q (w_tick w) (w_db w) = Inl err \<Longrightarrow>
   query e q w = (Inl err, w\<lparr>w_tick := Suc (w_tick w)\<rparr>)"
  by (simp add: query_def reading_def exec_def Let_def)

lemma exec_cases:
  assumes "exec e stmt w = (r, w')"
  obtains (failed) err where "r = Inl err" and "w' = w\<lparr>w_tick := Suc (w_tick w)\<rparr>"
    | (run) x d where "stmt (w_tick w) (w_db w) = Inr (x, d)"
        and "w' = w\<lparr>w_tick := Suc (w_tick w), w_db := d\<rparr>" and "r = Inr x \<or> (\<exists>err. r = Inl err)"
  using assms
  by (auto simp: exec_def Let_def split: option.splits fault.splits sum.splits prod.splits)

lemma exec_refused:
  assumes "stmt (w_tick w) (w_db w) = Inl err0"
  shows "\<exists>err. exec e stmt w = (Inl err, w\<lparr>w_tick := Suc (w_tick w)\<rparr>)"
  using assms by (auto simp: exec_def Let_def split: option.splits fault.splits)

lemma exec_Inr:
  assumes "exec e stmt w = (Inr x, w')"
  obtains d where "stmt (w_tick w) (w_db w) = Inr (x, d)"
    and "w' = w\<lparr>w_tick := Suc (w_tick w), w_db := d\<rparr>"
  using assms
  by (auto simp: exec_def Let_def split: option.splits fault.splits sum.splits prod.splits)

lemma query_frame:
  assumes "query e q w = (r, w')"
  shows "w' = w\<lparr>w_tick := Suc (w_tick w)\<rparr>"
  using assms
  by (auto simp: query_def reading_def exec_def Let_def
      split: option.splits fault.splits sum.splits prod.splits)

lemma query_Inr:
  assumes "query e q w = (Inr x, w')"
  shows "q (w_tick w) (w_db w) = Inr x" and "w' = w\<lparr>w_tick := Suc (w_tick w)\<rparr>"
  using assms
  by (auto simp: query_def reading_def exec_def Let_def
      split: option.splits fault.splits sum.splits prod.splits)

section \<open>Relations between the tables before and after\<close>

text \<open>
  A preorder on tables that every statement stays within holds of every operation built from
  statements.  \<open>D\<close> is the relation; the locale lifts it to states and adds the rules for the
  primitive effects to the composition rules of \<open>preorder_on_states\<close>.
\<close>

definition db_rel :: "(db \<Rightarrow> db \<Rightarrow> bool) \<Rightarrow> world \<Rightarrow> world \<Rightarrow> bool" where
  "db_rel D w w' \<longleftrightarrow> D (w_db w) (w_db w')"

definition stmt_within :: "(db \<Rightarrow> db \<Rightarrow> bool) \<Rightarrow> 'a stmt \<Rightarrow> bool" where
  "stmt_within D stmt \<longleftrightarrow> (\<forall>d x d'. stmt d = Inr (x, d') \<longrightarrow> D d d')"

lemma stmt_withinI: "(\<And>d x d'. stmt d = Inr (x, d') \<Longrightarrow> D d d') \<Longrightarrow> stmt_within D stmt"
  by (auto simp: stmt_within_def)

locale preorder_on_tables =
  fixes D :: "db \<Rightarrow> db \<Rightarrow> bool"
  assumes D_refl: "D d d"
    and D_trans: "D a b \<Longrightarrow> D b c \<Longrightarrow> D a c"

sublocale preorder_on_tables \<subseteq> preorder_on_states "db_rel D"
  by unfold_locales (auto simp: db_rel_def intro: D_refl D_trans)

context preorder_on_tables begin

lemma exec_within: "(\<And>t. stmt_within D (stmt t)) \<Longrightarrow> within (db_rel D) (exec e stmt)"
  by (auto simp: within_def db_rel_def stmt_within_def exec_def Let_def D_refl
      split: option.splits fault.splits sum.splits prod.splits)

lemma query_within: "within (db_rel D) (query e q)"
  by (auto simp: query_def reading_def stmt_within_def D_refl split: sum.splits
      intro!: exec_within)

lemma http_within: "within (db_rel D) (http_exchange e rq)"
  by (simp add: within_def db_rel_def http_exchange_def D_refl)

lemma clock_within: "within (db_rel D) (clock e)"
  by (simp add: within_def db_rel_def clock_def D_refl)

lemma token_within: "within (db_rel D) (Token e p n)"
  by (auto simp: within_def db_rel_def Token_def D_refl split: sum.splits)

lemma transaction_within:
  assumes "within (db_rel D) m"
  shows "within (db_rel D) (transaction e m)"
proof (rule withinI)
  fix w
  obtain r0 w1 where first: "exec e (\<lambda>_ d. Inr ((), d)) w = (r0, w1)" by force
  then have same: "w_db w1 = w_db w"
    by (auto simp: exec_def Let_def split: option.splits fault.splits)
  obtain r w2 where run: "m w1 = (r, w2)" by force
  with assms have "db_rel D w1 w2" by (rule withinD)
  then show "db_rel D w (snd (transaction e m w))"
    using first run same
    by (auto simp: transaction_def bindE_def db_rel_def Let_def D_refl
        split: sum.splits option.splits fault.splits)
qed

lemmas effect_rules = rules exec_within query_within http_within clock_within token_within
  transaction_within

end

section \<open>Integrity is kept by every effect\<close>

definition keeps_integrity :: "db \<Rightarrow> db \<Rightarrow> bool" where
  "keeps_integrity d d' \<longleftrightarrow> (db_ok d \<longrightarrow> db_ok d')"

interpretation integrity: preorder_on_tables keeps_integrity
  by unfold_locales (auto simp: keeps_integrity_def)

text \<open>The tables are only read.\<close>

definition tables_same :: "db \<Rightarrow> db \<Rightarrow> bool" where
  "tables_same d d' \<longleftrightarrow> d' = d"

interpretation same: preorder_on_tables tables_same
  by unfold_locales (auto simp: tables_same_def)

lemma stmt_within_same [within_intros]: "stmt_within tables_same (reading q)"
  by (auto intro!: stmt_withinI simp: tables_same_def reading_def split: sum.splits)

text \<open>
  Every node stays, and the configuration version it is to have is never lowered.  This holds of
  every statement but the deletion of a node.
\<close>

definition versions_advance :: "db \<Rightarrow> db \<Rightarrow> bool" where
  "versions_advance d d' \<longleftrightarrow>
     (db_ok d \<longrightarrow> db_ok d' \<and>
        (\<forall>n \<in> set (t_nodes d). \<exists>n' \<in> set (t_nodes d').
           n_id n' = n_id n \<and> n_desired_config_version n \<le> n_desired_config_version n'))"

interpretation versions: preorder_on_tables versions_advance
  by unfold_locales (fastforce simp: versions_advance_def)+

lemma versions_advance_nodes_same:
  "t_nodes d' = t_nodes d \<Longrightarrow> (db_ok d \<Longrightarrow> db_ok d') \<Longrightarrow> versions_advance d d'"
  by (auto simp: versions_advance_def)

section \<open>Arguments of statements\<close>

text \<open>
  A string bound to a \<^verbatim>\<open>uuid\<close> parameter is parsed by the server: two spellings of one id
  are the same id, and a string that is no id is an error.
\<close>

definition invalid_uuid :: "string \<Rightarrow> goerr" where
  "invalid_uuid s = PgError (''invalid input syntax for type uuid: \"'' @ s @ ''\"'') ''22P02''"

definition uuid_arg :: "env \<Rightarrow> string \<Rightarrow> (string \<Rightarrow> 'a stmt) \<Rightarrow> 'a stmt" where
  "uuid_arg e s stmt d =
     (case env_parse_uuid e s of None \<Rightarrow> Inl (invalid_uuid s) | Some key \<Rightarrow> stmt key d)"

text \<open>A Go integer bound to an \<^verbatim>\<open>integer\<close> parameter must fit 32 bits; the driver refuses it otherwise.\<close>

definition fits_int4 :: "int \<Rightarrow> bool" where
  "fits_int4 n \<longleftrightarrow> - (2 ^ 31) \<le> n \<and> n < 2 ^ 31"

definition int4_arg :: "env \<Rightarrow> int \<Rightarrow> 'a stmt \<Rightarrow> 'a stmt" where
  "int4_arg e n stmt d = (if fits_int4 n then stmt d else Inl (env_int4_error e n))"

lemma stmt_within_int4_arg [within_intros]: "stmt_within D stmt \<Longrightarrow> stmt_within D (int4_arg e n stmt)"
  by (auto simp: stmt_within_def int4_arg_def)

text \<open>A statement that returns one row: no row is \<^verbatim>\<open>pgx.ErrNoRows\<close>.\<close>

definition one_row :: "'a option stmt \<Rightarrow> 'a stmt" where
  "one_row stmt d =
     (case stmt d of
        Inl err \<Rightarrow> Inl err
      | Inr (None, d') \<Rightarrow> Inl NoRows
      | Inr (Some x, d') \<Rightarrow> Inr (x, d'))"

text \<open>\<^verbatim>\<open>Exec\<close> drops the rows.\<close>

definition no_result :: "'a stmt \<Rightarrow> unit stmt" where
  "no_result stmt d = (case stmt d of Inl err \<Rightarrow> Inl err | Inr (x, d') \<Rightarrow> Inr ((), d'))"

lemma stmt_within_uuid_arg [within_intros]:
  "(\<And>key. stmt_within D (stmt key)) \<Longrightarrow> stmt_within D (uuid_arg e s stmt)"
  by (auto simp: stmt_within_def uuid_arg_def split: option.splits)

lemma stmt_within_one_row [within_intros]: "stmt_within D stmt \<Longrightarrow> stmt_within D (one_row stmt)"
  by (auto simp: stmt_within_def one_row_def split: sum.splits option.splits)

lemma stmt_within_no_result [within_intros]: "stmt_within D stmt \<Longrightarrow> stmt_within D (no_result stmt)"
  by (auto simp: stmt_within_def no_result_def split: sum.splits)

lemma uuid_arg_Some [io_simps]: "env_parse_uuid e s = Some key \<Longrightarrow> uuid_arg e s stmt d = stmt key d"
  by (simp add: uuid_arg_def)

section \<open>The statements and the two preorders\<close>

lemma stmt_keeps_integrity [within_intros]:
  "stmt_within keeps_integrity (insert_node node)"
  "stmt_within keeps_integrity (delete_node key)"
  "stmt_within keeps_integrity (insert_user user)"
  "stmt_within keeps_integrity (delete_user key)"
  "stmt_within keeps_integrity (upsert_access current acc)"
  "stmt_within keeps_integrity (delete_access user_id node_id)"
  "stmt_within keeps_integrity (set_access_enabled current user_id access_id enabled)"
  "stmt_within keeps_integrity (insert_event ev)"
  by (auto intro!: stmt_withinI simp: keeps_integrity_def intro: stmt_db_ok)

lemma update_node_keeps_integrity [within_intros]:
  "(\<And>n. n_id (f n) = n_id n) \<Longrightarrow> stmt_within keeps_integrity (update_node current key f)"
  by (rule stmt_withinI) (auto simp: keeps_integrity_def elim: update_node_db_ok)

lemma update_user_keeps_integrity [within_intros]:
  "(\<And>u. u_id (g u) = u_id u \<and> u_subscription_token (g u) = u_subscription_token u) \<Longrightarrow>
     stmt_within keeps_integrity (update_user current key g)"
  by (rule stmt_withinI) (auto simp: keeps_integrity_def elim: update_user_db_ok)

text \<open>Statements on the other tables, and insertions, leave every node as it is.\<close>

lemma stmt_versions_advance [within_intros]:
  "stmt_within versions_advance (insert_user user)"
  "stmt_within versions_advance (delete_user key)"
  "stmt_within versions_advance (upsert_access current acc)"
  "stmt_within versions_advance (delete_access user_id node_id)"
  "stmt_within versions_advance (set_access_enabled current user_id access_id enabled)"
  "stmt_within versions_advance (insert_event ev)"
  by (auto intro!: stmt_withinI versions_advance_nodes_same intro: stmt_db_ok
      simp: insert_user_def delete_user_def upsert_access_def delete_access_def Let_def
        set_access_enabled_def insert_event_def split: if_splits option.splits)

lemma insert_node_versions [within_intros]: "stmt_within versions_advance (insert_node node)"
  by (rule stmt_withinI)
    (auto simp: versions_advance_def insert_node_db_ok insert_node_def split: if_splits)

lemma update_user_versions [within_intros]:
  "(\<And>u. u_id (g u) = u_id u \<and> u_subscription_token (g u) = u_subscription_token u) \<Longrightarrow>
     stmt_within versions_advance (update_user current key g)"
  by (rule stmt_withinI, rule versions_advance_nodes_same,
      force simp: update_user_def Let_def split: if_splits option.splits,
      erule (1) update_user_db_ok, simp_all)

lemma update_node_versions [within_intros]:
  assumes f: "\<And>n. n_id (f n) = n_id n"
    and up: "\<And>n. n_desired_config_version n \<le> n_desired_config_version (f n)"
  shows "stmt_within versions_advance (update_node current key f)"
proof (rule stmt_withinI)
  fix d x d'
  assume step: "update_node current key f d = Inr (x, d')"
  show "versions_advance d d'"
  proof (cases "find (\<lambda>n. n_id n = key) (t_nodes d)")
    case None
    with step show ?thesis by (simp add: update_node_def versions.D_refl)
  next
    case (Some old)
    let ?new = "(f old)\<lparr>n_updated_at := current\<rparr>"
    have old: "n_id old = key" "old \<in> set (t_nodes d)"
      using find_SomeD [OF Some] by auto
    have nodes: "t_nodes d' = map (\<lambda>n. if n_id n = key then ?new else n) (t_nodes d)"
      using step Some by (auto simp: update_node_def Let_def split: if_splits)
    show ?thesis
      unfolding versions_advance_def
    proof (intro impI conjI ballI)
      assume ok: "db_ok d"
      from step ok show "db_ok d'" by (rule update_node_db_ok) (simp add: f)
      fix n
      assume n: "n \<in> set (t_nodes d)"
      show "\<exists>n' \<in> set (t_nodes d'). n_id n' = n_id n \<and>
              n_desired_config_version n \<le> n_desired_config_version n'"
      proof (cases "n_id n = key")
        case True
        with ok n old have "n = old"
          using db_okD(1) [OF ok] by (simp add: distinct_map inj_on_def)
        moreover from this n True nodes have "?new \<in> set (t_nodes d')" by auto
        ultimately show ?thesis using up [of old] f [of old] by (intro bexI [of _ ?new]) auto
      next
        case False
        with n nodes have "n \<in> set (t_nodes d')" by (auto simp: image_iff)
        then show ?thesis by blast
      qed
    qed
  qed
qed

section \<open>Operations that send nothing\<close>

text \<open>No request goes to an agent, and the interactions are counted upwards.\<close>

definition sends_nothing :: "world \<Rightarrow> world \<Rightarrow> bool" where
  "sends_nothing w w' \<longleftrightarrow> w_requests w' = w_requests w"

interpretation silent: preorder_on_states sends_nothing
  by unfold_locales (auto simp: sends_nothing_def)

lemma silent_effects [within_intros]:
  "within sends_nothing (exec e stmt)"
  "within sends_nothing (query e q)"
  "within sends_nothing (clock e)"
  "within sends_nothing (Token e prefix n)"
  by (auto simp: within_def sends_nothing_def query_def exec_def clock_def Token_def Let_def
      split: option.splits fault.splits sum.splits prod.splits)

lemma silent_transaction [within_intros]:
  assumes "within sends_nothing m"
  shows "within sends_nothing (transaction e m)"
proof (rule withinI)
  fix w
  obtain r0 w1 where first: "exec e (\<lambda>_ d. Inr ((), d)) w = (r0, w1)" by force
  obtain r w2 where run: "m w1 = (r, w2)" by force
  have "w_requests w1 = w_requests w"
    using withinD [OF silent_effects(1) first] by (simp add: sends_nothing_def)
  moreover have "w_requests w2 = w_requests w1"
    using withinD [OF assms run] by (simp add: sends_nothing_def)
  ultimately show "sends_nothing w (snd (transaction e m w))"
    using first run
    by (auto simp: transaction_def bindE_def sends_nothing_def Let_def
        split: sum.splits option.splits fault.splits)
qed

text \<open>
  Requests sent are never forgotten; \<open>sent w w'\<close> are those sent between two states.
\<close>

definition sent :: "world \<Rightarrow> world \<Rightarrow> http_request list" where
  "sent w w' = drop (length (w_requests w)) (w_requests w')"

section \<open>Rows of a table after an update\<close>

definition node_row :: "db \<Rightarrow> string \<Rightarrow> Node option" where
  "node_row d key = find (\<lambda>n. n_id n = key) (t_nodes d)"

definition user_row :: "db \<Rightarrow> string \<Rightarrow> User option" where
  "user_row d key = find (\<lambda>u. u_id u = key) (t_users d)"

lemma find_replace:
  assumes "key new = k"
  shows "find (\<lambda>r. key r = j) (map (\<lambda>r. if key r = k then new else r) rows) =
         (if j = k then map_option (\<lambda>_. new) (find (\<lambda>r. key r = k) rows)
          else find (\<lambda>r. key r = j) rows)"
  using assms by (induction rows) auto

lemma update_node_row:
  assumes step: "update_node current key f d = Inr (x, d')" and f: "\<And>n. n_id (f n) = n_id n"
  shows "x = map_option (\<lambda>n. (f n)\<lparr>n_updated_at := current\<rparr>) (node_row d key)"
    and "node_row d' = (\<lambda>j. if j = key then x else node_row d j)"
    and "t_users d' = t_users d" "t_access d' = t_access d" "t_events d' = t_events d"
proof -
  have "x = map_option (\<lambda>n. (f n)\<lparr>n_updated_at := current\<rparr>) (node_row d key)
    \<and> (\<forall>j. node_row d' j = (if j = key then x else node_row d j))
    \<and> t_users d' = t_users d \<and> t_access d' = t_access d \<and> t_events d' = t_events d"
    using step
  proof (cases rule: update_node_cases)
    case absent
    then show ?thesis by (simp add: node_row_def)
  next
    case (updated old new)
    have "n_id new = key" using updated(3,4) f by simp
    then show ?thesis
      using updated(1,4,5) find_replace [of n_id new key]
      by (simp add: node_row_def updated(9) del: map_map)
  qed
  then show "x = map_option (\<lambda>n. (f n)\<lparr>n_updated_at := current\<rparr>) (node_row d key)"
    and "node_row d' = (\<lambda>j. if j = key then x else node_row d j)"
    and "t_users d' = t_users d" "t_access d' = t_access d" "t_events d' = t_events d"
    by auto
qed

end
