(* ===== verification/Node_Repo.thy ===== *)
theory Node_Repo
  imports World
begin

text \<open>
  internal/nodes/repository.go and internal/nodes/ui\_queries.go: the queries on nodes and sync
  events.  A method \<^verbatim>\<open>func (r *Repository) M\<close> is \<open>NodeRepo_M\<close>.  Rows that
  \<^verbatim>\<open>order by\<close> leaves tied come in the order of the table.
\<close>

section \<open>Reading and writing the settings\<close>

definition normalizeProtocolSettings :: "ProtocolSettings \<Rightarrow> string \<Rightarrow> string \<Rightarrow> ProtocolSettings" where
  "normalizeProtocolSettings settings protocolType nodeName =
     (let mi = ps_mieru settings; na = ps_naive settings in
      settings\<lparr>
        ps_mieru := mi\<lparr>
          mi_ports := (if length (mi_ports mi) = 0 then [''2012-2022''] else mi_ports mi),
          mi_protocol := (if mi_protocol mi = '''' then ''TCP'' else mi_protocol mi),
          mi_mtu := (if mi_mtu mi = 0 then 1400 else mi_mtu mi),
          mi_multiplexing := (if mi_multiplexing mi = '''' then ''MULTIPLEXING_HIGH'' else mi_multiplexing mi),
          mi_handshake_mode := (if mi_handshake_mode mi = '''' then ''HANDSHAKE_NO_WAIT'' else mi_handshake_mode mi),
          mi_profile := (if mi_profile mi = '''' then nodeName else mi_profile mi)\<rparr>,
        ps_naive := na\<lparr>na_port := (if na_port na = 0 then 443 else na_port na)\<rparr>\<rparr>)"

text \<open>
  What is in the column after \<^verbatim>\<open>json.Marshal(settings)\<close>: the settings, with the error rune for
  each byte of a text that is no UTF-8.  \<open>Wire\<close> has the document itself.
\<close>

definition marshaled_text :: "string \<Rightarrow> string" where
  "marshaled_text s = (if is_ascii s then s else concat (map encode_rune (runes s)))"

definition marshaled_settings :: "ProtocolSettings \<Rightarrow> ProtocolSettings" where
  "marshaled_settings settings =
     (let mi = ps_mieru settings in
      settings\<lparr>
        ps_mieru := mi\<lparr>
          mi_ports := map marshaled_text (mi_ports mi),
          mi_protocol := marshaled_text (mi_protocol mi),
          mi_multiplexing := marshaled_text (mi_multiplexing mi),
          mi_handshake_mode := marshaled_text (mi_handshake_mode mi),
          mi_traffic_pattern := marshaled_text (mi_traffic_pattern mi),
          mi_profile := marshaled_text (mi_profile mi)\<rparr>\<rparr>)"

definition scanNode :: "Node \<Rightarrow> Node" where
  "scanNode n =
     n\<lparr>n_protocol_settings :=
        normalizeProtocolSettings (n_protocol_settings n) (n_protocol_type n) (n_name n)\<rparr>"

section \<open>Queries\<close>

definition count_where :: "('a \<Rightarrow> bool) \<Rightarrow> 'a list \<Rightarrow> nat" where
  "count_where P rows = length (filter P rows)"

definition NodeRepo_Count :: "env \<Rightarrow> (nat \<times> nat) act" where
  "NodeRepo_Count e =
     query e (\<lambda>_ d. Inr (length (t_nodes d), count_where (\<lambda>n. n_last_status n = Some ''ok'') (t_nodes d)))"

definition newest_first :: "('a \<Rightarrow> time) \<Rightarrow> 'a \<Rightarrow> 'a \<Rightarrow> bool" where
  "newest_first created x y \<longleftrightarrow> created y < created x"

definition NodeRepo_List :: "env \<Rightarrow> Node list act" where
  "NodeRepo_List e =
     query e (\<lambda>_ d. Inr (map scanNode (sort_by (newest_first n_created_at) (t_nodes d))))"

definition select_node :: "string \<Rightarrow> db \<Rightarrow> goerr + Node" where
  "select_node key d =
     (case find (\<lambda>n. n_id n = key) (t_nodes d) of None \<Rightarrow> Inl NoRows | Some n \<Rightarrow> Inr n)"

definition NodeRepo_Get :: "env \<Rightarrow> string \<Rightarrow> Node act" where
  "NodeRepo_Get e key =
     bindE (exec e (\<lambda>_. uuid_arg e key (\<lambda>k. reading (select_node k)))) (\<lambda>n. retE (scanNode n))"

definition limited :: "int \<Rightarrow> 'a list \<Rightarrow> goerr + 'a list" where
  "limited limit rows =
     (if limit < 0 then Inl (PgError ''LIMIT must not be negative'' ''2201W'')
      else Inr (take (nat limit) rows))"

definition NodeRepo_RecentEvents :: "env \<Rightarrow> int \<Rightarrow> SyncEvent list act" where
  "NodeRepo_RecentEvents e limit =
     query e (\<lambda>_ d. limited limit (sort_by (newest_first ev_created_at) (t_events d)))"

definition NodeRepo_RecentEventsByNode :: "env \<Rightarrow> string \<Rightarrow> int \<Rightarrow> SyncEvent list act" where
  "NodeRepo_RecentEventsByNode e nodeID limit =
     exec e (\<lambda>_. uuid_arg e nodeID (\<lambda>k. reading (\<lambda>d.
       limited limit (sort_by (newest_first ev_created_at)
         (filter (\<lambda>ev. ev_node_id ev = k) (t_events d))))))"

record DashboardStats =
  ds_total :: nat
  ds_connected :: nat
  ds_planned :: nat
  ds_unreachable :: nat
  ds_disabled :: nat
  ds_mieru :: nat
  ds_naive :: nat
  ds_recent_sync_errors :: nat

definition dashboardStatsQuery :: "time \<Rightarrow> db \<Rightarrow> DashboardStats" where
  "dashboardStatsQuery since d =
     (let rows = t_nodes d in
      \<lparr>ds_total = length rows,
       ds_connected = count_where (\<lambda>n. n_enabled n \<and> n_setup_state n = ''connected'') rows,
       ds_planned = count_where (\<lambda>n. n_enabled n \<and> n_setup_state n = ''planned'') rows,
       ds_unreachable = count_where (\<lambda>n. n_enabled n \<and> n_setup_state n = ''unreachable'') rows,
       ds_disabled = count_where (\<lambda>n. \<not> n_enabled n \<or> n_setup_state n = ''disabled'') rows,
       ds_mieru = count_where (\<lambda>n. n_protocol_type n = ''mieru'') rows,
       ds_naive = count_where (\<lambda>n. n_protocol_type n = ''naive'') rows,
       ds_recent_sync_errors =
         count_where (\<lambda>ev. since \<le> ev_created_at ev \<and> ev_status ev \<noteq> ''ok'') (t_events d)\<rparr>)"

definition NodeRepo_DashboardStats :: "env \<Rightarrow> time \<Rightarrow> DashboardStats act" where
  "NodeRepo_DashboardStats e since = query e (\<lambda>_ d. Inr (dashboardStatsQuery since d))"

definition NodeRepo_AssignedUserCounts :: "env \<Rightarrow> (string \<rightharpoonup> nat) act" where
  "NodeRepo_AssignedUserCounts e =
     query e (\<lambda>_ d. Inr (\<lambda>k.
       if k \<in> a_node_id ` set (t_access d)
       then Some (count_where (\<lambda>a. a_node_id a = k) (t_access d)) else None))"

section \<open>Statements\<close>

definition NodeRepo_Create :: "env \<Rightarrow> CreateNodeInput \<Rightarrow> Node act" where
  "NodeRepo_Create e inp =
     (let setupState0 = (if in_mode inp = NodeModeAdopt then SetupStateConnected else SetupStatePlanned);
          setupState = (if \<not> in_enabled inp then SetupStateDisabled else setupState0);
          settings = normalizeProtocolSettings (in_protocol_settings inp) (in_protocol_type inp) (in_name inp)
      in bindE (exec e (\<lambda>t. insert_node
           \<lparr>n_id = env_uuid e t, n_node_id = in_node_id inp, n_name = in_name inp,
            n_domain = in_domain inp, n_api_url = in_api_url inp,
            n_protocol_type = ToLower (in_protocol_type inp), n_node_secret = in_node_secret inp,
            n_enabled = in_enabled inp, n_setup_state = setupState,
            n_protocol_settings = marshaled_settings settings,
            n_desired_config_version = 0, n_last_applied_version = 0, n_last_seen_at = None,
            n_last_status = None, n_last_error = None, n_last_sync_at = None,
            n_created_at = env_db_now e t, n_updated_at = env_db_now e t\<rparr>))
         (\<lambda>n. retE (scanNode n)))"

definition edit_node :: "UpdateNodeInput \<Rightarrow> Node \<Rightarrow> Node" where
  "edit_node inp n =
     n\<lparr>n_node_id := in_node_id inp, n_name := in_name inp, n_domain := in_domain inp,
       n_api_url := in_api_url inp, n_protocol_type := ToLower (in_protocol_type inp),
       n_node_secret := in_node_secret inp, n_enabled := in_enabled inp,
       n_setup_state :=
         (if \<not> in_enabled inp then ''disabled''
          else if n_setup_state n = ''disabled'' then ''planned'' else n_setup_state n),
       n_protocol_settings := marshaled_settings
         (normalizeProtocolSettings (in_protocol_settings inp) (in_protocol_type inp) (in_name inp))\<rparr>"

definition NodeRepo_Update :: "env \<Rightarrow> string \<Rightarrow> UpdateNodeInput \<Rightarrow> Node act" where
  "NodeRepo_Update e key inp =
     bindE (exec e (\<lambda>t. uuid_arg e key (\<lambda>k.
       one_row (update_node (env_db_now e t) k (edit_node inp)))))
       (\<lambda>n. retE (scanNode n))"

definition remote_state_node :: "time \<Rightarrow> int \<Rightarrow> int \<Rightarrow> string option \<Rightarrow> Node \<Rightarrow> Node" where
  "remote_state_node current currentVersion appliedVersion lastError n =
     n\<lparr>n_desired_config_version := max (n_desired_config_version n) currentVersion,
       n_last_applied_version := max (n_last_applied_version n) appliedVersion,
       n_last_seen_at := Some current, n_last_status := Some ''ok'', n_last_error := lastError,
       n_setup_state := ''connected''\<rparr>"

definition NodeRepo_SyncRemoteState :: "env \<Rightarrow> string \<Rightarrow> int \<Rightarrow> int \<Rightarrow> string option \<Rightarrow> unit act" where
  "NodeRepo_SyncRemoteState e key currentVersion appliedVersion lastError =
     (let applied = (if appliedVersion \<le> 0 then currentVersion else appliedVersion) in
      exec e (\<lambda>t. uuid_arg e key (\<lambda>k. no_result
        (update_node (env_db_now e t) k
           (remote_state_node (env_db_now e t) currentVersion applied lastError)))))"

definition NodeRepo_Delete :: "env \<Rightarrow> string \<Rightarrow> unit act" where
  "NodeRepo_Delete e key = exec e (\<lambda>_. uuid_arg e key delete_node)"

text \<open>The column is a \<^verbatim>\<open>bigint\<close>: adding one to its largest value is an error.\<close>

definition bump_node :: "Node \<Rightarrow> Node" where
  "bump_node n = n\<lparr>n_desired_config_version := n_desired_config_version n + 1\<rparr>"

definition bump_version :: "time \<Rightarrow> string \<Rightarrow> int stmt" where
  "bump_version current key d =
     (case find (\<lambda>n. n_id n = key) (t_nodes d) of
        None \<Rightarrow> Inl NoRows
      | Some old \<Rightarrow>
          (if int64_max \<le> n_desired_config_version old then Inl bigint_out_of_range
           else case one_row (update_node current key bump_node) d of
                  Inl err \<Rightarrow> Inl err
                | Inr (new, d') \<Rightarrow> Inr (n_desired_config_version new, d')))"

definition NodeRepo_BumpVersion :: "env \<Rightarrow> string \<Rightarrow> int act" where
  "NodeRepo_BumpVersion e key = exec e (\<lambda>t. uuid_arg e key (bump_version (env_db_now e t)))"

definition status_node :: "time \<Rightarrow> string \<Rightarrow> string option \<Rightarrow> Node \<Rightarrow> Node" where
  "status_node current status errText n =
     n\<lparr>n_last_status := Some status, n_last_error := errText, n_last_seen_at := Some current,
       n_setup_state := (if status = ''ok'' then ''connected'' else n_setup_state n)\<rparr>"

definition NodeRepo_MarkStatus :: "env \<Rightarrow> string \<Rightarrow> string \<Rightarrow> string option \<Rightarrow> unit act" where
  "NodeRepo_MarkStatus e key status errText =
     exec e (\<lambda>t. uuid_arg e key (\<lambda>k. no_result
       (update_node (env_db_now e t) k (status_node (env_db_now e t) status errText))))"

definition success_node :: "time \<Rightarrow> int \<Rightarrow> Node \<Rightarrow> Node" where
  "success_node current version n =
     n\<lparr>n_last_applied_version := version, n_last_sync_at := Some current, n_last_error := None,
       n_last_status := Some ''ok'', n_last_seen_at := Some current,
       n_setup_state := ''connected''\<rparr>"

definition NodeRepo_MarkSyncSuccess :: "env \<Rightarrow> string \<Rightarrow> int \<Rightarrow> unit act" where
  "NodeRepo_MarkSyncSuccess e key version =
     exec e (\<lambda>t. uuid_arg e key (\<lambda>k. no_result
       (update_node (env_db_now e t) k (success_node (env_db_now e t) version))))"

definition failure_node :: "time \<Rightarrow> string \<Rightarrow> string \<Rightarrow> Node \<Rightarrow> Node" where
  "failure_node current status message n =
     n\<lparr>n_last_error := Some message, n_last_status := Some status, n_last_seen_at := Some current,
       n_setup_state := (if status = ''http_error'' then ''unreachable'' else n_setup_state n)\<rparr>"

definition NodeRepo_MarkSyncFailure :: "env \<Rightarrow> string \<Rightarrow> string \<Rightarrow> string \<Rightarrow> unit act" where
  "NodeRepo_MarkSyncFailure e key status message =
     exec e (\<lambda>t. uuid_arg e key (\<lambda>k. no_result
       (update_node (env_db_now e t) k (failure_node (env_db_now e t) status message))))"

text \<open>
  A body bound to a \<^verbatim>\<open>jsonb\<close> column: a nil slice is null, any other is parsed by the server,
  which keeps its own spelling of the value or refuses the text.
\<close>

definition jsonb_arg :: "env \<Rightarrow> string option \<Rightarrow> goerr + string option" where
  "jsonb_arg e body =
     (case body of
        None \<Rightarrow> Inr None
      | Some text \<Rightarrow>
          (case env_jsonb e text of
             None \<Rightarrow> Inl (PgError ''invalid input syntax for type json'' ''22P02'')
           | Some stored \<Rightarrow> Inr (Some stored)))"

definition NodeRepo_InsertSyncEvent ::
    "env \<Rightarrow> string \<Rightarrow> int \<Rightarrow> string \<Rightarrow> int option \<Rightarrow> string option \<Rightarrow> string option
       \<Rightarrow> string option \<Rightarrow> unit act" where
  "NodeRepo_InsertSyncEvent e nodeID version status httpStatus requestJSON responseJSON errText =
     exec e (\<lambda>t. uuid_arg e nodeID (\<lambda>k d.
       case jsonb_arg e requestJSON of
         Inl err \<Rightarrow> Inl err
       | Inr request \<Rightarrow>
           (case jsonb_arg e responseJSON of
              Inl err \<Rightarrow> Inl err
            | Inr response \<Rightarrow>
                insert_event
                  \<lparr>ev_id = env_uuid e t, ev_node_id = k, ev_config_version = version,
                   ev_status = status, ev_http_status = httpStatus, ev_request_json = request,
                   ev_response_json = response, ev_error = errText,
                   ev_created_at = env_db_now e t\<rparr> d)))"

section \<open>Every method keeps the integrity of the tables\<close>

lemma edit_functions_id [simp]:
  "n_id (edit_node inp n) = n_id n" "n_id (remote_state_node current v a err n) = n_id n"
  "n_id (bump_node n) = n_id n" "n_id (status_node current s et n) = n_id n"
  "n_id (success_node current v n) = n_id n" "n_id (failure_node current s m n) = n_id n"
  by (simp_all add: edit_node_def remote_state_node_def bump_node_def status_node_def
      success_node_def failure_node_def)

lemma edit_functions_version [simp]:
  "n_desired_config_version (edit_node inp n) = n_desired_config_version n"
  "n_desired_config_version (remote_state_node current v a err n) = max (n_desired_config_version n) v"
  "n_desired_config_version (bump_node n) = n_desired_config_version n + 1"
  "n_desired_config_version (status_node current s et n) = n_desired_config_version n"
  "n_desired_config_version (success_node current v n) = n_desired_config_version n"
  "n_desired_config_version (failure_node current s m n) = n_desired_config_version n"
  by (simp_all add: edit_node_def remote_state_node_def bump_node_def status_node_def
      success_node_def failure_node_def)

lemma stmt_within_bump_version:
  "stmt_within D (update_node current key bump_node) \<Longrightarrow> stmt_within D (bump_version current key)"
  by (auto simp: stmt_within_def bump_version_def one_row_def
      split: option.splits if_splits sum.splits)

lemmas NodeRepo_defs =
  NodeRepo_Count_def NodeRepo_List_def NodeRepo_Get_def NodeRepo_RecentEvents_def
  NodeRepo_RecentEventsByNode_def NodeRepo_DashboardStats_def NodeRepo_AssignedUserCounts_def
  NodeRepo_Create_def NodeRepo_Update_def NodeRepo_SyncRemoteState_def NodeRepo_Delete_def
  NodeRepo_BumpVersion_def NodeRepo_MarkStatus_def NodeRepo_MarkSyncSuccess_def
  NodeRepo_MarkSyncFailure_def NodeRepo_InsertSyncEvent_def

lemma stmt_within_event:
  assumes "\<And>ev. stmt_within D (insert_event ev)"
  shows "stmt_within D (\<lambda>d. case jsonb_arg e q of Inl err \<Rightarrow> Inl err
           | Inr request \<Rightarrow> (case jsonb_arg e p of Inl err \<Rightarrow> Inl err
               | Inr response \<Rightarrow> insert_event (ev request response) d))"
  using assms by (auto simp: stmt_within_def split: sum.splits)

lemma stmt_within_reading: "(\<And>d. D d d) \<Longrightarrow> stmt_within D (reading q)"
  by (auto simp: stmt_within_def reading_def split: sum.splits)

lemmas repo_stmt_intros = within_intros stmt_within_event stmt_within_bump_version stmt_within_reading

lemma NodeRepo_integrity [within_intros]:
  "within (db_rel keeps_integrity) (NodeRepo_Count e)"
  "within (db_rel keeps_integrity) (NodeRepo_List e)"
  "within (db_rel keeps_integrity) (NodeRepo_Get e key)"
  "within (db_rel keeps_integrity) (NodeRepo_RecentEvents e lim)"
  "within (db_rel keeps_integrity) (NodeRepo_RecentEventsByNode e key lim)"
  "within (db_rel keeps_integrity) (NodeRepo_DashboardStats e since)"
  "within (db_rel keeps_integrity) (NodeRepo_AssignedUserCounts e)"
  "within (db_rel keeps_integrity) (NodeRepo_Create e inp)"
  "within (db_rel keeps_integrity) (NodeRepo_Update e key inp)"
  "within (db_rel keeps_integrity) (NodeRepo_SyncRemoteState e key v a err)"
  "within (db_rel keeps_integrity) (NodeRepo_Delete e key)"
  "within (db_rel keeps_integrity) (NodeRepo_BumpVersion e key)"
  "within (db_rel keeps_integrity) (NodeRepo_MarkStatus e key s et)"
  "within (db_rel keeps_integrity) (NodeRepo_MarkSyncSuccess e key v)"
  "within (db_rel keeps_integrity) (NodeRepo_MarkSyncFailure e key s m)"
  "within (db_rel keeps_integrity) (NodeRepo_InsertSyncEvent e key v s h rq rs et)"
  unfolding NodeRepo_defs Let_def
  by ((rule integrity.effect_rules repo_stmt_intros integrity.D_refl | simp)+)

lemma NodeRepo_versions [within_intros]:
  "within (db_rel versions_advance) (NodeRepo_List e)"
  "within (db_rel versions_advance) (NodeRepo_Get e key)"
  "within (db_rel versions_advance) (NodeRepo_Create e inp)"
  "within (db_rel versions_advance) (NodeRepo_Update e key inp)"
  "within (db_rel versions_advance) (NodeRepo_SyncRemoteState e key v a err)"
  "within (db_rel versions_advance) (NodeRepo_BumpVersion e key)"
  "within (db_rel versions_advance) (NodeRepo_MarkStatus e key s et)"
  "within (db_rel versions_advance) (NodeRepo_MarkSyncSuccess e key v)"
  "within (db_rel versions_advance) (NodeRepo_MarkSyncFailure e key s m)"
  "within (db_rel versions_advance) (NodeRepo_InsertSyncEvent e key v s h rq rs et)"
  unfolding NodeRepo_defs Let_def
  by ((rule versions.effect_rules repo_stmt_intros versions.D_refl | simp)+)

lemma NodeRepo_silent [within_intros]:
  "within sends_nothing (NodeRepo_List e)"
  "within sends_nothing (NodeRepo_Get e key)"
  "within sends_nothing (NodeRepo_Create e inp)"
  "within sends_nothing (NodeRepo_Update e key inp)"
  "within sends_nothing (NodeRepo_Delete e key)"
  "within sends_nothing (NodeRepo_SyncRemoteState e key v a err)"
  "within sends_nothing (NodeRepo_BumpVersion e key)"
  "within sends_nothing (NodeRepo_MarkStatus e key s et)"
  "within sends_nothing (NodeRepo_MarkSyncSuccess e key v)"
  "within sends_nothing (NodeRepo_MarkSyncFailure e key s m)"
  "within sends_nothing (NodeRepo_InsertSyncEvent e key v s h rq rs et)"
  unfolding NodeRepo_defs Let_def
  by (intro silent.rules silent_effects)+

end
