(* ===== verification/User_Repo.thy ===== *)
theory User_Repo
  imports Node_Repo
begin

text \<open>
  internal/users: the queries of repository.go and ui\_queries.go (a method
  \<^verbatim>\<open>func (r *Repository) M\<close> is \<open>UserRepo_M\<close>), the insertion of a user with its
  assignments in one transaction, and \<^verbatim>\<open>Service.CreateUser\<close> of service.go.
\<close>

section \<open>Reading users\<close>

definition UserRepo_Count :: "env \<Rightarrow> nat act" where
  "UserRepo_Count e = query e (\<lambda>_ d. Inr (length (t_users d)))"

definition UserRepo_List :: "env \<Rightarrow> User list act" where
  "UserRepo_List e = query e (\<lambda>_ d. Inr (sort_by (newest_first u_created_at) (t_users d)))"

definition select_user :: "string \<Rightarrow> db \<Rightarrow> goerr + User" where
  "select_user key d =
     (case find (\<lambda>u. u_id u = key) (t_users d) of None \<Rightarrow> Inl NoRows | Some u \<Rightarrow> Inr u)"

definition UserRepo_Get :: "env \<Rightarrow> string \<Rightarrow> User act" where
  "UserRepo_Get e key = exec e (\<lambda>_. uuid_arg e key (\<lambda>k. reading (select_user k)))"

definition select_user_by_token :: "string \<Rightarrow> db \<Rightarrow> goerr + User" where
  "select_user_by_token token d =
     (case find (\<lambda>u. u_subscription_token u = token) (t_users d) of
        None \<Rightarrow> Inl NoRows | Some u \<Rightarrow> Inr u)"

definition UserRepo_GetByToken :: "env \<Rightarrow> string \<Rightarrow> User act" where
  "UserRepo_GetByToken e token = query e (\<lambda>_. select_user_by_token token)"

text \<open>A user whose last expiry has not been sent to the nodes yet.\<close>

definition pending_expiry :: "time \<Rightarrow> User \<Rightarrow> bool" where
  "pending_expiry current u \<longleftrightarrow>
     u_enabled u \<and>
     (case u_expires_at u of
        None \<Rightarrow> False
      | Some x \<Rightarrow> x \<le> current \<and>
          (case u_expiry_synced_at u of None \<Rightarrow> True | Some s \<Rightarrow> s < x))"

definition expires_first :: "User \<Rightarrow> User \<Rightarrow> bool" where
  "expires_first u v =
     (case (u_expires_at u, u_expires_at v) of (Some x, Some y) \<Rightarrow> x < y | _ \<Rightarrow> False)"

definition UserRepo_UsersPendingExpiryReconcile :: "env \<Rightarrow> User list act" where
  "UserRepo_UsersPendingExpiryReconcile e =
     query e (\<lambda>t d. Inr (sort_by expires_first (filter (pending_expiry (env_db_now e t)) (t_users d))))"

definition UserRepo_UpcomingExpirations :: "env \<Rightarrow> int \<Rightarrow> User list act" where
  "UserRepo_UpcomingExpirations e limit =
     query e (\<lambda>t d. limited limit (sort_by expires_first
       (filter (\<lambda>u. u_enabled u \<and> (\<exists>x \<in> set_option (u_expires_at u). env_db_now e t < x)) (t_users d))))"

record UserDashboardStats =
  us_total :: nat
  us_active :: nat
  us_expired :: nat
  us_disabled :: nat
  us_expires_soon :: nat

definition user_stats :: "time \<Rightarrow> time \<Rightarrow> db \<Rightarrow> UserDashboardStats" where
  "user_stats current soonBefore d =
     (let rows = t_users d in
      \<lparr>us_total = length rows,
       us_active = count_where (\<lambda>u. u_enabled u \<and> \<not> IsExpired current (u_expires_at u)) rows,
       us_expired = count_where (\<lambda>u. u_enabled u \<and> IsExpired current (u_expires_at u)) rows,
       us_disabled = count_where (\<lambda>u. \<not> u_enabled u) rows,
       us_expires_soon =
         count_where (\<lambda>u. u_enabled u \<and>
           (case u_expires_at u of None \<Rightarrow> False | Some x \<Rightarrow> current < x \<and> x \<le> soonBefore)) rows\<rparr>)"

definition UserRepo_DashboardStats :: "env \<Rightarrow> time \<Rightarrow> UserDashboardStats act" where
  "UserRepo_DashboardStats e soonBefore =
     query e (\<lambda>t d. Inr (user_stats (env_db_now e t) soonBefore d))"

section \<open>Reading assignments\<close>

definition oldest_first :: "('a \<Rightarrow> time) \<Rightarrow> 'a \<Rightarrow> 'a \<Rightarrow> bool" where
  "oldest_first created x y \<longleftrightarrow> created x < created y"

definition UserRepo_AccessByID :: "env \<Rightarrow> string \<Rightarrow> string \<Rightarrow> Access act" where
  "UserRepo_AccessByID e userID accessID =
     exec e (\<lambda>_. uuid_arg e userID (\<lambda>uid. uuid_arg e accessID (\<lambda>aid. reading (\<lambda>d.
       case find (\<lambda>a. a_user_id a = uid \<and> a_id a = aid) (t_access d) of
         None \<Rightarrow> Inl NoRows | Some a \<Rightarrow> Inr a))))"

definition UserRepo_AccessForUser :: "env \<Rightarrow> string \<Rightarrow> Access list act" where
  "UserRepo_AccessForUser e userID =
     exec e (\<lambda>_. uuid_arg e userID (\<lambda>uid. reading (\<lambda>d.
       Inr (sort_by (oldest_first a_created_at) (filter (\<lambda>a. a_user_id a = uid) (t_access d))))))"

definition active_access_rows :: "time \<Rightarrow> string \<Rightarrow> db \<Rightarrow> AccessWithUser list" where
  "active_access_rows current nid d =
     [\<lparr>wu_access = a, wu_username = u_username u, wu_user_enabled = u_enabled u,
       wu_user_expires_at = u_expires_at u, wu_user_quota_mb = u_quota_mb u\<rparr>.
      a \<leftarrow> t_access d, u \<leftarrow> t_users d,
      u_id u = a_user_id a, a_node_id a = nid, a_enabled a, u_enabled u,
      \<not> IsExpired current (u_expires_at u)]"

definition UserRepo_ActiveAccessForNode :: "env \<Rightarrow> string \<Rightarrow> AccessWithUser list act" where
  "UserRepo_ActiveAccessForNode e nodeID =
     exec e (\<lambda>t. uuid_arg e nodeID (\<lambda>nid. reading (\<lambda>d.
       Inr (sort_by (\<lambda>x y. env_collate e (wu_username x) (wu_username y))
              (active_access_rows (env_db_now e t) nid d)))))"

definition subscription_rows :: "string \<Rightarrow> db \<Rightarrow> AccessWithNode list" where
  "subscription_rows uid d =
     [\<lparr>wn_access = a, wn_agent_node_id = n_node_id n, wn_node_name = n_name n,
       wn_node_domain = n_domain n, wn_node_api_url = n_api_url n,
       wn_node_protocol_type = n_protocol_type n,
       wn_node_protocol_settings = n_protocol_settings n\<rparr>.
      a \<leftarrow> t_access d, n \<leftarrow> t_nodes d,
      n_id n = a_node_id a, a_user_id a = uid, a_enabled a, n_enabled n]"

definition UserRepo_ActiveAccessForSubscription :: "env \<Rightarrow> string \<Rightarrow> AccessWithNode list act" where
  "UserRepo_ActiveAccessForSubscription e userID =
     exec e (\<lambda>_. uuid_arg e userID (\<lambda>uid. reading (\<lambda>d.
       Inr (sort_by (\<lambda>x y. env_collate e (wn_node_name x) (wn_node_name y)) (subscription_rows uid d)))))"

definition activeNodeIDsForExpiredUserQuery :: "string \<Rightarrow> db \<Rightarrow> string list" where
  "activeNodeIDsForExpiredUserQuery uid d =
     sort_by (<) (remdups
       [n_id n. a \<leftarrow> t_access d, n \<leftarrow> t_nodes d,
        n_id n = a_node_id a, a_user_id a = uid, a_enabled a, n_api_url n \<noteq> ''''])"

definition UserRepo_ActiveNodeIDsForExpiredUser :: "env \<Rightarrow> string \<Rightarrow> string list act" where
  "UserRepo_ActiveNodeIDsForExpiredUser e userID =
     exec e (\<lambda>_. uuid_arg e userID (\<lambda>uid. reading (\<lambda>d. Inr (activeNodeIDsForExpiredUserQuery uid d))))"

definition UserRepo_AssignmentCounts :: "env \<Rightarrow> (string \<rightharpoonup> nat) act" where
  "UserRepo_AssignmentCounts e =
     query e (\<lambda>_ d. Inr (\<lambda>k.
       if k \<in> a_user_id ` set (t_access d)
       then Some (count_where (\<lambda>a. a_user_id a = k) (t_access d)) else None))"

record UserNodeAccessDetail =
  ud_access :: Access
  ud_node_name :: string
  ud_node_enabled :: bool
  ud_node_setup_state :: string
  ud_node_protocol_type :: string

definition UserRepo_AccessDetailForUser :: "env \<Rightarrow> string \<Rightarrow> UserNodeAccessDetail list act" where
  "UserRepo_AccessDetailForUser e userID =
     exec e (\<lambda>_. uuid_arg e userID (\<lambda>uid. reading (\<lambda>d.
       Inr (sort_by (\<lambda>x y. env_collate e (ud_node_name x) (ud_node_name y))
         [\<lparr>ud_access = a, ud_node_name = n_name n, ud_node_enabled = n_enabled n,
           ud_node_setup_state = n_setup_state n, ud_node_protocol_type = n_protocol_type n\<rparr>.
          a \<leftarrow> t_access d, n \<leftarrow> t_nodes d, n_id n = a_node_id a, a_user_id a = uid]))))"

record NodeUserAccessDetail =
  nd_access :: Access
  nd_username :: string
  nd_display_name :: "string option"
  nd_user_enabled :: bool
  nd_user_expires_at :: "time option"
  nd_user_quota_mb :: int

definition UserRepo_AccessDetailForNode :: "env \<Rightarrow> string \<Rightarrow> NodeUserAccessDetail list act" where
  "UserRepo_AccessDetailForNode e nodeID =
     exec e (\<lambda>_. uuid_arg e nodeID (\<lambda>nid. reading (\<lambda>d.
       Inr (sort_by (\<lambda>x y. env_collate e (nd_username x) (nd_username y))
         [\<lparr>nd_access = a, nd_username = u_username u, nd_display_name = u_display_name u,
           nd_user_enabled = u_enabled u, nd_user_expires_at = u_expires_at u,
           nd_user_quota_mb = u_quota_mb u\<rparr>.
          a \<leftarrow> t_access d, u \<leftarrow> t_users d, u_id u = a_user_id a, a_node_id a = nid]))))"

record SessionLookup =
  sl_user_id :: string
  sl_node_id :: string
  sl_protocol_username :: string

definition session_lookup :: "Access \<Rightarrow> SessionLookup" where
  "session_lookup a =
     \<lparr>sl_user_id = a_user_id a, sl_node_id = a_node_id a,
      sl_protocol_username = a_protocol_username a\<rparr>"

definition UserRepo_SessionLookupForUser :: "env \<Rightarrow> string \<Rightarrow> SessionLookup list act" where
  "UserRepo_SessionLookupForUser e userID =
     exec e (\<lambda>_. uuid_arg e userID (\<lambda>uid. reading (\<lambda>d.
       Inr (map session_lookup (filter (\<lambda>a. a_user_id a = uid) (t_access d))))))"

text \<open>The ids are parsed by the driver here; repeated spellings are kept once.\<close>

fun lookup_ids :: "env \<Rightarrow> string list \<Rightarrow> string list \<Rightarrow> goerr + string list" where
  "lookup_ids e seen [] = Inr []"
| "lookup_ids e seen (nodeID # rest) =
     (if nodeID = '''' then Inl (Errorf ''invalid node id for session lookup: empty value'')
      else if nodeID \<in> set seen then lookup_ids e seen rest
      else case env_scan_uuid e nodeID of
        Inl err \<Rightarrow> Inl (Wrapf (''invalid node id for session lookup '' @ Quote nodeID) err)
      | Inr parsed \<Rightarrow>
          (case lookup_ids e (nodeID # seen) rest of
             Inl err \<Rightarrow> Inl err | Inr ids \<Rightarrow> Inr (parsed # ids)))"

definition normalizeNodeLookupIDs :: "env \<Rightarrow> string list \<Rightarrow> goerr + string list" where
  "normalizeNodeLookupIDs e nodeIDs = lookup_ids e [] nodeIDs"

definition UserRepo_SessionLookupForNodes :: "env \<Rightarrow> string list \<Rightarrow> SessionLookup list act" where
  "UserRepo_SessionLookupForNodes e nodeIDs =
     bindE (liftE (normalizeNodeLookupIDs e nodeIDs)) (\<lambda>typedIDs.
       if typedIDs = [] then retE []
       else query e (\<lambda>_ d.
         Inr (map session_lookup (filter (\<lambda>a. a_node_id a \<in> set typedIDs) (t_access d)))))"

section \<open>Statements\<close>

definition new_user :: "env \<Rightarrow> nat \<Rightarrow> CreateUserInput \<Rightarrow> string \<Rightarrow> User" where
  "new_user e t inp token =
     \<lparr>u_id = env_uuid e t, u_username = iu_username inp, u_display_name = iu_display_name inp,
      u_enabled = iu_enabled inp,
      u_expires_at = map_option (env_timestamptz e) (iu_expires_at inp),
      u_expiry_synced_at = None, u_quota_mb = iu_quota_mb inp,
      u_subscription_token = token, u_notes = iu_notes inp,
      u_created_at = env_db_now e t, u_updated_at = env_db_now e t\<rparr>"

definition createUserWithQuerier :: "env \<Rightarrow> CreateUserInput \<Rightarrow> string \<Rightarrow> User act" where
  "createUserWithQuerier e inp token =
     exec e (\<lambda>t. int4_arg e (iu_quota_mb inp) (insert_user (new_user e t inp token)))"

definition UserRepo_Create :: "env \<Rightarrow> CreateUserInput \<Rightarrow> string \<Rightarrow> User act" where
  "UserRepo_Create e inp token = createUserWithQuerier e inp token"

definition new_access ::
    "env \<Rightarrow> nat \<Rightarrow> string \<Rightarrow> string \<Rightarrow> string \<Rightarrow> string \<Rightarrow> string \<Rightarrow> Access" where
  "new_access e t uid nid protocolType username password =
     \<lparr>a_id = env_uuid e t, a_user_id = uid, a_node_id = nid, a_protocol_type = protocolType,
      a_protocol_username = username, a_protocol_password = password, a_enabled = True,
      a_created_at = env_db_now e t, a_updated_at = env_db_now e t\<rparr>"

definition assignNodeWithExecutor ::
    "env \<Rightarrow> string \<Rightarrow> string \<Rightarrow> string \<Rightarrow> string \<Rightarrow> string \<Rightarrow> unit act" where
  "assignNodeWithExecutor e userID nodeID protocolType username password =
     exec e (\<lambda>t. uuid_arg e userID (\<lambda>uid. uuid_arg e nodeID (\<lambda>nid.
       upsert_access (env_db_now e t) (new_access e t uid nid protocolType username password))))"

definition UserRepo_AssignNode ::
    "env \<Rightarrow> string \<Rightarrow> string \<Rightarrow> string \<Rightarrow> string \<Rightarrow> string \<Rightarrow> unit act" where
  "UserRepo_AssignNode e userID nodeID protocolType username password =
     assignNodeWithExecutor e userID nodeID protocolType username password"

definition UserRepo_CreateWithAssignments ::
    "env \<Rightarrow> CreateUserInput \<Rightarrow> string \<Rightarrow> (string \<rightharpoonup> string) \<Rightarrow> AssignmentCredential list
       \<Rightarrow> User act" where
  "UserRepo_CreateWithAssignments e inp token nodeProtocols creds =
     transaction e
       (bindE (createUserWithQuerier e inp token) (\<lambda>user.
        thenE
          (forE (\<lambda>cred _.
             case nodeProtocols (ac_node_id cred) of
               None \<Rightarrow> failE NoRows
             | Some protocol \<Rightarrow>
                 if protocol = '''' then failE NoRows
                 else assignNodeWithExecutor e (u_id user) (ac_node_id cred) protocol
                        (ac_protocol_username cred) (ac_protocol_password cred))
             creds ())
          (retE user)))"

definition edit_user :: "env \<Rightarrow> UpdateUserInput \<Rightarrow> User \<Rightarrow> User" where
  "edit_user e inp u =
     u\<lparr>u_username := iu_username inp, u_display_name := iu_display_name inp,
       u_enabled := iu_enabled inp,
       u_expires_at := map_option (env_timestamptz e) (iu_expires_at inp),
       u_quota_mb := iu_quota_mb inp, u_notes := iu_notes inp\<rparr>"

definition UserRepo_Update :: "env \<Rightarrow> string \<Rightarrow> UpdateUserInput \<Rightarrow> User act" where
  "UserRepo_Update e key inp =
     exec e (\<lambda>t. int4_arg e (iu_quota_mb inp) (uuid_arg e key (\<lambda>k.
       one_row (update_user (env_db_now e t) k (edit_user e inp)))))"

definition UserRepo_SetEnabled :: "env \<Rightarrow> string \<Rightarrow> bool \<Rightarrow> unit act" where
  "UserRepo_SetEnabled e key enabled =
     exec e (\<lambda>t. uuid_arg e key (\<lambda>k. no_result
       (update_user (env_db_now e t) k (\<lambda>u. u\<lparr>u_enabled := enabled\<rparr>))))"

definition UserRepo_Delete :: "env \<Rightarrow> string \<Rightarrow> unit act" where
  "UserRepo_Delete e key = exec e (\<lambda>_. uuid_arg e key delete_user)"

definition UserRepo_UnassignNode :: "env \<Rightarrow> string \<Rightarrow> string \<Rightarrow> unit act" where
  "UserRepo_UnassignNode e userID nodeID =
     exec e (\<lambda>_. uuid_arg e userID (\<lambda>uid. uuid_arg e nodeID (\<lambda>nid. delete_access uid nid)))"

definition UserRepo_SetAccessEnabled :: "env \<Rightarrow> string \<Rightarrow> string \<Rightarrow> bool \<Rightarrow> unit act" where
  "UserRepo_SetAccessEnabled e userID accessID enabled =
     exec e (\<lambda>t. uuid_arg e userID (\<lambda>uid. uuid_arg e accessID (\<lambda>aid.
       set_access_enabled (env_db_now e t) uid aid enabled)))"

definition UserRepo_MarkExpirySynced :: "env \<Rightarrow> string \<Rightarrow> unit act" where
  "UserRepo_MarkExpirySynced e userID =
     exec e (\<lambda>t. uuid_arg e userID (\<lambda>k. no_result
       (update_user (env_db_now e t) k (\<lambda>u. u\<lparr>u_expiry_synced_at := Some (env_db_now e t)\<rparr>))))"

section \<open>Creating a user\<close>

text \<open>A missing key reads as the empty string in Go.\<close>

definition map_get :: "(string \<rightharpoonup> string) \<Rightarrow> string \<Rightarrow> string" where
  "map_get m k = (case m k of None \<Rightarrow> '''' | Some v \<Rightarrow> v)"

definition issue_credentials ::
    "env \<Rightarrow> (string \<rightharpoonup> string) \<Rightarrow> string list \<Rightarrow> AssignmentCredential list act" where
  "issue_credentials e nodeProtocols nodeIDs =
     forE (\<lambda>nodeID creds.
       if map_get nodeProtocols nodeID = ''''
       then failE (Errorf (''unknown node protocol for node '' @ nodeID))
       else bindE (Token e ''u'' 8) (\<lambda>protocolUser.
            bindE (Token e ''p'' 18) (\<lambda>protocolPassword.
            retE (creds @ [\<lparr>ac_node_id = nodeID, ac_protocol_username = protocolUser,
                            ac_protocol_password = protocolPassword\<rparr>])))) nodeIDs []"

definition CreateUser :: "env \<Rightarrow> CreateUserInput \<Rightarrow> (string \<rightharpoonup> string) \<Rightarrow> User act" where
  "CreateUser e inp nodeProtocols =
     bindE (Token e ''sub'' 24) (\<lambda>token.
     bindE (issue_credentials e nodeProtocols (iu_node_ids inp)) (\<lambda>creds.
     bindE (attemptE (UserRepo_CreateWithAssignments e inp token nodeProtocols creds)) (\<lambda>r.
       case r of
         Inl err \<Rightarrow> failE (Wrapf ''create user with assignments'' err)
       | Inr user \<Rightarrow> retE user)))"

section \<open>Every method keeps the integrity of the tables and the nodes' versions\<close>

lemmas UserRepo_read_defs =
  UserRepo_Count_def UserRepo_List_def UserRepo_Get_def UserRepo_GetByToken_def
  UserRepo_UsersPendingExpiryReconcile_def UserRepo_UpcomingExpirations_def
  UserRepo_DashboardStats_def UserRepo_AccessByID_def UserRepo_AccessForUser_def
  UserRepo_ActiveAccessForNode_def UserRepo_ActiveAccessForSubscription_def
  UserRepo_ActiveNodeIDsForExpiredUser_def UserRepo_AssignmentCounts_def
  UserRepo_AccessDetailForUser_def UserRepo_AccessDetailForNode_def
  UserRepo_SessionLookupForUser_def UserRepo_SessionLookupForNodes_def

lemmas UserRepo_write_defs =
  createUserWithQuerier_def UserRepo_Create_def assignNodeWithExecutor_def
  UserRepo_AssignNode_def UserRepo_CreateWithAssignments_def UserRepo_Update_def
  UserRepo_SetEnabled_def UserRepo_Delete_def UserRepo_UnassignNode_def
  UserRepo_SetAccessEnabled_def UserRepo_MarkExpirySynced_def issue_credentials_def CreateUser_def

lemma edit_user_key [simp]:
  "u_id (edit_user e inp u) = u_id u" "u_subscription_token (edit_user e inp u) = u_subscription_token u"
  by (simp_all add: edit_user_def)

lemma UserRepo_read_integrity [within_intros]:
  "within (db_rel keeps_integrity) (UserRepo_Count e)"
  "within (db_rel keeps_integrity) (UserRepo_List e)"
  "within (db_rel keeps_integrity) (UserRepo_Get e k)"
  "within (db_rel keeps_integrity) (UserRepo_GetByToken e token)"
  "within (db_rel keeps_integrity) (UserRepo_UsersPendingExpiryReconcile e)"
  "within (db_rel keeps_integrity) (UserRepo_UpcomingExpirations e lim)"
  "within (db_rel keeps_integrity) (UserRepo_DashboardStats e soon)"
  "within (db_rel keeps_integrity) (UserRepo_AccessByID e k aid)"
  "within (db_rel keeps_integrity) (UserRepo_AccessForUser e k)"
  "within (db_rel keeps_integrity) (UserRepo_ActiveAccessForNode e k)"
  "within (db_rel keeps_integrity) (UserRepo_ActiveAccessForSubscription e k)"
  "within (db_rel keeps_integrity) (UserRepo_ActiveNodeIDsForExpiredUser e k)"
  "within (db_rel keeps_integrity) (UserRepo_AssignmentCounts e)"
  "within (db_rel keeps_integrity) (UserRepo_AccessDetailForUser e k)"
  "within (db_rel keeps_integrity) (UserRepo_AccessDetailForNode e k)"
  "within (db_rel keeps_integrity) (UserRepo_SessionLookupForUser e k)"
  "within (db_rel keeps_integrity) (UserRepo_SessionLookupForNodes e ks)"
  unfolding UserRepo_read_defs
  by ((rule integrity.effect_rules repo_stmt_intros integrity.D_refl | simp)+)

lemma UserRepo_read_versions [within_intros]:
  "within (db_rel versions_advance) (UserRepo_List e)"
  "within (db_rel versions_advance) (UserRepo_Get e k)"
  "within (db_rel versions_advance) (UserRepo_GetByToken e token)"
  "within (db_rel versions_advance) (UserRepo_UsersPendingExpiryReconcile e)"
  "within (db_rel versions_advance) (UserRepo_AccessByID e k aid)"
  "within (db_rel versions_advance) (UserRepo_AccessForUser e k)"
  "within (db_rel versions_advance) (UserRepo_ActiveAccessForNode e k)"
  "within (db_rel versions_advance) (UserRepo_ActiveAccessForSubscription e k)"
  "within (db_rel versions_advance) (UserRepo_ActiveNodeIDsForExpiredUser e k)"
  "within (db_rel versions_advance) (UserRepo_SessionLookupForUser e k)"
  "within (db_rel versions_advance) (UserRepo_SessionLookupForNodes e ks)"
  unfolding UserRepo_read_defs
  by ((rule versions.effect_rules repo_stmt_intros versions.D_refl | simp)+)

lemma UserRepo_write_integrity [within_intros]:
  "within (db_rel keeps_integrity) (UserRepo_Create e inp token)"
  "within (db_rel keeps_integrity) (UserRepo_AssignNode e uid nid pt un pw)"
  "within (db_rel keeps_integrity) (UserRepo_CreateWithAssignments e inp token nps creds)"
  "within (db_rel keeps_integrity) (UserRepo_Update e k inp)"
  "within (db_rel keeps_integrity) (UserRepo_SetEnabled e k b)"
  "within (db_rel keeps_integrity) (UserRepo_Delete e k)"
  "within (db_rel keeps_integrity) (UserRepo_UnassignNode e uid nid)"
  "within (db_rel keeps_integrity) (UserRepo_SetAccessEnabled e uid aid b)"
  "within (db_rel keeps_integrity) (UserRepo_MarkExpirySynced e uid)"
  "within (db_rel keeps_integrity) (CreateUser e inp nps)"
  unfolding UserRepo_write_defs
  by ((rule integrity.effect_rules repo_stmt_intros integrity.D_refl | simp)+)

lemma UserRepo_write_versions [within_intros]:
  "within (db_rel versions_advance) (UserRepo_Create e inp token)"
  "within (db_rel versions_advance) (UserRepo_AssignNode e uid nid pt un pw)"
  "within (db_rel versions_advance) (UserRepo_CreateWithAssignments e inp token nps creds)"
  "within (db_rel versions_advance) (UserRepo_Update e k inp)"
  "within (db_rel versions_advance) (UserRepo_SetEnabled e k b)"
  "within (db_rel versions_advance) (UserRepo_Delete e k)"
  "within (db_rel versions_advance) (UserRepo_UnassignNode e uid nid)"
  "within (db_rel versions_advance) (UserRepo_SetAccessEnabled e uid aid b)"
  "within (db_rel versions_advance) (UserRepo_MarkExpirySynced e uid)"
  "within (db_rel versions_advance) (CreateUser e inp nps)"
  unfolding UserRepo_write_defs
  by ((rule versions.effect_rules repo_stmt_intros versions.D_refl | simp)+)

lemma UserRepo_silent [within_intros]:
  "within sends_nothing (UserRepo_List e)"
  "within sends_nothing (UserRepo_Get e k)"
  "within sends_nothing (UserRepo_UsersPendingExpiryReconcile e)"
  "within sends_nothing (UserRepo_ActiveAccessForNode e k)"
  "within sends_nothing (UserRepo_ActiveNodeIDsForExpiredUser e k)"
  "within sends_nothing (UserRepo_MarkExpirySynced e uid)"
  "within sends_nothing (CreateUser e inp nps)"
  unfolding UserRepo_read_defs UserRepo_write_defs
  by ((rule silent.rules silent_effects silent_transaction | simp)+)

end
