(* ===== verification/Agent_Client.thy ===== *)
theory Agent_Client
  imports World
begin

text \<open>
  internal/nodes/agent\_client.go: the requests to a node agent.  A function that returns a
  result beside its error gives both here, the error as an option.  The request timeouts are in
  the environment: an exchange that takes too long is one that fails.
\<close>

record AgentCallResult =
  cr_status_code :: int
  cr_body :: "string option"

definition zero_AgentCallResult :: AgentCallResult where
  "zero_AgentCallResult = \<lparr>cr_status_code = 0, cr_body = None\<rparr>"

text \<open>The body as \<^verbatim>\<open>json.Unmarshal\<close> and \<^verbatim>\<open>string(b)\<close> see it: nil is empty.\<close>

definition body_text :: "string option \<Rightarrow> string" where
  "body_text body = (case body of None \<Rightarrow> '''' | Some b \<Rightarrow> b)"

definition agent_request :: "Node \<Rightarrow> string \<Rightarrow> string \<Rightarrow> string option \<Rightarrow> http_request" where
  "agent_request node method path body =
     \<lparr>rq_method = method, rq_url = TrimRightByte (n_api_url node) CHR ''/'' @ path,
      rq_authorization = ''Bearer '' @ n_node_secret node, rq_x_node_id = n_node_id node,
      rq_content_type = ''application/json'', rq_body = body_text body\<rparr>"

text \<open>The limit on a response body, \<^verbatim>\<open>1<<20\<close> bytes.\<close>

definition body_limit :: nat where
  "body_limit = 2 ^ 20"

definition limit_body :: "string \<Rightarrow> string" where
  "limit_body s = take body_limit s"

lemma limit_body_code [code]:
  "limit_body s = (if int (length s) \<le> 1048576 then s else take (nat 1048576) s)"
  by (simp add: limit_body_def body_limit_def)

definition agent_result :: "goerr + (int \<times> string) \<Rightarrow> AgentCallResult \<times> goerr option" where
  "agent_result reply =
     (case reply of
        Inl err \<Rightarrow> (zero_AgentCallResult, Some err)
      | Inr (code, content) \<Rightarrow>
          (let respBody = limit_body content;
               result = \<lparr>cr_status_code = code, cr_body = Some respBody\<rparr> in
           if code < 200 \<or> code > 299
           then (result, Some (Errorf (''node agent returned '' @ Itoa code @ '': '' @ TrimSpace respBody)))
           else (result, None)))"

definition agent_do ::
    "env \<Rightarrow> Node \<Rightarrow> string \<Rightarrow> string \<Rightarrow> string option \<Rightarrow> (AgentCallResult \<times> goerr option) act" where
  "agent_do e node method path body =
     bindE (http_exchange e (agent_request node method path body)) (\<lambda>reply.
       retE (agent_result reply))"

definition Agent_Health :: "env \<Rightarrow> Node \<Rightarrow> (AgentCallResult \<times> goerr option) act" where
  "Agent_Health e node = agent_do e node ''GET'' ''/health'' None"

definition Agent_Status :: "env \<Rightarrow> Node \<Rightarrow> (AgentCallResult \<times> goerr option) act" where
  "Agent_Status e node = agent_do e node ''GET'' ''/status'' None"

definition zero_AgentStatusResponse :: AgentStatusResponse where
  "zero_AgentStatusResponse =
     \<lparr>as_ok = False, as_node_id = [], as_protocol_type = [], as_current_version = 0,
      as_applied_version = 0, as_last_error = None, as_users_cached = 0, as_message = [],
      as_error = []\<rparr>"

definition Agent_StatusInfo ::
    "env \<Rightarrow> Node \<Rightarrow> (AgentStatusResponse \<times> AgentCallResult \<times> goerr option) act" where
  "Agent_StatusInfo e node =
     bindE (Agent_Status e node) (\<lambda>(result, err).
       retE (case err of
         Some er \<Rightarrow> (zero_AgentStatusResponse, result, Some er)
       | None \<Rightarrow>
           (case env_decode_status e (body_text (cr_body result)) of
              Inl er \<Rightarrow> (zero_AgentStatusResponse, result, Some (Wrapf ''decode /status response'' er))
            | Inr status \<Rightarrow> (status, result, None))))"

definition Agent_Stats :: "env \<Rightarrow> Node \<Rightarrow> (AgentCallResult \<times> goerr option) act" where
  "Agent_Stats e node = agent_do e node ''GET'' ''/v1/stats'' None"

definition Agent_Reload :: "env \<Rightarrow> Node \<Rightarrow> (AgentCallResult \<times> goerr option) act" where
  "Agent_Reload e node = agent_do e node ''POST'' ''/v1/reload'' (Some ''{}'')"

text \<open>Callers of \<^verbatim>\<open>TelemetrySessions\<close> read the response only when there is no error.\<close>

definition check_telemetry :: "env \<Rightarrow> Node \<Rightarrow> AgentCallResult \<Rightarrow> goerr + TelemetryResponse" where
  "check_telemetry e node result =
     (case env_decode_telemetry e (body_text (cr_body result)) of
        Inl er \<Rightarrow> Inl (Wrapf ''decode telemetry response'' er)
      | Inr response \<Rightarrow>
          if \<not> tr_ok response then Inl (Errorf ''telemetry response returned ok=false'')
          else if tr_node_id response \<noteq> '''' \<and> tr_node_id response \<noteq> n_node_id node
          then Inl (Errorf ''telemetry node_id mismatch'')
          else if tr_protocol_type response \<noteq> '''' \<and> tr_protocol_type response \<noteq> n_protocol_type node
          then Inl (Errorf ''telemetry protocol_type mismatch'')
          else Inr response)"

definition Agent_TelemetrySessions ::
    "env \<Rightarrow> Node \<Rightarrow> bool \<Rightarrow> (AgentCallResult \<times> (goerr + TelemetryResponse)) act" where
  "Agent_TelemetrySessions e node includeRecent =
     (let path = ''/v1/telemetry/sessions'' @ (if includeRecent then ''?include_recent=true'' else '''') in
      bindE (agent_do e node ''GET'' path None) (\<lambda>(result, err).
        retE (result,
          case err of
            Some er \<Rightarrow>
              if cr_status_code result > 0
              then Inl (Errorf (''telemetry request failed with http '' @ Itoa (cr_status_code result)))
              else Inl (Errorf ''telemetry request failed'')
          | None \<Rightarrow> check_telemetry e node result)))"

definition Agent_Sync ::
    "env \<Rightarrow> Node \<Rightarrow> SyncPayload \<Rightarrow> (AgentCallResult \<times> string option \<times> goerr option) act" where
  "Agent_Sync e node payload =
     (case env_encode_payload e payload of
        Inl err \<Rightarrow> retE (zero_AgentCallResult, None, Some err)
      | Inr body \<Rightarrow>
          bindE (agent_do e node ''POST'' ''/v1/sync'' (Some body)) (\<lambda>(result, err).
            retE (result, Some body, err)))"

section \<open>An exchange leaves the tables alone\<close>

lemma Agent_integrity [within_intros]:
  "within (db_rel keeps_integrity) (agent_do e node m p b)"
  "within (db_rel keeps_integrity) (Agent_Health e node)"
  "within (db_rel keeps_integrity) (Agent_Status e node)"
  "within (db_rel keeps_integrity) (Agent_StatusInfo e node)"
  "within (db_rel keeps_integrity) (Agent_Stats e node)"
  "within (db_rel keeps_integrity) (Agent_Reload e node)"
  "within (db_rel keeps_integrity) (Agent_TelemetrySessions e node r)"
  "within (db_rel keeps_integrity) (Agent_Sync e node payload)"
  unfolding agent_do_def Agent_Health_def Agent_Status_def Agent_StatusInfo_def Agent_Stats_def
    Agent_Reload_def Agent_TelemetrySessions_def Agent_Sync_def Let_def
  by ((rule integrity.effect_rules)+)

lemma Agent_versions [within_intros]:
  "within (db_rel versions_advance) (agent_do e node m p b)"
  "within (db_rel versions_advance) (Agent_Health e node)"
  "within (db_rel versions_advance) (Agent_StatusInfo e node)"
  "within (db_rel versions_advance) (Agent_TelemetrySessions e node r)"
  "within (db_rel versions_advance) (Agent_Sync e node payload)"
  unfolding agent_do_def Agent_Health_def Agent_Status_def Agent_StatusInfo_def Agent_Stats_def
    Agent_Reload_def Agent_TelemetrySessions_def Agent_Sync_def Let_def
  by ((rule versions.effect_rules)+)

lemma agent_do_run:
  "agent_do e node m p b w =
     (Inr (agent_result (env_http e (w_tick w) (agent_request node m p b))),
      w\<lparr>w_tick := Suc (w_tick w), w_requests := w_requests w @ [agent_request node m p b]\<rparr>)"
  by (simp add: agent_do_def http_exchange_def bindE_def retE_def)

text \<open>An answer is taken as one only when the agent's status is 2xx, with at most a mebibyte of body.\<close>

lemma agent_result_cases:
  assumes "agent_result reply = (result, err)"
  obtains (unreached) er where "reply = Inl er" and "result = zero_AgentCallResult" and "err = Some er"
    | (refused) code content where "reply = Inr (code, content)" and "code < 200 \<or> 299 < code"
        and "result = \<lparr>cr_status_code = code, cr_body = Some (limit_body content)\<rparr>"
        and "err = Some (Errorf (''node agent returned '' @ Itoa code @ '': '' @ TrimSpace (limit_body content)))"
    | (answered) code content where "reply = Inr (code, content)" and "200 \<le> code" and "code \<le> 299"
        and "result = \<lparr>cr_status_code = code, cr_body = Some (limit_body content)\<rparr>"
        and "err = None"
proof (cases reply)
  case (Inl er)
  with assms show thesis by (intro unreached) (auto simp: agent_result_def)
next
  case (Inr ct)
  obtain code content where ct: "ct = (code, content)" by force
  show thesis
  proof (cases "code < 200 \<or> 299 < code")
    case True
    with assms Inr ct show thesis by (intro refused) (auto simp: agent_result_def Let_def)
  next
    case False
    with assms Inr ct show thesis by (intro answered) (auto simp: agent_result_def Let_def)
  qed
qed

lemma Agent_Sync_run:
  "Agent_Sync e node p w =
     (case env_encode_payload e p of
        Inl err \<Rightarrow> (Inr (zero_AgentCallResult, None, Some err), w)
      | Inr body \<Rightarrow>
          let rq = agent_request node ''POST'' ''/v1/sync'' (Some body);
              answer = agent_result (env_http e (w_tick w) rq)
          in (Inr (fst answer, Some body, snd answer),
              w\<lparr>w_tick := Suc (w_tick w), w_requests := w_requests w @ [rq]\<rparr>))"
  by (simp add: Agent_Sync_def agent_do_run bindE_def retE_def split: sum.splits prod.splits)

end
