(* ===== verification/Node_Manager.thy ===== *)
theory Node_Manager
  imports User_Repo Agent_Client
begin

text \<open>
  internal/nodes/manager.go: creating, changing and checking nodes, and the synchronisation of a
  node's users with its agent.  Every function of the file is here under its own name;
  \<^verbatim>\<open>syncNodeAttempt\<close> calls itself through the retry functions with \<^verbatim>\<open>allowRetry\<close>
  off, so those take the call as an argument.
\<close>

section \<open>Texts\<close>

definition strPtr :: "string \<Rightarrow> string option" where
  "strPtr value = (if value = '''' then None else Some value)"

definition agentResponseError :: "AgentResponse \<Rightarrow> string" where
  "agentResponseError resp =
     (let parts =
        (if ar_status resp \<noteq> '''' \<and> ar_status resp \<noteq> ''ok'' then [ar_status resp] else [])
        @ (if ar_error resp \<noteq> '''' then [ar_error resp] else [])
        @ (if ar_message resp \<noteq> '''' \<and> ar_message resp \<noteq> ar_error resp then [ar_message resp] else [])
      in if parts = [] then ''node agent returned ok=false'' else Join parts '': '')"

definition statusMessage :: "AgentStatusResponse \<Rightarrow> string" where
  "statusMessage status =
     (let parts =
        (if as_error status \<noteq> '''' then [as_error status] else [])
        @ (if as_message status \<noteq> '''' \<and> as_message status \<noteq> as_error status
           then [as_message status] else [])
        @ (case as_last_error status of
             None \<Rightarrow> []
           | Some text' \<Rightarrow> if text' \<noteq> '''' then [text'] else [])
      in if parts = [] then ''node agent returned ok=false'' else Join parts '': '')"

definition remoteAppliedVersionFromStatus :: "AgentStatusResponse \<Rightarrow> int" where
  "remoteAppliedVersionFromStatus status =
     (if as_applied_version status \<le> 0 then as_current_version status else as_applied_version status)"

definition remoteAppliedVersionFromResponse :: "AgentResponse \<Rightarrow> int" where
  "remoteAppliedVersionFromResponse resp =
     (if ar_applied_version resp \<le> 0 then ar_current_version resp else ar_applied_version resp)"

section \<open>The agent's status\<close>

definition check_status :: "Node \<Rightarrow> AgentStatusResponse \<Rightarrow> goerr option" where
  "check_status node status =
     (if \<not> as_ok status then Some (Errorf (''node agent /status failed: '' @ statusMessage status))
      else if as_node_id status \<noteq> '''' \<and> as_node_id status \<noteq> n_node_id node
      then Some (Errorf (''node_id mismatch: form='' @ n_node_id node @ '' agent='' @ as_node_id status))
      else if as_protocol_type status \<noteq> '''' \<and> as_protocol_type status \<noteq> n_protocol_type node
      then Some (Errorf (''protocol_type mismatch: form='' @ n_protocol_type node
                         @ '' agent='' @ as_protocol_type status))
      else None)"

definition validateNodeAgentConfig :: "env \<Rightarrow> Node \<Rightarrow> AgentStatusResponse act" where
  "validateNodeAgentConfig e node =
     bindE (Agent_StatusInfo e node) (\<lambda>(status, result, err).
       case err of
         Some er \<Rightarrow> failE er
       | None \<Rightarrow> (case check_status node status of Some er \<Rightarrow> failE er | None \<Rightarrow> retE status))"

text \<open>\<^verbatim>\<open>recordStatus\<close> returns its arguments; the callers read the error only.\<close>

definition recordStatus :: "env \<Rightarrow> string \<Rightarrow> goerr option \<Rightarrow> (goerr option) act" where
  "recordStatus e key callErr =
     thenE (ignoreE (case callErr of
              None \<Rightarrow> NodeRepo_MarkStatus e key ''ok'' None
            | Some er \<Rightarrow> NodeRepo_MarkStatus e key ''error'' (Some (error_text er))))
           (retE callErr)"

definition fetchAndReconcileStatus :: "env \<Rightarrow> Node \<Rightarrow> AgentStatusResponse act" where
  "fetchAndReconcileStatus e node =
     bindE (Agent_StatusInfo e node) (\<lambda>(status, result, err).
     bindE (recordStatus e (n_id node) err) (\<lambda>recordErr.
       case recordErr of
         Some er \<Rightarrow> failE er
       | None \<Rightarrow>
           if \<not> as_ok status then
             thenE (ignoreE (NodeRepo_MarkStatus e (n_id node) ''error'' (strPtr (statusMessage status))))
                   (failE (Errorf (''node agent status failed: '' @ statusMessage status)))
           else
             thenE (NodeRepo_SyncRemoteState e (n_id node) (as_current_version status)
                      (remoteAppliedVersionFromStatus status) (as_last_error status))
                   (retE status)))"

section \<open>Creating and changing nodes\<close>

definition normalize_create :: "CreateNodeInput \<Rightarrow> CreateNodeInput" where
  "normalize_create inp =
     (let mode = ToLower (TrimSpace (in_mode inp));
          protocolType = ToLower (TrimSpace (in_protocol_type inp)) in
      inp\<lparr>in_mode := (if mode = '''' then NodeModePlanned else mode),
          in_protocol_type := (if protocolType = '''' then ''naive'' else protocolType)\<rparr>)"

text \<open>The partial \<^verbatim>\<open>Node\<close> literal the handlers' data is checked with.\<close>

definition probe_node :: "CreateNodeInput \<Rightarrow> Node" where
  "probe_node inp =
     \<lparr>n_id = '''', n_node_id = in_node_id inp, n_name = '''', n_domain = '''',
      n_api_url = in_api_url inp, n_protocol_type = in_protocol_type inp,
      n_node_secret = in_node_secret inp, n_enabled = False, n_setup_state = '''',
      n_protocol_settings = zero_ProtocolSettings, n_desired_config_version = 0,
      n_last_applied_version = 0, n_last_seen_at = None, n_last_status = None,
      n_last_error = None, n_last_sync_at = None, n_created_at = 0, n_updated_at = 0\<rparr>"

definition CreateNode :: "env \<Rightarrow> CreateNodeInput \<Rightarrow> Node act" where
  "CreateNode e inp0 =
     (let inp1 = normalize_create inp0 in
      if in_mode inp1 = NodeModeAdopt \<and>
         (in_node_id inp1 = '''' \<or> in_node_secret inp1 = '''' \<or> in_api_url inp1 = ''''
          \<or> in_protocol_type inp1 = '''')
      then failE (Errorf ''adopt mode requires node_id, node_secret, api_url, and protocol_type'')
      else
        bindE (if in_node_id inp1 = ''''
               then bindE (Token e ''node'' 10) (\<lambda>token. retE (inp1\<lparr>in_node_id := token\<rparr>))
               else retE inp1) (\<lambda>inp2.
        bindE (if in_node_secret inp2 = ''''
               then bindE (Token e ''ns'' 32) (\<lambda>token. retE (inp2\<lparr>in_node_secret := token\<rparr>))
               else retE inp2) (\<lambda>inp3.
          let inp4 = (if in_api_url inp3 = '''' \<and> in_mode inp3 \<noteq> NodeModePlanned
                      then inp3\<lparr>in_api_url := ''http://'' @ in_domain inp3 @ '':2222''\<rparr>
                      else inp3) in
          if in_mode inp4 = NodeModePlanned then NodeRepo_Create e inp4
          else
            bindE (validateNodeAgentConfig e (probe_node inp4)) (\<lambda>remoteStatus.
            bindE (NodeRepo_Create e (inp4\<lparr>in_mode := NodeModeAdopt\<rparr>)) (\<lambda>node.
            thenE (NodeRepo_SyncRemoteState e (n_id node) (as_current_version remoteStatus)
                     (remoteAppliedVersionFromStatus remoteStatus) (as_last_error remoteStatus))
                  (NodeRepo_Get e (n_id node)))))))"

definition UpdateNode :: "env \<Rightarrow> string \<Rightarrow> UpdateNodeInput \<Rightarrow> Node act" where
  "UpdateNode e key inp0 =
     bindE (NodeRepo_Get e key) (\<lambda>current.
       let inp = (if in_node_secret inp0 = '''' then inp0\<lparr>in_node_secret := n_node_secret current\<rparr>
                  else inp0);
           shouldValidate = (n_setup_state current = SetupStateConnected \<and> in_api_url inp \<noteq> ''''
             \<and> in_node_secret inp \<noteq> '''' \<and> in_node_id inp \<noteq> '''' \<and> in_protocol_type inp \<noteq> '''') in
       bindE (if shouldValidate then validateNodeAgentConfig e (probe_node inp)
              else retE zero_AgentStatusResponse) (\<lambda>remoteStatus.
       bindE (NodeRepo_Update e key inp) (\<lambda>node.
       thenE (if shouldValidate
              then NodeRepo_SyncRemoteState e (n_id node) (as_current_version remoteStatus)
                     (remoteAppliedVersionFromStatus remoteStatus) (as_last_error remoteStatus)
              else retE ())
             (NodeRepo_Get e (n_id node)))))"

definition ValidateNodeStatus :: "env \<Rightarrow> string \<Rightarrow> AgentStatusResponse act" where
  "ValidateNodeStatus e key =
     bindE (NodeRepo_Get e key) (\<lambda>node.
     bindE (validateNodeAgentConfig e node) (\<lambda>status.
     thenE (NodeRepo_SyncRemoteState e (n_id node) (as_current_version status)
              (remoteAppliedVersionFromStatus status) (as_last_error status))
           (retE status)))"

definition DeleteNode :: "env \<Rightarrow> string \<Rightarrow> unit act" where
  "DeleteNode e key = NodeRepo_Delete e key"

definition CheckNodeHealth :: "env \<Rightarrow> string \<Rightarrow> AgentStatusResponse act" where
  "CheckNodeHealth e key =
     bindE (NodeRepo_Get e key) (\<lambda>node.
     bindE (Agent_Health e node) (\<lambda>(result, err).
     bindE (recordStatus e key err) (\<lambda>recordErr.
       case recordErr of
         Some er \<Rightarrow> failE er
       | None \<Rightarrow> fetchAndReconcileStatus e node)))"

definition FetchNodeStatus :: "env \<Rightarrow> string \<Rightarrow> AgentStatusResponse act" where
  "FetchNodeStatus e key = bindE (NodeRepo_Get e key) (fetchAndReconcileStatus e)"

section \<open>Sending a node its users\<close>

definition agent_user :: "Node \<Rightarrow> AccessWithUser \<Rightarrow> AgentUser" where
  "agent_user node acc =
     \<lparr>au_id = a_user_id (wu_access acc), au_username = a_protocol_username (wu_access acc),
      au_password = a_protocol_password (wu_access acc), au_enabled = a_enabled (wu_access acc),
      au_expires_at = wu_user_expires_at acc, au_quota_mb = wu_user_quota_mb acc,
      au_protocols = [n_protocol_type node],
      au_meta = [(''backend_user_id'', a_user_id (wu_access acc)),
                 (''backend_username'', wu_username acc)]\<rparr>"

definition sync_payload :: "Node \<Rightarrow> AccessWithUser list \<Rightarrow> int \<Rightarrow> SyncPayload" where
  "sync_payload node assigned version =
     \<lparr>sp_node_id = n_node_id node, sp_config_version = version,
      sp_protocol_type = n_protocol_type node, sp_users = map (agent_user node) assigned\<rparr>"

text \<open>
  \<^verbatim>\<open>if err := InsertSyncEvent(...); err != nil { return err }; _ = MarkSyncFailure(...)\<close>,
  the three failing ends of an attempt.
\<close>

definition fail_attempt ::
    "env \<Rightarrow> Node \<Rightarrow> int \<Rightarrow> string \<Rightarrow> AgentCallResult \<Rightarrow> string option \<Rightarrow> string option
       \<Rightarrow> string \<Rightarrow> 'a act \<Rightarrow> 'a act" where
  "fail_attempt e node version status result requestBody errText message k =
     thenE (NodeRepo_InsertSyncEvent e (n_id node) version status (Some (cr_status_code result))
              requestBody (cr_body result) errText)
     (thenE (ignoreE (NodeRepo_MarkSyncFailure e (n_id node) status message)) k)"

type_synonym attempt = "Node \<Rightarrow> AccessWithUser list \<Rightarrow> int \<Rightarrow> AgentResponse act"

definition retryFromAgentResponse ::
    "env \<Rightarrow> attempt \<Rightarrow> Node \<Rightarrow> AccessWithUser list \<Rightarrow> int \<Rightarrow> string option
       \<Rightarrow> AgentCallResult \<Rightarrow> AgentResponse \<Rightarrow> AgentResponse act" where
  "retryFromAgentResponse e again node assigned version requestBody result resp =
     (let message = agentResponseError resp in
      fail_attempt e node version ''stale_version'' result requestBody (strPtr message) message
        (thenE (NodeRepo_SyncRemoteState e (n_id node) (ar_current_version resp)
                  (remoteAppliedVersionFromResponse resp) None)
         (bindE (NodeRepo_Get e (n_id node)) (\<lambda>retryNode.
          bindE (NodeRepo_BumpVersion e (n_id node)) (\<lambda>retryVersion.
            again retryNode assigned retryVersion)))))"

text \<open>The result is \<open>None\<close> where the Go function returns \<^verbatim>\<open>retried == false\<close>.\<close>

definition retryOnStaleVersion ::
    "env \<Rightarrow> attempt \<Rightarrow> Node \<Rightarrow> AccessWithUser list \<Rightarrow> int \<Rightarrow> AgentCallResult
       \<Rightarrow> string option \<Rightarrow> AgentResponse act option" where
  "retryOnStaleVersion e again node assigned version result requestBody =
     (case env_decode_response e (body_text (cr_body result)) of
        Inl err \<Rightarrow> None
      | Inr resp \<Rightarrow>
          if ar_status resp \<noteq> ''stale_version'' then None
          else Some (retryFromAgentResponse e again node assigned version requestBody result resp))"

text \<open>One attempt; \<open>again\<close> is the next one when \<^verbatim>\<open>allowRetry\<close> is on.\<close>

definition handle_call_error ::
    "env \<Rightarrow> attempt option \<Rightarrow> Node \<Rightarrow> AccessWithUser list \<Rightarrow> int \<Rightarrow> AgentCallResult
       \<Rightarrow> string option \<Rightarrow> goerr \<Rightarrow> AgentResponse act" where
  "handle_call_error e again node assigned version result requestBody callErr =
     (case (case again of
              None \<Rightarrow> None
            | Some ag \<Rightarrow> retryOnStaleVersion e ag node assigned version result requestBody) of
        Some retry \<Rightarrow> retry
      | None \<Rightarrow>
          (let msg = error_text callErr in
           fail_attempt e node version ''http_error'' result requestBody (strPtr msg) msg
             (failE callErr)))"

text \<open>The end of an attempt the agent answered with \<^verbatim>\<open>ok: false\<close>.\<close>

definition agent_refused ::
    "env \<Rightarrow> Node \<Rightarrow> int \<Rightarrow> AgentCallResult \<Rightarrow> string option \<Rightarrow> AgentResponse
       \<Rightarrow> AgentResponse act" where
  "agent_refused e node version result requestBody resp =
     (let status = (if ar_status resp = [] then ''apply_failed'' else ar_status resp);
          message = agentResponseError resp in
      fail_attempt e node version status result requestBody (strPtr message) message
        (failE (Errorf (''node agent sync failed: '' @ message))))"

definition handle_response ::
    "env \<Rightarrow> attempt option \<Rightarrow> Node \<Rightarrow> AccessWithUser list \<Rightarrow> int \<Rightarrow> AgentCallResult
       \<Rightarrow> string option \<Rightarrow> AgentResponse act" where
  "handle_response e again node assigned version result requestBody =
     (case env_decode_response e (body_text (cr_body result)) of
        Inl err \<Rightarrow>
          fail_attempt e node version ''decode_error'' result requestBody (strPtr (error_text err))
            (error_text err) (failE (Wrapf ''decode node agent response'' err))
      | Inr resp \<Rightarrow>
          (if \<not> ar_ok resp then
             (case again of
                Some ag \<Rightarrow>
                  if ar_status resp = ''stale_version''
                  then retryFromAgentResponse e ag node assigned version requestBody result resp
                  else agent_refused e node version result requestBody resp
              | None \<Rightarrow> agent_refused e node version result requestBody resp)
           else
             (let appliedVersion =
                (if ar_applied_version resp \<le> 0 then version else ar_applied_version resp) in
              thenE (NodeRepo_InsertSyncEvent e (n_id node) version ''ok''
                       (Some (cr_status_code result)) requestBody (cr_body result) None)
              (thenE (NodeRepo_MarkSyncSuccess e (n_id node) appliedVersion)
                (retE (resp\<lparr>ar_applied_version := appliedVersion\<rparr>))))))"

definition attempt_body ::
    "env \<Rightarrow> attempt option \<Rightarrow> Node \<Rightarrow> AccessWithUser list \<Rightarrow> int \<Rightarrow> AgentResponse act" where
  "attempt_body e again node assigned version =
     bindE (Agent_Sync e node (sync_payload node assigned version)) (\<lambda>(result, requestBody, callErr).
       case callErr of
         Some er \<Rightarrow> handle_call_error e again node assigned version result requestBody er
       | None \<Rightarrow> handle_response e again node assigned version result requestBody)"

function syncNodeAttempt :: "env \<Rightarrow> Node \<Rightarrow> AccessWithUser list \<Rightarrow> int \<Rightarrow> bool \<Rightarrow> AgentResponse act" where
  "syncNodeAttempt e node assigned version False = attempt_body e None node assigned version"
| "syncNodeAttempt e node assigned version True =
     attempt_body e
       (Some (\<lambda>retryNode asg retryVersion. syncNodeAttempt e retryNode asg retryVersion False))
       node assigned version"
  by pat_completeness auto
termination
  by (relation "measure (\<lambda>(e, node, assigned, version, allowRetry). if allowRetry then 1 else 0)") auto

definition SyncNode :: "env \<Rightarrow> string \<Rightarrow> AgentResponse act" where
  "SyncNode e key =
     bindE (NodeRepo_Get e key) (\<lambda>node0.
     bindE (fetchAndReconcileStatus e node0) (\<lambda>_.
     bindE (NodeRepo_Get e key) (\<lambda>node.
     bindE (NodeRepo_BumpVersion e key) (\<lambda>version.
     bindE (UserRepo_ActiveAccessForNode e key) (\<lambda>assigned.
       syncNodeAttempt e node assigned version True)))))"

definition SyncAllNodes :: "env \<Rightarrow> unit act" where
  "SyncAllNodes e =
     bindE (NodeRepo_List e) (\<lambda>nodes.
     bindE (forE (\<lambda>node errs.
         if \<not> n_enabled node then retE errs
         else bindE (attemptE (SyncNode e (n_id node))) (\<lambda>r.
           retE (case r of
             Inl err \<Rightarrow> errs @ [n_node_id node @ '': '' @ error_text err]
           | Inr _ \<Rightarrow> errs))) nodes []) (\<lambda>errs.
       if errs \<noteq> [] then failE (Errorf (Join errs ''; '')) else retE ()))"

section \<open>Integrity and versions\<close>

lemmas manager_defs =
  validateNodeAgentConfig_def recordStatus_def fetchAndReconcileStatus_def CreateNode_def
  UpdateNode_def ValidateNodeStatus_def CheckNodeHealth_def FetchNodeStatus_def
  fail_attempt_def retryFromAgentResponse_def agent_refused_def

context preorder_on_tables begin

text \<open>
  An attempt stays within a preorder if the four statements it runs do.
\<close>

lemma attempt_body_within:
  assumes event: "\<And>k v s h rq rs et. within (db_rel D) (NodeRepo_InsertSyncEvent e k v s h rq rs et)"
    and failure: "\<And>k s m. within (db_rel D) (NodeRepo_MarkSyncFailure e k s m)"
    and success: "\<And>k v. within (db_rel D) (NodeRepo_MarkSyncSuccess e k v)"
    and remote: "\<And>k v a m. within (db_rel D) (NodeRepo_SyncRemoteState e k v a m)"
    and bump: "\<And>k. within (db_rel D) (NodeRepo_BumpVersion e k)"
    and get: "\<And>k. within (db_rel D) (NodeRepo_Get e k)"
    and sync: "\<And>n p. within (db_rel D) (Agent_Sync e n p)"
    and again: "\<And>ag n us v. again = Some ag \<Longrightarrow> within (db_rel D) (ag n us v)"
  shows "within (db_rel D) (attempt_body e again node assigned version)"
proof -
  have failing: "within (db_rel D) (fail_attempt e n v s r rq et m k)"
    if "within (db_rel D) k" for n v s r rq et m and k :: "AgentResponse act"
    unfolding fail_attempt_def by (intro rules event failure that)
  have retry: "within (db_rel D) (retryFromAgentResponse e ag n us v rq r resp)"
    if "again = Some ag" for ag n us v rq r resp
    unfolding retryFromAgentResponse_def Let_def
    by (intro failing rules remote get bump again [OF that])
  have "within (db_rel D) (handle_call_error e again node assigned version r rq er)" for r rq er
  proof (cases "case again of None \<Rightarrow> None
      | Some ag \<Rightarrow> retryOnStaleVersion e ag node assigned version r rq")
    case None
    then show ?thesis by (simp add: handle_call_error_def Let_def failing rules)
  next
    case (Some a)
    then obtain ag resp where "again = Some ag"
        and "a = retryFromAgentResponse e ag node assigned version rq r resp"
      by (auto simp: retryOnStaleVersion_def split: option.splits sum.splits if_splits)
    with Some show ?thesis by (simp add: handle_call_error_def retry)
  qed
  moreover have "within (db_rel D) (handle_response e again node assigned version r rq)" for r rq
    unfolding handle_response_def agent_refused_def Let_def
    by (auto split: sum.splits option.splits intro!: failing retry rules event success)
  ultimately show ?thesis
    unfolding attempt_body_def
    by (intro bind sync case_prod_ case_option_)
qed

end

lemma syncNodeAttempt_integrity [within_intros]:
  "within (db_rel keeps_integrity) (syncNodeAttempt e node assigned version allowRetry)"
proof -
  have off: "within (db_rel keeps_integrity) (syncNodeAttempt e n us v False)" for n us v
    by (simp, rule integrity.attempt_body_within) (auto intro: within_intros)
  then show ?thesis
    by (cases allowRetry)
      (simp_all, rule integrity.attempt_body_within, auto intro: within_intros)
qed

lemma syncNodeAttempt_versions [within_intros]:
  "within (db_rel versions_advance) (syncNodeAttempt e node assigned version allowRetry)"
proof -
  have off: "within (db_rel versions_advance) (syncNodeAttempt e n us v False)" for n us v
    by (simp, rule versions.attempt_body_within) (auto intro: within_intros)
  then show ?thesis
    by (cases allowRetry)
      (simp_all, rule versions.attempt_body_within, auto intro: within_intros)
qed

lemma manager_integrity [within_intros]:
  "within (db_rel keeps_integrity) (validateNodeAgentConfig e node)"
  "within (db_rel keeps_integrity) (recordStatus e key err)"
  "within (db_rel keeps_integrity) (fetchAndReconcileStatus e node)"
  "within (db_rel keeps_integrity) (CreateNode e inp)"
  "within (db_rel keeps_integrity) (UpdateNode e key inp)"
  "within (db_rel keeps_integrity) (ValidateNodeStatus e key)"
  "within (db_rel keeps_integrity) (DeleteNode e key)"
  "within (db_rel keeps_integrity) (CheckNodeHealth e key)"
  "within (db_rel keeps_integrity) (FetchNodeStatus e key)"
  "within (db_rel keeps_integrity) (SyncNode e key)"
  "within (db_rel keeps_integrity) (SyncAllNodes e)"
  unfolding manager_defs SyncNode_def SyncAllNodes_def DeleteNode_def Let_def
  by ((rule within_intros | rule integrity.effect_rules)+)

lemma manager_versions [within_intros]:
  "within (db_rel versions_advance) (fetchAndReconcileStatus e node)"
  "within (db_rel versions_advance) (CreateNode e inp)"
  "within (db_rel versions_advance) (UpdateNode e key inp)"
  "within (db_rel versions_advance) (ValidateNodeStatus e key)"
  "within (db_rel versions_advance) (CheckNodeHealth e key)"
  "within (db_rel versions_advance) (FetchNodeStatus e key)"
  "within (db_rel versions_advance) (SyncNode e key)"
  "within (db_rel versions_advance) (SyncAllNodes e)"
  unfolding manager_defs SyncNode_def SyncAllNodes_def Let_def
  by ((rule within_intros | rule versions.effect_rules)+)

end
