(* ===== verification/Sync_Requests.thy ===== *)
theory Sync_Requests
  imports Node_Manager
begin

text \<open>
  What the synchronisation of a node sends: which requests, how many, and in which order.
  \<open>sends P k m\<close> says that every run of \<open>m\<close> sends at most \<open>k\<close> requests, all with \<open>P\<close>; the
  rules compose it along the program.
\<close>

definition sends :: "(http_request \<Rightarrow> bool) \<Rightarrow> nat \<Rightarrow> 'a act \<Rightarrow> bool" where
  "sends P k m \<longleftrightarrow> (\<forall>w. \<exists>rs. w_requests (snd (m w)) = w_requests w @ rs \<and> length rs \<le> k
                        \<and> (\<forall>rq \<in> set rs. P rq))"

lemma sendsD:
  assumes "sends P k m" and "m w = (r, w')"
  obtains rs where "w_requests w' = w_requests w @ rs" and "length rs \<le> k" and "\<forall>rq \<in> set rs. P rq"
  using assms unfolding sends_def by (metis snd_conv)

lemma sends_silent: "within sends_nothing m \<Longrightarrow> sends P k m"
  by (auto simp: sends_def within_def sends_nothing_def)

lemma sends_weaken: "sends P j m \<Longrightarrow> j \<le> k \<Longrightarrow> sends P k m"
  unfolding sends_def by (meson le_trans)

lemma sends_bind:
  assumes "sends P j m" and "\<And>x. sends P k (f x)"
  shows "sends P (j + k) (bindE m f)"
  unfolding sends_def
proof
  fix w
  obtain r w1 where m: "m w = (r, w1)" by force
  obtain rs where rs: "w_requests w1 = w_requests w @ rs" "length rs \<le> j" "\<forall>rq \<in> set rs. P rq"
    using assms(1) m by (rule sendsD)
  show "\<exists>rs. w_requests (snd (bindE m f w)) = w_requests w @ rs \<and> length rs \<le> j + k
             \<and> (\<forall>rq \<in> set rs. P rq)"
  proof (cases r)
    case (Inl err)
    with m rs show ?thesis by (auto simp: bindE_def intro!: exI [of _ rs])
  next
    case (Inr x)
    obtain r' w' where f: "f x w1 = (r', w')" by force
    obtain rs' where "w_requests w' = w_requests w1 @ rs'" "length rs' \<le> k" "\<forall>rq \<in> set rs'. P rq"
      using assms(2) f by (rule sendsD)
    with rs m Inr f show ?thesis by (auto simp: bindE_def intro!: exI [of _ "rs @ rs'"])
  qed
qed

text \<open>A silent first part: the bound is that of the rest.\<close>

lemma sends_after_silent:
  "within sends_nothing m \<Longrightarrow> (\<And>x. sends P k (f x)) \<Longrightarrow> sends P k (bindE m f)"
  using sends_bind [OF sends_silent [of m P 0], of k f] by simp

lemma sends_then_silent:
  "within sends_nothing m \<Longrightarrow> sends P k n \<Longrightarrow> sends P k (thenE m n)"
  unfolding thenE_def by (rule sends_after_silent)

lemma sends_before_silent:
  "sends P k m \<Longrightarrow> (\<And>x. within sends_nothing (f x)) \<Longrightarrow> sends P k (bindE m f)"
  using sends_bind [of P k m 0 f, OF _ sends_silent] by simp

lemma sends_agent_do:
  "P (agent_request node method path body) \<Longrightarrow> sends P 1 (agent_do e node method path body)"
  by (auto simp: sends_def agent_do_run)

section \<open>The requests of an attempt\<close>

definition status_request :: "Node \<Rightarrow> http_request" where
  "status_request n = agent_request n ''GET'' ''/status'' None"

text \<open>The request that gives the node \<open>n\<close> the users \<open>us\<close> as version \<open>v\<close>.\<close>

definition sync_request :: "env \<Rightarrow> Node \<Rightarrow> AccessWithUser list \<Rightarrow> int \<Rightarrow> http_request \<Rightarrow> bool" where
  "sync_request e n us v rq \<longleftrightarrow>
     (\<exists>body. env_encode_payload e (sync_payload n us v) = Inr body
        \<and> rq = agent_request n ''POST'' ''/v1/sync'' (Some body))"

definition sync_request_of :: "env \<Rightarrow> AccessWithUser list \<Rightarrow> http_request \<Rightarrow> bool" where
  "sync_request_of e us rq \<longleftrightarrow> (\<exists>n v. sync_request e n us v rq)"

lemma silent_fail_attempt [within_intros]:
  "within sends_nothing k \<Longrightarrow> within sends_nothing (fail_attempt e n v s r rq et m k)"
  unfolding fail_attempt_def by (intro silent.rules within_intros)

lemma silent_manager [within_intros]:
  "within sends_nothing (recordStatus e key err)"
  "within sends_nothing (agent_refused e n v r rq resp)"
  unfolding recordStatus_def agent_refused_def Let_def
  by ((rule within_intros | rule silent.rules)+)

lemma sends_fail_attempt: "sends P k m \<Longrightarrow> sends P k (fail_attempt e n v s r rq et msg m)"
  unfolding fail_attempt_def by (intro sends_then_silent silent.rules within_intros)

lemma sends_retry:
  assumes "\<And>n v. sends P k (ag n us v)"
  shows "sends P k (retryFromAgentResponse e ag node us version rq r resp)"
  unfolding retryFromAgentResponse_def Let_def
  by (intro sends_fail_attempt sends_then_silent sends_after_silent within_intros assms)

lemma sends_handlers:
  assumes "\<And>ag n v. again = Some ag \<Longrightarrow> sends P k (ag n us v)"
  shows "sends P k (handle_call_error e again node us version r rq er)"
    and "sends P k (handle_response e again node us version r rq)"
proof -
  have fail: "sends P k (failE er' :: AgentResponse act)" for er'
    by (intro sends_silent silent.rules)
  have refused: "sends P k (agent_refused e node version r rq resp)" for resp
    by (intro sends_silent within_intros)
  have retry: "sends P k (retryFromAgentResponse e ag node us version rq r resp)"
    if "again = Some ag" for ag resp
    by (rule sends_retry) (rule assms [OF that])
  show "sends P k (handle_call_error e again node us version r rq er)"
    by (auto simp: handle_call_error_def Let_def retryOnStaleVersion_def
        split: option.splits sum.splits if_splits intro!: sends_fail_attempt fail retry)
  have success: "sends P k (thenE (NodeRepo_InsertSyncEvent e key v s h rqb rsb et)
      (thenE (NodeRepo_MarkSyncSuccess e key' a) (retE resp)))" for key v s h rqb rsb et key' a resp
    by (intro sends_silent silent.rules within_intros)
  show "sends P k (handle_response e again node us version r rq)"
    by (auto simp: handle_response_def Let_def split: option.splits sum.splits if_splits
        intro!: sends_fail_attempt fail retry refused success)
qed

lemma sends_attempt_body:
  assumes P: "\<And>rq. sync_request e node us version rq \<Longrightarrow> P rq"
    and again: "\<And>ag n v. again = Some ag \<Longrightarrow> sends P k (ag n us v)"
  shows "sends P (Suc k) (attempt_body e again node us version)"
proof -
  have "sends P 1 (Agent_Sync e node (sync_payload node us version))"
  proof (cases "env_encode_payload e (sync_payload node us version)")
    case (Inl err)
    then show ?thesis by (auto simp: Agent_Sync_def intro!: sends_silent silent.rules)
  next
    case (Inr body)
    then have "P (agent_request node ''POST'' ''/v1/sync'' (Some body))"
      by (intro P) (auto simp: sync_request_def)
    then have "sends P 1 (agent_do e node ''POST'' ''/v1/sync'' (Some body))"
      by (rule sends_agent_do)
    with Inr show ?thesis
      by (auto simp: Agent_Sync_def intro!: sends_before_silent silent.rules)
  qed
  then have "sends P (1 + k) (attempt_body e again node us version)"
    unfolding attempt_body_def
  proof (rule sends_bind)
    fix x :: "AgentCallResult \<times> string option \<times> goerr option"
    obtain r rq err where x: "x = (r, rq, err)" by (cases x)
    show "sends P k (case x of (result, requestBody, callErr) \<Rightarrow>
       case callErr of
         Some er \<Rightarrow> handle_call_error e again node us version result requestBody er
       | None \<Rightarrow> handle_response e again node us version result requestBody)"
      unfolding x by (cases err) (auto intro: sends_handlers again)
  qed
  then show ?thesis by simp
qed

lemma sends_syncNodeAttempt_once:
  "sends (sync_request e n us v) 1 (syncNodeAttempt e n us v False)"
  using sends_attempt_body [of e n us v "sync_request e n us v" None 0] by simp

lemma sends_syncNodeAttempt:
  "sends (sync_request_of e us) (if allowRetry then 2 else 1)
     (syncNodeAttempt e node us version allowRetry)"
proof -
  have P: "sync_request_of e us rq" if "sync_request e n us v rq" for n v rq
    using that by (auto simp: sync_request_of_def)
  note body = sends_attempt_body [where P = "sync_request_of e us", OF P]
  have off: "sends (sync_request_of e us) (Suc 0) (syncNodeAttempt e n us v False)" for n v
    unfolding syncNodeAttempt.simps by (rule body) simp_all
  have "sends (sync_request_of e us) (Suc (Suc 0)) (syncNodeAttempt e node us version True)"
    unfolding syncNodeAttempt.simps(2) by (rule body) (use off in auto)
  with off [of node version] show ?thesis
    by (cases allowRetry) (simp_all only: if_True if_False numeral_2_eq_2 One_nat_def)
qed

lemma sends_fetchAndReconcileStatus:
  "sends (\<lambda>rq. rq = status_request node) 1 (fetchAndReconcileStatus e node)"
  unfolding fetchAndReconcileStatus_def Agent_StatusInfo_def Agent_Status_def
  by (intro sends_before_silent sends_agent_do silent.rules within_intros)
    (auto simp: status_request_def intro!: silent.rules within_intros)

end
