(* ===== verification/Samples.thy ===== *)
theory Samples
  imports World
begin

text \<open>
  A concrete environment and concrete tables, on which the properties with hypotheses are shown
  to apply: every database call succeeds, the clocks stand still, ids are read as they are
  written, and the agent accepts what it is sent.
\<close>

definition sample_status :: AgentStatusResponse where
  "sample_status =
     \<lparr>as_ok = True, as_node_id = ''edge'', as_protocol_type = ''naive'', as_current_version = 5,
      as_applied_version = 5, as_last_error = None, as_users_cached = 0, as_message = [],
      as_error = []\<rparr>"

definition sample_response :: AgentResponse where
  "sample_response =
     \<lparr>ar_ok = True, ar_node_id = ''edge'', ar_current_version = 0, ar_applied_version = 0,
      ar_received_version = 0, ar_status = ''ok'', ar_changed = True, ar_message = [],
      ar_error = []\<rparr>"

definition sample_telemetry :: TelemetryResponse where
  "sample_telemetry =
     \<lparr>tr_ok = True, tr_node_id = ''edge'', tr_protocol_type = ''naive'', tr_generated_at = None,
      tr_collector_status = ''ok'', tr_session_ttl_seconds = 60, tr_history_ttl_seconds = 60,
      tr_last_successful_collection_at = None,
      tr_capabilities = \<lparr>tc_client_ip = True, tc_per_user_activity = True,
        tc_traffic_counters = True, tc_first_seen = True, tc_last_seen = True\<rparr>,
      tr_warnings = [], tr_sessions = []\<rparr>"

definition sample_env :: env where
  "sample_env =
     \<lparr>env_fault = (\<lambda>_. None), env_db_now = (\<lambda>_. 100), env_now = (\<lambda>_. 100),
      env_uuid = (\<lambda>t. replicate (Suc t) CHR ''i''), env_parse_uuid = Some, env_scan_uuid = Inr,
      env_timestamptz = (\<lambda>x. x), env_int4_error = (\<lambda>_. Errorf ''int4''), env_jsonb = Some,
      env_collate = (<), env_rand = (\<lambda>_. Inr (\<lambda>_. CHR ''x'')),
      env_http = (\<lambda>_ _. Inr (200, ''ok'')),
      env_decode_status = (\<lambda>_. Inr sample_status),
      env_decode_response = (\<lambda>_. Inr sample_response),
      env_decode_telemetry = (\<lambda>_. Inr sample_telemetry),
      env_encode_payload = (\<lambda>_. Inr ''payload'')\<rparr>"

definition sample_node :: Node where
  "sample_node =
     \<lparr>n_id = ''n1'', n_node_id = ''edge'', n_name = ''Edge'', n_domain = ''edge.example'',
      n_api_url = ''http://edge/'', n_protocol_type = ''naive'', n_node_secret = ''secret'',
      n_enabled = True, n_setup_state = ''planned'', n_protocol_settings = zero_ProtocolSettings,
      n_desired_config_version = 3, n_last_applied_version = 3, n_last_seen_at = None,
      n_last_status = None, n_last_error = None, n_last_sync_at = None, n_created_at = 1,
      n_updated_at = 1\<rparr>"

definition sample_user :: User where
  "sample_user =
     \<lparr>u_id = ''u1'', u_username = ''anna'', u_display_name = None, u_enabled = True,
      u_expires_at = Some 500, u_expiry_synced_at = None, u_quota_mb = 10,
      u_subscription_token = ''t1'', u_notes = None, u_created_at = 1, u_updated_at = 1\<rparr>"

definition sample_expired :: User where
  "sample_expired =
     sample_user\<lparr>u_id := ''u2'', u_username := ''bert'', u_expires_at := Some 50,
       u_subscription_token := ''t2''\<rparr>"

definition sample_access :: "string \<Rightarrow> string \<Rightarrow> Access" where
  "sample_access aid uid =
     \<lparr>a_id = aid, a_user_id = uid, a_node_id = ''n1'', a_protocol_type = ''naive'',
      a_protocol_username = ''pu'', a_protocol_password = ''pp'', a_enabled = True,
      a_created_at = 1, a_updated_at = 1\<rparr>"

definition sample_db :: db where
  "sample_db =
     \<lparr>t_nodes = [sample_node], t_users = [sample_user, sample_expired],
      t_access = [sample_access ''a1'' ''u1'', sample_access ''a2'' ''u2''], t_events = []\<rparr>"

definition sample_world :: world where
  "sample_world = \<lparr>w_db = sample_db, w_tick = 0, w_requests = []\<rparr>"

lemmas sample_defs =
  sample_env_def sample_node_def sample_user_def sample_expired_def sample_access_def
  sample_db_def sample_world_def sample_status_def sample_response_def

lemma sample_env_simps [simp]:
  "env_fault sample_env t = None" "env_db_now sample_env t = 100" "env_now sample_env t = 100"
  "env_parse_uuid sample_env s = Some s" "env_jsonb sample_env s = Some s"
  "w_db sample_world = sample_db" "w_requests sample_world = []"
  by (simp_all add: sample_env_def sample_world_def)

lemma sample_db_ok: "db_ok sample_db"
  by (simp add: db_ok_def access_ok_def node_ok_def valid_protocol_def sample_defs
      valid_setup_state_def node_constants)

text \<open>The agent refuses the first sync request as stale, being at version 9.\<close>

definition stale_env :: env where
  "stale_env = sample_env
     \<lparr>env_http := (\<lambda>t rq. if rq_method rq = ''POST'' \<and> t < 10 then Inr (409, ''stale'') else Inr (200, ''ok'')),
      env_decode_response := (\<lambda>s. if s = ''stale''
        then Inr (sample_response\<lparr>ar_ok := False, ar_status := ''stale_version'', ar_current_version := 9\<rparr>)
        else Inr sample_response)\<rparr>"

text \<open>No agent can be reached.\<close>

definition unreachable_env :: env where
  "unreachable_env = sample_env\<lparr>env_http := (\<lambda>_ _. Inl (Errorf ''connection refused''))\<rparr>"

text \<open>The agent's replies are not JSON.\<close>

definition garbage_env :: env where
  "garbage_env = sample_env
     \<lparr>env_http := (\<lambda>_ _. Inr (502, ''Bad Gateway'')),
      env_jsonb := (\<lambda>s. if s = ''Bad Gateway'' then None else Some s),
      env_decode_response := (\<lambda>_. Inl (Errorf ''invalid character''))\<rparr>"

lemma other_env_simps [simp]:
  "env_parse_uuid stale_env s = Some s" "env_parse_uuid unreachable_env s = Some s"
  "env_parse_uuid garbage_env s = Some s"
  by (simp_all add: stale_env_def unreachable_env_def garbage_env_def)

text \<open>The node is connected, and the form asks to switch it off.\<close>

definition connected_world :: world where
  "connected_world = sample_world
     \<lparr>w_db := sample_db\<lparr>t_nodes := [sample_node\<lparr>n_setup_state := ''connected''\<rparr>]\<rparr>\<rparr>"

definition switch_off :: UpdateNodeInput where
  "switch_off =
     \<lparr>in_mode = [], in_node_id = ''edge'', in_name = ''Edge'', in_domain = ''edge.example'',
      in_api_url = ''http://edge'', in_protocol_type = ''naive'', in_node_secret = [],
      in_enabled = False, in_protocol_settings = zero_ProtocolSettings\<rparr>"

definition new_user_input :: CreateUserInput where
  "new_user_input =
     \<lparr>iu_username = ''carl'', iu_display_name = None, iu_enabled = True, iu_expires_at = None,
      iu_quota_mb = 0, iu_notes = None, iu_node_ids = [''n1'']\<rparr>"

text \<open>The third interaction with the database fails.\<close>

definition lookup_fault_env :: env where
  "lookup_fault_env = sample_env
     \<lparr>env_fault := (\<lambda>t. if t = 2 then Some (Refused (Errorf ''connection reset'')) else None)\<rparr>"

end
