(* ===== verification/Sync_Properties.thy ===== *)
theory Sync_Properties
  imports Sync_Requests Samples
begin

text \<open>
  The synchronisation of a node, step by step: \<open>SyncNode\<close> leaves users and assignments alone,
  so the users an attempt sends are those entitled in the tables it started from; a version
  given to the agent is above every version handed out for the node before.
\<close>

section \<open>Users and assignments are only read\<close>

definition people_same :: "db \<Rightarrow> db \<Rightarrow> bool" where
  "people_same d d' \<longleftrightarrow> t_users d' = t_users d \<and> t_access d' = t_access d"

interpretation people: preorder_on_tables people_same
  by unfold_locales (auto simp: people_same_def)

lemma stmt_people_same [within_intros]:
  "stmt_within people_same (insert_event ev)"
  "stmt_within people_same (update_node current key f)"
  by (auto intro!: stmt_withinI simp: people_same_def insert_event_def update_node_def Let_def
      split: if_splits option.splits)

lemma node_calls_people_same [within_intros]:
  "within (db_rel people_same) (NodeRepo_List e)"
  "within (db_rel people_same) (NodeRepo_Get e key)"
  "within (db_rel people_same) (NodeRepo_SyncRemoteState e key v a err)"
  "within (db_rel people_same) (NodeRepo_BumpVersion e key)"
  "within (db_rel people_same) (NodeRepo_MarkStatus e key s et)"
  "within (db_rel people_same) (NodeRepo_MarkSyncSuccess e key v)"
  "within (db_rel people_same) (NodeRepo_MarkSyncFailure e key s m)"
  "within (db_rel people_same) (NodeRepo_InsertSyncEvent e key v s h rq rs et)"
  "within (db_rel people_same) (Agent_StatusInfo e node)"
  "within (db_rel people_same) (Agent_Sync e node payload)"
  "within (db_rel people_same) (UserRepo_ActiveAccessForNode e key)"
  unfolding NodeRepo_defs Agent_StatusInfo_def Agent_Status_def Agent_Sync_def agent_do_def
    UserRepo_ActiveAccessForNode_def Let_def
  by ((rule people.effect_rules stmt_people_same repo_stmt_intros people.D_refl | simp)+)

lemma sync_people_same [within_intros]:
  "within (db_rel people_same) (fetchAndReconcileStatus e node)"
  "within (db_rel people_same) (syncNodeAttempt e node assigned version allowRetry)"
proof -
  show "within (db_rel people_same) (fetchAndReconcileStatus e node)"
    unfolding fetchAndReconcileStatus_def recordStatus_def
    by ((rule within_intros | rule people.effect_rules)+)
  have off: "within (db_rel people_same) (syncNodeAttempt e n us v False)" for n us v
    by (simp, rule people.attempt_body_within) (auto intro: within_intros)
  then show "within (db_rel people_same) (syncNodeAttempt e node assigned version allowRetry)"
    by (cases allowRetry) (simp_all, rule people.attempt_body_within, auto intro: within_intros)
qed

section \<open>The users entitled to a node\<close>

text \<open>What a node is to be told: the enabled assignments of enabled users that have not expired.\<close>

definition entitled :: "time \<Rightarrow> db \<Rightarrow> string \<Rightarrow> Access \<Rightarrow> User \<Rightarrow> bool" where
  "entitled current d nid a u \<longleftrightarrow>
     a \<in> set (t_access d) \<and> u \<in> set (t_users d) \<and> a_user_id a = u_id u \<and> a_node_id a = nid
     \<and> a_enabled a \<and> u_enabled u \<and> \<not> IsExpired current (u_expires_at u)"

definition entitled_user :: "Node \<Rightarrow> Access \<Rightarrow> User \<Rightarrow> AgentUser" where
  "entitled_user n a u =
     \<lparr>au_id = u_id u, au_username = a_protocol_username a, au_password = a_protocol_password a,
      au_enabled = True, au_expires_at = u_expires_at u, au_quota_mb = u_quota_mb u,
      au_protocols = [n_protocol_type n],
      au_meta = [(''backend_user_id'', u_id u), (''backend_username'', u_username u)]\<rparr>"

lemma set_active_access_rows:
  "set (active_access_rows current nid d) =
     {\<lparr>wu_access = a, wu_username = u_username u, wu_user_enabled = u_enabled u,
       wu_user_expires_at = u_expires_at u, wu_user_quota_mb = u_quota_mb u\<rparr> | a u.
      entitled current d nid a u}"
  unfolding active_access_rows_def if_nested set_join
  by (intro Collect_cong iff_exI) (auto simp: entitled_def)

lemma active_access_entitled:
  "agent_user n ` set (active_access_rows current nid d) =
     {entitled_user n a u | a u. entitled current d nid a u}"
proof -
  have "agent_user n \<lparr>wu_access = a, wu_username = u_username u, wu_user_enabled = u_enabled u,
       wu_user_expires_at = u_expires_at u, wu_user_quota_mb = u_quota_mb u\<rparr> = entitled_user n a u"
    if "entitled current d nid a u" for a u
    using that by (simp add: agent_user_def entitled_user_def entitled_def)
  then show ?thesis unfolding set_active_access_rows by force
qed

section \<open>The steps of SyncNode\<close>

lemma ActiveAccess_result:
  assumes "UserRepo_ActiveAccessForNode e key w = (Inr us, w')" and "env_parse_uuid e key = Some k"
  shows "set us = set (active_access_rows (env_db_now e (w_tick w)) k (w_db w))
    \<and> w_db w' = w_db w \<and> w_requests w' = w_requests w"
  using assms unfolding UserRepo_ActiveAccessForNode_def
  by (auto elim!: exec_Inr simp: uuid_arg_def reading_def)

lemma SyncNode_cases:
  assumes "SyncNode e key w = (r, w')"
  obtains (before) err rs where "r = Inl err" and "length rs \<le> 1"
      and "\<forall>rq \<in> set rs. \<exists>n. rq = status_request n" and "w_requests w' = w_requests w @ rs"
    | (attempted) n0 n us version rs w0 w1 w2 w3 w4 w5 where "length rs \<le> 1"
      and "\<forall>rq \<in> set rs. \<exists>n. rq = status_request n" and "w_requests w5 = w_requests w @ rs"
      and "NodeRepo_Get e key w = (Inr n0, w1)" and "fetchAndReconcileStatus e n0 w1 = (Inr w0, w2)"
      and "NodeRepo_Get e key w2 = (Inr n, w3)" and "NodeRepo_BumpVersion e key w3 = (Inr version, w4)"
      and "UserRepo_ActiveAccessForNode e key w4 = (Inr us, w5)"
      and "syncNodeAttempt e n us version True w5 = (r, w')"
proof -
  have quiet: "w_requests v' = w_requests v" if "within sends_nothing m" and "m v = (z, v')"
    for m :: "'x act" and v v' z
    using withinD [OF that] by (simp add: sends_nothing_def)
  note g = quiet [OF NodeRepo_silent(2)]
  from assms [unfolded SyncNode_def] show thesis
  proof (cases rule: bindE_cases)
    case (error err)
    with g show thesis by (intro before [of err "[]"]) auto
  next
    case (ok n0 w1)
    from ok(2) show thesis
    proof (cases rule: bindE_cases)
      case (error err)
      obtain rs where rs: "w_requests w' = w_requests w1 @ rs" "length rs \<le> 1"
          "\<forall>rq \<in> set rs. rq = status_request n0"
        using sends_fetchAndReconcileStatus error(1) by (rule sendsD)
      then have "w_requests w' = w_requests w @ rs" using g [OF ok(1)] by simp
      with rs error show thesis by (intro before [of err rs]) auto
    next
      case (ok w0 w2)
      obtain rs where rs: "w_requests w2 = w_requests w1 @ rs" "length rs \<le> 1"
          "\<forall>rq \<in> set rs. rq = status_request n0"
        using sends_fetchAndReconcileStatus ok(1) by (rule sendsD)
      then have w2: "w_requests w2 = w_requests w @ rs" using g [OF \<open>NodeRepo_Get e key w = _\<close>] by simp
      from ok(2) show thesis
      proof (cases rule: bindE_cases)
        case (error err)
        with g w2 rs show thesis by (intro before [of err rs]) auto
      next
        case (ok n w3)
        then have w3: "w_requests w3 = w_requests w @ rs" using g w2 by simp
        from ok(2) show thesis
        proof (cases rule: bindE_cases)
          case (error err)
          with quiet [OF NodeRepo_silent(7) error(1)] w3 rs show thesis
            by (intro before [of err rs]) auto
        next
          case (ok version w4)
          then have w4: "w_requests w4 = w_requests w @ rs"
            using quiet [OF NodeRepo_silent(7)] w3 by simp
          from ok(2) show thesis
          proof (cases rule: bindE_cases)
            case (error err)
            with quiet [OF UserRepo_silent(4) error(1)] w4 rs show thesis
              by (intro before [of err rs]) auto
          next
            case (ok us w5)
            then have "w_requests w5 = w_requests w @ rs"
              using quiet [OF UserRepo_silent(4)] w4 by simp
            with rs show thesis
              by (intro attempted [OF _ _ _ \<open>NodeRepo_Get e key w = _\<close>
                    \<open>fetchAndReconcileStatus e n0 w1 = _\<close> \<open>NodeRepo_Get e key w2 = _\<close>
                    \<open>NodeRepo_BumpVersion e key w3 = _\<close> ok]) auto
          qed
        qed
      qed
    qed
  qed
qed

lemma SyncNode_sent:
  assumes "SyncNode e key w = (r, w')"
  shows "\<exists>rs1 rs2 us. w_requests w' = w_requests w @ rs1 @ rs2 \<and> length rs1 \<le> 1 \<and> length rs2 \<le> 2
    \<and> (\<forall>rq \<in> set rs1. \<exists>n. rq = status_request n) \<and> (\<forall>rq \<in> set rs2. sync_request_of e us rq)
    \<and> (\<forall>k. env_parse_uuid e key = Some k \<longrightarrow> rs2 \<noteq> [] \<longrightarrow>
          (\<exists>t. set us = set (active_access_rows (env_db_now e t) k (w_db w))))"
  using assms
proof (cases rule: SyncNode_cases)
  case (before err rs)
  then show ?thesis by (intro exI [of _ rs] exI [of _ "[]"]) auto
next
  case (attempted n0 n us version rs w0 w1 w2 w3 w4 w5)
  obtain rs2 where rs2: "w_requests w' = w_requests w5 @ rs2" "length rs2 \<le> 2"
      "\<forall>rq \<in> set rs2. sync_request_of e us rq"
    using sends_syncNodeAttempt [of e us True n version] attempted(9)
    by (auto elim: sendsD)
  have "people_same (w_db w) (w_db w4)"
  proof -
    have "within (db_rel people_same) m \<Longrightarrow> m v = (z, v') \<Longrightarrow> people_same (w_db v) (w_db v')"
      for m :: "'x act" and v v' z
      using withinD [of "db_rel people_same" m v z v'] by (simp add: db_rel_def)
    note step = this [OF node_calls_people_same(2)] this [OF sync_people_same(1)]
      this [OF node_calls_people_same(4)]
    show ?thesis
      using step(1) [OF attempted(4)] step(2) [OF attempted(5)] step(1) [OF attempted(6)]
        step(3) [OF attempted(7)] people.D_trans by metis
  qed
  then have "set us = set (active_access_rows (env_db_now e (w_tick w4)) k (w_db w))"
    if "env_parse_uuid e key = Some k" for k
    using ActiveAccess_result [OF attempted(8) that]
    by (simp add: people_same_def active_access_rows_def)
  then show ?thesis
    using rs2 attempted(1-3) by (intro exI [of _ rs] exI [of _ rs2] exI [of _ us]) auto
qed

section \<open>Properties\<close>

text \<open>
  C1: safety and completeness of what a node agent is told.  Every sync request \<open>SyncNode\<close>
  sends, the retry included, is addressed to the agent of a node, with the node's id and secret,
  and its body encodes a payload whose users are exactly the entitled ones: those with an enabled
  assignment to the node whose account is enabled and not expired at a reading of the database's
  clock during the call.  So a disabled or expired user is never sent, and no entitled user is
  left out.
\<close>

theorem SyncNode_sends_exactly_entitled:
  assumes run: "SyncNode e key w = (r, w')"
    and key: "env_parse_uuid e key = Some k"
    and rq: "rq \<in> set (sent w w')" and post: "rq_method rq = ''POST''"
  shows "\<exists>n v t p. env_encode_payload e p = Inr (rq_body rq)
    \<and> rq = agent_request n ''POST'' ''/v1/sync'' (Some (rq_body rq))
    \<and> sp_node_id p = n_node_id n \<and> sp_protocol_type p = n_protocol_type n
    \<and> sp_config_version p = v
    \<and> set (sp_users p) = {entitled_user n a u | a u. entitled (env_db_now e t) (w_db w) k a u}"
proof -
  obtain rs1 rs2 us where rs: "w_requests w' = w_requests w @ rs1 @ rs2"
      "\<forall>rq \<in> set rs1. \<exists>n. rq = status_request n" "\<forall>rq \<in> set rs2. sync_request_of e us rq"
      "rs2 \<noteq> [] \<longrightarrow> (\<exists>t. set us = set (active_access_rows (env_db_now e t) k (w_db w)))"
    using SyncNode_sent [OF run] key by blast
  have "rq \<in> set rs2"
    using rs(1,2) rq post by (auto simp: sent_def status_request_def agent_request_def)
  with rs(3,4) obtain t where "sync_request_of e us rq"
      and us: "set us = set (active_access_rows (env_db_now e t) k (w_db w))"
    by (cases rs2) auto
  then obtain n v body where body: "env_encode_payload e (sync_payload n us v) = Inr body"
      "rq = agent_request n ''POST'' ''/v1/sync'' (Some body)"
    by (auto simp: sync_request_of_def sync_request_def)
  moreover have "rq_body rq = body" by (simp add: body agent_request_def body_text_def)
  moreover have "set (sp_users (sync_payload n us v)) =
      {entitled_user n a u | a u. entitled (env_db_now e t) (w_db w) k a u}"
    using us active_access_entitled [of n "env_db_now e t" k "w_db w"]
    by (simp add: sync_payload_def)
  ultimately show ?thesis
    by (intro exI [of _ n] exI [of _ v] exI [of _ t] exI [of _ "sync_payload n us v"])
      (simp add: sync_payload_def)
qed

lemma SyncNode_sends_exactly_entitled_witness:
  "\<exists>n p. env_encode_payload sample_env p = Inr ''payload'' \<and> sp_node_id p = n_node_id n
     \<and> set (sp_users p) = {entitled_user n a u | a u. entitled 100 sample_db ''n1'' a u}"
proof -
  let ?rq = "agent_request sample_node ''POST'' ''/v1/sync'' (Some ''payload'')"
  let ?w = "snd (SyncNode sample_env ''n1'' sample_world)"
  have "?rq \<in> set (sent sample_world ?w)" and "rq_method ?rq = ''POST''" and "rq_body ?rq = ''payload''"
    by code_simp+
  with SyncNode_sends_exactly_entitled [of sample_env "''n1''" sample_world
      "fst (SyncNode sample_env ''n1'' sample_world)" ?w "''n1''" ?rq]
  show ?thesis by auto
qed

text \<open>
  C10: a synchronisation sends at most one status request followed by at most two sync requests,
  whatever the agent answers: the retry on a stale version happens at most once.
\<close>

theorem SyncNode_retries_at_most_once:
  "\<exists>rs1 rs2. w_requests (snd (SyncNode e key w)) = w_requests w @ rs1 @ rs2
     \<and> length rs1 \<le> 1 \<and> length rs2 \<le> 2
     \<and> list_all (\<lambda>rq. rq_method rq = ''GET'' \<and> rq_body rq = []) rs1
     \<and> list_all (\<lambda>rq. rq_method rq = ''POST'' \<and> rq_content_type rq = ''application/json'') rs2"
proof -
  obtain rs1 rs2 us where "w_requests (snd (SyncNode e key w)) = w_requests w @ rs1 @ rs2"
      "length rs1 \<le> 1" "length rs2 \<le> 2" "\<forall>rq \<in> set rs1. \<exists>n. rq = status_request n"
      "\<forall>rq \<in> set rs2. sync_request_of e us rq"
    using SyncNode_sent [of e key w] by (metis prod.collapse)
  then show ?thesis
    by (intro exI [of _ rs1] exI [of _ rs2])
      (auto simp: list_all_iff status_request_def sync_request_of_def sync_request_def
        agent_request_def body_text_def)
qed

end
