(* ===== verification/Sync_Outcomes.thy ===== *)
theory Sync_Outcomes
  imports Sync_Properties
begin

text \<open>
  What the outcomes of a synchronisation mean: success, a stale version with its retry, an agent
  that cannot be reached, and a reply that is not JSON.
\<close>

section \<open>Statements on one node\<close>

text \<open>Documented behaviour of the server: a parsed id is canonical, and reads back as itself.\<close>

definition ids_idempotent :: "env \<Rightarrow> bool" where
  "ids_idempotent e \<longleftrightarrow> (\<forall>s k. env_parse_uuid e s = Some k \<longrightarrow> env_parse_uuid e k = Some k)"

lemma ids_idempotentD: "ids_idempotent e \<Longrightarrow> env_parse_uuid e s = Some k \<Longrightarrow> env_parse_uuid e k = Some k"
  by (auto simp: ids_idempotent_def)

lemma node_row_id: "node_row d k = Some n \<Longrightarrow> n_id n = k \<and> n \<in> set (t_nodes d)"
  unfolding node_row_def by (auto dest: find_SomeD)

text \<open>
  \<open>amended e key f w w'\<close>: the statement changed the row with this id by \<open>f\<close>, and nothing else.
\<close>

definition row_amended :: "string \<Rightarrow> (Node \<Rightarrow> Node) \<Rightarrow> db \<Rightarrow> db \<Rightarrow> bool" where
  "row_amended k f d d' \<longleftrightarrow>
     (\<exists>current. node_row d' = (\<lambda>j. if j = k
        then map_option (\<lambda>n. (f n)\<lparr>n_updated_at := current\<rparr>) (node_row d k) else node_row d j))
     \<and> t_users d' = t_users d \<and> t_access d' = t_access d \<and> t_events d' = t_events d"

lemma row_amendedD:
  assumes "row_amended k f d d'" and "node_row d k = Some n"
  shows "\<exists>current. node_row d' k = Some ((f n)\<lparr>n_updated_at := current\<rparr>)"
  using assms by (auto simp: row_amended_def)

lemma update_node_amended:
  assumes "update_node current k f d = Inr (x, d')" and "\<And>n. n_id (f n) = n_id n"
  shows "row_amended k f d d'"
  unfolding row_amended_def using update_node_row [OF assms]
  by (intro conjI exI [of _ current]) (auto simp: fun_eq_iff)

lemma exec_update_row:
  assumes run: "exec e (\<lambda>t. uuid_arg e key (\<lambda>k. no_result (update_node (env_db_now e t) k (F t)))) w = (r, w')"
    and F: "\<And>t n. n_id (F t n) = n_id n"
    and key: "env_parse_uuid e key = Some k"
  shows "w_db w' = w_db w \<and> (\<exists>err. r = Inl err) \<or> row_amended k (F (w_tick w)) (w_db w) (w_db w')"
    and "w_requests w' = w_requests w"
proof -
  show "w_db w' = w_db w \<and> (\<exists>err. r = Inl err) \<or> row_amended k (F (w_tick w)) (w_db w) (w_db w')"
    using run
  proof (cases rule: exec_cases)
    case (failed err)
    then show ?thesis by simp
  next
    case (run x d)
    from run(1) key obtain y where "update_node (env_db_now e (w_tick w)) k (F (w_tick w)) (w_db w) = Inr (y, d)"
      by (auto simp: uuid_arg_def no_result_def split: sum.splits)
    from this F have "row_amended k (F (w_tick w)) (w_db w) d" by (rule update_node_amended)
    with run(2) show ?thesis by simp
  qed
  show "w_requests w' = w_requests w"
    using withinD [OF silent_effects(1) run] by (simp add: sends_nothing_def)
qed

lemma MarkSyncSuccess_row:
  assumes "NodeRepo_MarkSyncSuccess e key v w = (Inr x, w')" and "env_parse_uuid e key = Some k"
  obtains t where "row_amended k (success_node (env_db_now e t) v) (w_db w) (w_db w')"
  using exec_update_row(1) [OF assms(1) [unfolded NodeRepo_MarkSyncSuccess_def] _ assms(2)] by auto

lemma SyncRemoteState_row:
  assumes "NodeRepo_SyncRemoteState e key v a m w = (Inr x, w')" and "env_parse_uuid e key = Some k"
  obtains t where "row_amended k
      (remote_state_node (env_db_now e t) v (if a \<le> 0 then v else a) m) (w_db w) (w_db w')"
  using exec_update_row(1) [OF assms(1) [unfolded NodeRepo_SyncRemoteState_def Let_def] _ assms(2)] by auto

lemma MarkSyncFailure_row:
  assumes "NodeRepo_MarkSyncFailure e key s m w = (r, w')" and "env_parse_uuid e key = Some k"
  obtains (unchanged) "w_db w' = w_db w"
    | (amended) t where "row_amended k (failure_node (env_db_now e t) s m) (w_db w) (w_db w')"
  using exec_update_row(1) [OF assms(1) [unfolded NodeRepo_MarkSyncFailure_def] _ assms(2)] by auto

lemma MarkStatus_row:
  assumes "NodeRepo_MarkStatus e key s m w = (r, w')" and "env_parse_uuid e key = Some k"
  obtains (unchanged) "w_db w' = w_db w"
    | (amended) t where "row_amended k (status_node (env_db_now e t) s m) (w_db w) (w_db w')"
  using exec_update_row(1) [OF assms(1) [unfolded NodeRepo_MarkStatus_def] _ assms(2)] by auto

lemma Get_row:
  assumes "NodeRepo_Get e key w = (Inr n, w')" and "env_parse_uuid e key = Some k"
  obtains n0 where "node_row (w_db w) k = Some n0" and "n = scanNode n0" and "n_id n = k"
    and "w_db w' = w_db w"
proof -
  from assms obtain n0 where "select_node k (w_db w) = Inr n0" "n = scanNode n0" "w_db w' = w_db w"
    by (auto simp: NodeRepo_Get_def bindE_Inr_iff io_simps uuid_arg_def reading_def
        split: sum.splits elim!: exec_Inr)
  then show thesis
    using that [of n0] node_row_id [of "w_db w" k n0]
    by (auto simp: select_node_def node_row_def scanNode_def split: option.splits)
qed

lemma BumpVersion_row:
  assumes "NodeRepo_BumpVersion e key w = (Inr v, w')" and "env_parse_uuid e key = Some k"
  obtains n where "node_row (w_db w) k = Some n" and "v = n_desired_config_version n + 1"
    and "v \<le> int64_max" and "row_amended k bump_node (w_db w) (w_db w')"
proof -
  from assms obtain d where stmt: "bump_version (env_db_now e (w_tick w)) k (w_db w) = Inr (v, d)"
      and d: "w_db w' = d"
    by (auto simp: NodeRepo_BumpVersion_def uuid_arg_def elim!: exec_Inr)
  then obtain n y where n: "node_row (w_db w) k = Some n" "n_desired_config_version n < int64_max"
      and up: "update_node (env_db_now e (w_tick w)) k bump_node (w_db w) = Inr (Some y, d)"
      and v: "v = n_desired_config_version y"
    by (auto simp: bump_version_def one_row_def node_row_def split: option.splits if_splits sum.splits)
  note row = update_node_row [OF up edit_functions_id(3)]
  from row(1) n v have "v = n_desired_config_version n + 1" by simp
  moreover have "row_amended k bump_node (w_db w) (w_db w')"
    using update_node_amended [OF up] d by simp
  ultimately show thesis using n that by simp
qed

lemma InsertSyncEvent_row:
  assumes "NodeRepo_InsertSyncEvent e key v s h rq rs et w = (Inr x, w')" and "env_parse_uuid e key = Some k"
  obtains t rq' rs' where "jsonb_arg e rq = Inr rq'" and "jsonb_arg e rs = Inr rs'"
    and "w_db w' = (w_db w)\<lparr>t_events := t_events (w_db w) @
      [\<lparr>ev_id = env_uuid e t, ev_node_id = k, ev_config_version = v, ev_status = s,
        ev_http_status = h, ev_request_json = rq', ev_response_json = rs', ev_error = et,
        ev_created_at = env_db_now e t\<rparr>]\<rparr>"
  using assms
  by (auto simp: NodeRepo_InsertSyncEvent_def uuid_arg_def insert_event_def
      split: sum.splits if_splits elim!: exec_Inr)

section \<open>Events are only added\<close>

definition events_grow :: "db \<Rightarrow> db \<Rightarrow> bool" where
  "events_grow d d' \<longleftrightarrow> (\<exists>new. t_events d' = t_events d @ new)"

interpretation events: preorder_on_tables events_grow
  by unfold_locales (auto simp: events_grow_def)

lemma stmt_events_grow [within_intros]:
  "stmt_within events_grow (insert_event ev)"
  "stmt_within events_grow (update_node current key f)"
  by (auto intro!: stmt_withinI simp: events_grow_def insert_event_def update_node_def Let_def
      split: if_splits option.splits)

lemma node_calls_events_grow [within_intros]:
  "within (db_rel events_grow) (NodeRepo_Get e key)"
  "within (db_rel events_grow) (NodeRepo_SyncRemoteState e key v a err)"
  "within (db_rel events_grow) (NodeRepo_BumpVersion e key)"
  "within (db_rel events_grow) (NodeRepo_MarkStatus e key s et)"
  "within (db_rel events_grow) (NodeRepo_MarkSyncSuccess e key v)"
  "within (db_rel events_grow) (NodeRepo_MarkSyncFailure e key s m)"
  "within (db_rel events_grow) (NodeRepo_InsertSyncEvent e key v s h rq rs et)"
  "within (db_rel events_grow) (Agent_StatusInfo e node)"
  "within (db_rel events_grow) (Agent_Sync e node payload)"
  "within (db_rel events_grow) (UserRepo_ActiveAccessForNode e key)"
  unfolding NodeRepo_defs Agent_StatusInfo_def Agent_Status_def Agent_Sync_def agent_do_def
    UserRepo_ActiveAccessForNode_def Let_def
  by ((rule events.effect_rules stmt_events_grow repo_stmt_intros events.D_refl | simp)+)

lemma fetch_events_grow [within_intros]:
  "within (db_rel events_grow) (fetchAndReconcileStatus e node)"
  unfolding fetchAndReconcileStatus_def recordStatus_def
  by ((rule within_intros | rule events.effect_rules)+)

lemma eventsD: "within (db_rel events_grow) m \<Longrightarrow> m w = (r, w') \<Longrightarrow> events_grow (w_db w) (w_db w')"
  by (drule (1) withinD) (simp add: db_rel_def)

section \<open>What success means\<close>

text \<open>
  The state a successful synchronisation of node \<open>k\<close>, started in \<open>d0\<close>, ends in: the row says
  what the agent confirmed, and the newest of the events added is the exchange that did it.
\<close>

definition sync_recorded :: "string \<Rightarrow> AgentResponse \<Rightarrow> db \<Rightarrow> db \<Rightarrow> bool" where
  "sync_recorded k resp d0 d \<longleftrightarrow>
     (\<exists>n ev past. node_row d k = Some n \<and> n_last_status n = Some ''ok'' \<and> n_last_error n = None
        \<and> n_setup_state n = SetupStateConnected \<and> n_last_sync_at n \<noteq> None
        \<and> n_last_applied_version n = ar_applied_version resp
        \<and> t_events d = t_events d0 @ past @ [ev] \<and> ev_node_id ev = k \<and> ev_status ev = ''ok'' \<and> ev_error ev = None
        \<and> ev_config_version ev = n_desired_config_version n)"

definition desired_is :: "string \<Rightarrow> int \<Rightarrow> db \<Rightarrow> bool" where
  "desired_is k v d \<longleftrightarrow> (\<exists>n. node_row d k = Some n \<and> n_desired_config_version n = v)"

lemma silentD: "within sends_nothing m \<Longrightarrow> m w = (r, w') \<Longrightarrow> w_requests w' = w_requests w"
  by (drule (1) withinD) (simp add: sends_nothing_def)

text \<open>
  The retry either fails before it sends anything, or makes another attempt with the node read
  anew and a version above both the one the agent found stale and the one the agent reports.
\<close>

lemma retry_advances:
  assumes run: "retryFromAgentResponse e ag node us version rq result r0 w1 = (r, w')"
    and k: "n_id node = k" "env_parse_uuid e k = Some k"
    and desired: "desired_is k version (w_db w1)"
  obtains (stopped) err where "r = Inl err" and "w_requests w' = w_requests w1"
    | (again) n v w6 where "ag n us v w6 = (r, w')" and "n_id n = k" and "desired_is k v (w_db w6)"
      and "version < v" and "ar_current_version r0 < v" and "v \<le> int64_max"
      and "w_requests w6 = w_requests w1" and "events_grow (w_db w1) (w_db w6)"
proof -
  let ?msg = "agentResponseError r0"
  obtain r1 w2 where ev: "NodeRepo_InsertSyncEvent e k version ''stale_version''
      (Some (cr_status_code result)) rq (cr_body result) (strPtr ?msg) w1 = (r1, w2)" by force
  obtain r2 w3 where mark: "NodeRepo_MarkSyncFailure e k ''stale_version'' ?msg w2 = (r2, w3)" by force
  obtain r3 w4 where remote: "NodeRepo_SyncRemoteState e k (ar_current_version r0)
      (remoteAppliedVersionFromResponse r0) None w3 = (r3, w4)" by force
  obtain r4 w5 where get: "NodeRepo_Get e k w4 = (r4, w5)" by force
  obtain r5 w6 where bump: "NodeRepo_BumpVersion e k w5 = (r5, w6)" by force
  have quiet: "w_requests w2 = w_requests w1" "w_requests w3 = w_requests w2"
      "w_requests w4 = w_requests w3" "w_requests w5 = w_requests w4" "w_requests w6 = w_requests w5"
    using silentD [OF NodeRepo_silent(11) ev] silentD [OF NodeRepo_silent(10) mark]
      silentD [OF NodeRepo_silent(6) remote] silentD [OF NodeRepo_silent(2) get]
      silentD [OF NodeRepo_silent(7) bump] .
  have grow: "events_grow (w_db w1) (w_db w6)"
    using eventsD [OF node_calls_events_grow(7) ev] eventsD [OF node_calls_events_grow(6) mark]
      eventsD [OF node_calls_events_grow(2) remote] eventsD [OF node_calls_events_grow(1) get]
      eventsD [OF node_calls_events_grow(3) bump] by (blast intro: events.D_trans)
  have shape: "retryFromAgentResponse e ag node us version rq result r0 w1 =
      (case r1 of Inl err \<Rightarrow> (Inl err, w2) | Inr _ \<Rightarrow>
       case r3 of Inl err \<Rightarrow> (Inl err, w4) | Inr _ \<Rightarrow>
       case r4 of Inl err \<Rightarrow> (Inl err, w5) | Inr n \<Rightarrow>
       case r5 of Inl err \<Rightarrow> (Inl err, w6) | Inr v \<Rightarrow> ag n us v w6)"
    using ev mark remote get bump k(1)
    by (auto simp: retryFromAgentResponse_def Let_def fail_attempt_def thenE_def ignoreE_def bindE_def
        split: sum.splits)
  show thesis
  proof (cases "\<exists>u1 u3 n v. r1 = Inr u1 \<and> r3 = Inr u3 \<and> r4 = Inr n \<and> r5 = Inr v")
    case False
    with run shape quiet have "(\<exists>err. r = Inl err) \<and> w_requests w' = w_requests w1"
      by (auto split: sum.splits)
    then show thesis using stopped by blast
  next
    case True
    then obtain u1 u3 n v where ok: "r1 = Inr u1" "r3 = Inr u3" "r4 = Inr n" "r5 = Inr v" by blast
    obtain n0 where n0: "node_row (w_db w1) k = Some n0" "n_desired_config_version n0 = version"
      using desired by (auto simp: desired_is_def)
    have n2: "node_row (w_db w2) k = Some n0"
    proof (rule InsertSyncEvent_row [OF ev [unfolded ok] k(2)])
      fix t rq' rs'
      assume "w_db w2 = (w_db w1)\<lparr>t_events := t_events (w_db w1) @
        [\<lparr>ev_id = env_uuid e t, ev_node_id = k, ev_config_version = version, ev_status = ''stale_version'',
          ev_http_status = Some (cr_status_code result), ev_request_json = rq', ev_response_json = rs',
          ev_error = strPtr ?msg, ev_created_at = env_db_now e t\<rparr>]\<rparr>"
      with n0 show ?thesis by (simp add: node_row_def)
    qed
    have "\<exists>n3. node_row (w_db w3) k = Some n3 \<and> n_desired_config_version n3 = version"
      using mark k(2)
    proof (cases rule: MarkSyncFailure_row)
      case unchanged
      with n2 n0(2) show ?thesis by simp
    next
      case (amended t)
      from row_amendedD [OF this n2] n0(2) show ?thesis by auto
    qed
    then obtain n3 where n3: "node_row (w_db w3) k = Some n3" "n_desired_config_version n3 = version"
      by blast
    obtain t where "row_amended k (remote_state_node (env_db_now e t) (ar_current_version r0)
        (if remoteAppliedVersionFromResponse r0 \<le> 0 then ar_current_version r0
         else remoteAppliedVersionFromResponse r0) None) (w_db w3) (w_db w4)"
      using SyncRemoteState_row [OF remote [unfolded ok] k(2)] .
    with n3 obtain n4 where n4: "node_row (w_db w4) k = Some n4"
        "n_desired_config_version n4 = max version (ar_current_version r0)"
      by (auto simp: row_amended_def)
    have n5: "w_db w5 = w_db w4" "n_id n = k"
      using Get_row [OF get [unfolded ok] k(2)] by metis+
    obtain n6 where "node_row (w_db w5) k = Some n6" "v = n_desired_config_version n6 + 1"
        "v \<le> int64_max" "row_amended k bump_node (w_db w5) (w_db w6)"
      using BumpVersion_row [OF bump [unfolded ok] k(2)] .
    with n4 n5 have "desired_is k v (w_db w6)" "version < v" "ar_current_version r0 < v" "v \<le> int64_max"
      by (auto simp: desired_is_def row_amended_def)
    with run shape ok n5(2) quiet grow show thesis by (intro again [of n v w6]) auto
  qed
qed

lemma Agent_Sync_db: "Agent_Sync e node p w = (r, w') \<Longrightarrow> w_db w' = w_db w"
  by (auto simp: Agent_Sync_def io_simps agent_do_run bindE_def split: sum.splits prod.splits)

text \<open>How an attempt can succeed: by its own exchange, or by the attempt of a retry.\<close>

lemma attempt_success_cases:
  assumes run: "attempt_body e again node us version w = (Inr resp, w')"
  obtains (retried) result rq w1 ag r0 where "w_db w1 = w_db w" and "again = Some ag"
      and "retryFromAgentResponse e ag node us version rq result r0 w1 = (Inr resp, w')"
    | (confirmed) result :: AgentCallResult and rq w1 w2 r0 v where "w_db w1 = w_db w" and "ar_ok r0"
      and "v = (if ar_applied_version r0 \<le> 0 then version else ar_applied_version r0)"
      and "NodeRepo_InsertSyncEvent e (n_id node) version ''ok'' (Some (cr_status_code result)) rq
            (cr_body result) None w1 = (Inr (), w2)"
      and "NodeRepo_MarkSyncSuccess e (n_id node) v w2 = (Inr (), w')"
      and "resp = r0\<lparr>ar_applied_version := v\<rparr>"
proof -
  obtain result rq err w1 where sent: "Agent_Sync e node (sync_payload node us version) w = (Inr (result, rq, err), w1)"
    and rest: "(case err of Some er \<Rightarrow> handle_call_error e again node us version result rq er
       | None \<Rightarrow> handle_response e again node us version result rq) w1 = (Inr resp, w')"
    using run by (auto simp: attempt_body_def bindE_Inr_iff)
  note d1 = Agent_Sync_db [OF sent]
  show thesis
  proof (cases err)
    case (Some er)
    with rest obtain ag r0 where "again = Some ag"
        and "retryFromAgentResponse e ag node us version rq result r0 w1 = (Inr resp, w')"
      by (auto simp: handle_call_error_def retryOnStaleVersion_def fail_attempt_def Let_def io_simps
          thenE_def bindE_Inr_iff split: option.splits sum.splits if_splits)
    with d1 show thesis by (rule retried)
  next
    case None
    with rest obtain r0 where dec: "env_decode_response e (body_text (cr_body result)) = Inr r0"
      and r0: "handle_response e again node us version result rq w1 = (Inr resp, w')"
      by (auto simp: handle_response_def fail_attempt_def io_simps thenE_def bindE_Inr_iff split: sum.splits)
    show thesis
    proof (cases "ar_ok r0")
      case False
      with r0 dec obtain ag where "again = Some ag"
          and "retryFromAgentResponse e ag node us version rq result r0 w1 = (Inr resp, w')"
        by (auto simp: handle_response_def agent_refused_def fail_attempt_def Let_def io_simps thenE_def
            bindE_Inr_iff split: option.splits if_splits)
      with d1 show thesis by (rule retried)
    next
      case True
      with r0 dec d1 show thesis
        using confirmed [OF d1 True refl]
        by (auto simp: handle_response_def Let_def thenE_def bindE_Inr_iff io_simps)
    qed
  qed
qed

lemma attempt_success:
  assumes run: "attempt_body e again node us version w = (Inr resp, w')"
    and k: "n_id node = k" "env_parse_uuid e k = Some k"
    and desired: "desired_is k version (w_db w)" and before: "events_grow d0 (w_db w)"
    and again: "\<And>ag n v w1. again = Some ag \<Longrightarrow> n_id n = k \<Longrightarrow> desired_is k v (w_db w1) \<Longrightarrow>
      events_grow d0 (w_db w1) \<Longrightarrow> ag n us v w1 = (Inr resp, w') \<Longrightarrow>
      ar_ok resp \<and> sync_recorded k resp d0 (w_db w')"
  shows "ar_ok resp \<and> sync_recorded k resp d0 (w_db w')"
  using run
proof (cases rule: attempt_success_cases)
  case (retried result rq w1 ag r0)
  have "desired_is k version (w_db w1)" using desired retried(1) by simp
  with retried(3) k show ?thesis
  proof (cases rule: retry_advances)
    case (again n v w6)
    moreover have "events_grow d0 (w_db w6)"
      using before again(8) retried(1) events.D_trans by simp
    ultimately show ?thesis using assms(6) retried(2) by blast
  qed simp
next
  case (confirmed result rq w1 w2 r0 v)
  obtain n0 where n0: "node_row (w_db w1) k = Some n0" "n_desired_config_version n0 = version"
    using desired confirmed(1) by (auto simp: desired_is_def)
  from InsertSyncEvent_row [OF confirmed(4) [unfolded k(1)] k(2)] obtain t rq' rs' where
    "w_db w2 = (w_db w1)\<lparr>t_events := t_events (w_db w1) @
      [\<lparr>ev_id = env_uuid e t, ev_node_id = k, ev_config_version = version, ev_status = ''ok'',
        ev_http_status = Some (cr_status_code result), ev_request_json = rq', ev_response_json = rs',
        ev_error = None, ev_created_at = env_db_now e t\<rparr>]\<rparr>" by metis
  moreover from this n0 have "node_row (w_db w2) k = Some n0" by (simp add: node_row_def)
  moreover obtain t' where "row_amended k (success_node (env_db_now e t') v) (w_db w2) (w_db w')"
    using MarkSyncSuccess_row [OF confirmed(5) [unfolded k(1)] k(2)] .
  moreover obtain past where "t_events (w_db w1) = t_events d0 @ past"
    using before confirmed(1) by (auto simp: events_grow_def)
  ultimately show ?thesis
    using confirmed(2,3,6) n0(2)
    by (auto simp: sync_recorded_def row_amended_def success_node_def SetupStateConnected_def)
qed

section \<open>The state in which the attempt of a synchronisation starts\<close>

lemma SyncNode_attempt_start:
  assumes run: "SyncNode e key w = (r, w')" and key: "env_parse_uuid e key = Some k"
    and ok: "db_ok (w_db w)"
  obtains (before) err rs where "r = Inl err" and "length rs \<le> 1"
      and "\<forall>rq \<in> set rs. \<exists>n. rq = status_request n" and "w_requests w' = w_requests w @ rs"
    | (attempted) n0 n us version rs w5 where "length rs \<le> 1"
      and "\<forall>rq \<in> set rs. \<exists>n. rq = status_request n" and "w_requests w5 = w_requests w @ rs"
      and "node_row (w_db w) k = Some n0" and "n_desired_config_version n0 < version"
      and "n_id n = k" and "desired_is k version (w_db w5)"
      and "events_grow (w_db w) (w_db w5)"
      and "syncNodeAttempt e n us version True w5 = (r, w')"
  using run
proof (cases rule: SyncNode_cases)
  case (before err rs)
  then show thesis by (rule that(1))
next
  case (attempted n0 n us version rs w0 w1 w2 w3 w4 w5)
  obtain n1 where n1: "node_row (w_db w) k = Some n1" "w_db w1 = w_db w"
    using Get_row [OF attempted(4) key] .
  obtain n3 where n3: "n_id n = k" "w_db w3 = w_db w2"
    using Get_row [OF attempted(6) key] by metis
  obtain n4 where n4: "node_row (w_db w3) k = Some n4" "version = n_desired_config_version n4 + 1"
      "row_amended k bump_node (w_db w3) (w_db w4)"
    using BumpVersion_row [OF attempted(7) key] by metis
  have "versions_advance (w_db w1) (w_db w2)"
    using withinD [OF manager_versions(1) attempted(5)] by (simp add: db_rel_def)
  then obtain n2 where "n2 \<in> set (t_nodes (w_db w2))" "n_id n2 = k"
      "n_desired_config_version n1 \<le> n_desired_config_version n2" and ok2: "db_ok (w_db w2)"
    using ok n1 node_row_id [OF n1(1)] by (auto simp: versions_advance_def)
  moreover have "n2 = n4" if "n2 \<in> set (t_nodes (w_db w2))" "n_id n2 = k"
    using that n4(1) n3(2) db_okD(1) [OF ok2] node_row_id [OF n4(1)]
    by (auto simp: distinct_map inj_on_def)
  ultimately have "n_desired_config_version n1 < version" using n4(2) by auto
  moreover have "w_db w5 = w_db w4" using ActiveAccess_result [OF attempted(8) key] by simp
  then have "desired_is k version (w_db w5)"
    using n4 by (auto simp: desired_is_def row_amended_def)
  moreover have "events_grow (w_db w) (w_db w5)"
    using eventsD [OF node_calls_events_grow(1) attempted(4)] eventsD [OF fetch_events_grow attempted(5)]
      eventsD [OF node_calls_events_grow(1) attempted(6)] eventsD [OF node_calls_events_grow(3) attempted(7)]
      eventsD [OF node_calls_events_grow(10) attempted(8)] by (blast intro: events.D_trans)
  ultimately show thesis
    using that(2) attempted(1-3,9) n1(1) n3(1) by blast
qed

lemma SyncNode_success:
  assumes run: "SyncNode e key w = (Inr resp, w')" and key: "env_parse_uuid e key = Some k"
    and k: "env_parse_uuid e k = Some k" and ok: "db_ok (w_db w)"
  shows "ar_ok resp \<and> sync_recorded k resp (w_db w) (w_db w')"
  using run key ok
proof (cases rule: SyncNode_attempt_start)
  case (attempted n0 n us version rs w5)
  from attempted(9) have "attempt_body e
      (Some (\<lambda>rn asg rv. syncNodeAttempt e rn asg rv False)) n us version w5 = (Inr resp, w')" by simp
  then show ?thesis using attempted(6) k attempted(7,8)
  proof (rule attempt_success)
    fix ag m v w1
    assume "Some (\<lambda>rn asg rv. syncNodeAttempt e rn asg rv False) = Some ag" and m: "n_id m = k"
      "desired_is k v (w_db w1)" "events_grow (w_db w) (w_db w1)" and "ag m us v w1 = (Inr resp, w')"
    then have "attempt_body e None m us v w1 = (Inr resp, w')" by auto
    then show "ar_ok resp \<and> sync_recorded k resp (w_db w) (w_db w')"
      using m(1) k m(2,3) by (rule attempt_success) simp
  qed
qed simp

end
