(* ===== verification/Sync_Claims.thy ===== *)
theory Sync_Claims
  imports Sync_Outcomes
begin

text \<open>
  The properties of a synchronisation that its outcomes give: what success means, when a second
  request is sent, and what an agent that does not answer properly leaves behind.
\<close>

section \<open>Properties\<close>

text \<open>
  C11: what a successful \<open>SyncNode\<close> means.  When it reports success, with or without a retry,
  the agent has answered \<open>ok\<close>, the node's row is marked connected and \<open>ok\<close> without an error,
  its applied version is the one reported to the caller, and the newest sync event is the
  successful exchange, with the version the node is to have.
\<close>

theorem SyncNode_success_is_recorded:
  assumes run: "SyncNode e key w = (Inr resp, w')" and key: "env_parse_uuid e key = Some k"
    and ids: "ids_idempotent e" and ok: "db_ok (w_db w)"
  shows "ar_ok resp \<and> sync_recorded k resp (w_db w) (w_db w')"
  using run key ids_idempotentD [OF ids key] ok by (rule SyncNode_success)

lemma SyncNode_success_is_recorded_witness:
  "sync_recorded ''n1'' (sample_response\<lparr>ar_applied_version := 6\<rparr>) sample_db
       (w_db (snd (SyncNode sample_env ''n1'' sample_world)))"
proof -
  have "SyncNode sample_env ''n1'' sample_world =
      (Inr (sample_response\<lparr>ar_applied_version := 6\<rparr>), snd (SyncNode sample_env ''n1'' sample_world))"
    by (rule prod_eqI) (code_simp, simp)
  from SyncNode_success_is_recorded [OF this, of "''n1''"]
  show ?thesis by (simp add: ids_idempotent_def sample_db_ok)
qed

text \<open>What the panel reads out of the answer to a request.\<close>

definition agent_answer :: "env \<Rightarrow> nat \<Rightarrow> http_request \<Rightarrow> goerr + AgentResponse" where
  "agent_answer e t rq =
     env_decode_response e (body_text (cr_body (fst (agent_result (env_http e t rq)))))"

lemma handlers_retry_cases:
  assumes "handle_call_error e again node us version result rq er w = (r, w')
      \<or> handle_response e again node us version result rq w = (r, w')"
  obtains (ends) "w_requests w' = w_requests w"
    | (retries) ag resp where "again = Some ag"
      and "env_decode_response e (body_text (cr_body result)) = Inr resp"
      and "ar_status resp = ''stale_version''"
      and "retryFromAgentResponse e ag node us version rq result resp w = (r, w')"
proof -
  have quiet: "within sends_nothing (fail_attempt e n v s rs q et m (failE er'))"
    for n v s rs q et m er' by (intro within_intros silent.rules)
  have success: "within sends_nothing (thenE (NodeRepo_InsertSyncEvent e key v s h rqb rsb et)
      (thenE (NodeRepo_MarkSyncSuccess e key' a) (retE resp)))" for key v s h rqb rsb et key' a resp
    by (intro silent.rules within_intros)
  show thesis
    using assms ends retries
    by (auto simp: handle_call_error_def handle_response_def retryOnStaleVersion_def Let_def
        split: option.splits sum.splits if_splits
        dest!: silentD [OF quiet] silentD [OF success] silentD [OF silent_manager(2)])
qed

lemma attempt_once_or_again:
  assumes run: "attempt_body e (Some ag) node us version w = (r, w')"
    and k: "n_id node = k" "env_parse_uuid e k = Some k"
    and desired: "desired_is k version (w_db w)"
    and one: "\<And>n v. sends P 1 (ag n us v)"
  obtains (once) rs where "w_requests w' = w_requests w @ rs" and "length rs \<le> 1"
    | (twice) body resp n v w6 rq where "env_encode_payload e (sync_payload node us version) = Inr body"
      and "rq = agent_request node ''POST'' ''/v1/sync'' (Some body)"
      and "agent_answer e (w_tick w) rq = Inr resp" and "ar_status resp = ''stale_version''"
      and "w_requests w6 = w_requests w @ [rq]" and "ag n us v w6 = (r, w')"
      and "version < v" and "ar_current_version resp < v"
proof -
  obtain result q err w1 where sent: "Agent_Sync e node (sync_payload node us version) w = (Inr (result, q, err), w1)"
    by (cases "env_encode_payload e (sync_payload node us version)")
      (auto simp: Agent_Sync_run Let_def)
  have rest: "\<exists>er. handle_call_error e (Some ag) node us version result q er w1 = (r, w')
      \<or> handle_response e (Some ag) node us version result q w1 = (r, w')"
    using run sent by (cases err) (auto simp: attempt_body_def bindE_def)
  have desired1: "desired_is k version (w_db w1)" using desired Agent_Sync_db [OF sent] by simp
  show thesis
  proof (cases "env_encode_payload e (sync_payload node us version)")
    case (Inl er)
    then have "w1 = w" using sent by (auto simp: Agent_Sync_run)
    from rest obtain er where "handle_call_error e (Some ag) node us version result q er w1 = (r, w')
      \<or> handle_response e (Some ag) node us version result q w1 = (r, w')" ..
    then show thesis
    proof (cases rule: handlers_retry_cases)
      case ends
      with \<open>w1 = w\<close> show thesis by (intro once [of "[]"]) simp_all
    next
      case (retries ag' resp)
      from retries(4) k desired1 show thesis
      proof (cases rule: retry_advances)
        case (stopped err)
        with \<open>w1 = w\<close> show thesis by (intro once [of "[]"]) simp_all
      next
        case (again n v w6)
        obtain rs where "w_requests w' = w_requests w6 @ rs" "length rs \<le> 1"
          using one [of n v] again(1) retries(1) by (auto elim: sendsD)
        with again(7) \<open>w1 = w\<close> show thesis by (intro once [of rs]) simp_all
      qed
    qed
  next
    case (Inr body)
    let ?rq = "agent_request node ''POST'' ''/v1/sync'' (Some body)"
    have w1: "w_requests w1 = w_requests w @ [?rq]"
      and result: "result = fst (agent_result (env_http e (w_tick w) ?rq))"
      using sent Inr by (auto simp: Agent_Sync_run Let_def)
    from rest obtain er where "handle_call_error e (Some ag) node us version result q er w1 = (r, w')
      \<or> handle_response e (Some ag) node us version result q w1 = (r, w')" ..
    then show thesis
    proof (cases rule: handlers_retry_cases)
      case ends
      with w1 show thesis by (intro once [of "[?rq]"]) simp_all
    next
      case (retries ag' resp)
      from retries(4) k desired1 show thesis
      proof (cases rule: retry_advances)
        case (stopped err)
        with w1 show thesis by (intro once [of "[?rq]"]) simp_all
      next
        case (again n v w6)
        with w1 Inr retries result show thesis
          by (intro twice [of body ?rq resp w6 n v]) (simp_all add: agent_answer_def)
      qed
    qed
  qed
qed

text \<open>
  C12: the order of versions in a retry.  When \<open>SyncNode\<close> sends two sync requests, the first is
  encoded from a payload that the agent answered with \<open>stale_version\<close>, and the second from a
  payload with the same users whose version is above the first one's and above the version the
  agent reported, so the agent is never asked twice for a version it has already refused.
\<close>

theorem SyncNode_retry_version_advances:
  assumes run: "SyncNode e key w = (r, w')" and key: "env_parse_uuid e key = Some k"
    and ids: "ids_idempotent e" and ok: "db_ok (w_db w)"
    and two: "filter (\<lambda>rq. rq_method rq = ''POST'') (sent w w') = [rq1, rq2]"
  shows "\<exists>n1 n2 us v1 v2 t resp. sync_request e n1 us v1 rq1 \<and> sync_request e n2 us v2 rq2
    \<and> agent_answer e t rq1 = Inr resp \<and> ar_status resp = ''stale_version''
    \<and> v1 < v2 \<and> ar_current_version resp < v2"
  using run key ok
proof (cases rule: SyncNode_attempt_start)
  case (before err rs)
  then show ?thesis using two by (cases rs) (auto simp: sent_def split: if_splits)
next
  case (attempted n0 n us version rs w5)
  have k: "env_parse_uuid e k = Some k" using ids key by (rule ids_idempotentD)
  have gets: "filter (\<lambda>rq. rq_method rq = ''POST'') rs = []"
    using attempted(2) by (auto simp: filter_empty_conv status_request_def agent_request_def)
  have one: "sends (sync_request_of e us) 1 (syncNodeAttempt e m us v False)" for m v
    using sends_syncNodeAttempt [of e us False m v] by simp
  from attempted(9) have "attempt_body e
      (Some (\<lambda>rn asg rv. syncNodeAttempt e rn asg rv False)) n us version w5 = (r, w')" by simp
  then show ?thesis using attempted(6) k attempted(7) one
  proof (cases rule: attempt_once_or_again)
    case (once rs2)
    then show ?thesis
      using two gets attempted(3) by (cases rs2) (auto simp: sent_def split: if_splits)
  next
    case (twice body resp m v w6 rq)
    obtain rs2 where rs2: "w_requests w' = w_requests w6 @ rs2" "length rs2 \<le> 1"
        "\<forall>rq \<in> set rs2. sync_request_of e us rq"
      using one twice(6) by (rule sendsD)
    have "sync_request e n us version rq" using twice(1,2) by (auto simp: sync_request_def)
    moreover have "rq_method rq = ''POST''" using twice(2) by (simp add: agent_request_def)
    then have "rq1 = rq" "rs2 = [rq2]"
      using two gets attempted(3) twice(5) rs2(1,2)
      by (cases rs2; auto simp: sent_def split: if_splits)+
    moreover have "sync_request e m us v rq2"
      using sends_syncNodeAttempt_once twice(6)
      by (rule sendsD) (use rs2(1) \<open>rs2 = [rq2]\<close> in auto)
    ultimately show ?thesis using twice(3,4,7,8) by blast
  qed
qed

lemma SyncNode_retry_version_advances_witness:
  "\<exists>rq1 rq2 n1 n2 us v1 v2. filter (\<lambda>rq. rq_method rq = ''POST'')
      (sent sample_world (snd (SyncNode stale_env ''n1'' sample_world))) = [rq1, rq2]
    \<and> sync_request stale_env n1 us v1 rq1 \<and> sync_request stale_env n2 us v2 rq2 \<and> v1 < v2"
proof -
  let ?rq = "agent_request sample_node ''POST'' ''/v1/sync'' (Some ''payload'')"
  have two: "filter (\<lambda>rq. rq_method rq = ''POST'')
      (sent sample_world (snd (SyncNode stale_env ''n1'' sample_world))) = [?rq, ?rq]"
    by code_simp
  have "ids_idempotent stale_env" by (simp add: ids_idempotent_def)
  with SyncNode_retry_version_advances [OF prod.collapse [symmetric] _ _ _ two, of "''n1''"]
  have "\<exists>n1 n2 us v1 v2. sync_request stale_env n1 us v1 ?rq \<and> sync_request stale_env n2 us v2 ?rq \<and> v1 < v2"
    by (simp add: sample_db_ok) blast
  with two show ?thesis by blast
qed

section \<open>An agent that cannot be reached\<close>

lemma StatusInfo_unreached:
  assumes "env_http e (w_tick w) (status_request node) = Inl err"
  shows "Agent_StatusInfo e node w =
    (Inr (zero_AgentStatusResponse, zero_AgentCallResult, Some err),
     w\<lparr>w_tick := Suc (w_tick w), w_requests := w_requests w @ [status_request node]\<rparr>)"
  using assms
  by (simp add: Agent_StatusInfo_def Agent_Status_def status_request_def agent_do_run bindE_def
      agent_result_def retE_def)

lemma fetch_unreached:
  assumes "env_http e (w_tick w) (status_request node) = Inl err"
    and "fetchAndReconcileStatus e node w = (r, w')"
  shows "r = Inl err"
    and "\<exists>r1 w1. NodeRepo_MarkStatus e (n_id node) ''error'' (Some (error_text err)) w1 = (r1, w')
           \<and> w_db w1 = w_db w \<and> w_requests w1 = w_requests w @ [status_request node]"
proof -
  let ?w1 = "w\<lparr>w_tick := Suc (w_tick w), w_requests := w_requests w @ [status_request node]\<rparr>"
  have "fetchAndReconcileStatus e node w =
      (Inl err, snd (NodeRepo_MarkStatus e (n_id node) ''error'' (Some (error_text err)) ?w1))"
    by (simp add: fetchAndReconcileStatus_def StatusInfo_unreached [OF assms(1)] bindE_def
        recordStatus_def io_simps)
  with assms(2) have run: "r = Inl err"
    "w' = snd (NodeRepo_MarkStatus e (n_id node) ''error'' (Some (error_text err)) ?w1)" by simp_all
  then show "r = Inl err"
    and "\<exists>r1 w1. NodeRepo_MarkStatus e (n_id node) ''error'' (Some (error_text err)) w1 = (r1, w')
           \<and> w_db w1 = w_db w \<and> w_requests w1 = w_requests w @ [status_request node]"
    by (simp_all, intro exI [of _ "fst (NodeRepo_MarkStatus e (n_id node) ''error'' (Some (error_text err)) ?w1)"]
        exI [of _ ?w1]) simp
qed

text \<open>
  C31: what a synchronisation with an agent that cannot be reached leaves behind.  It fails
  before any sync request, no sync event is written and the setup state and the version the node
  is to have stay as they are: the row is at most marked \<open>error\<close> with the error's text.  So the
  setup state \<open>unreachable\<close>, which the README describes for exactly this case, is not set.
\<close>

theorem SyncNode_unreachable_leaves_setup_state:
  assumes down: "\<And>t n. \<exists>err. env_http e t (status_request n) = Inl err"
    and run: "SyncNode e key w = (r, w')"
    and key: "env_parse_uuid e key = Some k" and ids: "ids_idempotent e"
  shows "(\<exists>err. r = Inl err) \<and> filter (\<lambda>rq. rq_method rq = ''POST'') (sent w w') = []
    \<and> t_events (w_db w') = t_events (w_db w)
    \<and> map_option n_setup_state (node_row (w_db w') k) = map_option n_setup_state (node_row (w_db w) k)
    \<and> map_option n_desired_config_version (node_row (w_db w') k)
        = map_option n_desired_config_version (node_row (w_db w) k)"
  using run [unfolded SyncNode_def]
proof (cases rule: bindE_cases)
  case (error err)
  have "w_db w' = w_db w"
    using error(1)
    by (auto simp: NodeRepo_Get_def io_simps uuid_arg_def reading_def elim!: bindE_cases exec_cases
        split: option.splits sum.splits)
  with error silentD [OF NodeRepo_silent(2) error(1)] show ?thesis by (simp add: sent_def)
next
  case (ok node w1)
  have k: "env_parse_uuid e k = Some k" using ids key by (rule ids_idempotentD)
  have w1: "w_db w1 = w_db w" "n_id node = k" "w_requests w1 = w_requests w"
    using Get_row [OF ok(1) key] silentD [OF NodeRepo_silent(2) ok(1)] by metis+
  obtain r2 w2 where fetch: "fetchAndReconcileStatus e node w1 = (r2, w2)" by force
  obtain err where err: "env_http e (w_tick w1) (status_request node) = Inl err" using down by blast
  from fetch_unreached [OF err fetch] obtain r3 w3 where "r2 = Inl err"
      and mark: "NodeRepo_MarkStatus e (n_id node) ''error'' (Some (error_text err)) w3 = (r3, w2)"
      and w3: "w_db w3 = w_db w1" "w_requests w3 = w_requests w1 @ [status_request node]" by blast
  with ok(2) fetch have "r = Inl err" "w' = w2" by (auto simp: bindE_def)
  moreover have "w_requests w2 = w_requests w3" by (rule silentD [OF NodeRepo_silent(8) mark])
  moreover have "t_events (w_db w2) = t_events (w_db w3)
      \<and> map_option n_setup_state (node_row (w_db w2) k) = map_option n_setup_state (node_row (w_db w3) k)
      \<and> map_option n_desired_config_version (node_row (w_db w2) k)
          = map_option n_desired_config_version (node_row (w_db w3) k)"
    using mark [unfolded w1(2)] k
  proof (cases rule: MarkStatus_row)
    case (amended t)
    then show ?thesis by (auto simp: row_amended_def status_node_def option.map_comp o_def)
  qed simp
  ultimately show ?thesis
    using w1 w3 by (simp add: sent_def status_request_def agent_request_def)
qed

lemma SyncNode_unreachable_leaves_setup_state_witness:
  "(\<exists>err. fst (SyncNode unreachable_env ''n1'' sample_world) = Inl err)
   \<and> map_option n_setup_state (node_row (w_db (snd (SyncNode unreachable_env ''n1'' sample_world))) ''n1'')
       = Some SetupStatePlanned"
proof -
  have "ids_idempotent unreachable_env" by (simp add: ids_idempotent_def)
  moreover have "\<And>t n. \<exists>err. env_http unreachable_env t (status_request n) = Inl err"
    by (simp add: unreachable_env_def)
  ultimately show ?thesis
    using SyncNode_unreachable_leaves_setup_state [of unreachable_env "''n1''" sample_world
        "fst (SyncNode unreachable_env ''n1'' sample_world)"
        "snd (SyncNode unreachable_env ''n1'' sample_world)" "''n1''"]
    by (simp add: node_row_def sample_db_def sample_node_def node_constants)
qed

section \<open>A reply that is not JSON\<close>

lemma InsertSyncEvent_refused:
  assumes "jsonb_arg e response = Inl err0"
  shows "\<exists>err. NodeRepo_InsertSyncEvent e key v s h rq response et w = (Inl err, w\<lparr>w_tick := Suc (w_tick w)\<rparr>)"
proof (cases "env_parse_uuid e key")
  case None
  then show ?thesis
    unfolding NodeRepo_InsertSyncEvent_def by (intro exec_refused) (simp add: uuid_arg_def)
next
  case (Some k)
  with assms show ?thesis
    unfolding NodeRepo_InsertSyncEvent_def
    by (cases "jsonb_arg e rq") (auto intro!: exec_refused simp: uuid_arg_def)
qed

lemma fail_attempt_refused:
  assumes "jsonb_arg e (cr_body result) = Inl err0"
  shows "\<exists>err. fail_attempt e node v s result rq et m k w = (Inl err, w\<lparr>w_tick := Suc (w_tick w)\<rparr>)"
  using InsertSyncEvent_refused [OF assms, of "n_id node" v s "Some (cr_status_code result)" rq et w]
  by (auto simp: fail_attempt_def thenE_def bindE_def)

text \<open>
  A reply that is not JSON, such as the error page of a proxy in front of the agent, is
  recorded nowhere.  The body cannot be stored in the event's \<^verbatim>\<open>jsonb\<close> column, the insertion
  of the event fails, and its error is returned in place of the agent's before the node is marked:
  the tables are exactly as before the attempt, so there is neither the event nor the
  \<^verbatim>\<open>last_error\<close> the README promises for a failed synchronisation.
\<close>

theorem syncNodeAttempt_garbage_unrecorded:
  assumes sent: "env_encode_payload e (sync_payload node us version) = Inr body"
    and reply: "env_http e (w_tick w) (agent_request node ''POST'' ''/v1/sync'' (Some body)) = Inr (code, reply)"
    and stored: "env_jsonb e (limit_body reply) = None"
    and decoded: "env_decode_response e (limit_body reply) = Inl err0"
    and run: "syncNodeAttempt e node us version allowRetry w = (r, w')"
  shows "(\<exists>err. r = Inl err) \<and> w_db w' = w_db w"
proof -
  let ?rq = "agent_request node ''POST'' ''/v1/sync'' (Some body)"
  define w1 where "w1 = w\<lparr>w_tick := Suc (w_tick w), w_requests := w_requests w @ [?rq]\<rparr>"
  obtain result err where ans: "agent_result (Inr (code, reply)) = (result, err)" by force
  then have result: "cr_body result = Some (limit_body reply)"
    by (auto simp: agent_result_def Let_def split: if_splits)
  then have refused: "jsonb_arg e (cr_body result) = Inl (PgError ''invalid input syntax for type json'' ''22P02'')"
    using stored by (simp add: jsonb_arg_def)
  have dec: "env_decode_response e (body_text (cr_body result)) = Inl err0"
    using decoded result by (simp add: body_text_def)
  have none: "(case again of None \<Rightarrow> None
      | Some ag \<Rightarrow> retryOnStaleVersion e ag node us version result (Some body)) = None" for again
    using dec by (simp add: retryOnStaleVersion_def split: option.splits)
  have "attempt_body e again node us version w =
      (case err of
         Some er \<Rightarrow> fail_attempt e node version ''http_error'' result (Some body)
                      (strPtr (error_text er)) (error_text er) (failE er) w1
       | None \<Rightarrow> fail_attempt e node version ''decode_error'' result (Some body)
                      (strPtr (error_text err0)) (error_text err0)
                      (failE (Wrapf ''decode node agent response'' err0)) w1)" for again
    using sent reply ans dec none [of again]
    by (auto simp: attempt_body_def Agent_Sync_run bindE_def w1_def Let_def handle_call_error_def
        handle_response_def split: option.splits)
  then have "\<exists>er. attempt_body e again node us version w = (Inl er, w1\<lparr>w_tick := Suc (w_tick w1)\<rparr>)" for again
    using fail_attempt_refused [OF refused] by (cases err) simp_all
  then obtain er where "syncNodeAttempt e node us version allowRetry w = (Inl er, w1\<lparr>w_tick := Suc (w_tick w1)\<rparr>)"
    by (cases allowRetry) auto
  with run have "r = Inl er" "w' = w1\<lparr>w_tick := Suc (w_tick w1)\<rparr>" by simp_all
  then show ?thesis by (simp add: w1_def)
qed

lemma syncNodeAttempt_garbage_unrecorded_witness:
  "(\<exists>err. fst (syncNodeAttempt garbage_env sample_node [] 4 True sample_world) = Inl err)
   \<and> w_db (snd (syncNodeAttempt garbage_env sample_node [] 4 True sample_world)) = sample_db"
proof -
  have "env_encode_payload garbage_env (sync_payload sample_node [] 4) = Inr ''payload''"
    and "env_http garbage_env (w_tick sample_world)
      (agent_request sample_node ''POST'' ''/v1/sync'' (Some ''payload'')) = Inr (502, ''Bad Gateway'')"
    and "env_jsonb garbage_env (limit_body ''Bad Gateway'') = None"
    and "env_decode_response garbage_env (limit_body ''Bad Gateway'') = Inl (Errorf ''invalid character'')"
    by (simp_all add: garbage_env_def sample_env_def limit_body_code)
  from syncNodeAttempt_garbage_unrecorded [OF this prod.collapse [symmetric], of True]
  show ?thesis by (simp del: syncNodeAttempt.simps)
qed

section \<open>Nodes that are switched off\<close>

text \<open>
  C32: switching off a connected node whose agent still answers.  When \<open>UpdateNode\<close> succeeds on a
  connected node with \<^verbatim>\<open>enabled = false\<close> and complete connection data, the node comes back with
  \<^verbatim>\<open>enabled = false\<close> but with the setup state \<open>connected\<close>: the repository's update sets
  \<open>disabled\<close>, and the remote state written after it overwrites this.
\<close>

theorem UpdateNode_disabled_ends_connected:
  assumes run: "UpdateNode e key inp w = (Inr node, w')"
    and key: "env_parse_uuid e key = Some k" and ids: "ids_idempotent e"
    and old: "node_row (w_db w) k = Some n" "n_setup_state n = SetupStateConnected" "n_node_secret n \<noteq> []"
    and inp: "\<not> in_enabled inp" "in_api_url inp \<noteq> []" "in_node_id inp \<noteq> []" "in_protocol_type inp \<noteq> []"
  shows "\<not> n_enabled node \<and> n_setup_state node = SetupStateConnected"
proof -
  have k: "env_parse_uuid e k = Some k" using ids key by (rule ids_idempotentD)
  obtain cur w1 where get: "NodeRepo_Get e key w = (Inr cur, w1)"
    using run by (auto simp: UpdateNode_def bindE_Inr_iff)
  from Get_row [OF get key] old(1) have cur: "cur = scanNode n" by auto
  define inp1 where "inp1 = (if in_node_secret inp = [] then inp\<lparr>in_node_secret := n_node_secret cur\<rparr> else inp)"
  have inp1: "\<not> in_enabled inp1" "in_api_url inp1 \<noteq> []" "in_node_id inp1 \<noteq> []"
      "in_protocol_type inp1 \<noteq> []" "in_node_secret inp1 \<noteq> []" "n_setup_state cur = SetupStateConnected"
    using inp old cur by (auto simp: inp1_def scanNode_def)
  from run get inp1 obtain status w2 upd w3 w4 where
      up: "NodeRepo_Update e key inp1 w2 = (Inr upd, w3)"
      and remote: "NodeRepo_SyncRemoteState e (n_id upd) (as_current_version status)
        (remoteAppliedVersionFromStatus status) (as_last_error status) w3 = (Inr (), w4)"
      and get2: "NodeRepo_Get e (n_id upd) w4 = (Inr node, w')"
    by (auto simp: UpdateNode_def bindE_def Let_def thenE_def inp1_def [symmetric]
        split: prod.splits sum.splits)
  obtain y d where "update_node (env_db_now e (w_tick w2)) k (edit_node inp1) (w_db w2) = Inr (Some y, d)"
      "w_db w3 = d" "upd = scanNode y"
    using up key
    by (auto simp: NodeRepo_Update_def bindE_Inr_iff io_simps uuid_arg_def one_row_def
        split: option.splits sum.splits elim!: exec_Inr)
  moreover from update_node_row(1,2) [OF this(1)] obtain y0 where
      y0: "node_row (w_db w2) k = Some y0" "y = (edit_node inp1 y0)\<lparr>n_updated_at := env_db_now e (w_tick w2)\<rparr>"
        "node_row d k = Some y"
    by (cases "node_row (w_db w2) k") auto
  moreover have "\<not> n_enabled y" "n_id y = k"
    using y0(2) inp1(1) node_row_id [OF y0(1)] by (simp_all add: edit_node_def)
  ultimately have row3: "node_row (w_db w3) k = Some y" and "n_id upd = k" and en: "\<not> n_enabled y"
    by (simp_all add: scanNode_def)
  then obtain t v a m where "row_amended k (remote_state_node t v a m) (w_db w3) (w_db w4)"
    using SyncRemoteState_row [OF remote] k by metis
  from row_amendedD [OF this row3] obtain c where
    "node_row (w_db w4) k = Some ((remote_state_node t v a m y)\<lparr>n_updated_at := c\<rparr>)" ..
  moreover obtain n4 where "node_row (w_db w4) k = Some n4" "node = scanNode n4"
    using Get_row [OF get2] \<open>n_id upd = k\<close> k by metis
  ultimately show ?thesis
    using en by (simp add: scanNode_def remote_state_node_def SetupStateConnected_def)
qed

lemma UpdateNode_disabled_ends_connected_witness:
  "\<exists>node. fst (UpdateNode sample_env ''n1'' switch_off connected_world) = Inr node
     \<and> \<not> n_enabled node \<and> n_setup_state node = SetupStateConnected"
proof -
  have "(case fst (UpdateNode sample_env ''n1'' switch_off connected_world) of Inl _ \<Rightarrow> False | Inr _ \<Rightarrow> True)"
    by code_simp
  then obtain node where node: "fst (UpdateNode sample_env ''n1'' switch_off connected_world) = Inr node"
    by (auto split: sum.splits)
  then have "UpdateNode sample_env ''n1'' switch_off connected_world
      = (Inr node, snd (UpdateNode sample_env ''n1'' switch_off connected_world))"
    by (metis prod.collapse)
  moreover have "node_row (w_db connected_world) ''n1'' = Some (sample_node\<lparr>n_setup_state := ''connected''\<rparr>)"
    by (simp add: node_row_def connected_world_def sample_node_def)
  moreover have "ids_idempotent sample_env" by (simp add: ids_idempotent_def)
  ultimately show ?thesis
    using UpdateNode_disabled_ends_connected [of sample_env "''n1''" switch_off connected_world node] node
    by (auto simp: switch_off_def sample_node_def SetupStateConnected_def)
qed

end
