(* ===== verification/User_Create.thy ===== *)
theory User_Create
  imports User_Repo Samples
begin

text \<open>
  Creating a user with its assignments is all or nothing: what \<^verbatim>\<open>Service.CreateUser\<close> and
  \<^verbatim>\<open>Repository.CreateWithAssignments\<close> leave behind is either the old tables or the tables
  with the new user and exactly the assignments asked for.
\<close>

section \<open>One assignment\<close>

definition nodes_of_user :: "db \<Rightarrow> string \<Rightarrow> string set" where
  "nodes_of_user d uid = a_node_id ` {a \<in> set (t_access d). a_user_id a = uid}"

definition others_access :: "db \<Rightarrow> string \<Rightarrow> Access list" where
  "others_access d uid = filter (\<lambda>a. a_user_id a \<noteq> uid) (t_access d)"

text \<open>\<open>rows_assigned\<close>: only rows of \<open>uid\<close> changed, and they are for \<open>nids\<close>, all enabled.\<close>

definition rows_assigned :: "db \<Rightarrow> string \<Rightarrow> string set \<Rightarrow> db \<Rightarrow> bool" where
  "rows_assigned d uid nids d' \<longleftrightarrow>
     t_nodes d' = t_nodes d \<and> t_users d' = t_users d \<and> t_events d' = t_events d
     \<and> others_access d' uid = others_access d uid
     \<and> nodes_of_user d' uid = nids
     \<and> (\<forall>a \<in> set (t_access d'). a_user_id a = uid \<longrightarrow> a_enabled a)"

lemma filter_map_same:
  "(\<And>x. x \<in> set xs \<Longrightarrow> P (f x) = P x \<and> (P x \<longrightarrow> f x = x)) \<Longrightarrow> filter P (map f xs) = filter P xs"
  by (induction xs) auto

lemma upsert_access_assigned:
  assumes step: "upsert_access current new d = Inr (x, d')" and ok: "db_ok d"
    and prev: "rows_assigned d0 (a_user_id new) nids d" and en: "a_enabled new"
  shows "rows_assigned d0 (a_user_id new) (insert (a_node_id new) nids) d'"
proof (cases "find (\<lambda>a. a_user_id a = a_user_id new \<and> a_node_id a = a_node_id new) (t_access d)")
  case None
  with step have "d' = d\<lparr>t_access := t_access d @ [new]\<rparr>"
    by (auto simp: upsert_access_def split: option.splits if_splits)
  with prev en show ?thesis
    by (auto simp: rows_assigned_def others_access_def nodes_of_user_def)
next
  case (Some old)
  define upd where "upd = old\<lparr>a_protocol_type := a_protocol_type new,
      a_protocol_username := a_protocol_username new, a_protocol_password := a_protocol_password new,
      a_enabled := True, a_updated_at := current\<rparr>"
  have old: "a_user_id old = a_user_id new" "a_node_id old = a_node_id new" "old \<in> set (t_access d)"
    using find_SomeD [OF Some] by auto
  have rows: "t_access d' = map (\<lambda>a. if a_id a = a_id old then upd else a) (t_access d)"
    and frame: "t_nodes d' = t_nodes d" "t_users d' = t_users d" "t_events d' = t_events d"
    using step Some by (auto simp: upsert_access_def Let_def upd_def split: option.splits if_splits)
  have only: "a = old" if "a \<in> set (t_access d)" and "a_id a = a_id old" for a
    using db_okD(7) [OF ok] that old(3) by (simp add: distinct_map inj_on_def)
  have upd: "a_user_id upd = a_user_id new" "a_node_id upd = a_node_id new" "a_enabled upd"
    using old by (simp_all add: upd_def)
  have "others_access d' (a_user_id new) = others_access d (a_user_id new)"
    unfolding others_access_def rows using only old(1) upd(1) by (intro filter_map_same) auto
  moreover have "nodes_of_user d' (a_user_id new) = nodes_of_user d (a_user_id new)"
  proof -
    define R where "R = {a \<in> set (t_access d). a_user_id a = a_user_id new} - {old}"
    have "set (t_access d') = insert upd (set (t_access d) - {old})"
    proof (intro equalityI subsetI)
      fix a
      assume "a \<in> set (t_access d')"
      then obtain b where "b \<in> set (t_access d)" "a = (if a_id b = a_id old then upd else b)"
        unfolding rows by auto
      with only show "a \<in> insert upd (set (t_access d) - {old})" by (cases "a_id b = a_id old") auto
    next
      fix a
      assume "a \<in> insert upd (set (t_access d) - {old})"
      then show "a \<in> set (t_access d')"
      proof
        assume "a = upd"
        with old(3) show ?thesis unfolding rows by force
      next
        assume "a \<in> set (t_access d) - {old}"
        moreover from this only have "a_id a \<noteq> a_id old" by blast
        ultimately show ?thesis unfolding rows by force
      qed
    qed
    then have "{a \<in> set (t_access d'). a_user_id a = a_user_id new} = insert upd R"
      using upd(1) unfolding R_def by blast
    moreover have "{a \<in> set (t_access d). a_user_id a = a_user_id new} = insert old R"
      using old unfolding R_def by blast
    ultimately show ?thesis
      unfolding nodes_of_user_def by (simp only: image_insert old(2) upd(2))
  qed
  moreover have "a_node_id new \<in> nodes_of_user d (a_user_id new)"
    unfolding nodes_of_user_def by (rule image_eqI [where x = old]) (use old in simp_all)
  moreover have "\<forall>a \<in> set (t_access d'). a_user_id a = a_user_id new \<longrightarrow> a_enabled a"
    unfolding rows using prev upd by (auto simp: rows_assigned_def)
  ultimately show ?thesis
    using prev frame by (auto simp: rows_assigned_def insert_absorb)
qed

section \<open>The loop over the credentials\<close>

text \<open>
  Documented behaviour of the server: an id it generated is written in canonical form, which
  reads back as itself.
\<close>

definition ids_canonical :: "env \<Rightarrow> bool" where
  "ids_canonical e \<longleftrightarrow> (\<forall>t. env_parse_uuid e (env_uuid e t) = Some (env_uuid e t))"

definition parsed_ids :: "env \<Rightarrow> string list \<Rightarrow> string set" where
  "parsed_ids e ids = {k. \<exists>s \<in> set ids. env_parse_uuid e s = Some k}"

lemma parsed_ids_simps [simp]:
  "parsed_ids e [] = {}"
  "env_parse_uuid e s = Some k \<Longrightarrow> parsed_ids e (s # ids) = insert k (parsed_ids e ids)"
  by (auto simp: parsed_ids_def)

definition assign_all ::
    "env \<Rightarrow> string \<Rightarrow> (string \<rightharpoonup> string) \<Rightarrow> AssignmentCredential list \<Rightarrow> unit act" where
  "assign_all e uid nodeProtocols creds =
     forE (\<lambda>cred _.
       case nodeProtocols (ac_node_id cred) of
         None \<Rightarrow> failE NoRows
       | Some protocol \<Rightarrow>
           if protocol = '''' then failE NoRows
           else assignNodeWithExecutor e uid (ac_node_id cred) protocol
                  (ac_protocol_username cred) (ac_protocol_password cred)) creds ()"

lemma assign_step:
  assumes run: "assignNodeWithExecutor e uid nid protocol un pw w = (Inr x, w')"
    and uid: "env_parse_uuid e uid = Some uid"
    and ok: "db_ok (w_db w)" and prev: "rows_assigned d0 uid nids (w_db w)"
  obtains k where "env_parse_uuid e nid = Some k" and "db_ok (w_db w')"
    and "rows_assigned d0 uid (insert k nids) (w_db w')"
proof -
  obtain d where stmt: "uuid_arg e uid (\<lambda>u. uuid_arg e nid (\<lambda>k.
      upsert_access (env_db_now e (w_tick w)) (new_access e (w_tick w) u k protocol un pw))) (w_db w)
      = Inr (x, d)" and w': "w_db w' = d"
    using run unfolding assignNodeWithExecutor_def by (auto elim!: exec_Inr)
  then obtain k where k: "env_parse_uuid e nid = Some k"
    and up: "upsert_access (env_db_now e (w_tick w)) (new_access e (w_tick w) uid k protocol un pw) (w_db w)
      = Inr (x, d)"
    using uid by (auto simp: uuid_arg_def split: option.splits)
  have "rows_assigned d0 uid (insert k nids) d"
    using upsert_access_assigned [OF up ok] prev by (simp add: new_access_def)
  moreover have "db_ok d" using up ok by (rule upsert_access_db_ok)
  ultimately show thesis using that k w' by simp
qed

lemma assign_all_assigned:
  assumes "assign_all e uid nodeProtocols creds w = (Inr x, w')"
    and "env_parse_uuid e uid = Some uid"
    and "db_ok (w_db w)" and "rows_assigned d0 uid nids (w_db w)"
  shows "rows_assigned d0 uid (parsed_ids e (map ac_node_id creds) \<union> nids) (w_db w')
    \<and> (\<forall>cred \<in> set creds. env_parse_uuid e (ac_node_id cred) \<noteq> None)"
  using assms
proof (induction creds arbitrary: w nids)
  case Nil
  then show ?case by (simp add: assign_all_def io_simps)
next
  case (Cons cred creds)
  obtain w1 where first: "(case nodeProtocols (ac_node_id cred) of
         None \<Rightarrow> failE NoRows
       | Some protocol \<Rightarrow>
           if protocol = '''' then failE NoRows
           else assignNodeWithExecutor e uid (ac_node_id cred) protocol
                  (ac_protocol_username cred) (ac_protocol_password cred)) w = (Inr (), w1)"
    and rest: "assign_all e uid nodeProtocols creds w1 = (Inr x, w')"
    using Cons.prems(1) by (auto simp: assign_all_def bindE_Inr_iff)
  then obtain protocol where "assignNodeWithExecutor e uid (ac_node_id cred) protocol
      (ac_protocol_username cred) (ac_protocol_password cred) w = (Inr (), w1)"
    by (auto simp: io_simps split: option.splits if_splits)
  from assign_step [OF this Cons.prems(2-4)]
  obtain k where k: "env_parse_uuid e (ac_node_id cred) = Some k"
    and ok: "db_ok (w_db w1)" and asg: "rows_assigned d0 uid (insert k nids) (w_db w1)" .
  show ?case
    using Cons.IH [OF rest Cons.prems(2) ok asg] k by auto
qed

section \<open>The transaction\<close>

lemma transaction_cases:
  assumes "transaction e m w = (r, w')"
  obtains (undone) err where "r = Inl err" and "w_db w' = w_db w"
    | (committed) w1 x w2 where "w_db w1 = w_db w" and "m w1 = (Inr x, w2)" and "w_db w' = w_db w2"
        and "r = Inr x \<or> (\<exists>err t. r = Inl err \<and> env_fault e t = Some (ReplyLost err))"
proof -
  obtain r0 w1 where first: "exec e (\<lambda>_ d. Inr ((), d)) w = (r0, w1)" by force
  then have same: "w_db w1 = w_db w"
    by (auto simp: exec_def Let_def split: option.splits fault.splits)
  show thesis
  proof (cases r0)
    case (Inl err)
    with assms first have "r = Inl err" "w' = w1" by (auto simp: transaction_def bindE_def)
    with same show thesis by (intro undone) simp_all
  next
    case (Inr u)
    obtain r1 w2 where run: "m w1 = (r1, w2)" by force
    show thesis
    proof (cases r1)
      case (Inl err)
      with assms first \<open>r0 = Inr u\<close> run have "r = Inl err" "w_db w' = w_db w1"
        by (auto simp: transaction_def bindE_def)
      with same show thesis by (intro undone) simp_all
    next
      case (Inr x)
      with assms first \<open>r0 = Inr u\<close> run same
      have "(w_db w' = w_db w \<and> (\<exists>err. r = Inl err)) \<or> (w_db w' = w_db w2 \<and>
          (r = Inr x \<or> (\<exists>err t. r = Inl err \<and> env_fault e t = Some (ReplyLost err))))"
        by (auto simp: transaction_def bindE_def Let_def split: option.splits fault.splits)
      with run same Inr show thesis
        using undone committed [of w1 x w2] by blast
    qed
  qed
qed

text \<open>
  What \<open>CreateUser\<close> leaves behind when it takes effect: one more user with the input's data
  and the given token, assigned to exactly the nodes asked for.
\<close>

definition user_created :: "env \<Rightarrow> CreateUserInput \<Rightarrow> db \<Rightarrow> User \<Rightarrow> db \<Rightarrow> bool" where
  "user_created e inp d u d' \<longleftrightarrow>
     t_nodes d' = t_nodes d \<and> t_events d' = t_events d \<and> t_users d' = t_users d @ [u]
     \<and> others_access d' (u_id u) = t_access d
     \<and> nodes_of_user d' (u_id u) = parsed_ids e (iu_node_ids inp)
     \<and> (\<forall>a \<in> set (t_access d'). a_user_id a = u_id u \<longrightarrow> a_enabled a)
     \<and> u_username u = iu_username inp \<and> u_enabled u = iu_enabled inp
     \<and> u_quota_mb u = iu_quota_mb inp
     \<and> u_expires_at u = map_option (env_timestamptz e) (iu_expires_at inp)
     \<and> u_expiry_synced_at u = None"

lemma CreateWithAssignments_created:
  assumes run: "UserRepo_CreateWithAssignments e inp token nps creds w = (r, w')"
    and ok: "db_ok (w_db w)" and canonical: "ids_canonical e"
    and creds: "map ac_node_id creds = iu_node_ids inp"
  shows "(w_db w' = w_db w \<and> (\<exists>err. r = Inl err))
    \<or> (\<exists>u. user_created e inp (w_db w) u (w_db w') \<and> u_subscription_token u = token \<and>
          (r = Inr u \<or> (\<exists>err t. r = Inl err \<and> env_fault e t = Some (ReplyLost err))))"
  using run unfolding UserRepo_CreateWithAssignments_def
proof (cases rule: transaction_cases)
  case (undone err)
  then show ?thesis by blast
next
  case (committed w1 u w2)
  then obtain w3 where new: "createUserWithQuerier e inp token w1 = (Inr u, w3)"
    and all: "assign_all e (u_id u) nps creds w3 = (Inr (), w2)"
    by (auto simp: bindE_Inr_iff thenE_def retE_apply assign_all_def)
  let ?u = "new_user e (w_tick w1) inp token"
  from new obtain d where ins: "insert_user ?u (w_db w1) = Inr (u, d)" and d: "w_db w3 = d"
    unfolding createUserWithQuerier_def
    by (auto elim!: exec_Inr simp: int4_arg_def split: if_splits)
  then have u: "u = ?u" "u_id ?u \<notin> u_id ` set (t_users (w_db w1))"
    and rows: "d = (w_db w1)\<lparr>t_users := t_users (w_db w1) @ [u]\<rparr>"
    by (auto simp: insert_user_def split: if_splits)
  have okd: "db_ok d" using ins ok committed(1) insert_user_db_ok by metis
  have fresh: "a_user_id a \<noteq> u_id u" if "a \<in> set (t_access (w_db w))" for a
    using db_okD(9) [OF ok that] u committed(1) by (auto simp: access_ok_def)
  have "rows_assigned d (u_id u) {} (w_db w3)"
    using fresh by (auto simp: rows_assigned_def nodes_of_user_def d rows committed(1))
  moreover have "env_parse_uuid e (u_id u) = Some (u_id u)"
    using canonical u(1) by (simp add: ids_canonical_def new_user_def)
  ultimately have asg: "rows_assigned d (u_id u) (parsed_ids e (iu_node_ids inp)) (w_db w2)"
    using assign_all_assigned [OF all, of d "{}"] okd d creds by simp
  have others: "others_access d (u_id u) = t_access (w_db w)"
    using fresh by (auto simp: others_access_def rows committed(1) intro!: filter_True)
  have "user_created e inp (w_db w) u (w_db w') \<and> u_subscription_token u = token"
    using asg others committed(1,3) rows u(1)
    by (simp add: user_created_def rows_assigned_def new_user_def)
  with committed(4) show ?thesis by blast
qed

lemma issue_credentials_ids:
  assumes "issue_credentials e nps ids w = (Inr creds, w')"
  shows "map ac_node_id creds = ids \<and> w_db w' = w_db w"
proof -
  define body where "body = (\<lambda>nodeID creds.
       if map_get nps nodeID = ''''
       then failE (Errorf (''unknown node protocol for node '' @ nodeID))
       else bindE (Token e ''u'' 8) (\<lambda>protocolUser.
            bindE (Token e ''p'' 18) (\<lambda>protocolPassword.
            retE (creds @ [\<lparr>ac_node_id = nodeID, ac_protocol_username = protocolUser,
                            ac_protocol_password = protocolPassword\<rparr>]))))"
  have tok: "Token e p n v = (z, v') \<Longrightarrow> w_db v' = w_db v" for p n v z v'
    by (auto simp: Token_def split: sum.splits)
  have step: "map ac_node_id cs' = map ac_node_id cs @ [n] \<and> w_db v' = w_db v"
    if "body n cs v = (Inr cs', v')" for n cs v cs' v'
    using that
    by (auto simp: body_def bindE_Inr_iff io_simps split: if_splits dest!: tok)
  have "map ac_node_id creds = map ac_node_id cs @ ids \<and> w_db w' = w_db w"
    if "forE body ids cs w = (Inr creds, w')" for cs
    using that
  proof (induction ids arbitrary: cs w)
    case (Cons n ids)
    then show ?case by (fastforce simp: bindE_Inr_iff dest!: step)
  qed (simp add: io_simps)
  from this [of "[]"] assms show ?thesis
    by (simp add: issue_credentials_def body_def)
qed

lemma issue_credentials_reads: "within (db_rel tables_same) (issue_credentials e nps ids)"
  unfolding issue_credentials_def by ((rule same.effect_rules)+)

section \<open>Property\<close>

text \<open>
  C4: creating a user is all or nothing.  Whatever fails, the random source, a statement, a
  constraint, the commit, \<open>CreateUser\<close> either leaves the tables exactly as they were and reports
  an error, or adds one user with the data asked for, assigned to exactly the nodes asked for and
  to nothing else, with every other row as it was.  In the second case it reports the user it
  added, unless the database lost the reply to a commit that took effect.
\<close>

theorem CreateUser_all_or_nothing:
  assumes run: "CreateUser e inp nps w = (r, w')" and ok: "db_ok (w_db w)"
    and canonical: "ids_canonical e"
  shows "(w_db w' = w_db w \<and> (\<exists>err. r = Inl err))
    \<or> (\<exists>u. user_created e inp (w_db w) u (w_db w')
          \<and> (r = Inr u \<or> (\<exists>err t lost. r = Inl err \<and> env_fault e t = Some (ReplyLost lost))))"
  using run [unfolded CreateUser_def]
proof (cases rule: bindE_cases)
  case (error err)
  then show ?thesis by (auto simp: Token_def split: sum.splits)
next
  case (ok token w1)
  then have w1: "w_db w1 = w_db w" by (auto simp: Token_def split: sum.splits)
  from ok(2) show ?thesis
  proof (cases rule: bindE_cases)
    case (error err)
    have "w_db w' = w_db w1"
      using withinD [OF issue_credentials_reads error(1)] by (simp add: db_rel_def tables_same_def)
    with error w1 show ?thesis by simp
  next
    case (ok creds w2)
    have creds: "map ac_node_id creds = iu_node_ids inp" "w_db w2 = w_db w1"
      using issue_credentials_ids [OF ok(1)] by auto
    obtain r1 w3 where run: "UserRepo_CreateWithAssignments e inp token nps creds w2 = (r1, w3)" by force
    have ok2: "db_ok (w_db w2)" using assms(2) creds(2) w1 by simp
    have "w' = w3" "r = (case r1 of Inl err \<Rightarrow> Inl (Wrapf ''create user with assignments'' err) | Inr u \<Rightarrow> Inr u)"
      using ok(2) run by (auto simp: bindE_def attemptE_def io_simps split: sum.splits)
    with CreateWithAssignments_created [OF run ok2 canonical creds(1)] creds(2) w1
    show ?thesis by fastforce
  qed
qed

lemma CreateUser_all_or_nothing_witness:
  "\<exists>u. fst (CreateUser sample_env new_user_input [''n1'' \<mapsto> ''naive''] sample_world) = Inr u
     \<and> user_created sample_env new_user_input sample_db u
         (w_db (snd (CreateUser sample_env new_user_input [''n1'' \<mapsto> ''naive''] sample_world)))"
proof -
  let ?run = "CreateUser sample_env new_user_input [''n1'' \<mapsto> ''naive''] sample_world"
  have success: "(case fst ?run of Inl _ \<Rightarrow> False | Inr _ \<Rightarrow> True)" by code_simp
  have "ids_canonical sample_env" by (simp add: ids_canonical_def)
  with CreateUser_all_or_nothing [of sample_env new_user_input "[''n1'' \<mapsto> ''naive'']" sample_world
      "fst ?run" "snd ?run"] success
  show ?thesis by (auto simp: sample_db_ok)
qed

end
