(* ===== verification/Panel.thy ===== *)
theory Panel
  imports Node_Manager User_Create
begin

text \<open>
  The panel as a transition system on its tables.  A step is one committed SQL statement of the
  code; every operation, with whatever failures, ends in tables reachable from those it started
  with, so an invariant of the steps holds in every interleaving of requests and of the expiry
  loop, however they are cut short.
\<close>

section \<open>Steps\<close>

inductive sql_step :: "db \<Rightarrow> db \<Rightarrow> bool" where
  node_inserted: "insert_node n d = Inr (x, d') \<Longrightarrow> sql_step d d'"
| node_edited: "update_node t key (edit_node inp) d = Inr (x, d') \<Longrightarrow> sql_step d d'"
| node_remote: "update_node t key (remote_state_node t' v a m) d = Inr (x, d') \<Longrightarrow> sql_step d d'"
| node_bumped: "update_node t key bump_node d = Inr (x, d') \<Longrightarrow> sql_step d d'"
| node_status: "update_node t key (status_node t' s m) d = Inr (x, d') \<Longrightarrow> sql_step d d'"
| node_success: "update_node t key (success_node t' v) d = Inr (x, d') \<Longrightarrow> sql_step d d'"
| node_failure: "update_node t key (failure_node t' s msg) d = Inr (x, d') \<Longrightarrow> sql_step d d'"
| node_deleted: "delete_node key d = Inr (x, d') \<Longrightarrow> sql_step d d'"
| user_inserted: "fits_int4 (u_quota_mb u) \<Longrightarrow> insert_user u d = Inr (x, d') \<Longrightarrow> sql_step d d'"
| user_edited: "fits_int4 (iu_quota_mb ui) \<Longrightarrow> update_user t key (edit_user e ui) d = Inr (x, d') \<Longrightarrow> sql_step d d'"
| user_switched: "update_user t key (\<lambda>u. u\<lparr>u_enabled := b\<rparr>) d = Inr (x, d') \<Longrightarrow> sql_step d d'"
| user_synced: "update_user t key (\<lambda>u. u\<lparr>u_expiry_synced_at := Some t'\<rparr>) d = Inr (x, d') \<Longrightarrow> sql_step d d'"
| user_deleted: "delete_user key d = Inr (x, d') \<Longrightarrow> sql_step d d'"
| access_upserted: "upsert_access t acc d = Inr (x, d') \<Longrightarrow> sql_step d d'"
| access_deleted: "delete_access uid nid d = Inr (x, d') \<Longrightarrow> sql_step d d'"
| access_switched: "set_access_enabled t uid aid b d = Inr (x, d') \<Longrightarrow> sql_step d d'"
| event_inserted: "insert_event ev d = Inr (x, d') \<Longrightarrow> sql_step d d'"

inductive_cases sql_stepE: "sql_step d d'"

abbreviation sql_reach :: "db \<Rightarrow> db \<Rightarrow> bool" where
  "sql_reach \<equiv> sql_step\<^sup>*\<^sup>*"

interpretation steps: preorder_on_tables sql_reach
  by unfold_locales auto

lemma stmt_within_steps [within_intros]:
  "stmt_within sql_reach (insert_node n)"
  "stmt_within sql_reach (update_node t key (edit_node inp))"
  "stmt_within sql_reach (update_node t key (remote_state_node t' v a m))"
  "stmt_within sql_reach (update_node t key bump_node)"
  "stmt_within sql_reach (update_node t key (status_node t' s m))"
  "stmt_within sql_reach (update_node t key (success_node t' v))"
  "stmt_within sql_reach (update_node t key (failure_node t' s msg))"
  "stmt_within sql_reach (delete_node key)"
  "stmt_within sql_reach (update_user t key (\<lambda>u. u\<lparr>u_enabled := b\<rparr>))"
  "stmt_within sql_reach (update_user t key (\<lambda>u. u\<lparr>u_expiry_synced_at := Some t'\<rparr>))"
  "stmt_within sql_reach (delete_user key)"
  "stmt_within sql_reach (upsert_access t acc)"
  "stmt_within sql_reach (delete_access uid nid)"
  "stmt_within sql_reach (set_access_enabled t uid aid b)"
  "stmt_within sql_reach (insert_event ev)"
  by (rule stmt_withinI, rule r_into_rtranclp, erule sql_step.intros)+

text \<open>The column of the quota is an \<^verbatim>\<open>integer\<close>: other values never reach the table.\<close>

lemma stmt_within_int4_fits: "(fits_int4 n \<Longrightarrow> stmt_within D stmt) \<Longrightarrow> stmt_within D (int4_arg e n stmt)"
  by (auto simp: stmt_within_def int4_arg_def)

lemma quota_within_steps [within_intros]:
  "stmt_within sql_reach (int4_arg e (iu_quota_mb inp) (insert_user (new_user e t inp token)))"
  "stmt_within sql_reach (int4_arg e (iu_quota_mb inp) (uuid_arg e key (\<lambda>k. one_row (update_user t' k (edit_user e inp)))))"
proof -
  show "stmt_within sql_reach (int4_arg e (iu_quota_mb inp) (insert_user (new_user e t inp token)))"
    by (intro stmt_within_int4_fits stmt_withinI r_into_rtranclp sql_step.user_inserted) (auto simp: new_user_def)
  have "stmt_within sql_reach (update_user t' k (edit_user e inp))" if "fits_int4 (iu_quota_mb inp)" for k
    by (rule stmt_withinI, rule r_into_rtranclp, rule sql_step.user_edited [OF that])
  then show "stmt_within sql_reach (int4_arg e (iu_quota_mb inp) (uuid_arg e key (\<lambda>k. one_row (update_user t' k (edit_user e inp)))))"
    by (intro stmt_within_int4_fits repo_stmt_intros) (simp_all add: steps.D_refl)
qed

section \<open>Every operation is a sequence of steps\<close>

lemma NodeRepo_steps [within_intros]:
  "within (db_rel sql_reach) (NodeRepo_List e)"
  "within (db_rel sql_reach) (NodeRepo_Get e key)"
  "within (db_rel sql_reach) (NodeRepo_Create e inp)"
  "within (db_rel sql_reach) (NodeRepo_Update e key inp)"
  "within (db_rel sql_reach) (NodeRepo_SyncRemoteState e key v a err)"
  "within (db_rel sql_reach) (NodeRepo_Delete e key)"
  "within (db_rel sql_reach) (NodeRepo_BumpVersion e key)"
  "within (db_rel sql_reach) (NodeRepo_MarkStatus e key s et)"
  "within (db_rel sql_reach) (NodeRepo_MarkSyncSuccess e key v)"
  "within (db_rel sql_reach) (NodeRepo_MarkSyncFailure e key s m)"
  "within (db_rel sql_reach) (NodeRepo_InsertSyncEvent e key v s h rq rs et)"
  unfolding NodeRepo_defs Let_def
  by ((rule steps.effect_rules quota_within_steps stmt_within_steps repo_stmt_intros steps.D_refl | simp)+)

lemma UserRepo_steps [within_intros]:
  "within (db_rel sql_reach) (UserRepo_Create e inp token)"
  "within (db_rel sql_reach) (UserRepo_AssignNode e uid nid pt un pw)"
  "within (db_rel sql_reach) (UserRepo_CreateWithAssignments e inp token nps creds)"
  "within (db_rel sql_reach) (UserRepo_Update e k inp)"
  "within (db_rel sql_reach) (UserRepo_SetEnabled e k b)"
  "within (db_rel sql_reach) (UserRepo_Delete e k)"
  "within (db_rel sql_reach) (UserRepo_UnassignNode e uid nid)"
  "within (db_rel sql_reach) (UserRepo_SetAccessEnabled e uid aid b)"
  "within (db_rel sql_reach) (UserRepo_MarkExpirySynced e uid)"
  "within (db_rel sql_reach) (CreateUser e inp nps)"
  "within (db_rel sql_reach) (UserRepo_ActiveAccessForNode e k)"
  unfolding UserRepo_write_defs UserRepo_read_defs
  by ((rule steps.effect_rules quota_within_steps stmt_within_steps repo_stmt_intros steps.D_refl | simp)+)

lemma Agent_steps [within_intros]:
  "within (db_rel sql_reach) (agent_do e node m p b)"
  "within (db_rel sql_reach) (Agent_Health e node)"
  "within (db_rel sql_reach) (Agent_StatusInfo e node)"
  "within (db_rel sql_reach) (Agent_Sync e node payload)"
  unfolding agent_do_def Agent_Health_def Agent_Status_def Agent_StatusInfo_def Agent_Sync_def
  by ((rule steps.effect_rules)+)

lemma syncNodeAttempt_steps [within_intros]:
  "within (db_rel sql_reach) (syncNodeAttempt e node assigned version allowRetry)"
proof -
  have off: "within (db_rel sql_reach) (syncNodeAttempt e n us v False)" for n us v
    by (simp, rule steps.attempt_body_within) (auto intro: within_intros)
  then show ?thesis
    by (cases allowRetry) (simp_all, rule steps.attempt_body_within, auto intro: within_intros)
qed

lemma manager_steps [within_intros]:
  "within (db_rel sql_reach) (CreateNode e inp)"
  "within (db_rel sql_reach) (UpdateNode e key inp)"
  "within (db_rel sql_reach) (ValidateNodeStatus e key)"
  "within (db_rel sql_reach) (DeleteNode e key)"
  "within (db_rel sql_reach) (CheckNodeHealth e key)"
  "within (db_rel sql_reach) (FetchNodeStatus e key)"
  "within (db_rel sql_reach) (SyncNode e key)"
  "within (db_rel sql_reach) (SyncAllNodes e)"
  unfolding manager_defs SyncNode_def SyncAllNodes_def DeleteNode_def Let_def
  by ((rule within_intros | rule steps.effect_rules)+)

section \<open>Invariants of the steps\<close>

lemma sql_step_db_ok: "sql_step d d' \<Longrightarrow> db_ok d \<Longrightarrow> db_ok d'"
  by (induction rule: sql_step.induct) (erule stmt_db_ok; simp)+

lemma sql_reach_db_ok: "sql_reach d d' \<Longrightarrow> db_ok d \<Longrightarrow> db_ok d'"
  by (induction rule: rtranclp_induct) (auto intro: sql_step_db_ok)

section \<open>Properties\<close>

text \<open>
  C16: the consistency of assignments.  In all tables reachable from empty ones, by any
  interleaving of the panel's statements, every assignment belongs to an existing user and to
  exactly one existing node, and its protocol is that node's protocol; no user is assigned to a
  node twice, and user names, subscription tokens and agent node ids are unique.
\<close>

theorem reachable_assignments_consistent:
  assumes "sql_reach empty_db d" and "a \<in> set (t_access d)"
  shows "(\<exists>u \<in> set (t_users d). u_id u = a_user_id a)
    \<and> (\<exists>!n. n \<in> set (t_nodes d) \<and> n_id n = a_node_id a)
    \<and> (\<exists>n \<in> set (t_nodes d). n_id n = a_node_id a \<and> n_protocol_type n = a_protocol_type a)
    \<and> distinct (map (\<lambda>b. (a_user_id b, a_node_id b)) (t_access d))
    \<and> distinct (map u_username (t_users d)) \<and> distinct (map u_subscription_token (t_users d))
    \<and> distinct (map n_node_id (t_nodes d))"
proof -
  have ok: "db_ok d" using assms(1) db_ok_empty by (rule sql_reach_db_ok)
  have acc: "access_ok d a" using db_okD(9) [OF ok assms(2)] .
  have uniq: "n = m" if "n \<in> set (t_nodes d)" "m \<in> set (t_nodes d)" "n_id n = n_id m" for n m
    using db_okD(1) [OF ok] that by (auto simp: distinct_map inj_on_def)
  from acc obtain m where m: "m \<in> set (t_nodes d)" "n_id m = a_node_id a"
      "n_protocol_type m = a_protocol_type a" by (auto simp: access_ok_def)
  have "\<exists>!n. n \<in> set (t_nodes d) \<and> n_id n = a_node_id a"
    using m uniq by (intro ex1I [of _ m]) auto
  moreover have "\<exists>u \<in> set (t_users d). u_id u = a_user_id a"
    using acc by (force simp: access_ok_def)
  ultimately show ?thesis
    using ok m by (auto simp: db_ok_def)
qed

lemma sample_db_reachable: "sql_reach empty_db sample_db"
proof -
  let ?d1 = "empty_db\<lparr>t_nodes := [sample_node]\<rparr>"
  let ?d2 = "?d1\<lparr>t_users := [sample_user]\<rparr>"
  let ?d3 = "?d1\<lparr>t_users := [sample_user, sample_expired]\<rparr>"
  let ?d4 = "?d3\<lparr>t_access := [sample_access ''a1'' ''u1'']\<rparr>"
  note ev = insert_node_def insert_user_def upsert_access_def enforce_access_protocol_def empty_db_def
    sample_defs valid_protocol_def valid_setup_state_def node_constants
  have "sql_step empty_db ?d1" by (rule sql_step.node_inserted [of sample_node]) (simp add: ev)
  moreover have "sql_step ?d1 ?d2" by (rule sql_step.user_inserted [of sample_user]) (simp_all add: ev fits_int4_def)
  moreover have "sql_step ?d2 ?d3" by (rule sql_step.user_inserted [of sample_expired]) (simp_all add: ev fits_int4_def)
  moreover have "sql_step ?d3 ?d4"
    by (rule sql_step.access_upserted [of 1 "sample_access ''a1'' ''u1''"]) (simp add: ev)
  moreover have "sql_step ?d4 sample_db"
    by (rule sql_step.access_upserted [of 1 "sample_access ''a2'' ''u2''"]) (simp add: ev)
  ultimately show ?thesis by (meson converse_rtranclp_into_rtranclp rtranclp.rtrancl_refl)
qed

lemma reachable_assignments_consistent_witness:
  "\<exists>a \<in> set (t_access sample_db). \<exists>n \<in> set (t_nodes sample_db).
     n_id n = a_node_id a \<and> n_protocol_type n = a_protocol_type a"
proof -
  have "sample_access ''a1'' ''u1'' \<in> set (t_access sample_db)" by (simp add: sample_db_def)
  with reachable_assignments_consistent [OF sample_db_reachable this] show ?thesis by blast
qed

text \<open>
  C17: the version a node is to have never goes down.  Every operation of the node manager but the deletion -
  creating, changing, validating, checking, asking for the status of and synchronising nodes -,
  whatever fails in it, keeps every node of consistent tables and leaves its desired version at least as
  high as it was; the versions the agents are sent are drawn from it.  Deleting a node leaves
  every other node as it is.
\<close>

theorem desired_versions_never_lowered:
  assumes "db_ok (w_db w)" and "n \<in> set (t_nodes (w_db w))"
    and "d' \<in> {w_db (snd (CreateNode e inp w)), w_db (snd (UpdateNode e key inp w)),
              w_db (snd (CheckNodeHealth e key w)), w_db (snd (ValidateNodeStatus e key w)),
              w_db (snd (FetchNodeStatus e key w)),
              w_db (snd (SyncNode e key w)), w_db (snd (SyncAllNodes e w))}"
  shows "(\<exists>n' \<in> set (t_nodes d'). n_id n' = n_id n
      \<and> n_desired_config_version n \<le> n_desired_config_version n')
    \<and> (env_parse_uuid e key = Some (n_id n) \<or> n \<in> set (t_nodes (w_db (snd (DeleteNode e key w)))))"
proof
  have keep: "versions_advance (w_db w) (w_db (snd (m w)))"
    if "within (db_rel versions_advance) m" for m :: "'x act"
    using within_snd [OF that, of w] by (simp add: db_rel_def)
  have "versions_advance (w_db w) d'"
    using assms(3) keep [OF manager_versions(2)] keep [OF manager_versions(3)]
      keep [OF manager_versions(5)] keep [OF manager_versions(4)] keep [OF manager_versions(6)]
      keep [OF manager_versions(7)] keep [OF manager_versions(8)]
    by auto
  with assms(1,2) show "\<exists>n' \<in> set (t_nodes d'). n_id n' = n_id n
      \<and> n_desired_config_version n \<le> n_desired_config_version n'"
    by (simp add: versions_advance_def)
  show "env_parse_uuid e key = Some (n_id n) \<or> n \<in> set (t_nodes (w_db (snd (DeleteNode e key w))))"
    using assms(2)
    by (auto simp: DeleteNode_def NodeRepo_Delete_def exec_def uuid_arg_def delete_node_def Let_def
        split: option.splits fault.splits)
qed

text \<open>Synchronising the node, and deleting another.\<close>

lemma desired_versions_never_lowered_witness:
  "(\<exists>n' \<in> set (t_nodes (w_db (snd (SyncNode sample_env ''n9'' sample_world)))).
     n_id n' = ''n1'' \<and> 3 \<le> n_desired_config_version n')
   \<and> sample_node \<in> set (t_nodes (w_db (snd (DeleteNode sample_env ''n9'' sample_world))))"
proof -
  have "sample_node \<in> set (t_nodes (w_db sample_world))" by (simp add: sample_db_def)
  from desired_versions_never_lowered [OF _ this, of "w_db (snd (SyncNode sample_env ''n9'' sample_world))"
      sample_env switch_off "''n9''"]
  have "(\<exists>n' \<in> set (t_nodes (w_db (snd (SyncNode sample_env ''n9'' sample_world)))).
     n_id n' = n_id sample_node \<and> n_desired_config_version sample_node \<le> n_desired_config_version n')
     \<and> sample_node \<in> set (t_nodes (w_db (snd (DeleteNode sample_env ''n9'' sample_world))))"
    by (simp add: sample_db_ok sample_node_def)
  then show ?thesis by (simp add: sample_node_def)
qed

end
