(* ===== verification/Expiry.thy ===== *)
theory Expiry
  imports Sync_Outcomes
begin

text \<open>
  internal/users/expiry\_reconciler.go: the loop that tells the nodes about users whose accounts
  have expired.  The Go code reaches the database through the interface
  \<^verbatim>\<open>expiryReconcileRepository\<close> and the nodes through a function value; here the three methods,
  the function and the clock are arguments of the definitions (\<open>'w expiry_deps\<close>), the laws they
  have to meet form the locale \<open>expiry_interface\<close>, and the locale is interpreted on the
  repository and on \<open>SyncNode\<close>.
\<close>

section \<open>The reconciler\<close>

record 'w expiry_deps =
  UsersPending :: "('w, User list) io"
  ActiveNodeIDs :: "string \<Rightarrow> ('w, string list) io"
  MarkSynced :: "string \<Rightarrow> ('w, unit) io"
  syncNode :: "string \<Rightarrow> ('w, unit) io"
  now_clock :: "('w, time) io"

record ExpiryReconcileResult =
  rr_users_found :: nat
  rr_nodes_affected :: nat
  rr_sync_success_count :: nat
  rr_users_synced :: nat
  rr_errors :: "string list"

definition zero_result :: ExpiryReconcileResult where
  "zero_result =
     \<lparr>rr_users_found = 0, rr_nodes_affected = 0, rr_sync_success_count = 0, rr_users_synced = 0,
      rr_errors = []\<rparr>"

definition needsExpirySync :: "User \<Rightarrow> time \<Rightarrow> bool" where
  "needsExpirySync user current =
     (if \<not> u_enabled user then False
      else case u_expires_at user of
        None \<Rightarrow> False
      | Some x \<Rightarrow>
          if current < x then False
          else case u_expiry_synced_at user of None \<Rightarrow> True | Some s \<Rightarrow> s < x)"

fun dedupe_from :: "string list \<Rightarrow> string list \<Rightarrow> string list" where
  "dedupe_from seen [] = []"
| "dedupe_from seen (v # vs) =
     (if v = '''' \<or> v \<in> set seen then dedupe_from seen vs
      else v # dedupe_from (v # seen) vs)"

definition dedupeStrings :: "string list \<Rightarrow> string list" where
  "dedupeStrings values = dedupe_from [] values"

text \<open>
  A \<^verbatim>\<open>map[string]bool\<close> that only gets \<^verbatim>\<open>true\<close> values is the list of its keys here; Go's
  iteration order does not matter as the keys are sorted.
\<close>

definition mapKeys :: "string list \<Rightarrow> string list" where
  "mapKeys keys = sort_by (<) (remdups keys)"

text \<open>The variables of \<^verbatim>\<open>reconcile\<close> in its three loops.\<close>

record expiry_vars =
  ev_result :: ExpiryReconcileResult
  ev_users_to_nodes :: "string \<rightharpoonup> string list"
  ev_user_ids :: "string list"
  ev_unique_nodes :: "string list"
  ev_node_errors :: "string \<rightharpoonup> string"

definition add_error :: "string \<Rightarrow> goerr \<Rightarrow> expiry_vars \<Rightarrow> expiry_vars" where
  "add_error who err vars =
     vars\<lparr>ev_result := (ev_result vars)\<lparr>rr_errors :=
       rr_errors (ev_result vars) @ [who @ '': '' @ error_text err]\<rparr>\<rparr>"

definition collect_user :: "'w expiry_deps \<Rightarrow> time \<Rightarrow> User \<Rightarrow> expiry_vars \<Rightarrow> ('w, expiry_vars) io" where
  "collect_user r current user vars =
     (if \<not> needsExpirySync user current then retE vars
      else
        let vars1 = vars\<lparr>ev_result := (ev_result vars)\<lparr>rr_users_found := rr_users_found (ev_result vars) + 1\<rparr>,
                         ev_user_ids := ev_user_ids vars @ [u_id user]\<rparr> in
        bindE (attemptE (ActiveNodeIDs r (u_id user))) (\<lambda>ans.
          retE (case ans of
            Inl err \<Rightarrow> add_error (u_username user) err vars1
          | Inr nodeIDs \<Rightarrow>
              vars1\<lparr>ev_users_to_nodes := (ev_users_to_nodes vars1)(u_id user \<mapsto> dedupeStrings nodeIDs),
                    ev_unique_nodes := ev_unique_nodes vars1 @ dedupeStrings nodeIDs\<rparr>)))"

definition sync_one :: "'w expiry_deps \<Rightarrow> string \<Rightarrow> expiry_vars \<Rightarrow> ('w, expiry_vars) io" where
  "sync_one r nodeID vars =
     bindE (attemptE (syncNode r nodeID)) (\<lambda>ans.
       retE (case ans of
         Inl err \<Rightarrow>
           (add_error nodeID err vars)\<lparr>ev_node_errors := (ev_node_errors vars)(nodeID \<mapsto> error_text err)\<rparr>
       | Inr _ \<Rightarrow>
           vars\<lparr>ev_result := (ev_result vars)\<lparr>rr_sync_success_count :=
             rr_sync_success_count (ev_result vars) + 1\<rparr>\<rparr>))"

definition mark_user :: "'w expiry_deps \<Rightarrow> string \<Rightarrow> expiry_vars \<Rightarrow> ('w, expiry_vars) io" where
  "mark_user r userID vars =
     bindE (attemptE (MarkSynced r userID)) (\<lambda>ans.
       retE (case ans of
         Inl err \<Rightarrow> add_error userID err vars
       | Inr _ \<Rightarrow>
           vars\<lparr>ev_result := (ev_result vars)\<lparr>rr_users_synced :=
             rr_users_synced (ev_result vars) + 1\<rparr>\<rparr>))"

definition nodes_of_candidate :: "expiry_vars \<Rightarrow> string \<Rightarrow> string list" where
  "nodes_of_candidate vars userID =
     (case ev_users_to_nodes vars userID of None \<Rightarrow> [] | Some nodeIDs \<Rightarrow> nodeIDs)"

definition finish_user :: "'w expiry_deps \<Rightarrow> string \<Rightarrow> expiry_vars \<Rightarrow> ('w, expiry_vars) io" where
  "finish_user r userID vars =
     (let nodeIDs = nodes_of_candidate vars userID in
      if length nodeIDs = 0 then mark_user r userID vars
      else
        let allSynced = list_all (\<lambda>nodeID. ev_node_errors vars nodeID = None) nodeIDs in
        if \<not> allSynced then retE vars else mark_user r userID vars)"

definition start_vars :: expiry_vars where
  "start_vars =
     \<lparr>ev_result = zero_result, ev_users_to_nodes = Map.empty, ev_user_ids = [],
      ev_unique_nodes = [], ev_node_errors = Map.empty\<rparr>"

definition reconcile :: "'w expiry_deps \<Rightarrow> ('w, ExpiryReconcileResult \<times> goerr option) io" where
  "reconcile r =
     bindE (attemptE (UsersPending r)) (\<lambda>ans.
       case ans of
         Inl err \<Rightarrow> retE (zero_result, Some err)
       | Inr candidates \<Rightarrow>
           bindE (now_clock r) (\<lambda>current.
           bindE (forE (collect_user r current) candidates start_vars) (\<lambda>vars1.
           let nodes = mapKeys (ev_unique_nodes vars1);
               vars2 = vars1\<lparr>ev_result := (ev_result vars1)\<lparr>rr_nodes_affected := length nodes\<rparr>\<rparr> in
           bindE (forE (sync_one r) nodes vars2) (\<lambda>vars3.
           bindE (forE (finish_user r) (ev_user_ids vars3) vars3) (\<lambda>vars4.
             let result = ev_result vars4 in
             retE (if length (rr_errors result) > 0
                   then (result, Some (Errorf ''expiry reconcile completed with errors''))
                   else (result, None)))))))"

text \<open>The guard \<^verbatim>\<open>running\<close> beside the state.\<close>

record 'w reconciler =
  running :: bool
  rest_state :: 'w

definition ErrExpiryReconcileAlreadyRunning :: goerr where
  "ErrExpiryReconcileAlreadyRunning = Errorf ''expiry reconcile already running''"

definition tryAcquire :: "'w reconciler \<Rightarrow> bool \<times> 'w reconciler" where
  "tryAcquire s = (if running s then (False, s) else (True, s\<lparr>running := True\<rparr>))"

definition release :: "'w reconciler \<Rightarrow> 'w reconciler" where
  "release s = s\<lparr>running := False\<rparr>"

definition RunOnce :: "'w expiry_deps \<Rightarrow> ('w reconciler, ExpiryReconcileResult \<times> goerr option) io" where
  "RunOnce r s =
     (case tryAcquire s of
        (False, s1) \<Rightarrow> (Inr (zero_result, Some ErrExpiryReconcileAlreadyRunning), s1)
      | (True, s1) \<Rightarrow>
          (case reconcile r (rest_state s1) of
             (ans, w) \<Rightarrow> (ans, release (s1\<lparr>rest_state := w\<rparr>))))"

text \<open>\<^verbatim>\<open>runIteration\<close> does the same and only logs the outcome.\<close>

definition runIteration :: "'w expiry_deps \<Rightarrow> ('w reconciler, unit) io" where
  "runIteration r = ignoreE (RunOnce r)"

text \<open>\<^verbatim>\<open>Run\<close> until the context ends: the first iteration, then one for each tick.\<close>

definition Run :: "'w expiry_deps \<Rightarrow> nat \<Rightarrow> ('w reconciler, unit) io" where
  "Run r ticks =
     thenE (runIteration r) (forE (\<lambda>_ _. runIteration r) [0..<ticks] ())"

definition reconcile_interval :: "int \<Rightarrow> int" where
  "reconcile_interval interval = (if interval \<le> 0 then 60 * 10 ^ 9 else interval)"

section \<open>The dependencies' contract\<close>

text \<open>
  \<open>sound\<close> is what the dependencies need to hold, \<open>valid\<close> the ids they deal in, \<open>stamp w u\<close> what
  is recorded about the expiry of user \<open>u\<close>, \<open>active w u\<close> the nodes that have to know about it, and
  \<open>told w n\<close> that node \<open>n\<close> has been synchronised.  The three reads change none of these, stay within
  \<open>seen\<close>, and the lookup gives the active nodes.  Only \<open>MarkSynced u\<close> may change a stamp, and only
  \<open>u\<close>'s, which is \<open>fresh\<close> once it succeeds on a user that is \<open>present\<close>; a synchronisation that reports success
  makes its node told; nothing makes a told node untold.
\<close>

definition expiry_frame ::
    "('w \<Rightarrow> bool) \<Rightarrow> ('w \<Rightarrow> string \<Rightarrow> 'm) \<Rightarrow> ('w \<Rightarrow> string \<Rightarrow> bool) \<Rightarrow> 'w \<Rightarrow> 'w \<Rightarrow> bool" where
  "expiry_frame sound stamp told w w' \<longleftrightarrow>
     (sound w \<longrightarrow> sound w' \<and> stamp w' = stamp w \<and> (\<forall>n. told w n \<longrightarrow> told w' n))"

locale expiry_interface =
  fixes r :: "'w expiry_deps" and sound :: "'w \<Rightarrow> bool" and valid :: "string \<Rightarrow> bool"
    and stamp :: "'w \<Rightarrow> string \<Rightarrow> 'm" and told :: "'w \<Rightarrow> string \<Rightarrow> bool"
    and active :: "'w \<Rightarrow> string \<Rightarrow> string set" and seen :: "'w \<Rightarrow> 'w \<Rightarrow> bool"
    and present :: "'m \<Rightarrow> bool" and fresh :: "'m \<Rightarrow> bool"
  assumes pending_frame: "within (expiry_frame sound stamp told) (UsersPending r)"
    and nodes_frame: "within (expiry_frame sound stamp told) (ActiveNodeIDs r u)"
    and sync_frame: "within (expiry_frame sound stamp told) (syncNode r n)"
    and clock_frame: "within (expiry_frame sound stamp told) (now_clock r)"
    and seen_preorder: "preorder_on_states seen"
    and reads_seen: "within seen (UsersPending r)" "within seen (ActiveNodeIDs r u)" "within seen (now_clock r)"
    and seen_active: "seen w w' \<Longrightarrow> active w' = active w"
    and pending_valid: "sound w \<Longrightarrow> UsersPending r w = (Inr us, w') \<Longrightarrow> user \<in> set us \<Longrightarrow>
      valid (u_id user) \<and> present (stamp w (u_id user))"
    and nodes_valid: "sound w \<Longrightarrow> n \<in> active w u \<Longrightarrow> valid n"
    and nodes_active: "sound w \<Longrightarrow> ActiveNodeIDs r u w = (Inr ns, w') \<Longrightarrow> set ns = active w u"
    and sync_told: "sound w \<Longrightarrow> valid n \<Longrightarrow> syncNode r n w = (Inr x, w') \<Longrightarrow> told w' n"
    and mark_only: "sound w \<Longrightarrow> valid u \<Longrightarrow> MarkSynced r u w = (ans, w') \<Longrightarrow>
      sound w' \<and> (\<forall>v. v \<noteq> u \<longrightarrow> stamp w' v = stamp w v) \<and> (\<forall>n. told w n \<longrightarrow> told w' n)
      \<and> (present (stamp w u) \<longrightarrow> present (stamp w' u))"
    and mark_fresh: "sound w \<Longrightarrow> valid u \<Longrightarrow> present (stamp w u) \<Longrightarrow> MarkSynced r u w = (Inr y, w') \<Longrightarrow>
      fresh (stamp w' u)"

lemma expiry_frame_preorder: "preorder_on_states (expiry_frame sound stamp told)"
  by unfold_locales (auto simp: expiry_frame_def)

sublocale expiry_interface \<subseteq> frame: preorder_on_states "expiry_frame sound stamp told"
  by (rule expiry_frame_preorder)

sublocale expiry_interface \<subseteq> reads: preorder_on_states seen
  by (rule seen_preorder)

lemma set_dedupe_from: "set (dedupe_from seen vs) = set vs - insert '''' (set seen)"
  by (induction seen vs rule: dedupe_from.induct) auto

lemma set_dedupeStrings: "set (dedupeStrings vs) = set vs - {''''}"
  by (simp add: dedupeStrings_def set_dedupe_from)

lemma distinct_dedupe_from: "distinct (dedupe_from seen vs)"
  by (induction seen vs rule: dedupe_from.induct) (auto simp: set_dedupe_from)

lemma set_mapKeys: "set (mapKeys keys) = set keys"
  by (simp add: mapKeys_def)

lemma length_mapKeys: "length (mapKeys keys) = card (set keys)"
  by (simp add: mapKeys_def length_remdups_card_conv)

text \<open>
  What the first loop knows: the nodes of each candidate, or that its lookup has failed and an error
  has been noted.
\<close>

definition plan_ok ::
    "(string \<Rightarrow> bool) \<Rightarrow> (string \<Rightarrow> string set) \<Rightarrow> (string \<Rightarrow> bool) \<Rightarrow> expiry_vars \<Rightarrow> bool" where
  "plan_ok valid act failed vars \<longleftrightarrow>
     (\<forall>u \<in> set (ev_user_ids vars). valid u
        \<and> (ev_users_to_nodes vars u = None \<longrightarrow> rr_errors (ev_result vars) \<noteq> [] \<and> failed u))
     \<and> (\<forall>u ns. ev_users_to_nodes vars u = Some ns \<longrightarrow>
          set ns = act u - {[]} \<and> set ns \<subseteq> set (ev_unique_nodes vars))
     \<and> (\<forall>n \<in> set (ev_unique_nodes vars). valid n \<and> (\<exists>u \<in> set (ev_user_ids vars). n \<in> act u - {[]}))"

lemma collect_user_result:
  assumes "collect_user r current user vars w = (Inr vars', w')"
  shows "if needsExpirySync user current
    then ev_user_ids vars' = ev_user_ids vars @ [u_id user]
      \<and> (case ActiveNodeIDs r (u_id user) w of
           (Inl err, w1) \<Rightarrow> w' = w1 \<and> ev_users_to_nodes vars' = ev_users_to_nodes vars
             \<and> ev_unique_nodes vars' = ev_unique_nodes vars \<and> rr_errors (ev_result vars') \<noteq> []
         | (Inr ns, w1) \<Rightarrow> w' = w1
             \<and> ev_users_to_nodes vars' = (ev_users_to_nodes vars)(u_id user \<mapsto> dedupeStrings ns)
             \<and> ev_unique_nodes vars' = ev_unique_nodes vars @ dedupeStrings ns
             \<and> rr_errors (ev_result vars') = rr_errors (ev_result vars))
    else w' = w \<and> vars' = vars"
  using assms
  by (auto simp: collect_user_def Let_def io_simps bindE_def attemptE_def add_error_def
      split: prod.splits sum.splits)

context expiry_interface begin

definition lookup_failed :: "'w \<Rightarrow> string \<Rightarrow> bool" where
  "lookup_failed w u \<longleftrightarrow> (\<exists>v err. seen w v \<and> fst (ActiveNodeIDs r u v) = Inl err)"

lemma collect_keeps:
  assumes run: "collect_user r current user vars v = (Inr vars', v')"
    and user: "valid (u_id user)" and sound: "sound v" and w: "seen w v"
    and plan: "plan_ok valid (active w) (lookup_failed w) vars"
  shows "expiry_frame sound stamp told v v' \<and> seen w v' \<and> plan_ok valid (active w) (lookup_failed w) vars'"
proof (cases "needsExpirySync user current")
  case False
  with collect_user_result [OF run] plan w show ?thesis by (simp add: frame.R_refl)
next
  case True
  obtain ans v1 where ans: "ActiveNodeIDs r (u_id user) v = (ans, v1)" by force
  note res = collect_user_result [OF run, simplified True ans if_True prod.case]
  then have v': "v' = v1" by (cases ans) auto
  have frame: "expiry_frame sound stamp told v v1" using nodes_frame ans by (rule withinD)
  have "seen w v1" using w withinD [OF reads_seen(2) ans] by (rule reads.R_trans)
  moreover have "plan_ok valid (active w) (lookup_failed w) vars'"
  proof (cases ans)
    case (Inl err)
    then have "lookup_failed w (u_id user)" using ans w by (auto simp: lookup_failed_def)
    moreover have "ev_user_ids vars' = ev_user_ids vars @ [u_id user]" "rr_errors (ev_result vars') \<noteq> []"
        "ev_users_to_nodes vars' = ev_users_to_nodes vars" "ev_unique_nodes vars' = ev_unique_nodes vars"
      using Inl res by simp_all
    ultimately show ?thesis using plan user unfolding plan_ok_def by simp blast
  next
    case (Inr ns)
    have ns: "set (dedupeStrings ns) = active w (u_id user) - {[]}"
      using nodes_active [OF sound ans [unfolded Inr]] seen_active [OF w] by (simp add: set_dedupeStrings)
    then have "\<forall>n \<in> set (dedupeStrings ns). valid n" using nodes_valid [OF sound] seen_active [OF w] by auto
    with Inr res plan user ns show ?thesis by (fastforce simp: plan_ok_def)
  qed
  ultimately show ?thesis using frame v' by simp
qed

end

text \<open>The three loops, and what each establishes.\<close>

lemma collect_total: "\<exists>s1 w1. collect_user r current user vars w = (Inr s1, w1)"
  by (auto simp: collect_user_def Let_def io_simps bindE_def attemptE_def split: prod.splits)

lemma sync_total: "\<exists>s1 w1. sync_one r nodeID vars w = (Inr s1, w1)"
  by (auto simp: sync_one_def io_simps bindE_def attemptE_def split: prod.splits)

lemma mark_total: "\<exists>s1 w1. mark_user r userID vars w = (Inr s1, w1)"
  by (auto simp: mark_user_def io_simps bindE_def attemptE_def split: prod.splits)

lemma finish_total: "\<exists>s1 w1. finish_user r userID vars w = (Inr s1, w1)"
  using mark_total by (auto simp: finish_user_def Let_def io_simps)

lemma reconcile_phases:
  assumes "reconcile r w = (ans, w')"
  obtains (unread) err where "UsersPending r w = (Inl err, w')"
    | (unclocked) us w1 err where "UsersPending r w = (Inr us, w1)" and "now_clock r w1 = (Inl err, w')"
    | (phases) us w1 current w2 vars1 w3 vars2 vars3 w4 vars4 where
        "UsersPending r w = (Inr us, w1)" and "now_clock r w1 = (Inr current, w2)"
      and "forE (collect_user r current) us start_vars w2 = (Inr vars1, w3)"
      and "vars2 = vars1\<lparr>ev_result := (ev_result vars1)
             \<lparr>rr_nodes_affected := length (mapKeys (ev_unique_nodes vars1))\<rparr>\<rparr>"
      and "forE (sync_one r) (mapKeys (ev_unique_nodes vars1)) vars2 w3 = (Inr vars3, w4)"
      and "forE (finish_user r) (ev_user_ids vars3) vars3 w4 = (Inr vars4, w')"
      and "ans = Inr (ev_result vars4,
             if rr_errors (ev_result vars4) = [] then None
             else Some (Errorf ''expiry reconcile completed with errors''))"
proof -
  obtain a w1 where pend: "UsersPending r w = (a, w1)" by force
  show thesis
  proof (cases a)
    case (Inl err)
    with assms pend show thesis
      by (intro unread) (auto simp: reconcile_def bindE_def attemptE_def io_simps)
  next
    case (Inr us)
    obtain c w2 where clk: "now_clock r w1 = (c, w2)" by force
    show thesis
    proof (cases c)
      case (Inl err)
      with assms pend Inr clk show thesis
        by (intro unclocked) (auto simp: reconcile_def bindE_def attemptE_def io_simps)
    next
      case (Inr current)
      obtain vars1 w3 where one: "forE (collect_user r current) us start_vars w2 = (Inr vars1, w3)"
        using forE_total [of "collect_user r current"] collect_total by metis
      define vars2 where "vars2 = vars1\<lparr>ev_result := (ev_result vars1)
             \<lparr>rr_nodes_affected := length (mapKeys (ev_unique_nodes vars1))\<rparr>\<rparr>"
      obtain vars3 w4 where two: "forE (sync_one r) (mapKeys (ev_unique_nodes vars1)) vars2 w3 = (Inr vars3, w4)"
        using forE_total [of "sync_one r"] sync_total by metis
      obtain vars4 w5 where three: "forE (finish_user r) (ev_user_ids vars3) vars3 w4 = (Inr vars4, w5)"
        using forE_total [of "finish_user r"] finish_total by metis
      have "w5 = w'" "ans = Inr (ev_result vars4,
             if rr_errors (ev_result vars4) = [] then None
             else Some (Errorf ''expiry reconcile completed with errors''))"
        using assms pend \<open>a = Inr us\<close> clk Inr one two three
        by (auto simp: reconcile_def bindE_def attemptE_def io_simps Let_def vars2_def [symmetric])
      with pend \<open>a = Inr us\<close> clk Inr one two three vars2_def show thesis by (intro phases) auto
    qed
  qed
qed

lemma finish_user_cases:
  assumes "finish_user r u vars w = (Inr vars', w')"
  obtains (skipped) n where "w' = w" and "vars' = vars" and "n \<in> set (nodes_of_candidate vars u)"
      and "ev_node_errors vars n \<noteq> None"
    | (marked) ans where "MarkSynced r u w = (ans, w')"
      and "\<forall>n \<in> set (nodes_of_candidate vars u). ev_node_errors vars n = None"
      and "vars' = (case ans of Inl err \<Rightarrow> add_error u err vars
           | Inr _ \<Rightarrow> vars\<lparr>ev_result := (ev_result vars)\<lparr>rr_users_synced := rr_users_synced (ev_result vars) + 1\<rparr>\<rparr>)"
proof (cases "\<forall>n \<in> set (nodes_of_candidate vars u). ev_node_errors vars n = None")
  case True
  then have "finish_user r u vars = mark_user r u vars"
    by (auto simp: finish_user_def Let_def list_all_iff)
  moreover obtain ans v where "MarkSynced r u w = (ans, v)" by force
  ultimately show thesis
    using assms True by (intro marked [of ans]) (auto simp: mark_user_def io_simps bindE_def attemptE_def)
next
  case False
  then have "finish_user r u vars = retE vars"
    by (auto simp: finish_user_def Let_def list_all_iff)
  with assms False skipped show thesis by (auto simp: io_simps)
qed

lemma sync_one_result:
  assumes "sync_one r n vars w = (Inr vars', w')"
  obtains ans where "syncNode r n w = (ans, w')"
    and "ev_users_to_nodes vars' = ev_users_to_nodes vars" and "ev_user_ids vars' = ev_user_ids vars"
    and "ev_unique_nodes vars' = ev_unique_nodes vars"
    and "rr_errors (ev_result vars) \<noteq> [] \<longrightarrow> rr_errors (ev_result vars') \<noteq> []"
    and "ev_node_errors vars' = (case ans of Inl err \<Rightarrow> (ev_node_errors vars)(n \<mapsto> error_text err)
           | Inr _ \<Rightarrow> ev_node_errors vars)"
  using assms
  by (auto simp: sync_one_def io_simps bindE_def attemptE_def add_error_def split: prod.splits sum.splits)

context expiry_interface begin

lemma collect_loop:
  assumes run: "forE (collect_user r current) us start_vars v0 = (Inr vars', w')" and w: "seen w v0"
    and users: "\<forall>user \<in> set us. valid (u_id user)" and sound: "sound v0"
  shows "expiry_frame sound stamp told v0 w' \<and> seen w w' \<and> plan_ok valid (active w) (lookup_failed w) vars'
    \<and> ev_node_errors vars' = Map.empty
    \<and> ev_user_ids vars' = map u_id (filter (\<lambda>u. needsExpirySync u current) us)"
  using run
proof (rule forE_prefix)
  show "expiry_frame sound stamp told v0 v0 \<and> seen w v0 \<and> plan_ok valid (active w) (lookup_failed w) start_vars
    \<and> ev_node_errors start_vars = Map.empty
    \<and> ev_user_ids start_vars = map u_id (filter (\<lambda>u. needsExpirySync u current) [])"
    using w by (simp add: frame.R_refl plan_ok_def start_vars_def)
  fix dn user todo vars v vars1 v1
  assume us: "us = dn @ user # todo"
    and prev: "expiry_frame sound stamp told v0 v \<and> seen w v \<and> plan_ok valid (active w) (lookup_failed w) vars
      \<and> ev_node_errors vars = Map.empty
      \<and> ev_user_ids vars = map u_id (filter (\<lambda>u. needsExpirySync u current) dn)"
    and step: "collect_user r current user vars v = (Inr vars1, v1)"
  have "sound v" using prev sound by (simp add: expiry_frame_def)
  with collect_keeps [OF step] users us prev
  have "expiry_frame sound stamp told v v1 \<and> seen w v1 \<and> plan_ok valid (active w) (lookup_failed w) vars1" by auto
  moreover have "ev_node_errors vars1 = ev_node_errors vars"
    using step by (auto simp: collect_user_def Let_def io_simps bindE_def attemptE_def add_error_def
        split: if_splits prod.splits sum.splits)
  moreover have "ev_user_ids vars1 = ev_user_ids vars @ (if needsExpirySync user current then [u_id user] else [])"
    using collect_user_result [OF step] by (auto split: if_splits)
  ultimately show "expiry_frame sound stamp told v0 v1 \<and> seen w v1
    \<and> plan_ok valid (active w) (lookup_failed w) vars1 \<and> ev_node_errors vars1 = Map.empty
    \<and> ev_user_ids vars1 = map u_id (filter (\<lambda>u. needsExpirySync u current) (dn @ [user]))"
    using prev by (auto intro: frame.R_trans)
qed

lemma sync_loop:
  assumes run: "forE (sync_one r) nodes vars w = (Inr vars', w')"
    and nodes: "\<forall>n \<in> set nodes. valid n" and sound: "sound w"
  shows "expiry_frame sound stamp told w w' \<and> ev_users_to_nodes vars' = ev_users_to_nodes vars
    \<and> ev_user_ids vars' = ev_user_ids vars \<and> ev_unique_nodes vars' = ev_unique_nodes vars
    \<and> (rr_errors (ev_result vars) \<noteq> [] \<longrightarrow> rr_errors (ev_result vars') \<noteq> [])
    \<and> (\<forall>n \<in> set nodes. ev_node_errors vars' n = None \<longrightarrow> told w' n)"
  using run
proof (rule forE_prefix)
  fix dn n todo vs v vs1 v1
  assume split: "nodes = dn @ n # todo"
    and prev: "expiry_frame sound stamp told w v \<and> ev_users_to_nodes vs = ev_users_to_nodes vars
    \<and> ev_user_ids vs = ev_user_ids vars \<and> ev_unique_nodes vs = ev_unique_nodes vars
    \<and> (rr_errors (ev_result vars) \<noteq> [] \<longrightarrow> rr_errors (ev_result vs) \<noteq> [])
    \<and> (\<forall>n \<in> set dn. ev_node_errors vs n = None \<longrightarrow> told v n)"
    and step: "sync_one r n vs v = (Inr vs1, v1)"
  obtain ans where ans: "syncNode r n v = (ans, v1)" and vs1: "ev_users_to_nodes vs1 = ev_users_to_nodes vs"
      "ev_user_ids vs1 = ev_user_ids vs" "ev_unique_nodes vs1 = ev_unique_nodes vs"
      "rr_errors (ev_result vs) \<noteq> [] \<longrightarrow> rr_errors (ev_result vs1) \<noteq> []"
      "ev_node_errors vs1 = (case ans of Inl err \<Rightarrow> (ev_node_errors vs)(n \<mapsto> error_text err)
           | Inr _ \<Rightarrow> ev_node_errors vs)"
    using sync_one_result [OF step] .
  have sv: "sound v" using prev sound by (simp add: expiry_frame_def)
  have frame: "expiry_frame sound stamp told v v1" using sync_frame ans by (rule withinD)
  have here: "told v1 n" if "ev_node_errors vs1 n = None"
    using that vs1(5) sync_told [OF sv _ ] ans nodes split by (cases ans) auto
  have before: "told v1 m" if "m \<in> set dn" "ev_node_errors vs1 m = None" for m
    using that prev vs1(5) frame sv
    by (auto simp: expiry_frame_def split: sum.splits if_splits)
  show "expiry_frame sound stamp told w v1 \<and> ev_users_to_nodes vs1 = ev_users_to_nodes vars
    \<and> ev_user_ids vs1 = ev_user_ids vars \<and> ev_unique_nodes vs1 = ev_unique_nodes vars
    \<and> (rr_errors (ev_result vars) \<noteq> [] \<longrightarrow> rr_errors (ev_result vs1) \<noteq> [])
    \<and> (\<forall>m \<in> set (dn @ [n]). ev_node_errors vs1 m = None \<longrightarrow> told v1 m)"
    using prev vs1(1-4) frame here before by (auto intro: frame.R_trans)
qed (simp add: frame.R_refl)

lemma finish_loop:
  assumes run: "forE (finish_user r) us vars w = (Inr vars', w')"
    and users: "\<forall>u \<in> set us. valid u" and sound: "sound w"
  shows "sound w' \<and> (\<forall>n. told w n \<longrightarrow> told w' n)
    \<and> ev_users_to_nodes vars' = ev_users_to_nodes vars \<and> ev_node_errors vars' = ev_node_errors vars
    \<and> (rr_errors (ev_result vars) \<noteq> [] \<longrightarrow> rr_errors (ev_result vars') \<noteq> [])
    \<and> (\<forall>u. stamp w' u \<noteq> stamp w u \<longrightarrow> u \<in> set us
          \<and> (\<forall>n \<in> set (nodes_of_candidate vars u). ev_node_errors vars n = None))
    \<and> (rr_errors (ev_result vars') = [] \<and> ev_node_errors vars = Map.empty \<longrightarrow>
        (\<forall>u \<in> set us. present (stamp w u) \<longrightarrow> fresh (stamp w' u)))"
proof -
  have "sound w' \<and> (\<forall>n. told w n \<longrightarrow> told w' n)
    \<and> ev_users_to_nodes vars' = ev_users_to_nodes vars \<and> ev_node_errors vars' = ev_node_errors vars
    \<and> (rr_errors (ev_result vars) \<noteq> [] \<longrightarrow> rr_errors (ev_result vars') \<noteq> [])
    \<and> (\<forall>u. stamp w' u \<noteq> stamp w u \<longrightarrow> u \<in> set us
          \<and> (\<forall>n \<in> set (nodes_of_candidate vars u). ev_node_errors vars n = None))
    \<and> (\<forall>u. present (stamp w u) \<longrightarrow> present (stamp w' u))
    \<and> (rr_errors (ev_result vars') = [] \<and> ev_node_errors vars = Map.empty \<longrightarrow>
        (\<forall>u \<in> set us. present (stamp w u) \<longrightarrow> fresh (stamp w' u)))"
    using run
  proof (rule forE_prefix)
    fix dn u todo vs v vs1 v1
    assume split: "us = dn @ u # todo"
      and prev: "sound v \<and> (\<forall>n. told w n \<longrightarrow> told v n)
      \<and> ev_users_to_nodes vs = ev_users_to_nodes vars \<and> ev_node_errors vs = ev_node_errors vars
      \<and> (rr_errors (ev_result vars) \<noteq> [] \<longrightarrow> rr_errors (ev_result vs) \<noteq> [])
      \<and> (\<forall>u. stamp v u \<noteq> stamp w u \<longrightarrow> u \<in> set dn
            \<and> (\<forall>n \<in> set (nodes_of_candidate vars u). ev_node_errors vars n = None))
      \<and> (\<forall>u. present (stamp w u) \<longrightarrow> present (stamp v u))
      \<and> (rr_errors (ev_result vs) = [] \<and> ev_node_errors vars = Map.empty \<longrightarrow>
          (\<forall>u \<in> set dn. present (stamp w u) \<longrightarrow> fresh (stamp v u)))"
      and step: "finish_user r u vs v = (Inr vs1, v1)"
    have cand: "nodes_of_candidate vs = nodes_of_candidate vars"
      using prev by (auto simp: nodes_of_candidate_def fun_eq_iff)
    from step show "sound v1 \<and> (\<forall>n. told w n \<longrightarrow> told v1 n)
      \<and> ev_users_to_nodes vs1 = ev_users_to_nodes vars \<and> ev_node_errors vs1 = ev_node_errors vars
      \<and> (rr_errors (ev_result vars) \<noteq> [] \<longrightarrow> rr_errors (ev_result vs1) \<noteq> [])
      \<and> (\<forall>x. stamp v1 x \<noteq> stamp w x \<longrightarrow> x \<in> set (dn @ [u])
            \<and> (\<forall>n \<in> set (nodes_of_candidate vars x). ev_node_errors vars n = None))
      \<and> (\<forall>u. present (stamp w u) \<longrightarrow> present (stamp v1 u))
      \<and> (rr_errors (ev_result vs1) = [] \<and> ev_node_errors vars = Map.empty \<longrightarrow>
          (\<forall>x \<in> set (dn @ [u]). present (stamp w x) \<longrightarrow> fresh (stamp v1 x)))"
    proof (cases rule: finish_user_cases)
      case (skipped n)
      with prev show ?thesis by auto
    next
      case (marked ans)
      have valid: "valid u" using users split by simp
      with mark_only [OF _ _ marked(1)] prev have mark: "sound v1" "\<forall>x. x \<noteq> u \<longrightarrow> stamp v1 x = stamp v x"
          "\<forall>n. told v n \<longrightarrow> told v1 n" "present (stamp v u) \<longrightarrow> present (stamp v1 u)" by auto
      have vars1: "ev_users_to_nodes vs1 = ev_users_to_nodes vs \<and> ev_node_errors vs1 = ev_node_errors vs
        \<and> (rr_errors (ev_result vs) \<noteq> [] \<longrightarrow> rr_errors (ev_result vs1) \<noteq> [])"
        using marked(3) by (auto simp: add_error_def split: sum.splits)
      have "fresh (stamp v1 u)" if "rr_errors (ev_result vs1) = []" "present (stamp v u)"
      proof (cases ans)
        case (Inl err)
        with marked(3) that(1) show ?thesis by (simp add: add_error_def)
      next
        case (Inr y)
        with mark_fresh [OF _ valid that(2)] marked(1) prev show ?thesis by simp
      qed
      then have "rr_errors (ev_result vs1) = [] \<and> ev_node_errors vars = Map.empty \<longrightarrow>
          (\<forall>x \<in> set (dn @ [u]). present (stamp w x) \<longrightarrow> fresh (stamp v1 x))"
        using prev mark(2) vars1 by (metis Un_iff empty_iff insert_iff list.set(1) list.set(2) set_append)
      moreover have "\<forall>x. stamp v1 x \<noteq> stamp w x \<longrightarrow> x \<in> set (dn @ [u])
          \<and> (\<forall>n \<in> set (nodes_of_candidate vars x). ev_node_errors vars n = None)"
        using prev mark(2) marked(2) cand by (metis UnI1 UnI2 list.set_intros(1) set_append)
      moreover have "\<forall>x. present (stamp w x) \<longrightarrow> present (stamp v1 x)" using prev mark(2,4) by metis
      moreover have "sound v1 \<and> (\<forall>n. told w n \<longrightarrow> told v1 n)
          \<and> ev_users_to_nodes vs1 = ev_users_to_nodes vars \<and> ev_node_errors vs1 = ev_node_errors vars
          \<and> (rr_errors (ev_result vars) \<noteq> [] \<longrightarrow> rr_errors (ev_result vs1) \<noteq> [])"
        using mark(1,3) prev vars1 by simp
      ultimately show ?thesis by (elim conjE) (intro conjI; assumption)
    qed
  qed (simp add: sound)
  then show ?thesis by blast
qed

text \<open>A run that gets through its three loops, seen from before it.\<close>

lemma phases_plan:
  assumes pending: "UsersPending r w = (Inr us, w1)" and clk: "now_clock r w1 = (Inr current, w2)"
    and collect: "forE (collect_user r current) us start_vars w2 = (Inr vars1, w3)"
    and vars2: "ev_users_to_nodes vars2 = ev_users_to_nodes vars1" "ev_user_ids vars2 = ev_user_ids vars1"
      "rr_errors (ev_result vars2) = rr_errors (ev_result vars1)" "ev_node_errors vars2 = ev_node_errors vars1"
    and syncs: "forE (sync_one r) (mapKeys (ev_unique_nodes vars1)) vars2 w3 = (Inr vars3, w4)"
    and sound: "sound w"
  shows "plan_ok valid (active w) (lookup_failed w) vars1
    \<and> ev_user_ids vars1 = map u_id (filter (\<lambda>u. needsExpirySync u current) us)
    \<and> ev_user_ids vars3 = ev_user_ids vars1 \<and> ev_users_to_nodes vars3 = ev_users_to_nodes vars1
    \<and> (rr_errors (ev_result vars1) \<noteq> [] \<longrightarrow> rr_errors (ev_result vars3) \<noteq> [])
    \<and> (\<forall>n \<in> set (ev_unique_nodes vars1). ev_node_errors vars3 n = None \<longrightarrow> told w4 n)
    \<and> sound w4 \<and> stamp w4 = stamp w
    \<and> (\<forall>user \<in> set us. valid (u_id user) \<and> present (stamp w (u_id user)))"
proof -
  have f2: "expiry_frame sound stamp told w w2"
    using withinD [OF pending_frame pending] withinD [OF clock_frame clk] by (rule frame.R_trans)
  have s2: "sound w2" using f2 sound by (simp add: expiry_frame_def)
  have seen2: "seen w w2"
    using withinD [OF reads_seen(1) pending] withinD [OF reads_seen(3) clk] by (rule reads.R_trans)
  have users: "\<forall>user \<in> set us. valid (u_id user) \<and> present (stamp w (u_id user))"
    using pending_valid [OF sound pending] by blast
  then have one: "expiry_frame sound stamp told w2 w3" "plan_ok valid (active w) (lookup_failed w) vars1"
      "ev_user_ids vars1 = map u_id (filter (\<lambda>u. needsExpirySync u current) us)"
    using collect_loop [OF collect seen2 _ s2] by auto
  then have s3: "sound w3" using s2 by (simp add: expiry_frame_def)
  have two: "expiry_frame sound stamp told w3 w4" "ev_users_to_nodes vars3 = ev_users_to_nodes vars1"
      "ev_user_ids vars3 = ev_user_ids vars1"
      "\<forall>n \<in> set (ev_unique_nodes vars1). ev_node_errors vars3 n = None \<longrightarrow> told w4 n"
      "rr_errors (ev_result vars1) \<noteq> [] \<longrightarrow> rr_errors (ev_result vars3) \<noteq> []"
    using sync_loop [OF syncs _ s3] one vars2 by (auto simp: plan_ok_def set_mapKeys)
  have "sound w4 \<and> stamp w4 = stamp w"
    using f2 one(1) two(1) sound s2 s3 by (simp add: expiry_frame_def)
  with one two users show ?thesis by blast
qed

text \<open>
  The reconciler changes the stamp of a user only when every active node of the user has been
  synchronised by then, or when the lookup of this user's nodes has failed in the run, which the run reports.
\<close>

theorem marks_only_told:
  assumes run: "reconcile r w = (ans, w')" and sound: "sound w" and changed: "stamp w' u \<noteq> stamp w u"
  shows "(\<forall>n \<in> active w u. n \<noteq> [] \<longrightarrow> told w' n)
    \<or> (lookup_failed w u \<and> (\<exists>result err. ans = Inr (result, Some err) \<and> rr_errors result \<noteq> []))"
  using run
proof (cases rule: reconcile_phases)
  case (unread err)
  with withinD [OF pending_frame] sound changed show ?thesis by (fastforce simp: expiry_frame_def)
next
  case (unclocked us w1 err)
  have "expiry_frame sound stamp told w w'"
    using withinD [OF pending_frame unclocked(1)] withinD [OF clock_frame unclocked(2)] by (rule frame.R_trans)
  with sound changed show ?thesis by (simp add: expiry_frame_def)
next
  case (phases us w1 current w2 vars1 w3 vars2 vars3 w4 vars4)
  have plan: "plan_ok valid (active w) (lookup_failed w) vars1"
      "ev_user_ids vars3 = ev_user_ids vars1" "ev_users_to_nodes vars3 = ev_users_to_nodes vars1"
      "rr_errors (ev_result vars1) \<noteq> [] \<longrightarrow> rr_errors (ev_result vars3) \<noteq> []"
      "\<forall>n \<in> set (ev_unique_nodes vars1). ev_node_errors vars3 n = None \<longrightarrow> told w4 n"
      "sound w4" "stamp w4 = stamp w"
    using phases_plan [OF phases(1-3) _ _ _ _ phases(5) sound] phases(4) by simp_all
  have "\<forall>u \<in> set (ev_user_ids vars3). valid u" using plan(1,2) by (simp add: plan_ok_def)
  note three = finish_loop [OF phases(6) this plan(6)]
  have u: "u \<in> set (ev_user_ids vars1)"
      "\<forall>n \<in> set (nodes_of_candidate vars3 u). ev_node_errors vars3 n = None"
    using three changed plan(2,7) by auto
  show ?thesis
  proof (cases "ev_users_to_nodes vars1 u")
    case None
    with plan(1) u(1) have "rr_errors (ev_result vars1) \<noteq> []" "lookup_failed w u" by (auto simp: plan_ok_def)
    with plan(4) three phases(7) show ?thesis by simp
  next
    case (Some ns)
    then have ns: "set ns = active w u - {[]}" "set ns \<subseteq> set (ev_unique_nodes vars1)"
      using plan(1) unfolding plan_ok_def by blast+
    have "\<forall>n \<in> set ns. told w' n"
      using Some u(2) plan(3,5) three ns(2) by (fastforce simp: nodes_of_candidate_def)
    with ns(1) show ?thesis by auto
  qed
qed

end

section \<open>The counters\<close>

definition clean :: "expiry_vars \<Rightarrow> bool" where
  "clean vars \<longleftrightarrow> rr_errors (ev_result vars) = []"

lemma collect_counts:
  assumes "forE (collect_user r current) us start_vars w = (Inr vars, w')"
  shows "rr_users_found (ev_result vars) = length (ev_user_ids vars)
    \<and> rr_users_synced (ev_result vars) = 0 \<and> rr_sync_success_count (ev_result vars) = 0
    \<and> ev_node_errors vars = Map.empty"
  using assms
proof (rule forE_prefix)
  fix dn x todo vars v vars1 v1
  assume "rr_users_found (ev_result vars) = length (ev_user_ids vars)
    \<and> rr_users_synced (ev_result vars) = 0 \<and> rr_sync_success_count (ev_result vars) = 0
    \<and> ev_node_errors vars = Map.empty" and "collect_user r current x vars v = (Inr vars1, v1)"
  then show "rr_users_found (ev_result vars1) = length (ev_user_ids vars1)
    \<and> rr_users_synced (ev_result vars1) = 0 \<and> rr_sync_success_count (ev_result vars1) = 0
    \<and> ev_node_errors vars1 = Map.empty"
    by (auto simp: collect_user_def Let_def io_simps bindE_def attemptE_def add_error_def
        split: if_splits prod.splits sum.splits)
qed (simp add: start_vars_def zero_result_def)

lemma sync_counts:
  assumes "forE (sync_one r) nodes vars w = (Inr vars', w')"
    and "rr_sync_success_count (ev_result vars) = 0" and "ev_node_errors vars = Map.empty"
  shows "rr_users_found (ev_result vars') = rr_users_found (ev_result vars)
    \<and> rr_users_synced (ev_result vars') = rr_users_synced (ev_result vars)
    \<and> rr_nodes_affected (ev_result vars') = rr_nodes_affected (ev_result vars)
    \<and> ev_user_ids vars' = ev_user_ids vars
    \<and> (clean vars' \<longrightarrow> rr_sync_success_count (ev_result vars') = length nodes
         \<and> ev_node_errors vars' = Map.empty)"
  using assms(1)
proof (rule forE_prefix)
  fix dn :: "string list" and x todo vs v vs1 v1
  assume "rr_users_found (ev_result vs) = rr_users_found (ev_result vars)
    \<and> rr_users_synced (ev_result vs) = rr_users_synced (ev_result vars)
    \<and> rr_nodes_affected (ev_result vs) = rr_nodes_affected (ev_result vars)
    \<and> ev_user_ids vs = ev_user_ids vars
    \<and> (clean vs \<longrightarrow> rr_sync_success_count (ev_result vs) = length dn \<and> ev_node_errors vs = Map.empty)"
    and "sync_one r x vs v = (Inr vs1, v1)"
  then show "rr_users_found (ev_result vs1) = rr_users_found (ev_result vars)
    \<and> rr_users_synced (ev_result vs1) = rr_users_synced (ev_result vars)
    \<and> rr_nodes_affected (ev_result vs1) = rr_nodes_affected (ev_result vars)
    \<and> ev_user_ids vs1 = ev_user_ids vars
    \<and> (clean vs1 \<longrightarrow> rr_sync_success_count (ev_result vs1) = length (dn @ [x])
         \<and> ev_node_errors vs1 = Map.empty)"
    by (auto simp: sync_one_def clean_def io_simps bindE_def attemptE_def add_error_def
        split: prod.splits sum.splits)
qed (simp add: assms)

lemma finish_counts:
  assumes "forE (finish_user r) us vars w = (Inr vars', w')"
    and "rr_users_synced (ev_result vars) = 0" and "clean vars \<longrightarrow> ev_node_errors vars = Map.empty"
  shows "rr_users_found (ev_result vars') = rr_users_found (ev_result vars)
    \<and> rr_nodes_affected (ev_result vars') = rr_nodes_affected (ev_result vars)
    \<and> rr_sync_success_count (ev_result vars') = rr_sync_success_count (ev_result vars)
    \<and> (clean vars' \<longrightarrow> clean vars \<and> rr_users_synced (ev_result vars') = length us)"
proof -
  let ?P = "\<lambda>(dn :: string list) vs. rr_users_found (ev_result vs) = rr_users_found (ev_result vars)
    \<and> rr_nodes_affected (ev_result vs) = rr_nodes_affected (ev_result vars)
    \<and> rr_sync_success_count (ev_result vs) = rr_sync_success_count (ev_result vars)
    \<and> ev_node_errors vs = ev_node_errors vars
    \<and> (clean vs \<longrightarrow> clean vars \<and> rr_users_synced (ev_result vs) = length dn)"
  have "?P us vars'"
    using assms(1)
  proof (rule forE_prefix)
    show "?P [] vars" using assms(2) by simp
    fix dn :: "string list" and x todo vs v vs1 v1
    assume prev: "?P dn vs" and step: "finish_user r x vs v = (Inr vs1, v1)"
    from step show "?P (dn @ [x]) vs1"
    proof (cases rule: finish_user_cases)
      case (skipped n)
      with prev assms(3) show ?thesis by auto
    next
      case (marked ans)
      with prev show ?thesis by (auto simp: clean_def add_error_def split: sum.splits)
    qed
  qed
  then show ?thesis by blast
qed

context expiry_interface begin

text \<open>
  A run without an error is complete: every candidate has been marked, every active node of a
  candidate synchronised, and the counters say so.
\<close>

theorem clean_run_complete:
  assumes run: "reconcile r w = (Inr (result, None), w')" and sound: "sound w"
  obtains us w1 current w2 where "UsersPending r w = (Inr us, w1)" and "now_clock r w1 = (Inr current, w2)"
    and "rr_errors result = []"
    and "rr_users_found result = length (filter (\<lambda>u. needsExpirySync u current) us)"
    and "rr_users_synced result = length (filter (\<lambda>u. needsExpirySync u current) us)"
    and "rr_nodes_affected result = card (\<Union>u \<in> set (filter (\<lambda>u. needsExpirySync u current) us). active w (u_id u) - {[]})"
    and "rr_sync_success_count result = rr_nodes_affected result"
    and "\<forall>u \<in> set (filter (\<lambda>u. needsExpirySync u current) us). fresh (stamp w' (u_id u))
      \<and> (\<forall>n \<in> active w (u_id u) - {[]}. told w' n)"
  using run
proof (cases rule: reconcile_phases)
  case (unread err)
  with run show thesis by (simp add: reconcile_def bindE_def attemptE_def io_simps)
next
  case (unclocked us w1 err)
  with run show thesis by (simp add: reconcile_def bindE_def attemptE_def io_simps)
next
  case (phases us w1 current w2 vars1 w3 vars2 vars3 w4 vars4)
  let ?due = "filter (\<lambda>u. needsExpirySync u current) us"
  have plan: "plan_ok valid (active w) (lookup_failed w) vars1" "ev_user_ids vars1 = map u_id ?due"
      "ev_user_ids vars3 = ev_user_ids vars1" "ev_users_to_nodes vars3 = ev_users_to_nodes vars1"
      "\<forall>n \<in> set (ev_unique_nodes vars1). ev_node_errors vars3 n = None \<longrightarrow> told w4 n"
      "rr_errors (ev_result vars1) \<noteq> [] \<longrightarrow> rr_errors (ev_result vars3) \<noteq> []"
      "sound w4" "stamp w4 = stamp w" "\<forall>user \<in> set us. valid (u_id user) \<and> present (stamp w (u_id user))"
    using phases_plan [OF phases(1-3) _ _ _ _ phases(5) sound] phases(4) by simp_all
  note one = collect_counts [OF phases(3)]
  have ids: "length (ev_user_ids vars1) = length ?due" using plan(2) by simp
  have two0: "rr_sync_success_count (ev_result vars2) = 0" "ev_node_errors vars2 = Map.empty"
      "rr_users_synced (ev_result vars2) = 0" "ev_user_ids vars2 = ev_user_ids vars1"
      "rr_users_found (ev_result vars2) = length (ev_user_ids vars1)"
      "rr_nodes_affected (ev_result vars2) = card (set (ev_unique_nodes vars1))"
    using phases(4) one by (simp_all add: length_mapKeys)
  note two = sync_counts [OF phases(5) two0(1,2)]
  have three0: "rr_users_synced (ev_result vars3) = 0" "clean vars3 \<longrightarrow> ev_node_errors vars3 = Map.empty"
    using two two0 by simp_all
  note three = finish_counts [OF phases(6) three0]
  have clean4: "clean vars4" and result: "result = ev_result vars4"
    using phases(7) by (auto simp: clean_def split: if_splits)
  with three have clean3: "clean vars3" by simp
  then have none: "ev_node_errors vars3 = Map.empty" using three0(2) by simp
  have "\<forall>u \<in> set (ev_user_ids vars3). valid u" using plan(1,3) by (simp add: plan_ok_def)
  note finish = finish_loop [OF phases(6) this plan(7)]
  have clean1: "rr_errors (ev_result vars1) = []" using plan(6) clean3 by (auto simp: clean_def)
  have nodes: "ev_users_to_nodes vars1 u \<noteq> None" if "u \<in> set (ev_user_ids vars1)" for u
    using plan(1) clean1 that by (auto simp: plan_ok_def)
  then have sub: "active w u - {[]} \<subseteq> set (ev_unique_nodes vars1)" if "u \<in> set (ev_user_ids vars1)" for u
    using plan(1) that unfolding plan_ok_def by (metis option.exhaust)
  have "n \<in> (\<Union>u \<in> set (ev_user_ids vars1). active w u - {[]})" if "n \<in> set (ev_unique_nodes vars1)" for n
    using plan(1) that unfolding plan_ok_def by blast
  with sub have "set (ev_unique_nodes vars1) = (\<Union>u \<in> set (ev_user_ids vars1). active w u - {[]})" by blast
  then have unique: "set (ev_unique_nodes vars1) = (\<Union>u \<in> set ?due. active w (u_id u) - {[]})"
    unfolding plan(2) by simp
  have fresh: "fresh (stamp w' (u_id u))" if "u \<in> set ?due" for u
  proof -
    have "u_id u \<in> set (ev_user_ids vars3)" using that plan(2,3) by simp
    then show ?thesis using finish clean4 none plan(8,9) that by (auto simp: clean_def)
  qed
  have told: "told w' n" if "u \<in> set ?due" "n \<in> active w (u_id u) - {[]}" for u n
  proof -
    have "n \<in> set (ev_unique_nodes vars1)" using that unique by blast
    with plan(5) none finish show ?thesis by simp
  qed
  show thesis
  proof (rule that [OF phases(1,2)])
    show "rr_errors result = []" using clean4 result by (simp add: clean_def)
    show "rr_users_found result = length ?due" "rr_users_synced result = length ?due"
      using three two two0(5) clean4 plan(3) result ids two0(4) by auto
    show "rr_nodes_affected result = card (\<Union>u \<in> set ?due. active w (u_id u) - {[]})"
      using three two two0(6) unique result by simp
    show "rr_sync_success_count result = rr_nodes_affected result"
      using three two two0(6) clean3 result by (simp add: length_mapKeys)
    show "\<forall>u \<in> set ?due. fresh (stamp w' (u_id u)) \<and> (\<forall>n \<in> active w (u_id u) - {[]}. told w' n)"
      using fresh told by blast
  qed
qed

end

end
