(* ===== verification/Expiry_Panel.thy ===== *)
theory Expiry_Panel
  imports Expiry Panel
begin

text \<open>
  The expiry reconciler on the panel's own repository and node manager, as
  internal/http/server.go puts them together: the interpretation of \<open>expiry_interface\<close>, and the
  properties it gives.
\<close>

definition panel_expiry :: "env \<Rightarrow> world expiry_deps" where
  "panel_expiry e =
     \<lparr>UsersPending = UserRepo_UsersPendingExpiryReconcile e,
      ActiveNodeIDs = UserRepo_ActiveNodeIDsForExpiredUser e,
      MarkSynced = UserRepo_MarkExpirySynced e,
      syncNode = (\<lambda>nodeID. thenE (SyncNode e nodeID) (retE ())),
      now_clock = clock e\<rparr>"

section \<open>What the dependencies need\<close>

text \<open>
  The tables are consistent and hold ids in the server's spelling, which reads back as itself.
\<close>

definition ids_ok :: "env \<Rightarrow> db \<Rightarrow> bool" where
  "ids_ok e d \<longleftrightarrow> db_ok d
     \<and> (\<forall>n \<in> set (t_nodes d). env_parse_uuid e (n_id n) = Some (n_id n))
     \<and> (\<forall>u \<in> set (t_users d). env_parse_uuid e (u_id u) = Some (u_id u))"

definition same_ids :: "db \<Rightarrow> db \<Rightarrow> bool" where
  "same_ids d d' \<longleftrightarrow> n_id ` set (t_nodes d') = n_id ` set (t_nodes d)
     \<and> u_id ` set (t_users d') = u_id ` set (t_users d)"

interpretation ids: preorder_on_tables same_ids
  by unfold_locales (auto simp: same_ids_def)

lemma update_node_same_ids [within_intros]:
  assumes f: "\<And>n. n_id (f n) = n_id n"
  shows "stmt_within same_ids (update_node current key f)"
proof (rule stmt_withinI)
  fix d x d'
  assume "update_node current key f d = Inr (x, d')"
  then show "same_ids d d'"
  proof (cases rule: update_node_cases)
    case (updated old new)
    then have "n_id new = key" using f by simp
    with updated(9) show ?thesis
      using image_replace_key [of n_id new key "t_nodes d"] by (simp add: same_ids_def)
  qed (simp add: same_ids_def)
qed

lemma update_user_same_ids [within_intros]:
  assumes f: "\<And>u. u_id (f u) = u_id u"
  shows "stmt_within same_ids (update_user current key f)"
proof (rule stmt_withinI)
  fix d x d'
  assume "update_user current key f d = Inr (x, d')"
  then show "same_ids d d'"
  proof (cases rule: update_user_cases)
    case (updated old new)
    then have "u_id new = key" using f by simp
    with updated show ?thesis
      using image_replace_key [of u_id new key "t_users d"] by (simp add: same_ids_def)
  qed (simp add: same_ids_def)
qed

lemma insert_event_same_ids [within_intros]: "stmt_within same_ids (insert_event ev)"
  by (rule stmt_withinI) (auto simp: same_ids_def insert_event_def split: if_splits)

lemma calls_same_ids [within_intros]:
  "within (db_rel same_ids) (NodeRepo_Get e key)"
  "within (db_rel same_ids) (NodeRepo_SyncRemoteState e key v a err)"
  "within (db_rel same_ids) (NodeRepo_BumpVersion e key)"
  "within (db_rel same_ids) (NodeRepo_MarkStatus e key s et)"
  "within (db_rel same_ids) (NodeRepo_MarkSyncSuccess e key v)"
  "within (db_rel same_ids) (NodeRepo_MarkSyncFailure e key s m)"
  "within (db_rel same_ids) (NodeRepo_InsertSyncEvent e key v s h rq rs et)"
  "within (db_rel same_ids) (Agent_StatusInfo e node)"
  "within (db_rel same_ids) (Agent_Sync e node payload)"
  "within (db_rel same_ids) (UserRepo_ActiveAccessForNode e key)"
  "within (db_rel same_ids) (UserRepo_MarkExpirySynced e uid)"
  unfolding NodeRepo_defs Agent_StatusInfo_def Agent_Status_def Agent_Sync_def agent_do_def
    UserRepo_ActiveAccessForNode_def UserRepo_MarkExpirySynced_def Let_def
  by ((rule ids.effect_rules update_node_same_ids update_user_same_ids insert_event_same_ids
        repo_stmt_intros ids.D_refl | simp)+)

section \<open>SyncNode and the three relations\<close>

context preorder_on_tables begin

lemma SyncNode_within:
  assumes "\<And>k v s h rq rs et. within (db_rel D) (NodeRepo_InsertSyncEvent e k v s h rq rs et)"
    and "\<And>k s m. within (db_rel D) (NodeRepo_MarkSyncFailure e k s m)"
    and "\<And>k v. within (db_rel D) (NodeRepo_MarkSyncSuccess e k v)"
    and "\<And>k v a m. within (db_rel D) (NodeRepo_SyncRemoteState e k v a m)"
    and "\<And>k. within (db_rel D) (NodeRepo_BumpVersion e k)"
    and "\<And>k. within (db_rel D) (NodeRepo_Get e k)"
    and "\<And>n p. within (db_rel D) (Agent_Sync e n p)"
    and "\<And>k s m. within (db_rel D) (NodeRepo_MarkStatus e k s m)"
    and "\<And>n. within (db_rel D) (Agent_StatusInfo e n)"
    and "\<And>k. within (db_rel D) (UserRepo_ActiveAccessForNode e k)"
  shows "within (db_rel D) (SyncNode e key)"
proof -
  have off: "within (db_rel D) (syncNodeAttempt e n us v False)" for n us v
    by (simp, rule attempt_body_within) (auto intro: assms)
  have on: "within (db_rel D) (syncNodeAttempt e n us v True)" for n us v
    by (simp, rule attempt_body_within) (use off in \<open>auto intro: assms\<close>)
  show ?thesis
    unfolding SyncNode_def fetchAndReconcileStatus_def recordStatus_def
    by ((rule assms on | rule effect_rules)+)
qed

end

lemma SyncNode_frames:
  "within (db_rel same_ids) (SyncNode e key)"
  "within (db_rel people_same) (SyncNode e key)"
  "within (db_rel events_grow) (SyncNode e key)"
  by (rule ids.SyncNode_within people.SyncNode_within events.SyncNode_within; rule within_intros)+

section \<open>The contract is met\<close>

definition panel_stamp :: "world \<Rightarrow> string \<Rightarrow> time option option" where
  "panel_stamp w uid = map_option u_expiry_synced_at (user_row (w_db w) uid)"

text \<open>Node \<open>k\<close> has confirmed a synchronisation in an event after the first \<open>n0\<close>.\<close>

definition told_since :: "nat \<Rightarrow> world \<Rightarrow> string \<Rightarrow> bool" where
  "told_since n0 w k \<longleftrightarrow>
     list_ex (\<lambda>ev. ev_node_id ev = k \<and> ev_status ev = ''ok'') (drop n0 (t_events (w_db w)))"

definition panel_sound :: "env \<Rightarrow> nat \<Rightarrow> world \<Rightarrow> bool" where
  "panel_sound e n0 w \<longleftrightarrow> ids_ok e (w_db w) \<and> n0 \<le> length (t_events (w_db w))"

lemma told_since_grow:
  "events_grow (w_db w) (w_db w') \<Longrightarrow> told_since n0 w k \<Longrightarrow> told_since n0 w' k"
  by (auto simp: events_grow_def told_since_def list_ex_iff)

lemma ids_ok_kept:
  assumes "ids_ok e d" and "keeps_integrity d d'" and "same_ids d d'"
  shows "ids_ok e d'"
proof -
  have "env_parse_uuid e k = Some k" if "k \<in> n_id ` set (t_nodes d') \<or> k \<in> u_id ` set (t_users d')" for k
    using that assms(1,3) by (auto simp: same_ids_def ids_ok_def)
  with assms(1,2) show ?thesis by (auto simp: ids_ok_def keeps_integrity_def)
qed

lemma panel_frame:
  assumes "within (db_rel keeps_integrity) m" and "within (db_rel same_ids) m"
    and "within (db_rel people_same) m" and "within (db_rel events_grow) m"
  shows "within (expiry_frame (panel_sound e n0) panel_stamp (told_since n0)) m"
proof (rule withinI)
  fix w
  let ?w = "snd (m w)"
  have rel: "keeps_integrity (w_db w) (w_db ?w)" "same_ids (w_db w) (w_db ?w)"
      "people_same (w_db w) (w_db ?w)" "events_grow (w_db w) (w_db ?w)"
    using within_snd [OF assms(1)] within_snd [OF assms(2)] within_snd [OF assms(3)]
      within_snd [OF assms(4)] by (simp_all add: db_rel_def)
  have "panel_stamp ?w = panel_stamp w"
    using rel(3) by (auto simp: panel_stamp_def user_row_def people_same_def fun_eq_iff)
  moreover have "length (t_events (w_db w)) \<le> length (t_events (w_db ?w))"
    using rel(4) by (auto simp: events_grow_def)
  ultimately show "expiry_frame (panel_sound e n0) panel_stamp (told_since n0) w ?w"
    using rel told_since_grow [OF rel(4)]
    by (auto simp: expiry_frame_def panel_sound_def intro: ids_ok_kept)
qed

lemma reads_frame:
  assumes "within (db_rel tables_same) m"
  shows "within (expiry_frame (panel_sound e n0) panel_stamp (told_since n0)) m"
  using assms
  by (auto simp: within_def db_rel_def tables_same_def expiry_frame_def panel_sound_def panel_stamp_def
      told_since_def fun_eq_iff)

lemma update_user_row:
  assumes step: "update_user current key f d = Inr (x, d')" and f: "\<And>u. u_id (f u) = u_id u"
  shows "user_row d' = (\<lambda>j. if j = key
      then map_option (\<lambda>u. (f u)\<lparr>u_updated_at := current\<rparr>) (user_row d key) else user_row d j)
    \<and> t_events d' = t_events d"
  using step
proof (cases rule: update_user_cases)
  case absent
  then show ?thesis by (auto simp: user_row_def)
next
  case (updated old new)
  then have "u_id new = key" using f by simp
  then have "user_row d' j = (if j = key then Some new else user_row d j)" for j
    using updated find_replace [of u_id new key j] by (auto simp: user_row_def)
  moreover have "t_events d' = t_events d" using updated by simp
  ultimately show ?thesis using updated by (auto simp: user_row_def fun_eq_iff)
qed

lemma MarkExpirySynced_only:
  assumes run: "UserRepo_MarkExpirySynced e u w = (ans, w')" and u: "env_parse_uuid e u = Some u"
    and sound: "panel_sound e n0 w"
  shows "panel_sound e n0 w' \<and> (\<forall>v. v \<noteq> u \<longrightarrow> panel_stamp w' v = panel_stamp w v)
    \<and> (\<forall>n. told_since n0 w n \<longrightarrow> told_since n0 w' n)
    \<and> (panel_stamp w u \<noteq> None \<longrightarrow> panel_stamp w' u \<noteq> None)"
proof -
  have "keeps_integrity (w_db w) (w_db w')" "same_ids (w_db w) (w_db w')"
    using withinD [OF UserRepo_write_integrity(9) run] withinD [OF calls_same_ids(11) run]
    by (simp_all add: db_rel_def)
  moreover have "(\<forall>v. v \<noteq> u \<longrightarrow> user_row (w_db w') v = user_row (w_db w) v) \<and> t_events (w_db w') = t_events (w_db w)
      \<and> (user_row (w_db w) u \<noteq> None \<longrightarrow> user_row (w_db w') u \<noteq> None)"
    using run [unfolded UserRepo_MarkExpirySynced_def]
  proof (cases rule: exec_cases)
    case (run x d)
    from run(1) u obtain y where "update_user (env_db_now e (w_tick w)) u
        (\<lambda>u. u\<lparr>u_expiry_synced_at := Some (env_db_now e (w_tick w))\<rparr>) (w_db w) = Inr (y, d)"
      by (auto simp: uuid_arg_def no_result_def split: sum.splits)
    from update_user_row [OF this] run(2) show ?thesis by simp
  qed simp
  ultimately show ?thesis
    using sound by (auto simp: panel_sound_def panel_stamp_def told_since_def intro: ids_ok_kept)
qed

text \<open>The nodes to be told: the enabled assignments of the user to nodes with an address.\<close>

definition active_node_ids :: "string \<Rightarrow> db \<Rightarrow> string set" where
  "active_node_ids uid d =
     {n_id n | a n. a \<in> set (t_access d) \<and> n \<in> set (t_nodes d) \<and> n_id n = a_node_id a
        \<and> a_user_id a = uid \<and> a_enabled a \<and> n_api_url n \<noteq> []}"

definition panel_active :: "env \<Rightarrow> world \<Rightarrow> string \<Rightarrow> string set" where
  "panel_active e w u =
     (case env_parse_uuid e u of None \<Rightarrow> {} | Some uid \<Rightarrow> active_node_ids uid (w_db w))"

lemma set_activeNodeIDs: "set (activeNodeIDsForExpiredUserQuery uid d) = active_node_ids uid d"
  unfolding activeNodeIDsForExpiredUserQuery_def set_sort_by set_remdups if_nested set_join
    active_node_ids_def by auto

lemma active_node_ids_nodes: "active_node_ids uid d \<subseteq> n_id ` set (t_nodes d)"
  unfolding active_node_ids_def by blast

lemma lookup_result:
  assumes "UserRepo_ActiveNodeIDsForExpiredUser e u w = (ans, w')"
  shows "w_db w' = w_db w" and "ans = Inr ns \<Longrightarrow> set ns = panel_active e w u"
proof -
  have "within (db_rel tables_same) (UserRepo_ActiveNodeIDsForExpiredUser e u)"
    unfolding UserRepo_ActiveNodeIDsForExpiredUser_def by (rule same.effect_rules within_intros)+
  from withinD [OF this assms] show "w_db w' = w_db w" by (simp add: db_rel_def tables_same_def)
  show "set ns = panel_active e w u" if "ans = Inr ns"
    using assms that
    by (auto simp: UserRepo_ActiveNodeIDsForExpiredUser_def uuid_arg_def reading_def panel_active_def
        set_activeNodeIDs elim!: exec_Inr split: option.splits)
qed

lemma panel_active_db: "w_db w' = w_db w \<Longrightarrow> panel_active e w' = panel_active e w"
  by (rule ext) (simp add: panel_active_def split: option.split)

lemma read_db: "within (db_rel tables_same) m \<Longrightarrow> m w = (r, w') \<Longrightarrow> w_db w' = w_db w"
  by (drule (1) withinD) (simp add: db_rel_def tables_same_def)

lemma pending_reads: "within (db_rel tables_same) (UserRepo_UsersPendingExpiryReconcile e)"
  unfolding UserRepo_UsersPendingExpiryReconcile_def by (rule same.effect_rules)

text \<open>What the run reads: the tables stay, and the clock of the interactions goes on.\<close>

definition panel_reads :: "world \<Rightarrow> world \<Rightarrow> bool" where
  "panel_reads w w' \<longleftrightarrow> w_db w' = w_db w \<and> w_tick w \<le> w_tick w'"

lemma panel_reads_preorder: "preorder_on_states panel_reads"
  by unfold_locales (auto simp: panel_reads_def)

lemma exec_tick: "w_tick (snd (exec e stmt w)) = Suc (w_tick w)"
  by (auto simp: exec_def Let_def split: option.splits fault.splits sum.splits prod.splits)

lemma query_reads: "panel_reads w (snd (query e q w))"
  by (cases "query e q w") (auto simp: panel_reads_def dest: query_frame)

text \<open>A time stamp of the database server.\<close>

definition stamped :: "env \<Rightarrow> time option option \<Rightarrow> bool" where
  "stamped e m \<longleftrightarrow> (\<exists>t. m = Some (Some (env_db_now e t)))"

lemma MarkExpirySynced_stamps:
  assumes run: "UserRepo_MarkExpirySynced e u w = (Inr y, w')" and u: "env_parse_uuid e u = Some u"
    and there: "panel_stamp w u \<noteq> None"
  shows "stamped e (panel_stamp w' u)"
proof -
  obtain d where d: "uuid_arg e u (\<lambda>k. no_result (update_user (env_db_now e (w_tick w)) k
      (\<lambda>u. u\<lparr>u_expiry_synced_at := Some (env_db_now e (w_tick w))\<rparr>))) (w_db w) = Inr (y, d)"
    and w': "w_db w' = d"
    using run unfolding UserRepo_MarkExpirySynced_def by (rule exec_Inr) simp
  from d u obtain x where "update_user (env_db_now e (w_tick w)) u
      (\<lambda>u. u\<lparr>u_expiry_synced_at := Some (env_db_now e (w_tick w))\<rparr>) (w_db w) = Inr (x, d)"
    by (auto simp: uuid_arg_def no_result_def split: sum.splits)
  from update_user_row [OF this] w' there show ?thesis by (auto simp: panel_stamp_def stamped_def)
qed

lemma panel_expiry_interface:
  "expiry_interface (panel_expiry e) (panel_sound e n0) (\<lambda>k. env_parse_uuid e k = Some k)
    panel_stamp (told_since n0) (panel_active e) panel_reads (\<lambda>m. m \<noteq> None) (stamped e)"
proof (rule expiry_interface.intro, goal_cases)
  case 1
  show ?case using pending_reads by (simp add: panel_expiry_def reads_frame)
next
  case (2 u)
  have "within (db_rel tables_same) (UserRepo_ActiveNodeIDsForExpiredUser e u)"
    by (auto simp: within_def db_rel_def tables_same_def intro: lookup_result(1) prod.collapse [symmetric])
  then show ?case by (simp add: panel_expiry_def reads_frame)
next
  case (3 n)
  have "within (expiry_frame (panel_sound e n0) panel_stamp (told_since n0)) (SyncNode e n)"
    by (rule panel_frame SyncNode_frames manager_integrity)+
  then have "within (expiry_frame (panel_sound e n0) panel_stamp (told_since n0))
      (thenE (SyncNode e n) (retE ()))"
    by (rule preorder_on_states.then_ [OF expiry_frame_preorder])
      (rule preorder_on_states.pure [OF expiry_frame_preorder])
  then show ?case by (simp add: panel_expiry_def)
next
  case 4
  have "within (db_rel tables_same) (clock e)" by (rule same.effect_rules)
  then show ?case by (simp add: panel_expiry_def reads_frame)
next
  case 5
  show ?case by (rule panel_reads_preorder)
next
  case 6
  show ?case
    by (simp add: within_def panel_expiry_def UserRepo_UsersPendingExpiryReconcile_def query_reads)
next
  case (7 u)
  have "panel_reads w (snd (UserRepo_ActiveNodeIDsForExpiredUser e u w))" for w
    using lookup_result(1) [of e u w] by (auto simp: panel_reads_def UserRepo_ActiveNodeIDsForExpiredUser_def
        exec_tick intro: prod.collapse [symmetric])
  then show ?case by (simp add: within_def panel_expiry_def)
next
  case 8
  show ?case by (simp add: within_def panel_expiry_def clock_def panel_reads_def)
next
  case (9 w w')
  then have "w_db w' = w_db w" by (simp add: panel_reads_def)
  from panel_active_db [OF this] show ?case .
next
  case (10 w us w' user)
  then have user: "user \<in> set (t_users (w_db w))"
    by (auto simp: panel_expiry_def UserRepo_UsersPendingExpiryReconcile_def dest!: query_Inr(1))
  then have "user_row (w_db w) (u_id user) \<noteq> None" by (auto simp: user_row_def find_None_iff)
  with user 10(1) show ?case by (auto simp: panel_sound_def ids_ok_def panel_stamp_def)
next
  case (11 w n u)
  then have "n \<in> n_id ` set (t_nodes (w_db w))"
    using active_node_ids_nodes by (auto simp: panel_active_def split: option.splits)
  with 11(1) show ?case by (auto simp: panel_sound_def ids_ok_def)
next
  case (12 w u ns w')
  then show ?case by (simp add: panel_expiry_def lookup_result(2))
next
  case (13 w n x w')
  then obtain resp where run: "SyncNode e n w = (Inr resp, w')"
    by (auto simp: panel_expiry_def thenE_def bindE_Inr_iff io_simps)
  have "sync_recorded n resp (w_db w) (w_db w')"
    using SyncNode_success [OF run 13(2,2)] 13(1) by (simp add: panel_sound_def ids_ok_def)
  then obtain past ev where "t_events (w_db w') = t_events (w_db w) @ past @ [ev]"
      "ev_node_id ev = n" "ev_status ev = ''ok''" unfolding sync_recorded_def by blast
  moreover have "n0 \<le> length (t_events (w_db w))" using 13(1) by (simp add: panel_sound_def)
  ultimately show ?case unfolding told_since_def by simp
next
  case (14 w u ans w')
  then show ?case using MarkExpirySynced_only by (simp add: panel_expiry_def)
next
  case (15 w u y w')
  then show ?case using MarkExpirySynced_stamps by (simp add: panel_expiry_def)
qed

interpretation panel: expiry_interface "panel_expiry e" "panel_sound e n0"
    "\<lambda>k. env_parse_uuid e k = Some k" panel_stamp "told_since n0" "panel_active e" panel_reads
    "\<lambda>m. m \<noteq> None" "stamped e" for e n0
  by (rule panel_expiry_interface)

section \<open>Properties\<close>

lemma RunOnce_reconcile:
  "\<not> running s \<Longrightarrow> RunOnce r s = (ans, s') \<Longrightarrow> reconcile r (rest_state s) = (ans, rest_state s')"
  by (auto simp: RunOnce_def tryAcquire_def release_def split: prod.splits)


definition sample_reconciler :: "world reconciler" where
  "sample_reconciler = \<lparr>running = False, rest_state = sample_world\<rparr>"

lemma sample_ids_ok: "ids_ok sample_env sample_db"
  by (simp add: ids_ok_def sample_db_ok)


text \<open>
  C33: a failed lookup of a user's nodes is taken for having none.  If looking up the nodes of a
  candidate fails, the run notes the error and then still marks the user's expiry as synced,
  although no node was synchronised: the user is not retried, and its nodes keep serving it.
  This holds for any implementation of the repository interface.
\<close>

theorem reconcile_marks_after_failed_lookup:
  assumes "UsersPending r w = (Inr [user], w1)" and "now_clock r w1 = (Inr current, w2)"
    and "needsExpirySync user current"
    and "ActiveNodeIDs r (u_id user) w2 = (Inl err, w3)"
    and "MarkSynced r (u_id user) w3 = (Inr (), w4)"
  shows "reconcile r w =
    (Inr (\<lparr>rr_users_found = 1, rr_nodes_affected = 0, rr_sync_success_count = 0, rr_users_synced = 1,
           rr_errors = [u_username user @ '': '' @ error_text err]\<rparr>,
          Some (Errorf ''expiry reconcile completed with errors'')), w4)"
  using assms
  by (simp add: reconcile_def bindE_def attemptE_def collect_user_def retE_def Let_def add_error_def
      start_vars_def zero_result_def mapKeys_def finish_user_def nodes_of_candidate_def mark_user_def)

lemma reconcile_marks_after_failed_lookup_witness:
  "panel_stamp (snd (reconcile (panel_expiry lookup_fault_env) sample_world)) ''u2'' = Some (Some 100)
   \<and> \<not> told_since 0 (snd (reconcile (panel_expiry lookup_fault_env) sample_world)) ''n1''"
proof -
  let ?w1 = "sample_world\<lparr>w_tick := 1\<rparr>" and ?w2 = "sample_world\<lparr>w_tick := 2\<rparr>"
    and ?w3 = "sample_world\<lparr>w_tick := 3\<rparr>"
  let ?r = "panel_expiry lookup_fault_env"
  have "UsersPending ?r sample_world = (Inr [sample_expired], ?w1)" by code_simp
  moreover have "now_clock ?r ?w1 = (Inr 100, ?w2)" by code_simp
  moreover have "needsExpirySync sample_expired 100" by code_simp
  moreover have "ActiveNodeIDs ?r (u_id sample_expired) ?w2 = (Inl (Errorf ''connection reset''), ?w3)"
    by code_simp
  moreover have "MarkSynced ?r (u_id sample_expired) ?w3 =
      (Inr (), snd (MarkSynced ?r (u_id sample_expired) ?w3))"
    by (rule prod_eqI) (code_simp, simp)
  ultimately have "reconcile ?r sample_world = (Inr (\<lparr>rr_users_found = 1, rr_nodes_affected = 0,
      rr_sync_success_count = 0, rr_users_synced = 1,
      rr_errors = [u_username sample_expired @ '': '' @ error_text (Errorf ''connection reset'')]\<rparr>,
      Some (Errorf ''expiry reconcile completed with errors'')), snd (MarkSynced ?r (u_id sample_expired) ?w3))"
    by (rule reconcile_marks_after_failed_lookup)
  then have "snd (reconcile ?r sample_world) = snd (MarkSynced ?r (u_id sample_expired) ?w3)" by simp
  moreover have "panel_stamp (snd (MarkSynced ?r (u_id sample_expired) ?w3)) ''u2'' = Some (Some 100)
      \<and> \<not> told_since 0 (snd (MarkSynced ?r (u_id sample_expired) ?w3)) ''n1''" by code_simp
  ultimately show ?thesis by simp
qed

section \<open>A run without errors\<close>

text \<open>
  Whose expiry is due for both clocks a run reads: the database server's, in the query, and the
  panel's, in the loop.
\<close>

definition expiry_due :: "time \<Rightarrow> User \<Rightarrow> bool" where
  "expiry_due t u \<longleftrightarrow>
     u_enabled u \<and> (\<exists>x. u_expires_at u = Some x \<and> x \<le> t
       \<and> (u_expiry_synced_at u = None \<or> (\<exists>s. u_expiry_synced_at u = Some s \<and> s < x)))"

definition due_users :: "env \<Rightarrow> world \<Rightarrow> User list" where
  "due_users e w =
     filter (expiry_due (min (env_db_now e (w_tick w)) (env_now e (Suc (w_tick w))))) (t_users (w_db w))"

lemma length_filter_sort_by: "length (filter P (sort_by lt xs)) = length (filter P xs)"
proof -
  have "length (filter P (insert_by lt x xs)) = length (filter P (x # xs))" for x xs
    by (induction xs) auto
  then show ?thesis by (induction xs) auto
qed

text \<open>
  C15: a run without errors is complete.  If \<^verbatim>\<open>RunOnce\<close> on consistent tables reports no error, then every
  user whose expiry was due has been marked with a time of the database server, and every node with an
  address to which such a user has an enabled assignment has confirmed a synchronisation in an event added by this
  run.  The counters are exact: the users found and synced are those that were due, the nodes
  affected and synchronised are theirs, each counted once.
\<close>

theorem RunOnce_without_error_is_complete:
  assumes run: "RunOnce (panel_expiry e) s = (Inr (result, None), s')"
    and ids: "ids_ok e (w_db (rest_state s))"
  shows "list_all (\<lambda>u. stamped e (panel_stamp (rest_state s') (u_id u))
        \<and> (\<forall>n \<in> panel_active e (rest_state s) (u_id u) - {[]}.
             told_since (length (t_events (w_db (rest_state s)))) (rest_state s') n)) (due_users e (rest_state s))
    \<and> rr_users_found result = length (due_users e (rest_state s))
    \<and> rr_users_synced result = length (due_users e (rest_state s))
    \<and> rr_nodes_affected result =
        card (\<Union>u \<in> set (due_users e (rest_state s)). panel_active e (rest_state s) (u_id u) - {[]})
    \<and> rr_sync_success_count result = rr_nodes_affected result \<and> rr_errors result = []"
proof -
  let ?w = "rest_state s" and ?n0 = "length (t_events (w_db (rest_state s)))"
  have "\<not> running s" using run by (auto simp: RunOnce_def tryAcquire_def)
  then have "reconcile (panel_expiry e) ?w = (Inr (result, None), rest_state s')"
    using run by (rule RunOnce_reconcile)
  moreover have "panel_sound e ?n0 ?w" using ids by (simp add: panel_sound_def)
  ultimately show ?thesis
  proof (rule panel.clean_run_complete)
    fix us w1 current w2
    assume pending: "UsersPending (panel_expiry e) ?w = (Inr us, w1)"
      and clk: "now_clock (panel_expiry e) w1 = (Inr current, w2)"
    let ?due = "filter (\<lambda>u. needsExpirySync u current) us"
    assume facts: "rr_errors result = []" "rr_users_found result = length ?due" "rr_users_synced result = length ?due"
        "rr_nodes_affected result = card (\<Union>u \<in> set ?due. panel_active e ?w (u_id u) - {[]})"
        "rr_sync_success_count result = rr_nodes_affected result"
        "\<forall>u \<in> set ?due. stamped e (panel_stamp (rest_state s') (u_id u))
          \<and> (\<forall>n \<in> panel_active e ?w (u_id u) - {[]}. told_since ?n0 (rest_state s') n)"
    have us: "us = sort_by expires_first (filter (pending_expiry (env_db_now e (w_tick ?w))) (t_users (w_db ?w)))"
      and w1: "w1 = ?w\<lparr>w_tick := Suc (w_tick ?w)\<rparr>"
      using query_Inr [OF pending [unfolded panel_expiry_def UserRepo_UsersPendingExpiryReconcile_def, simplified]]
      by simp_all
    have current: "current = env_now e (Suc (w_tick ?w))" using clk w1 by (simp add: panel_expiry_def clock_def)
    have both: "pending_expiry a u \<and> needsExpirySync u b \<longleftrightarrow> expiry_due (min a b) u" for a b u
      by (auto simp: pending_expiry_def needsExpirySync_def expiry_due_def split: option.splits)
    have "set ?due = set (due_users e ?w)"
      using both [of "env_db_now e (w_tick ?w)" _ current] by (auto simp: us current due_users_def)
    moreover have "length ?due = length (due_users e ?w)"
      using both [of "env_db_now e (w_tick ?w)" _ current]
      by (simp add: us current due_users_def length_filter_sort_by conj_commute)
    ultimately show ?thesis using facts by (simp add: list_all_iff)
  qed
qed

lemma RunOnce_without_error_is_complete_witness:
  "stamped sample_env (panel_stamp (rest_state (snd (RunOnce (panel_expiry sample_env) sample_reconciler))) ''u2'')
   \<and> due_users sample_env sample_world = [sample_expired]"
proof -
  let ?run = "RunOnce (panel_expiry sample_env) sample_reconciler"
  let ?result = "\<lparr>rr_users_found = 1, rr_nodes_affected = 1, rr_sync_success_count = 1,
      rr_users_synced = 1, rr_errors = []\<rparr>"
  have "fst ?run = Inr (?result, None)" by code_simp
  then have run: "?run = (Inr (?result, None), snd ?run)" by (metis prod.collapse)
  have ids: "ids_ok sample_env (w_db (rest_state sample_reconciler))"
    by (simp add: sample_reconciler_def sample_ids_ok)
  have due: "due_users sample_env sample_world = [sample_expired]"
    by (simp add: due_users_def expiry_due_def sample_defs)
  have "u_id sample_expired = ''u2''" by (simp add: sample_expired_def)
  with RunOnce_without_error_is_complete [OF run ids] due show ?thesis
    by (simp add: sample_reconciler_def)
qed

section \<open>One run at a time\<close>

text \<open>
  The loop and the API call \<^verbatim>\<open>RunOnce\<close> from several goroutines.  A configuration is the set of
  callers inside \<^verbatim>\<open>reconcile\<close> and the guard; the atomic compare-and-swap and the store are the
  steps, in any order.
\<close>

inductive guard_step :: "nat set \<times> 'w reconciler \<Rightarrow> nat set \<times> 'w reconciler \<Rightarrow> bool" where
  enter: "c \<notin> A \<Longrightarrow> tryAcquire s = (True, s') \<Longrightarrow> guard_step (A, s) (insert c A, s')"
| refused: "tryAcquire s = (False, s') \<Longrightarrow> guard_step (A, s) (A, s')"
| works: "c \<in> A \<Longrightarrow> guard_step (A, s) (A, s\<lparr>rest_state := w\<rparr>)"
| leave: "c \<in> A \<Longrightarrow> guard_step (A, s) (A - {c}, release s)"

inductive_simps guard_step_simps: "guard_step (A, s) (B, t)"

definition guard_ok :: "nat set \<times> 'w reconciler \<Rightarrow> bool" where
  "guard_ok p \<longleftrightarrow> running (snd p) = (fst p \<noteq> {}) \<and> card (fst p) \<le> 1 \<and> finite (fst p)"

lemma guard_ok_step:
  assumes "guard_step p q" and "guard_ok p"
  shows "guard_ok q"
  using assms
proof (induction rule: guard_step.induct)
  case (enter c A s s')
  then have "A = {}" "s' = s\<lparr>running := True\<rparr>" by (simp_all add: tryAcquire_def guard_ok_def split: if_split_asm)
  then show ?case by (simp add: guard_ok_def)
next
  case (refused s s' A)
  then have "s' = s" by (simp add: tryAcquire_def split: if_split_asm)
  with refused show ?case by (simp add: guard_ok_def)
next
  case (works c A s w)
  then show ?case by (simp add: guard_ok_def)
next
  case (leave c A s)
  then have "card A = 1" by (simp add: guard_ok_def) (metis card_eq_0_iff empty_iff le_Suc_eq le_zero_eq)
  with leave(1) have "A = {c}" by (auto simp: card_1_singleton_iff)
  then show ?case by (simp add: guard_ok_def release_def)
qed

text \<open>
  \<^verbatim>\<open>RunOnce\<close> is made of these steps, whoever else is inside: a refusal, or an entry, the work and
  the release.
\<close>

lemma RunOnce_guard_steps:
  assumes "c \<notin> A" and "RunOnce r s = (ans, s')"
  shows "guard_step\<^sup>*\<^sup>* (A, s) (A, s')"
proof (cases "tryAcquire s")
  case (Pair got s1)
  show ?thesis
  proof (cases got)
    case False
    with Pair assms(2) have "s' = s1" by (auto simp: RunOnce_def)
    with guard_step.refused [of s s1 A] Pair False show ?thesis by auto
  next
    case True
    obtain w where s': "s' = release (s1\<lparr>rest_state := w\<rparr>)"
      using Pair True assms(2) by (auto simp: RunOnce_def split: prod.splits)
    have "guard_step (A, s) (insert c A, s1)" by (rule guard_step.enter) (use assms(1) Pair True in auto)
    moreover have "guard_step (insert c A, s1) (insert c A, s1\<lparr>rest_state := w\<rparr>)" by (rule guard_step.works [of c]) simp
    moreover have "guard_step (insert c A, s1\<lparr>rest_state := w\<rparr>) (A, s')"
      using guard_step.leave [of c "insert c A" "s1\<lparr>rest_state := w\<rparr>"] assms(1) s' by simp
    ultimately show ?thesis by (meson converse_rtranclp_into_rtranclp rtranclp.rtrancl_refl)
  qed
qed

text \<open>
  C34: mutual exclusion of the reconciler.  However many goroutines call it, and in whatever order
  their steps interleave, at most one is inside \<^verbatim>\<open>reconcile\<close>, and the guard is set exactly
  while one is; so a caller that is refused can rely on a run being under way.
\<close>

theorem reconciler_mutual_exclusion:
  assumes "guard_step\<^sup>*\<^sup>* ({}, s0) (A, s)" and "\<not> running s0"
  shows "card A \<le> 1 \<and> (running s \<longleftrightarrow> A \<noteq> {})"
proof -
  have "guard_ok (A, s)"
    using assms(1)
  proof (induction rule: rtranclp_induct)
    case base
    then show ?case using assms(2) by (simp add: guard_ok_def)
  next
    case (step p q)
    then show ?case using guard_ok_step by blast
  qed
  then show ?thesis by (simp add: guard_ok_def)
qed

lemma reconciler_mutual_exclusion_witness:
  "card {5 :: nat} \<le> 1 \<and> running (sample_reconciler\<lparr>running := True\<rparr>)"
proof -
  have "guard_step ({}, sample_reconciler) (insert 5 {}, sample_reconciler\<lparr>running := True\<rparr>)"
    by (rule guard_step.enter) (simp_all add: tryAcquire_def sample_reconciler_def)
  from reconciler_mutual_exclusion [OF r_into_rtranclp [of guard_step, OF this]] show ?thesis
    by (simp add: sample_reconciler_def)
qed

text \<open>
  The check in Go and the condition of the SQL query agree.  \<^verbatim>\<open>needsExpirySync\<close> at a
  reading of the clock holds of exactly the users that \<^verbatim>\<open>UsersPendingExpiryReconcile\<close> selects at
  the same reading, so the second check drops a user only when the two clocks differ.
\<close>

theorem needsExpirySync_is_the_query:
  "filter (\<lambda>u. needsExpirySync u current) (t_users d) = filter (pending_expiry current) (t_users d)"
proof -
  have "needsExpirySync u current = pending_expiry current u" for u
    by (auto simp: needsExpirySync_def pending_expiry_def split: option.splits)
  then show ?thesis by simp
qed

end
