(* ===== verification/Go_Json.thy ===== *)
theory Go_Json
  imports Go_Encoding
begin

text \<open>
  The output side of Go's \<^verbatim>\<open>encoding/json\<close>: the values the panel encodes, the escaping of
  strings with HTML escaping on, as \<^verbatim>\<open>json.Marshal\<close> and \<^verbatim>\<open>json.Encoder\<close> have it, and
  the layout of \<^verbatim>\<open>json.MarshalIndent(v, "", "  ")\<close>.  A struct is an object whose fields stand
  in the order of their declaration, a map an object whose keys are sorted.
\<close>

section \<open>Values\<close>

datatype Json =
    JNull
  | JBool bool
  | JInt int
  | JNumber string
  | JString string
  | JArray "Json list"
  | JObject "(string \<times> Json) list"

section \<open>Strings\<close>

definition json_rune :: "nat \<Rightarrow> string" where
  "json_rune r =
     (if r = 34 \<or> r = 92 then [CHR 0x5C, char_of r]
      else if r = 8 then [CHR 0x5C, CHR ''b''] else if r = 12 then [CHR 0x5C, CHR ''f'']
      else if r = 10 then [CHR 0x5C, CHR ''n''] else if r = 13 then [CHR 0x5C, CHR ''r'']
      else if r = 9 then [CHR 0x5C, CHR ''t'']
      else if r < 32 \<or> r = 38 \<or> r = 60 \<or> r = 62 then
        [CHR 0x5C, CHR ''u'', CHR ''0'', CHR ''0'', hex_digit (r div 16), hex_digit r]
      else if r = 8232 \<or> r = 8233 then
        [CHR 0x5C, CHR ''u'', CHR ''2'', CHR ''0'', CHR ''2'', hex_digit r]
      else encode_rune r)"

text \<open>Invalid UTF-8 comes out as the escape of the error rune, byte by byte.\<close>

function json_body :: "string \<Rightarrow> string" where
  "json_body [] = []"
| "json_body (c # s) =
     (case decode_rune (c # s) of (r, k) \<Rightarrow>
        (if k = 1 \<and> 128 \<le> byte c then [CHR 0x5C] @ ''ufffd'' else json_rune r)
        @ json_body (drop (k - 1) s))"
  by pat_completeness auto
termination
  by (relation "measure length") auto

definition json_string :: "string \<Rightarrow> string" where
  "json_string s = [CHR 0x22] @ json_body s @ [CHR 0x22]"

section \<open>Documents\<close>

fun marshal :: "Json \<Rightarrow> string" where
  "marshal JNull = ''null''"
| "marshal (JBool b) = (if b then ''true'' else ''false'')"
| "marshal (JInt n) = Itoa n"
| "marshal (JNumber s) = s"
| "marshal (JString s) = json_string s"
| "marshal (JArray xs) = ''['' @ Join (map marshal xs) '','' @ '']''"
| "marshal (JObject kvs) =
     ''{'' @ Join (map (\<lambda>(k, v). json_string k @ '':'' @ marshal v) kvs) '','' @ ''}''"

definition newline_indent :: "nat \<Rightarrow> string" where
  "newline_indent depth = CHR 0x0A # replicate (2 * depth) CHR '' ''"

fun marshal_indent :: "nat \<Rightarrow> Json \<Rightarrow> string" where
  "marshal_indent d JNull = ''null''"
| "marshal_indent d (JBool b) = (if b then ''true'' else ''false'')"
| "marshal_indent d (JInt n) = Itoa n"
| "marshal_indent d (JNumber s) = s"
| "marshal_indent d (JString s) = json_string s"
| "marshal_indent d (JArray xs) =
     (if xs = [] then ''[]''
      else ''['' @ newline_indent (Suc d)
             @ Join (map (marshal_indent (Suc d)) xs) ('','' @ newline_indent (Suc d))
             @ newline_indent d @ '']'')"
| "marshal_indent d (JObject kvs) =
     (if kvs = [] then ''{}''
      else ''{'' @ newline_indent (Suc d)
             @ Join (map (\<lambda>(k, v). json_string k @ '': '' @ marshal_indent (Suc d) v) kvs)
                    ('','' @ newline_indent (Suc d))
             @ newline_indent d @ ''}'')"

definition MarshalIndent :: "Json \<Rightarrow> string" where
  "MarshalIndent j = marshal_indent 0 j"

text \<open>\<^verbatim>\<open>json.NewEncoder(w).Encode(v)\<close> ends the document with a newline.\<close>

definition json_encode :: "Json \<Rightarrow> string" where
  "json_encode j = marshal j @ [CHR 0x0A]"

text \<open>A map of strings encodes with sorted keys.\<close>

definition json_map :: "(string \<times> Json) list \<Rightarrow> Json" where
  "json_map kvs = JObject (sort_by (\<lambda>x y. fst x < fst y) kvs)"

text \<open>The field of a struct tagged \<^verbatim>\<open>omitempty\<close>.\<close>

definition omit_string :: "string \<Rightarrow> string \<Rightarrow> (string \<times> Json) list" where
  "omit_string key v = (if v = [] then [] else [(key, JString v)])"

definition omit_int :: "string \<Rightarrow> int \<Rightarrow> (string \<times> Json) list" where
  "omit_int key v = (if v = 0 then [] else [(key, JInt v)])"

definition omit_list :: "string \<Rightarrow> Json list \<Rightarrow> (string \<times> Json) list" where
  "omit_list key vs = (if vs = [] then [] else [(key, JArray vs)])"

definition omit_ptr :: "string \<Rightarrow> ('a \<Rightarrow> Json) \<Rightarrow> 'a option \<Rightarrow> (string \<times> Json) list" where
  "omit_ptr key f v = (case v of None \<Rightarrow> [] | Some x \<Rightarrow> [(key, f x)])"

section \<open>Escaped strings\<close>

text \<open>
  An encoded string holds no control byte and none of the bytes HTML reads as markup, so a
  document can stand in a page or on a line of its own.
\<close>

definition json_plain :: "char \<Rightarrow> bool" where
  "json_plain c \<longleftrightarrow> 32 \<le> byte c \<and> byte c \<notin> {38, 60, 62}"

lemma json_plain_of: "(r :: nat) < 256 \<Longrightarrow> json_plain (char_of r) \<longleftrightarrow> 32 \<le> r \<and> r \<notin> {38, 60, 62}"
  by (simp add: json_plain_def)

lemma json_plain_high: "128 \<le> byte c \<Longrightarrow> json_plain c"
  by (auto simp: json_plain_def)

lemma json_plain_escapes:
  "c \<in> set (CHR 0x5C # ''bfnrtu0123456789abcdef'') \<Longrightarrow> json_plain c"
  by (auto simp: json_plain_def)

lemma hex_digit_plain: "json_plain (hex_digit d)"
proof -
  have "hex_digit d \<in> set ''0123456789abcdef''"
    unfolding hex_digit_def by (rule nth_mem) simp
  then show ?thesis using json_plain_escapes by auto
qed

lemma encode_rune_bytes:
  obtains ks :: "nat list" where "encode_rune r = map char_of ks"
    and "\<And>k. k \<in> set ks \<Longrightarrow> k < 256 \<and> (128 \<le> r \<longrightarrow> 128 \<le> k)"
proof -
  define n where "n = (if r > 1114111 \<or> (55296 \<le> r \<and> r \<le> 57343) then rune_error else r)"
  have n: "n \<le> 1114111" "128 \<le> r \<Longrightarrow> 128 \<le> n" by (auto simp: n_def rune_error_def)
  have e: "encode_rune r =
      (if n < 128 then [char_of n]
       else if n < 2048 then [char_of (192 + n div 64), char_of (128 + n mod 64)]
       else if n < 65536 then
         [char_of (224 + n div 4096), char_of (128 + n div 64 mod 64), char_of (128 + n mod 64)]
       else [char_of (240 + n div 262144), char_of (128 + n div 4096 mod 64),
             char_of (128 + n div 64 mod 64), char_of (128 + n mod 64)])"
    unfolding encode_rune_def Let_def n_def ..
  have tail: "k mod 64 < 128" for k :: nat by presburger
  consider "n < 128" | "128 \<le> n" "n < 2048" | "2048 \<le> n" "n < 65536" | "65536 \<le> n" by linarith
  then show thesis
  proof cases
    case 1
    then show ?thesis using n(2) by (intro that [of "[n]"]) (auto simp: e)
  next
    case 2
    moreover have "n div 64 < 64" using 2 by simp
    ultimately show ?thesis using tail
      by (intro that [of "[192 + n div 64, 128 + n mod 64]"]) (auto simp: e)
  next
    case 3
    moreover have "n div 4096 < 32" using 3 by simp
    ultimately show ?thesis using tail
      by (intro that [of "[224 + n div 4096, 128 + n div 64 mod 64, 128 + n mod 64]"]) (auto simp: e)
  next
    case 4
    moreover have "n div 262144 < 16" using n(1) by simp
    ultimately show ?thesis using tail
      by (intro that [of "[240 + n div 262144, 128 + n div 4096 mod 64, 128 + n div 64 mod 64, 128 + n mod 64]"])
        (auto simp: e)
  qed
qed

lemma encode_rune_high:
  assumes "128 \<le> r" and "c \<in> set (encode_rune r)"
  shows "128 \<le> byte c"
proof (rule encode_rune_bytes [of r])
  fix ks :: "nat list"
  assume "encode_rune r = map char_of ks" and ks: "\<And>k. k \<in> set ks \<Longrightarrow> k < 256 \<and> (128 \<le> r \<longrightarrow> 128 \<le> k)"
  with assms(2) obtain k where "k \<in> set ks" "c = char_of k" by auto
  with ks assms(1) show ?thesis by fastforce
qed

lemma json_rune_plain:
  assumes "c \<in> set (json_rune r)"
  shows "json_plain c"
proof (cases "128 \<le> r")
  case True
  with assms consider "c \<in> set [CHR 0x5C, CHR ''u'', CHR ''2'', CHR ''0'', CHR ''2'', hex_digit r]"
      | "c \<in> set (encode_rune r)"
    unfolding json_rune_def by (simp split: if_split_asm)
  then show ?thesis
  proof cases
    case 1
    then show ?thesis using hex_digit_plain json_plain_escapes by auto
  next
    case 2
    with True show ?thesis by (blast intro: json_plain_high encode_rune_high)
  qed
next
  case False
  then have e: "encode_rune r = [char_of r]" by (simp add: encode_rune_def)
  have "c = char_of r \<and> (r = 34 \<or> r = 92 \<or> 32 \<le> r \<and> r \<notin> {38, 60, 62})
      \<or> c \<in> set [CHR 0x5C, CHR ''b'', CHR ''f'', CHR ''n'', CHR ''r'', CHR ''t'', CHR ''u'', CHR ''0'']
      \<or> c = hex_digit (r div 16) \<or> c = hex_digit r"
    using assms False unfolding json_rune_def e by (simp split: if_split_asm) auto
  moreover have "json_plain (char_of r)" if "r = 34 \<or> r = 92 \<or> 32 \<le> r \<and> r \<notin> {38, 60, 62}"
    using that False by (subst json_plain_of) auto
  ultimately show ?thesis
    using hex_digit_plain json_plain_escapes by auto
qed

lemma json_body_Cons:
  "decode_rune (x # s) = (r, k) \<Longrightarrow>
   json_body (x # s) = (if k = 1 \<and> 128 \<le> byte x then [CHR 0x5C] @ ''ufffd'' else json_rune r)
      @ json_body (drop (k - 1) s)"
  by (simp del: decode_rune.simps)

lemma json_body_plain: "c \<in> set (json_body s) \<Longrightarrow> json_plain c"
proof (induction s rule: json_body.induct)
  case (2 x s)
  obtain r k where rk: "decode_rune (x # s) = (r, k)" by force
  have bad: "json_plain d" if "d \<in> set ([CHR 0x5C] @ ''ufffd'')" for d
    using that json_plain_escapes by auto
  from "2.prems" [unfolded json_body_Cons [OF rk]]
  consider "c \<in> set ([CHR 0x5C] @ ''ufffd'')" | "c \<in> set (json_rune r)"
      | "c \<in> set (json_body (drop (k - 1) s))"
    unfolding set_append Un_iff by (cases "k = 1 \<and> 128 \<le> byte x") auto
  then show ?case
    by cases (blast intro: bad json_rune_plain "2.IH" [OF rk [symmetric]])+
qed simp

end
