(* ===== verification/Go_Url.thy ===== *)
theory Go_Url
  imports Go_Encoding
begin

text \<open>
  The parts of Go's \<^verbatim>\<open>net/url\<close>, \<^verbatim>\<open>net\<close> and \<^verbatim>\<open>path\<close> packages the subscription links
  rest on: percent encoding in the modes that occur, the printing of a URL without a path, the
  host \<^verbatim>\<open>url.Parse\<close> finds, \<^verbatim>\<open>net.SplitHostPort\<close> and \<^verbatim>\<open>path.Clean\<close> of a rooted path.
\<close>

section \<open>Percent encoding\<close>

datatype encoding = encodePath | encodeHost | encodeZone | encodeUserPassword | encodeQueryComponent | encodeFragment

definition alnum :: "char \<Rightarrow> bool" where
  "alnum c \<longleftrightarrow> in_bytes 97 122 c \<or> in_bytes 65 90 c \<or> in_bytes 48 57 c"

definition shouldEscape :: "char \<Rightarrow> encoding \<Rightarrow> bool" where
  "shouldEscape c mode =
     (if alnum c then False
      else if mode \<in> {encodeHost, encodeZone} \<and> c \<in> set (CHR 0x22 # CHR 0x27 # ''!$&()*+,;=:[]<>'') then False
      else if c \<in> set ''-_.~'' then False
      else if c \<in> set ''$&+,/:;=?@'' \<and> mode = encodePath then c = CHR ''?''
      else if c \<in> set ''$&+,/:;=?@'' \<and> mode = encodeUserPassword then c \<in> set ''@/?:''
      else if c \<in> set ''$&+,/:;=?@'' \<and> mode = encodeQueryComponent then True
      else if c \<in> set ''$&+,/:;=?@'' \<and> mode = encodeFragment then False
      else if mode = encodeFragment \<and> c \<in> set ''!()*'' then False
      else True)"

definition upper_hex :: "nat \<Rightarrow> char" where
  "upper_hex d = ''0123456789ABCDEF'' ! (d mod 16)"

definition escape_byte :: "encoding \<Rightarrow> char \<Rightarrow> string" where
  "escape_byte mode c =
     (if \<not> shouldEscape c mode then [c]
      else if c = CHR '' '' \<and> mode = encodeQueryComponent then ''+''
      else [CHR ''%'', upper_hex (byte c div 16), upper_hex (byte c)])"

definition escape :: "string \<Rightarrow> encoding \<Rightarrow> string" where
  "escape s mode = concat (map (escape_byte mode) s)"

definition QueryEscape :: "string \<Rightarrow> string" where
  "QueryEscape s = escape s encodeQueryComponent"

definition unhex :: "char \<Rightarrow> nat option" where
  "unhex c =
     (if in_bytes 48 57 c then Some (byte c - 48)
      else if in_bytes 97 102 c then Some (byte c - 87)
      else if in_bytes 65 70 c then Some (byte c - 55) else None)"

text \<open>\<^verbatim>\<open>None\<close> is an error.  In a host only bytes beyond ASCII and the percent sign may be encoded.\<close>

fun unescape :: "string \<Rightarrow> encoding \<Rightarrow> string option" where
  "unescape [] mode = Some []"
| "unescape (c # s) mode =
     (if c = CHR ''%'' then
        (case s of
           x # y # rest \<Rightarrow>
             (case (unhex x, unhex y) of
                (Some h, Some l) \<Rightarrow>
                  if mode = encodeHost \<and> h < 8 \<and> \<not> (x = CHR ''2'' \<and> y = CHR ''5'') then None
                  else if mode = encodeZone \<and> \<not> (x = CHR ''2'' \<and> y = CHR ''5'')
                          \<and> char_of (16 * h + l) \<noteq> CHR '' '' \<and> shouldEscape (char_of (16 * h + l)) encodeHost
                  then None
                  else map_option (\<lambda>t. char_of (16 * h + l) # t) (unescape rest mode)
              | _ \<Rightarrow> None)
         | _ \<Rightarrow> None)
      else if mode \<in> {encodeHost, encodeZone} \<and> byte c < 128 \<and> shouldEscape c mode then None
      else map_option (\<lambda>t. (if c = CHR ''+'' \<and> mode = encodeQueryComponent then CHR '' '' else c) # t)
             (unescape s mode))"

section \<open>Printing\<close>

text \<open>\<^verbatim>\<open>url.UserPassword(u, p).String()\<close>.\<close>

definition UserPassword_String :: "string \<Rightarrow> string \<Rightarrow> string" where
  "UserPassword_String username password =
     escape username encodeUserPassword @ '':'' @ escape password encodeUserPassword"

text \<open>\<^verbatim>\<open>URL.String\<close> for a URL with user information and no path.\<close>

definition URL_String :: "string \<Rightarrow> string \<Rightarrow> string \<Rightarrow> string \<Rightarrow> string" where
  "URL_String scheme userinfo host fragment =
     (if scheme = [] then [] else scheme @ '':'') @ ''//'' @ userinfo @ ''@''
       @ escape host encodeHost
       @ (if fragment = [] then [] else ''#'' @ escape fragment encodeFragment)"

section \<open>Parsing\<close>

text \<open>The position of a byte, as an option.\<close>

fun IndexByte :: "string \<Rightarrow> char \<Rightarrow> nat option" where
  "IndexByte [] c = None"
| "IndexByte (x # s) c = (if x = c then Some 0 else map_option Suc (IndexByte s c))"

definition LastIndexByte :: "string \<Rightarrow> char \<Rightarrow> nat option" where
  "LastIndexByte s c = map_option (\<lambda>i. length s - Suc i) (IndexByte (rev s) c)"

definition CutByte :: "string \<Rightarrow> char \<Rightarrow> string \<times> string" where
  "CutByte s c = (case IndexByte s c of None \<Rightarrow> (s, []) | Some i \<Rightarrow> (take i s, drop (Suc i) s))"

text \<open>The scheme and the rest; \<^verbatim>\<open>None\<close> is an error.\<close>

fun getScheme_from :: "string \<Rightarrow> nat \<Rightarrow> string \<Rightarrow> (string \<times> string) option" where
  "getScheme_from raw i [] = Some ([], raw)"
| "getScheme_from raw i (c # s) =
     (if in_bytes 97 122 c \<or> in_bytes 65 90 c then getScheme_from raw (Suc i) s
      else if in_bytes 48 57 c \<or> c \<in> set ''+-.'' then
        (if i = 0 then Some ([], raw) else getScheme_from raw (Suc i) s)
      else if c = CHR '':'' then (if i = 0 then None else Some (take i raw, s))
      else Some ([], raw))"

definition getScheme :: "string \<Rightarrow> (string \<times> string) option" where
  "getScheme raw = getScheme_from raw 0 raw"

definition validOptionalPort :: "string \<Rightarrow> bool" where
  "validOptionalPort port =
     (case port of [] \<Rightarrow> True | c # s \<Rightarrow> c = CHR '':'' \<and> list_all (in_bytes 48 57) s)"

definition parseHost :: "string \<Rightarrow> string option" where
  "parseHost host =
     (if HasPrefix host ''['' then
        (case LastIndexByte host (CHR '']'') of
           None \<Rightarrow> None
         | Some i \<Rightarrow>
             if \<not> validOptionalPort (drop (Suc i) host) then None
             else (case Cut (take i host) ''%25'' of
                     (before, after, found) \<Rightarrow>
                       if found then
                         (case (unescape before encodeHost, unescape (drop (length before) (take i host)) encodeZone,
                                unescape (drop i host) encodeHost) of
                            (Some h1, Some h2, Some h3) \<Rightarrow> Some (h1 @ h2 @ h3)
                          | _ \<Rightarrow> None)
                       else unescape host encodeHost))
      else (case LastIndexByte host (CHR '':'') of
              None \<Rightarrow> unescape host encodeHost
            | Some i \<Rightarrow> if validOptionalPort (drop i host) then unescape host encodeHost else None))"

definition validUserinfo :: "string \<Rightarrow> bool" where
  "validUserinfo s = list_all (\<lambda>c. alnum c \<or> c \<in> set (CHR 0x27 # ''-._:~!$&()*+,;=%@'')) s"

definition parseAuthority :: "string \<Rightarrow> string option" where
  "parseAuthority authority =
     (case LastIndexByte authority (CHR ''@'') of
        None \<Rightarrow> parseHost authority
      | Some i \<Rightarrow>
          (case parseHost (drop (Suc i) authority) of
             None \<Rightarrow> None
           | Some host \<Rightarrow>
               (let userinfo = take i authority; parts = CutByte userinfo (CHR '':'') in
                if \<not> validUserinfo userinfo then None
                else if unescape (fst parts) encodeUserPassword = None
                        \<or> unescape (snd parts) encodeUserPassword = None then None
                else Some host)))"

text \<open>
  \<^verbatim>\<open>url.Parse\<close>, of which only the host is used: \<open>Some host\<close>, where a URL without an
  authority has the empty host, or \<^verbatim>\<open>None\<close> for an error.
\<close>

definition parse_rest :: "string \<Rightarrow> string \<Rightarrow> string option" where
  "parse_rest scheme rest =
     (if \<not> HasPrefix rest ''/'' \<and> scheme \<noteq> [] then Some []
      else if \<not> HasPrefix rest ''/'' \<and> Contains (fst (CutByte rest (CHR ''/''))) '':'' then None
      else if (scheme \<noteq> [] \<or> \<not> HasPrefix rest ''///'') \<and> HasPrefix rest ''//'' then
        (let after = drop 2 rest;
             n = (case IndexByte after (CHR ''/'') of None \<Rightarrow> length after | Some i \<Rightarrow> i) in
         case parseAuthority (take n after) of
           None \<Rightarrow> None
         | Some host \<Rightarrow> if unescape (drop n after) encodePath = None then None else Some host)
      else if unescape rest encodePath = None then None else Some [])"

definition parse_url :: "string \<Rightarrow> string option" where
  "parse_url raw =
     (if list_ex (\<lambda>c. byte c < 32 \<or> byte c = 127) raw then None
      else if raw = ''*'' then Some []
      else case getScheme raw of
             None \<Rightarrow> None
           | Some (scheme, rest) \<Rightarrow> parse_rest scheme (fst (CutByte rest (CHR ''?''))))"

definition url_Parse_Host :: "string \<Rightarrow> string option" where
  "url_Parse_Host rawURL =
     (case CutByte rawURL (CHR ''#'') of
        (u, frag) \<Rightarrow>
          (case parse_url u of
             None \<Rightarrow> None
           | Some host \<Rightarrow> if unescape frag encodeFragment = None then None else Some host))"

text \<open>\<^verbatim>\<open>URL.Hostname\<close>: the host without port and without brackets.\<close>

definition Hostname :: "string \<Rightarrow> string" where
  "Hostname host =
     (let h = (case LastIndexByte host (CHR '':'') of
                 Some i \<Rightarrow> if validOptionalPort (drop i host) then take i host else host
               | None \<Rightarrow> host) in
      if HasPrefix h ''['' \<and> HasSuffix h '']'' then butlast (tl h) else h)"

text \<open>The host of \<^verbatim>\<open>net.SplitHostPort\<close>, or \<^verbatim>\<open>None\<close> for an error.\<close>

definition SplitHostPort :: "string \<Rightarrow> string option" where
  "SplitHostPort hostport =
     (case LastIndexByte hostport (CHR '':'') of
        None \<Rightarrow> None
      | Some i \<Rightarrow>
          if hd hostport = CHR ''['' then
            (case IndexByte hostport (CHR '']'') of
               None \<Rightarrow> None
             | Some stop \<Rightarrow>
                 if Suc stop \<noteq> i then None
                 else if CHR ''['' \<in> set (drop 1 hostport) \<or> CHR '']'' \<in> set (drop (Suc stop) hostport) then None
                 else Some (drop 1 (take stop hostport)))
          else if CHR '':'' \<in> set (take i hostport) then None
          else if CHR ''['' \<in> set hostport \<or> CHR '']'' \<in> set hostport then None
          else Some (take i hostport))"

text \<open>\<^verbatim>\<open>path.Clean\<close> of a path that begins with a slash.\<close>

fun clean_parts :: "string list \<Rightarrow> string list \<Rightarrow> string list" where
  "clean_parts out [] = rev out"
| "clean_parts out (p # ps) =
     (if p = [] \<or> p = ''.'' then clean_parts out ps
      else if p = ''..'' then clean_parts (drop 1 out) ps
      else clean_parts (p # out) ps)"

definition CleanRooted :: "string \<Rightarrow> string" where
  "CleanRooted p = ''/'' @ Join (clean_parts [] (SplitByte p (CHR ''/''))) ''/''"

section \<open>Round trips\<close>

lemma unhex_upper_hex [simp]: "unhex (upper_hex d) = Some (d mod 16)"
proof -
  have "\<forall>k \<in> set [0..<16]. unhex (''0123456789ABCDEF'' ! k) = Some k" by code_simp
  then show ?thesis by (simp add: upper_hex_def)
qed

lemma hex_pair: "16 * (byte c div 16 mod 16) + byte c mod 16 = byte c"
proof -
  have "byte c div 16 mod 16 = byte c div 16" using byte_lt [of c] by simp
  then show ?thesis by simp
qed

lemma shouldEscape_percent: "shouldEscape (CHR ''%'') mode"
  by (cases mode) (simp_all add: shouldEscape_def alnum_def in_bytes_def)

lemma shouldEscape_plus: "shouldEscape (CHR ''+'') encodeQueryComponent"
  by (simp add: shouldEscape_def alnum_def in_bytes_def)

lemma unescape_escape_byte:
  assumes "mode \<notin> {encodeHost, encodeZone}"
  shows "unescape (escape_byte mode c @ t) mode = map_option (\<lambda>u. c # u) (unescape t mode)"
proof (cases "shouldEscape c mode")
  case False
  then have "c \<noteq> CHR ''%''" "\<not> (c = CHR ''+'' \<and> mode = encodeQueryComponent)"
    using shouldEscape_percent shouldEscape_plus by blast+
  with False assms show ?thesis by (auto simp: escape_byte_def)
next
  case True
  show ?thesis
  proof (cases "c = CHR '' '' \<and> mode = encodeQueryComponent")
    case True
    with \<open>shouldEscape c mode\<close> show ?thesis by (simp add: escape_byte_def)
  next
    case False
    with \<open>shouldEscape c mode\<close> assms show ?thesis
      by (simp add: escape_byte_def hex_pair)
  qed
qed

text \<open>What is escaped in one of these modes is read back unchanged in the same mode.\<close>

lemma unescape_escape:
  assumes "mode \<notin> {encodeHost, encodeZone}"
  shows "unescape (escape s mode) mode = Some s"
proof (induction s)
  case (Cons c s)
  have "escape (c # s) mode = escape_byte mode c @ escape s mode" by (simp add: escape_def)
  with unescape_escape_byte [OF assms] Cons show ?case by simp
qed (simp add: escape_def)

text \<open>An escaped text holds only bytes that need no escaping, the percent sign and the plus.\<close>

lemma upper_hex_alnum: "alnum (upper_hex d)"
proof -
  have "\<forall>k \<in> set [0..<16]. alnum (''0123456789ABCDEF'' ! k)" by code_simp
  then show ?thesis by (simp add: upper_hex_def)
qed

lemma escape_chars:
  assumes "c \<in> set (escape s mode)"
  shows "\<not> shouldEscape c mode \<or> c = CHR ''%'' \<or> c = CHR ''+'' \<and> mode = encodeQueryComponent"
proof -
  have hex: "\<not> shouldEscape (upper_hex d) mode" for d
    by (simp add: shouldEscape_def upper_hex_alnum)
  from assms obtain d where "c \<in> set (escape_byte mode d)" by (auto simp: escape_def)
  with hex show ?thesis by (auto simp: escape_byte_def split: if_splits)
qed

lemma escape_userinfo_clean:
  "c \<in> set ''@:/?# '' \<Longrightarrow> c \<notin> set (escape s encodeUserPassword)"
proof
  assume "c \<in> set ''@:/?# ''" and "c \<in> set (escape s encodeUserPassword)"
  moreover from this(2) have "\<not> shouldEscape c encodeUserPassword \<or> c = CHR ''%''"
    using escape_chars by force
  ultimately show False by (auto simp: shouldEscape_def alnum_def in_bytes_def)
qed

lemma escape_query_clean:
  "c \<in> set ''&=#;?@:/ '' \<Longrightarrow> c \<notin> set (escape s encodeQueryComponent)"
proof
  assume "c \<in> set ''&=#;?@:/ ''" and "c \<in> set (escape s encodeQueryComponent)"
  moreover from this(2) have "\<not> shouldEscape c encodeQueryComponent \<or> c = CHR ''%'' \<or> c = CHR ''+''"
    using escape_chars by force
  ultimately show False by (auto simp: shouldEscape_def alnum_def in_bytes_def)
qed

section \<open>Splitting\<close>

lemma IndexByte_None: "IndexByte s c = None \<longleftrightarrow> c \<notin> set s"
  by (induction s) auto

lemma IndexByte_append: "c \<notin> set a \<Longrightarrow> IndexByte (a @ c # b) c = Some (length a)"
  by (induction a) auto

lemma CutByte_append [simp]: "c \<notin> set a \<Longrightarrow> CutByte (a @ c # b) c = (a, b)"
  by (simp add: CutByte_def IndexByte_append)

lemma CutByte_fst_free: "c \<notin> set (fst (CutByte s c))"
proof (cases "IndexByte s c")
  case None
  then have "c \<notin> set s" by (simp add: IndexByte_None)
  with None show ?thesis by (simp add: CutByte_def)
next
  case (Some i)
  have "IndexByte s c = Some i \<Longrightarrow> c \<notin> set (take i s)" for i
    by (induction s arbitrary: i) (auto split: if_splits)
  with Some show ?thesis by (simp add: CutByte_def)
qed

lemma set_CutByte_fst: "set (fst (CutByte s c)) \<subseteq> set s"
  by (auto simp: CutByte_def dest: in_set_takeD split: option.splits)

lemma set_SplitHostPort: "SplitHostPort s = Some h \<Longrightarrow> set h \<subseteq> set s"
  by (auto simp: SplitHostPort_def dest: in_set_takeD in_set_dropD split: option.splits if_splits)

lemma SplitByte_nonempty [simp]: "SplitByte s c \<noteq> []"
  by (cases s) (auto split: list.splits)

lemma SplitByte_free: "c \<notin> set s \<Longrightarrow> SplitByte s c = [s]"
  by (induction s) auto

lemma clean_parts_single: "clean_parts [] [s] = (if s \<in> {[], ''.'', ''..''} then [] else [s])"
  by simp

text \<open>Cleaning a path of one element leaves it, or leaves the root.\<close>

lemma CleanRooted_single:
  assumes "CHR ''/'' \<notin> set s"
  shows "CleanRooted (''/'' @ s) = ''/'' @ (if s \<in> {''.'', ''..''} then [] else s)"
  using assms by (simp add: CleanRooted_def SplitByte_free)

end
