(* ===== verification/Subscription.thy ===== *)
theory Subscription
  imports Go_Json Go_Url Models Prelude
begin

text \<open>
  internal/subscriptions/subscriptions.go: the documents a user's client downloads.  The links and
  documents are pure functions of the user's assignments; \<^verbatim>\<open>BuildByToken\<close> reads them through
  the interface \<^verbatim>\<open>subscriptionUserRepository\<close>, here the record \<open>'w subscription_deps\<close> of
  its two methods and the clock.  Text beyond ASCII is written out as its UTF-8 bytes.

  The column \<^verbatim>\<open>protocol_settings\<close> holds the record the node repository encoded, so decoding
  it gives that record back.
\<close>

section \<open>Constants\<close>

definition FormatDefault :: string where "FormatDefault = []"
definition FormatJSON :: string where "FormatJSON = ''json''"
definition FormatKaring :: string where "FormatKaring = ''karing''"
definition FormatSingBox :: string where "FormatSingBox = ''sing-box''"
definition FormatHiddify :: string where "FormatHiddify = ''hiddify''"
definition FormatHiddifyJSON :: string where "FormatHiddifyJSON = ''hiddify-json''"
definition FormatRaw :: string where "FormatRaw = ''raw''"
definition FormatMierus :: string where "FormatMierus = ''mierus''"
definition FormatNaive :: string where "FormatNaive = ''naive''"

lemmas format_constants =
  FormatDefault_def FormatJSON_def FormatKaring_def FormatSingBox_def FormatHiddify_def
  FormatHiddifyJSON_def FormatRaw_def FormatMierus_def FormatNaive_def

definition DefaultProfileTitle :: string where
  "DefaultProfileTitle = string_of_runes [1042, 1077, 1090, 1082, 1072] @ '' VPN''"

definition DefaultUpdateIntervalHours :: int where
  "DefaultUpdateIntervalHours = 12"

definition ErrSubscriptionDisabled :: goerr where
  "ErrSubscriptionDisabled = Errorf ''subscription disabled or expired''"
definition ErrNoSupportedNodesAssigned :: goerr where
  "ErrNoSupportedNodesAssigned = Errorf ''no supported nodes assigned''"
definition ErrNoMieruNodesAssigned :: goerr where
  "ErrNoMieruNodesAssigned = Errorf ''no mieru nodes assigned''"
definition ErrNoNaiveNodesAssigned :: goerr where
  "ErrNoNaiveNodesAssigned = Errorf ''no naive nodes assigned''"

section \<open>Hosts, ports and tags\<close>

definition protocolSettingsForAccess :: "AccessWithNode \<Rightarrow> ProtocolSettings" where
  "protocolSettingsForAccess access =
     (let settings = wn_node_protocol_settings access; mi = ps_mieru settings; na = ps_naive settings in
      settings\<lparr>
        ps_mieru := mi\<lparr>
          mi_ports := (if length (mi_ports mi) = 0 then [''2012-2022''] else mi_ports mi),
          mi_protocol := (if mi_protocol mi = [] then ''TCP'' else mi_protocol mi),
          mi_mtu := (if mi_mtu mi = 0 then 1400 else mi_mtu mi),
          mi_multiplexing := (if mi_multiplexing mi = [] then ''MULTIPLEXING_HIGH'' else mi_multiplexing mi),
          mi_handshake_mode := (if mi_handshake_mode mi = [] then ''HANDSHAKE_NO_WAIT'' else mi_handshake_mode mi),
          mi_profile := (if mi_profile mi = [] then wn_node_name access else mi_profile mi)\<rparr>,
        ps_naive := na\<lparr>na_port := (if na_port na = 0 then 443 else na_port na)\<rparr>\<rparr>)"

definition sanitizeHost :: "string \<Rightarrow> string" where
  "sanitizeHost value =
     (let trimmed = TrimPrefix (TrimPrefix (TrimSpace value) ''http://'') ''https://'';
          trimmed = fst (CutByte trimmed (CHR ''/''));
          trimmed = (case SplitHostPort trimmed of
                       Some host \<Rightarrow> if host \<noteq> [] then host else trimmed
                     | None \<Rightarrow> trimmed)
      in drop 1 (CleanRooted (''/'' @ trimmed)))"

definition hostFromURL :: "string \<Rightarrow> string" where
  "hostFromURL value =
     (if TrimSpace value = [] then []
      else case url_Parse_Host value of
             None \<Rightarrow> sanitizeHost value
           | Some parsed \<Rightarrow>
               sanitizeHost (if Hostname parsed = [] then parsed else Hostname parsed))"

definition nodeServer :: "AccessWithNode \<Rightarrow> string" where
  "nodeServer access =
     (let host = sanitizeHost (wn_node_domain access) in
      if host \<noteq> [] then host
      else let host = hostFromURL (wn_node_api_url access) in
           if host \<noteq> [] then host else ''localhost'')"

definition firstMieruPort :: "string list \<Rightarrow> int" where
  "firstMieruPort ports =
     (case ports of
        [] \<Rightarrow> 2012
      | p # _ \<Rightarrow>
          (let value = TrimSpace p in
           if value = [] then 2012
           else let value = (if Contains value ''-'' then fst (CutByte value (CHR ''-'')) else value) in
                case Atoi value of
                  None \<Rightarrow> 2012
                | Some port \<Rightarrow> if port \<le> 0 then 2012 else port))"

definition defaultString :: "string \<Rightarrow> string \<Rightarrow> string" where
  "defaultString value fallback = (if TrimSpace value = [] then fallback else value)"

definition tag_rune :: "nat \<Rightarrow> bool" where
  "tag_rune r \<longleftrightarrow> (97 \<le> r \<and> r \<le> 122) \<or> (48 \<le> r \<and> r \<le> 57)"

text \<open>The loop of \<^verbatim>\<open>outboundTag\<close>, with its variable \<^verbatim>\<open>prevDash\<close>.\<close>

fun tag_body :: "bool \<Rightarrow> nat list \<Rightarrow> string" where
  "tag_body prevDash [] = []"
| "tag_body prevDash (r # rs) =
     (if tag_rune r then char_of r # tag_body False rs
      else if \<not> prevDash then CHR ''-'' # tag_body True rs
      else tag_body prevDash rs)"

definition outboundTag :: "AccessWithNode \<Rightarrow> string" where
  "outboundTag access =
     (let source = wn_agent_node_id access;
          source = (if source = [] then a_node_id (wn_access access) else source);
          source = (if source = [] then wn_node_name access else source);
          value = TrimByte (tag_body False (runes (ToLower source))) (CHR ''-'');
          value = (if value = [] then ''node'' else value)
      in ''node-'' @ wn_node_protocol_type access @ ''-'' @ value)"

section \<open>Links\<close>

definition BuildNaiveURI :: "AccessWithNode \<Rightarrow> string" where
  "BuildNaiveURI access =
     (let settings = protocolSettingsForAccess access in
      URL_String ''naive+https''
        (UserPassword_String (a_protocol_username (wn_access access)) (a_protocol_password (wn_access access)))
        (nodeServer access @ '':'' @ Itoa (na_port (ps_naive settings)))
        (wn_node_name access))"

definition BuildNaiveHiddifyURI :: "AccessWithNode \<Rightarrow> string" where
  "BuildNaiveHiddifyURI access =
     (let settings = protocolSettingsForAccess access in
      URL_String ''naive''
        (UserPassword_String (a_protocol_username (wn_access access)) (a_protocol_password (wn_access access)))
        (nodeServer access @ '':'' @ Itoa (na_port (ps_naive settings)))
        (wn_node_name access))"

definition BuildMieruURI :: "AccessWithNode \<Rightarrow> bool \<Rightarrow> string" where
  "BuildMieruURI access devMode =
     (let mi = ps_mieru (protocolSettingsForAccess access);
          profile = (if mi_profile mi = [] then wn_node_name access else mi_profile mi);
          ports = (if length (mi_ports mi) = 0 then [''2012-2022''] else mi_ports mi);
          protocol = (if mi_protocol mi = [] then ''TCP'' else mi_protocol mi);
          queryParts =
            [''profile='' @ QueryEscape profile,
             ''mtu='' @ QueryEscape (Itoa (mi_mtu mi)),
             ''multiplexing='' @ QueryEscape (mi_multiplexing mi),
             ''handshake-mode='' @ QueryEscape (mi_handshake_mode mi)]
            @ (if mi_traffic_pattern mi \<noteq> [] then [''traffic-pattern='' @ QueryEscape (mi_traffic_pattern mi)] else [])
            @ concat (map (\<lambda>port. [''port='' @ QueryEscape port, ''protocol='' @ QueryEscape protocol]) ports);
          userInfo = UserPassword_String (a_protocol_username (wn_access access)) (a_protocol_password (wn_access access));
          host = nodeServer access
      in ''mierus://'' @ userInfo @ ''@'' @ host @ ''?'' @ Join queryParts ''&'' @ ''#'' @ QueryEscape profile)"

section \<open>The sing-box document\<close>

record outbound =
  ob_type :: string
  ob_tag :: string
  ob_outbounds :: "string list"
  ob_server :: string
  ob_server_port :: int
  ob_transport :: string
  ob_username :: string
  ob_password :: string
  ob_multiplexing :: string
  ob_quic :: "bool option"
  ob_tls :: "(bool \<times> string) option"

definition new_outbound :: "string \<Rightarrow> string \<Rightarrow> outbound" where
  "new_outbound typ tag =
     \<lparr>ob_type = typ, ob_tag = tag, ob_outbounds = [], ob_server = [], ob_server_port = 0,
      ob_transport = [], ob_username = [], ob_password = [], ob_multiplexing = [], ob_quic = None,
      ob_tls = None\<rparr>"

definition outbound_json :: "outbound \<Rightarrow> Json" where
  "outbound_json ob = JObject
     ([(''type'', JString (ob_type ob)), (''tag'', JString (ob_tag ob))]
      @ omit_list ''outbounds'' (map JString (ob_outbounds ob))
      @ omit_string ''server'' (ob_server ob) @ omit_int ''server_port'' (ob_server_port ob)
      @ omit_string ''transport'' (ob_transport ob) @ omit_string ''username'' (ob_username ob)
      @ omit_string ''password'' (ob_password ob) @ omit_string ''multiplexing'' (ob_multiplexing ob)
      @ omit_ptr ''quic'' JBool (ob_quic ob)
      @ omit_ptr ''tls'' (\<lambda>(enabled, name). JObject [(''enabled'', JBool enabled), (''server_name'', JString name)])
          (ob_tls ob))"

definition singbox_outbound :: "AccessWithNode \<Rightarrow> outbound list" where
  "singbox_outbound assignment =
     (let tag = outboundTag assignment; access = wn_access assignment;
          settings = protocolSettingsForAccess assignment; server = nodeServer assignment in
      if wn_node_protocol_type assignment = ''naive'' then
        [(new_outbound ''naive'' tag)\<lparr>ob_server := server, ob_server_port := na_port (ps_naive settings),
           ob_username := a_protocol_username access, ob_password := a_protocol_password access,
           ob_quic := Some False, ob_tls := Some (True, server)\<rparr>]
      else if wn_node_protocol_type assignment = ''mieru'' then
        [(new_outbound ''mieru'' tag)\<lparr>ob_server := server,
           ob_server_port := firstMieruPort (mi_ports (ps_mieru settings)),
           ob_transport := defaultString (mi_protocol (ps_mieru settings)) ''TCP'',
           ob_username := a_protocol_username access, ob_password := a_protocol_password access,
           ob_multiplexing := defaultString (mi_multiplexing (ps_mieru settings)) ''MULTIPLEXING_HIGH''\<rparr>]
      else [])"

definition proxy_tags :: "AccessWithNode list \<Rightarrow> string list" where
  "proxy_tags assignments =
     (let tags = map outboundTag assignments in if length tags = 0 then [''direct''] else tags)"

definition singbox_outbounds :: "AccessWithNode list \<Rightarrow> outbound list" where
  "singbox_outbounds assignments =
     [(new_outbound ''selector'' ''proxy'')\<lparr>ob_outbounds := proxy_tags assignments\<rparr>]
     @ concat (map singbox_outbound assignments)
     @ [new_outbound ''direct'' ''direct'', new_outbound ''dns'' ''dns-out'']"

definition singbox_config :: "AccessWithNode list \<Rightarrow> Json" where
  "singbox_config assignments = JObject
     [(''log'', JObject [(''level'', JString ''info''), (''timestamp'', JBool True)]),
      (''dns'', JObject
        [(''servers'', JArray
           [JObject [(''tag'', JString ''remote''), (''address'', JString ''tls://8.8.8.8''), (''detour'', JString ''proxy'')],
            JObject [(''tag'', JString ''local''), (''address'', JString ''https://223.5.5.5/dns-query''), (''detour'', JString ''direct'')]]),
         (''rules'', JArray [JObject [(''outbound'', JString ''any''), (''server'', JString ''local'')]]),
         (''final'', JString ''remote'')]),
      (''outbounds'', JArray (map outbound_json (singbox_outbounds assignments))),
      (''route'', JObject
        [(''rules'', JArray [JObject [(''protocol'', JString ''dns''), (''outbound'', JString ''dns-out'')]]),
         (''final'', JString ''proxy''),
         (''auto_detect_interface'', JBool True)])]"

definition BuildSingboxJSON :: "AccessWithNode list \<Rightarrow> goerr + string" where
  "BuildSingboxJSON assignments = Inr (MarshalIndent (singbox_config assignments))"

section \<open>The Hiddify document\<close>

definition hiddify_tag :: "AccessWithNode \<Rightarrow> nat \<Rightarrow> string" where
  "hiddify_tag assignment i =
     wn_node_name assignment @ '' '' @ encode_rune 167 @ '' '' @ Itoa (int i)"

definition hiddify_outbound :: "nat \<Rightarrow> AccessWithNode \<Rightarrow> Json list" where
  "hiddify_outbound i assignment =
     (let access = wn_access assignment; settings = protocolSettingsForAccess assignment;
          mi = ps_mieru settings; tag = hiddify_tag assignment i in
      if wn_node_protocol_type assignment = ''mieru'' then
        [JObject
          ([(''type'', JString ''mieru''), (''tag'', JString tag), (''server'', JString (nodeServer assignment)),
            (''server_port'', JInt 0)]
           @ omit_list ''portBindings''
               (map (\<lambda>portRange. JObject [(''protocol'', JString (defaultString (mi_protocol mi) ''TCP'')),
                                          (''portRange'', JString portRange)]) (mi_ports mi))
           @ [(''username'', JString (a_protocol_username access)),
              (''password'', JString (a_protocol_password access))]
           @ omit_string ''multiplexing'' (defaultString (mi_multiplexing mi) ''MULTIPLEXING_HIGH''))]
      else if wn_node_protocol_type assignment = ''naive'' then
        [JObject
          [(''type'', JString ''naive''), (''tag'', JString tag), (''server'', JString (nodeServer assignment)),
           (''server_port'', JInt (na_port (ps_naive settings))),
           (''username'', JString (a_protocol_username access)),
           (''password'', JString (a_protocol_password access)),
           (''udp_over_tcp'', JBool False),
           (''tls'', JObject [(''enabled'', JBool True)])]]
      else [])"

fun hiddify_outbounds :: "nat \<Rightarrow> AccessWithNode list \<Rightarrow> Json list" where
  "hiddify_outbounds i [] = []"
| "hiddify_outbounds i (x # xs) = hiddify_outbound i x @ hiddify_outbounds (Suc i) xs"

definition BuildHiddifyJSON :: "AccessWithNode list \<Rightarrow> goerr + string" where
  "BuildHiddifyJSON assignments =
     Inr (MarshalIndent (JObject [(''outbounds'', JArray (hiddify_outbounds 0 assignments))]))"

section \<open>The text documents\<close>

definition ProfileTitleBase64 :: "string \<Rightarrow> string" where
  "ProfileTitleBase64 title = EncodeToString std_alphabet title"

definition raw_lines :: "bool \<Rightarrow> AccessWithNode \<Rightarrow> string list" where
  "raw_lines devMode assignment =
     (if wn_node_protocol_type assignment = ''naive'' then
        [''# '' @ wn_node_name assignment, BuildNaiveHiddifyURI assignment, BuildNaiveURI assignment, []]
      else if wn_node_protocol_type assignment = ''mieru'' then
        [''# '' @ wn_node_name assignment, BuildMieruURI assignment devMode, []]
      else [])"

definition buildRawAll :: "AccessWithNode list \<Rightarrow> bool \<Rightarrow> string \<Rightarrow> int \<Rightarrow> goerr + string" where
  "buildRawAll assignments devMode profileTitle updateIntervalHours =
     (let header =
            [''//profile-title: base64:'' @ ProfileTitleBase64 profileTitle,
             ''//profile-update-interval: '' @ Itoa updateIntervalHours,
             ''//subscription-userinfo: upload=0; download=0; total=0; expire=0'', []];
          lines = header @ concat (map (raw_lines devMode) assignments)
      in Inr (TrimSpace (Join lines [CHR 0x0A])))"

definition hiddify_lines :: "bool \<Rightarrow> AccessWithNode \<Rightarrow> string list" where
  "hiddify_lines devMode assignment =
     (if wn_node_protocol_type assignment = ''mieru'' then
        [[], ''# '' @ wn_node_name assignment, BuildMieruURI assignment devMode]
      else if wn_node_protocol_type assignment = ''naive'' then
        [[], ''# '' @ wn_node_name assignment, BuildNaiveHiddifyURI assignment]
      else [])"

definition buildHiddifyAll :: "AccessWithNode list \<Rightarrow> bool \<Rightarrow> string \<Rightarrow> goerr + string" where
  "buildHiddifyAll assignments devMode profileTitle =
     (let lines = [''# '' @ profileTitle] @ concat (map (hiddify_lines devMode) assignments) in
      if length lines = 1 then Inl ErrNoSupportedNodesAssigned
      else Inr (TrimSpace (Join lines [CHR 0x0A])))"

definition buildRawMieru :: "AccessWithNode list \<Rightarrow> bool \<Rightarrow> goerr + string" where
  "buildRawMieru assignments devMode =
     (let lines = map (\<lambda>x. BuildMieruURI x devMode)
                    (filter (\<lambda>x. wn_node_protocol_type x = ''mieru'') assignments) in
      if length lines = 0 then Inl ErrNoMieruNodesAssigned else Inr (Join lines [CHR 0x0A]))"

definition buildRawNaive :: "AccessWithNode list \<Rightarrow> goerr + string" where
  "buildRawNaive assignments =
     (let lines = map BuildNaiveHiddifyURI
                    (filter (\<lambda>x. wn_node_protocol_type x = ''naive'') assignments) in
      if length lines = 0 then Inl ErrNoNaiveNodesAssigned else Inr (Join lines [CHR 0x0A]))"

section \<open>Formats\<close>

definition normalizeFormat :: "string \<Rightarrow> string" where
  "normalizeFormat format =
     (let f = ToLower (TrimSpace format) in
      if f \<in> {FormatDefault, FormatJSON, FormatKaring, FormatSingBox} then FormatJSON
      else if f = FormatHiddify then FormatHiddify
      else if f = FormatHiddifyJSON then FormatHiddifyJSON
      else if f = FormatRaw then FormatRaw
      else if f = FormatMierus then FormatMierus
      else if f = FormatNaive then FormatNaive
      else FormatJSON)"

definition ContentDispositionFilename :: "string \<Rightarrow> string" where
  "ContentDispositionFilename format =
     (if normalizeFormat format \<in> {FormatJSON, FormatKaring, FormatSingBox, FormatHiddifyJSON}
      then ''vetka-vpn.json'' else ''vetka-vpn.txt'')"

definition activeAssignments :: "AccessWithNode list \<Rightarrow> AccessWithNode list" where
  "activeAssignments assignments = filter (\<lambda>x. a_enabled (wn_access x)) assignments"

definition content_json :: string where "content_json = ''application/json; charset=utf-8''"
definition content_text :: string where "content_text = ''text/plain; charset=utf-8''"

text \<open>The body or the error, and the content type, which is set either way.\<close>

definition BuildSubscriptionWithMetadata ::
    "AccessWithNode list \<Rightarrow> string \<Rightarrow> bool \<Rightarrow> string \<Rightarrow> int \<Rightarrow> (goerr + string) \<times> string" where
  "BuildSubscriptionWithMetadata assignments0 format devMode profileTitle updateIntervalHours =
     (let assignments = activeAssignments assignments0; f = normalizeFormat format in
      if f \<in> {FormatJSON, FormatKaring, FormatSingBox} then (BuildSingboxJSON assignments, content_json)
      else if f = FormatHiddify then (buildHiddifyAll assignments devMode profileTitle, content_text)
      else if f = FormatHiddifyJSON then (BuildHiddifyJSON assignments, content_json)
      else if f = FormatMierus then (buildRawMieru assignments devMode, content_text)
      else if f = FormatNaive then (buildRawNaive assignments, content_text)
      else if f = FormatRaw then (buildRawAll assignments devMode profileTitle updateIntervalHours, content_text)
      else (BuildSingboxJSON assignments, content_json))"

definition BuildSubscription ::
    "AccessWithNode list \<Rightarrow> string \<Rightarrow> bool \<Rightarrow> (goerr + string) \<times> string" where
  "BuildSubscription assignments format devMode =
     BuildSubscriptionWithMetadata assignments format devMode DefaultProfileTitle DefaultUpdateIntervalHours"

section \<open>The service\<close>

record 'w subscription_deps =
  sd_GetByToken :: "string \<Rightarrow> ('w, User) io"
  sd_ActiveAccess :: "string \<Rightarrow> ('w, AccessWithNode list) io"
  sd_clock :: "('w, time) io"

record SubscriptionService =
  ss_devMode :: bool
  ss_profileTitle :: string
  ss_updateIntervalHours :: int

definition NewSubscriptionService :: "bool \<Rightarrow> string \<Rightarrow> int \<Rightarrow> SubscriptionService" where
  "NewSubscriptionService devMode profileTitle updateIntervalHours =
     \<lparr>ss_devMode = devMode,
      ss_profileTitle = (if TrimSpace profileTitle = [] then DefaultProfileTitle else profileTitle),
      ss_updateIntervalHours =
        (if updateIntervalHours \<le> 0 then DefaultUpdateIntervalHours else updateIntervalHours)\<rparr>"

text \<open>The clock is read by \<^verbatim>\<open>users.IsExpired\<close> when there is an expiry date and the user is enabled.\<close>

definition expired_now :: "'w subscription_deps \<Rightarrow> time option \<Rightarrow> ('w, bool) io" where
  "expired_now r expires_at =
     (case expires_at of
        None \<Rightarrow> retE False
      | Some x \<Rightarrow> bindE (sd_clock r) (\<lambda>current. retE (IsExpired current (Some x))))"

definition BuildByToken ::
    "'w subscription_deps \<Rightarrow> SubscriptionService \<Rightarrow> string \<Rightarrow> string \<Rightarrow> ('w, string \<times> string) io" where
  "BuildByToken r s token format =
     bindE (sd_GetByToken r token) (\<lambda>user.
     bindE (if \<not> u_enabled user then retE True else expired_now r (u_expires_at user)) (\<lambda>off.
       if off then failE ErrSubscriptionDisabled
       else
         bindE (sd_ActiveAccess r (u_id user)) (\<lambda>assignments.
           case BuildSubscriptionWithMetadata assignments format (ss_devMode s) (ss_profileTitle s)
                  (ss_updateIntervalHours s) of
             (Inl err, contentType) \<Rightarrow> failE err
           | (Inr body, contentType) \<Rightarrow> retE (body, contentType))))"

section \<open>Hosts and tags\<close>

lemma sanitizeHost_no_slash: "CHR ''/'' \<notin> set (sanitizeHost value)"
proof -
  define t where "t = fst (CutByte (TrimPrefix (TrimPrefix (TrimSpace value) ''http://'') ''https://'') (CHR ''/''))"
  define h where "h = (case SplitHostPort t of Some host \<Rightarrow> if host \<noteq> [] then host else t | None \<Rightarrow> t)"
  have "CHR ''/'' \<notin> set t" unfolding t_def by (rule CutByte_fst_free)
  then have h: "CHR ''/'' \<notin> set h"
    unfolding h_def by (auto split: option.splits dest!: set_SplitHostPort)
  have "sanitizeHost value = drop 1 (CleanRooted (''/'' @ h))"
    unfolding sanitizeHost_def Let_def h_def t_def ..
  then show ?thesis unfolding CleanRooted_single [OF h] using h by simp
qed

lemma hostFromURL_no_slash: "CHR ''/'' \<notin> set (hostFromURL value)"
  by (simp add: hostFromURL_def sanitizeHost_no_slash split: option.split)

lemma tag_body_chars: "set (tag_body prevDash rs) \<subseteq> {c. in_bytes 97 122 c \<or> in_bytes 48 57 c \<or> c = CHR ''-''}"
  by (induction prevDash rs rule: tag_body.induct) (auto simp: tag_rune_def in_bytes_def)

lemma singbox_outbound_tag:
  "wn_node_protocol_type a \<in> {''naive'', ''mieru''} \<Longrightarrow> map ob_tag (singbox_outbound a) = [outboundTag a]"
  by (auto simp: singbox_outbound_def new_outbound_def Let_def)

lemma singbox_outbounds_tags:
  assumes "\<And>a. a \<in> set as \<Longrightarrow> wn_node_protocol_type a \<in> {''naive'', ''mieru''}"
  shows "map ob_tag (concat (map singbox_outbound as)) = map outboundTag as"
  using assms
proof (induction as)
  case (Cons a as)
  then have "map ob_tag (singbox_outbound a) = [outboundTag a]" by (intro singbox_outbound_tag) simp
  with Cons show ?case by simp
qed simp

section \<open>Links\<close>

text \<open>Reading a link back: what stands between the scheme and the last part, and its two halves.\<close>

definition link_credentials :: "nat \<Rightarrow> string \<Rightarrow> string option \<times> string option" where
  "link_credentials scheme_length link =
     (let userinfo = fst (CutByte (drop scheme_length link) (CHR ''@''));
          halves = CutByte userinfo (CHR '':'')
      in (unescape (fst halves) encodeUserPassword, unescape (snd halves) encodeUserPassword))"

lemma userinfo_no_at: "CHR ''@'' \<notin> set (UserPassword_String u p)"
  by (simp add: UserPassword_String_def escape_userinfo_clean)

lemma link_credentials_read:
  "link_credentials (length scheme) (scheme @ UserPassword_String u p @ CHR ''@'' # rest) = (Some u, Some p)"
proof -
  have "CutByte (drop (length scheme) (scheme @ UserPassword_String u p @ CHR ''@'' # rest)) (CHR ''@'')
      = (UserPassword_String u p, rest)"
    using CutByte_append [OF userinfo_no_at] by simp
  moreover have "CutByte (UserPassword_String u p) (CHR '':'')
      = (escape u encodeUserPassword, escape p encodeUserPassword)"
    using CutByte_append [of "CHR '':''" "escape u encodeUserPassword"]
    by (simp add: UserPassword_String_def escape_userinfo_clean)
  ultimately show ?thesis
    by (simp add: link_credentials_def Let_def unescape_escape)
qed

lemma URL_String_eq:
  "scheme \<noteq> [] \<Longrightarrow> URL_String scheme ui host frag =
     (scheme @ ''://'') @ ui @ CHR ''@'' # escape host encodeHost
       @ (if frag = [] then [] else ''#'' @ escape frag encodeFragment)"
  by (simp add: URL_String_def)

text \<open>The bytes a URL may hold unescaped.\<close>

definition url_byte :: "char \<Rightarrow> bool" where
  "url_byte c \<longleftrightarrow> 32 < byte c \<and> byte c < 127"

lemma alnum_url_byte: "alnum c \<Longrightarrow> url_byte c"
  by (auto simp: alnum_def in_bytes_def url_byte_def)

lemma unescaped_url_byte:
  assumes "\<not> shouldEscape c mode"
  shows "url_byte c"
proof -
  have "alnum c \<or> c \<in> set (CHR 0x22 # CHR 0x27 # ''!$&()*+,;=:[]<>-_.~/?@'')"
  proof (rule ccontr)
    assume "\<not> (alnum c \<or> c \<in> set (CHR 0x22 # CHR 0x27 # ''!$&()*+,;=:[]<>-_.~/?@''))"
    then have "shouldEscape c mode" by (cases mode) (simp_all add: shouldEscape_def)
    with assms show False ..
  qed
  then show ?thesis using alnum_url_byte by (auto simp: url_byte_def)
qed

lemma escape_url_byte: "c \<in> set (escape s mode) \<Longrightarrow> url_byte c"
  using escape_chars unescaped_url_byte by (fastforce simp: url_byte_def)

lemma URL_String_url_bytes:
  assumes "c \<in> set (URL_String scheme ui host frag)" and "list_all url_byte scheme" and "list_all url_byte ui"
  shows "url_byte c"
  using assms escape_url_byte by (auto simp: URL_String_def list_all_iff url_byte_def split: if_splits)

lemma userinfo_url_bytes: "list_all url_byte (UserPassword_String u p)"
  using escape_url_byte by (auto simp: UserPassword_String_def list_all_iff url_byte_def)

section \<open>Errors\<close>

lemma concat_Nil_iff: "concat (map f xs) = [] \<longleftrightarrow> (\<forall>x \<in> set xs. f x = [])"
  by simp

lemma hiddify_lines_Nil: "hiddify_lines d a = [] \<longleftrightarrow> wn_node_protocol_type a \<notin> {''mieru'', ''naive''}"
  by (simp add: hiddify_lines_def)

lemma filter_length_0: "length (filter P xs) = 0 \<longleftrightarrow> (\<forall>x \<in> set xs. \<not> P x)"
  by (simp add: filter_empty_conv)

definition serves :: "string set \<Rightarrow> AccessWithNode list \<Rightarrow> bool" where
  "serves protocols as \<longleftrightarrow> (\<exists>a \<in> set as. a_enabled (wn_access a) \<and> wn_node_protocol_type a \<in> protocols)"

lemma buildHiddifyAll_error:
  "(\<exists>err. buildHiddifyAll (activeAssignments as) d t = Inl err) \<longleftrightarrow> \<not> serves {''mieru'', ''naive''} as"
proof -
  have "length ([''# '' @ t] @ concat (map (hiddify_lines d) (activeAssignments as))) = 1
      \<longleftrightarrow> (\<forall>a \<in> set (activeAssignments as). hiddify_lines d a = [])"
    by simp
  also have "\<dots> \<longleftrightarrow> \<not> serves {''mieru'', ''naive''} as"
    by (auto simp: serves_def activeAssignments_def hiddify_lines_Nil)
  finally show ?thesis unfolding buildHiddifyAll_def Let_def by (simp split: if_splits)
qed

lemma buildRawMieru_error:
  "(\<exists>err. buildRawMieru (activeAssignments as) d = Inl err) \<longleftrightarrow> \<not> serves {''mieru''} as"
  unfolding buildRawMieru_def Let_def length_map filter_length_0
  by (auto simp: serves_def activeAssignments_def)

lemma buildRawNaive_error:
  "(\<exists>err. buildRawNaive (activeAssignments as) = Inl err) \<longleftrightarrow> \<not> serves {''naive''} as"
  unfolding buildRawNaive_def Let_def length_map filter_length_0
  by (auto simp: serves_def activeAssignments_def)

lemma normalizeFormat_range:
  "normalizeFormat f \<in> {FormatJSON, FormatHiddify, FormatHiddifyJSON, FormatRaw, FormatMierus, FormatNaive}"
  by (simp add: normalizeFormat_def Let_def)

end
