(* ===== verification/Subscription_Panel.thy ===== *)
theory Subscription_Panel
  imports Subscription User_Repo Samples
begin

text \<open>
  The subscription service on the panel's repository, and its properties: whom it serves and with
  what, when it fails, that clients can read the credentials back from the links, and the shape
  of hosts, tags and links.
\<close>

section \<open>The interface\<close>

text \<open>
  \<open>holder w token u\<close>: the token is \<open>u\<close>'s; \<open>granted w uid\<close>: the assignments \<open>uid\<close> is to be served;
  \<open>later w\<close>: the clock's reading after one call of the repository.
\<close>

locale subscription_interface =
  fixes r :: "'w subscription_deps" and holder :: "'w \<Rightarrow> string \<Rightarrow> User \<Rightarrow> bool"
    and granted :: "'w \<Rightarrow> string \<Rightarrow> AccessWithNode set" and later :: "'w \<Rightarrow> time"
  assumes token_holder: "sd_GetByToken r token w = (Inr u, w') \<Longrightarrow> holder w token u"
    and token_granted: "sd_GetByToken r token w = (ans1, w') \<Longrightarrow> granted w' = granted w"
    and clock_granted: "sd_clock r w = (ans2, w') \<Longrightarrow> granted w' = granted w"
    and clock_later: "sd_GetByToken r token w = (ans1, w1) \<Longrightarrow> sd_clock r w1 = (Inr current, w2) \<Longrightarrow> current = later w"
    and access_granted: "sd_ActiveAccess r uid w = (Inr rows, w') \<Longrightarrow> set rows = granted w uid"
begin

lemma off_check:
  assumes "(if \<not> u_enabled u then retE True else expired_now r (u_expires_at u)) w1 = (Inr False, w2)"
    and "sd_GetByToken r token w = (ans, w1)"
  shows "u_enabled u \<and> \<not> IsExpired (later w) (u_expires_at u) \<and> granted w2 = granted w1"
proof (cases "u_expires_at u")
  case None
  with assms(1) show ?thesis by (auto simp: expired_now_def io_simps split: if_splits)
next
  case (Some x)
  with assms(1) obtain current where "u_enabled u" "sd_clock r w1 = (Inr current, w2)"
      "\<not> IsExpired current (Some x)"
    by (auto simp: expired_now_def bindE_Inr_iff io_simps simp del: IsExpired_simps split: if_splits)
  with Some clock_later [OF assms(2)] clock_granted show ?thesis by fastforce
qed

lemma build_only_granted:
  assumes "BuildByToken r s token format w = (Inr (body, contentType), w')"
  obtains u rows where "holder w token u" and "u_enabled u" and "\<not> IsExpired (later w) (u_expires_at u)"
    and "set rows = granted w (u_id u)"
    and "BuildSubscriptionWithMetadata rows format (ss_devMode s) (ss_profileTitle s) (ss_updateIntervalHours s)
      = (Inr body, contentType)"
proof -
  obtain u w1 off w2 where u: "sd_GetByToken r token w = (Inr u, w1)"
    and off: "(if \<not> u_enabled u then retE True else expired_now r (u_expires_at u)) w1 = (Inr off, w2)"
    and rest: "(if off then failE ErrSubscriptionDisabled
       else
         bindE (sd_ActiveAccess r (u_id u)) (\<lambda>assignments.
           case BuildSubscriptionWithMetadata assignments format (ss_devMode s) (ss_profileTitle s)
                  (ss_updateIntervalHours s) of
             (Inl err, contentType) \<Rightarrow> failE err
           | (Inr body, contentType) \<Rightarrow> retE (body, contentType))) w2 = (Inr (body, contentType), w')"
    using assms unfolding BuildByToken_def bindE_Inr_iff by blast
  from rest have "\<not> off" by (auto simp: io_simps)
  with rest obtain rows w3 where rows: "sd_ActiveAccess r (u_id u) w2 = (Inr rows, w3)"
    and "(case BuildSubscriptionWithMetadata rows format (ss_devMode s) (ss_profileTitle s)
                  (ss_updateIntervalHours s) of
             (Inl err, contentType) \<Rightarrow> failE err
           | (Inr body, contentType) \<Rightarrow> retE (body, contentType)) w3 = (Inr (body, contentType), w')"
    unfolding bindE_Inr_iff by (auto simp: bindE_Inr_iff)
  then have doc: "BuildSubscriptionWithMetadata rows format (ss_devMode s) (ss_profileTitle s)
        (ss_updateIntervalHours s) = (Inr body, contentType)"
    by (auto simp: io_simps split: prod.split_asm sum.split_asm)
  from off \<open>\<not> off\<close> have "u_enabled u \<and> \<not> IsExpired (later w) (u_expires_at u) \<and> granted w2 = granted w1"
    using off_check [OF _ u] by simp
  moreover have "granted w1 = granted w" using u by (rule token_granted)
  ultimately show thesis
    using that token_holder [OF u] access_granted [OF rows] doc by simp
qed

end

section \<open>The panel's repository\<close>

definition panel_subscription :: "env \<Rightarrow> world subscription_deps" where
  "panel_subscription e =
     \<lparr>sd_GetByToken = UserRepo_GetByToken e, sd_ActiveAccess = UserRepo_ActiveAccessForSubscription e,
      sd_clock = clock e\<rparr>"

definition access_with_node :: "Access \<Rightarrow> Node \<Rightarrow> AccessWithNode" where
  "access_with_node a n =
     \<lparr>wn_access = a, wn_agent_node_id = n_node_id n, wn_node_name = n_name n,
      wn_node_domain = n_domain n, wn_node_api_url = n_api_url n,
      wn_node_protocol_type = n_protocol_type n, wn_node_protocol_settings = n_protocol_settings n\<rparr>"

definition served :: "string \<Rightarrow> db \<Rightarrow> AccessWithNode set" where
  "served uid d =
     {access_with_node a n | a n. a \<in> set (t_access d) \<and> n \<in> set (t_nodes d)
        \<and> n_id n = a_node_id a \<and> a_user_id a = uid \<and> a_enabled a \<and> n_enabled n}"

lemma set_subscription_rows: "set (subscription_rows uid d) = served uid d"
  unfolding subscription_rows_def if_nested set_join served_def access_with_node_def by auto

definition panel_granted :: "env \<Rightarrow> world \<Rightarrow> string \<Rightarrow> AccessWithNode set" where
  "panel_granted e w uid =
     (case env_parse_uuid e uid of None \<Rightarrow> {} | Some key \<Rightarrow> served key (w_db w))"

lemma panel_granted_db: "w_db w' = w_db w \<Longrightarrow> panel_granted e w' = panel_granted e w"
  by (simp add: panel_granted_def fun_eq_iff split: option.split)

interpretation panel_subs: subscription_interface "panel_subscription e"
    "\<lambda>w token u. u \<in> set (t_users (w_db w)) \<and> u_subscription_token u = token"
    "panel_granted e" "\<lambda>w. env_now e (Suc (w_tick w))" for e
proof (unfold_locales, goal_cases)
  case (1 token w u w')
  then show ?case
    by (auto simp: panel_subscription_def UserRepo_GetByToken_def select_user_by_token_def
        dest!: query_Inr(1) find_SomeD split: option.splits)
next
  case (2 token w ans w')
  then have "w' = w\<lparr>w_tick := Suc (w_tick w)\<rparr>"
    by (auto simp: panel_subscription_def UserRepo_GetByToken_def dest: query_frame)
  then show ?case by (intro panel_granted_db) simp
next
  case (3 w ans w')
  then show ?case by (intro panel_granted_db) (auto simp: panel_subscription_def clock_def)
next
  case (4 token w ans w1 current w2)
  then have "w1 = w\<lparr>w_tick := Suc (w_tick w)\<rparr>"
    by (auto simp: panel_subscription_def UserRepo_GetByToken_def dest: query_frame)
  with 4(2) show ?case by (auto simp: panel_subscription_def clock_def)
next
  case (5 uid w rows w')
  then obtain d where "uuid_arg e uid (\<lambda>k. reading (\<lambda>d. Inr (sort_by
      (\<lambda>x y. env_collate e (wn_node_name x) (wn_node_name y)) (subscription_rows k d)))) (w_db w) = Inr (rows, d)"
    by (auto simp: panel_subscription_def UserRepo_ActiveAccessForSubscription_def elim!: exec_Inr)
  then show ?case
    by (auto simp: uuid_arg_def reading_def panel_granted_def set_subscription_rows split: option.splits)
qed

section \<open>Properties\<close>

text \<open>
  C13: whom the subscription link serves, and with what.  A document is only built for the user
  whose token is in the link, while this user is enabled and not expired at the reading of the
  clock, and it is built from exactly the enabled assignments of this user to enabled nodes, each
  with the data of its node.
\<close>

theorem BuildByToken_serves_entitled:
  assumes run: "BuildByToken (panel_subscription e) s token format w = (Inr (body, contentType), w')"
    and ids: "\<And>u. u \<in> set (t_users (w_db w)) \<Longrightarrow> env_parse_uuid e (u_id u) = Some (u_id u)"
  shows "\<exists>u rows. u \<in> set (t_users (w_db w)) \<and> u_subscription_token u = token \<and> u_enabled u
    \<and> \<not> IsExpired (env_now e (Suc (w_tick w))) (u_expires_at u)
    \<and> set rows = served (u_id u) (w_db w)
    \<and> BuildSubscriptionWithMetadata rows format (ss_devMode s) (ss_profileTitle s)
        (ss_updateIntervalHours s) = (Inr body, contentType)"
proof -
  obtain u rows where u: "u \<in> set (t_users (w_db w))" "u_subscription_token u = token" "u_enabled u"
      "\<not> IsExpired (env_now e (Suc (w_tick w))) (u_expires_at u)" "set rows = panel_granted e w (u_id u)"
      "BuildSubscriptionWithMetadata rows format (ss_devMode s) (ss_profileTitle s)
        (ss_updateIntervalHours s) = (Inr body, contentType)"
    using run by (rule panel_subs.build_only_granted) blast
  moreover have "panel_granted e w (u_id u) = served (u_id u) (w_db w)"
    using ids [OF u(1)] by (simp add: panel_granted_def)
  ultimately show ?thesis by metis
qed

definition sample_service :: SubscriptionService where
  "sample_service = NewSubscriptionService False ''Vetka'' 12"

lemma BuildByToken_serves_entitled_witness:
  "\<exists>u rows. u \<in> set (t_users sample_db) \<and> u_subscription_token u = ''t1'' \<and> u_enabled u
     \<and> \<not> IsExpired 100 (u_expires_at u) \<and> set rows = served (u_id u) sample_db
     \<and> BuildSubscriptionWithMetadata rows ''naive'' (ss_devMode sample_service) (ss_profileTitle sample_service)
         (ss_updateIntervalHours sample_service) = (Inr ''naive://pu:pp@edge.example:443#Edge'', content_text)"
proof -
  let ?run = "BuildByToken (panel_subscription sample_env) sample_service ''t1'' ''naive'' sample_world"
  have "fst ?run = Inr (''naive://pu:pp@edge.example:443#Edge'', content_text)"
    by code_simp
  then have run: "?run = (Inr (''naive://pu:pp@edge.example:443#Edge'', content_text), snd ?run)"
    by (metis prod.collapse)
  show ?thesis
    using BuildByToken_serves_entitled [OF run] by (simp only: sample_env_simps simp_thms)
qed

text \<open>
  C26: clients can read their credentials.  In each of the three kinds of link, for every
  assignment, the part between scheme and host splits into two halves, and undoing the percent
  encoding gives back the assignment's user name and password, whatever bytes they hold.
\<close>

theorem links_carry_credentials:
  "link_credentials (length ''naive+https://'') (BuildNaiveURI a)
     = (Some (a_protocol_username (wn_access a)), Some (a_protocol_password (wn_access a)))
   \<and> link_credentials (length ''naive://'') (BuildNaiveHiddifyURI a)
     = (Some (a_protocol_username (wn_access a)), Some (a_protocol_password (wn_access a)))
   \<and> link_credentials (length ''mierus://'') (BuildMieruURI a devMode)
     = (Some (a_protocol_username (wn_access a)), Some (a_protocol_password (wn_access a)))"
proof -
  have read: "link_credentials k (scheme @ UserPassword_String u p @ CHR ''@'' # rest) = (Some u, Some p)"
    if "k = length scheme" for k scheme u p rest
    using link_credentials_read that by simp
  have "link_credentials (length ''naive+https://'') (BuildNaiveURI a)
      = (Some (a_protocol_username (wn_access a)), Some (a_protocol_password (wn_access a)))"
    unfolding BuildNaiveURI_def Let_def by (subst URL_String_eq) (simp, rule read, simp)
  moreover have "link_credentials (length ''naive://'') (BuildNaiveHiddifyURI a)
      = (Some (a_protocol_username (wn_access a)), Some (a_protocol_password (wn_access a)))"
    unfolding BuildNaiveHiddifyURI_def Let_def by (subst URL_String_eq) (simp, rule read, simp)
  moreover have "link_credentials (length ''mierus://'') (BuildMieruURI a devMode)
      = (Some (a_protocol_username (wn_access a)), Some (a_protocol_password (wn_access a)))"
    unfolding BuildMieruURI_def Let_def
    using read [of "length ''mierus://''" "''mierus://''"] by simp
  ultimately show ?thesis by simp
qed

text \<open>
  C35: when a document is refused.  The JSON documents and the raw list are built for every list
  of assignments; the link lists are refused exactly when no enabled assignment is to a node of a
  protocol they list, so no request with a format the panel does not know is refused.
\<close>

theorem BuildSubscription_refused_iff:
  "(\<exists>err. fst (BuildSubscriptionWithMetadata as format devMode title hours) = Inl err) \<longleftrightarrow>
     (normalizeFormat format = FormatHiddify \<and> \<not> serves {''mieru'', ''naive''} as
      \<or> normalizeFormat format = FormatMierus \<and> \<not> serves {''mieru''} as
      \<or> normalizeFormat format = FormatNaive \<and> \<not> serves {''naive''} as)"
proof -
  have diff: "FormatHiddify \<notin> {FormatJSON, FormatKaring, FormatSingBox, FormatHiddifyJSON, FormatMierus, FormatNaive}"
      "FormatMierus \<notin> {FormatJSON, FormatKaring, FormatSingBox, FormatHiddifyJSON, FormatNaive}"
      "FormatNaive \<notin> {FormatJSON, FormatKaring, FormatSingBox, FormatHiddifyJSON}"
    by (simp_all add: format_constants)
  consider "normalizeFormat format = FormatHiddify" | "normalizeFormat format = FormatMierus"
      | "normalizeFormat format = FormatNaive"
      | "normalizeFormat format \<notin> {FormatHiddify, FormatMierus, FormatNaive}" by blast
  then show ?thesis
  proof cases
    case 1
    then have "fst (BuildSubscriptionWithMetadata as format devMode title hours)
        = buildHiddifyAll (activeAssignments as) devMode title"
      using diff by (simp add: BuildSubscriptionWithMetadata_def Let_def)
    with 1 diff show ?thesis by (auto simp: buildHiddifyAll_error)
  next
    case 2
    then have "fst (BuildSubscriptionWithMetadata as format devMode title hours)
        = buildRawMieru (activeAssignments as) devMode"
      using diff by (auto simp: BuildSubscriptionWithMetadata_def Let_def)
    with 2 diff show ?thesis by (auto simp: buildRawMieru_error)
  next
    case 3
    then have "fst (BuildSubscriptionWithMetadata as format devMode title hours)
        = buildRawNaive (activeAssignments as)"
      using diff by (auto simp: BuildSubscriptionWithMetadata_def Let_def)
    with 3 diff show ?thesis by (auto simp: buildRawNaive_error)
  next
    case 4
    then have "\<nexists>err. fst (BuildSubscriptionWithMetadata as format devMode title hours) = Inl err"
      by (simp add: BuildSubscriptionWithMetadata_def Let_def BuildSingboxJSON_def BuildHiddifyJSON_def
          buildRawAll_def)
    with 4 show ?thesis by simp
  qed
qed

text \<open>
  The selector of the sing-box document is closed.  For assignments to nodes of the two
  protocols the tables admit, every tag the selector offers is the tag of an outbound of the
  document, and the outbounds between the selector and the two fixed ones are the assignments, in
  their order.
\<close>

theorem selector_tags_closed:
  assumes "\<And>a. a \<in> set as \<Longrightarrow> wn_node_protocol_type a \<in> {''naive'', ''mieru''}"
  shows "set (ob_outbounds (hd (singbox_outbounds as))) \<subseteq> set (map ob_tag (tl (singbox_outbounds as)))
    \<and> map ob_tag (singbox_outbounds as) = ''proxy'' # map outboundTag as @ [''direct'', ''dns-out'']"
proof -
  have "map ob_tag (singbox_outbounds as) = ''proxy'' # map outboundTag as @ [''direct'', ''dns-out'']"
    using singbox_outbounds_tags [OF assms] by (simp add: singbox_outbounds_def new_outbound_def)
  moreover from this have "map ob_tag (tl (singbox_outbounds as)) = map outboundTag as @ [''direct'', ''dns-out'']"
    by (simp add: singbox_outbounds_def)
  moreover have "set (ob_outbounds (hd (singbox_outbounds as))) \<subseteq> insert ''direct'' (outboundTag ` set as)"
    by (auto simp: singbox_outbounds_def proxy_tags_def Let_def)
  ultimately show ?thesis by auto
qed

definition sample_row :: AccessWithNode where
  "sample_row = access_with_node (sample_access ''a1'' ''u1'') sample_node"

lemma selector_tags_closed_witness:
  "set (ob_outbounds (hd (singbox_outbounds [sample_row]))) = {''node-naive-edge''}
   \<and> map ob_tag (singbox_outbounds [sample_row]) = [''proxy'', ''node-naive-edge'', ''direct'', ''dns-out'']"
proof -
  have "outboundTag sample_row = ''node-naive-edge''"
    and "set (ob_outbounds (hd (singbox_outbounds [sample_row]))) = {''node-naive-edge''}" by code_simp+
  moreover have "wn_node_protocol_type sample_row = ''naive''"
    by (simp add: sample_row_def access_with_node_def sample_node_def)
  ultimately show ?thesis using selector_tags_closed [of "[sample_row]"] by simp
qed

text \<open>
  Two nodes can share a tag.  The tag keeps only letters and digits of the agent's node id, so
  ids that differ in punctuation, which the tables accept as different, get the same tag, and the
  document of a user with both has two outbounds of one tag.
\<close>

theorem outbound_tags_conflated:
  assumes "wn_agent_node_id a = p @ ''.'' @ q" and "wn_agent_node_id b = p @ ''-'' @ q"
    and "is_ascii p" and "is_ascii q"
    and "wn_node_protocol_type a = protocol" and "wn_node_protocol_type b = protocol"
    and "protocol \<in> {''naive'', ''mieru''}"
  shows "outboundTag a = outboundTag b \<and> \<not> distinct (map ob_tag (singbox_outbounds [a, b]))"
proof -
  have body: "tag_body pd (xs @ 46 # ys) = tag_body pd (xs @ 45 # ys)" for pd xs ys
    by (induction pd xs rule: tag_body.induct) (auto simp: tag_rune_def)
  have lower: "ToLower (p @ c # q) = map lower_byte p @ c # map lower_byte q" if "c \<in> {CHR ''.'', CHR ''-''}" for c
    using assms(3,4) that by (auto simp: ToLower_ascii lower_byte_def)
  have runes: "runes (map lower_byte p @ c # map lower_byte q)
      = map byte (map lower_byte p) @ byte c # map byte (map lower_byte q)" if "c \<in> {CHR ''.'', CHR ''-''}" for c
    using assms(3,4) that by (subst runes_ascii) auto
  have "outboundTag a = outboundTag b"
    using assms(1,2,5,6) lower [of "CHR ''.''"] lower [of "CHR ''-''"] runes [of "CHR ''.''"] runes [of "CHR ''-''"]
      body [of False "map byte (map lower_byte p)" "map byte (map lower_byte q)"]
    by (simp add: outboundTag_def Let_def)
  moreover have "map ob_tag (singbox_outbounds [a, b])
      = ''proxy'' # [outboundTag a, outboundTag b] @ [''direct'', ''dns-out'']"
    using singbox_outbound_tag [of a] singbox_outbound_tag [of b] assms(5-7)
    by (simp add: singbox_outbounds_def new_outbound_def)
  ultimately show ?thesis by simp
qed

lemma outbound_tags_conflated_witness:
  "\<not> distinct (map ob_tag (singbox_outbounds
     [sample_row\<lparr>wn_agent_node_id := ''de.1''\<rparr>, sample_row\<lparr>wn_agent_node_id := ''de-1''\<rparr>]))"
  using outbound_tags_conflated [of "sample_row\<lparr>wn_agent_node_id := ''de.1''\<rparr>" "''de''" "''1''"
      "sample_row\<lparr>wn_agent_node_id := ''de-1''\<rparr>" "''naive''"]
  by (simp add: sample_row_def access_with_node_def sample_node_def)

text \<open>
  A node that is only known by an IPv6 address in its agent's URL.  The brackets of the
  address are dropped on the way into the link, which then reads \<^verbatim>\<open>@2001:db8::1:443\<close>, where a
  URL needs \<^verbatim>\<open>@[2001:db8::1]:443\<close>.
\<close>

theorem ipv6_link_without_brackets:
  assumes "wn_node_domain a = []" and "wn_node_api_url a = ''http://[2001:db8::1]:8080''"
  shows "\<exists>rest. BuildNaiveHiddifyURI a =
    ''naive://'' @ UserPassword_String (a_protocol_username (wn_access a)) (a_protocol_password (wn_access a))
      @ ''@2001:db8::1:'' @ rest"
proof -
  have "sanitizeHost [] = []" and "hostFromURL ''http://[2001:db8::1]:8080'' = ''2001:db8::1''"
    by code_simp+
  then have "nodeServer a = ''2001:db8::1''" using assms by (simp add: nodeServer_def)
  moreover have "escape ''2001:db8::1:'' encodeHost = ''2001:db8::1:''" by code_simp
  then have "escape (''2001:db8::1'' @ CHR '':'' # port) encodeHost = ''2001:db8::1:'' @ escape port encodeHost" for port
    by (simp add: escape_def)
  ultimately show ?thesis
    by (simp add: BuildNaiveHiddifyURI_def URL_String_def Let_def)
qed

lemma ipv6_link_without_brackets_witness:
  "HasPrefix (BuildNaiveHiddifyURI
      (sample_row\<lparr>wn_node_domain := [], wn_node_api_url := ''http://[2001:db8::1]:8080''\<rparr>))
    ''naive://pu:pp@2001:db8::1:''"
proof -
  let ?a = "sample_row\<lparr>wn_node_domain := [], wn_node_api_url := ''http://[2001:db8::1]:8080''\<rparr>"
  have "a_protocol_username (wn_access ?a) = ''pu''" "a_protocol_password (wn_access ?a) = ''pp''"
    by (simp_all add: sample_row_def access_with_node_def sample_access_def)
  moreover have "UserPassword_String ''pu'' ''pp'' = ''pu:pp''" by code_simp
  ultimately have "\<exists>rest. BuildNaiveHiddifyURI ?a = ''naive://pu:pp@2001:db8::1:'' @ rest"
    using ipv6_link_without_brackets [of ?a] by simp
  then show ?thesis unfolding HasPrefix_iff .
qed

text \<open>
  C36: the hosts and the links of the naive protocol are clean.  Whatever the administrator typed
  in for domain and address, the host of a node is not empty and has no slash, and a link holds
  only visible ASCII bytes, so it stays on its line of the list.
\<close>

theorem naive_links_are_clean:
  "nodeServer a \<noteq> [] \<and> CHR ''/'' \<notin> set (nodeServer a)
   \<and> list_all url_byte (BuildNaiveURI a) \<and> list_all url_byte (BuildNaiveHiddifyURI a)"
proof -
  have "nodeServer a \<noteq> [] \<and> CHR ''/'' \<notin> set (nodeServer a)"
    by (simp add: nodeServer_def Let_def sanitizeHost_no_slash hostFromURL_no_slash)
  moreover have "list_all url_byte ''naive+https''" "list_all url_byte ''naive''"
    by (simp_all add: url_byte_def)
  ultimately show ?thesis
    using URL_String_url_bytes userinfo_url_bytes
    unfolding BuildNaiveURI_def BuildNaiveHiddifyURI_def Let_def list_all_iff by blast
qed

end
