(* ===== verification/Telemetry.thy ===== *)
theory Telemetry
  imports User_Repo
begin

text \<open>
  internal/telemetry: the sessions the node agents report, attributed to the panel's users.  The
  repositories and the agent client come in as the record \<open>'w telemetry_deps\<close>, the methods of the
  interfaces \<^verbatim>\<open>nodeReader\<close>, \<^verbatim>\<open>userReader\<close> and \<^verbatim>\<open>agentTelemetryFetcher\<close>.  This theory
  has the views, the attribution of a session to a user, and the view of one node; \<open>Telemetry_Pool\<close>
  has the pool of workers that asks all nodes, \<open>Telemetry_Pages\<close> the pages made of them.
\<close>

section \<open>Views\<close>

record telemetry_query =
  tq_include_recent :: bool
  tq_search :: string
  tq_protocol :: string
  tq_status :: string

record Summary =
  sm_active_sessions :: nat
  sm_unique_active_ips :: nat
  sm_collectors_ok :: nat
  sm_collectors_issues :: nat

record SessionView =
  sv_node_db_id :: string
  sv_node_id :: string
  sv_node_name :: string
  sv_node_protocol :: string
  sv_backend_user_id :: string
  sv_backend_username :: string
  sv_backend_display_name :: "string option"
  sv_user_known :: bool
  sv_masked_protocol_username :: string
  sv_client_ip :: string
  sv_active :: bool
  sv_first_seen_at :: "time option"
  sv_last_seen_at :: "time option"
  sv_upload_bytes :: int
  sv_download_bytes :: int
  sv_source :: string
  sv_traffic_scope :: string
  sv_user_present_in_cache :: bool
  sv_ip_observed :: bool
  sv_traffic_observed :: bool
  sv_search_protocol_username :: string
  sv_search_backend_display :: string

record NodeCollectorView =
  cv_node_db_id :: string
  cv_node_id :: string
  cv_node_name :: string
  cv_node_protocol :: string
  cv_node_enabled :: bool
  cv_collector_status :: string
  cv_last_successful_collection_at :: "time option"
  cv_capabilities :: TelemetryCapabilities
  cv_warnings :: "string list"
  cv_error :: string
  cv_configuration_issue :: string
  cv_sessions :: "SessionView list"
  cv_skipped_reason :: string

record AllSessionsResult =
  sr_rows :: "SessionView list"
  sr_nodes :: "NodeCollectorView list"
  sr_summary :: Summary
  sr_include_recent :: bool

type_synonym UserSessionsResult = AllSessionsResult

record NodeSessionsResult =
  nr_node :: NodeCollectorView
  nr_include_recent :: bool

section \<open>Attribution\<close>

datatype sessionResolution = sessionExcluded | sessionUnknown | sessionMatched

type_synonym fallbackIndex = "string \<rightharpoonup> (string \<rightharpoonup> string list)"

text \<open>A missing key of a Go map reads as the zero value.\<close>

definition index_users :: "fallbackIndex \<Rightarrow> string \<Rightarrow> string \<Rightarrow> string list" where
  "index_users index nodeID username =
     (case index nodeID of
        None \<Rightarrow> []
      | Some nodeItems \<Rightarrow> (case nodeItems username of None \<Rightarrow> [] | Some ids \<Rightarrow> ids))"

definition index_add :: "SessionLookup \<Rightarrow> fallbackIndex \<Rightarrow> fallbackIndex" where
  "index_add item index =
     (let nodeItems = (case index (sl_node_id item) of None \<Rightarrow> Map.empty | Some m \<Rightarrow> m);
          existing = (case nodeItems (sl_protocol_username item) of None \<Rightarrow> [] | Some ids \<Rightarrow> ids) in
      if sl_user_id item \<in> set existing then index(sl_node_id item \<mapsto> nodeItems)
      else index(sl_node_id item \<mapsto> nodeItems(sl_protocol_username item \<mapsto> existing @ [sl_user_id item])))"

definition buildFallbackIndex :: "SessionLookup list \<Rightarrow> fallbackIndex" where
  "buildFallbackIndex lookups = fold index_add lookups Map.empty"

definition user_map :: "User list \<Rightarrow> (string \<rightharpoonup> User)" where
  "user_map us = fold (\<lambda>u m. m(u_id u \<mapsto> u)) us Map.empty"

definition no_user :: "bool \<Rightarrow> User option \<times> sessionResolution" where
  "no_user strictUserScope = (None, if strictUserScope then sessionExcluded else sessionUnknown)"

definition resolveSessionUser ::
    "Node \<Rightarrow> TelemetrySession \<Rightarrow> (string \<rightharpoonup> User) \<Rightarrow> fallbackIndex \<Rightarrow> bool
       \<Rightarrow> User option \<times> sessionResolution" where
  "resolveSessionUser node session userMap assignments strictUserScope =
     (if ts_user_id session \<noteq> [] then
        (case userMap (ts_user_id session) of
           None \<Rightarrow> no_user strictUserScope
         | Some user \<Rightarrow> (Some user, sessionMatched))
      else
        let userIDs = index_users assignments (n_id node) (ts_protocol_username session) in
        if length userIDs \<noteq> 1 then no_user strictUserScope
        else case userMap (userIDs ! 0) of
               None \<Rightarrow> no_user strictUserScope
             | Some user \<Rightarrow> (Some user, sessionMatched))"

definition ptrString :: "string option \<Rightarrow> string" where
  "ptrString value = (case value of None \<Rightarrow> [] | Some s \<Rightarrow> s)"

definition buildSessionView :: "Node \<Rightarrow> TelemetrySession \<Rightarrow> User option \<Rightarrow> SessionView" where
  "buildSessionView node session matchedUser =
     \<lparr>sv_node_db_id = n_id node, sv_node_id = n_node_id node, sv_node_name = n_name node,
      sv_node_protocol = n_protocol_type node,
      sv_backend_user_id = (case matchedUser of None \<Rightarrow> [] | Some u \<Rightarrow> u_id u),
      sv_backend_username = (case matchedUser of None \<Rightarrow> [] | Some u \<Rightarrow> u_username u),
      sv_backend_display_name = (case matchedUser of None \<Rightarrow> None | Some u \<Rightarrow> u_display_name u),
      sv_user_known = (matchedUser \<noteq> None),
      sv_masked_protocol_username = MaskSecret (ts_protocol_username session),
      sv_client_ip = TrimSpace (ptrString (ts_client_ip session)),
      sv_active = ts_active session,
      sv_first_seen_at = ts_first_seen_at session, sv_last_seen_at = ts_last_seen_at session,
      sv_upload_bytes = ts_upload_bytes session, sv_download_bytes = ts_download_bytes session,
      sv_source = ts_source session, sv_traffic_scope = ts_traffic_scope session,
      sv_user_present_in_cache = ts_user_present_in_cache session,
      sv_ip_observed = ts_ip_observed session, sv_traffic_observed = ts_traffic_observed session,
      sv_search_protocol_username = ToLower (TrimSpace (ts_protocol_username session)),
      sv_search_backend_display =
        (case matchedUser of None \<Rightarrow> []
         | Some u \<Rightarrow> (case u_display_name u of None \<Rightarrow> [] | Some d \<Rightarrow> ToLower (TrimSpace d)))\<rparr>"

definition session_views ::
    "Node \<Rightarrow> (string \<rightharpoonup> User) \<Rightarrow> fallbackIndex \<Rightarrow> bool \<Rightarrow> TelemetrySession list \<Rightarrow> SessionView list" where
  "session_views node userMap assignments strictUserScope sessions =
     concat (map (\<lambda>session.
       case resolveSessionUser node session userMap assignments strictUserScope of
         (matched, sessionMatched) \<Rightarrow> [buildSessionView node session matched]
       | (matched, sessionUnknown) \<Rightarrow> [buildSessionView node session None]
       | (matched, sessionExcluded) \<Rightarrow> []) sessions)"

section \<open>One node\<close>

definition skipNode :: "Node \<Rightarrow> bool \<times> string" where
  "skipNode node =
     (if n_setup_state node = SetupStatePlanned then (True, ''planned'')
      else if TrimSpace (n_api_url node) = [] then (True, ''missing_api_url'')
      else if TrimSpace (n_node_id node) = [] then (True, ''missing_node_id'')
      else if TrimSpace (n_node_secret node) = [] then (True, ''missing_node_secret'')
      else (False, []))"

definition configurationIssueForReason :: "string \<Rightarrow> string" where
  "configurationIssueForReason reason =
     (if reason = ''missing_api_url'' then ''missing_api_url''
      else if reason = ''missing_node_id'' then ''missing_node_id''
      else if reason = ''missing_node_secret'' then ''missing_node_secret''
      else [])"

definition normalizedCollectorStatus :: "string \<Rightarrow> string" where
  "normalizedCollectorStatus value =
     (let s = ToLower (TrimSpace value) in
      if s = ''ok'' then ''ok'' else if s = ''partial'' then ''partial''
      else if s = ''disabled'' then ''disabled'' else ''unavailable'')"

definition zero_capabilities :: TelemetryCapabilities where
  "zero_capabilities =
     \<lparr>tc_client_ip = False, tc_per_user_activity = False, tc_traffic_counters = False,
      tc_first_seen = False, tc_last_seen = False\<rparr>"

definition base_view :: "Node \<Rightarrow> NodeCollectorView" where
  "base_view node =
     \<lparr>cv_node_db_id = n_id node, cv_node_id = n_node_id node, cv_node_name = n_name node,
      cv_node_protocol = n_protocol_type node, cv_node_enabled = n_enabled node,
      cv_collector_status = [], cv_last_successful_collection_at = None,
      cv_capabilities = zero_capabilities, cv_warnings = [], cv_error = [],
      cv_configuration_issue = [], cv_sessions = [], cv_skipped_reason = []\<rparr>"

text \<open>The dependencies of \<^verbatim>\<open>Service\<close> and its field \<^verbatim>\<open>concurrency\<close>.\<close>

record 'w telemetry_deps =
  td_ListNodes :: "('w, Node list) io"
  td_GetNode :: "string \<Rightarrow> ('w, Node) io"
  td_ListUsers :: "('w, User list) io"
  td_GetUser :: "string \<Rightarrow> ('w, User) io"
  td_SessionLookupForUser :: "string \<Rightarrow> ('w, SessionLookup list) io"
  td_SessionLookupForNodes :: "string list \<Rightarrow> ('w, SessionLookup list) io"
  td_TelemetrySessions :: "Node \<Rightarrow> bool \<Rightarrow> ('w, TelemetryResponse) io"
  td_concurrency :: int

text \<open>The view an answer of the agent, or its failure, gives.\<close>

definition answered_view ::
    "Node \<Rightarrow> (string \<rightharpoonup> User) \<Rightarrow> fallbackIndex \<Rightarrow> bool \<Rightarrow> goerr + TelemetryResponse \<Rightarrow> NodeCollectorView" where
  "answered_view node userMap assignments strictUserScope ans =
     (case ans of
        Inl err \<Rightarrow> (base_view node)\<lparr>cv_collector_status := ''unavailable'', cv_error := error_text err\<rparr>
      | Inr response \<Rightarrow>
          (base_view node)\<lparr>
            cv_collector_status := normalizedCollectorStatus (tr_collector_status response),
            cv_last_successful_collection_at := tr_last_successful_collection_at response,
            cv_capabilities := tr_capabilities response,
            cv_warnings := tr_warnings response,
            cv_sessions := session_views node userMap assignments strictUserScope (tr_sessions response)\<rparr>)"

definition fetchNodeView ::
    "'w telemetry_deps \<Rightarrow> Node \<Rightarrow> bool \<Rightarrow> (string \<rightharpoonup> User) \<Rightarrow> fallbackIndex \<Rightarrow> bool
       \<Rightarrow> ('w, NodeCollectorView) io" where
  "fetchNodeView r node includeRecent userMap assignments strictUserScope =
     (case skipNode node of
        (True, reason) \<Rightarrow>
          retE ((base_view node)\<lparr>cv_collector_status := ''disabled'', cv_skipped_reason := reason,
                  cv_configuration_issue := configurationIssueForReason reason\<rparr>)
      | (False, _) \<Rightarrow>
          bindE (attemptE (td_TelemetrySessions r node includeRecent)) (\<lambda>ans.
            retE (answered_view node userMap assignments strictUserScope ans)))"

end
