(* ===== verification/Telemetry_Pool.thy ===== *)
theory Telemetry_Pool
  imports Telemetry
begin

text \<open>
  \<^verbatim>\<open>fetchNodes\<close> of internal/telemetry/service.go: the pool of workers that asks the nodes of a page.
  The pool is the machine its goroutines form: the sending loop, the unbuffered channel \<^verbatim>\<open>jobs\<close>,
  the workers with the job they hold, the counter of the wait group, and the slice of results, which
  starts with zero values.  A step of the machine is one move of one goroutine.  Which of the
  possible moves comes next, and after how many moves the page's context is done, is an argument,
  the \<open>schedule\<close>; so what holds for every schedule holds for every interleaving.

  The main theorem refines the machine to a loop without goroutines: it asks some of the nodes, each once,
  one after the other.
\<close>

section \<open>The machine\<close>

record schedule =
  pick :: "nat \<Rightarrow> nat"
  deadline :: "nat option"

definition ctx_done :: "schedule \<Rightarrow> nat \<Rightarrow> bool" where
  "ctx_done sched t = (case deadline sched of None \<Rightarrow> False | Some d \<Rightarrow> d \<le> t)"

text \<open>A worker waits in \<^verbatim>\<open>range jobs\<close>, has received a job, or has left the loop.\<close>

datatype worker = Receiving | Fetching nat | Stopped

record pool =
  pl_sent :: nat
  pl_closed :: bool
  pl_workers :: "worker list"
  pl_wg :: nat
  pl_results :: "NodeCollectorView list"
  pl_returned :: bool

datatype pool_move =
    Cancel
  | Hand nat
  | Close
  | Return
  | Fetch nat
  | Stop nat

definition defaultConcurrency :: int where
  "defaultConcurrency = 6"

definition semSize :: "int \<Rightarrow> nat \<Rightarrow> int" where
  "semSize concurrency n =
     (let sem = (if concurrency \<le> 0 then defaultConcurrency else concurrency) in
      if sem > int n then int n else sem)"

definition zero_view :: NodeCollectorView where
  "zero_view =
     \<lparr>cv_node_db_id = [], cv_node_id = [], cv_node_name = [], cv_node_protocol = [],
      cv_node_enabled = False, cv_collector_status = [], cv_last_successful_collection_at = None,
      cv_capabilities = zero_capabilities, cv_warnings = [], cv_error = [],
      cv_configuration_issue = [], cv_sessions = [], cv_skipped_reason = []\<rparr>"

definition canceled_view :: "Node \<Rightarrow> NodeCollectorView" where
  "canceled_view node =
     \<lparr>cv_node_db_id = n_id node, cv_node_id = n_node_id node, cv_node_name = n_name node,
      cv_node_protocol = n_protocol_type node, cv_node_enabled = n_enabled node,
      cv_collector_status = ''unavailable'', cv_last_successful_collection_at = None,
      cv_capabilities = zero_capabilities, cv_warnings = [], cv_error = ''telemetry request canceled'',
      cv_configuration_issue = [], cv_sessions = [], cv_skipped_reason = []\<rparr>"

text \<open>After the loop that starts the workers.\<close>

definition start_pool :: "nat \<Rightarrow> nat \<Rightarrow> pool" where
  "start_pool sem n =
     \<lparr>pl_sent = 0, pl_closed = False, pl_workers = replicate sem Receiving, pl_wg = sem,
      pl_results = replicate n zero_view, pl_returned = False\<rparr>"

text \<open>
  The moves that are possible.  The sending loop is at its \<^verbatim>\<open>select\<close>: it can take the canceled
  branch once the context is done, and hand the job to any worker that receives; after the loop it
  closes the channel, and \<^verbatim>\<open>wg.Wait\<close> lets it return once the counter is zero.  A worker with
  a job fetches; one that receives on the closed channel leaves its loop.
\<close>

definition main_moves :: "bool \<Rightarrow> nat \<Rightarrow> pool \<Rightarrow> pool_move list" where
  "main_moves ctxDone n p =
     (if pl_returned p then []
      else if pl_sent p < n then
        (if ctxDone then [Cancel] else [])
        @ map Hand (filter (\<lambda>k. pl_workers p ! k = Receiving) [0..<length (pl_workers p)])
      else if \<not> pl_closed p then [Close]
      else if pl_wg p = 0 then [Return]
      else [])"

definition worker_moves :: "pool \<Rightarrow> pool_move list" where
  "worker_moves p =
     concat (map (\<lambda>k. case pl_workers p ! k of
         Fetching i \<Rightarrow> [Fetch k]
       | Receiving \<Rightarrow> if pl_closed p then [Stop k] else []
       | Stopped \<Rightarrow> []) [0..<length (pl_workers p)])"

definition pool_moves :: "bool \<Rightarrow> nat \<Rightarrow> pool \<Rightarrow> pool_move list" where
  "pool_moves ctxDone n p = main_moves ctxDone n p @ worker_moves p"

definition fetch_view ::
    "'w telemetry_deps \<Rightarrow> Node list \<Rightarrow> bool \<Rightarrow> (string \<rightharpoonup> User) \<Rightarrow> fallbackIndex \<Rightarrow> bool
       \<Rightarrow> nat \<Rightarrow> ('w, NodeCollectorView) io" where
  "fetch_view r nodeList includeRecent userMap assignments strictUserScope i =
     fetchNodeView r (nodeList ! i) includeRecent userMap assignments strictUserScope"

fun pool_step ::
    "(nat \<Rightarrow> ('w, NodeCollectorView) io) \<Rightarrow> Node list \<Rightarrow> pool_move \<Rightarrow> pool \<Rightarrow> ('w, pool) io" where
  "pool_step fetch nodeList Cancel p =
     retE (p\<lparr>pl_results := (pl_results p)[pl_sent p := canceled_view (nodeList ! pl_sent p)],
             pl_sent := pl_sent p + 1\<rparr>)"
| "pool_step fetch nodeList (Hand k) p =
     retE (p\<lparr>pl_workers := (pl_workers p)[k := Fetching (pl_sent p)], pl_sent := pl_sent p + 1\<rparr>)"
| "pool_step fetch nodeList Close p = retE (p\<lparr>pl_closed := True\<rparr>)"
| "pool_step fetch nodeList Return p = retE (p\<lparr>pl_returned := True\<rparr>)"
| "pool_step fetch nodeList (Fetch k) p =
     (case pl_workers p ! k of
        Fetching i \<Rightarrow>
          bindE (fetch i) (\<lambda>view.
            retE (p\<lparr>pl_results := (pl_results p)[i := view], pl_workers := (pl_workers p)[k := Receiving]\<rparr>))
      | _ \<Rightarrow> retE p)"
| "pool_step fetch nodeList (Stop k) p =
     retE (p\<lparr>pl_workers := (pl_workers p)[k := Stopped], pl_wg := pl_wg p - 1\<rparr>)"

text \<open>The moves until none is possible; \<open>pool_work\<close> bounds their number.\<close>

fun run_pool ::
    "(nat \<Rightarrow> ('w, NodeCollectorView) io) \<Rightarrow> schedule \<Rightarrow> Node list \<Rightarrow> nat \<Rightarrow> nat \<Rightarrow> pool \<Rightarrow> ('w, pool) io" where
  "run_pool fetch sched nodeList t 0 p = retE p"
| "run_pool fetch sched nodeList t (Suc fuel) p =
     (let moves = pool_moves (ctx_done sched t) (length nodeList) p in
      if moves = [] then retE p
      else bindE (pool_step fetch nodeList (moves ! (pick sched t mod length moves)) p)
             (run_pool fetch sched nodeList (t + 1) fuel))"

definition worker_work :: "worker \<Rightarrow> nat" where
  "worker_work x = (case x of Fetching i \<Rightarrow> 2 | Receiving \<Rightarrow> 1 | Stopped \<Rightarrow> 0)"

definition pool_work :: "nat \<Rightarrow> pool \<Rightarrow> nat" where
  "pool_work n p =
     2 * (n - pl_sent p) + sum_list (map worker_work (pl_workers p))
     + (if pl_closed p then 0 else 1) + (if pl_returned p then 0 else 1)"

text \<open>
  A pool that could not go on before \<^verbatim>\<open>return results\<close> would wait for ever: the outcome \<open>deadlock\<close>,
  which no caller would see; the theorem below shows that there is no such schedule.
\<close>

definition deadlock :: goerr where
  "deadlock = Errorf ''all goroutines are asleep - deadlock!''"

definition fetchNodes ::
    "'w telemetry_deps \<Rightarrow> schedule \<Rightarrow> Node list \<Rightarrow> bool \<Rightarrow> (string \<rightharpoonup> User) \<Rightarrow> fallbackIndex \<Rightarrow> bool
       \<Rightarrow> ('w, NodeCollectorView list) io" where
  "fetchNodes r sched nodeList includeRecent userMap assignments strictUserScope =
     (if length nodeList = 0 then retE []
      else
        let start = start_pool (nat (semSize (td_concurrency r) (length nodeList))) (length nodeList) in
        bindE (run_pool (fetch_view r nodeList includeRecent userMap assignments strictUserScope)
                 sched nodeList 0 (pool_work (length nodeList) start) start) (\<lambda>p.
          if pl_returned p then retE (pl_results p) else failE deadlock))"

section \<open>The loop it refines\<close>

text \<open>Asking the nodes at the places \<open>js\<close>, one after the other.\<close>

definition ask_one ::
    "(nat \<Rightarrow> ('w, NodeCollectorView) io) \<Rightarrow> nat \<Rightarrow> NodeCollectorView list \<Rightarrow> ('w, NodeCollectorView list) io" where
  "ask_one fetch i results = bindE (fetch i) (\<lambda>view. retE (results[i := view]))"

lemma forE_snoc: "forE body (xs @ [x]) s w = bindE (forE body xs s) (body x) w"
proof (induction xs arbitrary: s w)
  case (Cons y ys)
  show ?case
    by (cases "body y s w"; cases "fst (body y s w)") (auto simp: bindE_def Cons.IH split: sum.splits prod.splits)
qed (simp add: bindE_def retE_def split: prod.splits sum.splits)

lemma ask_length:
  assumes "forE (ask_one fetch) js A w = (Inr B, v)"
  shows "length B = length A"
  using assms by (rule forE_prefix) (auto simp: ask_one_def bindE_Inr_iff io_simps)

lemma ask_others:
  assumes "forE (ask_one fetch) js A w = (Inr B, v)"
  shows "\<forall>i. i \<notin> set js \<longrightarrow> B ! i = A ! i"
  using assms by (rule forE_prefix) (auto simp: ask_one_def bindE_Inr_iff io_simps)

section \<open>The invariant of the machine\<close>

text \<open>Who is where: the counter of the wait group, the channel, the loop.\<close>

definition control_ok :: "nat \<Rightarrow> pool \<Rightarrow> bool" where
  "control_ok n p \<longleftrightarrow>
     pl_workers p \<noteq> [] \<and> pl_sent p \<le> n
     \<and> pl_wg p = length (filter (\<lambda>x. x \<noteq> Stopped) (pl_workers p))
     \<and> (Stopped \<in> set (pl_workers p) \<longrightarrow> pl_closed p)
     \<and> (pl_closed p \<longrightarrow> pl_sent p = n)
     \<and> (pl_returned p \<longrightarrow> pl_closed p \<and> pl_wg p = 0)"

text \<open>
  Where the jobs are: each place before the loop's is with exactly one worker, or asked, or
  canceled; \<open>js\<close> are the places asked so far and \<open>A\<close> what the loop without goroutines has made.
\<close>

definition holds_job :: "pool \<Rightarrow> nat \<Rightarrow> nat \<Rightarrow> bool" where
  "holds_job p k i \<longleftrightarrow> k < length (pl_workers p) \<and> pl_workers p ! k = Fetching i"

definition jobs_ok :: "bool \<Rightarrow> Node list \<Rightarrow> pool \<Rightarrow> nat list \<Rightarrow> NodeCollectorView list \<Rightarrow> bool" where
  "jobs_ok timed nodes p js A \<longleftrightarrow>
     length (pl_results p) = length nodes \<and> length A = length nodes
     \<and> distinct js \<and> (\<forall>i \<in> set js. i < pl_sent p)
     \<and> (\<forall>k i. holds_job p k i \<longrightarrow> i < pl_sent p \<and> i \<notin> set js)
     \<and> (\<forall>k l i. holds_job p k i \<longrightarrow> holds_job p l i \<longrightarrow> k = l)
     \<and> (\<forall>i < length nodes. i \<notin> set js \<longrightarrow> A ! i = canceled_view (nodes ! i))
     \<and> (\<forall>i < pl_sent p. (\<exists>k. holds_job p k i) \<or> pl_results p ! i = A ! i)
     \<and> (\<forall>i < pl_sent p. (\<exists>k. holds_job p k i) \<or> i \<in> set js \<or> timed)"

lemma set_worker_moves:
  "set (worker_moves p) =
     {Fetch k | k i. holds_job p k i}
     \<union> {Stop k | k. k < length (pl_workers p) \<and> pl_workers p ! k = Receiving \<and> pl_closed p}"
  by (auto simp: worker_moves_def holds_job_def split: worker.splits if_splits)

lemma pool_moves_cases:
  assumes "m \<in> set (pool_moves d n p)"
  obtains (cancel) "m = Cancel" and "d" and "pl_sent p < n" and "\<not> pl_returned p"
    | (hand) k where "m = Hand k" and "pl_sent p < n" and "\<not> pl_returned p"
        and "k < length (pl_workers p)" and "pl_workers p ! k = Receiving"
    | (close_) "m = Close" and "\<not> pl_sent p < n" and "\<not> pl_closed p" and "\<not> pl_returned p"
    | (return_) "m = Return" and "\<not> pl_sent p < n" and "pl_closed p" and "pl_wg p = 0" and "\<not> pl_returned p"
    | (fetch) k i where "m = Fetch k" and "holds_job p k i"
    | (stop) k where "m = Stop k" and "k < length (pl_workers p)" and "pl_workers p ! k = Receiving"
        and "pl_closed p"
  using assms by (auto simp: pool_moves_def main_moves_def set_worker_moves split: if_splits)

lemma filter_update_length:
  assumes "k < length xs"
  shows "length (filter P (xs[k := x])) + (if P (xs ! k) then 1 else 0)
    = length (filter P xs) + (if P x then 1 else 0)"
  using assms
proof (induction xs arbitrary: k)
  case (Cons y ys)
  then show ?case by (cases k) auto
qed simp

lemma pool_step_control:
  assumes move: "m \<in> set (pool_moves d n p)" and ok: "control_ok n p" and n: "n = length nodes"
    and step: "pool_step fetch nodes m p w = (Inr p', w')"
  shows "control_ok n p'"
proof (cases m)
  case Cancel
  with assms show ?thesis
    by (auto simp: pool_moves_def main_moves_def set_worker_moves control_ok_def io_simps split: if_splits)
next
  case (Hand k)
  with move have k: "k < length (pl_workers p)" "pl_workers p ! k = Receiving" "pl_sent p < n" "\<not> pl_returned p"
    by (auto simp: pool_moves_def main_moves_def set_worker_moves split: if_splits)
  with ok have open_: "\<not> pl_closed p" by (auto simp: control_ok_def)
  have "length (filter (\<lambda>x. x \<noteq> Stopped) ((pl_workers p)[k := Fetching (pl_sent p)]))
      = length (filter (\<lambda>x. x \<noteq> Stopped) (pl_workers p))"
    using filter_update_length [OF k(1), of "\<lambda>x. x \<noteq> Stopped" "Fetching (pl_sent p)"] k(2) by simp
  moreover have "Stopped \<notin> set ((pl_workers p)[k := Fetching (pl_sent p)])"
    using ok open_ set_update_subset_insert [of "pl_workers p" k "Fetching (pl_sent p)"] by (auto simp: control_ok_def)
  ultimately show ?thesis
    using Hand step k ok open_ by (auto simp: control_ok_def io_simps)
next
  case Close
  with assms show ?thesis
    by (auto simp: pool_moves_def main_moves_def set_worker_moves control_ok_def io_simps split: if_splits)
next
  case Return
  with assms show ?thesis
    by (auto simp: pool_moves_def main_moves_def set_worker_moves control_ok_def io_simps split: if_splits)
next
  case (Fetch k)
  with move obtain i where k: "k < length (pl_workers p)" "pl_workers p ! k = Fetching i"
    by (auto simp: pool_moves_def main_moves_def set_worker_moves holds_job_def split: if_splits)
  have "length (filter (\<lambda>x. x \<noteq> Stopped) ((pl_workers p)[k := Receiving]))
      = length (filter (\<lambda>x. x \<noteq> Stopped) (pl_workers p))"
    using filter_update_length [OF k(1), of "\<lambda>x. x \<noteq> Stopped" Receiving] k(2) by simp
  moreover have "Stopped \<in> set ((pl_workers p)[k := Receiving]) \<Longrightarrow> Stopped \<in> set (pl_workers p)"
    using set_update_subset_insert [of "pl_workers p" k Receiving] by auto
  ultimately show ?thesis
    using Fetch step k ok by (auto simp: control_ok_def io_simps bindE_Inr_iff)
next
  case (Stop k)
  with move have k: "k < length (pl_workers p)" "pl_workers p ! k = Receiving" "pl_closed p"
    by (auto simp: pool_moves_def main_moves_def set_worker_moves split: if_splits)
  have "length (filter (\<lambda>x. x \<noteq> Stopped) ((pl_workers p)[k := Stopped])) + 1
      = length (filter (\<lambda>x. x \<noteq> Stopped) (pl_workers p))"
    using filter_update_length [OF k(1), of "\<lambda>x. x \<noteq> Stopped" Stopped] k(2) by simp
  with Stop step k ok show ?thesis by (auto simp: control_ok_def io_simps)
qed

text \<open>No deadlock: before the return some goroutine can move, and every move uses up work.\<close>

lemma pool_progress:
  assumes ok: "control_ok n p" and running: "\<not> pl_returned p"
  shows "pool_moves d n p \<noteq> []"
proof (cases "\<exists>k i. holds_job p k i")
  case True
  then have "set (worker_moves p) \<noteq> {}" by (auto simp: set_worker_moves)
  then show ?thesis by (auto simp: pool_moves_def)
next
  case False
  then have idle: "x = Receiving \<or> x = Stopped" if "x \<in> set (pl_workers p)" for x
    using that by (cases x) (auto simp: holds_job_def in_set_conv_nth)
  show ?thesis
  proof (cases "pl_closed p")
    case True
    show ?thesis
    proof (cases "pl_wg p = 0")
      case False
      then obtain x where "x \<in> set (pl_workers p)" "x \<noteq> Stopped"
        using ok by (auto simp: control_ok_def filter_empty_conv)
      with idle obtain k where "k < length (pl_workers p)" "pl_workers p ! k = Receiving"
        by (metis in_set_conv_nth)
      with True have "Stop k \<in> set (worker_moves p)" by (auto simp: set_worker_moves)
      then show ?thesis by (auto simp: pool_moves_def)
    qed (use ok True running in \<open>simp add: pool_moves_def main_moves_def control_ok_def\<close>)
  next
    case False
    with ok idle have 0: "pl_workers p ! 0 = Receiving" "0 < length (pl_workers p)"
      by (auto simp: control_ok_def in_set_conv_nth)
    have "main_moves d n p \<noteq> []"
      using 0 False running by (auto simp: main_moves_def filter_empty_conv)
    then show ?thesis by (simp add: pool_moves_def)
  qed
qed

lemma sum_list_update_nat:
  assumes "k < length xs"
  shows "sum_list (map f (xs[k := x])) + f (xs ! k) = sum_list (map f xs) + (f x :: nat)"
  using assms
proof (induction xs arbitrary: k)
  case (Cons y ys)
  then show ?case by (cases k) auto
qed simp

lemma pool_step_work:
  assumes move: "m \<in> set (pool_moves d n p)"
    and step: "pool_step fetch nodes m p w = (Inr p', w')"
  shows "pool_work n p' < pool_work n p"
proof -
  have upd: "sum_list (map worker_work ((pl_workers p)[k := x])) + worker_work (pl_workers p ! k)
      = sum_list (map worker_work (pl_workers p)) + worker_work x" if "k < length (pl_workers p)" for k x
    using that by (rule sum_list_update_nat)
  note work = pool_work_def worker_work_def io_simps
  from move show ?thesis
  proof (cases rule: pool_moves_cases)
    case (hand k)
    with step upd [of k "Fetching (pl_sent p)"] show ?thesis by (auto simp: work)
  next
    case (fetch k i)
    with step upd [of k Receiving] show ?thesis by (auto simp: work bindE_Inr_iff holds_job_def)
  next
    case (stop k)
    with step upd [of k Stopped] show ?thesis by (auto simp: work)
  qed (use step in \<open>auto simp: work\<close>)
qed

section \<open>Where the jobs go\<close>

lemma jobs_ok_start:
  "jobs_ok timed nodes (start_pool sem (length nodes)) [] (map canceled_view nodes)"
  by (auto simp: jobs_ok_def start_pool_def holds_job_def)

lemma pool_step_jobs:
  assumes move: "m \<in> set (pool_moves d (length nodes) p)" and ok: "jobs_ok timed nodes p js A"
    and timed: "d \<Longrightarrow> timed" and sent: "pl_sent p \<le> length nodes"
    and asked: "forE (ask_one fetch) js (map canceled_view nodes) w = (Inr A, v)"
    and step: "pool_step fetch nodes m p v = (Inr p', v')"
  shows "\<exists>js' A'. jobs_ok timed nodes p' js' A'
    \<and> forE (ask_one fetch) js' (map canceled_view nodes) w = (Inr A', v')"
  using move
proof (cases rule: pool_moves_cases)
  case cancel
  have "A ! pl_sent p = canceled_view (nodes ! pl_sent p)" "pl_sent p \<notin> set js"
    using ok cancel by (auto simp: jobs_ok_def)
  moreover have "v' = v"
    "p' = p\<lparr>pl_results := (pl_results p)[pl_sent p := canceled_view (nodes ! pl_sent p)], pl_sent := pl_sent p + 1\<rparr>"
    using step cancel by (auto simp: io_simps)
  ultimately have "jobs_ok timed nodes p' js A"
    using ok cancel timed unfolding jobs_ok_def
    by (auto simp: holds_job_def nth_list_update less_Suc_eq)
  with asked \<open>v' = v\<close> show ?thesis by blast
next
  case (hand k)
  have p': "v' = v" "p' = p\<lparr>pl_workers := (pl_workers p)[k := Fetching (pl_sent p)], pl_sent := pl_sent p + 1\<rparr>"
    using step hand by (auto simp: io_simps)
  have holds: "holds_job p' l i \<longleftrightarrow> (if l = k then i = pl_sent p else holds_job p l i)" for l i
    using hand by (auto simp: p' holds_job_def nth_list_update)
  have free: "\<not> holds_job p k i" for i using hand by (simp add: holds_job_def)
  note D = ok [unfolded jobs_ok_def]
  have "jobs_ok timed nodes p' js A"
    unfolding jobs_ok_def
  proof (intro conjI)
    show "\<forall>i < pl_sent p'. (\<exists>k. holds_job p' k i) \<or> pl_results p' ! i = A ! i"
    proof (intro allI impI)
      fix i
      assume "i < pl_sent p'"
      then have "i = pl_sent p \<or> i < pl_sent p" by (auto simp: p')
      with D free holds show "(\<exists>k. holds_job p' k i) \<or> pl_results p' ! i = A ! i"
        by (auto simp: p'(2)) metis
    qed
    show "\<forall>i < pl_sent p'. (\<exists>k. holds_job p' k i) \<or> i \<in> set js \<or> timed"
    proof (intro allI impI)
      fix i
      assume "i < pl_sent p'"
      then have "i = pl_sent p \<or> i < pl_sent p" by (auto simp: p')
      with D free holds show "(\<exists>k. holds_job p' k i) \<or> i \<in> set js \<or> timed" by metis
    qed
    show "\<forall>k i. holds_job p' k i \<longrightarrow> i < pl_sent p' \<and> i \<notin> set js"
      using D unfolding holds by (auto simp: p' less_Suc_eq)
    show "\<forall>k l i. holds_job p' k i \<longrightarrow> holds_job p' l i \<longrightarrow> k = l"
      using D unfolding holds by (metis less_irrefl)
  qed (use D in \<open>auto simp: p'\<close>)
  with asked p' show ?thesis by blast
next
  case (fetch k i)
  obtain view where view: "fetch i v = (Inr view, v')"
    and p': "p' = p\<lparr>pl_results := (pl_results p)[i := view], pl_workers := (pl_workers p)[k := Receiving]\<rparr>"
    using step fetch by (auto simp: holds_job_def bindE_Inr_iff io_simps)
  have "forE (ask_one fetch) (js @ [i]) (map canceled_view nodes) w = (Inr (A[i := view]), v')"
    using asked view by (simp add: forE_snoc bindE_def ask_one_def retE_def)
  moreover have holds: "holds_job p' l j \<longleftrightarrow> l \<noteq> k \<and> holds_job p l j" for l j
    using fetch by (auto simp: p' holds_job_def nth_list_update)
  have same: "j = i" if "holds_job p k j" for j using that fetch by (simp add: holds_job_def)
  note D = ok [unfolded jobs_ok_def]
  have "jobs_ok timed nodes p' (js @ [i]) (A[i := view])"
    unfolding jobs_ok_def
  proof (intro conjI)
    show "\<forall>j < pl_sent p'. (\<exists>k. holds_job p' k j) \<or> pl_results p' ! j = A[i := view] ! j"
    proof (intro allI impI)
      fix j
      assume j: "j < pl_sent p'"
      show "(\<exists>k. holds_job p' k j) \<or> pl_results p' ! j = A[i := view] ! j"
      proof (cases "j = i")
        case True
        then show ?thesis using D j sent by (simp add: p')
      next
        case False
        with D j same show ?thesis unfolding holds by (auto simp: p') metis
      qed
    qed
    show "\<forall>j < pl_sent p'. (\<exists>k. holds_job p' k j) \<or> j \<in> set (js @ [i]) \<or> timed"
    proof (intro allI impI)
      fix j
      assume j: "j < pl_sent p'"
      with D have "(\<exists>l. holds_job p l j) \<or> j \<in> set js \<or> timed" by (simp add: p')
      with same show "(\<exists>k. holds_job p' k j) \<or> j \<in> set (js @ [i]) \<or> timed"
        unfolding holds by (metis Un_iff list.set_intros(1) set_append)
    qed
    show "\<forall>l j. holds_job p' l j \<longrightarrow> j < pl_sent p' \<and> j \<notin> set (js @ [i])"
      using D fetch unfolding holds by (auto simp: p')
  qed (use D fetch holds in \<open>auto simp: p'\<close>)
  ultimately show ?thesis by blast
next
  case (stop k)
  have p': "v' = v" "p' = p\<lparr>pl_workers := (pl_workers p)[k := Stopped], pl_wg := pl_wg p - 1\<rparr>"
    using step stop by (auto simp: io_simps)
  have holds: "holds_job p' l j \<longleftrightarrow> holds_job p l j" for l j
    using stop by (auto simp: p' holds_job_def nth_list_update)
  have "jobs_ok timed nodes p' js A" using ok unfolding jobs_ok_def holds by (simp add: p')
  with asked p' show ?thesis by blast
next
  case close_
  then have "v' = v" "jobs_ok timed nodes p' js A"
    using step ok by (auto simp: io_simps jobs_ok_def holds_job_def)
  with asked show ?thesis by blast
next
  case return_
  then have "v' = v" "jobs_ok timed nodes p' js A"
    using step ok by (auto simp: io_simps jobs_ok_def holds_job_def)
  with asked show ?thesis by blast
qed

section \<open>The pool returns\<close>

lemma pool_step_total:
  assumes "\<forall>i v. \<exists>view v'. fetch i v = (Inr view, v')"
  shows "\<exists>p' v'. pool_step fetch nodes m p v = (Inr p', v')"
proof (cases m)
  case (Fetch k)
  show ?thesis
  proof (cases "pl_workers p ! k")
    case (Fetching i)
    moreover obtain view v' where "fetch i v = (Inr view, v')" using assms by blast
    ultimately show ?thesis using Fetch by (simp add: bindE_def io_simps)
  qed (simp_all add: Fetch io_simps)
qed (simp_all add: io_simps)

lemma run_pool_returns:
  assumes total: "\<forall>i v. \<exists>view v'. fetch i v = (Inr view, v')"
    and "control_ok (length nodes) p" and "jobs_ok (deadline sched \<noteq> None) nodes p js A"
    and "forE (ask_one fetch) js (map canceled_view nodes) w = (Inr A, v)"
    and "pool_work (length nodes) p \<le> fuel"
  shows "\<exists>p' v' js' A'. run_pool fetch sched nodes t fuel p v = (Inr p', v') \<and> pl_returned p'
    \<and> control_ok (length nodes) p' \<and> jobs_ok (deadline sched \<noteq> None) nodes p' js' A'
    \<and> forE (ask_one fetch) js' (map canceled_view nodes) w = (Inr A', v')"
  using assms(2-)
proof (induction fuel arbitrary: t p js A v)
  case 0
  then have "pl_returned p" by (auto simp: pool_work_def split: if_splits)
  with 0 show ?case by (auto simp: io_simps)
next
  case (Suc fuel)
  let ?moves = "pool_moves (ctx_done sched t) (length nodes) p"
  let ?m = "?moves ! (pick sched t mod length ?moves)"
  show ?case
  proof (cases "?moves = []")
    case True
    with pool_progress [OF Suc.prems(1)] have "pl_returned p" by blast
    with True Suc.prems show ?thesis by (auto simp: io_simps)
  next
    case False
    then have m: "?m \<in> set ?moves" by (simp add: nth_mem)
    obtain p1 v1 where step: "pool_step fetch nodes ?m p v = (Inr p1, v1)"
      using pool_step_total [OF total] by blast
    have sent: "pl_sent p \<le> length nodes" using Suc.prems(1) by (simp add: control_ok_def)
    have timed: "ctx_done sched t \<Longrightarrow> deadline sched \<noteq> None" by (auto simp: ctx_done_def split: option.splits)
    obtain js1 A1 where jobs: "jobs_ok (deadline sched \<noteq> None) nodes p1 js1 A1"
        "forE (ask_one fetch) js1 (map canceled_view nodes) w = (Inr A1, v1)"
      using pool_step_jobs [OF m Suc.prems(2) timed sent Suc.prems(3) step] by blast
    have "control_ok (length nodes) p1" by (rule pool_step_control [OF m Suc.prems(1) refl step])
    moreover have "pool_work (length nodes) p1 \<le> fuel"
      using pool_step_work [OF m step] Suc.prems(4) by simp
    ultimately show ?thesis
      using Suc.IH [of p1 js1 A1 v1 "t + 1"] jobs step False by (simp add: Let_def bindE_def)
  qed
qed

lemma fetchNodeView_total: "\<exists>view v'. fetchNodeView r node inc users index strict v = (Inr view, v')"
  by (cases "skipNode node"; cases "td_TelemetrySessions r node inc v")
    (auto simp: fetchNodeView_def bindE_def attemptE_def io_simps split: bool.split)

lemma fetchNodes_loop:
  "\<exists>js views w'. fetchNodes r sched nodes inc users index strict w = (Inr views, w')
     \<and> forE (ask_one (fetch_view r nodes inc users index strict)) js (map canceled_view nodes) w = (Inr views, w')
     \<and> distinct js
     \<and> (if deadline sched = None then set js = {0..<length nodes} else set js \<subseteq> {0..<length nodes})"
proof (cases "nodes = []")
  case True
  then show ?thesis by (intro exI [of _ "[]"]) (simp add: fetchNodes_def io_simps)
next
  case False
  let ?n = "length nodes" and ?fetch = "fetch_view r nodes inc users index strict"
  let ?start = "start_pool (nat (semSize (td_concurrency r) ?n)) ?n"
  have "0 < nat (semSize (td_concurrency r) ?n)"
    using False by (auto simp: semSize_def defaultConcurrency_def Let_def)
  then have "control_ok ?n ?start" by (simp add: control_ok_def start_pool_def)
  moreover have "\<forall>i v. \<exists>view v'. ?fetch i v = (Inr view, v')"
    by (simp add: fetch_view_def fetchNodeView_total)
  moreover have "forE (ask_one ?fetch) [] (map canceled_view nodes) w = (Inr (map canceled_view nodes), w)"
    by (simp add: io_simps)
  ultimately obtain p v js A where run: "run_pool ?fetch sched nodes 0 (pool_work ?n ?start) ?start w = (Inr p, v)"
      "pl_returned p" and ok: "control_ok ?n p" "jobs_ok (deadline sched \<noteq> None) nodes p js A"
      and asked: "forE (ask_one ?fetch) js (map canceled_view nodes) w = (Inr A, v)"
    using run_pool_returns [OF _ _ jobs_ok_start _ order_refl] by metis
  have sent: "pl_sent p = ?n" and "pl_wg p = 0" using ok(1) run(2) by (auto simp: control_ok_def)
  then have free: "\<not> holds_job p k i" for k i
    using ok(1) by (auto simp: control_ok_def holds_job_def filter_empty_conv dest!: nth_mem)
  have D: "length (pl_results p) = ?n" "length A = ?n" "distinct js" "\<forall>i \<in> set js. i < ?n"
      "\<forall>i < ?n. pl_results p ! i = A ! i" "\<forall>i < ?n. i \<in> set js \<or> deadline sched \<noteq> None"
    using ok(2) free by (simp_all add: jobs_ok_def sent)
  have "pl_results p = A" by (rule nth_equalityI) (use D sent in auto)
  moreover have "if deadline sched = None then set js = {0..<?n} else set js \<subseteq> {0..<?n}"
    using D sent by auto
  ultimately show ?thesis
    using run asked False D by (auto simp: fetchNodes_def Let_def bindE_def retE_def)
qed

lemma fetchNodeView_node:
  "fetchNodeView r node inc users index strict v = (Inr view, v') \<Longrightarrow> cv_node_db_id view = n_id node"
  by (auto simp: fetchNodeView_def answered_view_def base_view_def bindE_def attemptE_def io_simps
      split: prod.splits bool.splits sum.splits)

lemma ask_nodes:
  assumes "forE (ask_one (fetch_view r nodes inc users index strict)) js (map canceled_view nodes) w = (Inr views, w')"
  shows "map cv_node_db_id views = map n_id nodes"
  using assms
proof (rule forE_prefix)
  fix dn :: "nat list" and i todo A v A1 v1
  assume prev: "map cv_node_db_id A = map n_id nodes"
    and step: "ask_one (fetch_view r nodes inc users index strict) i A v = (Inr A1, v1)"
  then obtain view where "cv_node_db_id view = n_id (nodes ! i)" "A1 = A[i := view]"
    by (auto simp: ask_one_def fetch_view_def bindE_Inr_iff io_simps dest: fetchNodeView_node)
  moreover have "length A = length nodes" using prev by (metis length_map)
  ultimately show "map cv_node_db_id A1 = map n_id nodes"
    using prev by (cases "i < length nodes") (simp_all add: map_update list_update_same_conv list_update_beyond)
qed (simp add: canceled_view_def)


end
