(* ===== verification/Telemetry_Pages.thy ===== *)
theory Telemetry_Pages
  imports Telemetry_Pool
begin

text \<open>
  internal/telemetry, continued: how the sessions of a page are sorted, filtered and counted, and
  the three pages: the sessions of a node, of a user, and all of them.
\<close>

section \<open>Sorting, filtering, counting\<close>

text \<open>The comparison of \<^verbatim>\<open>sortSessions\<close>.\<close>

definition session_user :: "SessionView \<Rightarrow> string" where
  "session_user row = includesText [sv_backend_username row, sv_masked_protocol_username row]"

definition session_before :: "SessionView \<Rightarrow> SessionView \<Rightarrow> bool" where
  "session_before x y =
     (if sv_active x \<noteq> sv_active y then sv_active x
      else case (sv_last_seen_at x, sv_last_seen_at y) of
             (None, Some _) \<Rightarrow> False
           | (Some _, None) \<Rightarrow> True
           | (Some a, Some b) \<Rightarrow>
               if a \<noteq> b then a > b
               else if sv_node_name x \<noteq> sv_node_name y then sv_node_name x < sv_node_name y
               else session_user x < session_user y
           | (None, None) \<Rightarrow>
               if sv_node_name x \<noteq> sv_node_name y then sv_node_name x < sv_node_name y
               else session_user x < session_user y)"

definition sortSessions :: "SessionView list \<Rightarrow> SessionView list" where
  "sortSessions rows = sort_by session_before rows"

definition matchesSearch :: "SessionView \<Rightarrow> string \<Rightarrow> bool" where
  "matchesSearch row search =
     list_ex (\<lambda>value. Contains value search)
       [ToLower (sv_backend_username row), ToLower (sv_search_backend_display row),
        ToLower (sv_node_name row), ToLower (sv_client_ip row), ToLower (sv_search_protocol_username row)]"

definition status_keeps :: "string \<Rightarrow> SessionView \<Rightarrow> bool" where
  "status_keeps status row =
     (if status = ''active'' then sv_active row
      else if status = ''recent'' then \<not> sv_active row
      else if status = ''all'' then True
      else sv_active row)"

definition filterSessions :: "SessionView list \<Rightarrow> telemetry_query \<Rightarrow> SessionView list" where
  "filterSessions rows q =
     (let search = ToLower (TrimSpace (tq_search q));
          protocol = ToLower (TrimSpace (tq_protocol q));
          status = ToLower (TrimSpace (tq_status q));
          status = (if status = [] then ''active'' else status) in
      filter (\<lambda>row.
        \<not> (protocol \<noteq> [] \<and> protocol \<noteq> ''all'' \<and> ToLower (sv_node_protocol row) \<noteq> protocol)
        \<and> status_keeps status row
        \<and> \<not> (search \<noteq> [] \<and> \<not> matchesSearch row search)) rows)"

definition normalizedWarnings :: "string list \<Rightarrow> string list" where
  "normalizedWarnings warnings = filter (\<lambda>w. w \<noteq> []) (map TrimSpace warnings)"

definition NodeIssueCode :: "NodeCollectorView \<Rightarrow> string" where
  "NodeIssueCode node =
     (if cv_skipped_reason node = ''planned'' then []
      else if cv_skipped_reason node \<in> {''missing_api_url'', ''missing_node_id'', ''missing_node_secret''}
      then cv_skipped_reason node
      else if TrimSpace (cv_error node) \<noteq> [] then ''collector_unavailable''
      else if length (normalizedWarnings (cv_warnings node)) > 0 then ''collector_warning''
      else if TrimSpace (cv_configuration_issue node) \<noteq> [] then cv_configuration_issue node
      else let s = ToLower (TrimSpace (cv_collector_status node)) in
           if s = ''partial'' then ''collector_partial''
           else if s = ''unavailable'' then ''collector_unavailable''
           else if s = ''disabled'' then ''collector_disabled''
           else [])"

definition NodeHasIssue :: "NodeCollectorView \<Rightarrow> bool" where
  "NodeHasIssue node = (NodeIssueCode node \<noteq> [])"

text \<open>The two loops of \<^verbatim>\<open>buildSummary\<close>; the map \<^verbatim>\<open>uniqueActiveIPs\<close> is the list of its keys.\<close>

definition count_row :: "SessionView \<Rightarrow> nat \<times> string list \<Rightarrow> nat \<times> string list" where
  "count_row row = (\<lambda>(n, ips).
     if sv_active row
     then (n + 1, if sv_client_ip row \<noteq> [] \<and> sv_client_ip row \<notin> set ips then sv_client_ip row # ips else ips)
     else (n, ips))"

definition count_node :: "NodeCollectorView \<Rightarrow> nat \<times> nat \<Rightarrow> nat \<times> nat" where
  "count_node nodeView = (\<lambda>(ok, issues).
     if NodeHasIssue nodeView then (ok, issues + 1)
     else if cv_collector_status nodeView = ''ok'' then (ok + 1, issues)
     else (ok, issues))"

definition buildSummary :: "SessionView list \<Rightarrow> NodeCollectorView list \<Rightarrow> Summary" where
  "buildSummary rows nodeViews =
     (case fold count_row rows (0, []) of (n, ips) \<Rightarrow>
      case fold count_node nodeViews (0, 0) of (ok, issues) \<Rightarrow>
        \<lparr>sm_active_sessions = n, sm_unique_active_ips = length ips, sm_collectors_ok = ok,
         sm_collectors_issues = issues\<rparr>)"

section \<open>The three pages\<close>

definition collectNodeIDs :: "Node list \<Rightarrow> string list" where
  "collectNodeIDs nodeList = map n_id nodeList"

definition NodeSessions :: "'w telemetry_deps \<Rightarrow> string \<Rightarrow> bool \<Rightarrow> ('w, NodeSessionsResult) io" where
  "NodeSessions r nodeID includeRecent =
     bindE (td_GetNode r nodeID) (\<lambda>node.
     bindE (td_ListUsers r) (\<lambda>usersList.
     bindE (td_SessionLookupForNodes r [n_id node]) (\<lambda>lookups.
     bindE (fetchNodeView r node includeRecent (user_map usersList) (buildFallbackIndex lookups) False) (\<lambda>view.
       retE \<lparr>nr_node = view\<lparr>cv_sessions := sortSessions (cv_sessions view)\<rparr>,
             nr_include_recent = includeRecent\<rparr>))))"

text \<open>The loop over the user's assignments: the nodes that exist, each once.\<close>

definition target_node :: "(string \<rightharpoonup> Node) \<Rightarrow> SessionLookup \<Rightarrow> Node list \<times> string list \<Rightarrow> Node list \<times> string list" where
  "target_node nodeMap item = (\<lambda>(targets, seen).
     if sl_node_id item \<in> set seen then (targets, seen)
     else case nodeMap (sl_node_id item) of
            None \<Rightarrow> (targets, seen)
          | Some node \<Rightarrow> (targets @ [node], sl_node_id item # seen))"

definition node_map :: "Node list \<Rightarrow> (string \<rightharpoonup> Node)" where
  "node_map ns = fold (\<lambda>n m. m(n_id n \<mapsto> n)) ns Map.empty"

definition target_nodes :: "Node list \<Rightarrow> SessionLookup list \<Rightarrow> Node list" where
  "target_nodes nodesList lookups = fst (fold (target_node (node_map nodesList)) lookups ([], []))"

definition UserSessions ::
    "'w telemetry_deps \<Rightarrow> schedule \<Rightarrow> string \<Rightarrow> bool \<Rightarrow> ('w, UserSessionsResult) io" where
  "UserSessions r sched userID includeRecent =
     bindE (td_GetUser r userID) (\<lambda>_.
     bindE (td_SessionLookupForUser r userID) (\<lambda>lookups.
     bindE (td_ListNodes r) (\<lambda>nodesList.
     let targetNodes = target_nodes nodesList lookups in
     bindE (td_SessionLookupForNodes r (collectNodeIDs targetNodes)) (\<lambda>nodeLookups.
     bindE (td_GetUser r userID) (\<lambda>userRecord.
     bindE (fetchNodes r sched targetNodes includeRecent [u_id userRecord \<mapsto> userRecord]
              (buildFallbackIndex nodeLookups) True) (\<lambda>nodeViews.
       let rows = sortSessions (concat (map cv_sessions nodeViews)) in
       retE \<lparr>sr_rows = rows, sr_nodes = nodeViews, sr_summary = buildSummary rows nodeViews,
             sr_include_recent = includeRecent\<rparr>))))))"

definition AllSessions ::
    "'w telemetry_deps \<Rightarrow> schedule \<Rightarrow> telemetry_query \<Rightarrow> ('w, AllSessionsResult) io" where
  "AllSessions r sched q =
     bindE (td_ListNodes r) (\<lambda>nodesList.
     bindE (td_ListUsers r) (\<lambda>usersList.
     bindE (td_SessionLookupForNodes r (collectNodeIDs nodesList)) (\<lambda>lookups.
     bindE (fetchNodes r sched nodesList (tq_include_recent q) (user_map usersList)
              (buildFallbackIndex lookups) False) (\<lambda>nodeViews.
       let rows = sortSessions (filterSessions (concat (map cv_sessions nodeViews)) q) in
       retE \<lparr>sr_rows = rows, sr_nodes = nodeViews, sr_summary = buildSummary rows nodeViews,
             sr_include_recent = tq_include_recent q\<rparr>))))"

end
