(* ===== verification/Telemetry_Panel.thy ===== *)
theory Telemetry_Panel
  imports Telemetry_Pages Agent_Client Samples "HOL-Library.Product_Lexorder"
begin

text \<open>
  The telemetry service on the panel's repositories and agent client, and its properties: what the
  pages do to the outside, which sessions they show to whom, and how they sort, filter and count.
\<close>

section \<open>Pages stay within a preorder\<close>

text \<open>
  The contract of the dependencies for a relation \<open>R\<close> on states: the repository reads stay within
  it, and so does a call of an agent, for a node that is complete.
\<close>

locale telemetry_frame = preorder_on_states R for R :: "'w \<Rightarrow> 'w \<Rightarrow> bool" +
  fixes r :: "'w telemetry_deps"
  assumes list_nodes: "within R (td_ListNodes r)"
    and get_node: "within R (td_GetNode r nid)"
    and list_users: "within R (td_ListUsers r)"
    and get_user: "within R (td_GetUser r uid)"
    and lookup_user: "within R (td_SessionLookupForUser r uid)"
    and lookup_nodes: "within R (td_SessionLookupForNodes r nids)"
    and ask: "skipNode node = (False, []) \<Longrightarrow> within R (td_TelemetrySessions r node inc)"
begin

lemma fetchNodeView_frame: "within R (fetchNodeView r node inc users index strict)"
proof (cases "skipNode node")
  case (Pair skip reason)
  show ?thesis
  proof (cases skip)
    case True
    with Pair show ?thesis by (simp add: fetchNodeView_def pure)
  next
    case False
    with Pair have "skipNode node = (False, [])" by (simp add: skipNode_def split: if_splits)
    with Pair False show ?thesis by (simp add: fetchNodeView_def) (intro rules ask)
  qed
qed

lemma ask_frame: "within R (forE (ask_one (fetch_view r nodes inc users index strict)) js A)"
  unfolding ask_one_def fetch_view_def by (intro rules fetchNodeView_frame)

lemma fetchNodes_frame: "within R (fetchNodes r sched nodes inc users index strict)"
  using fetchNodes_loop within_snd [OF ask_frame]
  by (metis (no_types, lifting) snd_conv withinI)

text \<open>Every view of the pool is a canceled one or what \<^verbatim>\<open>fetchNodeView\<close> gave, for a node of the list.\<close>

lemma fetchNodes_views:
  assumes "fetchNodes r sched nodes inc users index strict w = (Inr views, w')"
  shows "\<forall>view \<in> set views. \<exists>node \<in> set nodes. view = canceled_view node
    \<or> (\<exists>v. R w v \<and> fst (fetchNodeView r node inc users index strict v) = Inr view)"
proof -
  let ?fetch = "fetch_view r nodes inc users index strict"
  let ?P = "\<lambda>view. \<exists>node \<in> set nodes. view = canceled_view node
    \<or> (\<exists>v. R w v \<and> fst (fetchNodeView r node inc users index strict v) = Inr view)"
  obtain js where js: "forE (ask_one ?fetch) js (map canceled_view nodes) w = (Inr views, w')"
      "set js \<subseteq> {0..<length nodes}"
    using fetchNodes_loop [of r sched nodes inc users index strict w] assms by (auto split: if_splits)
  from js(1) have "R w w' \<and> (\<forall>view \<in> set views. ?P view)"
  proof (rule forE_prefix)
    fix dn i todo A v A1 v1
    assume i: "js = dn @ i # todo" and prev: "R w v \<and> (\<forall>view \<in> set A. ?P view)"
      and step: "ask_one ?fetch i A v = (Inr A1, v1)"
    obtain view where view: "fetchNodeView r (nodes ! i) inc users index strict v = (Inr view, v1)"
      and A1: "A1 = A[i := view]"
      using step by (auto simp: ask_one_def fetch_view_def bindE_Inr_iff io_simps)
    have "nodes ! i \<in> set nodes" using i js(2) by auto
    then have "?P view" using prev view by (metis fst_conv)
    then have "\<forall>x \<in> set A1. ?P x" using prev A1 set_update_subset_insert [of A i view] by blast
    moreover have "R w v1" using prev withinD [OF fetchNodeView_frame view] R_trans by blast
    ultimately show "R w v1 \<and> (\<forall>x \<in> set A1. ?P x)" by blast
  qed (auto simp: R_refl)
  then show ?thesis by blast
qed

lemma pages_frame:
  "within R (NodeSessions r nid inc)"
  "within R (UserSessions r sched uid inc)"
  "within R (AllSessions r sched q)"
  unfolding NodeSessions_def UserSessions_def AllSessions_def Let_def
  by (intro rules list_nodes get_node list_users get_user lookup_user lookup_nodes
      fetchNodeView_frame fetchNodes_frame)+

end

section \<open>The panel's dependencies\<close>

definition panel_telemetry :: "env \<Rightarrow> world telemetry_deps" where
  "panel_telemetry e =
     \<lparr>td_ListNodes = NodeRepo_List e, td_GetNode = NodeRepo_Get e, td_ListUsers = UserRepo_List e,
      td_GetUser = UserRepo_Get e, td_SessionLookupForUser = UserRepo_SessionLookupForUser e,
      td_SessionLookupForNodes = UserRepo_SessionLookupForNodes e,
      td_TelemetrySessions = (\<lambda>node inc.
        bindE (Agent_TelemetrySessions e node inc) (\<lambda>(result, ans). liftE ans)),
      td_concurrency = defaultConcurrency\<rparr>"

text \<open>A request for the sessions of a node that is set up and has address, id and secret.\<close>

definition telemetry_request :: "http_request \<Rightarrow> bool" where
  "telemetry_request rq \<longleftrightarrow>
     (\<exists>node. n_setup_state node \<noteq> SetupStatePlanned \<and> TrimSpace (n_api_url node) \<noteq> []
        \<and> TrimSpace (n_node_id node) \<noteq> [] \<and> TrimSpace (n_node_secret node) \<noteq> []
        \<and> (rq = agent_request node ''GET'' ''/v1/telemetry/sessions'' None
           \<or> rq = agent_request node ''GET'' ''/v1/telemetry/sessions?include_recent=true'' None))"

definition only_asks :: "world \<Rightarrow> world \<Rightarrow> bool" where
  "only_asks w w' \<longleftrightarrow> w_db w' = w_db w
     \<and> (\<exists>rqs. w_requests w' = w_requests w @ rqs \<and> list_all telemetry_request rqs)"

lemma only_asks_preorder: "preorder_on_states only_asks"
proof
  fix u v w
  show "only_asks w w" by (simp add: only_asks_def)
  show "only_asks u v \<Longrightarrow> only_asks v w \<Longrightarrow> only_asks u w"
    unfolding only_asks_def by (metis append.assoc list_all_append)
qed

lemma only_asks_read:
  "within (db_rel tables_same) m \<Longrightarrow> within sends_nothing m \<Longrightarrow> within only_asks m"
  by (simp add: within_def only_asks_def db_rel_def tables_same_def sends_nothing_def)

lemma skipNode_complete:
  "skipNode node = (False, []) \<Longrightarrow> n_setup_state node \<noteq> SetupStatePlanned \<and> TrimSpace (n_api_url node) \<noteq> []
     \<and> TrimSpace (n_node_id node) \<noteq> [] \<and> TrimSpace (n_node_secret node) \<noteq> []"
  by (auto simp: skipNode_def split: if_splits)

lemma only_asks_agent:
  assumes "skipNode node = (False, [])"
  shows "within only_asks (td_TelemetrySessions (panel_telemetry e) node inc)"
proof -
  let ?path = "''/v1/telemetry/sessions'' @ (if inc then ''?include_recent=true'' else [])"
  have "telemetry_request (agent_request node ''GET'' ?path None)"
    using skipNode_complete [OF assms] unfolding telemetry_request_def by auto
  then have "only_asks w (snd (agent_do e node ''GET'' ?path None w))" for w
    by (simp add: agent_do_run only_asks_def)
  then have call: "within only_asks (agent_do e node ''GET'' ?path None)" by (rule withinI)
  have "td_TelemetrySessions (panel_telemetry e) node inc
      = bindE (Agent_TelemetrySessions e node inc) (\<lambda>(result, ans). liftE ans)"
    by (simp add: panel_telemetry_def)
  then show ?thesis
    unfolding Agent_TelemetrySessions_def Let_def
    by (simp only:) (intro preorder_on_states.rules [OF only_asks_preorder] call)
qed

lemma telemetry_reads:
  "within (db_rel tables_same) (NodeRepo_List e)" "within (db_rel tables_same) (NodeRepo_Get e k)"
  "within (db_rel tables_same) (UserRepo_List e)" "within (db_rel tables_same) (UserRepo_Get e k)"
  "within (db_rel tables_same) (UserRepo_SessionLookupForUser e k)"
  "within (db_rel tables_same) (UserRepo_SessionLookupForNodes e ks)"
  "within sends_nothing (NodeRepo_List e)" "within sends_nothing (NodeRepo_Get e k)"
  "within sends_nothing (UserRepo_List e)" "within sends_nothing (UserRepo_Get e k)"
  "within sends_nothing (UserRepo_SessionLookupForUser e k)"
  "within sends_nothing (UserRepo_SessionLookupForNodes e ks)"
  unfolding NodeRepo_List_def NodeRepo_Get_def UserRepo_List_def UserRepo_Get_def
    UserRepo_SessionLookupForUser_def UserRepo_SessionLookupForNodes_def
  by ((rule same.effect_rules silent.rules within_intros same.D_refl | simp)+)

interpretation panel_pages: telemetry_frame only_asks "panel_telemetry e" for e
proof (rule telemetry_frame.intro [OF only_asks_preorder], unfold_locales, goal_cases)
  case (7 node inc)
  then show ?case by (rule only_asks_agent)
qed (simp_all add: panel_telemetry_def only_asks_read telemetry_reads)

section \<open>The fallback index\<close>

definition assigned_users :: "SessionLookup list \<Rightarrow> string \<Rightarrow> string \<Rightarrow> string set" where
  "assigned_users lookups nid username =
     {sl_user_id l | l. l \<in> set lookups \<and> sl_node_id l = nid \<and> sl_protocol_username l = username}"

lemma index_users_add:
  "index_users (index_add item index) nid username =
     (if sl_node_id item = nid \<and> sl_protocol_username item = username
         \<and> sl_user_id item \<notin> set (index_users index nid username)
      then index_users index nid username @ [sl_user_id item]
      else index_users index nid username)"
  by (auto simp: index_users_def index_add_def Let_def split: option.splits)

lemma buildFallbackIndex_users:
  "set (index_users (buildFallbackIndex lookups) nid username) = assigned_users lookups nid username
   \<and> distinct (index_users (buildFallbackIndex lookups) nid username)"
proof -
  have "set (index_users (fold index_add lookups index) nid username)
        = set (index_users index nid username) \<union> assigned_users lookups nid username
      \<and> (distinct (index_users index nid username) \<longrightarrow> distinct (index_users (fold index_add lookups index) nid username))"
    for index
  proof (induction lookups arbitrary: index)
    case (Cons l ls)
    then show ?case by (auto simp: index_users_add assigned_users_def)
  qed (simp add: assigned_users_def)
  from this [of Map.empty] show ?thesis by (simp add: buildFallbackIndex_def index_users_def)
qed

lemma length_1_set: "distinct xs \<Longrightarrow> length xs = 1 \<longleftrightarrow> (\<exists>x. set xs = {x})"
  by (metis card_1_singleton_iff distinct_card One_nat_def)

section \<open>Own sessions\<close>

text \<open>
  Whose session a node reports: the user's it names; when it names none, the one user's that is
  assigned to the node under the session's protocol user name, if there is exactly one.
\<close>

definition names_user :: "db \<Rightarrow> string \<Rightarrow> string \<Rightarrow> TelemetrySession \<Rightarrow> bool" where
  "names_user d uid nid s \<longleftrightarrow>
     (if ts_user_id s \<noteq> [] then ts_user_id s = uid
      else {a_user_id a | a. a \<in> set (t_access d) \<and> a_node_id a = nid
              \<and> a_protocol_username a = ts_protocol_username s} = {uid})"

text \<open>
  A row shows a session of the user \<open>u\<close>, reported after \<open>w\<close> by the agent of a node to which the
  user is assigned.
\<close>

definition own_row :: "env \<Rightarrow> bool \<Rightarrow> world \<Rightarrow> User \<Rightarrow> SessionView \<Rightarrow> bool" where
  "own_row e inc w u row \<longleftrightarrow>
     (\<exists>n a v response s. n \<in> set (t_nodes (w_db w)) \<and> a \<in> set (t_access (w_db w))
        \<and> a_user_id a = u_id u \<and> a_node_id a = n_id n \<and> only_asks w v
        \<and> fst (td_TelemetrySessions (panel_telemetry e) (scanNode n) inc v) = Inr response
        \<and> s \<in> set (tr_sessions response) \<and> names_user (w_db w) (u_id u) (n_id n) s
        \<and> row = buildSessionView (scanNode n) s (Some u))"

lemma resolve_own:
  assumes "resolveSessionUser node s [u_id u \<mapsto> u] (buildFallbackIndex lookups) True = (matched, sessionMatched)"
  shows "matched = Some u \<and> (if ts_user_id s \<noteq> [] then ts_user_id s = u_id u
    else assigned_users lookups (n_id node) (ts_protocol_username s) = {u_id u})"
proof (cases "ts_user_id s = []")
  case True
  let ?ids = "index_users (buildFallbackIndex lookups) (n_id node) (ts_protocol_username s)"
  have "length ?ids = 1" "?ids ! 0 = u_id u" "matched = Some u"
    using assms True by (auto simp: resolveSessionUser_def no_user_def Let_def split: if_splits option.splits)
  moreover from this have "?ids = [u_id u]" by (auto simp: length_Suc_conv)
  ultimately show ?thesis
    using True buildFallbackIndex_users [of lookups "n_id node" "ts_protocol_username s"] by simp
next
  case False
  with assms show ?thesis
    by (auto simp: resolveSessionUser_def no_user_def split: if_splits option.splits)
qed

lemma strict_rows:
  assumes "row \<in> set (session_views node [u_id u \<mapsto> u] (buildFallbackIndex lookups) True sessions)"
  obtains s where "s \<in> set sessions" and "row = buildSessionView node s (Some u)"
    and "if ts_user_id s \<noteq> [] then ts_user_id s = u_id u
      else assigned_users lookups (n_id node) (ts_protocol_username s) = {u_id u}"
proof -
  obtain s where s: "s \<in> set sessions"
      "row \<in> set (case resolveSessionUser node s [u_id u \<mapsto> u] (buildFallbackIndex lookups) True of
         (matched, sessionMatched) \<Rightarrow> [buildSessionView node s matched]
       | (matched, sessionUnknown) \<Rightarrow> [buildSessionView node s None]
       | (matched, sessionExcluded) \<Rightarrow> [])"
    using assms by (auto simp: session_views_def)
  obtain m res where r: "resolveSessionUser node s [u_id u \<mapsto> u] (buildFallbackIndex lookups) True = (m, res)"
    by force
  then have "res \<noteq> sessionUnknown"
    by (auto simp: resolveSessionUser_def no_user_def Let_def split: if_splits option.splits)
  with r s(2) have "res = sessionMatched" "row = buildSessionView node s m" by (cases res; simp)+
  with s(1) resolve_own [of node s u lookups m] r that show thesis by blast
qed

lemma fetchNodeView_rows:
  assumes view: "fst (fetchNodeView r node inc users index strict v) = Inr view" and row: "row \<in> set (cv_sessions view)"
  obtains response where "fst (td_TelemetrySessions r node inc v) = Inr response"
    and "row \<in> set (session_views node users index strict (tr_sessions response))"
proof (cases "skipNode node")
  case (Pair skip reason)
  obtain ans v1 where call: "td_TelemetrySessions r node inc v = (ans, v1)" by force
  show thesis
  proof (cases "\<not> skip \<and> (\<exists>response. ans = Inr response)")
    case True
    then obtain response where "ans = Inr response" by blast
    with True Pair call view row that show thesis
      by (auto simp: fetchNodeView_def bindE_def attemptE_def io_simps answered_view_def)
  next
    case False
    with Pair call view have "cv_sessions view = []"
      by (auto simp: fetchNodeView_def bindE_def attemptE_def io_simps answered_view_def base_view_def
          split: sum.splits bool.splits)
    with row show thesis by simp
  qed
qed

lemma node_map_some: "node_map ns k = Some n \<Longrightarrow> n \<in> set ns \<and> n_id n = k"
proof -
  have "fold (\<lambda>n m. m(n_id n \<mapsto> n)) ns m k = Some n \<Longrightarrow> m k = Some n \<or> (n \<in> set ns \<and> n_id n = k)" for m
    by (induction ns arbitrary: m) (fastforce split: if_splits)+
  from this [of Map.empty] show "node_map ns k = Some n \<Longrightarrow> n \<in> set ns \<and> n_id n = k"
    by (simp add: node_map_def)
qed

lemma target_nodes_assigned:
  assumes "n \<in> set (target_nodes ns lookups)"
  shows "n \<in> set ns \<and> (\<exists>l \<in> set lookups. sl_node_id l = n_id n)"
proof -
  have "n \<in> set (fst (fold (target_node (node_map ns)) ls (targets, seen))) \<Longrightarrow>
      n \<in> set targets \<or> (n \<in> set ns \<and> (\<exists>l \<in> set ls. sl_node_id l = n_id n))" for ls targets seen
  proof (induction ls arbitrary: targets seen)
    case (Cons l ls)
    obtain targets1 seen1 where one: "target_node (node_map ns) l (targets, seen) = (targets1, seen1)" by force
    then have "set targets1 \<subseteq> set targets \<union> {m \<in> set ns. n_id m = sl_node_id l}"
      using node_map_some [of ns "sl_node_id l"] by (auto simp: target_node_def split: if_splits option.splits)
    with Cons.IH [of targets1 seen1] Cons.prems one show ?case by auto
  qed simp
  from this [of lookups "[]" "[]"] assms show ?thesis by (simp add: target_nodes_def)
qed

section \<open>Sorting and counting\<close>

definition session_key :: "SessionView \<Rightarrow> bool \<times> bool \<times> int \<times> string \<times> string" where
  "session_key row =
     (\<not> sv_active row, sv_last_seen_at row = None,
      (case sv_last_seen_at row of None \<Rightarrow> 0 | Some t \<Rightarrow> - t), sv_node_name row, session_user row)"

text \<open>The comparison is the lexicographic order of a key, so it is a strict weak order.\<close>

lemma session_before_key: "session_before x y \<longleftrightarrow> session_key x < session_key y"
  by (cases "sv_last_seen_at x"; cases "sv_last_seen_at y")
    (auto simp: session_before_def session_key_def)

interpretation sessions: strict_weak_order session_before
  by unfold_locales (auto simp: session_before_key)

lemma fold_count_node:
  "fold count_node views (ok, issues) =
     (ok + length (filter (\<lambda>v. \<not> NodeHasIssue v \<and> cv_collector_status v = ''ok'') views),
      issues + length (filter NodeHasIssue views))"
  by (induction views arbitrary: ok issues) (auto simp: count_node_def)

lemma fold_count_row:
  assumes "distinct ips"
  shows "\<exists>ips'. fold count_row rows (n, ips) = (n + length (filter sv_active rows), ips') \<and> distinct ips'
    \<and> set ips' = set ips \<union> {sv_client_ip row | row. row \<in> set rows \<and> sv_active row \<and> sv_client_ip row \<noteq> []}"
  using assms
proof (induction rows arbitrary: n ips)
  case (Cons row rows)
  obtain n1 ips1 where one: "count_row row (n, ips) = (n1, ips1)" by force
  then have "distinct ips1" "n1 = n + (if sv_active row then 1 else 0)"
      "set ips1 = set ips \<union> (if sv_active row \<and> sv_client_ip row \<noteq> [] then {sv_client_ip row} else {})"
    using Cons.prems by (auto simp: count_row_def split: if_splits)
  with Cons.IH [of ips1 n1] one show ?case by auto
qed simp

section \<open>Properties\<close>


text \<open>What the page reads before it asks the nodes, on tables that stay as they are.\<close>

lemma panel_read_db: "within (db_rel tables_same) m \<Longrightarrow> m w = (ans, w') \<Longrightarrow> w_db w' = w_db w"
  by (drule (1) withinD) (simp add: db_rel_def tables_same_def)

lemma UserSessions_parts:
  assumes run: "UserSessions (panel_telemetry e) sched uid inc w = (Inr result, w')"
    and key: "env_parse_uuid e uid = Some key"
  obtains u ns mine typed v views where
      "u \<in> set (t_users (w_db w))" and "u_id u = key" and "only_asks w v"
    and "set ns = scanNode ` set (t_nodes (w_db w))"
    and "mine = map session_lookup (filter (\<lambda>a. a_user_id a = key) (t_access (w_db w)))"
    and "fetchNodes (panel_telemetry e) sched (target_nodes ns mine) inc [u_id u \<mapsto> u]
      (buildFallbackIndex (map session_lookup (filter (\<lambda>a. a_node_id a \<in> set typed) (t_access (w_db w)))))
      True v = (Inr views, w')"
    and "set (sr_rows result) = (\<Union>view \<in> set views. set (cv_sessions view))"
proof -
  obtain u0 wa mine wb ns wc lookups wd u we views where
      a: "UserRepo_Get e uid w = (Inr u0, wa)" and b: "UserRepo_SessionLookupForUser e uid wa = (Inr mine, wb)"
      and c: "NodeRepo_List e wb = (Inr ns, wc)"
      and d: "UserRepo_SessionLookupForNodes e (collectNodeIDs (target_nodes ns mine)) wc = (Inr lookups, wd)"
      and u: "UserRepo_Get e uid wd = (Inr u, we)"
      and views: "fetchNodes (panel_telemetry e) sched (target_nodes ns mine) inc [u_id u \<mapsto> u]
        (buildFallbackIndex lookups) True we = (Inr views, w')"
      and rows: "sr_rows result = sortSessions (concat (map cv_sessions views))"
    using run unfolding UserSessions_def bindE_Inr_iff Let_def by (auto simp: io_simps panel_telemetry_def)
  have asks: "only_asks w we"
    using withinD [OF only_asks_read [OF telemetry_reads(4,10)] a] withinD [OF only_asks_read [OF telemetry_reads(5,11)] b]
      withinD [OF only_asks_read [OF telemetry_reads(1,7)] c] withinD [OF only_asks_read [OF telemetry_reads(6,12)] d]
      withinD [OF only_asks_read [OF telemetry_reads(4,10)] u]
    by (blast intro: preorder_on_states.R_trans [OF only_asks_preorder])
  have dbs: "w_db wa = w_db w" "w_db wb = w_db w" "w_db wc = w_db w" "w_db wd = w_db w"
    using panel_read_db [OF telemetry_reads(4) a] panel_read_db [OF telemetry_reads(5) b]
      panel_read_db [OF telemetry_reads(1) c] panel_read_db [OF telemetry_reads(6) d] by simp_all
  obtain d1 where "uuid_arg e uid (\<lambda>k. reading (select_user k)) (w_db w) = Inr (u, d1)"
    using u dbs by (auto simp: UserRepo_Get_def elim!: exec_Inr)
  then have user: "u \<in> set (t_users (w_db w)) \<and> u_id u = key"
    using key by (auto simp: uuid_arg_def reading_def select_user_def dest: find_SomeD
        split: option.splits sum.splits)
  have ns: "set ns = scanNode ` set (t_nodes (w_db w))"
    using query_Inr(1) [OF c [unfolded NodeRepo_List_def]] dbs by auto
  have mine: "mine = map session_lookup (filter (\<lambda>a. a_user_id a = key) (t_access (w_db w)))"
    using b key dbs by (auto simp: UserRepo_SessionLookupForUser_def uuid_arg_def reading_def elim!: exec_Inr)
  obtain ids where ids: "lookups = map session_lookup (filter (\<lambda>a. a_node_id a \<in> set ids) (t_access (w_db w)))"
  proof -
    obtain typed where typed: "(if typed = [] then retE []
        else query e (\<lambda>_ d. Inr (map session_lookup (filter (\<lambda>a. a_node_id a \<in> set typed) (t_access d))))) wc
        = (Inr lookups, wd)"
      using d by (auto simp: UserRepo_SessionLookupForNodes_def bindE_Inr_iff liftE_def)
    show thesis
    proof (cases "typed = []")
      case True
      with typed show thesis by (intro that [of "[]"]) (simp add: retE_def)
    next
      case False
      with typed query_Inr(1) [of e _ wc lookups wd] dbs show thesis by (intro that [of typed]) force
    qed
  qed
  have "set (sr_rows result) = (\<Union>view \<in> set views. set (cv_sessions view))" by (simp add: rows sortSessions_def)
  then show thesis using user by (intro that [OF _ _ asks ns mine views [unfolded ids]]) simp_all
qed

lemma scanNode_id [simp]: "n_id (scanNode n) = n_id n"
  by (simp add: scanNode_def)

text \<open>
  C25: the page of a user shows no one else's sessions.  Whatever the agents report and however
  the workers are scheduled, every row of the page is a session that the agent of a node the user is
  assigned to has reported while the page was made; and the report names the user, or it names nobody and
  the user is the only one with an assignment to the node under the session's protocol user name.
  So a session that names another user, or that may be another's, is on no row.
\<close>

theorem UserSessions_only_own:
  assumes run: "UserSessions (panel_telemetry e) sched uid inc w = (Inr result, w')"
    and key: "env_parse_uuid e uid = Some key"
  shows "\<exists>u \<in> set (t_users (w_db w)). u_id u = key \<and> list_all (own_row e inc w u) (sr_rows result)"
  using assms
proof (rule UserSessions_parts)
  fix u ns mine typed v views
  let ?lookups = "map session_lookup (filter (\<lambda>a. a_node_id a \<in> set typed) (t_access (w_db w)))"
  assume user: "u \<in> set (t_users (w_db w))" "u_id u = key" and v: "only_asks w v"
    and ns: "set ns = scanNode ` set (t_nodes (w_db w))"
    and mine: "mine = map session_lookup (filter (\<lambda>a. a_user_id a = key) (t_access (w_db w)))"
    and views: "fetchNodes (panel_telemetry e) sched (target_nodes ns mine) inc [u_id u \<mapsto> u]
      (buildFallbackIndex ?lookups) True v = (Inr views, w')"
    and rows: "set (sr_rows result) = (\<Union>view \<in> set views. set (cv_sessions view))"
  have "own_row e inc w u row" if row: "row \<in> set (sr_rows result)" for row
  proof -
    obtain view where "view \<in> set views" and in_view: "row \<in> set (cv_sessions view)" using row rows by blast
    with panel_pages.fetchNodes_views [OF views] obtain node where node: "node \<in> set (target_nodes ns mine)"
      and view: "view = canceled_view node \<or> (\<exists>v1. only_asks v v1 \<and> fst (fetchNodeView (panel_telemetry e) node inc
        [u_id u \<mapsto> u] (buildFallbackIndex ?lookups) True v1) = Inr view)" by blast
    then obtain v1 where v1: "only_asks v v1" "fst (fetchNodeView (panel_telemetry e) node inc
        [u_id u \<mapsto> u] (buildFallbackIndex ?lookups) True v1) = Inr view"
      using in_view by (auto simp: canceled_view_def)
    obtain response where response: "fst (td_TelemetrySessions (panel_telemetry e) node inc v1) = Inr response"
      and among: "row \<in> set (session_views node [u_id u \<mapsto> u] (buildFallbackIndex ?lookups) True (tr_sessions response))"
      using fetchNodeView_rows [OF v1(2) in_view] .
    obtain s where s: "s \<in> set (tr_sessions response)" "row = buildSessionView node s (Some u)"
        "if ts_user_id s \<noteq> [] then ts_user_id s = u_id u
          else assigned_users ?lookups (n_id node) (ts_protocol_username s) = {u_id u}"
      using strict_rows [OF among] .
    obtain n a where n: "n \<in> set (t_nodes (w_db w))" "node = scanNode n"
        and a: "a \<in> set (t_access (w_db w))" "a_user_id a = u_id u" "a_node_id a = n_id n"
      using target_nodes_assigned [OF node] ns mine user(2) by (auto simp: session_lookup_def)
    have "names_user (w_db w) (u_id u) (n_id n) s"
    proof (cases "ts_user_id s = []")
      case True
      with s(3) n(2) have "assigned_users ?lookups (n_id n) (ts_protocol_username s) = {u_id u}" by simp
      then have "n_id n \<in> set typed" by (auto simp: assigned_users_def session_lookup_def)
      then have "assigned_users ?lookups (n_id n) (ts_protocol_username s) =
          {a_user_id a | a. a \<in> set (t_access (w_db w)) \<and> a_node_id a = n_id n
             \<and> a_protocol_username a = ts_protocol_username s}"
        unfolding assigned_users_def by (force simp: session_lookup_def)
      with True s(3) n(2) show ?thesis by (simp add: names_user_def)
    qed (use s(3) in \<open>simp add: names_user_def\<close>)
    moreover have "only_asks w v1" using v v1(1) by (rule preorder_on_states.R_trans [OF only_asks_preorder])
    ultimately show ?thesis unfolding own_row_def using n a response s(1,2) by blast
  qed
  with user show ?thesis by (auto simp: list_all_iff)
qed

definition session_of :: "string \<Rightarrow> string \<Rightarrow> TelemetrySession" where
  "session_of uid username =
     \<lparr>ts_user_id = uid, ts_protocol_username = username, ts_user_present_in_cache = True,
      ts_protocol = ''naive'', ts_client_ip = Some ''10.0.0.1'', ts_first_seen_at = None,
      ts_last_seen_at = Some 90, ts_upload_bytes = 1, ts_download_bytes = 2, ts_active = True,
      ts_ip_observed = True, ts_traffic_observed = True, ts_source = ''log'', ts_traffic_scope = ''user''\<rparr>"

text \<open>The node is set up, and its agent reports a session of each of two users.\<close>

definition telemetry_env :: env where
  "telemetry_env = sample_env
     \<lparr>env_decode_telemetry := (\<lambda>_. Inr (sample_telemetry
        \<lparr>tr_sessions := [session_of ''u1'' ''pu'', session_of ''u2'' ''px'']\<rparr>))\<rparr>"

definition no_deadline :: schedule where
  "no_deadline = \<lparr>pick = (\<lambda>t. t), deadline = None\<rparr>"

lemma UserSessions_only_own_witness:
  "\<exists>result. fst (UserSessions (panel_telemetry telemetry_env) no_deadline ''u1'' False connected_world) = Inr result
     \<and> map sv_backend_user_id (sr_rows result) = [''u1'']
     \<and> (\<exists>u \<in> set (t_users sample_db). u_id u = ''u1'' \<and> list_all (own_row telemetry_env False connected_world u) (sr_rows result))"
proof -
  let ?run = "UserSessions (panel_telemetry telemetry_env) no_deadline ''u1'' False connected_world"
  have "case fst ?run of Inl err \<Rightarrow> False | Inr result \<Rightarrow> map sv_backend_user_id (sr_rows result) = [''u1'']"
    by code_simp
  then obtain result where result: "fst ?run = Inr result" "map sv_backend_user_id (sr_rows result) = [''u1'']"
    by (cases "fst ?run") auto
  then have run: "?run = (Inr result, snd ?run)" by (metis prod.collapse)
  have "env_parse_uuid telemetry_env ''u1'' = Some ''u1''" by (simp add: telemetry_env_def)
  from UserSessions_only_own [OF run this] result show ?thesis
    by (auto simp: connected_world_def)
qed

text \<open>
  C29: the order of the rows.  \<^verbatim>\<open>sortSessions\<close> gives a permutation of the rows in which no row
  comes after one it should precede: active before inactive, then the last seen first and the
  never seen last, then by node and user; rows that compare equal keep their order.
\<close>

theorem sortSessions_stable_sort:
  "sorted_wrt (\<lambda>x y. session_key x \<le> session_key y) (sortSessions rows)
   \<and> count_list (sortSessions rows) = count_list rows
   \<and> filter (\<lambda>y. session_key y = k) (sortSessions rows) = filter (\<lambda>y. session_key y = k) rows"
proof (intro conjI)
  show "sorted_wrt (\<lambda>x y. session_key x \<le> session_key y) (sortSessions rows)"
    using sessions.sort_by_sorted [of rows] by (simp add: sortSessions_def session_before_key not_less)
  show "count_list (sortSessions rows) = count_list rows" by (auto simp: sortSessions_def)
  have "filter (\<lambda>y. session_key y = k) rows' = (if \<exists>z. session_key z = k
      then filter (sessions.alike (SOME z. session_key z = k)) rows' else [])" for rows'
  proof (cases "\<exists>z. session_key z = k")
    case True
    then have "session_key (SOME z. session_key z = k) = k" by (rule someI_ex)
    then have "(\<lambda>y. session_key y = k) = sessions.alike (SOME z. session_key z = k)"
      by (auto simp: sessions.alike_def session_before_key fun_eq_iff not_less)
    with True show ?thesis by simp
  next
    case False
    then show ?thesis by (auto simp: filter_empty_conv)
  qed
  then show "filter (\<lambda>y. session_key y = k) (sortSessions rows) = filter (\<lambda>y. session_key y = k) rows"
    by (simp add: sortSessions_def sessions.sort_by_stable)
qed

text \<open>
  The counters of a page are what they say.  \<^verbatim>\<open>buildSummary\<close>'s loops count the active rows,
  the different addresses among them and the nodes with and without a problem; no node is counted
  twice.
\<close>

theorem buildSummary_counts:
  "sm_active_sessions (buildSummary rows views) = length (filter sv_active rows)
   \<and> sm_unique_active_ips (buildSummary rows views)
      = card {sv_client_ip row | row. row \<in> set rows \<and> sv_active row \<and> sv_client_ip row \<noteq> []}
   \<and> sm_collectors_issues (buildSummary rows views) = length (filter NodeHasIssue views)
   \<and> sm_collectors_ok (buildSummary rows views)
      = length (filter (\<lambda>v. \<not> NodeHasIssue v \<and> cv_collector_status v = ''ok'') views)
   \<and> sm_collectors_ok (buildSummary rows views) + sm_collectors_issues (buildSummary rows views) \<le> length views"
proof -
  obtain ips where ips: "fold count_row rows (0, []) = (length (filter sv_active rows), ips)" "distinct ips"
      "set ips = {sv_client_ip row | row. row \<in> set rows \<and> sv_active row \<and> sv_client_ip row \<noteq> []}"
    using fold_count_row [of "[]" rows 0] by auto
  have "length ips = card (set ips)" using ips(2) by (simp add: distinct_card)
  moreover have "length (filter (\<lambda>v. \<not> NodeHasIssue v \<and> cv_collector_status v = ''ok'') views)
      + length (filter NodeHasIssue views) \<le> length views"
    by (induction views) auto
  ultimately show ?thesis using ips by (simp add: buildSummary_def fold_count_node)
qed

text \<open>
  A session without a user id is attributed only when this is unambiguous: exactly one user
  has an assignment to the node with the session's protocol user name, and the session is shown as
  this user's.
\<close>

theorem fallback_attribution_unambiguous:
  assumes "ts_user_id session = []"
    and "resolveSessionUser node session users (buildFallbackIndex lookups) strict = (Some u, sessionMatched)"
  shows "\<exists>uid. assigned_users lookups (n_id node) (ts_protocol_username session) = {uid} \<and> users uid = Some u"
proof -
  let ?ids = "index_users (buildFallbackIndex lookups) (n_id node) (ts_protocol_username session)"
  have "length ?ids = 1" and u: "users (?ids ! 0) = Some u"
    using assms by (auto simp: resolveSessionUser_def no_user_def Let_def split: if_splits option.splits)
  moreover from this(1) obtain uid where "?ids = [uid]" by (auto simp: length_Suc_conv)
  ultimately show ?thesis
    using buildFallbackIndex_users [of lookups "n_id node" "ts_protocol_username session"] by auto
qed

lemma fallback_attribution_unambiguous_witness:
  "\<exists>uid. assigned_users [\<lparr>sl_user_id = ''u1'', sl_node_id = ''n1'', sl_protocol_username = ''pu''\<rparr>] ''n1'' ''pu'' = {uid}
     \<and> [''u1'' \<mapsto> sample_user] uid = Some sample_user"
proof -
  let ?lookups = "[\<lparr>sl_user_id = ''u1'', sl_node_id = ''n1'', sl_protocol_username = ''pu''\<rparr>]"
  have "resolveSessionUser sample_node (session_of [] ''pu'') [''u1'' \<mapsto> sample_user] (buildFallbackIndex ?lookups) True
      = (Some sample_user, sessionMatched)"
    by (simp add: resolveSessionUser_def buildFallbackIndex_def index_add_def index_users_def session_of_def
        sample_node_def Let_def)
  from fallback_attribution_unambiguous [OF _ this] show ?thesis by (simp add: session_of_def sample_node_def)
qed

end
