(* ===== verification/I18n.thy ===== *)
theory I18n
  imports Go_Strings
begin

text \<open>
  internal/http/handlers/i18n.go: the two tables of texts, the choice of the language and the
  lookup.  A text with letters beyond ASCII is the string of its code points.  A table is a list
  of keys and texts in the order of the source, cut into parts so that each part of one language
  has the keys of a part of the other.
\<close>

type_synonym Locale = string

definition LocaleRU :: Locale where "LocaleRU = ''ru''"
definition LocaleEN :: Locale where "LocaleEN = ''en''"
definition languageCookieName :: string where "languageCookieName = ''vetka_ui_language''"

section \<open>Texts\<close>

definition ru_a :: "(string \<times> string) list" where
  "ru_a = [
    (''page.dashboard'', string_of_runes [1043, 1083, 1072, 1074, 1085, 1072, 1103]),
    (''page.users'', string_of_runes [1055, 1086, 1083, 1100, 1079, 1086, 1074, 1072, 1090, 1077,
       1083, 1080]),
    (''page.user_detail'', string_of_runes [1055, 1086, 1083, 1100, 1079, 1086, 1074, 1072, 1090,
       1077, 1083, 1100]),
    (''page.nodes'', string_of_runes [1053, 1086, 1076, 1099]),
    (''page.sessions'', string_of_runes [1057, 1077, 1072, 1085, 1089, 1099]),
    (''page.node_detail'', string_of_runes [1048, 1085, 1092, 1086, 1088, 1084, 1072, 1094, 1080,
       1103, 32, 1086, 32, 1085, 1086, 1076, 1077]),
    (''page.node_edit'', string_of_runes [1048, 1079, 1084, 1077, 1085, 1077, 1085, 1080, 1077, 32,
       1085, 1086, 1076, 1099]),
    (''page.node_created'', string_of_runes [1053, 1086, 1076, 1072, 32, 1089, 1086, 1079, 1076,
       1072, 1085, 1072]),
    (''page.login'', string_of_runes [1042, 1093, 1086, 1076]),
    (''brand.tagline'', string_of_runes [1059, 1087, 1088, 1072, 1074, 1083, 1077, 1085, 1080,
       1077, 32, 1088, 1077, 1079, 1077, 1088, 1074, 1085, 1086, 1081, 32, 86, 80, 78, 45, 1080,
       1085, 1092, 1088, 1072, 1089, 1090, 1088, 1091, 1082, 1090, 1091, 1088, 1086, 1081]),
    (''nav.primary'', string_of_runes [1054, 1089, 1085, 1086, 1074, 1085, 1072, 1103, 32, 1085,
       1072, 1074, 1080, 1075, 1072, 1094, 1080, 1103]),
    (''nav.dashboard'', string_of_runes [1043, 1083, 1072, 1074, 1085, 1072, 1103]),
    (''nav.users'', string_of_runes [1055, 1086, 1083, 1100, 1079, 1086, 1074, 1072, 1090, 1077,
       1083, 1080]),
    (''nav.nodes'', string_of_runes [1053, 1086, 1076, 1099]),
    (''nav.sessions'', string_of_runes [1057, 1077, 1072, 1085, 1089, 1099]),
    (''sidebar.backend_ready'', string_of_runes [66, 97, 99, 107, 101, 110, 100, 32, 1076, 1086,
       1089, 1090, 1091, 1087, 1077, 1085, 46, 32, 1055, 1088, 1086, 1074, 1077, 1088, 1082, 1080,
       32, 1075, 1086, 1090, 1086, 1074, 1085, 1086, 1089, 1090, 1080, 32, 1080, 1089, 1087, 1086,
       1083, 1100, 1079, 1091, 1102, 1090, 32, 1083, 1086, 1082, 1072, 1083, 1100, 1085, 1086,
       1077, 32, 1087, 1086, 1076, 1082, 1083, 1102, 1095, 1077, 1085, 1080, 1077, 32, 1082, 32,
       1041, 1044, 46]),
    (''sidebar.language'', string_of_runes [1071, 1079, 1099, 1082, 32, 1080, 1085, 1090, 1077,
       1088, 1092, 1077, 1081, 1089, 1072]),
    (''lang.ru'', ''RU''),
    (''lang.en'', ''EN''),
    (''topbar.open_navigation'', string_of_runes [1054, 1090, 1082, 1088, 1099, 1090, 1100, 32,
       1085, 1072, 1074, 1080, 1075, 1072, 1094, 1080, 1102]),
    (''topbar.close_dialog'', string_of_runes [1047, 1072, 1082, 1088, 1099, 1090, 1100, 32, 1086,
       1082, 1085, 1086]),
    (''toast.dismiss'', string_of_runes [1047, 1072, 1082, 1088, 1099, 1090, 1100, 32, 1091, 1074,
       1077, 1076, 1086, 1084, 1083, 1077, 1085, 1080, 1077]),
    (''qr.title'', string_of_runes [81, 82, 45, 1082, 1086, 1076]),
    (''qr.default_title'', string_of_runes [81, 82, 32, 1087, 1086, 1076, 1087, 1080, 1089, 1082,
       1080]),
    (''button.copy_url'', string_of_runes [1057, 1082, 1086, 1087, 1080, 1088, 1086, 1074, 1072,
       1090, 1100, 32, 85, 82, 76]),
    (''button.close'', string_of_runes [1047, 1072, 1082, 1088, 1099, 1090, 1100]),
    (''button.copy'', string_of_runes [1050, 1086, 1087, 1080, 1088, 1086, 1074, 1072, 1090, 1100]),
    (''button.copied'', string_of_runes [1057, 1082, 1086, 1087, 1080, 1088, 1086, 1074, 1072,
       1085, 1086]),
    (''button.open'', string_of_runes [1054, 1090, 1082, 1088, 1099, 1090, 1100]),
    (''button.cancel'', string_of_runes [1054, 1090, 1084, 1077, 1085, 1072]),
    (''button.save'', string_of_runes [1057, 1086, 1093, 1088, 1072, 1085, 1080, 1090, 1100]),
    (''button.sync_all_nodes'', string_of_runes [1057, 1080, 1085, 1093, 1088, 1086, 1085, 1080,
       1079, 1080, 1088, 1086, 1074, 1072, 1090, 1100, 32, 1074, 1089, 1077, 32, 1085, 1086, 1076,
       1099]),
    (''button.reconcile_expired'', string_of_runes [1055, 1088, 1086, 1074, 1077, 1088, 1080, 1090,
       1100, 32, 1080, 1089, 1090, 1105, 1082, 1096, 1080, 1077, 32, 1087, 1086, 1076, 1087, 1080,
       1089, 1082, 1080]),
    (''status.no_display_name'', string_of_runes [1048, 1084, 1103, 32, 1085, 1077, 32, 1091, 1082,
       1072, 1079, 1072, 1085, 1086]),
    (''status.unlimited'', string_of_runes [1041, 1077, 1079, 32, 1086, 1075, 1088, 1072, 1085,
       1080, 1095, 1077, 1085, 1080, 1081]),
    (''status.active'', string_of_runes [1040, 1082, 1090, 1080, 1074, 1077, 1085]),
    (''status.expired'', string_of_runes [1057, 1088, 1086, 1082, 32, 1080, 1089, 1090, 1105,
       1082]),
    (''status.expires_soon'', string_of_runes [1057, 1082, 1086, 1088, 1086, 32, 1080, 1089, 1090,
       1077, 1095, 1105, 1090]),
    (''status.disabled'', string_of_runes [1054, 1090, 1082, 1083, 1102, 1095, 1105, 1085]),
    (''status.hidden'', string_of_runes [1057, 1082, 1088, 1099, 1090, 1072]),
    (''status.visible'', string_of_runes [1042, 1080, 1076, 1080, 1084, 1072]),
    (''status.enabled'', string_of_runes [1042, 1082, 1083, 1102, 1095, 1077, 1085, 1086]),
    (''status.disabled_access'', string_of_runes [1054, 1090, 1082, 1083, 1102, 1095, 1077, 1085,
       1086]),
    (''status.connected'', string_of_runes [1055, 1086, 1076, 1082, 1083, 1102, 1095, 1077, 1085,
       1072]),
    (''status.planned'', string_of_runes [1047, 1072, 1087, 1083, 1072, 1085, 1080, 1088, 1086,
       1074, 1072, 1085, 1072]),
    (''status.unreachable'', string_of_runes [1053, 1077, 1076, 1086, 1089, 1090, 1091, 1087, 1085,
       1072]),
    (''status.offline'', string_of_runes [1054, 1092, 1083, 1072, 1081, 1085]),
    (''status.ok'', ''OK''),
    (''dashboard.eyebrow'', string_of_runes [1048, 1085, 1092, 1088, 1072, 1089, 1090, 1088, 1091,
       1082, 1090, 1091, 1088, 1072]),
    (''dashboard.heading'', string_of_runes [1043, 1083, 1072, 1074, 1085, 1072, 1103]),
    (''dashboard.intro'', string_of_runes [1057, 1083, 1077, 1076, 1080, 1090, 1077, 32, 1079,
       1072, 32, 1088, 1077, 1079, 1077, 1088, 1074, 1085, 1086, 1081, 32, 86, 80, 78, 45, 1080,
       1085, 1092, 1088, 1072, 1089, 1090, 1088, 1091, 1082, 1090, 1091, 1088, 1086, 1081, 44, 32,
       1089, 1086, 1089, 1090, 1086, 1103, 1085, 1080, 1077, 1084, 32, 1085, 1086, 1076, 32, 1080,
       32, 1086, 1090, 1079, 1099, 1074, 1086, 1084, 32, 1080, 1089, 1090, 1105, 1082, 1096, 1080,
       1093, 32, 1076, 1086, 1089, 1090, 1091, 1087, 1086, 1074, 46]),
    (''dashboard.total_users'', string_of_runes [1042, 1089, 1077, 1075, 1086, 32, 1087, 1086,
       1083, 1100, 1079, 1086, 1074, 1072, 1090, 1077, 1083, 1077, 1081]),
    (''dashboard.active_users'', string_of_runes [1040, 1082, 1090, 1080, 1074, 1085, 1099, 1077,
       32, 1087, 1086, 1083, 1100, 1079, 1086, 1074, 1072, 1090, 1077, 1083, 1080]),
    (''dashboard.expired_users'', string_of_runes [1048, 1089, 1090, 1105, 1082, 1096, 1080, 1077,
       32, 1087, 1086, 1076, 1087, 1080, 1089, 1082, 1080]),
    (''dashboard.disabled_users'', string_of_runes [1054, 1090, 1082, 1083, 1102, 1095, 1105, 1085,
       1085, 1099, 1077, 32, 1087, 1086, 1083, 1100, 1079, 1086, 1074, 1072, 1090, 1077, 1083,
       1080]),
    (''dashboard.total_nodes'', string_of_runes [1042, 1089, 1077, 1075, 1086, 32, 1085, 1086,
       1076]),
    (''dashboard.connected'', string_of_runes [1055, 1086, 1076, 1082, 1083, 1102, 1095, 1077,
       1085, 1099]),
    (''dashboard.unreachable'', string_of_runes [1053, 1077, 1076, 1086, 1089, 1090, 1091, 1087,
       1085, 1099]),
    (''dashboard.planned'', string_of_runes [1047, 1072, 1087, 1083, 1072, 1085, 1080, 1088, 1086,
       1074, 1072, 1085, 1099]),
    (''dashboard.sync_errors'', string_of_runes [1054, 1096, 1080, 1073, 1082, 1080, 32, 1089,
       1080, 1085, 1093, 1088, 1086, 1085, 1080, 1079, 1072, 1094, 1080, 1080, 32, 40, 50, 52,
       1095, 41]),
    (''dashboard.infrastructure'', string_of_runes [1057, 1086, 1089, 1090, 1086, 1103, 1085, 1080,
       1077, 32, 1080, 1085, 1092, 1088, 1072, 1089, 1090, 1088, 1091, 1082, 1090, 1091, 1088,
       1099]),
    (''dashboard.infrastructure_hint'', string_of_runes [1040, 1082, 1090, 1091, 1072, 1083, 1100,
       1085, 1099, 1081, 32, 1089, 1090, 1072, 1090, 1091, 1089, 32, 1085, 1086, 1076, 44, 32,
       1074, 1077, 1088, 1089, 1080, 1080, 32, 1082, 1086, 1085, 1092, 1080, 1075, 1091, 1088,
       1072, 1094, 1080, 1080, 32, 1080, 32, 1087, 1086, 1089, 1083, 1077, 1076, 1085, 1080, 1077,
       32, 1086, 1096, 1080, 1073, 1082, 1080, 46]),
    (''dashboard.view_all_nodes'', string_of_runes [1042, 1089, 1077, 32, 1085, 1086, 1076, 1099]),
    (''dashboard.desired'', string_of_runes [1054, 1078, 1080, 1076, 1072, 1077, 1084, 1072, 1103]),
    (''dashboard.applied'', string_of_runes [1055, 1088, 1080, 1084, 1077, 1085, 1105, 1085, 1085,
       1072, 1103]),
    (''dashboard.last_seen'', string_of_runes [1055, 1086, 1089, 1083, 1077, 1076, 1085, 1103,
       1103, 32, 1072, 1082, 1090, 1080, 1074, 1085, 1086, 1089, 1090, 1100]),
    (''dashboard.assigned_users'', string_of_runes [1053, 1072, 1079, 1085, 1072, 1095, 1077, 1085,
       1086, 32, 1087, 1086, 1083, 1100, 1079, 1086, 1074, 1072, 1090, 1077, 1083, 1077, 1081]),
    (''dashboard.no_nodes'', string_of_runes [1053, 1086, 1076, 32, 1087, 1086, 1082, 1072, 32,
       1085, 1077, 1090]),
    (''dashboard.no_nodes_hint'', string_of_runes [1044, 1086, 1073, 1072, 1074, 1100, 1090, 1077,
       32, 1087, 1077, 1088, 1074, 1091, 1102, 32, 1079, 1072, 1087, 1083, 1072, 1085, 1080, 1088,
       1086, 1074, 1072, 1085, 1085, 1091, 1102, 32, 1085, 1086, 1076, 1091, 32, 1080, 1083, 1080,
       32, 1087, 1086, 1076, 1082, 1083, 1102, 1095, 1080, 1090, 1077, 32, 1091, 1078, 1077, 32,
       1089, 1091, 1097, 1077, 1089, 1090, 1074, 1091, 1102, 1097, 1091, 1102, 46]),
    (''dashboard.upcoming'', string_of_runes [1041, 1083, 1080, 1078, 1072, 1081, 1096, 1080, 1077,
       32, 1086, 1082, 1086, 1085, 1095, 1072, 1085, 1080, 1103, 32, 1087, 1086, 1076, 1087, 1080,
       1089, 1086, 1082]),
    (''dashboard.upcoming_hint'', string_of_runes [1042, 1088, 1077, 1084, 1103, 32, 1086, 1090,
       1086, 1073, 1088, 1072, 1078, 1072, 1077, 1090, 1089, 1103, 32, 1074, 32, 1095, 1072, 1089,
       1086, 1074, 1086, 1084, 32, 1087, 1086, 1103, 1089, 1077]),
    (''dashboard.view_users'', string_of_runes [1042, 1089, 1077, 32, 1087, 1086, 1083, 1100, 1079,
       1086, 1074, 1072, 1090, 1077, 1083, 1080]),
    (''dashboard.no_upcoming'', string_of_runes [1041, 1083, 1080, 1078, 1072, 1081, 1096, 1080,
       1093, 32, 1086, 1082, 1086, 1085, 1095, 1072, 1085, 1080, 1081, 32, 1085, 1077, 1090]),
    (''dashboard.no_upcoming_hint'', string_of_runes [1057, 1077, 1081, 1095, 1072, 1089, 32, 1080,
       1089, 1090, 1077, 1095, 1077, 1085, 1080, 1103, 1084, 32, 1085, 1080, 1095, 1077, 1075,
       1086, 32, 1085, 1077, 32, 1091, 1075, 1088, 1086, 1078, 1072, 1077, 1090, 46]),
    (''dashboard.recent_sync'', string_of_runes [1055, 1086, 1089, 1083, 1077, 1076, 1085, 1080,
       1077, 32, 1089, 1080, 1085, 1093, 1088, 1086, 1085, 1080, 1079, 1072, 1094, 1080, 1080]),
    (''dashboard.recent_sync_hint'', string_of_runes [1055, 1086, 1089, 1083, 1077, 1076, 1085,
       1080, 1077, 32, 1087, 1086, 1087, 1099, 1090, 1082, 1080, 32, 1089, 1080, 1085, 1093, 1088,
       1086, 1085, 1080, 1079, 1072, 1094, 1080, 1080, 32, 66, 97, 99, 107, 101, 110, 100, 32,
       1089, 32, 78, 111, 100, 101, 32, 65, 103, 101, 110, 116, 46]),
    (''dashboard.timestamp'', string_of_runes [1042, 1088, 1077, 1084, 1103]),
    (''dashboard.node'', string_of_runes [1053, 1086, 1076, 1072]),
    (''dashboard.config_version'', string_of_runes [1042, 1077, 1088, 1089, 1080, 1103, 32, 1082,
       1086, 1085, 1092, 1080, 1075, 1091, 1088, 1072, 1094, 1080, 1080]),
    (''dashboard.status'', string_of_runes [1057, 1090, 1072, 1090, 1091, 1089]),
    (''dashboard.http'', ''HTTP''),
    (''dashboard.error'', string_of_runes [1054, 1096, 1080, 1073, 1082, 1072]),
    (''dashboard.no_sync_events'', string_of_runes [1057, 1086, 1073, 1099, 1090, 1080, 1081, 32,
       1089, 1080, 1085, 1093, 1088, 1086, 1085, 1080, 1079, 1072, 1094, 1080, 1080, 32, 1087,
       1086, 1082, 1072, 32, 1085, 1077, 1090]),
    (''sessions.heading'', string_of_runes [1057, 1077, 1072, 1085, 1089, 1099]),
    (''sessions.intro'', string_of_runes [1053, 1072, 1073, 1083, 1102, 1076, 1072, 1081, 1090,
       1077, 32, 1092, 1072, 1082, 1090, 1080, 1095, 1077, 1089, 1082, 1080, 1077, 32, 1087, 1086,
       1076, 1082, 1083, 1102, 1095, 1077, 1085, 1080, 1103, 32, 86, 101, 116, 107, 97, 78, 111,
       100, 101, 65, 103, 101, 110, 116, 32, 1073, 1077, 1079, 32, 1074, 1083, 1080, 1103, 1085,
       1080, 1103, 32, 1085, 1072, 32, 100, 101, 115, 105, 114, 101, 100, 32, 115, 116, 97, 116,
       101, 46]),
    (''sessions.active_only'', string_of_runes [1040, 1082, 1090, 1080, 1074, 1085, 1099, 1077]),
    (''sessions.include_recent'', string_of_runes [1040, 1082, 1090, 1080, 1074, 1085, 1099, 1077,
       32, 1080, 32, 1085, 1077, 1076, 1072, 1074, 1085, 1080, 1077]),
    (''sessions.recent_only'', string_of_runes [1053, 1077, 1076, 1072, 1074, 1085, 1080, 1077]),
    (''sessions.refresh'', string_of_runes [1054, 1073, 1085, 1086, 1074, 1080, 1090, 1100]),
    (''sessions.active_count'', string_of_runes [1040, 1082, 1090, 1080, 1074, 1085, 1099, 1077,
       32, 1089, 1077, 1072, 1085, 1089, 1099]),
    (''sessions.unique_ips'', string_of_runes [1059, 1085, 1080, 1082, 1072, 1083, 1100, 1085,
       1099, 1077, 32, 73, 80]),
    (''sessions.collectors_ok'', string_of_runes [1050, 1086, 1083, 1083, 1077, 1082, 1090, 1086,
       1088, 32, 79, 75]),
    (''sessions.collectors_degraded'', string_of_runes [1050, 1086, 1083, 1083, 1077, 1082, 1090,
       1086, 1088, 1099, 32, 1089, 32, 1087, 1088, 1086, 1073, 1083, 1077, 1084, 1072, 1084, 1080]),
    (''sessions.status'', string_of_runes [1057, 1090, 1072, 1090, 1091, 1089]),
    (''sessions.user'', string_of_runes [1055, 1086, 1083, 1100, 1079, 1086, 1074, 1072, 1090,
       1077, 1083, 1100]),
    (''sessions.node'', string_of_runes [1053, 1086, 1076, 1072]),
    (''sessions.protocol'', string_of_runes [1055, 1088, 1086, 1090, 1086, 1082, 1086, 1083]),
    (''sessions.client_ip'', ''IP''),
    (''sessions.first_seen'', string_of_runes [1055, 1077, 1088, 1074, 1072, 1103, 32, 1072, 1082,
       1090, 1080, 1074, 1085, 1086, 1089, 1090, 1100]),
    (''sessions.last_seen'', string_of_runes [1055, 1086, 1089, 1083, 1077, 1076, 1085, 1103, 1103,
       32, 1072, 1082, 1090, 1080, 1074, 1085, 1086, 1089, 1090, 1100]),
    (''sessions.upload'', string_of_runes [1042, 1093, 1086, 1076, 1103, 1097, 1080, 1081, 32,
       1090, 1088, 1072, 1092, 1080, 1082]),
    (''sessions.download'', string_of_runes [1048, 1089, 1093, 1086, 1076, 1103, 1097, 1080, 1081,
       32, 1090, 1088, 1072, 1092, 1080, 1082]),
    (''sessions.no_active'', string_of_runes [1040, 1082, 1090, 1080, 1074, 1085, 1099, 1093, 32,
       1089, 1077, 1072, 1085, 1089, 1086, 1074, 32, 1085, 1077, 1090]),
    (''sessions.no_recent'', string_of_runes [1053, 1077, 1076, 1072, 1074, 1085, 1080, 1093, 32,
       1089, 1077, 1072, 1085, 1089, 1086, 1074, 32, 1085, 1077, 1090]),
    (''sessions.unknown_user'', string_of_runes [1053, 1077, 1080, 1079, 1074, 1077, 1089, 1090,
       1085, 1099, 1081, 32, 1087, 1086, 1083, 1100, 1079, 1086, 1074, 1072, 1090, 1077, 1083,
       1100]),
    (''sessions.ip_unavailable_mieru'', string_of_runes [73, 80, 32, 1085, 1077, 1076, 1086, 1089,
       1090, 1091, 1087, 1077, 1085, 32, 1076, 1083, 1103, 32, 77, 105, 101, 114, 117]),
    (''sessions.ip_unknown'', string_of_runes [1053, 1077, 32, 1086, 1087, 1088, 1077, 1076, 1077,
       1083, 1105, 1085]),
    (''sessions.collector_ok'', string_of_runes [1050, 1086, 1083, 1083, 1077, 1082, 1090, 1086,
       1088, 32, 79, 75]),
    (''sessions.collector_partial'', string_of_runes [1063, 1072, 1089, 1090, 1080, 1095, 1085,
       1072, 1103, 32, 1090, 1077, 1083, 1077, 1084, 1077, 1090, 1088, 1080, 1103]),
    (''sessions.collector_unavailable'', string_of_runes [1058, 1077, 1083, 1077, 1084, 1077, 1090,
       1088, 1080, 1103, 32, 1085, 1077, 1076, 1086, 1089, 1090, 1091, 1087, 1085, 1072]),
    (''sessions.collector_disabled'', string_of_runes [1058, 1077, 1083, 1077, 1084, 1077, 1090,
       1088, 1080, 1103, 32, 1086, 1090, 1082, 1083, 1102, 1095, 1077, 1085, 1072])]"

definition ru_b :: "(string \<times> string) list" where
  "ru_b = [
    (''sessions.issue_missing_api_url'', string_of_runes [65, 103, 101, 110, 116, 32, 85, 82, 76,
       32, 1085, 1077, 32, 1085, 1072, 1089, 1090, 1088, 1086, 1077, 1085]),
    (''sessions.issue_missing_node_id'', string_of_runes [78, 111, 100, 101, 32, 73, 68, 32, 1085,
       1077, 32, 1085, 1072, 1089, 1090, 1088, 1086, 1077, 1085]),
    (''sessions.issue_missing_node_secret'', string_of_runes [1057, 1077, 1082, 1088, 1077, 1090,
       32, 65, 103, 101, 110, 116, 32, 1085, 1077, 32, 1085, 1072, 1089, 1090, 1088, 1086, 1077,
       1085]),
    (''sessions.issue_collector_warning'', string_of_runes [67, 111, 108, 108, 101, 99, 116, 111,
       114, 32, 1074, 1077, 1088, 1085, 1091, 1083, 32, 1087, 1088, 1077, 1076, 1091, 1087, 1088,
       1077, 1078, 1076, 1077, 1085, 1080, 1103]),
    (''sessions.issue_collector_partial'', string_of_runes [1057, 1073, 1086, 1088, 32, 1076, 1072,
       1085, 1085, 1099, 1093, 32, 1074, 1099, 1087, 1086, 1083, 1085, 1077, 1085, 32, 1095, 1072,
       1089, 1090, 1080, 1095, 1085, 1086]),
    (''sessions.issue_collector_unavailable'', string_of_runes [1044, 1072, 1085, 1085, 1099, 1077,
       32, 1089, 1077, 1072, 1085, 1089, 1086, 1074, 32, 1074, 1088, 1077, 1084, 1077, 1085, 1085,
       1086, 32, 1085, 1077, 1076, 1086, 1089, 1090, 1091, 1087, 1085, 1099]),
    (''sessions.issue_collector_disabled'', string_of_runes [1057, 1073, 1086, 1088, 32, 1076,
       1072, 1085, 1085, 1099, 1093, 32, 1089, 1077, 1072, 1085, 1089, 1086, 1074, 32, 1086, 1090,
       1082, 1083, 1102, 1095, 1105, 1085, 32, 1085, 1072, 32, 1085, 1086, 1076, 1077]),
    (''sessions.partial_warning'', string_of_runes [1063, 1072, 1089, 1090, 1100, 32, 1085, 1086,
       1076, 32, 1084, 1086, 1078, 1077, 1090, 32, 1073, 1099, 1090, 1100, 32, 1074, 1088, 1077,
       1084, 1077, 1085, 1085, 1086, 32, 1085, 1077, 1076, 1086, 1089, 1090, 1091, 1087, 1085,
       1072, 59, 32, 1086, 1089, 1090, 1072, 1083, 1100, 1085, 1099, 1077, 32, 1089, 1077, 1072,
       1085, 1089, 1099, 32, 1074, 1089, 1105, 32, 1088, 1072, 1074, 1085, 1086, 32, 1086, 1090,
       1086, 1073, 1088, 1072, 1078, 1072, 1102, 1090, 1089, 1103, 46]),
    (''sessions.node_unavailable'', string_of_runes [1053, 1086, 1076, 1072, 32, 1085, 1077, 1076,
       1086, 1089, 1090, 1091, 1087, 1085, 1072]),
    (''users.eyebrow'', string_of_runes [1059, 1087, 1088, 1072, 1074, 1083, 1077, 1085, 1080,
       1077, 32, 1076, 1086, 1089, 1090, 1091, 1087, 1086, 1084]),
    (''users.heading'', string_of_runes [1055, 1086, 1083, 1100, 1079, 1086, 1074, 1072, 1090,
       1077, 1083, 1080]),
    (''users.intro'', string_of_runes [1055, 1086, 1083, 1100, 1079, 1086, 1074, 1072, 1090, 1077,
       1083, 1080, 32, 1074, 32, 1090, 1077, 1082, 1091, 1097, 1077, 1084, 32, 1087, 1088, 1077,
       1076, 1089, 1090, 1072, 1074, 1083, 1077, 1085, 1080, 1080]),
    (''users.intro_suffix'', string_of_runes [1057, 1086, 1079, 1076, 1072, 1085, 1080, 1077, 44,
       32, 1086, 1090, 1079, 1099, 1074, 32, 1087, 1086, 32, 1089, 1088, 1086, 1082, 1091, 32,
       1080, 32, 1085, 1072, 1079, 1085, 1072, 1095, 1077, 1085, 1080, 1103, 32, 1074, 1099, 1087,
       1086, 1083, 1085, 1103, 1102, 1090, 1089, 1103, 32, 1095, 1077, 1088, 1077, 1079, 32, 83,
       83, 82, 46]),
    (''users.create'', string_of_runes [1057, 1086, 1079, 1076, 1072, 1090, 1100, 32, 1087, 1086,
       1083, 1100, 1079, 1086, 1074, 1072, 1090, 1077, 1083, 1103]),
    (''users.search'', string_of_runes [1055, 1086, 1080, 1089, 1082]),
    (''users.search_placeholder'', string_of_runes [1051, 1086, 1075, 1080, 1085, 32, 1080, 1083,
       1080, 32, 1086, 1090, 1086, 1073, 1088, 1072, 1078, 1072, 1077, 1084, 1086, 1077, 32, 1080,
       1084, 1103]),
    (''users.filter_status'', string_of_runes [1057, 1090, 1072, 1090, 1091, 1089]),
    (''users.filter_all'', string_of_runes [1042, 1089, 1077]),
    (''users.filter_active'', string_of_runes [1040, 1082, 1090, 1080, 1074, 1085, 1099, 1077]),
    (''users.filter_expired'', string_of_runes [1048, 1089, 1090, 1105, 1082, 1096, 1080, 1077]),
    (''users.filter_disabled'', string_of_runes [1054, 1090, 1082, 1083, 1102, 1095, 1105, 1085,
       1085, 1099, 1077]),
    (''users.filter_expires_soon'', string_of_runes [1057, 1082, 1086, 1088, 1086, 32, 1080, 1089,
       1090, 1077, 1082, 1091, 1090]),
    (''users.sort'', string_of_runes [1057, 1086, 1088, 1090, 1080, 1088, 1086, 1074, 1082, 1072]),
    (''users.sort_username'', string_of_runes [1051, 1086, 1075, 1080, 1085]),
    (''users.sort_expires_at'', string_of_runes [1057, 1088, 1086, 1082, 32, 1076, 1077, 1081,
       1089, 1090, 1074, 1080, 1103]),
    (''users.sort_created_at'', string_of_runes [1057, 1086, 1079, 1076, 1072, 1085]),
    (''users.apply'', string_of_runes [1055, 1088, 1080, 1084, 1077, 1085, 1080, 1090, 1100]),
    (''users.table.user'', string_of_runes [1055, 1086, 1083, 1100, 1079, 1086, 1074, 1072, 1090,
       1077, 1083, 1100]),
    (''users.table.status'', string_of_runes [1057, 1090, 1072, 1090, 1091, 1089]),
    (''users.table.expires_at'', string_of_runes [1057, 1088, 1086, 1082, 32, 1076, 1077, 1081,
       1089, 1090, 1074, 1080, 1103]),
    (''users.table.assigned_nodes'', string_of_runes [1053, 1072, 1079, 1085, 1072, 1095, 1077,
       1085, 1085, 1099, 1077, 32, 1085, 1086, 1076, 1099]),
    (''users.table.quota'', string_of_runes [1050, 1074, 1086, 1090, 1072]),
    (''users.table.token'', string_of_runes [1058, 1086, 1082, 1077, 1085]),
    (''users.table.actions'', string_of_runes [1044, 1077, 1081, 1089, 1090, 1074, 1080, 1103]),
    (''users.open'', string_of_runes [1054, 1090, 1082, 1088, 1099, 1090, 1100]),
    (''users.delete'', string_of_runes [1059, 1076, 1072, 1083, 1080, 1090, 1100]),
    (''users.delete_confirm'', string_of_runes [1059, 1076, 1072, 1083, 1080, 1090, 1100, 32, 1087,
       1086, 1083, 1100, 1079, 1086, 1074, 1072, 1090, 1077, 1083, 1103, 32, 1080, 32, 1089, 1080,
       1085, 1093, 1088, 1086, 1085, 1080, 1079, 1080, 1088, 1086, 1074, 1072, 1090, 1100, 32,
       1079, 1072, 1090, 1088, 1086, 1085, 1091, 1090, 1099, 1077, 32, 1085, 1086, 1076, 1099, 63]),
    (''users.no_matches'', string_of_runes [1053, 1077, 1090, 32, 1087, 1086, 1083, 1100, 1079,
       1086, 1074, 1072, 1090, 1077, 1083, 1077, 1081, 32, 1076, 1083, 1103, 32, 1101, 1090, 1086,
       1075, 1086, 32, 1092, 1080, 1083, 1100, 1090, 1088, 1072]),
    (''users.no_matches_hint'', string_of_runes [1055, 1086, 1087, 1088, 1086, 1073, 1091, 1081,
       1090, 1077, 32, 1076, 1088, 1091, 1075, 1086, 1081, 32, 1092, 1080, 1083, 1100, 1090, 1088,
       32, 1080, 1083, 1080, 32, 1089, 1086, 1079, 1076, 1072, 1081, 1090, 1077, 32, 1087, 1086,
       1083, 1100, 1079, 1086, 1074, 1072, 1090, 1077, 1083, 1103, 46]),
    (''users.create_title'', string_of_runes [1057, 1086, 1079, 1076, 1072, 1085, 1080, 1077, 32,
       1087, 1086, 1083, 1100, 1079, 1086, 1074, 1072, 1090, 1077, 1083, 1103]),
    (''users.create_hint'', string_of_runes [1055, 1086, 1076, 1075, 1086, 1090, 1086, 1074, 1100,
       1090, 1077, 32, 1085, 1086, 1074, 1091, 1102, 32, 1087, 1086, 1076, 1087, 1080, 1089, 1082,
       1091]),
    (''users.username'', string_of_runes [1051, 1086, 1075, 1080, 1085]),
    (''users.display_name'', string_of_runes [1054, 1090, 1086, 1073, 1088, 1072, 1078, 1072, 1077,
       1084, 1086, 1077, 32, 1080, 1084, 1103]),
    (''users.expires_at'', string_of_runes [1057, 1088, 1086, 1082, 32, 1076, 1077, 1081, 1089,
       1090, 1074, 1080, 1103]),
    (''users.expires_help'', string_of_runes [1055, 1091, 1089, 1090, 1086, 1077, 32, 1079, 1085,
       1072, 1095, 1077, 1085, 1080, 1077, 32, 1086, 1079, 1085, 1072, 1095, 1072, 1077, 1090, 32,
       1073, 1077, 1089, 1089, 1088, 1086, 1095, 1085, 1099, 1081, 32, 1076, 1086, 1089, 1090,
       1091, 1087, 46, 32, 1063, 1072, 1089, 1086, 1074, 1086, 1081, 32, 1087, 1086, 1103, 1089,
       58]),
    (''users.quota_mb'', string_of_runes [1050, 1074, 1086, 1090, 1072, 44, 32, 1052, 1041]),
    (''users.quota_help_text'', string_of_runes [1086, 1079, 1085, 1072, 1095, 1072, 1077, 1090,
       32, 1086, 1090, 1089, 1091, 1090, 1089, 1090, 1074, 1080, 1077, 32, 1086, 1075, 1088, 1072,
       1085, 1080, 1095, 1077, 1085, 1080, 1103, 32, 1074, 32, 1084, 1077, 1090, 1072, 1076, 1072,
       1085, 1085, 1099, 1093, 46]),
    (''users.notes'', string_of_runes [1047, 1072, 1084, 1077, 1090, 1082, 1080]),
    (''users.enabled'', string_of_runes [1042, 1082, 1083, 1102, 1095, 1105, 1085]),
    (''users.assign_nodes'', string_of_runes [1053, 1072, 1079, 1085, 1072, 1095, 1080, 1090, 1100,
       32, 1085, 1086, 1076, 1099]),
    (''users.no_nodes'', string_of_runes [1053, 1086, 1076, 1099, 32, 1087, 1086, 1082, 1072, 32,
       1085, 1077, 32, 1076, 1086, 1073, 1072, 1074, 1083, 1077, 1085, 1099, 46]),
    (''users.create_submit'', string_of_runes [1057, 1086, 1079, 1076, 1072, 1090, 1100, 32, 1087,
       1086, 1083, 1100, 1079, 1086, 1074, 1072, 1090, 1077, 1083, 1103]),
    (''user_detail.eyebrow'', string_of_runes [1055, 1086, 1083, 1100, 1079, 1086, 1074, 1072,
       1090, 1077, 1083, 1100]),
    (''user_detail.sync_nodes'', string_of_runes [1057, 1080, 1085, 1093, 1088, 1086, 1085, 1080,
       1079, 1080, 1088, 1086, 1074, 1072, 1090, 1100, 32, 1079, 1072, 1090, 1088, 1086, 1085,
       1091, 1090, 1099, 1077, 32, 1085, 1086, 1076, 1099]),
    (''user_detail.enable'', string_of_runes [1042, 1082, 1083, 1102, 1095, 1080, 1090, 1100]),
    (''user_detail.disable'', string_of_runes [1054, 1090, 1082, 1083, 1102, 1095, 1080, 1090,
       1100]),
    (''user_detail.overview'', string_of_runes [1054, 1073, 1079, 1086, 1088]),
    (''user_detail.status'', string_of_runes [1057, 1090, 1072, 1090, 1091, 1089]),
    (''user_detail.remaining'', string_of_runes [1054, 1089, 1090, 1072, 1083, 1086, 1089, 1100]),
    (''user_detail.subscription_token'', string_of_runes [1058, 1086, 1082, 1077, 1085, 32, 1087,
       1086, 1076, 1087, 1080, 1089, 1082, 1080]),
    (''user_detail.edit_title'', string_of_runes [1048, 1079, 1084, 1077, 1085, 1077, 1085, 1080,
       1077, 32, 1087, 1086, 1083, 1100, 1079, 1086, 1074, 1072, 1090, 1077, 1083, 1103]),
    (''user_detail.edit_hint'', string_of_runes [1048, 1079, 1084, 1077, 1085, 1077, 1085, 1080,
       1103, 32, 1086, 1090, 1087, 1088, 1072, 1074, 1083, 1103, 1102, 1090, 1089, 1103, 32, 80,
       79, 83, 84, 45, 1079, 1072, 1087, 1088, 1086, 1089, 1086, 1084, 44, 32, 1079, 1072, 1090,
       1077, 1084, 32, 1089, 1080, 1085, 1093, 1088, 1086, 1085, 1080, 1079, 1080, 1088, 1091,
       1102, 1090, 1089, 1103, 32, 1085, 1072, 1079, 1085, 1072, 1095, 1077, 1085, 1085, 1099,
       1077, 32, 1085, 1086, 1076, 1099, 46]),
    (''user_detail.save'', string_of_runes [1057, 1086, 1093, 1088, 1072, 1085, 1080, 1090, 1100]),
    (''user_detail.subscription_links'', string_of_runes [1057, 1089, 1099, 1083, 1082, 1080, 32,
       1087, 1086, 1076, 1087, 1080, 1089, 1082, 1080]),
    (''user_detail.subscription_hint'', string_of_runes [81, 82, 45, 1082, 1086, 1076, 1099, 32,
       1075, 1077, 1085, 1077, 1088, 1080, 1088, 1091, 1102, 1090, 1089, 1103, 32, 1083, 1086,
       1082, 1072, 1083, 1100, 1085, 1086, 32, 1074, 32, 1073, 1088, 1072, 1091, 1079, 1077, 1088,
       1077, 46, 32, 1044, 1072, 1085, 1085, 1099, 1077, 32, 1085, 1080, 1082, 1091, 1076, 1072,
       32, 1085, 1077, 32, 1086, 1090, 1087, 1088, 1072, 1074, 1083, 1103, 1102, 1090, 1089, 1103,
       46]),
    (''user_detail.assigned_nodes'', string_of_runes [1053, 1072, 1079, 1085, 1072, 1095, 1077,
       1085, 1085, 1099, 1077, 32, 1085, 1086, 1076, 1099]),
    (''user_detail.assigned_hint'', string_of_runes [1059, 1095, 1105, 1090, 1085, 1099, 1077, 32,
       1076, 1072, 1085, 1085, 1099, 1077, 32, 1087, 1088, 1086, 1090, 1086, 1082, 1086, 1083,
       1086, 1074, 32, 1074, 32, 1086, 1073, 1099, 1095, 1085, 1086, 1084, 32, 85, 73, 32, 1074,
       1089, 1077, 1075, 1076, 1072, 32, 1079, 1072, 1084, 1072, 1089, 1082, 1080, 1088, 1086,
       1074, 1072, 1085, 1099, 46]),
    (''user_detail.assign_node'', string_of_runes [1053, 1072, 1079, 1085, 1072, 1095, 1080, 1090,
       1100, 32, 1085, 1086, 1076, 1091]),
    (''user_detail.node'', string_of_runes [1053, 1086, 1076, 1072]),
    (''user_detail.protocol'', string_of_runes [1055, 1088, 1086, 1090, 1086, 1082, 1086, 1083]),
    (''user_detail.credentials'', string_of_runes [1059, 1095, 1105, 1090, 1085, 1099, 1077, 32,
       1076, 1072, 1085, 1085, 1099, 1077]),
    (''user_detail.access'', string_of_runes [1044, 1086, 1089, 1090, 1091, 1087]),
    (''user_detail.node_state'', string_of_runes [1057, 1086, 1089, 1090, 1086, 1103, 1085, 1080,
       1077, 32, 1085, 1086, 1076, 1099]),
    (''user_detail.unassign'', string_of_runes [1054, 1090, 1074, 1103, 1079, 1072, 1090, 1100]),
    (''user_detail.unassign_confirm'', string_of_runes [1054, 1090, 1074, 1103, 1079, 1072, 1090,
       1100, 32, 1085, 1086, 1076, 1091, 32, 1080, 32, 1089, 1080, 1085, 1093, 1088, 1086, 1085,
       1080, 1079, 1080, 1088, 1086, 1074, 1072, 1090, 1100, 32, 1077, 1105, 63]),
    (''user_detail.no_assignments'', string_of_runes [1053, 1072, 1079, 1085, 1072, 1095, 1077,
       1085, 1080, 1081, 32, 1085, 1086, 1076, 32, 1087, 1086, 1082, 1072, 32, 1085, 1077, 1090]),
    (''user_detail.danger'', string_of_runes [1054, 1087, 1072, 1089, 1085, 1072, 1103, 32, 1079,
       1086, 1085, 1072]),
    (''user_detail.danger_hint'', string_of_runes [1048, 1089, 1087, 1086, 1083, 1100, 1079, 1091,
       1081, 1090, 1077, 32, 1086, 1089, 1086, 1079, 1085, 1072, 1085, 1085, 1086, 58, 32, 1101,
       1090, 1080, 32, 1076, 1077, 1081, 1089, 1090, 1074, 1080, 1103, 32, 1084, 1086, 1075, 1091,
       1090, 32, 1086, 1090, 1086, 1079, 1074, 1072, 1090, 1100, 32, 1076, 1086, 1089, 1090, 1091,
       1087, 32, 1080, 1083, 1080, 32, 1091, 1076, 1072, 1083, 1080, 1090, 1100, 32, 1087, 1086,
       1083, 1100, 1079, 1086, 1074, 1072, 1090, 1077, 1083, 1103, 46]),
    (''user_detail.disable_user'', string_of_runes [1054, 1090, 1082, 1083, 1102, 1095, 1080, 1090,
       1100, 32, 1087, 1086, 1083, 1100, 1079, 1086, 1074, 1072, 1090, 1077, 1083, 1103])]"

definition ru_c :: "(string \<times> string) list" where
  "ru_c = [
    (''user_detail.delete_user'', string_of_runes [1059, 1076, 1072, 1083, 1080, 1090, 1100, 32,
       1087, 1086, 1083, 1100, 1079, 1086, 1074, 1072, 1090, 1077, 1083, 1103]),
    (''user_detail.assign_title'', string_of_runes [1053, 1072, 1079, 1085, 1072, 1095, 1077, 1085,
       1080, 1077, 32, 1085, 1086, 1076, 1099]),
    (''user_detail.assign_hint'', string_of_runes [1044, 1086, 1073, 1072, 1074, 1100, 1090, 1077,
       32, 1091, 1095, 1105, 1090, 1085, 1099, 1077, 32, 1076, 1072, 1085, 1085, 1099, 1077, 32,
       1087, 1088, 1086, 1090, 1086, 1082, 1086, 1083, 1072]),
    (''user_detail.protocol_username'', string_of_runes [1051, 1086, 1075, 1080, 1085, 32, 1087,
       1088, 1086, 1090, 1086, 1082, 1086, 1083, 1072]),
    (''user_detail.protocol_password'', string_of_runes [1055, 1072, 1088, 1086, 1083, 1100, 32,
       1087, 1088, 1086, 1090, 1086, 1082, 1086, 1083, 1072]),
    (''user_detail.generated_empty'', string_of_runes [1041, 1091, 1076, 1077, 1090, 32, 1089,
       1075, 1077, 1085, 1077, 1088, 1080, 1088, 1086, 1074, 1072, 1085, 1086, 32, 1072, 1074,
       1090, 1086, 1084, 1072, 1090, 1080, 1095, 1077, 1089, 1082, 1080]),
    (''user_detail.assign_submit'', string_of_runes [1053, 1072, 1079, 1085, 1072, 1095, 1080,
       1090, 1100, 32, 1085, 1086, 1076, 1091]),
    (''user_detail.sessions'', string_of_runes [1057, 1077, 1072, 1085, 1089, 1099, 32, 1087, 1086,
       1083, 1100, 1079, 1086, 1074, 1072, 1090, 1077, 1083, 1103]),
    (''user_detail.sessions_hint'', string_of_runes [1055, 1086, 1082, 1072, 1079, 1099, 1074,
       1072, 1077, 1090, 32, 1092, 1072, 1082, 1090, 1080, 1095, 1077, 1089, 1082, 1091, 1102, 32,
       1072, 1082, 1090, 1080, 1074, 1085, 1086, 1089, 1090, 1100, 32, 1087, 1086, 32, 1085, 1072,
       1079, 1085, 1072, 1095, 1077, 1085, 1085, 1099, 1084, 32, 1085, 1086, 1076, 1072, 1084, 32,
       1073, 1077, 1079, 32, 1087, 1088, 1080, 1085, 1091, 1076, 1080, 1090, 1077, 1083, 1100,
       1085, 1099, 1093, 32, 1076, 1077, 1081, 1089, 1090, 1074, 1080, 1081, 46]),
    (''nodes.eyebrow'', string_of_runes [1055, 1072, 1088, 1082, 32, 1085, 1086, 1076]),
    (''nodes.heading'', string_of_runes [1053, 1086, 1076, 1099]),
    (''nodes.intro'', string_of_runes [1055, 1086, 1076, 1082, 1083, 1102, 1095, 1072, 1081, 1090,
       1077, 32, 1075, 1086, 1090, 1086, 1074, 1099, 1077, 32, 1072, 1075, 1077, 1085, 1090, 1099,
       44, 32, 1087, 1083, 1072, 1085, 1080, 1088, 1091, 1081, 1090, 1077, 32, 1085, 1086, 1074,
       1099, 1077, 32, 1085, 1086, 1076, 1099, 32, 1080, 32, 1087, 1088, 1086, 1074, 1077, 1088,
       1103, 1081, 1090, 1077, 32, 1089, 1080, 1085, 1093, 1088, 1086, 1085, 1080, 1079, 1072,
       1094, 1080, 1102, 32, 1073, 1077, 1079, 32, 1088, 1072, 1089, 1082, 1088, 1099, 1090, 1080,
       1103, 32, 1089, 1077, 1082, 1088, 1077, 1090, 1086, 1074, 46]),
    (''nodes.add'', string_of_runes [1044, 1086, 1073, 1072, 1074, 1080, 1090, 1100, 32, 1085,
       1086, 1076, 1091]),
    (''nodes.sync_all'', string_of_runes [1057, 1080, 1085, 1093, 1088, 1086, 1085, 1080, 1079,
       1080, 1088, 1086, 1074, 1072, 1090, 1100, 32, 1074, 1089, 1105]),
    (''nodes.table.node'', string_of_runes [1053, 1086, 1076, 1072]),
    (''nodes.table.protocol'', string_of_runes [1055, 1088, 1086, 1090, 1086, 1082, 1086, 1083]),
    (''nodes.table.setup'', string_of_runes [1057, 1086, 1089, 1090, 1086, 1103, 1085, 1080, 1077]),
    (''nodes.table.enabled'', string_of_runes [1042, 1080, 1076, 1080, 1084, 1086, 1089, 1090,
       1100]),
    (''nodes.table.versions'', string_of_runes [1042, 1077, 1088, 1089, 1080, 1080]),
    (''nodes.table.assigned_users'', string_of_runes [1055, 1086, 1083, 1100, 1079, 1086, 1074,
       1072, 1090, 1077, 1083, 1080]),
    (''nodes.table.last_seen'', string_of_runes [1055, 1086, 1089, 1083, 1077, 1076, 1085, 1103,
       1103, 32, 1072, 1082, 1090, 1080, 1074, 1085, 1086, 1089, 1090, 1100]),
    (''nodes.table.last_error'', string_of_runes [1055, 1086, 1089, 1083, 1077, 1076, 1085, 1103,
       1103, 32, 1086, 1096, 1080, 1073, 1082, 1072]),
    (''nodes.table.actions'', string_of_runes [1044, 1077, 1081, 1089, 1090, 1074, 1080, 1103]),
    (''nodes.no_nodes'', string_of_runes [1053, 1086, 1076, 32, 1087, 1086, 1082, 1072, 32, 1085,
       1077, 1090]),
    (''nodes.no_nodes_hint'', string_of_runes [1057, 1086, 1079, 1076, 1072, 1081, 1090, 1077, 32,
       1079, 1072, 1087, 1083, 1072, 1085, 1080, 1088, 1086, 1074, 1072, 1085, 1085, 1091, 1102,
       32, 1085, 1086, 1076, 1091, 32, 1080, 1083, 1080, 32, 1087, 1086, 1076, 1082, 1083, 1102,
       1095, 1080, 1090, 1077, 32, 1089, 1091, 1097, 1077, 1089, 1090, 1074, 1091, 1102, 1097,
       1091, 1102, 46]),
    (''nodes.modal_add'', string_of_runes [1044, 1086, 1073, 1072, 1074, 1083, 1077, 1085, 1080,
       1077, 32, 1085, 1086, 1076, 1099]),
    (''nodes.modal_type'', string_of_runes [1047, 1072, 1087, 1083, 1072, 1085, 1080, 1088, 1086,
       1074, 1072, 1085, 1085, 1072, 1103, 32, 1080, 1083, 1080, 32, 1089, 1091, 1097, 1077, 1089,
       1090, 1074, 1091, 1102, 1097, 1072, 1103]),
    (''nodes.tab_planned'', string_of_runes [1047, 1072, 1087, 1083, 1072, 1085, 1080, 1088, 1086,
       1074, 1072, 1085, 1085, 1072, 1103, 32, 1085, 1086, 1076, 1072]),
    (''nodes.tab_adopt'', string_of_runes [1055, 1086, 1076, 1082, 1083, 1102, 1095, 1080, 1090,
       1100, 32, 1089, 1091, 1097, 1077, 1089, 1090, 1074, 1091, 1102, 1097, 1091, 1102]),
    (''nodes.planned_hint_prefix'', string_of_runes [1048, 1089, 1087, 1086, 1083, 1100, 1079,
       1091, 1081, 1090, 1077, 32, 1101, 1090, 1086, 1090, 32, 1088, 1077, 1078, 1080, 1084, 32,
       1076, 1086, 32, 1091, 1089, 1090, 1072, 1085, 1086, 1074, 1082, 1080]),
    (''nodes.planned_hint_suffix'', string_of_runes [46, 32, 1055, 1072, 1085, 1077, 1083, 1100,
       32, 1089, 1086, 1079, 1076, 1072, 1089, 1090, 32, 1086, 1076, 1085, 1086, 1088, 1072, 1079,
       1086, 1074, 1099, 1081, 32, 1089, 1077, 1082, 1088, 1077, 1090, 32, 1080, 32, 1082, 1086,
       1084, 1072, 1085, 1076, 1091, 32, 1091, 1089, 1090, 1072, 1085, 1086, 1074, 1082, 1080, 32,
       1073, 1077, 1079, 32, 1074, 1099, 1079, 1086, 1074, 1072]),
    (''nodes.adopt_hint_prefix'', string_of_runes [1048, 1089, 1087, 1086, 1083, 1100, 1079, 1091,
       1081, 1090, 1077, 32, 1101, 1090, 1086, 1090, 32, 1088, 1077, 1078, 1080, 1084, 32, 1076,
       1083, 1103, 32, 1091, 1078, 1077, 32, 1091, 1089, 1090, 1072, 1085, 1086, 1074, 1083, 1077,
       1085, 1085, 1086, 1075, 1086, 32, 1072, 1075, 1077, 1085, 1090, 1072, 46, 32, 1055, 1072,
       1085, 1077, 1083, 1100, 32, 1087, 1088, 1086, 1074, 1077, 1088, 1080, 1090]),
    (''nodes.adopt_hint_middle'', string_of_runes [44, 32, 1087, 1086, 1076, 1090, 1074, 1077,
       1088, 1076, 1080, 1090]),
    (''nodes.adopt_hint_suffix'', string_of_runes [1080, 32, 1087, 1088, 1086, 1090, 1086, 1082,
       1086, 1083, 44, 32, 1079, 1072, 1090, 1077, 1084, 32, 1089, 1080, 1085, 1093, 1088, 1086,
       1085, 1080, 1079, 1080, 1088, 1091, 1077, 1090, 32, 1074, 1077, 1088, 1089, 1080, 1080, 46]),
    (''nodes.node_id'', ''Node ID''),
    (''nodes.node_id_generated'', string_of_runes [1041, 1091, 1076, 1077, 1090, 32, 1089, 1075,
       1077, 1085, 1077, 1088, 1080, 1088, 1086, 1074, 1072, 1085, 32, 1072, 1074, 1090, 1086,
       1084, 1072, 1090, 1080, 1095, 1077, 1089, 1082, 1080]),
    (''nodes.api_url_optional'', string_of_runes [1053, 1077, 1086, 1073, 1103, 1079, 1072, 1090,
       1077, 1083, 1100, 1085, 1086, 32, 1076, 1086, 32, 1091, 1089, 1090, 1072, 1085, 1086, 1074,
       1082, 1080, 32, 1072, 1075, 1077, 1085, 1090, 1072]),
    (''nodes.node_secret'', string_of_runes [1057, 1077, 1082, 1088, 1077, 1090, 32, 1085, 1086,
       1076, 1099]),
    (''nodes.node_secret_generated'', string_of_runes [1041, 1091, 1076, 1077, 1090, 32, 1089,
       1075, 1077, 1085, 1077, 1088, 1080, 1088, 1086, 1074, 1072, 1085, 32, 1072, 1074, 1090,
       1086, 1084, 1072, 1090, 1080, 1095, 1077, 1089, 1082, 1080]),
    (''nodes.create_planned'', string_of_runes [1057, 1086, 1079, 1076, 1072, 1090, 1100, 32, 1079,
       1072, 1087, 1083, 1072, 1085, 1080, 1088, 1086, 1074, 1072, 1085, 1085, 1091, 1102, 32,
       1085, 1086, 1076, 1091]),
    (''nodes.create_adopt'', string_of_runes [1055, 1086, 1076, 1082, 1083, 1102, 1095, 1080, 1090,
       1100, 32, 1089, 1091, 1097, 1077, 1089, 1090, 1074, 1091, 1102, 1097, 1091, 1102, 32, 1085,
       1086, 1076, 1091]),
    (''nodes.adopt_api_placeholder'', ''http://host:2222''),
    (''node_detail.eyebrow'', string_of_runes [1048, 1085, 1092, 1086, 1088, 1084, 1072, 1094,
       1080, 1103, 32, 1086, 32, 1085, 1086, 1076, 1077]),
    (''node_detail.health'', string_of_runes [1055, 1088, 1086, 1074, 1077, 1088, 1080, 1090,
       1100]),
    (''node_detail.status_action'', string_of_runes [1057, 1090, 1072, 1090, 1091, 1089]),
    (''node_detail.sync'', string_of_runes [1057, 1080, 1085, 1093, 1088, 1086, 1085, 1080, 1079,
       1080, 1088, 1086, 1074, 1072, 1090, 1100]),
    (''node_detail.edit'', string_of_runes [1048, 1079, 1084, 1077, 1085, 1080, 1090, 1100]),
    (''node_detail.overview'', string_of_runes [1054, 1073, 1079, 1086, 1088]),
    (''node_detail.overview_hint'', string_of_runes [1057, 1077, 1082, 1088, 1077, 1090, 32, 1085,
       1086, 1076, 1099, 32, 1089, 1082, 1088, 1099, 1090, 46, 32, 1055, 1086, 1083, 1085, 1086,
       1077, 32, 1079, 1085, 1072, 1095, 1077, 1085, 1080, 1077, 32, 1086, 1090, 1086, 1073, 1088,
       1072, 1078, 1072, 1077, 1090, 1089, 1103, 32, 1090, 1086, 1083, 1100, 1082, 1086, 32, 1086,
       1076, 1080, 1085, 32, 1088, 1072, 1079, 32, 1087, 1088, 1080, 32, 1089, 1086, 1079, 1076,
       1072, 1085, 1080, 1080, 46]),
    (''node_detail.domain'', string_of_runes [1044, 1086, 1084, 1077, 1085]),
    (''node_detail.api_url'', ''API URL''),
    (''node_detail.setup_state'', string_of_runes [1057, 1086, 1089, 1090, 1086, 1103, 1085, 1080,
       1077]),
    (''node_detail.desired_version'', string_of_runes [1054, 1078, 1080, 1076, 1072, 1077, 1084,
       1072, 1103, 32, 1074, 1077, 1088, 1089, 1080, 1103, 32, 1082, 1086, 1085, 1092, 1080, 1075,
       1091, 1088, 1072, 1094, 1080, 1080]),
    (''node_detail.applied_version'', string_of_runes [1055, 1088, 1080, 1084, 1077, 1085, 1105,
       1085, 1085, 1072, 1103, 32, 1074, 1077, 1088, 1089, 1080, 1103]),
    (''node_detail.last_status'', string_of_runes [1055, 1086, 1089, 1083, 1077, 1076, 1085, 1080,
       1081, 32, 1089, 1090, 1072, 1090, 1091, 1089]),
    (''node_detail.last_seen'', string_of_runes [1055, 1086, 1089, 1083, 1077, 1076, 1085, 1103,
       1103, 32, 1072, 1082, 1090, 1080, 1074, 1085, 1086, 1089, 1090, 1100]),
    (''node_detail.last_sync'', string_of_runes [1055, 1086, 1089, 1083, 1077, 1076, 1085, 1103,
       1103, 32, 1089, 1080, 1085, 1093, 1088, 1086, 1085, 1080, 1079, 1072, 1094, 1080, 1103]),
    (''node_detail.last_error'', string_of_runes [1055, 1086, 1089, 1083, 1077, 1076, 1085, 1103,
       1103, 32, 1086, 1096, 1080, 1073, 1082, 1072]),
    (''node_detail.node_secret'', string_of_runes [1057, 1077, 1082, 1088, 1077, 1090, 32, 1085,
       1086, 1076, 1099]),
    (''node_detail.protocol_settings'', string_of_runes [1053, 1072, 1089, 1090, 1088, 1086, 1081,
       1082, 1080, 32, 1087, 1088, 1086, 1090, 1086, 1082, 1086, 1083, 1072]),
    (''node_detail.protocol_hint'', string_of_runes [1055, 1086, 1082, 1072, 1079, 1099, 1074,
       1072, 1102, 1090, 1089, 1103, 32, 1090, 1086, 1083, 1100, 1082, 1086, 32, 1087, 1091, 1073,
       1083, 1080, 1095, 1085, 1099, 1077, 32, 1088, 1072, 1073, 1086, 1095, 1080, 1077, 32, 1087,
       1072, 1088, 1072, 1084, 1077, 1090, 1088, 1099, 46]),
    (''node_detail.ports'', string_of_runes [1044, 1080, 1072, 1087, 1072, 1079, 1086, 1085, 32,
       1087, 1086, 1088, 1090, 1086, 1074]),
    (''node_detail.mtu'', ''MTU''),
    (''node_detail.multiplexing'', string_of_runes [1052, 1091, 1083, 1100, 1090, 1080, 1087, 1083,
       1077, 1082, 1089, 1080, 1088, 1086, 1074, 1072, 1085, 1080, 1077]),
    (''node_detail.handshake_mode'', string_of_runes [1056, 1077, 1078, 1080, 1084, 32, 104, 97,
       110, 100, 115, 104, 97, 107, 101]),
    (''node_detail.traffic_pattern'', string_of_runes [1055, 1072, 1090, 1090, 1077, 1088, 1085,
       32, 1090, 1088, 1072, 1092, 1080, 1082, 1072]),
    (''node_detail.profile'', string_of_runes [1055, 1088, 1086, 1092, 1080, 1083, 1100]),
    (''node_detail.naive_port'', string_of_runes [1055, 1086, 1088, 1090, 32, 78, 97, 105, 118,
       101]),
    (''node_detail.assigned_users'', string_of_runes [1053, 1072, 1079, 1085, 1072, 1095, 1077,
       1085, 1085, 1099, 1077, 32, 1087, 1086, 1083, 1100, 1079, 1086, 1074, 1072, 1090, 1077,
       1083, 1080]),
    (''node_detail.assigned_hint'', string_of_runes [1048, 1089, 1090, 1105, 1082, 1096, 1080,
       1077, 32, 1080, 32, 1086, 1090, 1082, 1083, 1102, 1095, 1105, 1085, 1085, 1099, 1077, 32,
       1087, 1086, 1083, 1100, 1079, 1086, 1074, 1072, 1090, 1077, 1083, 1080, 32, 1086, 1089,
       1090, 1072, 1102, 1090, 1089, 1103, 32, 1074, 1080, 1076, 1080, 1084, 1099, 1084, 1080, 44,
       32, 1095, 1090, 1086, 1073, 1099, 32, 1086, 1087, 1077, 1088, 1072, 1094, 1080, 1086, 1085,
       1085, 1086, 1077, 32, 1089, 1086, 1089, 1090, 1086, 1103, 1085, 1080, 1077, 32, 1073, 1099,
       1083, 1086, 32, 1087, 1086, 1085, 1103, 1090, 1085, 1099, 1084, 46]),
    (''node_detail.user'', string_of_runes [1055, 1086, 1083, 1100, 1079, 1086, 1074, 1072, 1090,
       1077, 1083, 1100]),
    (''node_detail.expiration'', string_of_runes [1057, 1088, 1086, 1082, 32, 1076, 1077, 1081,
       1089, 1090, 1074, 1080, 1103]),
    (''node_detail.assignment'', string_of_runes [1053, 1072, 1079, 1085, 1072, 1095, 1077, 1085,
       1080, 1077]),
    (''node_detail.no_assigned_users'', string_of_runes [1053, 1072, 1079, 1085, 1072, 1095, 1077,
       1085, 1085, 1099, 1093, 32, 1087, 1086, 1083, 1100, 1079, 1086, 1074, 1072, 1090, 1077,
       1083, 1077, 1081, 32, 1087, 1086, 1082, 1072, 32, 1085, 1077, 1090]),
    (''node_detail.sync_history'', string_of_runes [1048, 1089, 1090, 1086, 1088, 1080, 1103, 32,
       1089, 1080, 1085, 1093, 1088, 1086, 1085, 1080, 1079, 1072, 1094, 1080, 1080]),
    (''node_detail.sync_history_hint'', string_of_runes [82, 101, 113, 117, 101, 115, 116, 32, 112,
       97, 121, 108, 111, 97, 100, 32, 1085, 1077, 32, 1086, 1090, 1086, 1073, 1088, 1072, 1078,
       1072, 1077, 1090, 1089, 1103, 59, 32, 1086, 1090, 1074, 1077, 1090, 32, 1086, 1095, 1080,
       1097, 1072, 1077, 1090, 1089, 1103, 32, 1086, 1090, 32, 1089, 1077, 1082, 1088, 1077, 1090,
       1086, 1074, 46]),
    (''node_detail.sessions'', string_of_runes [1040, 1082, 1090, 1080, 1074, 1085, 1099, 1077, 32,
       1080, 32, 1085, 1077, 1076, 1072, 1074, 1085, 1080, 1077, 32, 1089, 1077, 1072, 1085, 1089,
       1099]),
    (''node_detail.sessions_hint'', string_of_runes [82, 101, 97, 100, 45, 111, 110, 108, 121, 32,
       116, 101, 108, 101, 109, 101, 116, 114, 121, 32, 1080, 1079, 32, 86, 101, 116, 107, 97, 78,
       111, 100, 101, 65, 103, 101, 110, 116, 46, 32, 1069, 1090, 1086, 1090, 32, 1088, 1072, 1079,
       1076, 1077, 1083, 32, 1090, 1086, 1083, 1100, 1082, 1086, 32, 1087, 1086, 1082, 1072, 1079,
       1099, 1074, 1072, 1077, 1090, 32, 1085, 1072, 1073, 1083, 1102, 1076, 1072, 1077, 1084,
       1086, 1077, 32, 1089, 1086, 1089, 1090, 1086, 1103, 1085, 1080, 1077, 32, 1080, 32, 1085,
       1077, 32, 1079, 1072, 1087, 1091, 1089, 1082, 1072, 1077, 1090, 32, 1089, 1080, 1085, 1093,
       1088, 1086, 1085, 1080, 1079, 1072, 1094, 1080, 1102, 46])]"

definition ru_x :: "(string \<times> string) list" where
  "ru_x = [
    (''sessions.collector_status'', string_of_runes [1057, 1090, 1072, 1090, 1091, 1089, 32, 99,
       111, 108, 108, 101, 99, 116, 111, 114]),
    (''sessions.last_successful_collection'', string_of_runes [1055, 1086, 1089, 1083, 1077, 1076,
       1085, 1080, 1081, 32, 1091, 1089, 1087, 1077, 1096, 1085, 1099, 1081, 32, 1089, 1073, 1086,
       1088]),
    (''sessions.capabilities'', string_of_runes [1042, 1086, 1079, 1084, 1086, 1078, 1085, 1086,
       1089, 1090, 1080, 32, 99, 111, 108, 108, 101, 99, 116, 111, 114]),
    (''sessions.capability_client_ip'', string_of_runes [1054, 1087, 1088, 1077, 1076, 1077, 1083,
       1077, 1085, 1080, 1077, 32, 73, 80, 32, 1082, 1083, 1080, 1077, 1085, 1090, 1072]),
    (''sessions.capability_per_user_activity'', string_of_runes [1040, 1082, 1090, 1080, 1074,
       1085, 1086, 1089, 1090, 1100, 32, 1087, 1086, 32, 1087, 1086, 1083, 1100, 1079, 1086, 1074,
       1072, 1090, 1077, 1083, 1103, 1084]),
    (''sessions.capability_traffic_counters'', string_of_runes [1057, 1095, 1105, 1090, 1095, 1080,
       1082, 1080, 32, 1090, 1088, 1072, 1092, 1080, 1082, 1072]),
    (''sessions.capability_first_seen'', string_of_runes [1055, 1077, 1088, 1074, 1086, 1077, 32,
       1087, 1086, 1103, 1074, 1083, 1077, 1085, 1080, 1077]),
    (''sessions.capability_last_seen'', string_of_runes [1055, 1086, 1089, 1083, 1077, 1076, 1085,
       1103, 1103, 32, 1072, 1082, 1090, 1080, 1074, 1085, 1086, 1089, 1090, 1100])]"

definition ru_d :: "(string \<times> string) list" where
  "ru_d = [
    (''node_detail.changed'', string_of_runes [1048, 1079, 1084, 1077, 1085, 1077, 1085, 1080,
       1103]),
    (''node_detail.no_sync_history'', string_of_runes [1048, 1089, 1090, 1086, 1088, 1080, 1080,
       32, 1089, 1080, 1085, 1093, 1088, 1086, 1085, 1080, 1079, 1072, 1094, 1080, 1080, 32, 1087,
       1086, 1082, 1072, 32, 1085, 1077, 1090]),
    (''node_detail.danger'', string_of_runes [1054, 1087, 1072, 1089, 1085, 1072, 1103, 32, 1079,
       1086, 1085, 1072]),
    (''node_detail.danger_hint_text'', string_of_runes [1089, 1082, 1088, 1099, 1074, 1072, 1077,
       1090, 32, 1085, 1086, 1076, 1091, 32, 1080, 1079, 32, 1085, 1086, 1074, 1099, 1093, 32,
       1087, 1086, 1076, 1087, 1080, 1089, 1086, 1082, 46, 32, 1057, 1086, 1093, 1088, 1072, 1085,
       1105, 1085, 1085, 1099, 1077, 32, 1091, 32, 1082, 1083, 1080, 1077, 1085, 1090, 1086, 1074,
       32, 1082, 1086, 1085, 1092, 1080, 1075, 1080, 32, 1084, 1086, 1075, 1091, 1090, 32, 1088,
       1072, 1073, 1086, 1090, 1072, 1090, 1100, 32, 1076, 1086, 32, 1089, 1083, 1077, 1076, 1091,
       1102, 1097, 1077, 1075, 1086, 32, 1086, 1073, 1085, 1086, 1074, 1083, 1077, 1085, 1080,
       1103, 46]),
    (''node_detail.delete'', string_of_runes [1059, 1076, 1072, 1083, 1080, 1090, 1100, 32, 1085,
       1086, 1076, 1091]),
    (''node_detail.delete_confirm'', string_of_runes [1059, 1076, 1072, 1083, 1080, 1090, 1100, 32,
       1101, 1090, 1091, 32, 1085, 1086, 1076, 1091, 63]),
    (''node_edit.eyebrow'', string_of_runes [1053, 1072, 1089, 1090, 1088, 1086, 1081, 1082, 1080,
       32, 1085, 1086, 1076, 1099]),
    (''node_edit.heading_prefix'', string_of_runes [1048, 1079, 1084, 1077, 1085, 1077, 1085, 1080,
       1077]),
    (''node_edit.intro'', string_of_runes [1054, 1073, 1085, 1086, 1074, 1083, 1103, 1081, 1090,
       1077, 32, 1087, 1072, 1088, 1072, 1084, 1077, 1090, 1088, 1099, 32, 1087, 1086, 1076, 1082,
       1083, 1102, 1095, 1077, 1085, 1080, 1103, 44, 32, 1085, 1077, 32, 1088, 1072, 1089, 1082,
       1088, 1099, 1074, 1072, 1103, 32, 1089, 1086, 1093, 1088, 1072, 1085, 1105, 1085, 1085,
       1099, 1081, 32, 1089, 1077, 1082, 1088, 1077, 1090, 32, 1085, 1086, 1076, 1099, 46]),
    (''node_edit.back'', string_of_runes [1053, 1072, 1079, 1072, 1076, 32, 1082, 32, 1085, 1086,
       1076, 1077]),
    (''node_edit.validate_status'', string_of_runes [1055, 1088, 1086, 1074, 1077, 1088, 1080,
       1090, 1100, 32, 47, 115, 116, 97, 116, 117, 115]),
    (''node_edit.identity'', string_of_runes [1054, 1089, 1085, 1086, 1074, 1085, 1099, 1077, 32,
       1087, 1072, 1088, 1072, 1084, 1077, 1090, 1088, 1099]),
    (''node_edit.identity_hint'', string_of_runes [1058, 1077, 1082, 1091, 1097, 1077, 1077, 32,
       1089, 1086, 1089, 1090, 1086, 1103, 1085, 1080, 1077, 32, 1085, 1086, 1076, 1099, 58]),
    (''node_edit.name'', string_of_runes [1053, 1072, 1079, 1074, 1072, 1085, 1080, 1077]),
    (''node_edit.leave_secret'', string_of_runes [1054, 1089, 1090, 1072, 1074, 1100, 1090, 1077,
       32, 1087, 1091, 1089, 1090, 1099, 1084, 44, 32, 1095, 1090, 1086, 1073, 1099, 32, 1089,
       1086, 1093, 1088, 1072, 1085, 1080, 1090, 1100, 32, 1090, 1077, 1082, 1091, 1097, 1077,
       1077, 32, 1079, 1085, 1072, 1095, 1077, 1085, 1080, 1077]),
    (''node_edit.disable_hint'', string_of_runes [1054, 1090, 1082, 1083, 1102, 1095, 1105, 1085,
       1085, 1072, 1103, 32, 1085, 1086, 1076, 1072, 32, 1089, 1082, 1088, 1099, 1074, 1072, 1077,
       1090, 1089, 1103, 32, 1080, 1079, 32, 1085, 1086, 1074, 1099, 1093, 32, 1087, 1086, 1076,
       1087, 1080, 1089, 1086, 1082, 46, 32, 1059, 1078, 1077, 32, 1089, 1086, 1093, 1088, 1072,
       1085, 1105, 1085, 1085, 1099, 1077, 32, 1082, 1083, 1080, 1077, 1085, 1090, 1089, 1082,
       1080, 1077, 32, 1082, 1086, 1085, 1092, 1080, 1075, 1080, 32, 1084, 1086, 1075, 1091, 1090,
       32, 1087, 1088, 1086, 1076, 1086, 1083, 1078, 1072, 1090, 1100, 32, 1088, 1072, 1073, 1086,
       1090, 1072, 1090, 1100, 32, 1076, 1086, 32, 1086, 1073, 1085, 1086, 1074, 1083, 1077, 1085,
       1080, 1103, 46]),
    (''node_edit.save'', string_of_runes [1057, 1086, 1093, 1088, 1072, 1085, 1080, 1090, 1100, 32,
       1085, 1086, 1076, 1091]),
    (''node_edit.danger_hint'', string_of_runes [1069, 1090, 1086, 32, 1085, 1077, 32, 1080, 1085,
       1089, 1090, 1088, 1091, 1084, 1077, 1085, 1090, 32, 1101, 1082, 1089, 1090, 1088, 1077,
       1085, 1085, 1086, 1075, 1086, 32, 1086, 1090, 1079, 1099, 1074, 1072, 32, 1076, 1086, 1089,
       1090, 1091, 1087, 1072, 46]),
    (''node_created.eyebrow'', string_of_runes [1054, 1076, 1085, 1086, 1088, 1072, 1079, 1086,
       1074, 1099, 1081, 32, 1089, 1077, 1082, 1088, 1077, 1090]),
    (''node_created.heading'', string_of_runes [1053, 1086, 1076, 1072, 32, 1089, 1086, 1079, 1076,
       1072, 1085, 1072]),
    (''node_created.intro'', string_of_runes [1057, 1086, 1093, 1088, 1072, 1085, 1080, 1090, 1077,
       32, 1089, 1077, 1082, 1088, 1077, 1090, 32, 1089, 1077, 1081, 1095, 1072, 1089, 46, 32,
       1055, 1086, 1089, 1083, 1077, 32, 1079, 1072, 1082, 1088, 1099, 1090, 1080, 1103, 32, 1101,
       1090, 1086, 1075, 1086, 32, 1101, 1082, 1088, 1072, 1085, 1072, 32, 1087, 1072, 1085, 1077,
       1083, 1100, 32, 1087, 1086, 1082, 1072, 1078, 1077, 1090, 32, 1090, 1086, 1083, 1100, 1082,
       1086, 32, 1084, 1072, 1089, 1082, 1091, 46]),
    (''node_created.open_detail'', string_of_runes [1054, 1090, 1082, 1088, 1099, 1090, 1100, 32,
       1085, 1086, 1076, 1091]),
    (''node_created.back_nodes'', string_of_runes [1050, 32, 1089, 1087, 1080, 1089, 1082, 1091,
       32, 1085, 1086, 1076]),
    (''node_created.secret_handling'', string_of_runes [1056, 1072, 1073, 1086, 1090, 1072, 32,
       1089, 32, 1089, 1077, 1082, 1088, 1077, 1090, 1086, 1084]),
    (''node_created.secret_hint'', string_of_runes [1069, 1090, 1080, 32, 1079, 1085, 1072, 1095,
       1077, 1085, 1080, 1103, 32, 1087, 1086, 1082, 1072, 1079, 1099, 1074, 1072, 1102, 1090,
       1089, 1103, 32, 1090, 1086, 1083, 1100, 1082, 1086, 32, 1086, 1076, 1080, 1085, 32, 1088,
       1072, 1079, 46, 32, 1054, 1085, 1080, 32, 1085, 1077, 32, 1089, 1086, 1093, 1088, 1072,
       1085, 1103, 1102, 1090, 1089, 1103, 32, 1074, 32, 108, 111, 99, 97, 108, 83, 116, 111, 114,
       97, 103, 101, 32, 1080, 32, 1085, 1077, 32, 1076, 1086, 1083, 1078, 1085, 1099, 32, 1087,
       1086, 1087, 1072, 1076, 1072, 1090, 1100, 32, 1074, 32, 1089, 1090, 1086, 1088, 1086, 1085,
       1085, 1080, 1077, 32, 1089, 1077, 1088, 1074, 1080, 1089, 1099, 46]),
    (''node_created.environment_block'', string_of_runes [1041, 1083, 1086, 1082, 32, 1087, 1077,
       1088, 1077, 1084, 1077, 1085, 1085, 1099, 1093, 32, 1086, 1082, 1088, 1091, 1078, 1077,
       1085, 1080, 1103]),
    (''node_created.install_command'', string_of_runes [1050, 1086, 1084, 1072, 1085, 1076, 1072,
       32, 1091, 1089, 1090, 1072, 1085, 1086, 1074, 1082, 1080]),
    (''node_created.copy_all'', string_of_runes [1057, 1082, 1086, 1087, 1080, 1088, 1086, 1074,
       1072, 1090, 1100, 32, 1074, 1089, 1105]),
    (''node_created.copy_install'', string_of_runes [1057, 1082, 1086, 1087, 1080, 1088, 1086,
       1074, 1072, 1090, 1100, 32, 1091, 1089, 1090, 1072, 1085, 1086, 1074, 1082, 1091]),
    (''node_created.ufw_hint'', string_of_runes [1053, 1072, 1087, 1086, 1084, 1080, 1085, 1072,
       1085, 1080, 1077, 32, 1076, 1083, 1103, 32, 85, 70, 87, 58, 32, 1086, 1090, 1082, 1088,
       1086, 1081, 1090, 1077, 32, 1087, 1086, 1088, 1090, 32, 1090, 1086, 1083, 1100, 1082, 1086,
       32, 1076, 1083, 1103, 32, 73, 80, 32, 66, 97, 99, 107, 101, 110, 100, 32, 80, 97, 110, 101,
       108, 46]),
    (''login.eyebrow'', string_of_runes [1047, 1072, 1097, 1080, 1097, 1105, 1085, 1085, 1099,
       1081, 32, 1076, 1086, 1089, 1090, 1091, 1087]),
    (''login.username'', string_of_runes [1051, 1086, 1075, 1080, 1085]),
    (''login.password'', string_of_runes [1055, 1072, 1088, 1086, 1083, 1100]),
    (''login.show'', string_of_runes [1055, 1086, 1082, 1072, 1079, 1072, 1090, 1100]),
    (''login.hide'', string_of_runes [1057, 1082, 1088, 1099, 1090, 1100]),
    (''login.submit'', string_of_runes [1042, 1086, 1081, 1090, 1080]),
    (''flash.login_invalid'', string_of_runes [1053, 1077, 1074, 1077, 1088, 1085, 1099, 1081, 32,
       1083, 1086, 1075, 1080, 1085, 32, 1080, 1083, 1080, 32, 1087, 1072, 1088, 1086, 1083, 1100]),
    (''flash.operation_failed'', string_of_runes [1054, 1087, 1077, 1088, 1072, 1094, 1080, 1103,
       32, 1085, 1077, 32, 1074, 1099, 1087, 1086, 1083, 1085, 1077, 1085, 1072, 46, 32, 1055,
       1088, 1086, 1074, 1077, 1088, 1100, 1090, 1077, 32, 1078, 1091, 1088, 1085, 1072, 1083,
       1099, 32, 66, 97, 99, 107, 101, 110, 100, 46]),
    (''flash.internal_server_error'', string_of_runes [1042, 1085, 1091, 1090, 1088, 1077, 1085,
       1085, 1103, 1103, 32, 1086, 1096, 1080, 1073, 1082, 1072, 32, 1089, 1077, 1088, 1074, 1077,
       1088, 1072]),
    (''reconcile.users_found'', string_of_runes [1053, 1072, 1081, 1076, 1077, 1085, 1086, 32,
       1087, 1086, 1083, 1100, 1079, 1086, 1074, 1072, 1090, 1077, 1083, 1077, 1081]),
    (''reconcile.nodes_affected'', string_of_runes [1079, 1072, 1090, 1088, 1086, 1085, 1091, 1090,
       1086, 32, 1085, 1086, 1076]),
    (''reconcile.successful_syncs'', string_of_runes [1091, 1089, 1087, 1077, 1096, 1085, 1099,
       1093, 32, 1089, 1080, 1085, 1093, 1088, 1086, 1085, 1080, 1079, 1072, 1094, 1080, 1081]),
    (''reconcile.users_processed'', string_of_runes [1086, 1073, 1088, 1072, 1073, 1086, 1090,
       1072, 1085, 1086, 32, 1087, 1086, 1083, 1100, 1079, 1086, 1074, 1072, 1090, 1077, 1083,
       1077, 1081]),
    (''reconcile.errors'', string_of_runes [1086, 1096, 1080, 1073, 1082, 1080]),
    (''subscription.unlimited'', string_of_runes [1055, 1086, 1076, 1087, 1080, 1089, 1082, 1072,
       58, 32, 1073, 1077, 1079, 32, 1086, 1075, 1088, 1072, 1085, 1080, 1095, 1077, 1085, 1080,
       1081]),
    (''subscription.expired_at'', string_of_runes [1055, 1086, 1076, 1087, 1080, 1089, 1082, 1072,
       32, 1080, 1089, 1090, 1077, 1082, 1083, 1072, 58]),
    (''subscription.expires_at'', string_of_runes [1057, 1088, 1086, 1082, 32, 1076, 1077, 1081,
       1089, 1090, 1074, 1080, 1103, 32, 1076, 1086, 58]),
    (''flash.status_ok'', string_of_runes [1057, 1090, 1072, 1090, 1091, 1089, 32, 79, 75]),
    (''flash.sync_ok'', string_of_runes [1057, 1080, 1085, 1093, 1088, 1086, 1085, 1080, 1079,
       1072, 1094, 1080, 1103, 32, 79, 75]),
    (''status.current_version'', string_of_runes [1058, 1077, 1082, 1091, 1097, 1072, 1103, 32,
       1074, 1077, 1088, 1089, 1080, 1103]),
    (''status.applied_version'', string_of_runes [1055, 1088, 1080, 1084, 1077, 1085, 1105, 1085,
       1085, 1072, 1103, 32, 1074, 1077, 1088, 1089, 1080, 1103]),
    (''status.users_cached'', string_of_runes [1055, 1086, 1083, 1100, 1079, 1086, 1074, 1072,
       1090, 1077, 1083, 1077, 1081, 32, 1074, 32, 1082, 1101, 1096, 1077]),
    (''status.config_version'', string_of_runes [1042, 1077, 1088, 1089, 1080, 1103, 32, 1082,
       1086, 1085, 1092, 1080, 1075, 1091, 1088, 1072, 1094, 1080, 1080]),
    (''status.http_status'', string_of_runes [72, 84, 84, 80, 45, 1089, 1090, 1072, 1090, 1091,
       1089])]"

definition en_a :: "(string \<times> string) list" where
  "en_a = [
    (''page.dashboard'', ''Dashboard''),
    (''page.users'', ''Users''),
    (''page.user_detail'', ''User Detail''),
    (''page.nodes'', ''Nodes''),
    (''page.sessions'', ''Sessions''),
    (''page.node_detail'', ''Node Detail''),
    (''page.node_edit'', ''Edit Node''),
    (''page.node_created'', ''Node Created''),
    (''page.login'', ''Login''),
    (''brand.tagline'', ''Reserve VPN control plane''),
    (''nav.primary'', ''Primary navigation''),
    (''nav.dashboard'', ''Dashboard''),
    (''nav.users'', ''Users''),
    (''nav.nodes'', ''Nodes''),
    (''nav.sessions'', ''Sessions''),
    (''sidebar.backend_ready'', ''Backend ready. Health checks use the local database connection.''),
    (''sidebar.language'', ''Interface language''),
    (''lang.ru'', ''RU''),
    (''lang.en'', ''EN''),
    (''topbar.open_navigation'', ''Open navigation''),
    (''topbar.close_dialog'', ''Close dialog''),
    (''toast.dismiss'', ''Dismiss notification''),
    (''qr.title'', ''QR Code''),
    (''qr.default_title'', ''Subscription QR''),
    (''button.copy_url'', ''Copy URL''),
    (''button.close'', ''Close''),
    (''button.copy'', ''Copy''),
    (''button.copied'', ''Copied''),
    (''button.open'', ''Open''),
    (''button.cancel'', ''Cancel''),
    (''button.save'', ''Save''),
    (''button.sync_all_nodes'', ''Sync All Nodes''),
    (''button.reconcile_expired'', ''Reconcile Expired Users''),
    (''status.no_display_name'', ''No display name''),
    (''status.unlimited'', ''Unlimited''),
    (''status.active'', ''Active''),
    (''status.expired'', ''Expired''),
    (''status.expires_soon'', ''Expires Soon''),
    (''status.disabled'', ''Disabled''),
    (''status.hidden'', ''Hidden''),
    (''status.visible'', ''Visible''),
    (''status.enabled'', ''Enabled''),
    (''status.disabled_access'', ''Disabled''),
    (''status.connected'', ''Connected''),
    (''status.planned'', ''Planned''),
    (''status.unreachable'', ''Unreachable''),
    (''status.offline'', ''Offline''),
    (''status.ok'', ''OK''),
    (''dashboard.eyebrow'', ''Infrastructure''),
    (''dashboard.heading'', ''Dashboard''),
    (''dashboard.intro'', ''Control the reserve VPN plane, keep node state tidy, and catch expiry-driven revokes before they linger.''),
    (''dashboard.total_users'', ''Total Users''),
    (''dashboard.active_users'', ''Active Users''),
    (''dashboard.expired_users'', ''Expired Users''),
    (''dashboard.disabled_users'', ''Disabled Users''),
    (''dashboard.total_nodes'', ''Total Nodes''),
    (''dashboard.connected'', ''Connected''),
    (''dashboard.unreachable'', ''Unreachable''),
    (''dashboard.planned'', ''Planned''),
    (''dashboard.sync_errors'', ''Sync Errors (24h)''),
    (''dashboard.infrastructure'', ''Infrastructure Health''),
    (''dashboard.infrastructure_hint'', ''Latest node state, versions, and last observed errors.''),
    (''dashboard.view_all_nodes'', ''View all nodes''),
    (''dashboard.desired'', ''Desired''),
    (''dashboard.applied'', ''Applied''),
    (''dashboard.last_seen'', ''Last Seen''),
    (''dashboard.assigned_users'', ''Assigned Users''),
    (''dashboard.no_nodes'', ''No nodes yet''),
    (''dashboard.no_nodes_hint'', ''Add the first planned or adopted node to start managing infrastructure.''),
    (''dashboard.upcoming'', ''Upcoming Expirations''),
    (''dashboard.upcoming_hint'', ''Rendered in''),
    (''dashboard.view_users'', ''View users''),
    (''dashboard.no_upcoming'', ''No upcoming expirations''),
    (''dashboard.no_upcoming_hint'', ''The next revoke window is quiet right now.''),
    (''dashboard.recent_sync'', ''Recent Sync Events''),
    (''dashboard.recent_sync_hint'', ''Latest backend-to-node sync attempts.''),
    (''dashboard.timestamp'', ''Timestamp''),
    (''dashboard.node'', ''Node''),
    (''dashboard.config_version'', ''Config Version''),
    (''dashboard.status'', ''Status''),
    (''dashboard.http'', ''HTTP''),
    (''dashboard.error'', ''Error''),
    (''dashboard.no_sync_events'', ''No sync events yet''),
    (''sessions.heading'', ''Sessions''),
    (''sessions.intro'', ''Read observed session telemetry from VetkaNodeAgent without touching desired state.''),
    (''sessions.active_only'', ''Active''),
    (''sessions.include_recent'', ''Active and Recent''),
    (''sessions.recent_only'', ''Recent''),
    (''sessions.refresh'', ''Refresh''),
    (''sessions.active_count'', ''Active Sessions''),
    (''sessions.unique_ips'', ''Unique IPs''),
    (''sessions.collectors_ok'', ''Collectors OK''),
    (''sessions.collectors_degraded'', ''Collectors Degraded''),
    (''sessions.status'', ''Status''),
    (''sessions.user'', ''User''),
    (''sessions.node'', ''Node''),
    (''sessions.protocol'', ''Protocol''),
    (''sessions.client_ip'', ''IP''),
    (''sessions.first_seen'', ''First Seen''),
    (''sessions.last_seen'', ''Last Seen''),
    (''sessions.upload'', ''Upload''),
    (''sessions.download'', ''Download''),
    (''sessions.no_active'', ''No active sessions''),
    (''sessions.no_recent'', ''No recent sessions''),
    (''sessions.unknown_user'', ''Unknown user''),
    (''sessions.ip_unavailable_mieru'', ''IP unavailable for Mieru''),
    (''sessions.ip_unknown'', ''Unknown''),
    (''sessions.collector_ok'', ''Collector OK''),
    (''sessions.collector_partial'', ''Collector partial''),
    (''sessions.collector_unavailable'', ''Collector unavailable''),
    (''sessions.collector_disabled'', ''Collector disabled'')]"

definition en_x :: "(string \<times> string) list" where
  "en_x = [
    (''sessions.collector_status'', ''Collector Status''),
    (''sessions.last_successful_collection'', ''Last Successful Collection''),
    (''sessions.capabilities'', ''Capabilities''),
    (''sessions.capability_client_ip'', ''Client IP''),
    (''sessions.capability_per_user_activity'', ''Per-user Activity''),
    (''sessions.capability_traffic_counters'', ''Traffic Counters''),
    (''sessions.capability_first_seen'', ''First Seen''),
    (''sessions.capability_last_seen'', ''Last Seen'')]"

definition en_b :: "(string \<times> string) list" where
  "en_b = [
    (''sessions.issue_missing_api_url'', ''Agent URL is not configured''),
    (''sessions.issue_missing_node_id'', ''Node ID is not configured''),
    (''sessions.issue_missing_node_secret'', ''Agent secret is not configured''),
    (''sessions.issue_collector_warning'', ''The collector reported warnings''),
    (''sessions.issue_collector_partial'', ''Telemetry collection is partial''),
    (''sessions.issue_collector_unavailable'', ''Session telemetry is unavailable''),
    (''sessions.issue_collector_disabled'', ''Session telemetry is disabled on the node''),
    (''sessions.partial_warning'', ''Some nodes may be temporarily unavailable. Available sessions still render.''),
    (''sessions.node_unavailable'', ''Node unavailable''),
    (''users.eyebrow'', ''Access Control''),
    (''users.heading'', ''Users''),
    (''users.intro'', ''users in the current view.''),
    (''users.intro_suffix'', ''Creation, expiry revoke, and assignment changes stay server-rendered.''),
    (''users.create'', ''Create User''),
    (''users.search'', ''Search''),
    (''users.search_placeholder'', ''Username or display name''),
    (''users.filter_status'', ''Status''),
    (''users.filter_all'', ''All''),
    (''users.filter_active'', ''Active''),
    (''users.filter_expired'', ''Expired''),
    (''users.filter_disabled'', ''Disabled''),
    (''users.filter_expires_soon'', ''Expires Soon''),
    (''users.sort'', ''Sort''),
    (''users.sort_username'', ''Username''),
    (''users.sort_expires_at'', ''Expires At''),
    (''users.sort_created_at'', ''Created At''),
    (''users.apply'', ''Apply''),
    (''users.table.user'', ''User''),
    (''users.table.status'', ''Status''),
    (''users.table.expires_at'', ''Expires At''),
    (''users.table.assigned_nodes'', ''Assigned Nodes''),
    (''users.table.quota'', ''Quota''),
    (''users.table.token'', ''Token''),
    (''users.table.actions'', ''Actions''),
    (''users.open'', ''Open''),
    (''users.delete'', ''Delete''),
    (''users.delete_confirm'', ''Delete this user and sync affected nodes?''),
    (''users.no_matches'', ''No users match this view''),
    (''users.no_matches_hint'', ''Try a different filter or create a new user.''),
    (''users.create_title'', ''Create User''),
    (''users.create_hint'', ''Provision a new subscription''),
    (''users.username'', ''Username''),
    (''users.display_name'', ''Display Name''),
    (''users.expires_at'', ''Expires At''),
    (''users.expires_help'', ''Empty means unlimited. Timezone:''),
    (''users.quota_mb'', ''Quota MB''),
    (''users.quota_help_text'', ''keeps metadata unlimited.''),
    (''users.notes'', ''Notes''),
    (''users.enabled'', ''Enabled''),
    (''users.assign_nodes'', ''Assign Nodes''),
    (''users.no_nodes'', ''No nodes available yet.''),
    (''users.create_submit'', ''Create User''),
    (''user_detail.eyebrow'', ''User Detail''),
    (''user_detail.sync_nodes'', ''Sync Affected Nodes''),
    (''user_detail.enable'', ''Enable''),
    (''user_detail.disable'', ''Disable''),
    (''user_detail.overview'', ''Overview''),
    (''user_detail.status'', ''Status''),
    (''user_detail.remaining'', ''Remaining''),
    (''user_detail.subscription_token'', ''Subscription Token''),
    (''user_detail.edit_title'', ''Edit User''),
    (''user_detail.edit_hint'', ''State changes stay POST-only and sync affected nodes afterward.''),
    (''user_detail.save'', ''Save''),
    (''user_detail.subscription_links'', ''Subscription Links''),
    (''user_detail.subscription_hint'', ''All QR codes are generated locally in the browser. Nothing leaves the panel.''),
    (''user_detail.assigned_nodes'', ''Assigned Nodes''),
    (''user_detail.assigned_hint'', ''Protocol credentials stay masked in normal UI surfaces.''),
    (''user_detail.assign_node'', ''Assign Node''),
    (''user_detail.node'', ''Node''),
    (''user_detail.protocol'', ''Protocol''),
    (''user_detail.credentials'', ''Credentials''),
    (''user_detail.access'', ''Access''),
    (''user_detail.node_state'', ''Node State''),
    (''user_detail.unassign'', ''Unassign''),
    (''user_detail.unassign_confirm'', ''Unassign this node and sync it?''),
    (''user_detail.no_assignments'', ''No node assignments yet''),
    (''user_detail.danger'', ''Danger Zone''),
    (''user_detail.danger_hint'', ''Use with intention; these actions can revoke access or remove the user entirely.''),
    (''user_detail.disable_user'', ''Disable User'')]"

definition en_c :: "(string \<times> string) list" where
  "en_c = [
    (''user_detail.delete_user'', ''Delete User''),
    (''user_detail.assign_title'', ''Assign Node''),
    (''user_detail.assign_hint'', ''Attach protocol credentials''),
    (''user_detail.protocol_username'', ''Protocol Username''),
    (''user_detail.protocol_password'', ''Protocol Password''),
    (''user_detail.generated_empty'', ''Generated when empty''),
    (''user_detail.assign_submit'', ''Assign Node''),
    (''user_detail.sessions'', ''User Sessions''),
    (''user_detail.sessions_hint'', ''Observed activity across assigned nodes only. No enforcement is performed here.''),
    (''nodes.eyebrow'', ''Node Fleet''),
    (''nodes.heading'', ''Nodes''),
    (''nodes.intro'', ''Adopt existing agents, stage planned nodes, and inspect sync health without exposing raw secrets.''),
    (''nodes.add'', ''Add Node''),
    (''nodes.sync_all'', ''Sync All''),
    (''nodes.table.node'', ''Node''),
    (''nodes.table.protocol'', ''Protocol''),
    (''nodes.table.setup'', ''Setup''),
    (''nodes.table.enabled'', ''Enabled''),
    (''nodes.table.versions'', ''Versions''),
    (''nodes.table.assigned_users'', ''Assigned Users''),
    (''nodes.table.last_seen'', ''Last Seen''),
    (''nodes.table.last_error'', ''Last Error''),
    (''nodes.table.actions'', ''Actions''),
    (''nodes.no_nodes'', ''No nodes yet''),
    (''nodes.no_nodes_hint'', ''Create a planned node or adopt an existing agent.''),
    (''nodes.modal_add'', ''Add Node''),
    (''nodes.modal_type'', ''Planned or adopted''),
    (''nodes.tab_planned'', ''Planned Node''),
    (''nodes.tab_adopt'', ''Adopt Existing Node''),
    (''nodes.planned_hint_prefix'', ''Use planned mode before the server has''),
    (''nodes.planned_hint_suffix'', ''installed. The panel generates the one-time bootstrap secret and install command without calling''),
    (''nodes.adopt_hint_prefix'', ''Use adopt mode when the agent already exists. The panel validates''),
    (''nodes.adopt_hint_middle'', '', confirms''),
    (''nodes.adopt_hint_suffix'', ''and protocol, then aligns versions with the remote node.''),
    (''nodes.node_id'', ''Node ID''),
    (''nodes.node_id_generated'', ''Generated when empty''),
    (''nodes.api_url_optional'', ''Optional until agent install''),
    (''nodes.node_secret'', ''Node Secret''),
    (''nodes.node_secret_generated'', ''Generated when empty''),
    (''nodes.create_planned'', ''Create Planned Node''),
    (''nodes.create_adopt'', ''Adopt Existing Node''),
    (''nodes.adopt_api_placeholder'', ''http://host:2222''),
    (''node_detail.eyebrow'', ''Node Detail''),
    (''node_detail.health'', ''Health''),
    (''node_detail.status_action'', ''Status''),
    (''node_detail.sync'', ''Sync''),
    (''node_detail.edit'', ''Edit''),
    (''node_detail.overview'', ''Overview''),
    (''node_detail.overview_hint'', ''Stored secret remains masked outside the one-time create screen.''),
    (''node_detail.domain'', ''Domain''),
    (''node_detail.api_url'', ''API URL''),
    (''node_detail.setup_state'', ''Setup State''),
    (''node_detail.desired_version'', ''Desired Config Version''),
    (''node_detail.applied_version'', ''Applied Version''),
    (''node_detail.last_status'', ''Last Status''),
    (''node_detail.last_seen'', ''Last Seen''),
    (''node_detail.last_sync'', ''Last Sync''),
    (''node_detail.last_error'', ''Last Error''),
    (''node_detail.node_secret'', ''Node Secret''),
    (''node_detail.protocol_settings'', ''Protocol Settings''),
    (''node_detail.protocol_hint'', ''Public runtime settings only.''),
    (''node_detail.ports'', ''Ports''),
    (''node_detail.mtu'', ''MTU''),
    (''node_detail.multiplexing'', ''Multiplexing''),
    (''node_detail.handshake_mode'', ''Handshake Mode''),
    (''node_detail.traffic_pattern'', ''Traffic Pattern''),
    (''node_detail.profile'', ''Profile''),
    (''node_detail.naive_port'', ''Naive Port''),
    (''node_detail.assigned_users'', ''Assigned Users''),
    (''node_detail.assigned_hint'', ''Expired or disabled users are still visible here so operational state stays legible.''),
    (''node_detail.user'', ''User''),
    (''node_detail.expiration'', ''Expiration''),
    (''node_detail.assignment'', ''Assignment''),
    (''node_detail.no_assigned_users'', ''No assigned users''),
    (''node_detail.sync_history'', ''Recent Sync History''),
    (''node_detail.sync_history_hint'', ''Request payloads stay hidden; response details are sanitized for secrets.''),
    (''node_detail.sessions'', ''Active and Recent Sessions''),
    (''node_detail.sessions_hint'', ''Read-only telemetry from VetkaNodeAgent. This panel never changes desired state or triggers sync.'')]"

definition en_d :: "(string \<times> string) list" where
  "en_d = [
    (''node_detail.changed'', ''Changed''),
    (''node_detail.no_sync_history'', ''No sync history yet''),
    (''node_detail.danger'', ''Danger Zone''),
    (''node_detail.danger_hint_text'', ''hides this node from new subscriptions. Cached client configs may continue working until refresh.''),
    (''node_detail.delete'', ''Delete Node''),
    (''node_detail.delete_confirm'', ''Delete this node?''),
    (''node_edit.eyebrow'', ''Node Settings''),
    (''node_edit.heading_prefix'', ''Edit''),
    (''node_edit.intro'', ''Keep connection metadata current without exposing the stored node secret.''),
    (''node_edit.back'', ''Back to Detail''),
    (''node_edit.validate_status'', ''Validate /status''),
    (''node_edit.identity'', ''Identity''),
    (''node_edit.identity_hint'', ''Current setup state:''),
    (''node_edit.name'', ''Name''),
    (''node_edit.leave_secret'', ''Leave empty to keep current''),
    (''node_edit.disable_hint'', ''Disabling a node hides it from newly generated subscriptions. Existing cached client configs may keep working until refresh.''),
    (''node_edit.save'', ''Save Node''),
    (''node_edit.danger_hint'', ''This is not an emergency revoke surface.''),
    (''node_created.eyebrow'', ''One-Time Secret''),
    (''node_created.heading'', ''Node Created''),
    (''node_created.intro'', ''Store the secret now. After this screen the panel only shows a masked value.''),
    (''node_created.open_detail'', ''Open Node Detail''),
    (''node_created.back_nodes'', ''Back to Nodes''),
    (''node_created.secret_handling'', ''Secret Handling''),
    (''node_created.secret_hint'', ''The following values are shown once. They are not stored in localStorage and should not be pasted into third-party tools.''),
    (''node_created.environment_block'', ''Environment Block''),
    (''node_created.install_command'', ''Install Command''),
    (''node_created.copy_all'', ''Copy All''),
    (''node_created.copy_install'', ''Copy Install''),
    (''node_created.ufw_hint'', ''Production UFW reminder: allow the port only from the Backend Panel IP.''),
    (''login.eyebrow'', ''Protected Access''),
    (''login.username'', ''Username''),
    (''login.password'', ''Password''),
    (''login.show'', ''Show''),
    (''login.hide'', ''Hide''),
    (''login.submit'', ''Log In''),
    (''flash.login_invalid'', ''Invalid username or password''),
    (''flash.operation_failed'', ''Operation failed. Check backend logs.''),
    (''flash.internal_server_error'', ''Internal server error''),
    (''reconcile.users_found'', ''Users found''),
    (''reconcile.nodes_affected'', ''nodes affected''),
    (''reconcile.successful_syncs'', ''successful syncs''),
    (''reconcile.users_processed'', ''users processed''),
    (''reconcile.errors'', ''errors''),
    (''subscription.unlimited'', ''Subscription: unlimited''),
    (''subscription.expired_at'', ''Subscription: expired at''),
    (''subscription.expires_at'', ''Expires at:''),
    (''flash.status_ok'', ''Status OK''),
    (''flash.sync_ok'', ''Sync OK''),
    (''status.current_version'', ''Current version''),
    (''status.applied_version'', ''Applied version''),
    (''status.users_cached'', ''Users cached''),
    (''status.config_version'', ''Config version''),
    (''status.http_status'', ''HTTP status'')]"

definition texts_ru :: "(string \<times> string) list" where
  "texts_ru = ru_a @ ru_b @ ru_c @ ru_x @ ru_d"

definition texts_en :: "(string \<times> string) list" where
  "texts_en = en_a @ en_x @ en_b @ en_c @ en_d"

section \<open>Lookup\<close>

definition NormalizeLocale :: "string \<Rightarrow> Locale" where
  "NormalizeLocale s = (if ToLower (TrimSpace s) = LocaleEN then LocaleEN else LocaleRU)"

definition texts :: "Locale \<Rightarrow> (string \<times> string) list" where
  "texts locale = (if locale = LocaleEN then texts_en else texts_ru)"

definition localized :: "Locale \<Rightarrow> string \<Rightarrow> string option" where
  "localized locale key =
     (case map_of (texts locale) key of
        Some t \<Rightarrow> if t \<noteq> [] then Some t else None
      | None \<Rightarrow> None)"

definition Translate :: "Locale \<Rightarrow> string \<Rightarrow> string" where
  "Translate locale key =
     (case localized (NormalizeLocale locale) key of
        Some t \<Rightarrow> t
      | None \<Rightarrow> (case localized LocaleRU key of Some t \<Rightarrow> t | None \<Rightarrow> key))"

lemma NormalizeLocale_cases: "NormalizeLocale s = LocaleEN \<or> NormalizeLocale s = LocaleRU"
  by (simp add: NormalizeLocale_def)

lemma string_of_runes_nonempty: "string_of_runes (r # rs) \<noteq> []"
  by (simp add: string_of_runes_def encode_rune_def Let_def)

section \<open>The tables cover the same keys\<close>

lemma part_keys:
  "map fst ru_a = map fst en_a" "map fst ru_b = map fst en_b" "map fst ru_c = map fst en_c"
  "map fst ru_x = map fst en_x" "map fst ru_d = map fst en_d"
  unfolding ru_a_def en_a_def ru_b_def en_b_def ru_c_def en_c_def ru_x_def en_x_def ru_d_def en_d_def
  by (simp_all only: list.map prod.sel)

lemma texts_keys: "fst ` set texts_ru = fst ` set texts_en"
proof -
  have "set (map fst texts_ru) = set (map fst texts_en)"
    unfolding texts_ru_def texts_en_def map_append part_keys set_append by blast
  then show ?thesis by simp
qed

lemma texts_nonempty:
  "list_all (\<lambda>e. snd e \<noteq> []) texts_ru" "list_all (\<lambda>e. snd e \<noteq> []) texts_en"
  unfolding texts_ru_def texts_en_def list_all_append
    ru_a_def en_a_def ru_b_def en_b_def ru_c_def en_c_def ru_x_def en_x_def ru_d_def en_d_def
  by (simp_all only: list.pred_inject prod.sel string_of_runes_nonempty list.distinct not_False_eq_True simp_thms)

lemma texts_complete:
  assumes "key \<in> fst ` set texts_ru"
  shows "\<exists>t. map_of (texts locale) key = Some t \<and> t \<noteq> []"
proof -
  have "key \<in> fst ` set (texts locale)" using assms texts_keys by (simp add: texts_def)
  then obtain t where t: "map_of (texts locale) key = Some t"
    by (meson map_of_eq_None_iff not_Some_eq)
  then have "(key, t) \<in> set (texts locale)" by (rule map_of_SomeD)
  then have "t \<noteq> []" using texts_nonempty by (auto simp: texts_def list_all_iff split: if_split_asm)
  with t show ?thesis by blast
qed

lemma texts_unknown: "key \<notin> fst ` set texts_ru \<Longrightarrow> map_of (texts locale) key = None"
  using texts_keys by (simp add: texts_def map_of_eq_None_iff)

text \<open>
  Both languages know the same keys, and a known key is shown in the chosen language: the
  fallbacks of \<^verbatim>\<open>Translate\<close> (the Russian text, then the key itself) are for unknown keys
  only, and nothing is ever shown as an empty text.
\<close>

theorem Translate_never_falls_back:
  assumes "key \<in> fst ` set texts_ru"
  shows "map_of (texts (NormalizeLocale locale)) key = Some (Translate locale key) \<and> Translate locale key \<noteq> []"
proof -
  obtain t where t: "map_of (texts (NormalizeLocale locale)) key = Some t" "t \<noteq> []"
    using texts_complete [OF assms] by blast
  then have "Translate locale key = t" by (simp add: Translate_def localized_def)
  with t show ?thesis by simp
qed

lemma Translate_unknown: "key \<notin> fst ` set texts_ru \<Longrightarrow> Translate locale key = key"
  by (simp add: Translate_def localized_def texts_unknown)

lemma Translate_never_falls_back_witness:
  "map_of (texts (NormalizeLocale '' EN '')) ''page.dashboard''
     = Some (Translate '' EN '' ''page.dashboard'') \<and> Translate '' EN '' ''page.dashboard'' \<noteq> []"
proof (rule Translate_never_falls_back)
  show "''page.dashboard'' \<in> fst ` set texts_ru"
    unfolding texts_ru_def set_append image_Un ru_a_def list.set image_insert prod.sel
    by (intro UnI1 insertI1)
qed

end
