(* ===== verification/Go_Time.thy ===== *)
theory Go_Time
  imports Go_Encoding
begin

text \<open>
  Instants as Go's \<^verbatim>\<open>time\<close> package reads them: an instant is a number of nanoseconds since the
  Unix epoch; the calendar is the proleptic Gregorian one; \<^verbatim>\<open>time.Time.UnmarshalJSON\<close> accepts
  exactly the RFC 3339 texts.
\<close>

section \<open>Calendar\<close>

definition is_leap :: "int \<Rightarrow> bool" where
  "is_leap y \<longleftrightarrow> y mod 4 = 0 \<and> (y mod 100 \<noteq> 0 \<or> y mod 400 = 0)"

definition days_in :: "int \<Rightarrow> int \<Rightarrow> int" where
  "days_in m y =
     (if m = 2 then (if is_leap y then 29 else 28) else if m \<in> {4, 6, 9, 11} then 30 else 31)"

definition days_before_year :: "int \<Rightarrow> int" where
  "days_before_year y = 365 * y + (y - 1) div 4 - (y - 1) div 100 + (y - 1) div 400"

definition days_before_month :: "int \<Rightarrow> int \<Rightarrow> int" where
  "days_before_month m y = (\<Sum>k \<leftarrow> [1..m - 1]. days_in k y)"

definition unix_days :: "int \<Rightarrow> int \<Rightarrow> int \<Rightarrow> int" where
  "unix_days y m d = days_before_year y - days_before_year 1970 + days_before_month m y + d - 1"

lemma div_pred:
  fixes y n :: int
  assumes "0 < n"
  shows "y div n = (y - 1) div n + (if y mod n = 0 then 1 else 0)"
proof (cases "y mod n = 0")
  case True
  then have "y = n * (y div n)" using mult_div_mod_eq [of n y] by linarith
  then have "y - 1 = n * (y div n - 1) + (n - 1)" by (simp add: right_diff_distrib)
  then have "(y - 1) div n = y div n - 1" by (rule int_div_pos_eq) (use assms in simp_all)
  with True show ?thesis by simp
next
  case False
  have "y - 1 = n * (y div n) + (y mod n - 1)" by (simp add: mult_div_mod_eq)
  moreover have "0 \<le> y mod n - 1" "y mod n - 1 < n"
    using False assms pos_mod_sign [of n y] pos_mod_bound [of n y] by linarith+
  ultimately have "(y - 1) div n = y div n" by (intro int_div_pos_eq)
  with False show ?thesis by simp
qed

lemma days_before_year_Suc: "days_before_year (y + 1) = days_before_year y + (if is_leap y then 366 else 365)"
proof -
  define a b c :: int where "a = (if y mod 4 = 0 then 1 else 0)" and "b = (if y mod 100 = 0 then 1 else 0)"
    and "c = (if y mod 400 = 0 then 1 else 0)"
  have "(400 :: int) dvd y \<Longrightarrow> 100 dvd y" "(100 :: int) dvd y \<Longrightarrow> 4 dvd y"
    by (erule dvd_trans [rotated], simp)+
  then consider "400 dvd y" "100 dvd y" "4 dvd y" | "\<not> 400 dvd y" "100 dvd y" "4 dvd y"
    | "\<not> 400 dvd y" "\<not> 100 dvd y" "4 dvd y" | "\<not> 400 dvd y" "\<not> 100 dvd y" "\<not> 4 dvd y"
    by blast
  then have leap: "(if is_leap y then 366 else 365) = 365 + (a - b + c)"
    unfolding is_leap_def mod_eq_0_iff_dvd a_def b_def c_def by (cases; simp)
  have "y div 4 = (y - 1) div 4 + a" "y div 100 = (y - 1) div 100 + b" "y div 400 = (y - 1) div 400 + c"
    unfolding a_def b_def c_def by (rule div_pred, simp)+
  then have "days_before_year (y + 1)
      = 365 * (y + 1) + ((y - 1) div 4 + a) - ((y - 1) div 100 + b) + ((y - 1) div 400 + c)"
    by (simp only: days_before_year_def add_diff_cancel_right')
  then show ?thesis unfolding leap unfolding days_before_year_def by (simp only: distrib_left)
qed

section \<open>RFC 3339\<close>

text \<open>A field of decimal digits of a fixed width.\<close>

fun digits_value :: "int \<Rightarrow> string \<Rightarrow> int" where
  "digits_value acc [] = acc"
| "digits_value acc (c # s) = digits_value (10 * acc + (of_char c - 48)) s"

definition digits :: "string \<Rightarrow> int option" where
  "digits s = (if s \<noteq> [] \<and> list_all (in_bytes 48 57) s then Some (digits_value 0 s) else None)"

definition field :: "nat \<Rightarrow> int \<Rightarrow> int \<Rightarrow> string \<Rightarrow> (int \<times> string) option" where
  "field n lo hi s =
     (if length s < n then None
      else case digits (take n s) of
             None \<Rightarrow> None
           | Some v \<Rightarrow> if lo \<le> v \<and> v \<le> hi then Some (v, drop n s) else None)"

definition expect :: "char \<Rightarrow> string \<Rightarrow> string option" where
  "expect c s = (case s of [] \<Rightarrow> None | x # t \<Rightarrow> if x = c then Some t else None)"

text \<open>Nanoseconds of the digits after the point; digits beyond the ninth are dropped.\<close>

definition nanos :: "string \<Rightarrow> int" where
  "nanos ds = (case digits (take 9 (ds @ replicate 9 (CHR ''0''))) of None \<Rightarrow> 0 | Some v \<Rightarrow> v)"

definition fraction :: "string \<Rightarrow> (int \<times> string) option" where
  "fraction s =
     (case s of
        c # t \<Rightarrow>
          if c = CHR ''.'' then
            (let ds = takeWhile (in_bytes 48 57) t in
             if ds = [] then None else Some (nanos ds, dropWhile (in_bytes 48 57) t))
          else Some (0, s)
      | [] \<Rightarrow> Some (0, s))"

text \<open>The offset of the zone in seconds, at the end of the text.\<close>

definition zone :: "string \<Rightarrow> int option" where
  "zone s =
     (if s = ''Z'' then Some 0
      else case s of
        c # t \<Rightarrow>
          if c = CHR ''+'' \<or> c = CHR ''-'' then
            (case field 2 0 23 t of
               None \<Rightarrow> None
             | Some (h, t1) \<Rightarrow>
                 (case Option.bind (expect (CHR '':'') t1) (field 2 0 59) of
                    Some (m, []) \<Rightarrow> Some ((if c = CHR ''-'' then -1 else 1) * (3600 * h + 60 * m))
                  | _ \<Rightarrow> None))
          else None
      | [] \<Rightarrow> None)"

definition parse_clock :: "string \<Rightarrow> (int \<times> string) option" where
  "parse_clock s =
     Option.bind (field 2 0 23 s) (\<lambda>(h, s1).
     Option.bind (expect (CHR '':'') s1) (\<lambda>s2.
     Option.bind (field 2 0 59 s2) (\<lambda>(mi, s3).
     Option.bind (expect (CHR '':'') s3) (\<lambda>s4.
     Option.bind (field 2 0 59 s4) (\<lambda>(sec, s5). Some (3600 * h + 60 * mi + sec, s5))))))"

definition parse_rfc3339 :: "string \<Rightarrow> time option" where
  "parse_rfc3339 s =
     Option.bind (field 4 0 9999 s) (\<lambda>(y, s1).
     Option.bind (expect (CHR ''-'') s1) (\<lambda>s2.
     Option.bind (field 2 1 12 s2) (\<lambda>(m, s3).
     Option.bind (expect (CHR ''-'') s3) (\<lambda>s4.
     Option.bind (field 2 1 (days_in m y) s4) (\<lambda>(d, s5).
     Option.bind (expect (CHR ''T'') s5) (\<lambda>s6.
     Option.bind (parse_clock s6) (\<lambda>(secs, s7).
     Option.bind (fraction s7) (\<lambda>(ns, s8).
     Option.bind (zone s8) (\<lambda>off.
       Some ((86400 * unix_days y m d + secs - off) * 1000000000 + ns))))))))))"

lemma parse_rfc3339_example:
  "parse_rfc3339 ''2024-02-29T12:00:00.5+03:00'' = Some 1709197200500000000"
  "parse_rfc3339 ''2023-02-29T12:00:00Z'' = None"
  by code_simp+

end
