(* ===== verification/Go_Json_Decode.thy ===== *)
theory Go_Json_Decode
  imports Go_Json Go_Url Go_Time
begin

text \<open>
  The input side of Go's \<^verbatim>\<open>encoding/json\<close>: the grammar, strings with their escapes and the
  repair of invalid UTF-8, and the decoding of a document into a struct: fields are found by name
  up to letter case, unknown ones are skipped, \<^verbatim>\<open>null\<close> leaves a field as it is, a value of the
  wrong kind or an integer out of range is an error.

  An integer token of a document is a \<open>JInt\<close>; a number with a fraction or an exponent, which no
  struct of the panel takes, is kept as its text, and so is \<^verbatim>\<open>-0\<close>.
\<close>

section \<open>Strings\<close>

definition hex4 :: "string \<Rightarrow> nat option" where
  "hex4 s =
     (case s of
        a # b # c # d # _ \<Rightarrow>
          (case (unhex a, unhex b, unhex c, unhex d) of
             (Some w, Some x, Some y, Some z) \<Rightarrow> Some (4096 * w + 256 * x + 16 * y + z)
           | _ \<Rightarrow> None)
      | _ \<Rightarrow> None)"

text \<open>\<^verbatim>\<open>utf16.DecodeRune\<close> of a pair of surrogates.\<close>

definition decode_surrogates :: "nat \<Rightarrow> nat \<Rightarrow> nat option" where
  "decode_surrogates r r1 =
     (if 55296 \<le> r \<and> r < 56320 \<and> 56320 \<le> r1 \<and> r1 < 57344
      then Some ((r - 55296) * 1024 + (r1 - 56320) + 65536) else None)"

text \<open>The bytes a \<^verbatim>\<open>\u\<close> escape stands for and the number of bytes it takes after the \<^verbatim>\<open>u\<close>.\<close>

definition unicode_escape :: "string \<Rightarrow> (string \<times> nat) option" where
  "unicode_escape s =
     (case hex4 s of
        None \<Rightarrow> None
      | Some r \<Rightarrow>
          if 55296 \<le> r \<and> r < 57344 then
            (case (if HasPrefix (drop 4 s) [CHR 0x5C, CHR ''u''] then hex4 (drop 6 s) else None) of
               None \<Rightarrow> Some (encode_rune rune_error, 4)
             | Some r1 \<Rightarrow>
                 (case decode_surrogates r r1 of
                    None \<Rightarrow> Some (encode_rune rune_error, 4)
                  | Some rr \<Rightarrow> Some (encode_rune rr, 10)))
          else Some (encode_rune r, 4))"

definition simple_escape :: "char \<Rightarrow> char option" where
  "simple_escape c =
     (if c \<in> {CHR 0x22, CHR 0x5C, CHR ''/''} then Some c
      else if c = CHR ''b'' then Some (CHR 0x08) else if c = CHR ''f'' then Some (CHR 0x0C)
      else if c = CHR ''n'' then Some (CHR 0x0A) else if c = CHR ''r'' then Some (CHR 0x0D)
      else if c = CHR ''t'' then Some (CHR 0x09) else None)"

definition prepend :: "string \<Rightarrow> (string \<times> string) option \<Rightarrow> (string \<times> string) option" where
  "prepend p ans = map_option (\<lambda>(s, rest). (p @ s, rest)) ans"

text \<open>After the opening quote: the decoded text and what follows the closing quote.\<close>

function parse_string :: "string \<Rightarrow> (string \<times> string) option" where
  "parse_string [] = None"
| "parse_string (c # s) =
     (if c = CHR 0x22 then Some ([], s)
      else if c = CHR 0x5C then
        (case s of
           [] \<Rightarrow> None
         | x # t \<Rightarrow>
             if x = CHR ''u'' then
               (case unicode_escape t of
                  None \<Rightarrow> None
                | Some (bs, k) \<Rightarrow> prepend bs (parse_string (drop k t)))
             else case simple_escape x of
                    None \<Rightarrow> None
                  | Some d \<Rightarrow> prepend [d] (parse_string t))
      else if byte c < 32 then None
      else case decode_rune (c # s) of (r, k) \<Rightarrow> prepend (encode_rune r) (parse_string (drop (k - 1) s)))"
  by pat_completeness auto
termination
  by (relation "measure length") auto

section \<open>Values\<close>

definition json_space :: "char \<Rightarrow> bool" where
  "json_space c \<longleftrightarrow> byte c \<in> {9, 10, 13, 32}"

definition skip :: "string \<Rightarrow> string" where
  "skip s = dropWhile json_space s"

definition digit :: "char \<Rightarrow> bool" where
  "digit c \<longleftrightarrow> in_bytes 48 57 c"

text \<open>A number: sign, integer part without leading zeros, fraction, exponent.\<close>

definition int_part :: "string \<Rightarrow> (string \<times> string) option" where
  "int_part s =
     (let ds = takeWhile digit s in
      if ds = [] then None
      else if hd ds = CHR ''0'' then Some (''0'', drop 1 s)
      else Some (ds, dropWhile digit s))"

definition frac_part :: "string \<Rightarrow> (string \<times> string) option" where
  "frac_part s =
     (if s \<noteq> [] \<and> hd s = CHR ''.'' then
        (let ds = takeWhile digit (tl s) in if ds = [] then None else Some (''.'' @ ds, dropWhile digit (tl s)))
      else Some ([], s))"

definition exp_part :: "string \<Rightarrow> (string \<times> string) option" where
  "exp_part s =
     (if s \<noteq> [] \<and> hd s \<in> {CHR ''e'', CHR ''E''} then
        (let t = tl s; sign = (if t \<noteq> [] \<and> hd t \<in> {CHR ''+'', CHR ''-''} then [hd t] else []);
             u = drop (length sign) t; ds = takeWhile digit u in
         if ds = [] then None else Some (hd s # sign @ ds, dropWhile digit u))
      else Some ([], s))"

definition parse_number :: "string \<Rightarrow> (Json \<times> string) option" where
  "parse_number s =
     (let neg = (s \<noteq> [] \<and> hd s = CHR ''-''); s0 = (if neg then tl s else s) in
      case int_part s0 of
        None \<Rightarrow> None
      | Some (ds, s1) \<Rightarrow>
          (case frac_part s1 of
             None \<Rightarrow> None
           | Some (fr, s2) \<Rightarrow>
               (case exp_part s2 of
                  None \<Rightarrow> None
                | Some (ex, s3) \<Rightarrow>
                    if fr = [] \<and> ex = [] \<and> \<not> (neg \<and> ds = ''0'') then
                      Some (JInt (if neg then - digits_value 0 ds else digits_value 0 ds), s3)
                    else Some (JNumber ((if neg then ''-'' else []) @ ds @ fr @ ex), s3))))"

definition literal :: "string \<Rightarrow> Json \<Rightarrow> string \<Rightarrow> (Json \<times> string) option" where
  "literal word v s = (if HasPrefix s word then Some (v, drop (length word) s) else None)"


text \<open>
  The rest of an array or object: elements separated by commas up to the closing bracket.  An
  element parser leaves a shorter text behind (\<open>parse_value_shorter\<close> below), so the guard on
  the length never stops a valid document.
\<close>

function parse_rest :: "(string \<Rightarrow> ('a \<times> string) option) \<Rightarrow> char \<Rightarrow> string \<Rightarrow> ('a list \<times> string) option" where
  "parse_rest p close s =
     (case p (skip s) of
        None \<Rightarrow> None
      | Some (x, t) \<Rightarrow>
          (case skip t of
             [] \<Rightarrow> None
           | c # u \<Rightarrow>
               if c = close then Some ([x], u)
               else if c = CHR '','' \<and> length u < length s then
                 map_option (\<lambda>(xs, rest). (x # xs, rest)) (parse_rest p close u)
               else None))"
  by pat_completeness auto
termination
  by (relation "measure (\<lambda>(p, close, s). length s)") auto

definition parse_elements :: "(string \<Rightarrow> ('a \<times> string) option) \<Rightarrow> char \<Rightarrow> string \<Rightarrow> ('a list \<times> string) option" where
  "parse_elements p close s =
     (if skip s \<noteq> [] \<and> hd (skip s) = close then Some ([], tl (skip s)) else parse_rest p close s)"

definition parse_member :: "(string \<Rightarrow> (Json \<times> string) option) \<Rightarrow> string \<Rightarrow> ((string \<times> Json) \<times> string) option" where
  "parse_member p s =
     (if s \<noteq> [] \<and> hd s = CHR 0x22 then
        (case parse_string (tl s) of
           None \<Rightarrow> None
         | Some (key, t) \<Rightarrow>
             (case skip t of
                [] \<Rightarrow> None
              | c # u \<Rightarrow>
                  if c = CHR '':'' then map_option (\<lambda>(v, rest). ((key, v), rest)) (p (skip u)) else None))
      else None)"

text \<open>The value at the start of a text; \<open>d\<close> is the nesting that is still allowed.\<close>

fun parse_value :: "nat \<Rightarrow> string \<Rightarrow> (Json \<times> string) option" where
  "parse_value d [] = None"
| "parse_value d (c # s) =
     (if c = CHR 0x22 then map_option (\<lambda>(t, rest). (JString t, rest)) (parse_string s)
      else if c = CHR ''n'' then literal ''null'' JNull (c # s)
      else if c = CHR ''t'' then literal ''true'' (JBool True) (c # s)
      else if c = CHR ''f'' then literal ''false'' (JBool False) (c # s)
      else if c = CHR ''['' then
        (case d of
           0 \<Rightarrow> None
         | Suc d' \<Rightarrow> map_option (\<lambda>(xs, rest). (JArray xs, rest)) (parse_elements (parse_value d') (CHR '']'') s))
      else if c = CHR ''{'' then
        (case d of
           0 \<Rightarrow> None
         | Suc d' \<Rightarrow>
             map_option (\<lambda>(kvs, rest). (JObject kvs, rest)) (parse_elements (parse_member (parse_value d')) (CHR ''}'') s))
      else parse_number (c # s))"

text \<open>The decoder refuses documents nested deeper than this.\<close>

definition max_nesting :: int where
  "max_nesting = 10000"

definition nesting_for :: "string \<Rightarrow> nat" where
  "nesting_for s = (if int (length s) \<le> max_nesting then length s else nat max_nesting)"

text \<open>\<^verbatim>\<open>json.NewDecoder(r).Decode\<close> reads one value, \<^verbatim>\<open>json.Unmarshal\<close> the whole text.\<close>

definition decode_first :: "string \<Rightarrow> Json option" where
  "decode_first s = map_option fst (parse_value (nesting_for s) (skip s))"

definition unmarshal :: "string \<Rightarrow> Json option" where
  "unmarshal s =
     (case parse_value (nesting_for s) (skip s) of
        Some (j, rest) \<Rightarrow> if skip rest = [] then Some j else None
      | None \<Rightarrow> None)"


section \<open>Structs\<close>

text \<open>
  A field's name matches a key up to the simple case folding of Unicode; the names are ASCII, and
  only the long s and the Kelvin sign fold to ASCII letters.
\<close>

definition fold_key_rune :: "nat \<Rightarrow> nat" where
  "fold_key_rune r =
     (if 97 \<le> r \<and> r \<le> 122 then r - 32 else if r = 383 then 83 else if r = 8490 then 75 else r)"

definition fold_key :: "string \<Rightarrow> nat list" where
  "fold_key s = map fold_key_rune (runes s)"

text \<open>A decoder updates what a value has been decoded into so far.\<close>

type_synonym 'a decoder = "Json \<Rightarrow> 'a \<Rightarrow> 'a option"

fun find_field :: "(string \<times> 'a decoder) list \<Rightarrow> string \<Rightarrow> 'a decoder option" where
  "find_field [] key = None"
| "find_field ((name, f) # fields) key =
     (if name = key \<or> fold_key name = fold_key key then Some f else find_field fields key)"

fun decode_members :: "(string \<times> 'a decoder) list \<Rightarrow> (string \<times> Json) list \<Rightarrow> 'a \<Rightarrow> 'a option" where
  "decode_members fields [] x = Some x"
| "decode_members fields ((key, v) # kvs) x =
     (case find_field fields key of
        None \<Rightarrow> decode_members fields kvs x
      | Some f \<Rightarrow> (case f v x of None \<Rightarrow> None | Some y \<Rightarrow> decode_members fields kvs y))"

definition dec_struct :: "(string \<times> 'a decoder) list \<Rightarrow> 'a decoder" where
  "dec_struct fields j x =
     (case j of JNull \<Rightarrow> Some x | JObject kvs \<Rightarrow> decode_members fields kvs x | _ \<Rightarrow> None)"

definition dec_string :: "string decoder" where
  "dec_string j x = (case j of JNull \<Rightarrow> Some x | JString s \<Rightarrow> Some s | _ \<Rightarrow> None)"

definition dec_bool :: "bool decoder" where
  "dec_bool j x = (case j of JNull \<Rightarrow> Some x | JBool b \<Rightarrow> Some b | _ \<Rightarrow> None)"

definition dec_int :: "int decoder" where
  "dec_int j x =
     (case j of
        JNull \<Rightarrow> Some x
      | JInt n \<Rightarrow> if - (2 ^ 63) \<le> n \<and> n < 2 ^ 63 then Some n else None
      | JNumber s \<Rightarrow> if s = ''-0'' then Some 0 else None
      | _ \<Rightarrow> None)"

definition dec_ptr :: "'a \<Rightarrow> 'a decoder \<Rightarrow> 'a option decoder" where
  "dec_ptr zero f j x =
     (case j of
        JNull \<Rightarrow> Some None
      | _ \<Rightarrow> map_option Some (f j (case x of None \<Rightarrow> zero | Some v \<Rightarrow> v)))"

text \<open>An array decodes over the elements that are there.\<close>

fun dec_items :: "'a \<Rightarrow> 'a decoder \<Rightarrow> Json list \<Rightarrow> 'a list \<Rightarrow> 'a list option" where
  "dec_items zero f [] old = Some []"
| "dec_items zero f (j # js) old =
     (case f j (case old of [] \<Rightarrow> zero | v # _ \<Rightarrow> v) of
        None \<Rightarrow> None
      | Some v \<Rightarrow> map_option (\<lambda>vs. v # vs) (dec_items zero f js (drop 1 old)))"

definition dec_list :: "'a \<Rightarrow> 'a decoder \<Rightarrow> 'a list decoder" where
  "dec_list zero f j x =
     (case j of JNull \<Rightarrow> Some [] | JArray js \<Rightarrow> dec_items zero f js x | _ \<Rightarrow> None)"

text \<open>\<^verbatim>\<open>time.Time.UnmarshalJSON\<close>, for texts without escapes.\<close>

definition dec_time :: "time decoder" where
  "dec_time j x = (case j of JNull \<Rightarrow> Some x | JString s \<Rightarrow> parse_rfc3339 s | _ \<Rightarrow> None)"

text \<open>A decoder of a field of a struct, from the field's accessor and updater.\<close>

definition at :: "('s \<Rightarrow> 'a) \<Rightarrow> (('a \<Rightarrow> 'a) \<Rightarrow> 's \<Rightarrow> 's) \<Rightarrow> 'a decoder \<Rightarrow> 's decoder" where
  "at get upd f j s = map_option (\<lambda>v. upd (\<lambda>_. v) s) (f j (get s))"

lemmas decoder_defs =
  dec_struct_def dec_string_def dec_bool_def dec_int_def dec_ptr_def dec_list_def dec_time_def at_def

end
