(* ===== verification/Json_Roundtrip.thy ===== *)
theory Json_Roundtrip
  imports Go_Json_Decode
begin

text \<open>
  What \<^verbatim>\<open>json.Marshal\<close> writes, \<^verbatim>\<open>json.Unmarshal\<close> reads back: for text that is valid
  UTF-8, numbers that are integers, and nesting within the decoder's limit.
\<close>

section \<open>Runes\<close>

definition scalar :: "nat \<Rightarrow> bool" where
  "scalar r \<longleftrightarrow> r \<le> 1114111 \<and> \<not> (55296 \<le> r \<and> r \<le> 57343)"

lemma encode_rune_scalar:
  "scalar r \<Longrightarrow> encode_rune r =
     (if r < 128 then [char_of r]
      else if r < 2048 then [char_of (192 + r div 64), char_of (128 + r mod 64)]
      else if r < 65536 then
        [char_of (224 + r div 4096), char_of (128 + r div 64 mod 64), char_of (128 + r mod 64)]
      else
        [char_of (240 + r div 262144), char_of (128 + r div 4096 mod 64),
         char_of (128 + r div 64 mod 64), char_of (128 + r mod 64)])"
proof -
  assume "scalar r"
  then have "(if r > 1114111 \<or> (55296 \<le> r \<and> r \<le> 57343) then rune_error else r) = r"
    by (auto simp: scalar_def)
  then show ?thesis by (simp only: encode_rune_def Let_def)
qed

lemma mod_64_split:
  fixes r :: nat
  shows "r div 64 * 64 + r mod 64 = r"
    and "r div 4096 * 4096 + (r div 64 mod 64 * 64 + r mod 64) = r"
    and "r div 262144 * 262144 + (r div 4096 mod 64 * 4096 + (r div 64 mod 64 * 64 + r mod 64)) = r"
proof -
  have d: "r div 64 div 64 = r div 4096" "r div 4096 div 64 = r div 262144"
    by (simp_all add: div_mult2_eq [symmetric])
  have 1: "r div 64 * 64 + r mod 64 = r" by simp
  have 2: "r div 4096 * 64 + r div 64 mod 64 = r div 64" using div_mult_mod_eq [of "r div 64" 64] by (simp add: d)
  have 3: "r div 262144 * 64 + r div 4096 mod 64 = r div 4096" using div_mult_mod_eq [of "r div 4096" 64] by (simp add: d)
  show "r div 64 * 64 + r mod 64 = r" by (rule 1)
  show "r div 4096 * 4096 + (r div 64 mod 64 * 64 + r mod 64) = r" using 1 2 by linarith
  show "r div 262144 * 262144 + (r div 4096 mod 64 * 4096 + (r div 64 mod 64 * 64 + r mod 64)) = r"
    using 1 2 3 by linarith
qed

lemma decode_encode_rune:
  assumes "scalar r"
  shows "decode_rune (encode_rune r @ t) = (r, length (encode_rune r))"
proof -
  have tail: "k mod 64 < 64" for k :: nat by simp
  consider "r < 128" | "128 \<le> r" "r < 2048" | "2048 \<le> r" "r < 65536" | "65536 \<le> r" by linarith
  then show ?thesis
  proof cases
    case 1
    then show ?thesis using assms by (simp add: encode_rune_scalar)
  next
    case 2
    define a b where "a = r div 64" and "b = r mod 64"
    have ab: "2 \<le> a" "a < 32" "b < 64" "a * 64 + b = r"
      using 2 tail mod_64_split(1) [of r] by (auto simp: a_def b_def)
    have "encode_rune r = [char_of (192 + a), char_of (128 + b)]"
      using 2 assms by (simp add: encode_rune_scalar a_def b_def)
    then show ?thesis using ab by (simp add: in_bytes_def cont_byte_def)
  next
    case 3
    define a b c where "a = r div 4096" and "b = r div 64 mod 64" and "c = r mod 64"
    have abc: "a < 16" "b < 64" "c < 64" "a * 4096 + (b * 64 + c) = r"
      using 3 tail mod_64_split(2) [of r] by (auto simp: a_def b_def c_def)
    have b: "a = 0 \<Longrightarrow> 32 \<le> b" "a = 13 \<Longrightarrow> b < 32"
      using abc 3 assms by (auto simp: scalar_def)
    have "encode_rune r = [char_of (224 + a), char_of (128 + b), char_of (128 + c)]"
      using 3 assms by (simp add: encode_rune_scalar a_def b_def c_def)
    moreover have "second_ok (char_of (224 + a)) (char_of (128 + b))"
      using abc b by (auto simp: second_ok_def second_range_def in_bytes_def)
    ultimately show ?thesis using abc by (simp add: in_bytes_def cont_byte_def)
  next
    case 4
    define a b c d where "a = r div 262144" and "b = r div 4096 mod 64" and "c = r div 64 mod 64" and "d = r mod 64"
    have "r \<le> 1114111" using assms by (simp add: scalar_def)
    then have abc: "a < 5" "b < 64" "c < 64" "d < 64" "a * 262144 + (b * 4096 + (c * 64 + d)) = r"
      using tail mod_64_split(3) [of r] by (auto simp: a_def b_def c_def d_def)
    have b: "a = 0 \<Longrightarrow> 16 \<le> b" "a = 4 \<Longrightarrow> b < 16"
      using abc 4 \<open>r \<le> 1114111\<close> by auto
    have "encode_rune r = [char_of (240 + a), char_of (128 + b), char_of (128 + c), char_of (128 + d)]"
      using 4 assms by (simp add: encode_rune_scalar a_def b_def c_def d_def)
    moreover have "second_ok (char_of (240 + a)) (char_of (128 + b))"
      using abc b by (auto simp: second_ok_def second_range_def in_bytes_def)
    ultimately show ?thesis using abc by (simp add: in_bytes_def cont_byte_def)
  qed
qed

lemma encode_rune_nonempty [simp]: "encode_rune r \<noteq> []"
  by (simp add: encode_rune_def Let_def)

lemma decode_rune_pos: "decode_rune (c # s) = (r, k) \<Longrightarrow> 0 < k"
  by (auto split: if_split_asm list.split_asm)

lemma runes_encode:
  assumes "scalar r"
  shows "runes (encode_rune r @ t) = r # runes t"
proof -
  obtain c s where cs: "encode_rune r @ t = c # s" by (cases "encode_rune r @ t") auto
  have "drop (length (encode_rune r) - 1) s = t"
    using cs by (cases "encode_rune r") auto
  then show ?thesis
    using decode_encode_rune [OF assms, of t] unfolding cs by (simp del: decode_rune.simps)
qed

lemma runes_string_of_runes: "list_all scalar rs \<Longrightarrow> runes (string_of_runes rs) = rs"
  by (induction rs) (simp_all add: string_of_runes_def runes_encode)

section \<open>Strings\<close>

lemma json_body_encode:
  assumes "scalar r"
  shows "json_body (encode_rune r @ t) = json_rune r @ json_body t"
proof -
  obtain c s where cs: "encode_rune r @ t = c # s" by (cases "encode_rune r @ t") auto
  have s: "drop (length (encode_rune r) - 1) s = t"
    using cs by (cases "encode_rune r") auto
  have "\<not> (length (encode_rune r) = 1 \<and> 128 \<le> byte c)"
    using cs by (auto simp: encode_rune_scalar [OF assms] split: if_split_asm)
  then show ?thesis
    unfolding cs json_body_Cons [OF decode_encode_rune [OF assms, of t, unfolded cs]] s by (simp only: if_False)
qed

lemma parse_string_plain:
  assumes "scalar r" and "32 \<le> r" and "r \<noteq> 34" and "r \<noteq> 92"
  shows "parse_string (encode_rune r @ t) = prepend (encode_rune r) (parse_string t)"
proof -
  obtain c s where cs: "encode_rune r @ t = c # s" by (cases "encode_rune r @ t") auto
  have s: "drop (length (encode_rune r) - 1) s = t"
    using cs by (cases "encode_rune r") auto
  have "byte c = r \<or> 128 \<le> byte c"
  proof (cases "r < 128")
    case True
    then show ?thesis using cs by (auto simp: encode_rune_scalar [OF assms(1)])
  next
    case False
    moreover have "c \<in> set (encode_rune r)" using cs by (cases "encode_rune r") auto
    ultimately show ?thesis using encode_rune_high [of r c] by simp
  qed
  then have "c \<noteq> CHR 0x22" "c \<noteq> CHR 0x5C" "\<not> byte c < 32" using assms by auto
  then show ?thesis
    using decode_encode_rune [OF assms(1), of t] unfolding cs
    by (simp add: s [unfolded One_nat_def] del: decode_rune.simps)
qed

lemma parse_string_escaped:
  "simple_escape x = Some d \<Longrightarrow> x \<noteq> CHR ''u'' \<Longrightarrow>
   parse_string (CHR 0x5C # x # t) = prepend [d] (parse_string t)"
  by simp

lemma parse_string_unicode:
  assumes "unhex h1 = Some a" "unhex h2 = Some b" "unhex h3 = Some c" "unhex h4 = Some d"
    and "4096 * a + 256 * b + 16 * c + d = r" and "scalar r"
  shows "parse_string (CHR 0x5C # CHR ''u'' # h1 # h2 # h3 # h4 # t) = prepend (encode_rune r) (parse_string t)"
proof -
  have "hex4 (h1 # h2 # h3 # h4 # t) = Some r" using assms(1-5) by (simp add: hex4_def)
  moreover have "\<not> (55296 \<le> r \<and> r < 57344)" using assms(6) by (auto simp: scalar_def)
  ultimately have "unicode_escape (h1 # h2 # h3 # h4 # t) = Some (encode_rune r, 4)"
    by (simp only: unicode_escape_def option.case if_False)
  then show ?thesis
    by (simp only: parse_string.simps list.case option.case prod.case) (simp add: numeral_eq_Suc del: parse_string.simps)
qed

lemma unhex_hex_digit [simp]: "unhex (hex_digit d) = Some (d mod 16)"
proof -
  have "\<forall>k \<in> set [0..<16]. unhex (''0123456789abcdef'' ! k) = Some k" by code_simp
  then show ?thesis by (simp add: hex_digit_def)
qed

lemma char_of_eqI: "of_char c = (n :: nat) \<Longrightarrow> char_of n = c"
  by auto

lemma char_of_escapes:
  "char_of (34 :: nat) = CHR 0x22" "char_of (92 :: nat) = CHR 0x5C" "char_of (8 :: nat) = CHR 0x08"
  "char_of (12 :: nat) = CHR 0x0C" "char_of (10 :: nat) = CHR 0x0A" "char_of (13 :: nat) = CHR 0x0D"
  "char_of (9 :: nat) = CHR 0x09"
  by (rule char_of_eqI, simp)+

lemma parse_string_json_rune:
  assumes "scalar r"
  shows "parse_string (json_rune r @ t) = prepend (encode_rune r) (parse_string t)"
proof -
  have zero: "unhex (CHR ''0'') = Some 0" and two: "unhex (CHR ''2'') = Some 2"
    by (simp_all add: unhex_def in_bytes_def)
  consider (special) "r \<in> {34, 92, 8, 12, 10, 13, 9}"
    | (low) "r \<notin> {34, 92, 8, 12, 10, 13, 9}" "r < 32 \<or> r = 38 \<or> r = 60 \<or> r = 62"
    | (line) "r = 8232 \<or> r = 8233"
    | (plain) "r \<noteq> 34" "r \<noteq> 92" "32 \<le> r" "r \<notin> {38, 60, 62, 8232, 8233}"
    by fastforce
  then show ?thesis
  proof cases
    case special
    then show ?thesis
      unfolding json_rune_def encode_rune_def
      by (elim insertE emptyE) (simp_all add: simple_escape_def char_of_escapes)
  next
    case low
    then have "json_rune r = [CHR 0x5C, CHR ''u'', CHR ''0'', CHR ''0'', hex_digit (r div 16), hex_digit r]"
      unfolding json_rune_def by (simp split: if_split)
    moreover have "4096 * 0 + 256 * 0 + 16 * (r div 16 mod 16) + r mod 16 = r" using low by auto
    ultimately show ?thesis
      using parse_string_unicode [OF zero zero unhex_hex_digit unhex_hex_digit _ assms] by (simp only: append.simps)
  next
    case line
    then have "json_rune r = [CHR 0x5C, CHR ''u'', CHR ''2'', CHR ''0'', CHR ''2'', hex_digit r]"
      unfolding json_rune_def by auto
    moreover have "4096 * 2 + 256 * 0 + 16 * 2 + r mod 16 = r" using line by auto
    ultimately show ?thesis
      using parse_string_unicode [OF two zero two unhex_hex_digit _ assms] by (simp only: append.simps)
  next
    case plain
    then have "json_rune r = encode_rune r"
      unfolding json_rune_def by (simp split: if_split)
    then show ?thesis using parse_string_plain [OF assms plain(3,1,2)] by simp
  qed
qed

lemma parse_string_json_body:
  assumes "list_all scalar rs"
  shows "parse_string (json_body (string_of_runes rs) @ CHR 0x22 # t) = Some (string_of_runes rs, t)"
  using assms
  by (induction rs) (simp_all add: string_of_runes_def json_body_encode parse_string_json_rune prepend_def)

definition utf8 :: "string \<Rightarrow> bool" where
  "utf8 s \<longleftrightarrow> list_all scalar (runes s) \<and> string_of_runes (runes s) = s"

lemma utf8_string_of_runes: "list_all scalar rs \<Longrightarrow> utf8 (string_of_runes rs)"
  by (simp add: utf8_def runes_string_of_runes)

lemma utf8_ascii: "is_ascii s \<Longrightarrow> utf8 s"
proof -
  assume a: "is_ascii s"
  then have "list_all scalar (map of_char s)"
    by (induction s) (simp_all add: scalar_def)
  moreover have "string_of_runes (map of_char s) = s"
    using a by (induction s) (simp_all add: string_of_runes_def encode_rune_def)
  ultimately show ?thesis using a by (simp add: utf8_def runes_ascii)
qed

lemma parse_string_utf8:
  "utf8 s \<Longrightarrow> parse_string (json_body s @ CHR 0x22 # t) = Some (s, t)"
  using parse_string_json_body [of "runes s" t] by (simp add: utf8_def)

section \<open>Numbers\<close>

lemma digits_value_append: "digits_value acc (s @ t) = digits_value (digits_value acc s) t"
  by (induction acc s rule: digits_value.induct) simp_all

lemma digit_int: "n < 10 \<Longrightarrow> (of_char (char_of (48 + n)) :: int) = 48 + int n"
  using byte_char_of [of "48 + n"] of_nat_of_char [of "char_of (48 + n)", where 'a = int] by simp

lemma digits_value_dec: "digits_value 0 (dec n) = int n"
proof (induction n rule: dec.induct)
  case (1 n)
  show ?case
  proof (cases "n < 10")
    case True
    then show ?thesis by (simp add: digit_int)
  next
    case False
    have "10 * (n div 10) + n mod 10 = n" by simp
    then have "10 * int (n div 10) + int (n mod 10) = int n" by presburger
    moreover have "(of_char (char_of (48 + n mod 10)) :: int) = 48 + int (n mod 10)"
      by (rule digit_int) simp
    ultimately show ?thesis
      using 1 False by (simp add: dec.simps [of n] digits_value_append)
  qed
qed

lemma digit_zero: "byte (CHR ''0'') = 48"
  by simp

lemma dec_leading: "0 < n \<Longrightarrow> hd (dec n) \<noteq> CHR ''0''"
proof (induction n rule: dec.induct)
  case (1 n)
  show ?case
  proof (cases "n < 10")
    case True
    have "byte (char_of (48 + n)) = 48 + n" using True by (intro byte_char_of) simp
    then have "char_of (48 + n) \<noteq> CHR ''0''" using "1.prems" by (metis add_cancel_right_right digit_zero less_irrefl)
    then show ?thesis using True by simp
  next
    case False
    then show ?thesis using 1 by (simp add: dec.simps [of n])
  qed
qed

definition ends :: "string \<Rightarrow> bool" where
  "ends s \<longleftrightarrow> s = [] \<or> hd s \<in> {CHR '','', CHR '']'', CHR ''}''}"

lemma ends_stop:
  assumes "ends t"
  shows "takeWhile digit t = []" "dropWhile digit t = t" "frac_part t = Some ([], t)" "exp_part t = Some ([], t)"
  using assms by (cases t; auto simp: ends_def digit_def in_bytes_def frac_part_def exp_part_def)+

lemma int_part_dec:
  assumes "ends t"
  shows "int_part (dec n @ t) = Some (dec n, t)"
proof -
  have all: "\<forall>c \<in> set (dec n). digit c" using dec_bytes [of _ n] by (auto simp: digit_def in_bytes_def)
  then have "takeWhile digit (dec n @ t) = dec n" "dropWhile digit (dec n @ t) = t"
    using ends_stop [OF assms] by (simp_all add: takeWhile_append2 dropWhile_append2)
  moreover have "hd (dec n @ t) = hd (dec n)" by simp
  moreover have "dec n = ''0''" if "hd (dec n) = CHR ''0''"
  proof -
    from that dec_leading [of n] have "n = 0" by auto
    then show ?thesis by (simp add: char_of_eqI)
  qed
  ultimately show ?thesis by (auto simp: int_part_def Let_def)
qed

lemma parse_number_Itoa:
  assumes "ends t"
  shows "parse_number (Itoa n @ t) = Some (JInt n, t)"
proof (cases "n < 0")
  case True
  then have "dec (nat (- n)) \<noteq> ''0''" using dec_leading [of "nat (- n)"] by auto
  with True show ?thesis
    using int_part_dec [OF assms, of "nat (- n)"] ends_stop [OF assms]
    by (simp add: parse_number_def Itoa_def digits_value_dec)
next
  case False
  have "hd (dec (nat n)) \<noteq> CHR ''-''" using dec_hd [of "nat n"] by (cases "dec (nat n)") auto
  then show ?thesis
    using False int_part_dec [OF assms, of "nat n"] ends_stop [OF assms]
    by (simp add: parse_number_def Itoa_def digits_value_dec)
qed

section \<open>Documents\<close>

text \<open>The documents that come back: integers, valid UTF-8, at most \<open>d\<close> levels of nesting.\<close>

fun json_ok :: "nat \<Rightarrow> Json \<Rightarrow> bool" where
  "json_ok d (JNumber s) \<longleftrightarrow> False"
| "json_ok d (JString s) \<longleftrightarrow> utf8 s"
| "json_ok d (JArray xs) \<longleftrightarrow> 0 < d \<and> (\<forall>x \<in> set xs. json_ok (d - 1) x)"
| "json_ok d (JObject kvs) \<longleftrightarrow> 0 < d \<and> (\<forall>x \<in> set kvs. utf8 (fst x) \<and> json_ok (d - 1) (snd x))"
| "json_ok d j \<longleftrightarrow> True"

text \<open>The text of a value or member starts with a byte that is neither white space nor a closing bracket.\<close>

definition starts :: "string \<Rightarrow> bool" where
  "starts s \<longleftrightarrow> s \<noteq> [] \<and> \<not> json_space (hd s) \<and> hd s \<notin> {CHR '']'', CHR ''}''}"

lemma starts_skip [simp]: "starts s \<Longrightarrow> skip (s @ t) = s @ t"
  by (cases s) (auto simp: starts_def skip_def)

lemma starts_append: "starts s \<Longrightarrow> starts (s @ t)"
  by (cases s) (auto simp: starts_def)

lemma starts_Itoa: "starts (Itoa n)"
proof -
  have "starts (dec m)" for m
  proof -
    have "hd (dec m) \<in> set (dec m)" by simp
    from dec_bytes [OF this] show ?thesis by (auto simp: starts_def json_space_def)
  qed
  then show ?thesis by (auto simp: Itoa_def starts_def json_space_def)
qed

lemma starts_marshal: "json_ok d j \<Longrightarrow> starts (marshal j)"
  by (cases j) (auto simp: starts_Itoa json_string_def, auto simp: starts_def json_space_def)

lemma skip_ends: "ends t \<Longrightarrow> skip t = t"
  by (cases t) (auto simp: ends_def skip_def json_space_def)

lemma parse_rest_Join:
  assumes "\<And>x t. x \<in> set xs \<Longrightarrow> ends t \<Longrightarrow> p (enc x @ t) = Some (x, t)"
    and "\<And>x. x \<in> set xs \<Longrightarrow> starts (enc x)"
    and "xs \<noteq> []" and "close \<in> {CHR '']'', CHR ''}''}"
  shows "parse_rest p close (Join (map enc xs) '','' @ close # t) = Some (xs, t)"
  using assms(1-3)
proof (induction xs rule: induct_list012)
  case (2 x)
  have "ends (close # t)" using assms(4) by (auto simp: ends_def)
  with 2 have "p (enc x @ close # t) = Some (x, close # t)" "starts (enc x)" by auto
  then show ?case using skip_ends [OF \<open>ends (close # t)\<close>] by (simp add: parse_rest.simps)
next
  case (3 x y xs)
  define u where "u = Join (map enc (y # xs)) '','' @ close # t"
  have e: "ends ('','' @ u)" by (simp add: ends_def)
  have px: "p (enc x @ '','' @ u) = Some (x, '','' @ u)" and sx: "starts (enc x)"
    using 3 e by auto
  have "parse_rest p close u = Some (y # xs, t)" unfolding u_def by (rule 3) (use 3 in auto)
  moreover have "close \<noteq> CHR '',''" using assms(4) by auto
  moreover have "Join (map enc (x # y # xs)) '','' @ close # t = enc x @ '','' @ u"
    by (simp add: u_def)
  ultimately show ?case
    using px sx skip_ends [OF e] by (simp add: parse_rest.simps [of _ _ "enc x @ _"])
qed simp

lemma parse_elements_Join:
  assumes "\<And>x t. x \<in> set xs \<Longrightarrow> ends t \<Longrightarrow> p (enc x @ t) = Some (x, t)"
    and "\<And>x. x \<in> set xs \<Longrightarrow> starts (enc x)"
    and "close \<in> {CHR '']'', CHR ''}''}"
  shows "parse_elements p close (Join (map enc xs) '','' @ close # t) = Some (xs, t)"
proof (cases "xs = []")
  case True
  have "skip (close # t) = close # t" by (rule skip_ends) (use assms(3) in \<open>auto simp: ends_def\<close>)
  then show ?thesis using True by (simp add: parse_elements_def)
next
  case False
  then have s: "starts (Join (map enc xs) '','')"
    using assms(2) by (cases xs; cases "tl xs") (auto intro: starts_append)
  then have "hd (Join (map enc xs) '','' @ close # t) \<noteq> close" "Join (map enc xs) '','' \<noteq> []"
    using assms(3) by (auto simp: starts_def)
  then show ?thesis
    using s parse_rest_Join [OF assms(1,2) False assms(3), of t] by (simp add: parse_elements_def)
qed

lemma parse_member_marshal:
  assumes "\<And>t. ends t \<Longrightarrow> p (marshal v @ t) = Some (v, t)" and "utf8 k" and "starts (marshal v)" and "ends t"
  shows "parse_member p (json_string k @ '':'' @ marshal v @ t) = Some ((k, v), t)"
proof -
  have "parse_string (json_body k @ CHR 0x22 # '':'' @ marshal v @ t) = Some (k, '':'' @ marshal v @ t)"
    by (rule parse_string_utf8) fact
  moreover have "skip ('':'' @ marshal v @ t) = '':'' @ marshal v @ t"
    by (simp add: skip_def json_space_def)
  ultimately show ?thesis
    using assms(1) [OF assms(4)] starts_skip [OF assms(3), of t]
    by (simp add: parse_member_def json_string_def)
qed

lemma parse_value_marshal:
  assumes "json_ok d j" and "ends t"
  shows "parse_value d (marshal j @ t) = Some (j, t)"
  using assms
proof (induction j arbitrary: d t)
  case (JInt n)
  obtain c s where cs: "Itoa n = c # s" using starts_Itoa [of n] by (cases "Itoa n") (auto simp: starts_def)
  have "c = CHR ''-'' \<or> (48 \<le> byte c \<and> byte c \<le> 57)"
    using cs dec_bytes [of c "nat n"] by (auto simp: Itoa_def split: if_split_asm)
  then have "c \<noteq> CHR 0x22" "c \<noteq> CHR ''n''" "c \<noteq> CHR ''t''" "c \<noteq> CHR ''f''" "c \<noteq> CHR ''[''" "c \<noteq> CHR ''{''"
    by (fastforce, fastforce, fastforce, fastforce, fastforce, fastforce)
  then have "parse_value d (Itoa n @ t) = parse_number (Itoa n @ t)"
    by (simp only: cs append.simps parse_value.simps if_False)
  then show ?case using parse_number_Itoa [OF JInt(2), of n] by simp
next
  case (JString s)
  then show ?case using parse_string_utf8 [of s t] by (simp add: json_string_def)
next
  case (JArray xs)
  then obtain d' where d: "d = Suc d'" by (cases d) auto
  have "parse_elements (parse_value d') (CHR '']'') (Join (map marshal xs) '','' @ CHR '']'' # t) = Some (xs, t)"
    by (rule parse_elements_Join) (use JArray in \<open>auto simp: d intro: starts_marshal\<close>)
  then show ?case by (simp add: d)
next
  case (JObject kvs)
  then obtain d' where d: "d = Suc d'" by (cases d) auto
  define enc where "enc = (\<lambda>(k, v). json_string k @ '':'' @ marshal v)"
  have "parse_elements (parse_member (parse_value d')) (CHR ''}'') (Join (map enc kvs) '','' @ CHR ''}'' # t) = Some (kvs, t)"
  proof (rule parse_elements_Join)
    fix x u assume x: "x \<in> set kvs" and u: "ends u"
    obtain k v where kv: "x = (k, v)" by force
    then have ok: "utf8 k" "json_ok d' v" using JObject x by (auto simp: d)
    show "parse_member (parse_value d') (enc x @ u) = Some (x, u)"
      unfolding kv enc_def prod.case append_assoc
      by (rule parse_member_marshal) (use JObject x u ok starts_marshal [OF ok(2)] in \<open>auto simp: kv d\<close>)
  qed (auto simp: enc_def starts_def json_string_def json_space_def)
  then show ?case by (simp add: d enc_def)
qed (auto simp: literal_def HasPrefix_def)

lemma json_ok_mono: "json_ok d j \<Longrightarrow> d \<le> e \<Longrightarrow> json_ok e j"
proof (induction d j arbitrary: e rule: json_ok.induct)
  case (3 d xs)
  then show ?case by (auto simp: diff_le_mono)
next
  case (4 d kvs)
  then show ?case by (auto simp: diff_le_mono)
qed auto

lemma length_Join: "x \<in> set xs \<Longrightarrow> length x \<le> length (Join xs sep)"
  by (induction xs sep rule: Join.induct) auto

text \<open>The nesting of a document is less than the length of its text.\<close>

lemma json_ok_length: "json_ok d j \<Longrightarrow> json_ok (length (marshal j)) j"
proof (induction j arbitrary: d)
  case (JArray xs)
  have "json_ok (length (marshal (JArray xs)) - 1) x" if x: "x \<in> set xs" for x
  proof (rule json_ok_mono)
    show "json_ok (length (marshal x)) x" using JArray x by auto
    show "length (marshal x) \<le> length (marshal (JArray xs)) - 1"
      using x length_Join [of "marshal x" "map marshal xs" "'',''"] by simp
  qed
  then show ?case by simp
next
  case (JObject kvs)
  have "json_ok (length (marshal (JObject kvs)) - 1) (snd x)" if x: "x \<in> set kvs" for x
  proof -
    have "length (marshal (snd x)) \<le> length (json_string (fst x) @ '':'' @ marshal (snd x))" by simp
    also have "\<dots> \<le> length (Join (map (\<lambda>(k, v). json_string k @ '':'' @ marshal v) kvs) '','')"
      by (rule length_Join) (use x in force)
    finally have "length (marshal (snd x)) \<le> length (marshal (JObject kvs)) - 1" by simp
    moreover have "json_ok (length (marshal (snd x))) (snd x)"
      using JObject x by (cases x) auto
    ultimately show ?thesis by (blast intro: json_ok_mono)
  qed
  then show ?case using JObject(2) by auto
qed auto

theorem unmarshal_marshal:
  assumes "json_ok d j" and "int d \<le> max_nesting"
  shows "unmarshal (marshal j) = Some j"
proof -
  have "json_ok (nat max_nesting) j" by (rule json_ok_mono [OF assms(1)]) (use assms(2) in simp)
  then have "json_ok (nesting_for (marshal j)) j"
    using json_ok_length [OF assms(1)] by (simp add: nesting_for_def)
  from parse_value_marshal [OF this, of "[]"] starts_skip [OF starts_marshal [OF this], of "[]"]
  show ?thesis by (simp add: unmarshal_def ends_def skip_def)
qed

end
