(* ===== verification/Redaction.thy ===== *)
theory Redaction
  imports Json_Roundtrip
begin

text \<open>
  The part of internal/http/handlers/view\_helpers.go that keeps secrets out of pages and logs:
  \<^verbatim>\<open>redactSecrets\<close> on decoded JSON, the three regular expressions of
  \<^verbatim>\<open>SafeOperationalError\<close> on other text, and \<^verbatim>\<open>SafeJSONPreview\<close>.

  \<^verbatim>\<open>json.Unmarshal\<close> into an \<^verbatim>\<open>any\<close> turns numbers into floats: \<open>float s\<close> is the text
  \<^verbatim>\<open>json.Marshal\<close> prints for the float of the number \<open>s\<close>, \<open>None\<close> when it is out of range.
\<close>

section \<open>Decoded documents\<close>

text \<open>The last of several members with one key stays; a map is printed in the order of its keys.\<close>

fun last_wins :: "(string \<times> 'a) list \<Rightarrow> (string \<times> 'a) list" where
  "last_wins [] = []"
| "last_wins (kv # kvs) = (if fst kv \<in> fst ` set kvs then last_wins kvs else kv # last_wins kvs)"

fun to_any :: "(string \<Rightarrow> string option) \<Rightarrow> Json \<Rightarrow> Json option" where
  "to_any float JNull = Some JNull"
| "to_any float (JBool b) = Some (JBool b)"
| "to_any float (JString s) = Some (JString s)"
| "to_any float (JInt n) = map_option JNumber (float (Itoa n))"
| "to_any float (JNumber s) = map_option JNumber (float s)"
| "to_any float (JArray xs) =
     (if list_all (\<lambda>x. to_any float x \<noteq> None) xs
      then Some (JArray (map (\<lambda>x. the (to_any float x)) xs)) else None)"
| "to_any float (JObject kvs) =
     (if list_all (\<lambda>x. to_any float (snd x) \<noteq> None) kvs
      then Some (json_map (last_wins (map (\<lambda>x. (fst x, the (to_any float (snd x)))) kvs))) else None)"

definition unmarshal_any :: "(string \<Rightarrow> string option) \<Rightarrow> string \<Rightarrow> Json option" where
  "unmarshal_any float s = Option.bind (unmarshal s) (to_any float)"

definition sensitive_keys :: "string list" where
  "sensitive_keys =
     [''password'', ''protocol_password'', ''protocol_username'', ''node_secret'', ''nodesecret'',
      ''secret'', ''token'', ''subscription_token'', ''admin_api_token'', ''authorization'']"

definition isSensitiveJSONKey :: "string \<Rightarrow> bool" where
  "isSensitiveJSONKey key \<longleftrightarrow> ToLower (TrimSpace key) \<in> set sensitive_keys"

fun redactSecrets :: "Json \<Rightarrow> Json" where
  "redactSecrets (JObject kvs) =
     JObject (map (\<lambda>(key, item).
       (key, if isSensitiveJSONKey key then JString ''***'' else redactSecrets item)) kvs)"
| "redactSecrets (JArray xs) = JArray (map redactSecrets xs)"
| "redactSecrets j = j"

definition SafeJSONPreview :: "(string \<Rightarrow> string option) \<Rightarrow> string \<Rightarrow> string" where
  "SafeJSONPreview float payload =
     (if payload = [] then []
      else case unmarshal_any float payload of
             None \<Rightarrow> ''[invalid response JSON]''
           | Some decoded \<Rightarrow> marshal (redactSecrets decoded))"

section \<open>Regular expressions\<close>

text \<open>
  The expressions are deterministic: an optional quote is tried first and its omission cannot
  help, no alternative word is a prefix of another, and white space given back cannot start what
  follows it.  So each is a function from a text to the part it matches at the start.  With
  \<^verbatim>\<open>(?i)\<close> a letter also matches what folds to it: the long s and the Kelvin sign.
\<close>

definition match_letter :: "char \<Rightarrow> string \<Rightarrow> string option" where
  "match_letter c s =
     (case s of
        [] \<Rightarrow> None
      | x # t \<Rightarrow>
          if lower_byte x = c then Some t
          else if c = CHR ''s'' \<and> HasPrefix s [CHR 0xC5, CHR 0xBF] then Some (drop 2 s)
          else if c = CHR ''k'' \<and> HasPrefix s [CHR 0xE2, CHR 0x84, CHR 0xAA] then Some (drop 3 s)
          else None)"

fun match_word :: "string \<Rightarrow> string \<Rightarrow> string option" where
  "match_word [] s = Some s"
| "match_word (c # w) s = (case match_letter c s of None \<Rightarrow> None | Some t \<Rightarrow> match_word w t)"

fun match_words :: "string list \<Rightarrow> string \<Rightarrow> string option" where
  "match_words [] s = None"
| "match_words (w # ws) s = (case match_word w s of None \<Rightarrow> match_words ws s | Some t \<Rightarrow> Some t)"

definition re_space :: "char \<Rightarrow> bool" where
  "re_space c \<longleftrightarrow> byte c \<in> {9, 10, 12, 13, 32}"

definition quote_char :: "char \<Rightarrow> bool" where
  "quote_char c \<longleftrightarrow> c = CHR 0x22 \<or> c = CHR 0x27"

definition opt_quote :: "string \<Rightarrow> string" where
  "opt_quote s = (if s \<noteq> [] \<and> quote_char (hd s) then tl s else s)"

text \<open>\<^verbatim>\<open>["']?(?:words)["']?\s*[:=]\s*\<close>: what follows it.\<close>

definition match_label :: "string list \<Rightarrow> string \<Rightarrow> string option" where
  "match_label ws s =
     (case match_words ws (opt_quote s) of
        None \<Rightarrow> None
      | Some t \<Rightarrow>
          (let u = dropWhile re_space (opt_quote t) in
           if u \<noteq> [] \<and> hd u \<in> {CHR '':'', CHR ''=''} then Some (dropWhile re_space (tl u)) else None))"

text \<open>\<^verbatim>\<open>[^\s,;]+\<close>.\<close>

definition token_char :: "char \<Rightarrow> bool" where
  "token_char c \<longleftrightarrow> \<not> re_space c \<and> c \<noteq> CHR '','' \<and> c \<noteq> CHR '';''"

text \<open>What \<^verbatim>\<open>bearer\s+[^\s,;]+\<close> leaves.\<close>

definition match_bearer :: "string \<Rightarrow> string option" where
  "match_bearer s =
     (case match_word ''bearer'' s of
        None \<Rightarrow> None
      | Some t \<Rightarrow>
          (let u = dropWhile re_space t in
           if u = t \<or> takeWhile token_char u = [] then None else Some (dropWhile token_char u)))"

text \<open>The text up to a suffix of it.\<close>

definition upto :: "string \<Rightarrow> string \<Rightarrow> string" where
  "upto s t = take (length s - length t) s"

text \<open>
  A matcher gives the replacement of the match at the start of a text and what follows the
  match; its first argument is the character before the text.
\<close>

type_synonym matcher = "char option \<Rightarrow> string \<Rightarrow> (string \<times> string) option"

definition authHeaderPattern :: matcher where
  "authHeaderPattern prev s =
     (case match_label [''authorization''] s of
        None \<Rightarrow> None
      | Some t \<Rightarrow> map_option (\<lambda>u. (upto s t @ ''***'', u)) (match_bearer t))"

definition word_byte :: "char \<Rightarrow> bool" where
  "word_byte c \<longleftrightarrow> alnum c \<or> c = CHR ''_''"

definition bearerTokenPattern :: matcher where
  "bearerTokenPattern prev s =
     (case prev of
        Some c \<Rightarrow> if word_byte c then None else map_option (\<lambda>u. (''Bearer ***'', u)) (match_bearer s)
      | None \<Rightarrow> map_option (\<lambda>u. (''Bearer ***'', u)) (match_bearer s))"

text \<open>\<^verbatim>\<open>"[^"]*"|'[^']*'|[^\s,;]+\<close>: the value and what follows it.\<close>

definition quoted_value :: "char \<Rightarrow> string \<Rightarrow> (string \<times> string) option" where
  "quoted_value q s =
     (if s \<noteq> [] \<and> hd s = q \<and> q \<in> set (tl s)
      then Some (q # takeWhile (\<lambda>c. c \<noteq> q) (tl s) @ [q], tl (dropWhile (\<lambda>c. c \<noteq> q) (tl s)))
      else None)"

definition match_value :: "string \<Rightarrow> (string \<times> string) option" where
  "match_value s =
     (case quoted_value (CHR 0x22) s of
        Some r \<Rightarrow> Some r
      | None \<Rightarrow>
          (case quoted_value (CHR 0x27) s of
             Some r \<Rightarrow> Some r
           | None \<Rightarrow>
               if takeWhile token_char s = [] then None
               else Some (takeWhile token_char s, dropWhile token_char s)))"

definition redacted_value :: "string \<Rightarrow> string" where
  "redacted_value v =
     (if HasPrefix v [CHR 0x22] \<and> HasSuffix v [CHR 0x22] then CHR 0x22 # ''***'' @ [CHR 0x22]
      else if HasPrefix v [CHR 0x27] \<and> HasSuffix v [CHR 0x27] then CHR 0x27 # ''***'' @ [CHR 0x27]
      else ''***'')"

definition sensitiveTextPattern :: matcher where
  "sensitiveTextPattern prev s =
     (case match_label sensitive_keys s of
        None \<Rightarrow> None
      | Some t \<Rightarrow> map_option (\<lambda>(v, u). (upto s t @ redacted_value v, u)) (match_value t))"

text \<open>\<^verbatim>\<open>ReplaceAllString\<close>: the leftmost matches, one after the other.\<close>

function replace_all :: "matcher \<Rightarrow> char option \<Rightarrow> string \<Rightarrow> string" where
  "replace_all m prev [] = []"
| "replace_all m prev (c # s) =
     (case m prev (c # s) of
        None \<Rightarrow> c # replace_all m (Some c) s
      | Some (out, rest) \<Rightarrow>
          if length rest < length (c # s)
          then out @ replace_all m (Some ((c # s) ! (length s - length rest))) rest
          else c # replace_all m (Some c) s)"
  by pat_completeness auto
termination
  by (relation "measure (\<lambda>(m, prev, s). length s)") auto

section \<open>Operational errors\<close>

definition sensitive_markers :: "string list" where
  "sensitive_markers = sensitive_keys @ [''bearer '']"

definition containsSensitiveMarker :: "string \<Rightarrow> bool" where
  "containsSensitiveMarker s \<longleftrightarrow> list_ex (Contains (ToLower s)) sensitive_markers"

definition sanitize_text :: "string \<Rightarrow> string" where
  "sanitize_text s =
     replace_all sensitiveTextPattern None
       (replace_all bearerTokenPattern None (replace_all authHeaderPattern None s))"

definition SafeOperationalError :: "(string \<Rightarrow> string option) \<Rightarrow> string \<Rightarrow> string" where
  "SafeOperationalError float s =
     (let trimmed = TrimSpace s in
      if trimmed = [] then []
      else case unmarshal_any float trimmed of
             Some decoded \<Rightarrow> marshal (redactSecrets decoded)
           | None \<Rightarrow>
               (let sanitized = sanitize_text trimmed in
                if sanitized = trimmed \<and> containsSensitiveMarker trimmed
                then ''[redacted operational error]'' else sanitized))"

section \<open>Redacted documents\<close>

text \<open>
  The names under which the panel and its agents keep secrets, whatever the case and the white
  space around them.
\<close>

definition names_secret :: "string \<Rightarrow> bool" where
  "names_secret key \<longleftrightarrow> ToLower (TrimSpace key) \<in>
     {''password'', ''protocol_password'', ''protocol_username'', ''node_secret'', ''nodesecret'',
      ''secret'', ''token'', ''subscription_token'', ''admin_api_token'', ''authorization''}"

text \<open>Two documents that differ at most in the values of such names, and a document that shows none of them.\<close>

inductive same_but_secrets :: "Json \<Rightarrow> Json \<Rightarrow> bool" where
  same: "same_but_secrets j j"
| array: "list_all2 same_but_secrets xs ys \<Longrightarrow> same_but_secrets (JArray xs) (JArray ys)"
| object: "list_all2 (\<lambda>x y. fst x = fst y \<and> (names_secret (fst x) \<or> same_but_secrets (snd x) (snd y))) kvs lws
    \<Longrightarrow> same_but_secrets (JObject kvs) (JObject lws)"

fun starred :: "Json \<Rightarrow> bool" where
  "starred (JObject kvs) \<longleftrightarrow>
     (\<forall>kv \<in> set kvs. if names_secret (fst kv) then snd kv = JString ''***'' else starred (snd kv))"
| "starred (JArray xs) \<longleftrightarrow> (\<forall>x \<in> set xs. starred x)"
| "starred j \<longleftrightarrow> True"

lemma unmarshal_Nil: "unmarshal [] = None"
  by (simp add: unmarshal_def nesting_for_def max_nesting_def skip_def)

lemma isSensitiveJSONKey_names_secret: "isSensitiveJSONKey key = names_secret key"
  by (simp add: isSensitiveJSONKey_def names_secret_def sensitive_keys_def)

lemma starred_redactSecrets: "starred (redactSecrets j)"
proof (induction j)
  case (JObject kvs)
  then show ?case by (auto simp: isSensitiveJSONKey_names_secret split: prod.splits)
qed auto

lemma same_redactSecrets: "same_but_secrets j (redactSecrets j)"
proof (induction j)
  case (JArray xs)
  then show ?case by (auto simp: list.rel_map intro!: same_but_secrets.array list.rel_refl_strong)
next
  case (JObject kvs)
  then show ?case
    by (auto simp: list.rel_map isSensitiveJSONKey_names_secret split_beta
        intro!: same_but_secrets.object list.rel_refl_strong)
qed (simp_all add: same_but_secrets.same)

text \<open>
  C24: a preview of a stored document shows all of it but the values of secret names.  A
  payload that is JSON is shown as the text of a document that differs from the payload's only in the values
  of such names, at any depth and in any spelling, and in which each of these values is three
  asterisks.  A payload that is not JSON is not shown at all.
\<close>

theorem SafeJSONPreview_redacted:
  "case unmarshal_any float payload of
     None \<Rightarrow> SafeJSONPreview float payload = (if payload = [] then [] else ''[invalid response JSON]'')
   | Some j \<Rightarrow> \<exists>k. same_but_secrets j k \<and> starred k \<and> SafeJSONPreview float payload = marshal k"
proof (cases "unmarshal_any float payload")
  case (Some j)
  then have "payload \<noteq> []" by (auto simp: unmarshal_any_def unmarshal_Nil)
  with Some show ?thesis using starred_redactSecrets [of j] same_redactSecrets [of j] by (auto simp: SafeJSONPreview_def)
qed (simp add: SafeJSONPreview_def)

section \<open>Text without markers\<close>

lemma match_letter_ascii:
  "match_letter c s = Some t \<Longrightarrow> is_ascii s \<Longrightarrow> map lower_byte s = c # map lower_byte t \<and> is_ascii t"
  by (auto simp: match_letter_def HasPrefix_def split: list.split_asm if_split_asm)

lemma match_word_ascii:
  "match_word w s = Some t \<Longrightarrow> is_ascii s \<Longrightarrow> map lower_byte s = w @ map lower_byte t \<and> is_ascii t"
proof (induction w arbitrary: s)
  case (Cons c w)
  then obtain u where u: "match_letter c s = Some u" "match_word w u = Some t" by (auto split: option.split_asm)
  from match_letter_ascii [OF u(1) Cons.prems(2)] Cons.IH [OF u(2)] show ?case by auto
qed simp

lemma match_words_ascii:
  "match_words ws s = Some t \<Longrightarrow> is_ascii s \<Longrightarrow> \<exists>w \<in> set ws. map lower_byte s = w @ map lower_byte t"
proof (induction ws)
  case (Cons w ws)
  then show ?case
    by (cases "match_word w s") (auto dest: match_word_ascii)
qed simp

text \<open>An ASCII text holds a word at one of its ends' positions when its lower case does.\<close>

definition mentions :: "string list \<Rightarrow> string \<Rightarrow> bool" where
  "mentions ws s \<longleftrightarrow> list_ex (Contains (map lower_byte s)) ws"

lemma mentions_suffix: "mentions ws t \<Longrightarrow> mentions ws (a @ t)"
  unfolding mentions_def list_ex_iff Contains_iff by (metis append.assoc map_append)

lemma opt_quote_suffix: "\<exists>a. s = a @ opt_quote s"
  by (cases s) (auto simp: opt_quote_def intro: exI [of _ "[]"] exI [of _ "[hd s]"])

lemma is_ascii_suffix: "is_ascii (a @ t) \<Longrightarrow> is_ascii t"
  by simp

lemma match_label_mentions:
  assumes "match_label ws s = Some t" and "is_ascii s"
  shows "mentions ws s"
proof -
  obtain a where a: "s = a @ opt_quote s" using opt_quote_suffix by blast
  then have q: "is_ascii (opt_quote s)" using assms(2) by (metis is_ascii_suffix)
  obtain u where "match_words ws (opt_quote s) = Some u"
    using assms(1) by (auto simp: match_label_def split: option.split_asm)
  from match_words_ascii [OF this q] obtain w where "w \<in> set ws" "map lower_byte (opt_quote s) = w @ map lower_byte u"
    by blast
  then have "mentions ws (opt_quote s)"
    unfolding mentions_def list_ex_iff Contains_iff by (metis append_Nil)
  then show ?thesis using mentions_suffix [of ws "opt_quote s" a] a by simp
qed

lemma replace_all_none:
  assumes "\<And>prev t. \<exists>a. s = a @ t \<Longrightarrow> m prev t = None"
  shows "replace_all m prev s = s"
  using assms
proof (induction s arbitrary: prev)
  case (Cons c s)
  have "m prev (c # s) = None" by (rule Cons.prems) (simp add: exI [of _ "[]"])
  moreover have "replace_all m (Some c) s = s"
    by (rule Cons.IH) (metis Cons.prems append_Cons)
  ultimately show ?case by simp
qed simp


lemma match_bearer_mentions:
  assumes "match_bearer s = Some t" and "is_ascii s"
  shows "mentions [''bearer''] s"
proof -
  obtain u where "match_word ''bearer'' s = Some u"
    using assms(1) by (cases "match_word ''bearer'' s") (simp_all add: match_bearer_def)
  from match_word_ascii [OF this assms(2)] have "map lower_byte s = [] @ ''bearer'' @ map lower_byte u" by simp
  then show ?thesis unfolding mentions_def list_ex_iff Contains_iff by (metis list.set_intros(1))
qed

lemma mentions_mono: "mentions ws s \<Longrightarrow> set ws \<subseteq> set vs \<Longrightarrow> mentions vs s"
  by (auto simp: mentions_def list_ex_iff)

text \<open>
  What the code looks for (\<open>containsSensitiveMarker\<close>) covers what the expressions replace,
  except for a \<^verbatim>\<open>bearer\<close> followed by white space other than a blank.
\<close>

definition quiet :: "string \<Rightarrow> bool" where
  "quiet s \<longleftrightarrow> is_ascii s \<and> \<not> mentions (''bearer'' # sensitive_keys) s"

lemma quiet_suffix: "quiet (a @ t) \<Longrightarrow> quiet t"
  using mentions_suffix by (auto simp: quiet_def)

lemma quiet_patterns:
  assumes "quiet s"
  shows "authHeaderPattern prev s = None" "bearerTokenPattern prev s = None" "sensitiveTextPattern prev s = None"
proof -
  have no: "\<not> mentions ws s" if "set ws \<subseteq> set (''bearer'' # sensitive_keys)" for ws
    using mentions_mono [OF _ that] assms by (auto simp: quiet_def)
  have a: "is_ascii s" using assms by (simp add: quiet_def)
  have "match_label [''authorization''] s = None"
  proof (rule ccontr)
    assume "match_label [''authorization''] s \<noteq> None"
    then show False
      using match_label_mentions [OF _ a] no [of "[''authorization'']"] by (auto simp: sensitive_keys_def)
  qed
  moreover have "match_label sensitive_keys s = None"
  proof (rule ccontr)
    assume "match_label sensitive_keys s \<noteq> None"
    then show False using match_label_mentions [OF _ a] no [of sensitive_keys] by auto
  qed
  moreover have "match_bearer s = None"
  proof (rule ccontr)
    assume "match_bearer s \<noteq> None"
    then show False using match_bearer_mentions [OF _ a] no [of "[''bearer'']"] by auto
  qed
  ultimately show "authHeaderPattern prev s = None" "bearerTokenPattern prev s = None" "sensitiveTextPattern prev s = None"
    by (auto simp: authHeaderPattern_def bearerTokenPattern_def sensitiveTextPattern_def split: option.split)
qed

lemma sanitize_quiet:
  assumes "quiet s"
  shows "sanitize_text s = s"
proof -
  have "quiet t" if "\<exists>a. s = a @ t" for t using assms quiet_suffix that by blast
  then show ?thesis
    unfolding sanitize_text_def by (simp add: replace_all_none quiet_patterns)
qed

text \<open>
  An error text that says nothing sensitive comes out as it is, less the white space at its
  ends: in ASCII, without any of the words the code looks for, and not itself a JSON document.
\<close>

theorem SafeOperationalError_keeps_plain_text:
  assumes "quiet (TrimSpace s)" and "unmarshal_any float (TrimSpace s) = None"
  shows "SafeOperationalError float s = TrimSpace s"
proof -
  have "\<not> containsSensitiveMarker (TrimSpace s)"
  proof
    assume "containsSensitiveMarker (TrimSpace s)"
    then obtain w where w: "w \<in> set sensitive_markers" "Contains (map lower_byte (TrimSpace s)) w"
      using assms(1) by (auto simp: containsSensitiveMarker_def list_ex_iff quiet_def ToLower_ascii)
    have "Contains t ''bearer''" if "Contains t ''bearer ''" for t
    proof -
      from that obtain a b where "t = a @ ''bearer '' @ b" unfolding Contains_iff by blast
      then have "t = a @ ''bearer'' @ ('' '' @ b)" by simp
      then show ?thesis unfolding Contains_iff by blast
    qed
    with w have "mentions (''bearer'' # sensitive_keys) (TrimSpace s)"
      by (auto simp: mentions_def list_ex_iff sensitive_markers_def)
    with assms(1) show False by (simp add: quiet_def)
  qed
  then show ?thesis
    using assms by (simp add: SafeOperationalError_def Let_def sanitize_quiet)
qed


lemma SafeOperationalError_keeps_plain_text_witness:
  "SafeOperationalError (\<lambda>_. None) ''node agent returned 502 '' = ''node agent returned 502''"
proof -
  have t: "TrimSpace ''node agent returned 502 '' = ''node agent returned 502''"
    by code_simp
  have "quiet ''node agent returned 502''"
    by (simp add: quiet_def mentions_def sensitive_keys_def HasPrefix_def lower_byte_def)
  moreover have "unmarshal_any (\<lambda>_. None) ''node agent returned 502'' = None"
    by (simp add: unmarshal_any_def unmarshal_def nesting_for_def max_nesting_def skip_def json_space_def
        literal_def HasPrefix_def)
  ultimately have "SafeOperationalError (\<lambda>_. None) ''node agent returned 502 '' = TrimSpace ''node agent returned 502 ''"
    using SafeOperationalError_keeps_plain_text [of "''node agent returned 502 ''" "\<lambda>_. None"] by (simp only: t)
  then show ?thesis by (simp only: t)
qed

section \<open>Text that happens to be JSON\<close>

lemma TrimSpace_json_string: "TrimSpace (json_string s) = json_string s"
proof -
  have "strip_any space_encodings (CHR 0x22 # t) = None" for t
    by (simp add: strip_any_None space_encodings_def HasPrefix_def)
  moreover have "strip_any (map rev space_encodings) (CHR 0x22 # t) = None" for t
    by (simp add: strip_any_None space_encodings_def HasPrefix_def)
  ultimately show ?thesis
    by (simp add: TrimSpace_def TrimLeftSpace_def TrimRightSpace_def json_string_def trim_front.simps)
qed

text \<open>
  A text that is itself a JSON string is printed as it stands, whatever it says: the
  document decodes, \<^verbatim>\<open>redactSecrets\<close> only looks at the keys of objects, and the regular
  expressions are not tried.
\<close>

theorem SafeOperationalError_json_string_unredacted:
  assumes "utf8 s"
  shows "SafeOperationalError float (json_string s) = json_string s"
proof -
  have "unmarshal (marshal (JString s)) = Some (JString s)"
    by (rule unmarshal_marshal [of 0]) (simp_all add: assms max_nesting_def)
  then have "unmarshal_any float (json_string s) = Some (JString s)"
    by (simp add: unmarshal_any_def)
  then show ?thesis
    by (simp add: SafeOperationalError_def TrimSpace_json_string) (simp add: json_string_def)
qed

lemma SafeOperationalError_json_string_unredacted_witness:
  "SafeOperationalError (\<lambda>_. None) (json_string ''password=hunter2'') = json_string ''password=hunter2''"
  by (rule SafeOperationalError_json_string_unredacted) (simp add: utf8_ascii)

end
