(* ===== verification/View_Text.thy ===== *)
theory View_Text
  imports I18n Redaction Telemetry_Pages
begin

text \<open>
  The functions of internal/http/handlers/view\_helpers.go and page\_data.go that make the texts
  of the pages: labels, tones, masked and shortened strings, sizes and remaining times.
  \<open>format layout t\<close> is \<^verbatim>\<open>t.In(loc).Format(layout)\<close> in the zone of the panel; zones are
  data outside the repository.
\<close>

section \<open>Upper case and runes\<close>

text \<open>The simple upper-case mapping of the Unicode character database outside ASCII.\<close>

definition upper_ranges :: "(nat \<times> nat \<times> nat \<times> int) list" where
  "upper_ranges = [
    (181, 181, 1, 743), (224, 246, 1, -32), (248, 254, 1, -32), (255, 255, 1, 121), (257, 303, 2,
    -1), (305, 305, 1, -232), (307, 311, 2, -1), (314, 328, 2, -1), (331, 375, 2, -1), (378, 382, 2,
    -1), (383, 383, 1, -300), (384, 384, 1, 195), (387, 389, 2, -1), (392, 392, 1, -1), (396, 396,
    1, -1), (402, 402, 1, -1), (405, 405, 1, 97), (409, 409, 1, -1), (410, 410, 1, 163), (414, 414,
    1, 130), (417, 421, 2, -1), (424, 424, 1, -1), (429, 429, 1, -1), (432, 432, 1, -1), (436, 438,
    2, -1), (441, 441, 1, -1), (445, 445, 1, -1), (447, 447, 1, 56), (453, 453, 1, -1), (454, 454,
    1, -2), (456, 456, 1, -1), (457, 457, 1, -2), (459, 459, 1, -1), (460, 460, 1, -2), (462, 476,
    2, -1), (477, 477, 1, -79), (479, 495, 2, -1), (498, 498, 1, -1), (499, 499, 1, -2), (501, 501,
    1, -1), (505, 543, 2, -1), (547, 563, 2, -1), (572, 572, 1, -1), (575, 576, 1, 10815), (578,
    578, 1, -1), (583, 591, 2, -1), (592, 592, 1, 10783), (593, 593, 1, 10780), (594, 594, 1,
    10782), (595, 595, 1, -210), (596, 596, 1, -206), (598, 599, 1, -205), (601, 601, 1, -202),
    (603, 603, 1, -203), (604, 604, 1, 42319), (608, 608, 1, -205), (609, 609, 1, 42315), (611, 611,
    1, -207), (613, 613, 1, 42280), (614, 614, 1, 42308), (616, 616, 1, -209), (617, 617, 1, -211),
    (618, 618, 1, 42308), (619, 619, 1, 10743), (620, 620, 1, 42305), (623, 623, 1, -211), (625,
    625, 1, 10749), (626, 626, 1, -213), (629, 629, 1, -214), (637, 637, 1, 10727), (640, 640, 1,
    -218), (642, 642, 1, 42307), (643, 643, 1, -218), (647, 647, 1, 42282), (648, 648, 1, -218),
    (649, 649, 1, -69), (650, 651, 1, -217), (652, 652, 1, -71), (658, 658, 1, -219), (669, 669, 1,
    42261), (670, 670, 1, 42258), (837, 837, 1, 84), (881, 883, 2, -1), (887, 887, 1, -1), (891,
    893, 1, 130), (940, 940, 1, -38), (941, 943, 1, -37), (945, 961, 1, -32), (962, 962, 1, -31),
    (963, 971, 1, -32), (972, 972, 1, -64), (973, 974, 1, -63), (976, 976, 1, -62), (977, 977, 1,
    -57), (981, 981, 1, -47), (982, 982, 1, -54), (983, 983, 1, -8), (985, 1007, 2, -1), (1008,
    1008, 1, -86), (1009, 1009, 1, -80), (1010, 1010, 1, 7), (1011, 1011, 1, -116), (1013, 1013, 1,
    -96), (1016, 1016, 1, -1), (1019, 1019, 1, -1), (1072, 1103, 1, -32), (1104, 1119, 1, -80),
    (1121, 1153, 2, -1), (1163, 1215, 2, -1), (1218, 1230, 2, -1), (1231, 1231, 1, -15), (1233,
    1327, 2, -1), (1377, 1414, 1, -48), (4304, 4346, 1, 3008), (4349, 4351, 1, 3008), (5112, 5117,
    1, -8), (7296, 7296, 1, -6254), (7297, 7297, 1, -6253), (7298, 7298, 1, -6244), (7299, 7300, 1,
    -6242), (7301, 7301, 1, -6243), (7302, 7302, 1, -6236), (7303, 7303, 1, -6181), (7304, 7304, 1,
    35266), (7545, 7545, 1, 35332), (7549, 7549, 1, 3814), (7566, 7566, 1, 35384), (7681, 7829, 2,
    -1), (7835, 7835, 1, -59), (7841, 7935, 2, -1), (7936, 7943, 1, 8), (7952, 7957, 1, 8), (7968,
    7975, 1, 8), (7984, 7991, 1, 8), (8000, 8005, 1, 8), (8017, 8023, 2, 8), (8032, 8039, 1, 8),
    (8048, 8049, 1, 74), (8050, 8053, 1, 86), (8054, 8055, 1, 100), (8056, 8057, 1, 128), (8058,
    8059, 1, 112), (8060, 8061, 1, 126), (8064, 8071, 1, 8), (8080, 8087, 1, 8), (8096, 8103, 1, 8),
    (8112, 8113, 1, 8), (8115, 8115, 1, 9), (8126, 8126, 1, -7205), (8131, 8131, 1, 9), (8144, 8145,
    1, 8), (8160, 8161, 1, 8), (8165, 8165, 1, 7), (8179, 8179, 1, 9), (8526, 8526, 1, -28), (8560,
    8575, 1, -16), (8580, 8580, 1, -1), (9424, 9449, 1, -26), (11312, 11359, 1, -48), (11361, 11361,
    1, -1), (11365, 11365, 1, -10795), (11366, 11366, 1, -10792), (11368, 11372, 2, -1), (11379,
    11379, 1, -1), (11382, 11382, 1, -1), (11393, 11491, 2, -1), (11500, 11502, 2, -1), (11507,
    11507, 1, -1), (11520, 11557, 1, -7264), (11559, 11559, 1, -7264), (11565, 11565, 1, -7264),
    (42561, 42605, 2, -1), (42625, 42651, 2, -1), (42787, 42799, 2, -1), (42803, 42863, 2, -1),
    (42874, 42876, 2, -1), (42879, 42887, 2, -1), (42892, 42892, 1, -1), (42897, 42899, 2, -1),
    (42900, 42900, 1, 48), (42903, 42921, 2, -1), (42933, 42947, 2, -1), (42952, 42954, 2, -1),
    (42961, 42961, 1, -1), (42967, 42969, 2, -1), (42998, 42998, 1, -1), (43859, 43859, 1, -928),
    (43888, 43967, 1, -38864), (65345, 65370, 1, -32), (66600, 66639, 1, -40), (66776, 66811, 1,
    -40), (66967, 66977, 1, -39), (66979, 66993, 1, -39), (66995, 67001, 1, -39), (67003, 67004, 1,
    -39), (68800, 68850, 1, -64), (71872, 71903, 1, -32), (93792, 93823, 1, -32), (125218, 125251,
    1, -34)]"

definition upper_rune :: "nat \<Rightarrow> nat" where
  "upper_rune r =
     (if r < 128 then (if 97 \<le> r \<and> r \<le> 122 then r - 32 else r) else case_lookup upper_ranges r)"

definition ToUpper :: "string \<Rightarrow> string" where
  "ToUpper s = string_of_runes (map upper_rune (runes s))"

text \<open>\<^verbatim>\<open>strings.ReplaceAll\<close> of a non-empty text, and of a single byte by another.\<close>

function ReplaceAll :: "string \<Rightarrow> string \<Rightarrow> string \<Rightarrow> string" where
  "ReplaceAll [] old new = []"
| "ReplaceAll (c # s) old new =
     (if old \<noteq> [] \<and> HasPrefix (c # s) old
      then new @ ReplaceAll (drop (length old - 1) s) old new
      else c # ReplaceAll s old new)"
  by pat_completeness auto
termination
  by (relation "measure (\<lambda>(s, old, new). length s)") auto

definition replace_byte :: "char \<Rightarrow> char \<Rightarrow> string \<Rightarrow> string" where
  "replace_byte old new s = map (\<lambda>c. if c = old then new else c) s"

section \<open>Labels\<close>

definition title_part :: "string \<Rightarrow> string" where
  "title_part part =
     (if part = [] then part
      else case runes (ToLower part) of
             [] \<Rightarrow> part
           | r # rs \<Rightarrow> string_of_runes (upper_rune r # rs))"

definition formatStatusLabel :: "string \<Rightarrow> string" where
  "formatStatusLabel status =
     (if status = [] then []
      else Join (map title_part (SplitByte (replace_byte (CHR ''-'') (CHR ''_'') status) (CHR ''_''))) '' '')"

definition status_key :: "string \<Rightarrow> string" where
  "status_key status =
     ''status.'' @ ToLower (replace_byte (CHR '' '') (CHR ''_'') (replace_byte (CHR ''-'') (CHR ''_'') status))"

definition localizedStatusLabel :: "Locale \<Rightarrow> string \<Rightarrow> string" where
  "localizedStatusLabel locale status =
     (let key = status_key status; translated = Translate locale key in
      if translated \<noteq> key then translated else formatStatusLabel status)"

definition nodeStatusTone :: "Locale \<Rightarrow> Node \<Rightarrow> string \<times> string" where
  "nodeStatusTone locale node =
     (if \<not> n_enabled node \<or> n_setup_state node = SetupStateDisabled
      then (''disabled'', Translate locale ''status.disabled'')
      else if n_setup_state node = SetupStateConnected
      then (''success'', Translate locale ''status.connected'')
      else if n_setup_state node = SetupStateUnreachable
      then (''danger'', Translate locale ''status.unreachable'')
      else if n_setup_state node = SetupStatePlanned
      then (''warning'', Translate locale ''status.planned'')
      else (''muted'', formatStatusLabel (n_setup_state node)))"

definition protocolTone :: "string \<Rightarrow> string" where
  "protocolTone protocol =
     (if ToLower protocol = ''mieru'' then ''protocol-mieru''
      else if ToLower protocol = ''naive'' then ''protocol-naive'' else ''muted'')"

definition collectorStatusTone :: "string \<Rightarrow> string" where
  "collectorStatusTone status =
     (let s = ToLower (TrimSpace status) in
      if s = ''ok'' then ''success'' else if s = ''partial'' then ''warning''
      else if s = ''disabled'' then ''disabled'' else ''danger'')"

definition collectorStatusLabel :: "Locale \<Rightarrow> string \<Rightarrow> string" where
  "collectorStatusLabel locale status =
     (let s = ToLower (TrimSpace status) in
      if s = ''ok'' then Translate locale ''sessions.collector_ok''
      else if s = ''partial'' then Translate locale ''sessions.collector_partial''
      else if s = ''disabled'' then Translate locale ''sessions.collector_disabled''
      else Translate locale ''sessions.collector_unavailable'')"

section \<open>Masked and shortened text\<close>

definition bullets :: "nat \<Rightarrow> nat list" where
  "bullets n = replicate n 8226"

definition MaskSecretCompact :: "string \<Rightarrow> string" where
  "MaskSecretCompact secret =
     (let rs = runes (TrimSpace secret); n = length rs in
      if n = 0 then []
      else if n \<le> 4 then string_of_runes (bullets n)
      else if n \<le> 8 then string_of_runes (take 2 rs @ bullets 4 @ drop (n - 2) rs)
      else string_of_runes (take 4 rs @ bullets 8 @ drop (n - 4) rs))"

definition TruncateText :: "string \<Rightarrow> nat \<Rightarrow> string" where
  "TruncateText s limit =
     (let rs = runes s in
      if length rs \<le> limit \<or> limit \<le> 3 then s else string_of_runes (take (limit - 1) rs) @ ''...'')"

section \<open>Numbers\<close>

text \<open>\<open>n / d\<close> to the nearest integer, ties to even, as floating point rounds.\<close>

definition round_even :: "int \<Rightarrow> int \<Rightarrow> int" where
  "round_even n d =
     (let q = n div d; r = n mod d in
      if 2 * r < d \<or> (2 * r = d \<and> even q) then q else q + 1)"

text \<open>\<^verbatim>\<open>float64(v)\<close> of a non-negative \<^verbatim>\<open>int64\<close>: 53 bits.\<close>

fun float_bits :: "nat \<Rightarrow> int \<Rightarrow> int" where
  "float_bits 0 v = 1"
| "float_bits (Suc k) v = (if v < 2 ^ 53 then 1 else 2 * float_bits k (v div 2))"

definition float64 :: "int \<Rightarrow> int" where
  "float64 v = (let scale = float_bits 11 v in round_even v scale * scale)"

definition one_decimal :: "int \<Rightarrow> int \<Rightarrow> string" where
  "one_decimal n d = (let t = round_even (10 * n) d in Itoa (t div 10) @ ''.'' @ Itoa (t mod 10))"

definition FormatBytesIEC :: "int \<Rightarrow> string" where
  "FormatBytesIEC v =
     (if v < 0 then ''0 B''
      else if v < 1024 then Itoa v @ '' B''
      else if float64 v < 1024 ^ 2 then one_decimal (float64 v) 1024 @ '' KiB''
      else if float64 v < 1024 ^ 3 then one_decimal (float64 v) (1024 ^ 2) @ '' MiB''
      else if float64 v < 1024 ^ 4 then one_decimal (float64 v) (1024 ^ 3) @ '' GiB''
      else one_decimal (float64 v) (1024 ^ 4) @ '' TiB'')"

section \<open>Time\<close>

definition minute :: int where "minute = 60 * 10 ^ 9"
definition hour :: int where "hour = 60 * minute"
definition day :: int where "day = 24 * hour"

text \<open>\<^verbatim>\<open>t.Sub(u)\<close> saturates at 64 bits; \<^verbatim>\<open>d.Round(m)\<close> of a positive duration.\<close>

definition time_Sub :: "time \<Rightarrow> time \<Rightarrow> int" where
  "time_Sub t u = max int64_min (min int64_max (t - u))"

definition duration_Round :: "int \<Rightarrow> int \<Rightarrow> int" where
  "duration_Round d m =
     (let r = d mod m in if 2 * r < m then d - r else min int64_max (d + m - r))"

definition ru_left :: string where "ru_left = string_of_runes [1054, 1089, 1090, 1072, 1083, 1086, 1089, 1100, 32]"
definition ru_hours :: string where "ru_hours = string_of_runes [32, 1095]"
definition ru_minutes :: string where "ru_minutes = string_of_runes [32, 1084, 1080, 1085]"
definition ru_days :: string where "ru_days = string_of_runes [32, 1076]"

definition timeRemainingAt :: "Locale \<Rightarrow> time option \<Rightarrow> time \<Rightarrow> string" where
  "timeRemainingAt locale expiresAt now =
     (case expiresAt of
        None \<Rightarrow> Translate locale ''status.unlimited''
      | Some x \<Rightarrow>
          if \<not> now < x then Translate locale ''status.expired''
          else
            (let duration = max minute (duration_Round (time_Sub x now) minute);
                 ru = (NormalizeLocale locale = LocaleRU) in
             if duration < day then
               (let hours = duration div minute div 60; minutes = duration div minute mod 60 in
                if ru then
                  (if hours > 0 \<and> minutes > 0
                   then ru_left @ Itoa hours @ ru_hours @ '' '' @ Itoa minutes @ ru_minutes
                   else if hours > 0 then ru_left @ Itoa hours @ ru_hours
                   else ru_left @ Itoa minutes @ ru_minutes)
                else
                  (if hours > 0 \<and> minutes > 0 then Itoa hours @ ''h '' @ Itoa minutes @ ''m remaining''
                   else if hours > 0 then Itoa hours @ ''h remaining''
                   else Itoa minutes @ ''m remaining''))
             else
               (let days = duration div hour div 24; hours = duration div hour mod 24 in
                if ru then ru_left @ Itoa days @ ru_days @ '' '' @ Itoa hours @ ru_hours
                else Itoa days @ ''d '' @ Itoa hours @ ''h remaining'')))"

type_synonym formatter = "string \<Rightarrow> time \<Rightarrow> string"

definition layout_for :: "Locale \<Rightarrow> string \<Rightarrow> string" where
  "layout_for locale zone_part =
     (if NormalizeLocale locale = LocaleRU then ''02.01.2006 15:04'' else ''2006-01-02 15:04'') @ zone_part"

text \<open>\<^verbatim>\<open>FormatTimeForLocale\<close> of a \<^verbatim>\<open>time.Time\<close> or \<^verbatim>\<open>*time.Time\<close>.\<close>

definition FormatTimeForLocale :: "formatter \<Rightarrow> Locale \<Rightarrow> time option \<Rightarrow> string" where
  "FormatTimeForLocale format locale t =
     (case t of None \<Rightarrow> [] | Some x \<Rightarrow> format (layout_for locale []) x)"

definition FormatDateTimeForLocale :: "formatter \<Rightarrow> Locale \<Rightarrow> time option \<Rightarrow> string" where
  "FormatDateTimeForLocale format locale t =
     (case t of None \<Rightarrow> Translate locale ''status.unlimited'' | Some x \<Rightarrow> format (layout_for locale []) x)"

definition FormatDateTimeWithZoneForLocale :: "formatter \<Rightarrow> Locale \<Rightarrow> time option \<Rightarrow> string" where
  "FormatDateTimeWithZoneForLocale format locale t =
     (case t of None \<Rightarrow> Translate locale ''status.unlimited'' | Some x \<Rightarrow> format (layout_for locale '' MST'') x)"

definition soon :: int where "soon = 72 * hour"

definition subscriptionExpiryTextAt :: "formatter \<Rightarrow> Locale \<Rightarrow> time option \<Rightarrow> time \<Rightarrow> string" where
  "subscriptionExpiryTextAt format locale expiresAt now =
     (case expiresAt of
        None \<Rightarrow> Translate locale ''subscription.unlimited''
      | Some x \<Rightarrow>
          (let formatted = FormatDateTimeWithZoneForLocale format locale expiresAt in
           if x < now then Translate locale ''subscription.expired_at'' @ '' '' @ formatted
           else if x < now + soon
           then Translate locale ''subscription.expires_at'' @ '' '' @ formatted @ '' (''
                  @ Translate locale ''status.expires_soon'' @ '')''
           else Translate locale ''subscription.expires_at'' @ '' '' @ formatted))"

end
