(* ===== verification/Go_Http.thy ===== *)
theory Go_Http
  imports Go_Url Go_Json
begin

text \<open>
  What the handlers use of Go's \<^verbatim>\<open>net/http\<close> and \<^verbatim>\<open>net/url\<close>: the parts of a request they
  read, the responses they write, the values of forms, redirects, and the parsing of a request
  URI.  The routing package \<^verbatim>\<open>chi\<close> is outside the repository; what it gives a handler are
  the parameters of the route.
\<close>

section \<open>Requests and responses\<close>

text \<open>
  \<open>r_query\<close> and \<open>r_post\<close> are the decoded pairs of the query and of the form in the body, in
  their order; \<open>r_form_error\<close> says that \<^verbatim>\<open>ParseForm\<close> found one malformed.
\<close>

record Request =
  r_method :: string
  r_path :: string
  r_request_uri :: string
  r_query :: "(string \<times> string) list"
  r_post :: "(string \<times> string) list"
  r_form_error :: bool
  r_cookies :: "(string \<times> string) list"
  r_authorization :: string
  r_body :: string
  r_params :: "(string \<times> string) list"

text \<open>
  A response: \<open>JsonResponse\<close> with the document that \<^verbatim>\<open>json.NewEncoder(w).Encode\<close> writes,
  none when it does not encode; \<open>TextError\<close> is \<^verbatim>\<open>http.Error\<close>; \<open>Redirect\<close> is
  \<^verbatim>\<open>http.Redirect\<close> with status 302; \<open>Document\<close> has headers of its own; \<open>Page\<close> is a
  template with its data, whose type is a parameter.  The last two and \<open>Redirect\<close> carry the
  cookies set before.
\<close>

record cookie =
  ck_name :: string
  ck_value :: string
  ck_http_only :: bool
  ck_secure :: bool
  ck_max_age :: int

datatype 'p response =
    JsonResponse int "Json option"
  | TextError int string
  | Redirect string "cookie list"
  | Document int "(string \<times> string) list" string
  | Page int string 'p

text \<open>The value of a key among pairs, empty when there is none: \<^verbatim>\<open>url.Values.Get\<close>.\<close>

definition first_value :: "(string \<times> string) list \<Rightarrow> string \<Rightarrow> string" where
  "first_value kvs key = (case map_of kvs key of None \<Rightarrow> [] | Some v \<Rightarrow> v)"

definition all_values :: "(string \<times> string) list \<Rightarrow> string \<Rightarrow> string list" where
  "all_values kvs key = map snd (filter (\<lambda>kv. fst kv = key) kvs)"

definition QueryGet :: "Request \<Rightarrow> string \<Rightarrow> string" where
  "QueryGet r key = first_value (r_query r) key"

text \<open>\<^verbatim>\<open>r.FormValue\<close> and \<^verbatim>\<open>r.Form[key]\<close>: the form of the body comes before the query.\<close>

definition FormValue :: "Request \<Rightarrow> string \<Rightarrow> string" where
  "FormValue r key = first_value (r_post r @ r_query r) key"

definition FormValues :: "Request \<Rightarrow> string \<Rightarrow> string list" where
  "FormValues r key = all_values (r_post r @ r_query r) key"

definition URLParam :: "Request \<Rightarrow> string \<Rightarrow> string" where
  "URLParam r key = first_value (r_params r) key"

text \<open>\<^verbatim>\<open>url.Values.Encode\<close> of single values: sorted by key.\<close>

definition Encode :: "(string \<times> string) list \<Rightarrow> string" where
  "Encode kvs =
     Join (map (\<lambda>(k, v). QueryEscape k @ ''='' @ QueryEscape v) (sort_by (\<lambda>x y. fst x < fst y) kvs)) ''&''"

section \<open>Redirects\<close>

text \<open>
  The \<^verbatim>\<open>Location\<close> of \<^verbatim>\<open>http.Redirect\<close> for a target that begins with a slash: a target
  without scheme and host has its path cleaned, and bytes beyond ASCII are escaped.
\<close>

definition hexEscapeNonASCII :: "string \<Rightarrow> string" where
  "hexEscapeNonASCII s =
     concat (map (\<lambda>c. if byte c < 128 then [c] else [CHR ''%'', hex_digit (byte c div 16), hex_digit (byte c)]) s)"

definition clean_target :: "string \<Rightarrow> string" where
  "clean_target target =
     (let p = (case IndexByte target (CHR ''?'') of None \<Rightarrow> target | Some i \<Rightarrow> take i target);
          q = (case IndexByte target (CHR ''?'') of None \<Rightarrow> [] | Some i \<Rightarrow> drop i target);
          c = CleanRooted p in
      (if HasSuffix p ''/'' \<and> \<not> HasSuffix c ''/'' then c @ ''/'' else c) @ q)"

definition Location :: "string \<Rightarrow> string" where
  "Location target =
     hexEscapeNonASCII (if url_Parse_Host target = Some [] then clean_target target else target)"

section \<open>Request URIs\<close>

text \<open>
  \<^verbatim>\<open>url.ParseRequestURI\<close> for what its caller looks at: \<open>Absolute\<close> when the URL has a scheme,
  a host or an opaque part, otherwise the decoded path and the path as \<^verbatim>\<open>EscapedPath\<close> prints
  it.  Without a scheme the rest is a path even if it begins with two slashes.
\<close>

datatype request_uri = Absolute | RootedPath string string

text \<open>\<^verbatim>\<open>validEncoded(s, encodePath)\<close>.\<close>

definition validEncoded :: "string \<Rightarrow> bool" where
  "validEncoded s =
     list_all (\<lambda>c. c \<in> set (CHR 0x27 # ''!$&()*+,;=:@[]%'') \<or> \<not> shouldEscape c encodePath) s"

definition EscapedPath :: "string \<Rightarrow> string \<Rightarrow> string" where
  "EscapedPath raw path =
     (if validEncoded raw \<and> unescape raw encodePath = Some path then raw
      else if path = ''*'' then ''*'' else escape path encodePath)"

definition ParseRequestURI :: "string \<Rightarrow> request_uri option" where
  "ParseRequestURI raw =
     (if list_ex (\<lambda>c. byte c < 32 \<or> byte c = 127) raw then None
      else if raw = [] then None
      else if raw = ''*'' then Some (RootedPath ''*'' ''*'')
      else case getScheme raw of
             None \<Rightarrow> None
           | Some (scheme, after) \<Rightarrow>
               (let rest = fst (CutByte after (CHR ''?'')) in
                if scheme \<noteq> [] then (if parse_rest scheme rest = None then None else Some Absolute)
                else if \<not> HasPrefix rest ''/'' then None
                else case unescape rest encodePath of
                       None \<Rightarrow> None
                     | Some path \<Rightarrow> Some (RootedPath path (EscapedPath rest path))))"

definition PathUnescape :: "string \<Rightarrow> string option" where
  "PathUnescape s = unescape s encodePath"

lemma unescape_escape_path: "unescape (escape s encodePath) encodePath = Some s"
  by (rule unescape_escape) simp_all

lemma unescape_EscapedPath: "unescape (EscapedPath raw path) encodePath = Some path"
  by (simp add: EscapedPath_def unescape_escape_path)

lemma getScheme_none:
  assumes "getScheme_from raw i s = Some ([], t)" and "raw \<noteq> []"
  shows "t = raw"
  using assms
proof (induction raw i s rule: getScheme_from.induct)
  case (2 raw i c s)
  then show ?case by (cases raw) (auto split: if_split_asm)
qed simp

end
