(* ===== verification/View_Helpers.thy ===== *)
theory View_Helpers
  imports View_Text Config Go_Http User_Repo
begin

text \<open>
  The view models of internal/http/handlers: the structs of view\_helpers.go, the functions that
  fill them, and the common data of a page (page\_data.go).  A function that asks
  \<^verbatim>\<open>time.Now()\<close> is an effectful operation on the world.
\<close>

section \<open>Common data of a page\<close>

record breadcrumb =
  bc_label :: string
  bc_url :: string

record navItem =
  nv_label :: string
  nv_url :: string
  nv_key :: string
  nv_active :: bool

record toastMessage =
  to_level :: string
  to_text :: string

record viewData =
  vd_title :: string
  vd_active_nav :: string
  vd_nav_items :: "navItem list"
  vd_environment :: string
  vd_breadcrumbs :: "breadcrumb list"
  vd_flash_items :: "toastMessage list"
  vd_login_page :: bool
  vd_locale :: Locale
  vd_app_timezone :: string
  vd_panel_public_base_url :: string
  vd_current_path :: string

definition navItems :: "string \<Rightarrow> navItem list" where
  "navItems active =
     map (\<lambda>(url, key). \<lparr>nv_label = [], nv_url = url, nv_key = key, nv_active = (key = active)\<rparr>)
       [(''/'', ''dashboard''), (''/users'', ''users''), (''/nodes'', ''nodes''), (''/sessions'', ''sessions'')]"

definition newViewData :: "string \<Rightarrow> string \<Rightarrow> viewData" where
  "newViewData title nav =
     \<lparr>vd_title = title, vd_active_nav = nav, vd_nav_items = navItems nav, vd_environment = [],
      vd_breadcrumbs = [], vd_flash_items = [], vd_login_page = False, vd_locale = [],
      vd_app_timezone = [], vd_panel_public_base_url = [], vd_current_path = []\<rparr>"

definition flashFromQuery :: "(string \<times> string) list \<Rightarrow> toastMessage list" where
  "flashFromQuery vs =
     (let t = TrimSpace (first_value vs ''flash''); level = TrimSpace (first_value vs ''level'') in
      if t = [] then []
      else [\<lparr>to_level = (if level = [] then ''info'' else level), to_text = t\<rparr>])"

text \<open>\<^verbatim>\<open>ResolveLocale\<close>: the language cookie, Russian without one.\<close>

definition Cookie :: "Request \<Rightarrow> string \<Rightarrow> string option" where
  "Cookie r name = map_of (r_cookies r) name"

definition ResolveLocale :: "Request \<Rightarrow> Locale" where
  "ResolveLocale r =
     (case Cookie r languageCookieName of None \<Rightarrow> LocaleRU | Some v \<Rightarrow> NormalizeLocale v)"

text \<open>The targets a form may send the browser back to: paths of this site only.\<close>

definition safeReturnTo :: "string \<Rightarrow> string" where
  "safeReturnTo s =
     (let v = TrimSpace s in
      if v = [] \<or> list_ex (\<lambda>c. c \<in> {CHR 0x5C, CHR 0x0D, CHR 0x0A, CHR 0x00}) v then ''/''
      else case ParseRequestURI v of
             None \<Rightarrow> ''/''
           | Some Absolute \<Rightarrow> ''/''
           | Some (RootedPath path escaped) \<Rightarrow>
               (case PathUnescape escaped of
                  None \<Rightarrow> ''/''
                | Some decodedPath \<Rightarrow>
                    if \<not> HasPrefix decodedPath ''/'' \<or> HasPrefix decodedPath ''//''
                       \<or> Contains decodedPath [CHR 0x5C] then ''/'' else v))"

definition pageData :: "Config \<Rightarrow> Request \<Rightarrow> string \<Rightarrow> string \<Rightarrow> viewData" where
  "pageData cfg r title nav =
     (let locale = ResolveLocale r; data = newViewData title nav in
      data\<lparr>vd_nav_items := map (\<lambda>item. item\<lparr>nv_label := Translate locale (''nav.'' @ nv_key item)\<rparr>) (vd_nav_items data),
           vd_environment := ToUpper (cf_app_env cfg), vd_app_timezone := cf_app_timezone cfg,
           vd_panel_public_base_url := cf_panel_public_base_url cfg,
           vd_flash_items := flashFromQuery (r_query r), vd_locale := locale,
           vd_current_path := safeReturnTo (r_request_uri r)\<rparr>)"

definition loginData :: "Request \<Rightarrow> string \<Rightarrow> viewData" where
  "loginData r msg =
     (let locale = ResolveLocale r in
      (newViewData ''page.login'' [])\<lparr>
        vd_flash_items := (if TrimSpace msg \<noteq> [] then [\<lparr>to_level = ''error'', to_text = Translate locale msg\<rparr>] else []),
        vd_login_page := True, vd_locale := locale, vd_current_path := ''/login''\<rparr>)"

section \<open>Users\<close>

definition IsUserExpired :: "env \<Rightarrow> time option \<Rightarrow> bool act" where
  "IsUserExpired e expiresAt =
     (case expiresAt of
        None \<Rightarrow> retE False
      | Some x \<Rightarrow> bindE (clock e) (\<lambda>now. retE (\<not> now < x)))"

definition IsUserExpiringSoon :: "env \<Rightarrow> time option \<Rightarrow> bool act" where
  "IsUserExpiringSoon e expiresAt =
     (case expiresAt of
        None \<Rightarrow> retE False
      | Some x \<Rightarrow> bindE (clock e) (\<lambda>now. retE (now < x \<and> x < now + soon)))"

definition userStatus :: "env \<Rightarrow> Locale \<Rightarrow> User \<Rightarrow> (string \<times> string) act" where
  "userStatus e locale user =
     (if \<not> u_enabled user then retE (''disabled'', Translate locale ''status.disabled'')
      else
        bindE (IsUserExpired e (u_expires_at user)) (\<lambda>expired.
          if expired then retE (''expired'', Translate locale ''status.expired'')
          else
            bindE (IsUserExpiringSoon e (u_expires_at user)) (\<lambda>warn.
              if warn then retE (''warning'', Translate locale ''status.expires_soon'')
              else retE (''success'', Translate locale ''status.active''))))"

definition TimeRemaining :: "env \<Rightarrow> Locale \<Rightarrow> time option \<Rightarrow> string act" where
  "TimeRemaining e locale expiresAt = bindE (clock e) (\<lambda>now. retE (timeRemainingAt locale expiresAt now))"

definition subscriptionExpiryText :: "env \<Rightarrow> formatter \<Rightarrow> Locale \<Rightarrow> time option \<Rightarrow> string act" where
  "subscriptionExpiryText e format locale expiresAt =
     bindE (clock e) (\<lambda>now. retE (subscriptionExpiryTextAt format locale expiresAt now))"

record userListItem =
  ul_user :: User
  ul_status_tone :: string
  ul_status_label :: string
  ul_assigned_node_count :: nat

definition expires_before :: "userListItem \<Rightarrow> userListItem \<Rightarrow> bool" where
  "expires_before i j =
     (case (u_expires_at (ul_user i), u_expires_at (ul_user j)) of
        (None, None) \<Rightarrow> u_username (ul_user i) < u_username (ul_user j)
      | (None, Some r) \<Rightarrow> False
      | (Some l, None) \<Rightarrow> True
      | (Some l, Some r) \<Rightarrow> l < r)"

definition created_after :: "userListItem \<Rightarrow> userListItem \<Rightarrow> bool" where
  "created_after i j \<longleftrightarrow> u_created_at (ul_user j) < u_created_at (ul_user i)"

definition username_before :: "userListItem \<Rightarrow> userListItem \<Rightarrow> bool" where
  "username_before i j \<longleftrightarrow> ToLower (u_username (ul_user i)) < ToLower (u_username (ul_user j))"

definition user_order :: "string \<Rightarrow> userListItem \<Rightarrow> userListItem \<Rightarrow> bool" where
  "user_order mode =
     (if mode = ''expires_at'' then expires_before
      else if mode = ''created_at'' then created_after else username_before)"

definition sortUserViews :: "userListItem list \<Rightarrow> string \<Rightarrow> userListItem list" where
  "sortUserViews items mode = sort_by (user_order mode) items"

definition matchesUserFilter :: "userListItem \<Rightarrow> string \<Rightarrow> string \<Rightarrow> bool" where
  "matchesUserFilter item filter0 search0 =
     (let flt = TrimSpace (ToLower filter0); search = TrimSpace (ToLower search0);
          display = (case u_display_name (ul_user item) of None \<Rightarrow> [] | Some d \<Rightarrow> ToLower d) in
      if search \<noteq> [] \<and> \<not> Contains (ToLower (u_username (ul_user item))) search \<and> \<not> Contains display search
      then False
      else if flt = [] \<or> flt = ''all'' then True
      else if flt = ''active'' then ul_status_tone item = ''success''
      else if flt = ''expired'' then ul_status_tone item = ''expired''
      else if flt = ''disabled'' then ul_status_tone item = ''disabled''
      else if flt = ''expires-soon'' then ul_status_tone item = ''warning''
      else True)"

definition hasDetailedProtocolAccess :: "UserNodeAccessDetail list \<Rightarrow> string \<Rightarrow> bool" where
  "hasDetailedProtocolAccess access protocol =
     list_ex (\<lambda>item. ud_node_protocol_type item = protocol \<and> a_enabled (ud_access item) \<and> ud_node_enabled item) access"

section \<open>Nodes, events, assignments\<close>

definition Mask :: "string \<Rightarrow> string" where
  "Mask secret = MaskSecret secret"

record nodeListItem =
  nl_node :: Node
  nl_status_tone :: string
  nl_status_label :: string
  nl_protocol_tone :: string
  nl_assigned_user_count :: nat
  nl_last_error_preview :: string

definition count_of :: "(string \<rightharpoonup> nat) \<Rightarrow> string \<Rightarrow> nat" where
  "count_of counts k = (case counts k of None \<Rightarrow> 0 | Some n \<Rightarrow> n)"

definition makeNodeListItems ::
    "(string \<Rightarrow> string option) \<Rightarrow> Locale \<Rightarrow> Node list \<Rightarrow> (string \<rightharpoonup> nat) \<Rightarrow> nodeListItem list" where
  "makeNodeListItems float locale ns counts =
     map (\<lambda>node. case nodeStatusTone locale node of (tone, label) \<Rightarrow>
       \<lparr>nl_node = node, nl_status_tone = tone, nl_status_label = label,
        nl_protocol_tone = protocolTone (n_protocol_type node),
        nl_assigned_user_count = count_of counts (n_id node),
        nl_last_error_preview =
          (case n_last_error node of None \<Rightarrow> [] | Some err \<Rightarrow> TruncateText (SafeOperationalError float err) 140)\<rparr>) ns"

record syncEventView =
  se_event :: SyncEvent
  se_node_name :: string
  se_status_tone :: string
  se_status_label :: string
  se_error_preview :: string
  se_safe_error :: string
  se_response_preview :: string

text \<open>The body of the loops over events in \<^verbatim>\<open>Dashboard\<close> and \<^verbatim>\<open>NodeDetail\<close>.\<close>

definition event_view :: "(string \<Rightarrow> string option) \<Rightarrow> Locale \<Rightarrow> string \<Rightarrow> SyncEvent \<Rightarrow> syncEventView" where
  "event_view float locale nodeName event =
     (let safeErrText = (case ev_error event of None \<Rightarrow> [] | Some err \<Rightarrow> SafeOperationalError float err) in
      \<lparr>se_event = event, se_node_name = nodeName,
       se_status_tone = (if ev_status event \<noteq> ''ok'' then ''danger'' else ''success''),
       se_status_label =
         ReplaceAll (localizedStatusLabel locale (replace_byte (CHR ''_'') (CHR '' '') (ev_status event))) ''Http'' ''HTTP'',
       se_error_preview = TruncateText safeErrText 84, se_safe_error = safeErrText,
       se_response_preview =
         TruncateText (SafeJSONPreview float (case ev_response_json event of None \<Rightarrow> [] | Some b \<Rightarrow> b)) 160\<rparr>)"

record subscriptionLink =
  li_label :: string
  li_url :: string
  li_qr :: bool

record subscriptionLinkGroup =
  lg_title :: string
  lg_links :: "subscriptionLink list"

record assignmentView =
  av_id :: string
  av_user_id :: string
  av_node_id :: string
  av_node_name :: string
  av_node_setup_state :: string
  av_node_protocol_type :: string
  av_node_enabled :: bool
  av_enabled :: bool
  av_masked_protocol_username :: string
  av_masked_protocol_password :: string

definition assignment_view :: "UserNodeAccessDetail \<Rightarrow> assignmentView" where
  "assignment_view item =
     (let a = ud_access item in
      \<lparr>av_id = a_id a, av_user_id = a_user_id a, av_node_id = a_node_id a, av_node_name = ud_node_name item,
       av_node_setup_state = ud_node_setup_state item, av_node_protocol_type = ud_node_protocol_type item,
       av_node_enabled = ud_node_enabled item, av_enabled = a_enabled a,
       av_masked_protocol_username = Mask (a_protocol_username a),
       av_masked_protocol_password = Mask (a_protocol_password a)\<rparr>)"

record nodeAssignmentView =
  na_user_id :: string
  na_username :: string
  na_display_name :: "string option"
  na_user_enabled :: bool
  na_user_expires_at :: "time option"
  na_enabled :: bool
  na_masked_protocol_username :: string
  na_masked_protocol_password :: string

definition node_assignment_view :: "NodeUserAccessDetail \<Rightarrow> nodeAssignmentView" where
  "node_assignment_view item =
     (let a = nd_access item in
      \<lparr>na_user_id = a_user_id a, na_username = nd_username item, na_display_name = nd_display_name item,
       na_user_enabled = nd_user_enabled item, na_user_expires_at = nd_user_expires_at item,
       na_enabled = a_enabled a, na_masked_protocol_username = Mask (a_protocol_username a),
       na_masked_protocol_password = Mask (a_protocol_password a)\<rparr>)"

section \<open>Telemetry\<close>

record telemetrySessionRowView =
  rv_node_db_id :: string
  rv_node_name :: string
  rv_node_protocol :: string
  rv_backend_user_id :: string
  rv_backend_username :: string
  rv_backend_display_name :: "string option"
  rv_user_known :: bool
  rv_masked_protocol_username :: string
  rv_client_ip :: string
  rv_active :: bool
  rv_first_seen_at :: "time option"
  rv_last_seen_at :: "time option"
  rv_upload_text :: string
  rv_download_text :: string
  rv_traffic_text :: string
  rv_source :: string
  rv_traffic_scope :: string
  rv_user_present_in_cache :: bool
  rv_ip_observed :: bool
  rv_traffic_observed :: bool

text \<open>The sum of the two counters wraps at 64 bits.\<close>

definition wrap64 :: "int \<Rightarrow> int" where
  "wrap64 n = (n + 2 ^ 63) mod 2 ^ 64 - 2 ^ 63"

definition session_row_view :: "SessionView \<Rightarrow> telemetrySessionRowView" where
  "session_row_view row =
     \<lparr>rv_node_db_id = sv_node_db_id row, rv_node_name = sv_node_name row,
      rv_node_protocol = sv_node_protocol row, rv_backend_user_id = sv_backend_user_id row,
      rv_backend_username = sv_backend_username row, rv_backend_display_name = sv_backend_display_name row,
      rv_user_known = sv_user_known row, rv_masked_protocol_username = sv_masked_protocol_username row,
      rv_client_ip = sv_client_ip row, rv_active = sv_active row,
      rv_first_seen_at = sv_first_seen_at row, rv_last_seen_at = sv_last_seen_at row,
      rv_upload_text = FormatBytesIEC (sv_upload_bytes row),
      rv_download_text = FormatBytesIEC (sv_download_bytes row),
      rv_traffic_text = FormatBytesIEC (wrap64 (sv_upload_bytes row + sv_download_bytes row)),
      rv_source = sv_source row, rv_traffic_scope = sv_traffic_scope row,
      rv_user_present_in_cache = sv_user_present_in_cache row, rv_ip_observed = sv_ip_observed row,
      rv_traffic_observed = sv_traffic_observed row\<rparr>"

definition buildTelemetrySessionRows :: "SessionView list \<Rightarrow> telemetrySessionRowView list" where
  "buildTelemetrySessionRows rows = map session_row_view rows"

record telemetryNodeView =
  tn_node_db_id :: string
  tn_node_id :: string
  tn_node_name :: string
  tn_node_protocol :: string
  tn_node_enabled :: bool
  tn_collector_status :: string
  tn_collector_tone :: string
  tn_collector_label :: string
  tn_last_successful_collection_at :: "time option"
  tn_per_user_activity_capable :: bool
  tn_traffic_counters_capable :: bool
  tn_first_seen_capable :: bool
  tn_last_seen_capable :: bool
  tn_client_ip_capable :: bool
  tn_warnings :: "string list"
  tn_error :: string
  tn_issue_text :: string
  tn_rows :: "telemetrySessionRowView list"
  tn_skipped_reason :: string
  tn_has_issues :: bool

definition safe_warnings :: "(string \<Rightarrow> string option) \<Rightarrow> string list \<Rightarrow> string list" where
  "safe_warnings float warnings =
     filter (\<lambda>safe. safe \<noteq> []) (map (\<lambda>w. TrimSpace (SafeOperationalError float w)) warnings)"

definition telemetryIssueText :: "(string \<Rightarrow> string option) \<Rightarrow> Locale \<Rightarrow> NodeCollectorView \<Rightarrow> string" where
  "telemetryIssueText float locale node =
     (let safe = TrimSpace (SafeOperationalError float (cv_error node));
          items = safe_warnings float (cv_warnings node); code = NodeIssueCode node in
      if safe \<noteq> [] then safe
      else if items \<noteq> [] then Join items ''; ''
      else if cv_skipped_reason node = ''missing_api_url'' then Translate locale ''sessions.issue_missing_api_url''
      else if cv_skipped_reason node = ''missing_node_id'' then Translate locale ''sessions.issue_missing_node_id''
      else if cv_skipped_reason node = ''missing_node_secret'' then Translate locale ''sessions.issue_missing_node_secret''
      else if code = ''collector_warning'' then Translate locale ''sessions.issue_collector_warning''
      else if code = ''collector_partial'' then Translate locale ''sessions.issue_collector_partial''
      else if code = ''collector_unavailable'' then Translate locale ''sessions.issue_collector_unavailable''
      else if code = ''collector_disabled'' then Translate locale ''sessions.issue_collector_disabled''
      else [])"

definition telemetry_node_view :: "(string \<Rightarrow> string option) \<Rightarrow> Locale \<Rightarrow> NodeCollectorView \<Rightarrow> telemetryNodeView" where
  "telemetry_node_view float locale node =
     \<lparr>tn_node_db_id = cv_node_db_id node, tn_node_id = cv_node_id node, tn_node_name = cv_node_name node,
      tn_node_protocol = cv_node_protocol node, tn_node_enabled = cv_node_enabled node,
      tn_collector_status = cv_collector_status node,
      tn_collector_tone = collectorStatusTone (cv_collector_status node),
      tn_collector_label = collectorStatusLabel locale (cv_collector_status node),
      tn_last_successful_collection_at = cv_last_successful_collection_at node,
      tn_per_user_activity_capable = tc_per_user_activity (cv_capabilities node),
      tn_traffic_counters_capable = tc_traffic_counters (cv_capabilities node),
      tn_first_seen_capable = tc_first_seen (cv_capabilities node),
      tn_last_seen_capable = tc_last_seen (cv_capabilities node),
      tn_client_ip_capable = tc_client_ip (cv_capabilities node),
      tn_warnings = safe_warnings float (cv_warnings node),
      tn_error = SafeOperationalError float (cv_error node),
      tn_issue_text = telemetryIssueText float locale node,
      tn_rows = buildTelemetrySessionRows (cv_sessions node),
      tn_skipped_reason = cv_skipped_reason node, tn_has_issues = NodeHasIssue node\<rparr>"

definition buildTelemetryNodeViews ::
    "(string \<Rightarrow> string option) \<Rightarrow> Locale \<Rightarrow> NodeCollectorView list \<Rightarrow> telemetryNodeView list" where
  "buildTelemetryNodeViews float locale ns = map (telemetry_node_view float locale) ns"

definition buildTelemetryIssueNodes :: "telemetryNodeView list \<Rightarrow> telemetryNodeView list" where
  "buildTelemetryIssueNodes ns = filter tn_has_issues ns"

end
