(* ===== verification/Wire.thy ===== *)
theory Wire
  imports Json_Roundtrip Models
begin

text \<open>
  The JSON of the panel's structs: the tags of internal/nodes/models.go,
  internal/nodes/telemetry\_models.go and internal/users/models.go, read by the decoders and
  written by the encoders.  A struct without tags encodes under its Go field names.

  An instant is written in RFC 3339 in the zone of the process, which is data outside the
  repository: \<open>fmt\<close> is that text, \<open>None\<close> where \<^verbatim>\<open>time.Time.MarshalJSON\<close> refuses (a
  year beyond 9999), in which case \<^verbatim>\<open>Encode\<close> fails and writes nothing.
\<close>

section \<open>Reading\<close>

definition dec_mieru :: "MieruProtocolSettings decoder" where
  "dec_mieru = dec_struct [
     (''ports'', at mi_ports mi_ports_update (dec_list [] dec_string)),
     (''protocol'', at mi_protocol mi_protocol_update dec_string),
     (''mtu'', at mi_mtu mi_mtu_update dec_int),
     (''multiplexing'', at mi_multiplexing mi_multiplexing_update dec_string),
     (''handshake_mode'', at mi_handshake_mode mi_handshake_mode_update dec_string),
     (''traffic_pattern'', at mi_traffic_pattern mi_traffic_pattern_update dec_string),
     (''profile'', at mi_profile mi_profile_update dec_string)]"

definition dec_naive :: "NaiveProtocolSettings decoder" where
  "dec_naive = dec_struct [(''port'', at na_port na_port_update dec_int)]"

definition dec_settings :: "ProtocolSettings decoder" where
  "dec_settings = dec_struct [
     (''mieru'', at ps_mieru ps_mieru_update dec_mieru),
     (''naive'', at ps_naive ps_naive_update dec_naive)]"

definition dec_node_input :: "CreateNodeInput decoder" where
  "dec_node_input = dec_struct [
     (''mode'', at in_mode in_mode_update dec_string),
     (''node_id'', at in_node_id in_node_id_update dec_string),
     (''name'', at in_name in_name_update dec_string),
     (''domain'', at in_domain in_domain_update dec_string),
     (''api_url'', at in_api_url in_api_url_update dec_string),
     (''protocol_type'', at in_protocol_type in_protocol_type_update dec_string),
     (''node_secret'', at in_node_secret in_node_secret_update dec_string),
     (''enabled'', at in_enabled in_enabled_update dec_bool),
     (''protocol_settings'', at in_protocol_settings in_protocol_settings_update dec_settings)]"

definition dec_user_input :: "CreateUserInput decoder" where
  "dec_user_input = dec_struct [
     (''username'', at iu_username iu_username_update dec_string),
     (''display_name'', at iu_display_name iu_display_name_update (dec_ptr [] dec_string)),
     (''enabled'', at iu_enabled iu_enabled_update dec_bool),
     (''expires_at'', at iu_expires_at iu_expires_at_update (dec_ptr 0 dec_time)),
     (''quota_mb'', at iu_quota_mb iu_quota_mb_update dec_int),
     (''notes'', at iu_notes iu_notes_update (dec_ptr [] dec_string)),
     (''node_ids'', at iu_node_ids iu_node_ids_update (dec_list [] dec_string))]"

definition dec_agent_response :: "AgentResponse decoder" where
  "dec_agent_response = dec_struct [
     (''ok'', at ar_ok ar_ok_update dec_bool),
     (''node_id'', at ar_node_id ar_node_id_update dec_string),
     (''current_version'', at ar_current_version ar_current_version_update dec_int),
     (''applied_version'', at ar_applied_version ar_applied_version_update dec_int),
     (''received_version'', at ar_received_version ar_received_version_update dec_int),
     (''status'', at ar_status ar_status_update dec_string),
     (''changed'', at ar_changed ar_changed_update dec_bool),
     (''message'', at ar_message ar_message_update dec_string),
     (''error'', at ar_error ar_error_update dec_string)]"

definition dec_agent_status :: "AgentStatusResponse decoder" where
  "dec_agent_status = dec_struct [
     (''ok'', at as_ok as_ok_update dec_bool),
     (''node_id'', at as_node_id as_node_id_update dec_string),
     (''protocol_type'', at as_protocol_type as_protocol_type_update dec_string),
     (''current_version'', at as_current_version as_current_version_update dec_int),
     (''applied_version'', at as_applied_version as_applied_version_update dec_int),
     (''last_error'', at as_last_error as_last_error_update (dec_ptr [] dec_string)),
     (''users_cached'', at as_users_cached as_users_cached_update dec_int),
     (''message'', at as_message as_message_update dec_string),
     (''error'', at as_error as_error_update dec_string)]"

definition dec_capabilities :: "TelemetryCapabilities decoder" where
  "dec_capabilities = dec_struct [
     (''client_ip'', at tc_client_ip tc_client_ip_update dec_bool),
     (''per_user_activity'', at tc_per_user_activity tc_per_user_activity_update dec_bool),
     (''traffic_counters'', at tc_traffic_counters tc_traffic_counters_update dec_bool),
     (''first_seen'', at tc_first_seen tc_first_seen_update dec_bool),
     (''last_seen'', at tc_last_seen tc_last_seen_update dec_bool)]"

definition dec_session :: "TelemetrySession decoder" where
  "dec_session = dec_struct [
     (''user_id'', at ts_user_id ts_user_id_update dec_string),
     (''protocol_username'', at ts_protocol_username ts_protocol_username_update dec_string),
     (''user_present_in_cache'', at ts_user_present_in_cache ts_user_present_in_cache_update dec_bool),
     (''protocol'', at ts_protocol ts_protocol_update dec_string),
     (''client_ip'', at ts_client_ip ts_client_ip_update (dec_ptr [] dec_string)),
     (''first_seen_at'', at ts_first_seen_at ts_first_seen_at_update (dec_ptr 0 dec_time)),
     (''last_seen_at'', at ts_last_seen_at ts_last_seen_at_update (dec_ptr 0 dec_time)),
     (''upload_bytes'', at ts_upload_bytes ts_upload_bytes_update dec_int),
     (''download_bytes'', at ts_download_bytes ts_download_bytes_update dec_int),
     (''active'', at ts_active ts_active_update dec_bool),
     (''ip_observed'', at ts_ip_observed ts_ip_observed_update dec_bool),
     (''traffic_observed'', at ts_traffic_observed ts_traffic_observed_update dec_bool),
     (''source'', at ts_source ts_source_update dec_string),
     (''traffic_scope'', at ts_traffic_scope ts_traffic_scope_update dec_string)]"

definition zero_session :: TelemetrySession where
  "zero_session =
     \<lparr>ts_user_id = [], ts_protocol_username = [], ts_user_present_in_cache = False, ts_protocol = [],
      ts_client_ip = None, ts_first_seen_at = None, ts_last_seen_at = None, ts_upload_bytes = 0,
      ts_download_bytes = 0, ts_active = False, ts_ip_observed = False, ts_traffic_observed = False,
      ts_source = [], ts_traffic_scope = []\<rparr>"

definition dec_telemetry :: "TelemetryResponse decoder" where
  "dec_telemetry = dec_struct [
     (''ok'', at tr_ok tr_ok_update dec_bool),
     (''node_id'', at tr_node_id tr_node_id_update dec_string),
     (''protocol_type'', at tr_protocol_type tr_protocol_type_update dec_string),
     (''generated_at'', at tr_generated_at tr_generated_at_update (dec_ptr 0 dec_time)),
     (''collector_status'', at tr_collector_status tr_collector_status_update dec_string),
     (''session_ttl_seconds'', at tr_session_ttl_seconds tr_session_ttl_seconds_update dec_int),
     (''history_ttl_seconds'', at tr_history_ttl_seconds tr_history_ttl_seconds_update dec_int),
     (''last_successful_collection_at'',
        at tr_last_successful_collection_at tr_last_successful_collection_at_update (dec_ptr 0 dec_time)),
     (''capabilities'', at tr_capabilities tr_capabilities_update dec_capabilities),
     (''warnings'', at tr_warnings tr_warnings_update (dec_list [] dec_string)),
     (''sessions'', at tr_sessions tr_sessions_update (dec_list zero_session dec_session))]"

section \<open>Writing\<close>

text \<open>A struct one of whose fields does not encode does not encode.\<close>

definition struct_json :: "(string \<times> Json option) list \<Rightarrow> Json option" where
  "struct_json fs =
     (if list_all (\<lambda>f. snd f \<noteq> None) fs then Some (JObject (map (\<lambda>f. (fst f, the (snd f))) fs))
      else None)"

definition list_json :: "('a \<Rightarrow> Json option) \<Rightarrow> 'a list \<Rightarrow> Json option" where
  "list_json enc xs =
     (if list_all (\<lambda>x. enc x \<noteq> None) xs then Some (JArray (map (\<lambda>x. the (enc x)) xs)) else None)"

definition string_json :: "string \<Rightarrow> Json option" where "string_json s = Some (JString s)"
definition bool_json :: "bool \<Rightarrow> Json option" where "bool_json b = Some (JBool b)"
definition int_json :: "int \<Rightarrow> Json option" where "int_json n = Some (JInt n)"

definition ptr_json :: "('a \<Rightarrow> Json option) \<Rightarrow> 'a option \<Rightarrow> Json option" where
  "ptr_json enc p = (case p of None \<Rightarrow> Some JNull | Some x \<Rightarrow> enc x)"

definition time_json :: "(time \<Rightarrow> string option) \<Rightarrow> time \<Rightarrow> Json option" where
  "time_json fmt t = map_option JString (fmt t)"

text \<open>A field tagged \<^verbatim>\<open>omitempty\<close>.\<close>

definition omit_if :: "bool \<Rightarrow> string \<Rightarrow> Json option \<Rightarrow> (string \<times> Json option) list" where
  "omit_if z key v = (if z then [] else [(key, v)])"

text \<open>
  A nil slice is \<^verbatim>\<open>null\<close>.  The ports of a node the repository has read are never
  empty (\<^verbatim>\<open>normalizeProtocolSettings\<close>); an empty list stands for nil.
\<close>

definition ports_json :: "string list \<Rightarrow> Json option" where
  "ports_json ports = (if ports = [] then Some JNull else list_json string_json ports)"

definition mieru_json :: "MieruProtocolSettings \<Rightarrow> Json option" where
  "mieru_json m = struct_json [
     (''ports'', ports_json (mi_ports m)), (''protocol'', string_json (mi_protocol m)),
     (''mtu'', int_json (mi_mtu m)), (''multiplexing'', string_json (mi_multiplexing m)),
     (''handshake_mode'', string_json (mi_handshake_mode m)),
     (''traffic_pattern'', string_json (mi_traffic_pattern m)), (''profile'', string_json (mi_profile m))]"

definition settings_json :: "ProtocolSettings \<Rightarrow> Json option" where
  "settings_json s = struct_json [
     (''mieru'', mieru_json (ps_mieru s)),
     (''naive'', struct_json [(''port'', int_json (na_port (ps_naive s)))])]"

definition user_json :: "(time \<Rightarrow> string option) \<Rightarrow> User \<Rightarrow> Json option" where
  "user_json fmt u = struct_json [
     (''ID'', string_json (u_id u)), (''Username'', string_json (u_username u)),
     (''DisplayName'', ptr_json string_json (u_display_name u)), (''Enabled'', bool_json (u_enabled u)),
     (''ExpiresAt'', ptr_json (time_json fmt) (u_expires_at u)),
     (''ExpirySyncedAt'', ptr_json (time_json fmt) (u_expiry_synced_at u)),
     (''QuotaMB'', int_json (u_quota_mb u)), (''SubscriptionToken'', string_json (u_subscription_token u)),
     (''Notes'', ptr_json string_json (u_notes u)), (''CreatedAt'', time_json fmt (u_created_at u)),
     (''UpdatedAt'', time_json fmt (u_updated_at u))]"

definition agent_response_json :: "AgentResponse \<Rightarrow> Json option" where
  "agent_response_json r = struct_json ([(''ok'', bool_json (ar_ok r))]
     @ omit_if (ar_node_id r = []) ''node_id'' (string_json (ar_node_id r))
     @ omit_if (ar_current_version r = 0) ''current_version'' (int_json (ar_current_version r))
     @ omit_if (ar_applied_version r = 0) ''applied_version'' (int_json (ar_applied_version r))
     @ omit_if (ar_received_version r = 0) ''received_version'' (int_json (ar_received_version r))
     @ omit_if (ar_status r = []) ''status'' (string_json (ar_status r))
     @ omit_if (\<not> ar_changed r) ''changed'' (bool_json (ar_changed r))
     @ omit_if (ar_message r = []) ''message'' (string_json (ar_message r))
     @ omit_if (ar_error r = []) ''error'' (string_json (ar_error r)))"

definition agent_status_json :: "AgentStatusResponse \<Rightarrow> Json option" where
  "agent_status_json r = struct_json ([(''ok'', bool_json (as_ok r))]
     @ omit_if (as_node_id r = []) ''node_id'' (string_json (as_node_id r))
     @ omit_if (as_protocol_type r = []) ''protocol_type'' (string_json (as_protocol_type r))
     @ omit_if (as_current_version r = 0) ''current_version'' (int_json (as_current_version r))
     @ omit_if (as_applied_version r = 0) ''applied_version'' (int_json (as_applied_version r))
     @ omit_if (as_last_error r = None) ''last_error'' (ptr_json string_json (as_last_error r))
     @ omit_if (as_users_cached r = 0) ''users_cached'' (int_json (as_users_cached r))
     @ omit_if (as_message r = []) ''message'' (string_json (as_message r))
     @ omit_if (as_error r = []) ''error'' (string_json (as_error r)))"

lemmas encoder_defs =
  struct_json_def list_json_def string_json_def bool_json_def int_json_def ptr_json_def
  omit_if_def ports_json_def mieru_json_def settings_json_def agent_response_json_def agent_status_json_def

section \<open>Round trips\<close>

text \<open>Text and numbers the decoder gives back: valid UTF-8 and 64 bits.\<close>

definition settings_ok :: "ProtocolSettings \<Rightarrow> bool" where
  "settings_ok s \<longleftrightarrow>
     (let m = ps_mieru s in
      list_all utf8 (mi_ports m @ [mi_protocol m, mi_multiplexing m, mi_handshake_mode m, mi_traffic_pattern m, mi_profile m])
      \<and> is_int64 (mi_mtu m) \<and> is_int64 (na_port (ps_naive s)))"

lemma dec_items_strings: "length old \<le> length xs \<Longrightarrow> dec_items [] dec_string (map JString xs) old = Some xs"
  by (induction xs arbitrary: old) (auto simp: dec_string_def)

lemma dec_int64: "is_int64 n \<Longrightarrow> dec_int (JInt n) x = Some n"
  by (simp add: dec_int_def is_int64_def int64_min_def int64_max_def)

lemma fold_key_ascii: "is_ascii s \<Longrightarrow> fold_key s = map (\<lambda>c. fold_key_rune (byte c)) s"
  by (simp add: fold_key_def runes_ascii comp_def)

lemmas decode_simps = decoder_defs fold_key_ascii fold_key_rune_def dec_items_strings dec_int64

lemma dec_naive_json: "is_int64 n \<Longrightarrow> dec_naive (JObject [(''port'', JInt n)]) x = Some (x\<lparr>na_port := n\<rparr>)"
  by (simp add: dec_naive_def at_def dec_struct_def dec_int64)

lemma dec_ports: "dec_list [] dec_string (the (ports_json ps)) [] = Some ps"
  by (simp add: ports_json_def dec_list_def list_json_def string_json_def dec_items_strings list_all_def)

lemma dec_mieru_json:
  assumes "is_int64 (mi_mtu m)"
  shows "\<exists>j. mieru_json m = Some j \<and> dec_mieru j zero_MieruProtocolSettings = Some m"
proof -
  have p: "ports_json (mi_ports m) \<noteq> None"
    by (simp add: ports_json_def list_json_def string_json_def list_all_def)
  show ?thesis using assms p dec_ports [of "mi_ports m"]
    by (simp add: mieru_json_def struct_json_def string_json_def int_json_def dec_mieru_def dec_struct_def
        at_def zero_MieruProtocolSettings_def dec_string_def dec_int64 fold_key_ascii fold_key_rune_def)
qed

lemma dec_settings_json:
  assumes "settings_ok s" and "settings_json s = Some j"
  shows "dec_settings j zero_ProtocolSettings = Some s"
proof -
  from assms(1) have ints: "is_int64 (mi_mtu (ps_mieru s))" "is_int64 (na_port (ps_naive s))"
    by (simp_all add: settings_ok_def Let_def)
  obtain jm where jm: "mieru_json (ps_mieru s) = Some jm"
      "dec_mieru jm zero_MieruProtocolSettings = Some (ps_mieru s)"
    using dec_mieru_json [OF ints(1)] by blast
  have "j = JObject [(''mieru'', jm), (''naive'', JObject [(''port'', JInt (na_port (ps_naive s)))])]"
    using assms(2) jm(1) by (simp add: settings_json_def struct_json_def int_json_def)
  then show ?thesis
    using jm(2) dec_naive_json [OF ints(2), of "\<lparr>na_port = 0\<rparr>"]
    by (simp add: dec_settings_def dec_struct_def at_def zero_ProtocolSettings_def fold_key_ascii fold_key_rune_def)
qed

lemma settings_json_ok:
  assumes "settings_ok s"
  shows "\<exists>j. settings_json s = Some j \<and> json_ok 3 j"
proof -
  have keys: "utf8 ''mieru''" "utf8 ''naive''" "utf8 ''port''" "utf8 ''ports''" "utf8 ''protocol''" "utf8 ''mtu''"
      "utf8 ''multiplexing''" "utf8 ''handshake_mode''" "utf8 ''traffic_pattern''" "utf8 ''profile''"
    by (rule utf8_ascii, simp)+
  show ?thesis using assms keys
    by (auto simp: settings_json_def mieru_json_def struct_json_def ports_json_def list_json_def string_json_def
        int_json_def settings_ok_def Let_def list_all_iff)
qed

definition read_settings :: "string \<Rightarrow> ProtocolSettings option" where
  "read_settings body = Option.bind (unmarshal body) (\<lambda>j. dec_settings j zero_ProtocolSettings)"

text \<open>
  C27: the protocol settings of a node survive storage.  For texts that are UTF-8 and numbers of 64
  bits, the document that \<^verbatim>\<open>json.Marshal\<close> writes into the column reads back as the same
  settings: escapes, an absent list of ports and the two nested objects included.
\<close>

theorem settings_survive_storage:
  assumes "settings_ok s"
  shows "\<exists>j. settings_json s = Some j \<and> read_settings (marshal j) = Some s"
proof -
  obtain j where j: "settings_json s = Some j" "json_ok 3 j" using settings_json_ok [OF assms] by blast
  have "unmarshal (marshal j) = Some j"
    by (rule unmarshal_marshal [OF j(2)]) (simp add: max_nesting_def)
  then show ?thesis using j dec_settings_json [OF assms j(1)] by (simp add: read_settings_def)
qed

lemma settings_survive_storage_witness:
  "\<exists>j. settings_json (zero_ProtocolSettings\<lparr>ps_naive := \<lparr>na_port = 443\<rparr>\<rparr>) = Some j
     \<and> read_settings (marshal j) = Some (zero_ProtocolSettings\<lparr>ps_naive := \<lparr>na_port = 443\<rparr>\<rparr>)"
  by (rule settings_survive_storage)
    (simp add: settings_ok_def zero_ProtocolSettings_def zero_MieruProtocolSettings_def is_int64_def
      int64_min_def int64_max_def utf8_ascii)

section \<open>The node agent's answers\<close>

text \<open>
  \<^verbatim>\<open>json.Unmarshal(result.Body, &v)\<close> into a zero value; \<open>bad\<close> is the error for the
  bodies that do not decode.
\<close>

definition read_into :: "'a decoder \<Rightarrow> 'a \<Rightarrow> (string \<Rightarrow> goerr) \<Rightarrow> string \<Rightarrow> goerr + 'a" where
  "read_into dec_v zero bad body =
     (case Option.bind (unmarshal body) (\<lambda>j. dec_v j zero) of None \<Rightarrow> Inl (bad body) | Some v \<Rightarrow> Inr v)"

end
