(* ===== verification/Handlers_Base.thy ===== *)
theory Handlers_Base
  imports View_Helpers Wire Subscription_Panel Telemetry_Panel Expiry_Panel
begin

text \<open>
  What the handlers of internal/http/handlers/handlers.go share: what the \<^verbatim>\<open>Handler\<close> holds,
  the data of the pages, the texts of the notices, the inputs read from forms and from JSON
  bodies, the ways to answer, and the synchronisation of nodes after a change.

  A handler is an operation on the world whose value is the response; it never fails, as every
  error of a call is answered or ignored.
\<close>

section \<open>The handler and its pages\<close>

text \<open>
  \<open>pn_format\<close>, \<open>pn_parse_local\<close> and \<open>pn_json_time\<close> are what the zone data outside the
  repository decides: formatting and parsing in the zone of the panel, and the JSON text of an
  instant; \<open>pn_float\<close> is the text of a float, \<open>pn_body_error\<close> the text of the JSON decoder's
  error for a body, \<open>pn_schedule\<close> the schedule of the goroutines that ask the nodes.
\<close>

record panel =
  pn_cfg :: Config
  pn_env :: env
  pn_format :: formatter
  pn_parse_local :: "string \<Rightarrow> time option"
  pn_json_time :: "time \<Rightarrow> string option"
  pn_float :: "string \<Rightarrow> string option"
  pn_body_error :: "string \<Rightarrow> string"
  pn_schedule :: schedule

record dashboard_view =
  dv_base :: viewData
  dv_node_stats :: DashboardStats
  dv_user_stats :: UserDashboardStats
  dv_node_items :: "nodeListItem list"
  dv_upcoming_users :: "userListItem list"
  dv_recent_events :: "syncEventView list"

record sessions_view =
  xv_base :: viewData
  xv_rows :: "telemetrySessionRowView list"
  xv_nodes :: "telemetryNodeView list"
  xv_issue_nodes :: "telemetryNodeView list"
  xv_include_recent :: bool
  xv_query :: string
  xv_protocol :: string
  xv_status :: string
  xv_summary :: Summary

record nodes_view =
  ns_base :: viewData
  ns_node_items :: "nodeListItem list"
  ns_node_stats :: DashboardStats
  ns_backend_ip :: string
  ns_default_port :: int

record node_created_view =
  nc_base :: viewData
  nc_node :: Node
  nc_backend_ip :: string
  nc_default_port :: int

record node_detail_view =
  md_base :: viewData
  md_node :: Node
  md_status_tone :: string
  md_status_label :: string
  md_protocol_tone :: string
  md_masked_secret :: string
  md_safe_last_error :: string
  md_assignments :: "nodeAssignmentView list"
  md_events :: "syncEventView list"
  md_telemetry :: telemetryNodeView
  md_include_recent :: bool

record users_view =
  uv_base :: viewData
  uv_items :: "userListItem list"
  uv_nodes :: "Node list"
  uv_filter :: string
  uv_search :: string
  uv_sort :: string
  uv_stats :: UserDashboardStats

record user_detail_view =
  dd_base :: viewData
  dd_user :: User
  dd_access :: "assignmentView list"
  dd_nodes :: "Node list"
  dd_expiry_text :: string
  dd_status_tone :: string
  dd_status_label :: string
  dd_masked_token :: string
  dd_assigned_node_count :: nat
  dd_groups :: "subscriptionLinkGroup list"
  dd_rows :: "telemetrySessionRowView list"
  dd_telemetry_nodes :: "telemetryNodeView list"
  dd_issue_nodes :: "telemetryNodeView list"
  dd_include_recent :: bool

datatype page =
    LoginView viewData
  | DashboardView dashboard_view
  | SessionsView sessions_view
  | NodesView nodes_view
  | NodeCreatedView node_created_view
  | NodeDetailView node_detail_view
  | NodeEditView viewData Node
  | UsersView users_view
  | UserDetailView user_detail_view

type_synonym answer = "page response"

section \<open>Notices\<close>

definition localeText :: "Locale \<Rightarrow> string \<Rightarrow> string \<Rightarrow> string" where
  "localeText locale ru en = (if NormalizeLocale locale = LocaleEN then en else ru)"

definition flash_texts :: "(string \<times> string \<times> string) list" where
  "flash_texts = [
    (''validation_failed'', string_of_runes [1054, 1096, 1080, 1073, 1082, 1072, 32, 1087, 1088,
       1086, 1074, 1077, 1088, 1082, 1080], ''Validation failed''),
    (''node_adopted_connected'', string_of_runes [1057, 1091, 1097, 1077, 1089, 1090, 1074, 1091,
       1102, 1097, 1072, 1103, 32, 1085, 1086, 1076, 1072, 32, 1087, 1086, 1076, 1082, 1083,
       1102, 1095, 1077, 1085, 1072, 32, 1080, 32, 1089, 1080, 1085, 1093, 1088, 1086, 1085,
       1080, 1079, 1080, 1088, 1086, 1074, 1072, 1085, 1072],
       ''Existing node adopted and connected''),
    (''node_updated'', string_of_runes [1053, 1086, 1076, 1072, 32, 1086, 1073, 1085, 1086, 1074,
       1083, 1077, 1085, 1072], ''Node updated''),
    (''node_deleted'', string_of_runes [1053, 1086, 1076, 1072, 32, 1091, 1076, 1072, 1083, 1077,
       1085, 1072], ''Node deleted''),
    (''node_not_reachable_yet'', string_of_runes [1053, 1086, 1076, 1072, 32, 1087, 1086, 1082,
       1072, 32, 1085, 1077, 1076, 1086, 1089, 1090, 1091, 1087, 1085, 1072],
       ''Node is not reachable yet''),
    (''health_failed'', string_of_runes [1055, 1088, 1086, 1074, 1077, 1088, 1082, 1072, 32,
       1085, 1077, 32, 1091, 1076, 1072, 1083, 1072, 1089, 1100], ''Health failed''),
    (''health_ok'', string_of_runes [1055, 1088, 1086, 1074, 1077, 1088, 1082, 1072, 32, 1087,
       1088, 1086, 1096, 1083, 1072, 32, 1091, 1089, 1087, 1077, 1096, 1085, 1086],
       ''Health OK''),
    (''status_failed'', string_of_runes [1055, 1086, 1083, 1091, 1095, 1077, 1085, 1080, 1077,
       32, 1089, 1090, 1072, 1090, 1091, 1089, 1072, 32, 1085, 1077, 32, 1091, 1076, 1072, 1083,
       1086, 1089, 1100], ''Status failed''),
    (''sync_failed'', string_of_runes [1057, 1080, 1085, 1093, 1088, 1086, 1085, 1080, 1079,
       1072, 1094, 1080, 1103, 32, 1085, 1077, 32, 1091, 1076, 1072, 1083, 1072, 1089, 1100],
       ''Sync failed''),
    (''sync_all_failed'', string_of_runes [1057, 1080, 1085, 1093, 1088, 1086, 1085, 1080, 1079,
       1072, 1094, 1080, 1103, 32, 1074, 1089, 1077, 1093, 32, 1085, 1086, 1076, 32, 1085, 1077,
       32, 1091, 1076, 1072, 1083, 1072, 1089, 1100], ''Sync all failed''),
    (''sync_all_ok'', string_of_runes [1042, 1089, 1077, 32, 1085, 1086, 1076, 1099, 32, 1089,
       1080, 1085, 1093, 1088, 1086, 1085, 1080, 1079, 1080, 1088, 1086, 1074, 1072, 1085, 1099],
       ''Sync all OK''),
    (''invalid_expiration'', string_of_runes [1053, 1077, 1082, 1086, 1088, 1088, 1077, 1082,
       1090, 1085, 1072, 1103, 32, 1076, 1072, 1090, 1072, 32, 1080, 32, 1074, 1088, 1077, 1084,
       1103, 32, 1086, 1082, 1086, 1085, 1095, 1072, 1085, 1080, 1103],
       ''Invalid expiration date and time''),
    (''user_saved_sync_failed'', string_of_runes [1055, 1086, 1083, 1100, 1079, 1086, 1074, 1072,
       1090, 1077, 1083, 1100, 32, 1089, 1086, 1093, 1088, 1072, 1085, 1105, 1085, 44, 32, 1085,
       1086, 32, 1089, 1080, 1085, 1093, 1088, 1086, 1085, 1080, 1079, 1072, 1094, 1080, 1103,
       32, 1085, 1086, 1076, 32, 1079, 1072, 1074, 1077, 1088, 1096, 1080, 1083, 1072, 1089,
       1100, 32, 1086, 1096, 1080, 1073, 1082, 1086, 1081], ''User saved, but node sync failed''),
    (''user_saved_synced'', string_of_runes [1055, 1086, 1083, 1100, 1079, 1086, 1074, 1072,
       1090, 1077, 1083, 1100, 32, 1089, 1086, 1093, 1088, 1072, 1085, 1105, 1085, 32, 1080, 32,
       1089, 1080, 1085, 1093, 1088, 1086, 1085, 1080, 1079, 1080, 1088, 1086, 1074, 1072, 1085],
       ''User saved and synced''),
    (''user_deleted_sync_failed'', string_of_runes [1055, 1086, 1083, 1100, 1079, 1086, 1074,
       1072, 1090, 1077, 1083, 1100, 32, 1091, 1076, 1072, 1083, 1105, 1085, 44, 32, 1085, 1086,
       32, 1089, 1080, 1085, 1093, 1088, 1086, 1085, 1080, 1079, 1072, 1094, 1080, 1103, 32,
       1085, 1086, 1076, 32, 1079, 1072, 1074, 1077, 1088, 1096, 1080, 1083, 1072, 1089, 1100,
       32, 1086, 1096, 1080, 1073, 1082, 1086, 1081], ''User deleted, but node sync failed''),
    (''user_deleted_synced'', string_of_runes [1055, 1086, 1083, 1100, 1079, 1086, 1074, 1072,
       1090, 1077, 1083, 1100, 32, 1091, 1076, 1072, 1083, 1105, 1085, 32, 1080, 32, 1089, 1080,
       1085, 1093, 1088, 1086, 1085, 1080, 1079, 1080, 1088, 1086, 1074, 1072, 1085],
       ''User deleted and synced''),
    (''user_enabled_sync_failed'', string_of_runes [1055, 1086, 1083, 1100, 1079, 1086, 1074,
       1072, 1090, 1077, 1083, 1100, 32, 1074, 1082, 1083, 1102, 1095, 1105, 1085, 44, 32, 1085,
       1086, 32, 1089, 1080, 1085, 1093, 1088, 1086, 1085, 1080, 1079, 1072, 1094, 1080, 1103,
       32, 1085, 1086, 1076, 32, 1079, 1072, 1074, 1077, 1088, 1096, 1080, 1083, 1072, 1089,
       1100, 32, 1086, 1096, 1080, 1073, 1082, 1086, 1081],
       ''User enabled, but node sync failed''),
    (''user_enabled_synced'', string_of_runes [1055, 1086, 1083, 1100, 1079, 1086, 1074, 1072,
       1090, 1077, 1083, 1100, 32, 1074, 1082, 1083, 1102, 1095, 1105, 1085, 32, 1080, 32, 1089,
       1080, 1085, 1093, 1088, 1086, 1085, 1080, 1079, 1080, 1088, 1086, 1074, 1072, 1085],
       ''User enabled and synced''),
    (''user_disabled_sync_failed'', string_of_runes [1055, 1086, 1083, 1100, 1079, 1086, 1074,
       1072, 1090, 1077, 1083, 1100, 32, 1086, 1090, 1082, 1083, 1102, 1095, 1105, 1085, 44, 32,
       1085, 1086, 32, 1089, 1080, 1085, 1093, 1088, 1086, 1085, 1080, 1079, 1072, 1094, 1080,
       1103, 32, 1085, 1086, 1076, 32, 1079, 1072, 1074, 1077, 1088, 1096, 1080, 1083, 1072,
       1089, 1100, 32, 1086, 1096, 1080, 1073, 1082, 1086, 1081],
       ''User disabled, but node sync failed''),
    (''user_disabled_synced'', string_of_runes [1055, 1086, 1083, 1100, 1079, 1086, 1074, 1072,
       1090, 1077, 1083, 1100, 32, 1086, 1090, 1082, 1083, 1102, 1095, 1105, 1085, 32, 1080, 32,
       1089, 1080, 1085, 1093, 1088, 1086, 1085, 1080, 1079, 1080, 1088, 1086, 1074, 1072, 1085],
       ''User disabled and synced''),
    (''assignment_saved_sync_failed'', string_of_runes [1053, 1072, 1079, 1085, 1072, 1095, 1077,
       1085, 1080, 1077, 32, 1089, 1086, 1093, 1088, 1072, 1085, 1077, 1085, 1086, 44, 32, 1085,
       1086, 32, 1089, 1080, 1085, 1093, 1088, 1086, 1085, 1080, 1079, 1072, 1094, 1080, 1103,
       32, 1085, 1086, 1076, 32, 1079, 1072, 1074, 1077, 1088, 1096, 1080, 1083, 1072, 1089,
       1100, 32, 1086, 1096, 1080, 1073, 1082, 1086, 1081],
       ''Assignment saved, but node sync failed''),
    (''assignment_saved_synced'', string_of_runes [1053, 1072, 1079, 1085, 1072, 1095, 1077,
       1085, 1080, 1077, 32, 1089, 1086, 1093, 1088, 1072, 1085, 1077, 1085, 1086, 32, 1080, 32,
       1089, 1080, 1085, 1093, 1088, 1086, 1085, 1080, 1079, 1080, 1088, 1086, 1074, 1072, 1085,
       1086], ''Assignment saved and synced''),
    (''unassigned_sync_failed'', string_of_runes [1053, 1072, 1079, 1085, 1072, 1095, 1077, 1085,
       1080, 1077, 32, 1091, 1076, 1072, 1083, 1077, 1085, 1086, 44, 32, 1085, 1086, 32, 1089,
       1080, 1085, 1093, 1088, 1086, 1085, 1080, 1079, 1072, 1094, 1080, 1103, 32, 1085, 1086,
       1076, 32, 1079, 1072, 1074, 1077, 1088, 1096, 1080, 1083, 1072, 1089, 1100, 32, 1086,
       1096, 1080, 1073, 1082, 1086, 1081], ''Unassigned, but node sync failed''),
    (''node_unassigned_synced'', string_of_runes [1053, 1086, 1076, 1072, 32, 1086, 1090, 1074,
       1103, 1079, 1072, 1085, 1072, 32, 1080, 32, 1089, 1080, 1085, 1093, 1088, 1086, 1085,
       1080, 1079, 1080, 1088, 1086, 1074, 1072, 1085, 1072], ''Node unassigned and synced''),
    (''node_access_enabled_sync_failed'', string_of_runes [1044, 1086, 1089, 1090, 1091, 1087,
       32, 1082, 32, 1085, 1086, 1076, 1077, 32, 1074, 1082, 1083, 1102, 1095, 1105, 1085, 44,
       32, 1085, 1086, 32, 1089, 1080, 1085, 1093, 1088, 1086, 1085, 1080, 1079, 1072, 1094,
       1080, 1103, 32, 1079, 1072, 1074, 1077, 1088, 1096, 1080, 1083, 1072, 1089, 1100, 32,
       1086, 1096, 1080, 1073, 1082, 1086, 1081], ''Node access enabled, but node sync failed''),
    (''node_access_enabled_synced'', string_of_runes [1044, 1086, 1089, 1090, 1091, 1087, 32,
       1082, 32, 1085, 1086, 1076, 1077, 32, 1074, 1082, 1083, 1102, 1095, 1105, 1085, 32, 1080,
       32, 1089, 1080, 1085, 1093, 1088, 1086, 1085, 1080, 1079, 1080, 1088, 1086, 1074, 1072,
       1085], ''Node access enabled and synced''),
    (''node_access_disabled_sync_failed'', string_of_runes [1044, 1086, 1089, 1090, 1091, 1087,
       32, 1082, 32, 1085, 1086, 1076, 1077, 32, 1086, 1090, 1082, 1083, 1102, 1095, 1105, 1085,
       44, 32, 1085, 1086, 32, 1089, 1080, 1085, 1093, 1088, 1086, 1085, 1080, 1079, 1072, 1094,
       1080, 1103, 32, 1079, 1072, 1074, 1077, 1088, 1096, 1080, 1083, 1072, 1089, 1100, 32,
       1086, 1096, 1080, 1073, 1082, 1086, 1081], ''Node access disabled, but node sync failed''),
    (''node_access_disabled_synced'', string_of_runes [1044, 1086, 1089, 1090, 1091, 1087, 32,
       1082, 32, 1085, 1086, 1076, 1077, 32, 1086, 1090, 1082, 1083, 1102, 1095, 1105, 1085, 32,
       1080, 32, 1089, 1080, 1085, 1093, 1088, 1086, 1085, 1080, 1079, 1080, 1088, 1086, 1074,
       1072, 1085], ''Node access disabled and synced''),
    (''sync_failed_for_nodes'', string_of_runes [1057, 1080, 1085, 1093, 1088, 1086, 1085, 1080,
       1079, 1072, 1094, 1080, 1103, 32, 1085, 1086, 1076, 32, 1079, 1072, 1074, 1077, 1088,
       1096, 1080, 1083, 1072, 1089, 1100, 32, 1086, 1096, 1080, 1073, 1082, 1086, 1081],
       ''Sync failed for nodes''),
    (''affected_nodes_synced'', string_of_runes [1047, 1072, 1090, 1088, 1086, 1085, 1091, 1090,
       1099, 1077, 32, 1085, 1086, 1076, 1099, 32, 1089, 1080, 1085, 1093, 1088, 1086, 1085,
       1080, 1079, 1080, 1088, 1086, 1074, 1072, 1085, 1099], ''Affected nodes synced''),
    (''expired_reconcile_failed'', string_of_runes [1057, 1074, 1077, 1088, 1082, 1072, 32, 1080,
       1089, 1090, 1105, 1082, 1096, 1080, 1093, 32, 1087, 1086, 1076, 1087, 1080, 1089, 1086,
       1082, 32, 1079, 1072, 1074, 1077, 1088, 1096, 1080, 1083, 1072, 1089, 1100, 32, 1089, 32,
       1086, 1096, 1080, 1073, 1082, 1072, 1084, 1080],
       ''Expired users reconcile finished with errors''),
    (''expired_reconcile_ok'', string_of_runes [1057, 1074, 1077, 1088, 1082, 1072, 32, 1080,
       1089, 1090, 1105, 1082, 1096, 1080, 1093, 32, 1087, 1086, 1076, 1087, 1080, 1089, 1086,
       1082, 32, 1079, 1072, 1074, 1077, 1088, 1096, 1077, 1085, 1072],
       ''Expired users reconcile OK''),
    (''subscription_unlimited'', string_of_runes [1055, 1086, 1076, 1087, 1080, 1089, 1082, 1072,
       58, 32, 1073, 1077, 1079, 32, 1086, 1075, 1088, 1072, 1085, 1080, 1095, 1077, 1085, 1080,
       1081], ''Subscription: unlimited''),
    (''subscription_expired_at'', string_of_runes [1055, 1086, 1076, 1087, 1080, 1089, 1082,
       1072, 32, 1080, 1089, 1090, 1077, 1082, 1083, 1072, 58], ''Subscription: expired at''),
    (''subscription_expires_at'', string_of_runes [1057, 1088, 1086, 1082, 32, 1076, 1077, 1081,
       1089, 1090, 1074, 1080, 1103, 32, 1076, 1086, 58], ''Expires at:'')]"

definition flashText :: "Locale \<Rightarrow> string \<Rightarrow> string" where
  "flashText locale key =
     (case map_of flash_texts key of Some (ru, en) \<Rightarrow> localeText locale ru en | None \<Rightarrow> key)"

definition flashWithList :: "Locale \<Rightarrow> string \<Rightarrow> string list \<Rightarrow> string" where
  "flashWithList locale key items =
     (if items = [] then flashText locale key else flashText locale key @ '': '' @ Join items ''; '')"

definition subscription_texts :: "(string \<times> string \<times> string) list" where
  "subscription_texts = [
    (''group_karing'', ''Karing'', ''Karing''),
    (''group_hiddify'', ''Hiddify'', ''Hiddify''),
    (''group_debug'', string_of_runes [1054, 1090, 1083, 1072, 1076, 1082, 1072], ''Debug''),
    (''karing_subscription'', string_of_runes [1055, 1086, 1076, 1087, 1080, 1089, 1082, 1072,
       32, 75, 97, 114, 105, 110, 103], ''Karing Subscription''),
    (''karing_json'', ''Karing JSON'', ''Karing JSON''),
    (''hiddify_subscription'', string_of_runes [1055, 1086, 1076, 1087, 1080, 1089, 1082, 1072,
       32, 72, 105, 100, 100, 105, 102, 121], ''Hiddify Subscription''),
    (''hiddify_json'', string_of_runes [72, 105, 100, 100, 105, 102, 121, 32, 74, 83, 79, 78, 32,
       40, 1101, 1082, 1089, 1087, 1077, 1088, 1080, 1084, 1077, 1085, 1090, 1072, 1083, 1100,
       1085, 1086, 41], ''Hiddify JSON Experimental''),
    (''hiddify_mieru_only'', string_of_runes [1058, 1086, 1083, 1100, 1082, 1086, 32, 72, 105,
       100, 100, 105, 102, 121, 32, 77, 105, 101, 114, 117], ''Hiddify Mieru Only''),
    (''hiddify_naive_only'', string_of_runes [1058, 1086, 1083, 1100, 1082, 1086, 32, 72, 105,
       100, 100, 105, 102, 121, 32, 78, 97, 105, 118, 101], ''Hiddify Naive Only''),
    (''raw_links'', string_of_runes [1057, 1099, 1088, 1099, 1077, 32, 1089, 1089, 1099, 1083,
       1082, 1080], ''Raw Links'')]"

definition subscriptionText :: "Locale \<Rightarrow> string \<Rightarrow> string" where
  "subscriptionText locale key =
     (case map_of subscription_texts key of Some (ru, en) \<Rightarrow> localeText locale ru en | None \<Rightarrow> key)"

definition formatNodeStatusFlash :: "Locale \<Rightarrow> AgentStatusResponse \<Rightarrow> string" where
  "formatNodeStatusFlash locale status =
     Translate locale ''flash.status_ok'' @ '': '' @ Translate locale ''status.current_version'' @ ''=''
       @ Itoa (as_current_version status)
       @ '', '' @ Translate locale ''status.applied_version'' @ ''='' @ Itoa (as_applied_version status)
       @ '', '' @ Translate locale ''status.users_cached'' @ ''='' @ Itoa (as_users_cached status)"

definition formatSyncFlash :: "Locale \<Rightarrow> AgentResponse \<Rightarrow> string" where
  "formatSyncFlash locale resp =
     Translate locale ''flash.sync_ok'' @ '': '' @ Translate locale ''status.applied_version'' @ ''=''
       @ Itoa (ar_applied_version resp)"

section \<open>Errors shown to the operator\<close>

definition space_rune :: "nat \<Rightarrow> bool" where
  "space_rune r \<longleftrightarrow>
     (9 \<le> r \<and> r \<le> 13) \<or> r \<in> {32, 133, 160, 5760, 8232, 8233, 8239, 8287, 12288} \<or> (8192 \<le> r \<and> r \<le> 8202)"

text \<open>\<^verbatim>\<open>strings.Fields\<close> on runes.\<close>

function rune_fields :: "nat list \<Rightarrow> nat list list" where
  "rune_fields rs =
     (case dropWhile space_rune rs of
        [] \<Rightarrow> []
      | r # us \<Rightarrow>
          (r # takeWhile (\<lambda>x. \<not> space_rune x) us) # rune_fields (dropWhile (\<lambda>x. \<not> space_rune x) us))"
  by pat_completeness auto
termination
proof (relation "measure length")
  fix rs :: "nat list" and r us
  assume "dropWhile space_rune rs = r # us"
  then have "length (r # us) \<le> length rs" by (metis length_dropWhile_le)
  moreover have "length (dropWhile (\<lambda>x. \<not> space_rune x) us) \<le> length us" by (rule length_dropWhile_le)
  ultimately show "(dropWhile (\<lambda>x. \<not> space_rune x) us, rs) \<in> measure length" by simp
qed simp

definition printable_runes :: "nat list \<Rightarrow> nat list" where
  "printable_runes rs =
     filter (\<lambda>r. \<not> (r < 32 \<or> r = 127)) (map (\<lambda>r. if r \<in> {13, 10, 9} then 32 else r) rs)"

definition safeUIErrorText :: "(string \<Rightarrow> string option) \<Rightarrow> Locale \<Rightarrow> string \<Rightarrow> string" where
  "safeUIErrorText float locale v =
     (let sanitized = SafeOperationalError float v;
          joined = Join (map string_of_runes (rune_fields (printable_runes (runes sanitized)))) '' '';
          short = TruncateText joined 300 in
      if sanitized = [] then Translate locale ''flash.operation_failed''
      else if TrimSpace short = [] \<or> short = ''***'' \<or> short = ''[redacted operational error]''
      then Translate locale ''flash.operation_failed''
      else short)"

definition SafeUIError :: "(string \<Rightarrow> string option) \<Rightarrow> Locale \<Rightarrow> goerr \<Rightarrow> string" where
  "SafeUIError float locale err = safeUIErrorText float locale (error_text err)"

definition sanitizeNodeSyncErrors :: "(string \<Rightarrow> string option) \<Rightarrow> Locale \<Rightarrow> string list \<Rightarrow> string list" where
  "sanitizeNodeSyncErrors float locale errs =
     map (\<lambda>errText. case Cut errText '': '' of (nodeID, detail, found) \<Rightarrow>
       if \<not> found then safeUIErrorText float locale errText
       else nodeID @ '': '' @ safeUIErrorText float locale detail) errs"

definition rawErrorText :: "goerr option \<Rightarrow> string" where
  "rawErrorText err = (case err of None \<Rightarrow> [] | Some err \<Rightarrow> error_text err)"

definition formatRawNodeSyncError :: "string \<Rightarrow> goerr \<Rightarrow> string" where
  "formatRawNodeSyncError nodeID err = nodeID @ '': '' @ rawErrorText (Some err)"

definition formatExpiryReconcileResult ::
    "(string \<Rightarrow> string option) \<Rightarrow> Locale \<Rightarrow> ExpiryReconcileResult \<Rightarrow> string" where
  "formatExpiryReconcileResult float locale result =
     Join ([Translate locale ''reconcile.users_found'' @ '': '' @ Itoa (int (rr_users_found result)),
            Translate locale ''reconcile.nodes_affected'' @ '': '' @ Itoa (int (rr_nodes_affected result)),
            Translate locale ''reconcile.successful_syncs'' @ '': '' @ Itoa (int (rr_sync_success_count result)),
            Translate locale ''reconcile.users_processed'' @ '': '' @ Itoa (int (rr_users_synced result))]
           @ (if rr_errors result = [] then []
              else [Translate locale ''reconcile.errors'' @ '': ''
                    @ Join (sanitizeNodeSyncErrors float locale (rr_errors result)) ''; ''])) '', ''"

section \<open>Answers\<close>

definition internal_error :: "Request \<Rightarrow> answer" where
  "internal_error r = TextError 500 (Translate (ResolveLocale r) ''flash.internal_server_error'')"

text \<open>\<^verbatim>\<open>if h.handleErr(w, r, err) { return }\<close> after a call.\<close>

definition handleErr :: "Request \<Rightarrow> 'a act \<Rightarrow> ('a \<Rightarrow> answer act) \<Rightarrow> answer act" where
  "handleErr r m k =
     bindE (attemptE m) (\<lambda>ans. case ans of Inl err \<Rightarrow> retE (internal_error r) | Inr x \<Rightarrow> k x)"

text \<open>\<^verbatim>\<open>x, _ := m()\<close>: the zero value beside an error.\<close>

definition or_zero :: "'a \<Rightarrow> 'a act \<Rightarrow> 'a act" where
  "or_zero zero m = bindE (attemptE m) (\<lambda>ans. retE (case ans of Inl err \<Rightarrow> zero | Inr x \<Rightarrow> x))"

definition redirectWithFlash :: "string \<Rightarrow> string \<Rightarrow> string \<Rightarrow> answer" where
  "redirectWithFlash path msg level =
     Redirect (path @ ''?'' @ Encode [(''flash'', msg), (''level'', level)]) []"

definition redirectWithErrorFlash :: "panel \<Rightarrow> Request \<Rightarrow> string \<Rightarrow> string \<Rightarrow> goerr \<Rightarrow> answer" where
  "redirectWithErrorFlash h r path prefix err =
     (let safeErr = SafeUIError (pn_float h) (ResolveLocale r) err in
      redirectWithFlash path (if prefix \<noteq> [] then prefix @ safeErr else safeErr) ''error'')"

definition writeJSON :: "int \<Rightarrow> Json option \<Rightarrow> answer" where
  "writeJSON status v = JsonResponse status v"

definition error_json :: "goerr \<Rightarrow> Json option" where
  "error_json err = Some (JObject [(''error'', JString (error_text err))])"

text \<open>The status is not used when there is an error.\<close>

definition writeJSONOrError :: "int \<Rightarrow> Json option \<Rightarrow> goerr option \<Rightarrow> answer" where
  "writeJSONOrError status v err =
     (case err of Some x \<Rightarrow> JsonResponse 400 (error_json x) | None \<Rightarrow> JsonResponse status v)"

definition httpErrorRaw :: "goerr \<Rightarrow> int \<Rightarrow> answer" where
  "httpErrorRaw err status = TextError status (error_text err)"

section \<open>Inputs\<close>

definition boolFromForm :: "Request \<Rightarrow> string \<Rightarrow> bool \<Rightarrow> bool" where
  "boolFromForm r key fallback =
     (let vs = all_values (r_post r) key in
      if vs = [] then fallback
      else list_ex (\<lambda>v. ToLower (TrimSpace v) \<in> {''true'', ''on'', ''1''}) vs)"

definition intFromForm :: "string \<Rightarrow> int" where
  "intFromForm v = (if v = [] then 0 else case Atoi v of None \<Rightarrow> 0 | Some n \<Rightarrow> n)"

definition splitCSV :: "string \<Rightarrow> string list" where
  "splitCSV v = (if v = [] then [] else filter (\<lambda>p. p \<noteq> []) (map TrimSpace (SplitByte v (CHR '',''))))"

definition stringPtr :: "string \<Rightarrow> string option" where
  "stringPtr v = (if v = [] then None else Some v)"

text \<open>The outer option is the error.\<close>

definition parseOptionalDateTime :: "panel \<Rightarrow> string \<Rightarrow> time option option" where
  "parseOptionalDateTime h v = (if v = [] then Some None else map_option Some (pn_parse_local h v))"

definition nodeInputFromForm :: "Request \<Rightarrow> CreateNodeInput" where
  "nodeInputFromForm r =
     \<lparr>in_mode = FormValue r ''mode'', in_node_id = FormValue r ''node_id'', in_name = FormValue r ''name'',
      in_domain = FormValue r ''domain'', in_api_url = FormValue r ''api_url'',
      in_protocol_type = FormValue r ''protocol_type'', in_node_secret = FormValue r ''node_secret'',
      in_enabled = boolFromForm r ''enabled'' True,
      in_protocol_settings =
        \<lparr>ps_mieru =
           \<lparr>mi_ports = splitCSV (FormValue r ''mieru_ports''), mi_protocol = FormValue r ''mieru_protocol'',
            mi_mtu = intFromForm (FormValue r ''mieru_mtu''),
            mi_multiplexing = FormValue r ''mieru_multiplexing'',
            mi_handshake_mode = FormValue r ''mieru_handshake_mode'',
            mi_traffic_pattern = FormValue r ''mieru_traffic_pattern'',
            mi_profile = FormValue r ''mieru_profile''\<rparr>,
         ps_naive = \<lparr>na_port = intFromForm (FormValue r ''naive_port'')\<rparr>\<rparr>\<rparr>"

definition userInputFromForm :: "panel \<Rightarrow> Request \<Rightarrow> CreateUserInput option" where
  "userInputFromForm h r =
     (case parseOptionalDateTime h (FormValue r ''expires_at'') of
        None \<Rightarrow> None
      | Some expiresAt \<Rightarrow>
          Some \<lparr>iu_username = FormValue r ''username'', iu_display_name = stringPtr (FormValue r ''display_name''),
                iu_enabled = boolFromForm r ''enabled'' True, iu_expires_at = expiresAt,
                iu_quota_mb = intFromForm (FormValue r ''quota_mb''), iu_notes = stringPtr (FormValue r ''notes''),
                iu_node_ids = FormValues r ''node_ids''\<rparr>)"

definition zero_node_input :: CreateNodeInput where
  "zero_node_input =
     \<lparr>in_mode = [], in_node_id = [], in_name = [], in_domain = [], in_api_url = [], in_protocol_type = [],
      in_node_secret = [], in_enabled = False, in_protocol_settings = zero_ProtocolSettings\<rparr>"

definition zero_user_input :: CreateUserInput where
  "zero_user_input =
     \<lparr>iu_username = [], iu_display_name = None, iu_enabled = False, iu_expires_at = None, iu_quota_mb = 0,
      iu_notes = None, iu_node_ids = []\<rparr>"

text \<open>\<^verbatim>\<open>if decodeJSON(w, r, &in) { return }\<close>: one value of the body, into a zero value.\<close>

definition decodeJSON :: "panel \<Rightarrow> Request \<Rightarrow> 'a decoder \<Rightarrow> 'a \<Rightarrow> ('a \<Rightarrow> answer act) \<Rightarrow> answer act" where
  "decodeJSON h r dec_in zero k =
     (case Option.bind (decode_first (r_body r)) (\<lambda>j. dec_in j zero) of
        None \<Rightarrow> retE (TextError 400 (pn_body_error h (r_body r)))
      | Some v \<Rightarrow> k v)"

section \<open>Synchronisation after a change\<close>

definition sync_error :: "string \<Rightarrow> goerr + AgentResponse \<Rightarrow> string list" where
  "sync_error nodeID ans = (case ans of Inl err \<Rightarrow> [formatRawNodeSyncError nodeID err] | Inr resp \<Rightarrow> [])"

definition syncUserAssignments :: "env \<Rightarrow> string \<Rightarrow> string list act" where
  "syncUserAssignments e userID =
     bindE (UserRepo_AccessForUser e userID) (\<lambda>access.
       forE (\<lambda>a errs.
         bindE (attemptE (SyncNode e (a_node_id a))) (\<lambda>ans. retE (errs @ sync_error (a_node_id a) ans)))
         access [])"

text \<open>One round of the loop: the nodes seen and the errors so far.\<close>

definition sync_after_change :: "env \<Rightarrow> string \<Rightarrow> string list \<times> string list \<Rightarrow> (string list \<times> string list) act" where
  "sync_after_change e nodeID = (\<lambda>(seen, errs).
     if nodeID = [] \<or> nodeID \<in> set seen then retE (seen, errs)
     else
       bindE (attemptE (NodeRepo_Get e nodeID)) (\<lambda>got.
         case got of
           Inl err \<Rightarrow> retE (nodeID # seen, errs @ [formatRawNodeSyncError nodeID err])
         | Inr node \<Rightarrow>
             if \<not> n_enabled node then retE (nodeID # seen, errs)
             else
               bindE (attemptE (SyncNode e nodeID)) (\<lambda>ans.
                 retE (nodeID # seen, errs @ sync_error nodeID ans))))"

definition syncNodesAfterChange :: "env \<Rightarrow> string list \<Rightarrow> string list act" where
  "syncNodesAfterChange e nodeIDs =
     bindE (forE (sync_after_change e) nodeIDs ([], [])) (\<lambda>(seen, errs). retE errs)"

definition syncUserAssignmentsForUI :: "panel \<Rightarrow> Locale \<Rightarrow> string \<Rightarrow> string list act" where
  "syncUserAssignmentsForUI h locale userID =
     bindE (syncUserAssignments (pn_env h) userID) (\<lambda>errs. retE (sanitizeNodeSyncErrors (pn_float h) locale errs))"

definition syncNodesAfterChangeForUI :: "panel \<Rightarrow> Locale \<Rightarrow> string list \<Rightarrow> string list act" where
  "syncNodesAfterChangeForUI h locale nodeIDs =
     bindE (syncNodesAfterChange (pn_env h) nodeIDs) (\<lambda>errs. retE (sanitizeNodeSyncErrors (pn_float h) locale errs))"

definition userNodeIDs :: "env \<Rightarrow> string \<Rightarrow> string list act" where
  "userNodeIDs e userID =
     bindE (UserRepo_AccessForUser e userID) (\<lambda>access. retE (map a_node_id access))"

text \<open>The map from node ids to protocols the two creation handlers build.\<close>

definition protocols_of :: "Node list \<Rightarrow> (string \<rightharpoonup> string)" where
  "protocols_of ns = fold (\<lambda>n m. m(n_id n \<mapsto> n_protocol_type n)) ns Map.empty"

end
