(* ===== verification/Handlers_UI.thy ===== *)
theory Handlers_UI
  imports Handlers_Base
begin

text \<open>
  The pages and forms of the panel: the handlers of internal/http/handlers/handlers.go from
  \<^verbatim>\<open>LoginPage\<close> to \<^verbatim>\<open>ReconcileExpiredUsers\<close>, \<^verbatim>\<open>SetLanguage\<close>, and
  \<^verbatim>\<open>middleware.Login\<close>.  A rendered page is its template with the data it is given.
\<close>

section \<open>Login and language\<close>

definition LoginPage :: "Request \<Rightarrow> answer act" where
  "LoginPage r = retE (Page 200 ''login.html'' (LoginView (loginData r [])))"

definition admin_cookie :: "Config \<Rightarrow> cookie" where
  "admin_cookie cfg =
     \<lparr>ck_name = ''vetka_admin'', ck_value = cf_admin_api_token cfg, ck_http_only = True, ck_secure = False,
      ck_max_age = 86400\<rparr>"

text \<open>\<^verbatim>\<open>middleware.Login\<close>: the cookie it sets, if it lets the user in.\<close>

definition middleware_Login :: "Config \<Rightarrow> Request \<Rightarrow> cookie option" where
  "middleware_Login cfg r =
     (if r_method r \<noteq> ''POST'' then None
      else if \<not> ConstantTimeEqual (FormValue r ''username'') (cf_admin_username cfg)
              \<or> \<not> ConstantTimeEqual (FormValue r ''password'') (cf_admin_password cfg) then None
      else Some (admin_cookie cfg))"

definition Login :: "panel \<Rightarrow> Request \<Rightarrow> answer act" where
  "Login h r =
     (case middleware_Login (pn_cfg h) r of
        Some c \<Rightarrow> retE (Redirect ''/'' [c])
      | None \<Rightarrow> retE (Page 401 ''login.html'' (LoginView (loginData r ''flash.login_invalid''))))"

definition SetLanguage :: "panel \<Rightarrow> Request \<Rightarrow> answer act" where
  "SetLanguage h r =
     (if r_form_error r then retE (Redirect ''/'' [])
      else
        (let locale = (if TrimSpace (ToLower (FormValue r ''language'')) = LocaleEN then LocaleEN else LocaleRU) in
         retE (Redirect (safeReturnTo (FormValue r ''return_to''))
           [\<lparr>ck_name = languageCookieName, ck_value = locale, ck_http_only = False,
             ck_secure = HasPrefix (ToLower (cf_panel_public_base_url (pn_cfg h))) ''https://'',
             ck_max_age = 31536000\<rparr>])))"

section \<open>Pages on nodes\<close>

definition zero_node_stats :: DashboardStats where
  "zero_node_stats =
     \<lparr>ds_total = 0, ds_connected = 0, ds_planned = 0, ds_unreachable = 0, ds_disabled = 0, ds_mieru = 0,
      ds_naive = 0, ds_recent_sync_errors = 0\<rparr>"

definition zero_user_stats :: UserDashboardStats where
  "zero_user_stats = \<lparr>us_total = 0, us_active = 0, us_expired = 0, us_disabled = 0, us_expires_soon = 0\<rparr>"

definition node_names :: "Node list \<Rightarrow> (string \<rightharpoonup> string)" where
  "node_names ns = fold (\<lambda>n m. m(n_id n \<mapsto> n_name n)) ns Map.empty"

definition list_item :: "env \<Rightarrow> Locale \<Rightarrow> (string \<Rightarrow> nat) \<Rightarrow> User \<Rightarrow> userListItem act" where
  "list_item e locale count user =
     bindE (userStatus e locale user) (\<lambda>(tone, label).
       retE \<lparr>ul_user = user, ul_status_tone = tone, ul_status_label = label,
             ul_assigned_node_count = count (u_id user)\<rparr>)"

definition Dashboard :: "panel \<Rightarrow> Request \<Rightarrow> answer act" where
  "Dashboard h r =
     (let e = pn_env h; locale = ResolveLocale r in
      bindE (clock e) (\<lambda>now.
      bindE (or_zero zero_node_stats (NodeRepo_DashboardStats e (now - 24 * hour))) (\<lambda>nodeStats.
      bindE (or_zero zero_user_stats (UserRepo_DashboardStats e (now + soon))) (\<lambda>userStats.
      bindE (or_zero [] (NodeRepo_List e)) (\<lambda>nodesList.
      bindE (or_zero Map.empty (NodeRepo_AssignedUserCounts e)) (\<lambda>counts.
      bindE (or_zero [] (NodeRepo_RecentEvents e 10)) (\<lambda>events.
      bindE (or_zero [] (UserRepo_UpcomingExpirations e 6)) (\<lambda>upcoming.
      bindE (forE (\<lambda>user items.
               bindE (list_item e locale (\<lambda>_. 0) user) (\<lambda>item. retE (items @ [item]))) upcoming []) (\<lambda>upcomingItems.
        retE (Page 200 ''dashboard.html'' (DashboardView
          \<lparr>dv_base = (pageData (pn_cfg h) r ''page.dashboard'' ''dashboard'')
              \<lparr>vd_breadcrumbs := [\<lparr>bc_label = Translate locale ''nav.dashboard'', bc_url = ''/''\<rparr>]\<rparr>,
           dv_node_stats = nodeStats, dv_user_stats = userStats,
           dv_node_items = makeNodeListItems (pn_float h) locale nodesList counts,
           dv_upcoming_users = upcomingItems,
           dv_recent_events = map (\<lambda>event.
             event_view (pn_float h) locale
               (includesText [case node_names nodesList (ev_node_id event) of None \<Rightarrow> [] | Some name \<Rightarrow> name, ev_node_id event])
               event) events\<rparr>)))))))))))"

definition normalizeTelemetryStatus :: "string \<Rightarrow> string" where
  "normalizeTelemetryStatus s =
     (let v = ToLower (TrimSpace s) in
      if v = ''recent'' then ''recent'' else if v = ''all'' then ''all'' else ''active'')"

text \<open>\<^verbatim>\<open>strings.EqualFold(s, "true")\<close>: no letter of \<^verbatim>\<open>true\<close> has a fold beyond ASCII.\<close>

definition EqualFold_true :: "string \<Rightarrow> bool" where
  "EqualFold_true s \<longleftrightarrow> map lower_byte s = ''true''"

definition Sessions :: "panel \<Rightarrow> Request \<Rightarrow> answer act" where
  "Sessions h r =
     (let locale = ResolveLocale r; status = normalizeTelemetryStatus (QueryGet r ''status'');
          includeRecent = (EqualFold_true (QueryGet r ''include_recent'') \<or> status = ''recent'' \<or> status = ''all'');
          protocol0 = TrimSpace (QueryGet r ''protocol'');
          q = \<lparr>tq_include_recent = includeRecent, tq_search = TrimSpace (QueryGet r ''q''),
               tq_protocol = (if protocol0 = [] then ''all'' else protocol0), tq_status = status\<rparr> in
      handleErr r (AllSessions (panel_telemetry (pn_env h)) (pn_schedule h) q) (\<lambda>result.
        (let nodeViews = buildTelemetryNodeViews (pn_float h) locale (sr_nodes result) in
         retE (Page 200 ''sessions.html'' (SessionsView
           \<lparr>xv_base = (pageData (pn_cfg h) r ''page.sessions'' ''sessions'')
               \<lparr>vd_breadcrumbs := [\<lparr>bc_label = Translate locale ''nav.sessions'', bc_url = ''/sessions''\<rparr>]\<rparr>,
            xv_rows = buildTelemetrySessionRows (sr_rows result), xv_nodes = nodeViews,
            xv_issue_nodes = buildTelemetryIssueNodes nodeViews, xv_include_recent = includeRecent,
            xv_query = tq_search q, xv_protocol = tq_protocol q, xv_status = tq_status q,
            xv_summary = sr_summary result\<rparr>)))))"

definition Nodes :: "panel \<Rightarrow> Request \<Rightarrow> answer act" where
  "Nodes h r =
     (let e = pn_env h; locale = ResolveLocale r in
      handleErr r (NodeRepo_List e) (\<lambda>ns.
      bindE (or_zero Map.empty (NodeRepo_AssignedUserCounts e)) (\<lambda>counts.
      bindE (clock e) (\<lambda>now.
      bindE (or_zero zero_node_stats (NodeRepo_DashboardStats e (now - 24 * hour))) (\<lambda>nodeStats.
        retE (Page 200 ''nodes.html'' (NodesView
          \<lparr>ns_base = (pageData (pn_cfg h) r ''page.nodes'' ''nodes'')
              \<lparr>vd_breadcrumbs := [\<lparr>bc_label = Translate locale ''nav.nodes'', bc_url = ''/nodes''\<rparr>]\<rparr>,
           ns_node_items = makeNodeListItems (pn_float h) locale ns counts, ns_node_stats = nodeStats,
           ns_backend_ip = cf_backend_public_ip (pn_cfg h),
           ns_default_port = cf_node_agent_default_port (pn_cfg h)\<rparr>)))))))"

definition handle_CreateNode :: "panel \<Rightarrow> Request \<Rightarrow> answer act" where
  "handle_CreateNode h r =
     (let e = pn_env h; input = nodeInputFromForm r; locale = ResolveLocale r in
      bindE (attemptE (CreateNode e input)) (\<lambda>ans. retE
        (case ans of
           Inl err \<Rightarrow> redirectWithErrorFlash h r ''/nodes'' [] err
         | Inr node \<Rightarrow>
             if in_mode input = NodeModeAdopt
             then redirectWithFlash ''/nodes'' (flashText locale ''node_adopted_connected'') ''success''
             else Page 200 ''node_created.html'' (NodeCreatedView
               \<lparr>nc_base = (pageData (pn_cfg h) r ''page.node_created'' ''nodes'')
                   \<lparr>vd_breadcrumbs := [\<lparr>bc_label = Translate locale ''nav.nodes'', bc_url = ''/nodes''\<rparr>,
                                       \<lparr>bc_label = Translate locale ''page.node_created'', bc_url = []\<rparr>]\<rparr>,
                nc_node = node, nc_backend_ip = cf_backend_public_ip (pn_cfg h),
                nc_default_port = cf_node_agent_default_port (pn_cfg h)\<rparr>))))"

definition unavailable_collector :: "Node \<Rightarrow> goerr \<Rightarrow> NodeCollectorView" where
  "unavailable_collector node err =
     (base_view node)\<lparr>cv_collector_status := ''unavailable'', cv_error := error_text err\<rparr>"

definition NodeDetail :: "panel \<Rightarrow> Request \<Rightarrow> answer act" where
  "NodeDetail h r =
     (let e = pn_env h; locale = ResolveLocale r; includeRecent = EqualFold_true (QueryGet r ''include_recent'') in
      handleErr r (NodeRepo_Get e (URLParam r ''id'')) (\<lambda>node.
      bindE (or_zero [] (UserRepo_AccessDetailForNode e (n_id node))) (\<lambda>assignments.
      bindE (or_zero [] (NodeRepo_RecentEventsByNode e (n_id node) 12)) (\<lambda>events.
      bindE (attemptE (NodeSessions (panel_telemetry e) (n_id node) includeRecent)) (\<lambda>telemetry.
        (case nodeStatusTone locale node of (tone, label) \<Rightarrow>
         retE (Page 200 ''node_detail.html'' (NodeDetailView
           \<lparr>md_base = (pageData (pn_cfg h) r ''page.node_detail'' ''nodes'')
               \<lparr>vd_breadcrumbs := [\<lparr>bc_label = Translate locale ''nav.nodes'', bc_url = ''/nodes''\<rparr>,
                                   \<lparr>bc_label = n_name node, bc_url = []\<rparr>]\<rparr>,
            md_node = node, md_status_tone = tone, md_status_label = label,
            md_protocol_tone = protocolTone (n_protocol_type node),
            md_masked_secret = MaskSecretCompact (n_node_secret node),
            md_safe_last_error =
              (case n_last_error node of None \<Rightarrow> [] | Some err \<Rightarrow> SafeOperationalError (pn_float h) err),
            md_assignments = map node_assignment_view assignments,
            md_events = map (event_view (pn_float h) locale (n_name node)) events,
            md_telemetry =
              telemetry_node_view (pn_float h) locale
                (case telemetry of Inr result \<Rightarrow> nr_node result | Inl err \<Rightarrow> unavailable_collector node err),
            md_include_recent = includeRecent\<rparr>))))))))"

definition EditNodePage :: "panel \<Rightarrow> Request \<Rightarrow> answer act" where
  "EditNodePage h r =
     (let locale = ResolveLocale r in
      handleErr r (NodeRepo_Get (pn_env h) (URLParam r ''id'')) (\<lambda>node.
        retE (Page 200 ''node_edit.html'' (NodeEditView
          ((pageData (pn_cfg h) r ''page.node_edit'' ''nodes'')
             \<lparr>vd_breadcrumbs := [\<lparr>bc_label = Translate locale ''nav.nodes'', bc_url = ''/nodes''\<rparr>,
                                 \<lparr>bc_label = n_name node, bc_url = ''/nodes/'' @ n_id node\<rparr>,
                                 \<lparr>bc_label = Translate locale ''page.node_edit'', bc_url = []\<rparr>]\<rparr>) node))))"

section \<open>Actions on nodes\<close>

definition node_path :: "Request \<Rightarrow> string" where
  "node_path r = ''/nodes/'' @ URLParam r ''id''"

definition handle_ValidateNodeStatus :: "panel \<Rightarrow> Request \<Rightarrow> answer act" where
  "handle_ValidateNodeStatus h r =
     (let locale = ResolveLocale r; path = node_path r @ ''/edit'' in
      bindE (attemptE (ValidateNodeStatus (pn_env h) (URLParam r ''id''))) (\<lambda>ans. retE
        (case ans of
           Inl err \<Rightarrow> redirectWithErrorFlash h r path (flashText locale ''validation_failed'' @ '': '') err
         | Inr status \<Rightarrow> redirectWithFlash path (formatNodeStatusFlash locale status) ''success'')))"

definition handle_UpdateNode :: "panel \<Rightarrow> Request \<Rightarrow> answer act" where
  "handle_UpdateNode h r =
     bindE (attemptE (UpdateNode (pn_env h) (URLParam r ''id'') (nodeInputFromForm r))) (\<lambda>ans. retE
       (case ans of
          Inl err \<Rightarrow> redirectWithErrorFlash h r (node_path r @ ''/edit'') [] err
        | Inr node \<Rightarrow> redirectWithFlash (node_path r) (flashText (ResolveLocale r) ''node_updated'') ''success''))"

definition handle_DeleteNode :: "panel \<Rightarrow> Request \<Rightarrow> answer act" where
  "handle_DeleteNode h r =
     handleErr r (DeleteNode (pn_env h) (URLParam r ''id'')) (\<lambda>_.
       retE (redirectWithFlash ''/nodes'' (flashText (ResolveLocale r) ''node_deleted'') ''success''))"

text \<open>
  The three actions that ask a node agent: a failure on a node that is still planned is told as
  such, any other with its error.
\<close>

definition ask_node ::
    "panel \<Rightarrow> Request \<Rightarrow> 'a act \<Rightarrow> string \<Rightarrow> ('a \<Rightarrow> string) \<Rightarrow> answer act" where
  "ask_node h r m failed success =
     (let locale = ResolveLocale r in
      bindE (attemptE (NodeRepo_Get (pn_env h) (URLParam r ''id''))) (\<lambda>got.
        case got of
          Inl err \<Rightarrow> retE (redirectWithErrorFlash h r (node_path r) [] err)
        | Inr node \<Rightarrow>
            bindE (attemptE m) (\<lambda>ans. retE
              (case ans of
                 Inl err \<Rightarrow>
                   if n_setup_state node = SetupStatePlanned
                   then redirectWithFlash (node_path r) (flashText locale ''node_not_reachable_yet'') ''error''
                   else redirectWithErrorFlash h r (node_path r) (flashText locale failed @ '': '') err
               | Inr x \<Rightarrow> redirectWithFlash (node_path r) (success x) ''success''))))"

definition NodeHealth :: "panel \<Rightarrow> Request \<Rightarrow> answer act" where
  "NodeHealth h r =
     ask_node h r (CheckNodeHealth (pn_env h) (URLParam r ''id'')) ''health_failed''
       (\<lambda>_. flashText (ResolveLocale r) ''health_ok'')"

definition NodeStatus :: "panel \<Rightarrow> Request \<Rightarrow> answer act" where
  "NodeStatus h r =
     ask_node h r (FetchNodeStatus (pn_env h) (URLParam r ''id'')) ''status_failed''
       (formatNodeStatusFlash (ResolveLocale r))"

definition handle_SyncNode :: "panel \<Rightarrow> Request \<Rightarrow> answer act" where
  "handle_SyncNode h r =
     ask_node h r (SyncNode (pn_env h) (URLParam r ''id'')) ''sync_failed'' (formatSyncFlash (ResolveLocale r))"

definition handle_SyncAllNodes :: "panel \<Rightarrow> Request \<Rightarrow> answer act" where
  "handle_SyncAllNodes h r =
     (let locale = ResolveLocale r in
      bindE (attemptE (SyncAllNodes (pn_env h))) (\<lambda>ans. retE
        (case ans of
           Inl err \<Rightarrow> redirectWithErrorFlash h r ''/nodes'' (flashText locale ''sync_all_failed'' @ '': '') err
         | Inr _ \<Rightarrow> redirectWithFlash ''/nodes'' (flashText locale ''sync_all_ok'') ''success'')))"

section \<open>Pages on users\<close>

definition Users :: "panel \<Rightarrow> Request \<Rightarrow> answer act" where
  "Users h r =
     (let e = pn_env h; locale = ResolveLocale r; flt = TrimSpace (QueryGet r ''status'');
          search = TrimSpace (QueryGet r ''q''); sort0 = TrimSpace (QueryGet r ''sort'');
          sortMode = (if sort0 = [] then ''created_at'' else sort0) in
      handleErr r (UserRepo_List e) (\<lambda>us.
      bindE (or_zero [] (NodeRepo_List e)) (\<lambda>nodesList.
      bindE (or_zero Map.empty (UserRepo_AssignmentCounts e)) (\<lambda>counts.
      bindE (forE (\<lambda>user items.
               bindE (list_item e locale (count_of counts) user) (\<lambda>item.
                 retE (if matchesUserFilter item flt search then items @ [item] else items))) us []) (\<lambda>items.
      bindE (clock e) (\<lambda>now.
      bindE (or_zero zero_user_stats (UserRepo_DashboardStats e (now + soon))) (\<lambda>stats.
        retE (Page 200 ''users.html'' (UsersView
          \<lparr>uv_base = (pageData (pn_cfg h) r ''page.users'' ''users'')
              \<lparr>vd_breadcrumbs := [\<lparr>bc_label = Translate locale ''nav.users'', bc_url = ''/users''\<rparr>]\<rparr>,
           uv_items = sortUserViews items sortMode, uv_nodes = nodesList, uv_filter = flt, uv_search = search,
           uv_sort = sortMode, uv_stats = stats\<rparr>)))))))))"

definition link :: "Locale \<Rightarrow> string \<Rightarrow> string \<Rightarrow> bool \<Rightarrow> subscriptionLink" where
  "link locale key url qr = \<lparr>li_label = subscriptionText locale key, li_url = url, li_qr = qr\<rparr>"

definition subscription_groups :: "Locale \<Rightarrow> string \<Rightarrow> UserNodeAccessDetail list \<Rightarrow> subscriptionLinkGroup list" where
  "subscription_groups locale base access =
     [\<lparr>lg_title = subscriptionText locale ''group_karing'',
       lg_links = [link locale ''karing_subscription'' base True,
                   link locale ''karing_json'' (base @ ''?format=json'') False]\<rparr>,
      \<lparr>lg_title = subscriptionText locale ''group_hiddify'',
       lg_links = [link locale ''hiddify_subscription'' (base @ ''?format=hiddify'') True,
                   link locale ''hiddify_json'' (base @ ''?format=hiddify-json'') False]
         @ (if hasDetailedProtocolAccess access ''mieru''
            then [link locale ''hiddify_mieru_only'' (base @ ''?format=mierus'') False] else [])
         @ (if hasDetailedProtocolAccess access ''naive''
            then [link locale ''hiddify_naive_only'' (base @ ''?format=naive'') False] else [])\<rparr>,
      \<lparr>lg_title = subscriptionText locale ''group_debug'',
       lg_links = [link locale ''raw_links'' (base @ ''?format=raw'') False]\<rparr>]"

definition zero_collector :: NodeCollectorView where
  "zero_collector =
     \<lparr>cv_node_db_id = [], cv_node_id = [], cv_node_name = [], cv_node_protocol = [], cv_node_enabled = False,
      cv_collector_status = [], cv_last_successful_collection_at = None, cv_capabilities = zero_capabilities,
      cv_warnings = [], cv_error = [], cv_configuration_issue = [], cv_sessions = [], cv_skipped_reason = []\<rparr>"

definition UserDetail :: "panel \<Rightarrow> Request \<Rightarrow> answer act" where
  "UserDetail h r =
     (let e = pn_env h; locale = ResolveLocale r; includeRecent = EqualFold_true (QueryGet r ''include_recent'') in
      handleErr r (UserRepo_Get e (URLParam r ''id'')) (\<lambda>user.
      bindE (or_zero [] (UserRepo_AccessDetailForUser e (u_id user))) (\<lambda>access.
      bindE (or_zero [] (NodeRepo_List e)) (\<lambda>nodesList.
      bindE (userStatus e locale user) (\<lambda>(tone, label).
      bindE (subscriptionExpiryText e (pn_format h) locale (u_expires_at user)) (\<lambda>expiryText.
      bindE (attemptE (UserSessions (panel_telemetry e) (pn_schedule h) (u_id user) includeRecent)) (\<lambda>telemetry.
        (let base = cf_subscription_public_base_url (pn_cfg h) @ ''/sub/'' @ u_subscription_token user;
             nodeViews = buildTelemetryNodeViews (pn_float h) locale
               (case telemetry of
                  Inr result \<Rightarrow> sr_nodes result
                | Inl err \<Rightarrow> [zero_collector\<lparr>cv_collector_status := ''unavailable'', cv_error := error_text err\<rparr>]) in
         retE (Page 200 ''user_detail.html'' (UserDetailView
           \<lparr>dd_base = (pageData (pn_cfg h) r ''page.user_detail'' ''users'')
               \<lparr>vd_breadcrumbs := [\<lparr>bc_label = Translate locale ''nav.users'', bc_url = ''/users''\<rparr>,
                                   \<lparr>bc_label = u_username user, bc_url = []\<rparr>]\<rparr>,
            dd_user = user, dd_access = map assignment_view access, dd_nodes = nodesList,
            dd_expiry_text = expiryText, dd_status_tone = tone, dd_status_label = label,
            dd_masked_token = Mask (u_subscription_token user),
            dd_assigned_node_count = length access, dd_groups = subscription_groups locale base access,
            dd_rows = (case telemetry of
                Inr result \<Rightarrow> buildTelemetrySessionRows (sr_rows result) | Inl err \<Rightarrow> []),
            dd_telemetry_nodes = nodeViews,
            dd_issue_nodes = (case telemetry of
                Inr result \<Rightarrow> buildTelemetryIssueNodes nodeViews | Inl err \<Rightarrow> nodeViews),
            dd_include_recent = includeRecent\<rparr>))))))))))"

section \<open>Actions on users\<close>

definition user_path :: "Request \<Rightarrow> string" where
  "user_path r = ''/users/'' @ URLParam r ''id''"

text \<open>
  The end of every action on a user: the nodes are synchronised, and the notice says whether all
  of them took it.
\<close>

definition sync_and_tell :: "panel \<Rightarrow> Request \<Rightarrow> string list \<Rightarrow> string \<Rightarrow> string \<Rightarrow> string \<Rightarrow> answer act" where
  "sync_and_tell h r nodeIDs path failed success =
     (let locale = ResolveLocale r in
      bindE (syncNodesAfterChangeForUI h locale nodeIDs) (\<lambda>syncErrors.
         retE (if syncErrors \<noteq> [] then redirectWithFlash path (flashWithList locale failed syncErrors) ''error''
               else redirectWithFlash path (flashText locale success) ''success'')))"

definition handle_CreateUser :: "panel \<Rightarrow> Request \<Rightarrow> answer act" where
  "handle_CreateUser h r =
     (let e = pn_env h in
      handleErr r (NodeRepo_List e) (\<lambda>nodesList.
        case userInputFromForm h r of
          None \<Rightarrow> retE (redirectWithFlash ''/users'' (flashText (ResolveLocale r) ''invalid_expiration'') ''error'')
        | Some input \<Rightarrow>
            handleErr r (CreateUser e input (protocols_of nodesList)) (\<lambda>user.
              sync_and_tell h r (iu_node_ids input) (''/users/'' @ u_id user)
                ''user_saved_sync_failed'' ''user_saved_synced'')))"

definition handle_UpdateUser :: "panel \<Rightarrow> Request \<Rightarrow> answer act" where
  "handle_UpdateUser h r =
     (let e = pn_env h; userID = URLParam r ''id'' in
      handleErr r (userNodeIDs e userID) (\<lambda>nodeIDs.
        case userInputFromForm h r of
          None \<Rightarrow> retE (redirectWithFlash (user_path r) (flashText (ResolveLocale r) ''invalid_expiration'') ''error'')
        | Some input \<Rightarrow>
            handleErr r (UserRepo_Update e userID input) (\<lambda>_.
              sync_and_tell h r nodeIDs (user_path r) ''user_saved_sync_failed'' ''user_saved_synced'')))"

definition handle_DeleteUser :: "panel \<Rightarrow> Request \<Rightarrow> answer act" where
  "handle_DeleteUser h r =
     (let e = pn_env h; userID = URLParam r ''id'' in
      handleErr r (userNodeIDs e userID) (\<lambda>nodeIDs.
      handleErr r (UserRepo_Delete e userID) (\<lambda>_.
        sync_and_tell h r nodeIDs ''/users'' ''user_deleted_sync_failed'' ''user_deleted_synced'')))"

definition handle_EnableUser :: "panel \<Rightarrow> Request \<Rightarrow> answer act" where
  "handle_EnableUser h r =
     (let e = pn_env h; userID = URLParam r ''id'' in
      handleErr r (UserRepo_SetEnabled e userID True) (\<lambda>_.
      handleErr r (userNodeIDs e userID) (\<lambda>nodeIDs.
        sync_and_tell h r nodeIDs (user_path r) ''user_enabled_sync_failed'' ''user_enabled_synced'')))"

definition handle_DisableUser :: "panel \<Rightarrow> Request \<Rightarrow> answer act" where
  "handle_DisableUser h r =
     (let e = pn_env h; userID = URLParam r ''id'' in
      handleErr r (UserRepo_SetEnabled e userID False) (\<lambda>_.
      handleErr r (userNodeIDs e userID) (\<lambda>nodeIDs.
        sync_and_tell h r nodeIDs (user_path r) ''user_disabled_sync_failed'' ''user_disabled_synced'')))"

text \<open>A credential left empty is drawn at random; a failing generator leaves it empty.\<close>

definition given_or_token :: "env \<Rightarrow> string \<Rightarrow> string \<Rightarrow> nat \<Rightarrow> string act" where
  "given_or_token e given prefix n = (if given = [] then or_zero [] (Token e prefix n) else retE given)"

definition handle_AssignNode :: "panel \<Rightarrow> Request \<Rightarrow> answer act" where
  "handle_AssignNode h r =
     (let e = pn_env h in
      handleErr r (NodeRepo_Get e (FormValue r ''node_id'')) (\<lambda>node.
      bindE (given_or_token e (FormValue r ''protocol_username'') ''u'' 8) (\<lambda>username.
      bindE (given_or_token e (FormValue r ''protocol_password'') ''p'' 18) (\<lambda>password.
      handleErr r (UserRepo_AssignNode e (URLParam r ''id'') (n_id node) (n_protocol_type node) username password) (\<lambda>_.
        sync_and_tell h r [n_id node] (user_path r) ''assignment_saved_sync_failed'' ''assignment_saved_synced'')))))"

definition handle_UnassignNode :: "panel \<Rightarrow> Request \<Rightarrow> answer act" where
  "handle_UnassignNode h r =
     (let nodeID = FormValue r ''node_id'' in
      handleErr r (UserRepo_UnassignNode (pn_env h) (URLParam r ''id'') nodeID) (\<lambda>_.
        sync_and_tell h r [nodeID] (user_path r) ''unassigned_sync_failed'' ''node_unassigned_synced''))"

definition EnableUserNodeAccess :: "panel \<Rightarrow> Request \<Rightarrow> answer act" where
  "EnableUserNodeAccess h r =
     (let e = pn_env h; userID = URLParam r ''id'' in
      handleErr r (UserRepo_AccessByID e userID (URLParam r ''accessID'')) (\<lambda>access.
      handleErr r (UserRepo_SetAccessEnabled e userID (a_id access) True) (\<lambda>_.
        sync_and_tell h r [a_node_id access] (user_path r)
          ''node_access_enabled_sync_failed'' ''node_access_enabled_synced'')))"

definition DisableUserNodeAccess :: "panel \<Rightarrow> Request \<Rightarrow> answer act" where
  "DisableUserNodeAccess h r =
     (let e = pn_env h; userID = URLParam r ''id'' in
      handleErr r (UserRepo_AccessByID e userID (URLParam r ''accessID'')) (\<lambda>access.
      handleErr r (UserRepo_SetAccessEnabled e userID (a_id access) False) (\<lambda>_.
        sync_and_tell h r [a_node_id access] (user_path r)
          ''node_access_disabled_sync_failed'' ''node_access_disabled_synced'')))"

definition SyncUserNodes :: "panel \<Rightarrow> Request \<Rightarrow> answer act" where
  "SyncUserNodes h r =
     (let locale = ResolveLocale r in
      handleErr r (syncUserAssignmentsForUI h locale (URLParam r ''id'')) (\<lambda>errs.
         retE (if errs \<noteq> []
               then redirectWithFlash (user_path r) (flashWithList locale ''sync_failed_for_nodes'' errs) ''error''
               else redirectWithFlash (user_path r) (flashText locale ''affected_nodes_synced'') ''success'')))"

definition ReconcileExpiredUsers :: "panel \<Rightarrow> Request \<Rightarrow> (world reconciler, answer) io" where
  "ReconcileExpiredUsers h r =
     (let locale = ResolveLocale r in
      bindE (RunOnce (panel_expiry (pn_env h))) (\<lambda>(result, err). retE
        (let report = formatExpiryReconcileResult (pn_float h) locale result in
         case err of
           Some _ \<Rightarrow> redirectWithFlash ''/users'' (flashText locale ''expired_reconcile_failed'' @ '': '' @ report) ''error''
         | None \<Rightarrow> redirectWithFlash ''/users'' (flashText locale ''expired_reconcile_ok'' @ '': '' @ report) ''success'')))"

section \<open>Subscriptions\<close>

definition subscription_service :: "Config \<Rightarrow> SubscriptionService" where
  "subscription_service cfg =
     \<lparr>ss_devMode = (cf_app_env cfg = ''dev''), ss_profileTitle = cf_subscription_profile_title cfg,
      ss_updateIntervalHours = cf_subscription_update_interval_hours cfg\<rparr>"

text \<open>\<^verbatim>\<open>Time.Unix\<close> rounds down; a quota is at most 31 bits, its product with a mebibyte fits.\<close>

definition subscriptionUserinfo :: "User \<Rightarrow> string" where
  "subscriptionUserinfo user =
     (let expire = (case u_expires_at user of None \<Rightarrow> 0 | Some t \<Rightarrow> t div 10 ^ 9);
          total = (if u_quota_mb user > 0 then wrap64 (u_quota_mb user * 1024 * 1024) else 0) in
      ''upload=0; download=0; total='' @ Itoa total @ ''; expire='' @ Itoa expire)"

definition subscription_headers :: "Config \<Rightarrow> string \<Rightarrow> string \<Rightarrow> User \<Rightarrow> (string \<times> string) list" where
  "subscription_headers cfg format contentType user =
     [(''Content-Type'', contentType),
      (''Profile-Title'', ''base64:'' @ EncodeToString std_alphabet (cf_subscription_profile_title cfg)),
      (''Profile-Update-Interval'', Itoa (cf_subscription_update_interval_hours cfg)),
      (''Subscription-Userinfo'', subscriptionUserinfo user),
      (''Content-Disposition'',
        ''attachment; filename='' @ [CHR 0x22] @ ContentDispositionFilename format @ [CHR 0x22])]"

definition handle_Subscription :: "panel \<Rightarrow> Request \<Rightarrow> answer act" where
  "handle_Subscription h r =
     (let e = pn_env h; token = URLParam r ''token''; format = QueryGet r ''format'' in
      bindE (attemptE (UserRepo_GetByToken e token)) (\<lambda>got.
        case got of
          Inl err \<Rightarrow> retE (httpErrorRaw err 404)
        | Inr user \<Rightarrow>
            bindE (attemptE (BuildByToken (panel_subscription e) (subscription_service (pn_cfg h)) token format)) (\<lambda>built.
              retE (case built of
                Inl err \<Rightarrow> httpErrorRaw err 404
              | Inr (body, contentType) \<Rightarrow>
                  Document 200 (subscription_headers (pn_cfg h) format contentType user) (body @ [CHR 0x0A])))))"

end
