(* ===== verification/Handlers_API.thy ===== *)
theory Handlers_API
  imports Handlers_UI
begin

text \<open>
  The JSON interface: the handlers of internal/http/handlers/handlers.go whose names begin with
  \<^verbatim>\<open>API\<close>, and \<^verbatim>\<open>nodeResponse\<close>.  A Go map encodes with its keys sorted.
\<close>

section \<open>Documents\<close>

record nodeResponse =
  np_id :: string
  np_node_id :: string
  np_name :: string
  np_domain :: string
  np_api_url :: string
  np_protocol_type :: string
  np_node_secret :: string
  np_enabled :: bool
  np_setup_state :: string
  np_protocol_settings :: ProtocolSettings
  np_desired_config_version :: int
  np_last_applied_version :: int
  np_last_seen_at :: "time option"
  np_last_status :: "string option"
  np_last_error :: "string option"
  np_last_sync_at :: "time option"
  np_created_at :: time
  np_updated_at :: time

definition newNodeResponse :: "Node \<Rightarrow> bool \<Rightarrow> nodeResponse" where
  "newNodeResponse node exposeRawSecret =
     \<lparr>np_id = n_id node, np_node_id = n_node_id node, np_name = n_name node, np_domain = n_domain node,
      np_api_url = n_api_url node, np_protocol_type = n_protocol_type node,
      np_node_secret = (if exposeRawSecret then n_node_secret node else Mask (n_node_secret node)),
      np_enabled = n_enabled node, np_setup_state = n_setup_state node,
      np_protocol_settings = n_protocol_settings node,
      np_desired_config_version = n_desired_config_version node,
      np_last_applied_version = n_last_applied_version node, np_last_seen_at = n_last_seen_at node,
      np_last_status = n_last_status node, np_last_error = n_last_error node,
      np_last_sync_at = n_last_sync_at node, np_created_at = n_created_at node,
      np_updated_at = n_updated_at node\<rparr>"

definition node_response_json :: "(time \<Rightarrow> string option) \<Rightarrow> nodeResponse \<Rightarrow> Json option" where
  "node_response_json fmt r = struct_json
    ([(''id'', string_json (np_id r)), (''node_id'', string_json (np_node_id r)),
      (''name'', string_json (np_name r)), (''domain'', string_json (np_domain r)),
      (''api_url'', string_json (np_api_url r)), (''protocol_type'', string_json (np_protocol_type r)),
      (''node_secret'', string_json (np_node_secret r)), (''enabled'', bool_json (np_enabled r)),
      (''setup_state'', string_json (np_setup_state r)),
      (''protocol_settings'', settings_json (np_protocol_settings r)),
      (''desired_config_version'', int_json (np_desired_config_version r)),
      (''last_applied_version'', int_json (np_last_applied_version r))]
     @ omit_if (np_last_seen_at r = None) ''last_seen_at'' (ptr_json (time_json fmt) (np_last_seen_at r))
     @ omit_if (np_last_status r = None) ''last_status'' (ptr_json string_json (np_last_status r))
     @ omit_if (np_last_error r = None) ''last_error'' (ptr_json string_json (np_last_error r))
     @ omit_if (np_last_sync_at r = None) ''last_sync_at'' (ptr_json (time_json fmt) (np_last_sync_at r))
     @ [(''created_at'', time_json fmt (np_created_at r)), (''updated_at'', time_json fmt (np_updated_at r))])"

definition node_json :: "panel \<Rightarrow> Node \<Rightarrow> bool \<Rightarrow> Json option" where
  "node_json h node exposeRawSecret = node_response_json (pn_json_time h) (newNodeResponse node exposeRawSecret)"

definition strings_json :: "string list \<Rightarrow> Json option" where
  "strings_json xs = list_json string_json xs"

definition ok_json :: "Json option" where
  "ok_json = struct_json [(''ok'', bool_json True)]"

definition ok_sync_errors :: "string list \<Rightarrow> Json option" where
  "ok_sync_errors errs = struct_json [(''ok'', bool_json True), (''sync_errors'', strings_json errs)]"

definition ok_user_json :: "panel \<Rightarrow> User \<Rightarrow> string list \<Rightarrow> Json option" where
  "ok_user_json h user errs =
     struct_json [(''ok'', bool_json True), (''sync_errors'', strings_json errs),
                  (''user'', user_json (pn_json_time h) user)]"

definition failure_json :: "goerr \<Rightarrow> Json option" where
  "failure_json err = struct_json [(''error'', string_json (error_text err)), (''ok'', bool_json False)]"

definition result_json :: "ExpiryReconcileResult \<Rightarrow> Json option" where
  "result_json result = struct_json
    ([(''users_found'', int_json (int (rr_users_found result))),
      (''nodes_affected'', int_json (int (rr_nodes_affected result))),
      (''sync_success_count'', int_json (int (rr_sync_success_count result))),
      (''users_synced'', int_json (int (rr_users_synced result)))]
     @ omit_if (rr_errors result = []) ''errors'' (strings_json (rr_errors result)))"

section \<open>Users\<close>

definition APICreateUser :: "panel \<Rightarrow> Request \<Rightarrow> answer act" where
  "APICreateUser h r =
     (let e = pn_env h in
      decodeJSON h r dec_user_input zero_user_input (\<lambda>input.
      bindE (or_zero [] (NodeRepo_List e)) (\<lambda>nodesList.
      bindE (attemptE (CreateUser e input (protocols_of nodesList))) (\<lambda>ans.
        case ans of
          Inl err \<Rightarrow> retE (writeJSONOrError 201 None (Some err))
        | Inr user \<Rightarrow>
            bindE (syncNodesAfterChange e (iu_node_ids input)) (\<lambda>syncErrors.
              retE (writeJSON 201 (ok_user_json h user syncErrors)))))))"

definition APIGetUser :: "panel \<Rightarrow> Request \<Rightarrow> answer act" where
  "APIGetUser h r =
     bindE (attemptE (UserRepo_Get (pn_env h) (URLParam r ''id''))) (\<lambda>ans. retE
       (case ans of
          Inl err \<Rightarrow> writeJSONOrError 200 None (Some err)
        | Inr user \<Rightarrow> writeJSONOrError 200 (user_json (pn_json_time h) user) None))"

definition APIUpdateUser :: "panel \<Rightarrow> Request \<Rightarrow> answer act" where
  "APIUpdateUser h r =
     (let e = pn_env h; userID = URLParam r ''id'' in
      decodeJSON h r dec_user_input zero_user_input (\<lambda>input.
      bindE (attemptE (UserRepo_Update e userID input)) (\<lambda>ans.
        case ans of
          Inl err \<Rightarrow> retE (writeJSONOrError 200 None (Some err))
        | Inr user \<Rightarrow>
            bindE (or_zero [] (userNodeIDs e userID)) (\<lambda>nodeIDs.
            bindE (syncNodesAfterChange e nodeIDs) (\<lambda>syncErrors.
              retE (writeJSON 200 (ok_user_json h user syncErrors)))))))"

text \<open>\<^verbatim>\<open>APIEnableUser\<close> and \<^verbatim>\<open>APIDisableUser\<close> differ in one argument.\<close>

definition api_set_enabled :: "panel \<Rightarrow> Request \<Rightarrow> bool \<Rightarrow> answer act" where
  "api_set_enabled h r enabled =
     (let e = pn_env h; userID = URLParam r ''id'' in
      bindE (attemptE (UserRepo_SetEnabled e userID enabled)) (\<lambda>ans.
        case ans of
          Inl err \<Rightarrow> retE (writeJSONOrError 200 ok_json (Some err))
        | Inr _ \<Rightarrow>
            bindE (or_zero [] (userNodeIDs e userID)) (\<lambda>nodeIDs.
            bindE (syncNodesAfterChange e nodeIDs) (\<lambda>syncErrors.
              retE (writeJSON 200 (ok_sync_errors syncErrors))))))"

definition APIEnableUser :: "panel \<Rightarrow> Request \<Rightarrow> answer act" where
  "APIEnableUser h r = api_set_enabled h r True"

definition APIDisableUser :: "panel \<Rightarrow> Request \<Rightarrow> answer act" where
  "APIDisableUser h r = api_set_enabled h r False"

record AssignInput =
  ai_node_id :: string
  ai_protocol_username :: string
  ai_protocol_password :: string

definition dec_assign_input :: "AssignInput decoder" where
  "dec_assign_input = dec_struct [
     (''node_id'', at ai_node_id ai_node_id_update dec_string),
     (''protocol_username'', at ai_protocol_username ai_protocol_username_update dec_string),
     (''protocol_password'', at ai_protocol_password ai_protocol_password_update dec_string)]"

definition APIAssignNode :: "panel \<Rightarrow> Request \<Rightarrow> answer act" where
  "APIAssignNode h r =
     (let e = pn_env h in
      decodeJSON h r dec_assign_input \<lparr>ai_node_id = [], ai_protocol_username = [], ai_protocol_password = []\<rparr> (\<lambda>input.
      bindE (attemptE (NodeRepo_Get e (ai_node_id input))) (\<lambda>got.
        case got of
          Inl err \<Rightarrow> retE (writeJSONOrError 400 None (Some err))
        | Inr node \<Rightarrow>
            bindE (given_or_token e (ai_protocol_username input) ''u'' 8) (\<lambda>username.
            bindE (given_or_token e (ai_protocol_password input) ''p'' 18) (\<lambda>password.
            bindE (attemptE (UserRepo_AssignNode e (URLParam r ''id'') (n_id node) (n_protocol_type node) username password)) (\<lambda>ans.
              case ans of
                Inl err \<Rightarrow> retE (writeJSONOrError 200 ok_json (Some err))
              | Inr _ \<Rightarrow>
                  bindE (syncNodesAfterChange e [n_id node]) (\<lambda>syncErrors.
                    retE (writeJSON 200 (ok_sync_errors syncErrors)))))))))"

record UnassignInput =
  ni_node_id :: string

definition dec_unassign_input :: "UnassignInput decoder" where
  "dec_unassign_input = dec_struct [(''node_id'', at ni_node_id ni_node_id_update dec_string)]"

definition APIUnassignNode :: "panel \<Rightarrow> Request \<Rightarrow> answer act" where
  "APIUnassignNode h r =
     (let e = pn_env h in
      decodeJSON h r dec_unassign_input \<lparr>ni_node_id = []\<rparr> (\<lambda>input.
      bindE (attemptE (UserRepo_UnassignNode e (URLParam r ''id'') (ni_node_id input))) (\<lambda>ans.
        case ans of
          Inl err \<Rightarrow> retE (writeJSONOrError 200 ok_json (Some err))
        | Inr _ \<Rightarrow>
            bindE (syncNodesAfterChange e [ni_node_id input]) (\<lambda>syncErrors.
              retE (writeJSON 200 (ok_sync_errors syncErrors))))))"

definition APISyncUser :: "panel \<Rightarrow> Request \<Rightarrow> answer act" where
  "APISyncUser h r =
     bindE (attemptE (syncUserAssignments (pn_env h) (URLParam r ''id''))) (\<lambda>ans. retE
       (case ans of
          Inl err \<Rightarrow> writeJSONOrError 400 None (Some err)
        | Inr errs \<Rightarrow>
            if errs \<noteq> []
            then writeJSON 502 (struct_json [(''errors'', strings_json errs), (''ok'', bool_json False)])
            else writeJSON 200 ok_json))"

definition APIUserSubscription :: "panel \<Rightarrow> Request \<Rightarrow> answer act" where
  "APIUserSubscription h r =
     bindE (attemptE (UserRepo_Get (pn_env h) (URLParam r ''id''))) (\<lambda>ans. retE
       (case ans of
          Inl err \<Rightarrow> writeJSONOrError 404 None (Some err)
        | Inr user \<Rightarrow>
            (let base = cf_subscription_public_base_url (pn_cfg h) @ ''/sub/'' @ u_subscription_token user in
             writeJSONOrError 200 (struct_json
               [(''hiddify_json'', string_json (base @ ''?format=hiddify-json'')),
                (''hiddify_url'', string_json (base @ ''?format=hiddify'')),
                (''json_url'', string_json (base @ ''?format=json'')),
                (''karing_url'', string_json (base @ ''?format=karing'')),
                (''mierus_url'', string_json (base @ ''?format=mierus'')),
                (''naive_url'', string_json (base @ ''?format=naive'')),
                (''profile_title'', string_json (cf_subscription_profile_title (pn_cfg h))),
                (''raw_url'', string_json (base @ ''?format=raw'')),
                (''singbox_url'', string_json (base @ ''?format=sing-box'')),
                (''url'', string_json base)]) None)))"

text \<open>A nil slice of errors is \<^verbatim>\<open>null\<close>.\<close>

definition APIReconcileExpiredUsers :: "panel \<Rightarrow> Request \<Rightarrow> (world reconciler, answer) io" where
  "APIReconcileExpiredUsers h r =
     bindE (RunOnce (panel_expiry (pn_env h))) (\<lambda>(result, err). retE
       (case err of
          Some _ \<Rightarrow>
            writeJSON 502 (struct_json
              [(''errors'', if rr_errors result = [] then Some JNull else strings_json (rr_errors result)),
               (''ok'', bool_json False), (''result'', result_json result)])
        | None \<Rightarrow> writeJSON 200 (struct_json [(''ok'', bool_json True), (''result'', result_json result)])))"

section \<open>Nodes\<close>

definition APIListNodes :: "panel \<Rightarrow> Request \<Rightarrow> answer act" where
  "APIListNodes h r =
     bindE (attemptE (NodeRepo_List (pn_env h))) (\<lambda>ans. retE
       (case ans of
          Inl err \<Rightarrow> writeJSONOrError 400 None (Some err)
        | Inr ns \<Rightarrow> writeJSON 200 (list_json (\<lambda>node. node_json h node False) ns)))"

definition APICreateNode :: "panel \<Rightarrow> Request \<Rightarrow> answer act" where
  "APICreateNode h r =
     decodeJSON h r dec_node_input zero_node_input (\<lambda>input0.
       let input = (if in_mode input0 = [] then input0\<lparr>in_mode := NodeModePlanned\<rparr> else input0) in
       bindE (attemptE (CreateNode (pn_env h) input)) (\<lambda>ans. retE
         (case ans of
            Inl err \<Rightarrow> writeJSONOrError 400 None (Some err)
          | Inr node \<Rightarrow> writeJSON 201 (node_json h node True))))"

definition APIGetNode :: "panel \<Rightarrow> Request \<Rightarrow> answer act" where
  "APIGetNode h r =
     bindE (attemptE (NodeRepo_Get (pn_env h) (URLParam r ''id''))) (\<lambda>ans. retE
       (case ans of
          Inl err \<Rightarrow> writeJSONOrError 404 None (Some err)
        | Inr node \<Rightarrow> writeJSON 200 (node_json h node False)))"

definition APIUpdateNode :: "panel \<Rightarrow> Request \<Rightarrow> answer act" where
  "APIUpdateNode h r =
     decodeJSON h r dec_node_input zero_node_input (\<lambda>input.
       bindE (attemptE (UpdateNode (pn_env h) (URLParam r ''id'') input)) (\<lambda>ans. retE
         (case ans of
            Inl err \<Rightarrow> writeJSONOrError 400 None (Some err)
          | Inr node \<Rightarrow> writeJSON 200 (node_json h node False))))"

text \<open>The four actions that answer 502 with the error of the call.\<close>

definition api_action :: "'a act \<Rightarrow> ('a \<Rightarrow> Json option) \<Rightarrow> answer act" where
  "api_action m document =
     bindE (attemptE m) (\<lambda>ans. retE
       (case ans of Inl err \<Rightarrow> writeJSON 502 (failure_json err) | Inr x \<Rightarrow> writeJSON 200 (document x)))"

definition APINodeHealth :: "panel \<Rightarrow> Request \<Rightarrow> answer act" where
  "APINodeHealth h r = api_action (CheckNodeHealth (pn_env h) (URLParam r ''id'')) agent_status_json"

definition APINodeStatus :: "panel \<Rightarrow> Request \<Rightarrow> answer act" where
  "APINodeStatus h r = api_action (FetchNodeStatus (pn_env h) (URLParam r ''id'')) agent_status_json"

definition APISyncNode :: "panel \<Rightarrow> Request \<Rightarrow> answer act" where
  "APISyncNode h r = api_action (SyncNode (pn_env h) (URLParam r ''id'')) agent_response_json"

definition APISyncAllNodes :: "panel \<Rightarrow> Request \<Rightarrow> answer act" where
  "APISyncAllNodes h r = api_action (SyncAllNodes (pn_env h)) (\<lambda>_. ok_json)"

end
