(* ===== verification/Server.thy ===== *)
theory Server
  imports Handlers_API
begin

text \<open>
  internal/http/server.go and internal/http/middleware/auth.go: the table of the routes with
  their handlers, the two guards, and how a request is served.  The router \<^verbatim>\<open>chi\<close> is outside
  the repository: it is a function \<open>match\<close> from method and path to a row of the table and the
  route's parameters; \<open>static\<close> is the file server.  What the panel needs of the router is
  \<open>router_ok\<close>.
\<close>

section \<open>Guards\<close>

type_synonym server = "world reconciler"
type_synonym handler = "panel \<Rightarrow> Request \<Rightarrow> (server, answer) io"

text \<open>A handler that does not use the reconciler.\<close>

definition on_world :: "(panel \<Rightarrow> Request \<Rightarrow> answer act) \<Rightarrow> handler" where
  "on_world m h r s = (case m h r (rest_state s) of (ans, w) \<Rightarrow> (ans, s\<lparr>rest_state := w\<rparr>))"

definition ui_exempt :: "string \<Rightarrow> bool" where
  "ui_exempt path \<longleftrightarrow> path = ''/login'' \<or> HasPrefix path ''/static/'' \<or> HasPrefix path ''/sub/''"

definition UIAuth :: "handler \<Rightarrow> handler" where
  "UIAuth next_handler h r =
     (if ui_exempt (r_path r) then next_handler h r
      else case Cookie r ''vetka_admin'' of
             Some v \<Rightarrow>
               if ConstantTimeEqual v (cf_admin_api_token (pn_cfg h)) then next_handler h r
               else retE (Redirect ''/login'' [])
           | None \<Rightarrow> retE (Redirect ''/login'' []))"

definition APIAuth :: "handler \<Rightarrow> handler" where
  "APIAuth next_handler h r =
     (let token = TrimPrefix (r_authorization r) ''Bearer '' in
      if token = [] \<or> \<not> ConstantTimeEqual token (cf_admin_api_token (pn_cfg h))
      then retE (TextError 401 ''unauthorized'')
      else next_handler h r)"

section \<open>Routes\<close>

definition health :: handler where
  "health h r = retE (Document 200 [(''Content-Type'', ''text/plain; charset=utf-8'')] (''ok'' @ [CHR 0x0A]))"

text \<open>\<^verbatim>\<open>readyHandler\<close>: a ping is a call of the database that changes nothing.\<close>

definition readyHandler :: "panel \<Rightarrow> Request \<Rightarrow> answer act" where
  "readyHandler h r =
     bindE (attemptE (query (pn_env h) (\<lambda>_ _. Inr ()))) (\<lambda>ans. retE
       (case ans of
          Inl err \<Rightarrow>
            Document 503 [(''Content-Type'', ''text/plain; charset=utf-8'')] (''database unavailable'' @ [CHR 0x0A])
        | Inr _ \<Rightarrow> Document 200 [(''Content-Type'', ''text/plain; charset=utf-8'')] (''ready'' @ [CHR 0x0A])))"

definition public_routes :: "(Request \<Rightarrow> answer) \<Rightarrow> (string \<times> string \<times> handler) list" where
  "public_routes static =
    [(''GET'', ''/static/*'', \<lambda>h r. retE (static r)),
     (''GET'', ''/health'', health),
     (''GET'', ''/ready'', on_world readyHandler),
     (''GET'', ''/sub/{token}'', on_world handle_Subscription),
     (''GET'', ''/login'', on_world (\<lambda>h. LoginPage)),
     (''POST'', ''/login'', on_world Login),
     (''POST'', ''/ui/language'', on_world SetLanguage)]"

definition ui_routes :: "(string \<times> string \<times> handler) list" where
  "ui_routes =
    [(''GET'', ''/'', on_world Dashboard),
     (''GET'', ''/sessions'', on_world Sessions),
     (''GET'', ''/nodes'', on_world Nodes),
     (''GET'', ''/nodes/{id}'', on_world NodeDetail),
     (''GET'', ''/nodes/{id}/edit'', on_world EditNodePage),
     (''POST'', ''/nodes'', on_world handle_CreateNode),
     (''POST'', ''/nodes/{id}'', on_world handle_UpdateNode),
     (''POST'', ''/nodes/{id}/validate-status'', on_world handle_ValidateNodeStatus),
     (''POST'', ''/nodes/{id}/delete'', on_world handle_DeleteNode),
     (''POST'', ''/nodes/{id}/health'', on_world NodeHealth),
     (''POST'', ''/nodes/{id}/status'', on_world NodeStatus),
     (''POST'', ''/nodes/{id}/sync'', on_world handle_SyncNode),
     (''POST'', ''/nodes/sync-all'', on_world handle_SyncAllNodes),
     (''GET'', ''/users'', on_world Users),
     (''POST'', ''/users'', on_world handle_CreateUser),
     (''GET'', ''/users/{id}'', on_world UserDetail),
     (''POST'', ''/users/{id}'', on_world handle_UpdateUser),
     (''POST'', ''/users/{id}/delete'', on_world handle_DeleteUser),
     (''POST'', ''/users/{id}/enable'', on_world handle_EnableUser),
     (''POST'', ''/users/{id}/disable'', on_world handle_DisableUser),
     (''POST'', ''/users/{id}/assign-node'', on_world handle_AssignNode),
     (''POST'', ''/users/{id}/nodes/{accessID}/enable'', on_world EnableUserNodeAccess),
     (''POST'', ''/users/{id}/nodes/{accessID}/disable'', on_world DisableUserNodeAccess),
     (''POST'', ''/users/{id}/unassign-node'', on_world handle_UnassignNode),
     (''POST'', ''/users/{id}/sync'', on_world SyncUserNodes),
     (''POST'', ''/users/reconcile-expired'', ReconcileExpiredUsers)]"

definition api_routes :: "(string \<times> string \<times> handler) list" where
  "api_routes =
    [(''GET'', ''/api/nodes'', on_world APIListNodes),
     (''POST'', ''/api/nodes'', on_world APICreateNode),
     (''GET'', ''/api/nodes/{id}'', on_world APIGetNode),
     (''PATCH'', ''/api/nodes/{id}'', on_world APIUpdateNode),
     (''POST'', ''/api/nodes/{id}/health'', on_world APINodeHealth),
     (''POST'', ''/api/nodes/{id}/status'', on_world APINodeStatus),
     (''POST'', ''/api/nodes/{id}/sync'', on_world APISyncNode),
     (''POST'', ''/api/nodes/sync-all'', on_world APISyncAllNodes),
     (''POST'', ''/api/users'', on_world APICreateUser),
     (''GET'', ''/api/users/{id}'', on_world APIGetUser),
     (''PATCH'', ''/api/users/{id}'', on_world APIUpdateUser),
     (''POST'', ''/api/users/{id}/enable'', on_world APIEnableUser),
     (''POST'', ''/api/users/{id}/disable'', on_world APIDisableUser),
     (''POST'', ''/api/users/{id}/assign-node'', on_world APIAssignNode),
     (''POST'', ''/api/users/{id}/unassign-node'', on_world APIUnassignNode),
     (''POST'', ''/api/users/{id}/sync'', on_world APISyncUser),
     (''GET'', ''/api/users/{id}/subscription'', on_world APIUserSubscription),
     (''POST'', ''/api/users/reconcile-expired'', APIReconcileExpiredUsers)]"

text \<open>The routes as \<^verbatim>\<open>NewServer\<close> registers them, each behind its group's guard.\<close>

definition guard_route :: "(handler \<Rightarrow> handler) \<Rightarrow> string \<times> string \<times> handler \<Rightarrow> string \<times> string \<times> handler" where
  "guard_route guard = (\<lambda>(m, p, f). (m, p, guard f))"

definition routes :: "(Request \<Rightarrow> answer) \<Rightarrow> (string \<times> string \<times> handler) list" where
  "routes static =
     public_routes static @ map (guard_route UIAuth) ui_routes @ map (guard_route APIAuth) api_routes"

section \<open>Serving\<close>

type_synonym router = "string \<Rightarrow> string \<Rightarrow> (nat \<times> (string \<times> string) list) option"

text \<open>
  A request that no row takes: \<^verbatim>\<open>chi\<close> answers 405 without a text when the path has a route for another method
  of the table, and 404 otherwise.
\<close>

definition not_routed :: "router \<Rightarrow> string \<Rightarrow> answer" where
  "not_routed match path =
     (if list_ex (\<lambda>m. match m path \<noteq> None) [''GET'', ''POST'', ''PATCH''] then Document 405 [] []
      else TextError 404 ''404 page not found'')"

definition serve :: "router \<Rightarrow> (Request \<Rightarrow> answer) \<Rightarrow> handler" where
  "serve match static h r =
     (case match (r_method r) (r_path r) of
        None \<Rightarrow> retE (not_routed match (r_path r))
      | Some (i, params) \<Rightarrow> (case routes static ! i of (m, p, f) \<Rightarrow> f h (r\<lparr>r_params := params\<rparr>)))"

text \<open>
  A path fits a pattern when it is the pattern, or begins with the part before its first
  parameter: both hold whether the router looks at the path as sent or decoded.
\<close>

definition literal_part :: "string \<Rightarrow> string" where
  "literal_part pat = takeWhile (\<lambda>c. c \<noteq> CHR ''{'' \<and> c \<noteq> CHR ''*'') pat"

definition path_fits :: "string \<Rightarrow> string \<Rightarrow> bool" where
  "path_fits pat path \<longleftrightarrow> (if literal_part pat = pat then path = pat else HasPrefix path (literal_part pat))"

definition route_patterns :: "(string \<times> string) list" where
  "route_patterns = map (\<lambda>(m, p, f). (m, p)) (routes (\<lambda>_. Redirect [] []))"

definition row_fits :: "string \<Rightarrow> string \<Rightarrow> string \<times> string \<Rightarrow> bool" where
  "row_fits m path row \<longleftrightarrow> fst row = m \<and> path_fits (snd row) path"

definition router_ok :: "router \<Rightarrow> bool" where
  "router_ok match \<longleftrightarrow>
     (\<forall>m path i params. match m path = Some (i, params) \<longrightarrow>
        i < length route_patterns \<and> row_fits m path (route_patterns ! i))"

text \<open>A router: the first row whose method and literal path agree.\<close>

definition first_match :: router where
  "first_match m path =
     (case filter (\<lambda>i. row_fits m path (route_patterns ! i)) [0..<length route_patterns] of
        [] \<Rightarrow> None
      | i # rest \<Rightarrow> Some (i, []))"

lemma first_match_ok: "router_ok first_match"
proof -
  have "i < length route_patterns \<and> row_fits m path (route_patterns ! i)"
    if "first_match m path = Some (i, params)" for m path i params
  proof -
    from that obtain rest where "filter (\<lambda>i. row_fits m path (route_patterns ! i)) [0..<length route_patterns] = i # rest"
      by (auto simp: first_match_def split: list.split_asm)
    then have "i \<in> set (filter (\<lambda>i. row_fits m path (route_patterns ! i)) [0..<length route_patterns])" by simp
    then show ?thesis by simp
  qed
  then show ?thesis by (auto simp: router_ok_def)
qed

section \<open>Functions of the templates\<close>

definition formatDateTimeInput :: "formatter \<Rightarrow> time option \<Rightarrow> string" where
  "formatDateTimeInput format t = (case t of None \<Rightarrow> [] | Some x \<Rightarrow> format ''2006-01-02T15:04'' x)"

definition formatTime :: "formatter \<Rightarrow> Locale \<Rightarrow> time option \<Rightarrow> string" where
  "formatTime format locale t = FormatTimeForLocale format locale t"

definition formatDateTime :: "formatter \<Rightarrow> Locale \<Rightarrow> time option \<Rightarrow> string" where
  "formatDateTime format locale t = FormatDateTimeForLocale format locale t"

text \<open>\<open>load\<close> is \<^verbatim>\<open>time.LoadLocation\<close>, \<open>utc\<close> is \<^verbatim>\<open>time.UTC\<close>.\<close>

definition loadAppLocation :: "(string \<Rightarrow> goerr + 'loc) \<Rightarrow> 'loc \<Rightarrow> string \<Rightarrow> 'loc" where
  "loadAppLocation load utc name = (case load name of Inl err \<Rightarrow> utc | Inr loc \<Rightarrow> loc)"

section \<open>What is logged\<close>

text \<open>
  The failed ping in the log: which of the errors of the standard library it is, and never its text, which may hold the
  database's address.  The three tests are \<^verbatim>\<open>errors.Is\<close> and \<^verbatim>\<open>errors.As\<close> on the error.
\<close>

definition sanitizeReadyError ::
  "(goerr \<Rightarrow> bool) \<Rightarrow> (goerr \<Rightarrow> bool) \<Rightarrow> (goerr \<Rightarrow> bool) \<Rightarrow> goerr option \<Rightarrow> string" where
  "sanitizeReadyError canceled deadlineExceeded timeout ping =
     (case ping of
        None \<Rightarrow> []
      | Some err \<Rightarrow>
          if canceled err then ''context canceled''
          else if deadlineExceeded err then ''deadline exceeded''
          else if timeout err then ''timeout'' else ''ping failed'')"

record request_line =
  rl_method :: string
  rl_path :: string
  rl_duration :: int

text \<open>\<open>start\<close> and \<open>finish\<close> are the clock before and after.\<close>

definition requestLog ::
  "time \<Rightarrow> time \<Rightarrow> handler \<Rightarrow> panel \<Rightarrow> Request \<Rightarrow> server \<Rightarrow> ((goerr + answer) \<times> server) \<times> request_line" where
  "requestLog start finish next_handler h r s =
     (next_handler h r s, \<lparr>rl_method = r_method r, rl_path = r_path r, rl_duration = finish - start\<rparr>)"

end
