(* ===== verification/Server_Frames.thy ===== *)
theory Server_Frames
  imports Server Panel
begin

text \<open>
  What the handlers may do to the world: each ends in tables that statements of the code lead to
  (\<open>sql_reach\<close>), the ones outside the guards leave the tables and the agents alone
  (\<open>untouched\<close>), and so does the server that routes requests to them.
\<close>

section \<open>Frames of the handlers\<close>

text \<open>Every read is a step of no statements, and asks no agent.\<close>

lemma same_steps: "within (db_rel tables_same) m \<Longrightarrow> within (db_rel sql_reach) m"
  by (auto simp: within_def db_rel_def tables_same_def)

lemma reads_same [within_intros]:
  "within (db_rel tables_same) (NodeRepo_DashboardStats e t)"
  "within (db_rel tables_same) (NodeRepo_AssignedUserCounts e)"
  "within (db_rel tables_same) (NodeRepo_RecentEvents e n)"
  "within (db_rel tables_same) (NodeRepo_RecentEventsByNode e k n)"
  "within (db_rel tables_same) (UserRepo_DashboardStats e t)"
  "within (db_rel tables_same) (UserRepo_UpcomingExpirations e n)"
  "within (db_rel tables_same) (UserRepo_AssignmentCounts e)"
  "within (db_rel tables_same) (UserRepo_AccessDetailForUser e k)"
  "within (db_rel tables_same) (UserRepo_AccessDetailForNode e k)"
  "within (db_rel tables_same) (UserRepo_AccessForUser e k)"
  "within (db_rel tables_same) (UserRepo_AccessByID e k a)"
  "within (db_rel tables_same) (UserRepo_GetByToken e k)"
  "within (db_rel tables_same) (UserRepo_ActiveAccessForSubscription e k)"
  unfolding NodeRepo_DashboardStats_def NodeRepo_AssignedUserCounts_def NodeRepo_RecentEvents_def
    NodeRepo_RecentEventsByNode_def UserRepo_DashboardStats_def UserRepo_UpcomingExpirations_def
    UserRepo_AssignmentCounts_def UserRepo_AccessDetailForUser_def UserRepo_AccessDetailForNode_def
    UserRepo_AccessForUser_def UserRepo_AccessByID_def UserRepo_GetByToken_def
    UserRepo_ActiveAccessForSubscription_def
  by ((rule same.effect_rules within_intros same.D_refl | simp)+)

lemmas reads_steps [within_intros] =
  reads_same [THEN same_steps] telemetry_reads(1-6) [THEN same_steps]

lemma asks_steps: "within only_asks m \<Longrightarrow> within (db_rel sql_reach) m"
  by (auto simp: within_def only_asks_def db_rel_def)

lemmas telemetry_steps [within_intros] = panel_pages.pages_frame [THEN asks_steps]

context preorder_on_tables begin

lemma handleErr_within:
  "within (db_rel D) m \<Longrightarrow> (\<And>x. within (db_rel D) (k x)) \<Longrightarrow> within (db_rel D) (handleErr r m k)"
  unfolding handleErr_def by (intro effect_rules)

lemma or_zero_within: "within (db_rel D) m \<Longrightarrow> within (db_rel D) (or_zero z m)"
  unfolding or_zero_def by (intro effect_rules)

lemma decodeJSON_within:
  "(\<And>x. within (db_rel D) (k x)) \<Longrightarrow> within (db_rel D) (decodeJSON h r d z k)"
  unfolding decodeJSON_def by (intro effect_rules)

lemma ask_node_within:
  "within (db_rel D) (NodeRepo_Get (pn_env h) (URLParam r ''id'')) \<Longrightarrow> within (db_rel D) m \<Longrightarrow>
   within (db_rel D) (ask_node h r m f g)"
  unfolding ask_node_def Let_def by (intro effect_rules)

lemma api_action_within: "within (db_rel D) m \<Longrightarrow> within (db_rel D) (api_action m j)"
  unfolding api_action_def by (intro effect_rules)

lemma given_or_token_within: "within (db_rel D) (given_or_token e g p n)"
  unfolding given_or_token_def or_zero_def by (intro effect_rules)

lemma userStatus_within: "within (db_rel D) (userStatus e locale u)"
  unfolding userStatus_def IsUserExpired_def IsUserExpiringSoon_def by (intro effect_rules)

lemma list_item_within: "within (db_rel D) (list_item e locale c u)"
  unfolding list_item_def by (intro effect_rules userStatus_within)

lemma expiry_text_within: "within (db_rel D) (subscriptionExpiryText e f locale x)"
  unfolding subscriptionExpiryText_def by (intro effect_rules)

lemma sync_round_within:
  assumes "\<And>k. within (db_rel D) (SyncNode e k)" and "\<And>k. within (db_rel D) (NodeRepo_Get e k)"
  shows "within (db_rel D) (sync_after_change e k s)"
  unfolding sync_after_change_def by (intro effect_rules assms)

lemma sync_loop_within:
  assumes "\<And>k. within (db_rel D) (SyncNode e k)" and "\<And>k. within (db_rel D) (NodeRepo_Get e k)"
  shows "within (db_rel D) (syncNodesAfterChange e ids)"
  unfolding syncNodesAfterChange_def by (intro effect_rules sync_round_within assms)

lemma sync_and_tell_within:
  assumes "\<And>k. within (db_rel D) (SyncNode (pn_env h) k)" and "\<And>k. within (db_rel D) (NodeRepo_Get (pn_env h) k)"
  shows "within (db_rel D) (sync_and_tell h r ids p f g)"
  unfolding sync_and_tell_def syncNodesAfterChangeForUI_def Let_def by (intro effect_rules sync_loop_within assms)

lemmas handler_rules = handleErr_within or_zero_within decodeJSON_within ask_node_within api_action_within
  given_or_token_within userStatus_within list_item_within expiry_text_within

end

lemma userNodeIDs_steps [within_intros]: "within (db_rel sql_reach) (userNodeIDs e k)"
  unfolding userNodeIDs_def by (intro steps.effect_rules within_intros)

lemma sync_steps [within_intros]:
  "within (db_rel sql_reach) (syncNodesAfterChange e ids)"
  "within (db_rel sql_reach) (sync_and_tell h r ids p f g)"
  "within (db_rel sql_reach) (syncUserAssignments e k)"
  "within (db_rel sql_reach) (syncUserAssignmentsForUI h locale k)"
  unfolding syncUserAssignments_def syncUserAssignmentsForUI_def
  by (intro steps.sync_loop_within steps.sync_and_tell_within steps.effect_rules within_intros)+

lemma pages_steps:
  "within (db_rel sql_reach) (Dashboard h r)" "within (db_rel sql_reach) (Sessions h r)"
  "within (db_rel sql_reach) (Nodes h r)" "within (db_rel sql_reach) (NodeDetail h r)"
  "within (db_rel sql_reach) (EditNodePage h r)" "within (db_rel sql_reach) (Users h r)"
  "within (db_rel sql_reach) (UserDetail h r)"
  unfolding Dashboard_def Sessions_def Nodes_def NodeDetail_def EditNodePage_def Users_def UserDetail_def Let_def
  by ((rule within_intros steps.handler_rules steps.effect_rules)+)

lemma node_actions_steps:
  "within (db_rel sql_reach) (handle_CreateNode h r)" "within (db_rel sql_reach) (handle_ValidateNodeStatus h r)"
  "within (db_rel sql_reach) (handle_UpdateNode h r)" "within (db_rel sql_reach) (handle_DeleteNode h r)"
  "within (db_rel sql_reach) (NodeHealth h r)" "within (db_rel sql_reach) (NodeStatus h r)"
  "within (db_rel sql_reach) (handle_SyncNode h r)" "within (db_rel sql_reach) (handle_SyncAllNodes h r)"
  unfolding handle_CreateNode_def handle_ValidateNodeStatus_def handle_UpdateNode_def handle_DeleteNode_def
    NodeHealth_def NodeStatus_def handle_SyncNode_def handle_SyncAllNodes_def Let_def
  by ((rule within_intros steps.handler_rules steps.effect_rules)+)

lemma user_actions_steps:
  "within (db_rel sql_reach) (handle_CreateUser h r)" "within (db_rel sql_reach) (handle_UpdateUser h r)"
  "within (db_rel sql_reach) (handle_DeleteUser h r)" "within (db_rel sql_reach) (handle_EnableUser h r)"
  "within (db_rel sql_reach) (handle_DisableUser h r)" "within (db_rel sql_reach) (handle_AssignNode h r)"
  "within (db_rel sql_reach) (handle_UnassignNode h r)" "within (db_rel sql_reach) (EnableUserNodeAccess h r)"
  "within (db_rel sql_reach) (DisableUserNodeAccess h r)" "within (db_rel sql_reach) (SyncUserNodes h r)"
  unfolding handle_CreateUser_def handle_UpdateUser_def handle_DeleteUser_def handle_EnableUser_def
    handle_DisableUser_def handle_AssignNode_def handle_UnassignNode_def EnableUserNodeAccess_def
    DisableUserNodeAccess_def SyncUserNodes_def Let_def
  by ((rule within_intros steps.handler_rules steps.effect_rules)+)

lemma api_steps:
  "within (db_rel sql_reach) (APICreateUser h r)" "within (db_rel sql_reach) (APIGetUser h r)"
  "within (db_rel sql_reach) (APIUpdateUser h r)" "within (db_rel sql_reach) (APIEnableUser h r)"
  "within (db_rel sql_reach) (APIDisableUser h r)" "within (db_rel sql_reach) (APIAssignNode h r)"
  "within (db_rel sql_reach) (APIUnassignNode h r)" "within (db_rel sql_reach) (APISyncUser h r)"
  "within (db_rel sql_reach) (APIUserSubscription h r)" "within (db_rel sql_reach) (APIListNodes h r)"
  "within (db_rel sql_reach) (APICreateNode h r)" "within (db_rel sql_reach) (APIGetNode h r)"
  "within (db_rel sql_reach) (APIUpdateNode h r)" "within (db_rel sql_reach) (APINodeHealth h r)"
  "within (db_rel sql_reach) (APINodeStatus h r)" "within (db_rel sql_reach) (APISyncNode h r)"
  "within (db_rel sql_reach) (APISyncAllNodes h r)"
  unfolding APICreateUser_def APIGetUser_def APIUpdateUser_def APIEnableUser_def APIDisableUser_def
    api_set_enabled_def APIAssignNode_def APIUnassignNode_def APISyncUser_def APIUserSubscription_def
    APIListNodes_def APICreateNode_def APIGetNode_def APIUpdateNode_def APINodeHealth_def APINodeStatus_def
    APISyncNode_def APISyncAllNodes_def Let_def
  by ((rule within_intros steps.handler_rules steps.effect_rules)+)

section \<open>The server\<close>

definition server_rel :: "(db \<Rightarrow> db \<Rightarrow> bool) \<Rightarrow> server \<Rightarrow> server \<Rightarrow> bool" where
  "server_rel D s s' \<longleftrightarrow> D (w_db (rest_state s)) (w_db (rest_state s'))"

lemma server_rel_preorder: "preorder_on_tables D \<Longrightarrow> preorder_on_states (server_rel D)"
  unfolding preorder_on_tables_def preorder_on_states_def server_rel_def by blast

interpretation served: preorder_on_states "server_rel sql_reach"
  by (rule server_rel_preorder) (rule steps.preorder_on_tables_axioms)

lemma on_world_within: "within (db_rel D) (m h r) \<Longrightarrow> within (server_rel D) (on_world m h r)"
  by (auto simp: within_def db_rel_def server_rel_def on_world_def split: prod.split) (metis snd_conv)

context preorder_on_states begin

lemma reconcile_within:
  assumes deps: "within R (UsersPending r)" "\<And>k. within R (ActiveNodeIDs r k)"
    "\<And>k. within R (MarkSynced r k)" "\<And>k. within R (syncNode r k)" "within R (now_clock r)"
  shows "within R (reconcile r)"
  unfolding reconcile_def collect_user_def sync_one_def finish_user_def mark_user_def Let_def
  by ((rule rules deps)+)

end

lemma reconcile_steps: "within (db_rel sql_reach) (reconcile (panel_expiry e))"
proof -
  have reads: "within (db_rel tables_same) (UserRepo_UsersPendingExpiryReconcile e)"
    "within (db_rel tables_same) (UserRepo_ActiveNodeIDsForExpiredUser e k)" for k
    unfolding UserRepo_UsersPendingExpiryReconcile_def UserRepo_ActiveNodeIDsForExpiredUser_def
    by ((rule same.effect_rules within_intros same.D_refl | simp)+)
  show ?thesis
    by (rule steps.reconcile_within; simp only: panel_expiry_def expiry_deps.simps)
      (rule reads [THEN same_steps] within_intros steps.effect_rules)+
qed

lemma RunOnce_steps: "within (server_rel sql_reach) (RunOnce (panel_expiry e))"
proof (rule withinI)
  fix s :: server
  have "db_rel sql_reach (rest_state s) (snd (reconcile (panel_expiry e) (rest_state s)))"
    using reconcile_steps [of e] by (simp add: within_def)
  then show "server_rel sql_reach s (snd (RunOnce (panel_expiry e) s))"
    by (auto simp: RunOnce_def tryAcquire_def release_def server_rel_def db_rel_def steps.D_refl split: prod.split)
qed

section \<open>Handlers that only look\<close>

text \<open>Nothing is written and no agent is asked.\<close>

definition untouched :: "world \<Rightarrow> world \<Rightarrow> bool" where
  "untouched w w' \<longleftrightarrow> w_db w' = w_db w \<and> w_requests w' = w_requests w"

interpretation looks: preorder_on_states untouched
  by unfold_locales (auto simp: untouched_def)

lemma read_untouched: "within (db_rel tables_same) m \<Longrightarrow> within sends_nothing m \<Longrightarrow> within untouched m"
  by (auto simp: within_def untouched_def db_rel_def tables_same_def sends_nothing_def)

lemma query_untouched: "within untouched (query e q)"
  by (rule read_untouched [OF same.query_within silent_effects(2)])

lemma clock_untouched: "within untouched (clock e)"
  by (simp add: within_def untouched_def clock_def)

lemmas look_rules = looks.rules query_untouched clock_untouched

lemma untouched_steps: "within untouched m \<Longrightarrow> within (db_rel sql_reach) m"
  by (auto simp: within_def untouched_def db_rel_def)

context preorder_on_states begin

lemma BuildByToken_within:
  assumes deps: "\<And>k. within R (sd_GetByToken d k)" "\<And>k. within R (sd_ActiveAccess d k)" "within R (sd_clock d)"
  shows "within R (BuildByToken d s token format)"
  unfolding BuildByToken_def expired_now_def by ((rule rules deps)+)

end

lemma subscription_untouched:
  "within untouched (BuildByToken (panel_subscription e) s token format)"
proof -
  have quiet: "within sends_nothing (UserRepo_ActiveAccessForSubscription e k)" for k
    unfolding UserRepo_ActiveAccessForSubscription_def by (rule silent_effects)
  have "within untouched (UserRepo_GetByToken e k)" "within untouched (UserRepo_ActiveAccessForSubscription e k)" for k
    unfolding UserRepo_GetByToken_def by (rule query_untouched read_untouched reads_same quiet)+
  then show ?thesis
    by (intro looks.BuildByToken_within) (simp_all add: panel_subscription_def clock_untouched)
qed

lemma public_untouched:
  "within untouched (readyHandler h r)" "within untouched (handle_Subscription h r)"
  "within untouched (LoginPage r)" "within untouched (Login h r)" "within untouched (SetLanguage h r)"
  unfolding readyHandler_def handle_Subscription_def LoginPage_def Login_def SetLanguage_def Let_def
    UserRepo_GetByToken_def
  by (rule look_rules subscription_untouched)+

lemmas public_steps = public_untouched [THEN untouched_steps]

section \<open>Serving\<close>

lemma expiry_handlers_steps:
  "within (server_rel sql_reach) (ReconcileExpiredUsers h r)"
  "within (server_rel sql_reach) (APIReconcileExpiredUsers h r)"
  unfolding ReconcileExpiredUsers_def APIReconcileExpiredUsers_def Let_def
  by (rule served.rules RunOnce_steps)+

lemma ui_routes_steps: "(m, p, f) \<in> set ui_routes \<Longrightarrow> within (server_rel sql_reach) (f h r)"
  unfolding ui_routes_def
  by (auto intro!: on_world_within pages_steps node_actions_steps user_actions_steps expiry_handlers_steps)

lemma api_routes_steps: "(m, p, f) \<in> set api_routes \<Longrightarrow> within (server_rel sql_reach) (f h r)"
  unfolding api_routes_def by (auto intro!: on_world_within api_steps expiry_handlers_steps)

lemma public_routes_steps: "(m, p, f) \<in> set (public_routes static) \<Longrightarrow> within (server_rel sql_reach) (f h r)"
  unfolding public_routes_def health_def by (auto intro!: on_world_within public_steps served.rules)

lemma guards_within:
  assumes "preorder_on_states R" and "within R (f h r)"
  shows "within R (UIAuth f h r)" "within R (APIAuth f h r)"
  using assms(2) preorder_on_states.pure(1) [OF assms(1)]
  by (auto simp: UIAuth_def APIAuth_def Let_def split: option.split)

lemma routes_steps: "(m, p, f) \<in> set (routes static) \<Longrightarrow> within (server_rel sql_reach) (f h r)"
  by (auto simp: routes_def guard_route_def
      intro: public_routes_steps guards_within [OF served.preorder_on_states_axioms] ui_routes_steps api_routes_steps)

lemma route_count: "length route_patterns = length (routes static)"
  by (simp add: route_patterns_def routes_def public_routes_def)

lemma serve_steps:
  assumes "router_ok match"
  shows "within (server_rel sql_reach) (serve match static h r)"
proof (cases "match (r_method r) (r_path r)")
  case None
  then show ?thesis by (simp add: serve_def served.pure)
next
  case (Some row)
  obtain i params where row: "row = (i, params)" by (cases row)
  obtain m p f where route: "routes static ! i = (m, p, f)" by (cases "routes static ! i")
  have "i < length (routes static)"
    using assms Some unfolding router_ok_def row route_count [of static, symmetric] by blast
  then have "(m, p, f) \<in> set (routes static)" using nth_mem route by metis
  then show ?thesis using Some by (simp add: serve_def row route routes_steps)
qed

end
