(* ===== verification/Server_Claims.thy ===== *)
theory Server_Claims
  imports Server_Frames Expiry_Panel Samples
begin

text \<open>
  The properties of the server as a whole: what serving requests does to the tables, what a
  request without credentials can do, what deleting a user leaves, and that a change synchronises
  each listed node once.
\<close>

section \<open>A concrete panel\<close>

definition sample_config :: Config where
  "sample_config =
     \<lparr>cf_app_env = ''prod'', cf_http_addr = '':8080'', cf_app_timezone = ''UTC'', cf_public_base_url = [],
      cf_panel_public_base_url = ''https://panel'', cf_subscription_public_base_url = ''https://sub'',
      cf_subscription_profile_title = ''Vetka'', cf_subscription_update_interval_hours = 12,
      cf_expiry_reconcile_enabled = True, cf_expiry_reconcile_interval = 60, cf_database_url = ''db'',
      cf_admin_username = ''admin'', cf_admin_password = ''pass'', cf_admin_api_token = ''key'',
      cf_backend_public_ip = [], cf_node_agent_default_port = 8090\<rparr>"

definition sample_panel :: panel where
  "sample_panel =
     \<lparr>pn_cfg = sample_config, pn_env = sample_env, pn_format = (\<lambda>_ _. []), pn_parse_local = (\<lambda>_. None),
      pn_json_time = (\<lambda>_. None), pn_float = (\<lambda>_. None), pn_body_error = (\<lambda>_. []),
      pn_schedule = no_deadline\<rparr>"

definition sample_request :: "string \<Rightarrow> string \<Rightarrow> Request" where
  "sample_request m path =
     \<lparr>r_method = m, r_path = path, r_request_uri = path, r_query = [], r_post = [], r_form_error = False,
      r_cookies = [], r_authorization = [], r_body = [], r_params = []\<rparr>"

definition sample_server :: server where
  "sample_server = \<lparr>running = False, rest_state = sample_world\<rparr>"

section \<open>The server's runs\<close>

text \<open>
  A run of the server: it serves requests and lets the expiry loop work, in any order; each time
  the answers of the database, the clocks and the agents and the schedule of the workers, all in
  the panel \<open>h\<close> and the environment \<open>e\<close>, may be others.
\<close>

inductive server_run :: "router \<Rightarrow> (Request \<Rightarrow> answer) \<Rightarrow> server \<Rightarrow> server \<Rightarrow> bool"
  for match static where
  started: "server_run match static s s"
| request: "server_run match static s s1 \<Longrightarrow> serve match static h r s1 = (ans, s2) \<Longrightarrow> server_run match static s s2"
| expiry: "server_run match static s s1 \<Longrightarrow> runIteration (panel_expiry e) s1 = (ans, s2) \<Longrightarrow>
    server_run match static s s2"

lemma runIteration_steps: "within (server_rel sql_reach) (runIteration (panel_expiry e))"
  unfolding runIteration_def by (rule served.ignore) (rule RunOnce_steps)

lemma server_run_steps:
  assumes "router_ok match" and "server_run match static s s'"
  shows "server_rel sql_reach s s'"
  using assms(2)
proof (induction rule: server_run.induct)
  case (started s)
  show ?case by (rule served.R_refl)
next
  case (request s s1 r ans s2)
  then show ?case using withinD [OF serve_steps [OF assms(1)]] served.R_trans by blast
next
  case (expiry s s1 ans s2)
  then show ?case using withinD [OF runIteration_steps] served.R_trans by blast
qed

section \<open>Properties\<close>

text \<open>The rows of the table that lie behind no guard, and the answers a guard gives.\<close>

definition outside_guards :: "string \<Rightarrow> string \<Rightarrow> bool" where
  "outside_guards m path \<longleftrightarrow> list_ex (\<lambda>(m', p, f). row_fits m path (m', p)) (public_routes (\<lambda>_. Redirect [] []))"

definition refusals :: "(goerr + answer) set" where
  "refusals = Inr ` {TextError 404 ''404 page not found'', Document 405 [] [], TextError 401 ''unauthorized'', Redirect ''/login'' []}"

lemma not_routed_refused: "Inr (not_routed match path) \<in> refusals"
  by (simp add: not_routed_def refusals_def)

lemma ui_rows_not_exempt:
  assumes "(m', p, f) \<in> set ui_routes" and "path_fits p path"
  shows "\<not> ui_exempt path"
proof -
  have "list_all (\<lambda>(m', p, f). literal_part p = p \<and> \<not> ui_exempt p
      \<or> HasPrefix (literal_part p) ''/nodes/'' \<or> HasPrefix (literal_part p) ''/users/'') ui_routes"
    unfolding ui_routes_def by (simp, code_simp)
  then have "literal_part p = p \<and> \<not> ui_exempt p
      \<or> HasPrefix (literal_part p) ''/nodes/'' \<or> HasPrefix (literal_part p) ''/users/''"
    using assms(1) by (auto simp: list_all_iff)
  then show ?thesis
    using assms(2) by (auto simp: path_fits_def ui_exempt_def HasPrefix_iff split: if_split_asm)
qed

lemma guarded_row:
  assumes "router_ok match" and "match (r_method r) (r_path r) = Some (i, params)"
  obtains (public) f m p where "routes static ! i = (m, p, f)" "(m, p, f) \<in> set (public_routes static)"
      "outside_guards (r_method r) (r_path r)"
  | (ui) f m p where "routes static ! i = (m, p, UIAuth f)" "\<not> ui_exempt (r_path r)"
  | (api) f m p where "routes static ! i = (m, p, APIAuth f)"
proof -
  have i: "i < length (routes static)" and fits: "row_fits (r_method r) (r_path r) (route_patterns ! i)"
    using assms unfolding router_ok_def route_count [of static, symmetric] by blast+
  obtain m p g where row: "routes static ! i = (m, p, g)" by (cases "routes static ! i")
  have same: "route_patterns = map (\<lambda>(m, p, f). (m, p)) (routes static)"
    by (simp add: route_patterns_def routes_def public_routes_def)
  have "route_patterns ! i = (m, p)" unfolding same using i row by simp
  with fits have mp: "r_method r = m" "path_fits p (r_path r)" by (auto simp: row_fits_def)
  have "(m, p, g) \<in> set (routes static)" using i row nth_mem by metis
  then consider "(m, p, g) \<in> set (public_routes static)"
    | f where "g = UIAuth f" "(m, p, f) \<in> set ui_routes" | f where "g = APIAuth f"
    by (auto simp: routes_def guard_route_def)
  then show thesis
  proof cases
    case 1
    have "map (\<lambda>(m, p, f). (m, p)) (public_routes static) = map (\<lambda>(m, p, f). (m, p)) (public_routes (\<lambda>_. Redirect [] []))"
      by (simp add: public_routes_def)
    from arg_cong [OF this, of set] 1
    have "(m, p) \<in> (\<lambda>(m, p, f). (m, p)) ` set (public_routes (\<lambda>_. Redirect [] []))" by (force simp: image_iff)
    then have "outside_guards (r_method r) (r_path r)"
      using mp by (auto simp: outside_guards_def list_ex_iff row_fits_def)
    with 1 row show thesis by (intro public) auto
  next
    case 2
    with row mp ui_rows_not_exempt show thesis by (intro ui) auto
  next
    case 3
    with row show thesis by (intro api) auto
  qed
qed

definition server_untouched :: "server \<Rightarrow> server \<Rightarrow> bool" where
  "server_untouched s s' \<longleftrightarrow> untouched (rest_state s) (rest_state s') \<and> running s' = running s"

interpretation idle: preorder_on_states server_untouched
  by unfold_locales (auto simp: server_untouched_def untouched_def)

lemma on_world_untouched: "within untouched (m h r) \<Longrightarrow> within server_untouched (on_world m h r)"
  by (auto simp: within_def server_untouched_def on_world_def split: prod.split) (metis snd_conv)

lemma public_routes_untouched:
  "(m, p, f) \<in> set (public_routes static) \<Longrightarrow> within server_untouched (f h r)"
  unfolding public_routes_def health_def by (auto intro!: on_world_untouched public_untouched idle.rules)

text \<open>
  C3: what a request without credentials can do.  With neither the administrator's token in the
  cookie nor in the \<^verbatim>\<open>Authorization\<close> header, no request changes the tables, asks an agent
  anything or starts the expiry loop, whatever its method, path and body are; and off the public
  routes it is only answered by not-found, method-not-allowed, unauthorised or the way to the login page.
\<close>

theorem unauthenticated_requests_change_nothing:
  assumes "router_ok match"
    and "Cookie r ''vetka_admin'' \<noteq> Some (cf_admin_api_token (pn_cfg h))"
    and "TrimPrefix (r_authorization r) ''Bearer '' \<noteq> cf_admin_api_token (pn_cfg h)"
    and "serve match static h r s = (ans, s')"
  shows "w_db (rest_state s') = w_db (rest_state s) \<and> w_requests (rest_state s') = w_requests (rest_state s)
    \<and> running s' = running s \<and> (\<not> outside_guards (r_method r) (r_path r) \<longrightarrow> ans \<in> refusals)"
proof (cases "match (r_method r) (r_path r)")
  case None
  then show ?thesis using assms(4) by (auto simp: serve_def retE_def not_routed_refused)
next
  case (Some row)
  obtain i params where row: "match (r_method r) (r_path r) = Some (i, params)" using Some by (cases row) simp
  let ?r = "r\<lparr>r_params := params\<rparr>"
  show ?thesis
  proof (rule guarded_row [OF assms(1) row, of static])
    fix f m p
    assume "routes static ! i = (m, p, f)" "(m, p, f) \<in> set (public_routes static)" "outside_guards (r_method r) (r_path r)"
    moreover from this have "server_untouched s s'"
      using assms(4) row withinD [OF public_routes_untouched] by (simp add: serve_def)
    ultimately show ?thesis by (simp add: server_untouched_def untouched_def)
  next
    fix f m p
    assume "routes static ! i = (m, p, UIAuth f)" "\<not> ui_exempt (r_path r)"
    then show ?thesis
      using assms(2,4) row by (auto simp: serve_def UIAuth_def Cookie_def retE_def refusals_def split: option.split_asm)
  next
    fix f m p
    assume "routes static ! i = (m, p, APIAuth f)"
    then show ?thesis using assms(3,4) row by (auto simp: serve_def APIAuth_def Let_def retE_def refusals_def)
  qed
qed

lemma unauthenticated_requests_change_nothing_witness:
  "w_db (rest_state (snd (serve first_match (\<lambda>_. Redirect [] []) sample_panel
     (sample_request ''POST'' ''/users/u1/delete'') sample_server))) = sample_db"
proof -
  let ?r = "sample_request ''POST'' ''/users/u1/delete''"
  have "Cookie ?r ''vetka_admin'' \<noteq> Some (cf_admin_api_token (pn_cfg sample_panel))"
    by (simp add: Cookie_def sample_request_def)
  moreover have "TrimPrefix (r_authorization ?r) ''Bearer '' \<noteq> cf_admin_api_token (pn_cfg sample_panel)"
    by (simp add: sample_request_def sample_panel_def sample_config_def TrimPrefix_def)
  ultimately show ?thesis
    using unauthenticated_requests_change_nothing [OF first_match_ok, of ?r sample_panel
        "\<lambda>_. Redirect [] []" sample_server, OF _ _ prod.collapse [symmetric]]
    by (simp add: sample_server_def)
qed


text \<open>The prefix of the header is optional: a bare token is accepted too.\<close>

lemma APIAuth_takes_bare_token:
  assumes "r_authorization r = cf_admin_api_token (pn_cfg h)" and "cf_admin_api_token (pn_cfg h) \<noteq> []"
    and "\<not> HasPrefix (cf_admin_api_token (pn_cfg h)) ''Bearer ''"
  shows "APIAuth f h r = f h r"
  using assms by (simp add: APIAuth_def TrimPrefix_def Let_def)

section \<open>Deleting a user\<close>

lemma exec_delete_user:
  assumes "UserRepo_Delete e k w = (Inr x, w')"
  obtains key where "env_parse_uuid e k = Some key" and "t_users (w_db w') = filter (\<lambda>u. u_id u \<noteq> key) (t_users (w_db w))"
    and "t_access (w_db w') = filter (\<lambda>a. a_user_id a \<noteq> key) (t_access (w_db w))" and "t_nodes (w_db w') = t_nodes (w_db w)"
  using assms unfolding UserRepo_Delete_def
  by (elim exec_Inr) (auto simp: uuid_arg_def delete_user_def split: option.splits)

lemma userNodeIDs_same: "within (db_rel tables_same) (userNodeIDs e k)"
  unfolding userNodeIDs_def by (intro same.effect_rules reads_same)

lemma sync_and_tell_frames:
  "within (db_rel people_same) (sync_and_tell h r ids p f g)"
  "within (db_rel same_ids) (sync_and_tell h r ids p f g)"
  by (rule people.sync_and_tell_within ids.sync_and_tell_within; rule SyncNode_frames within_intros)+

text \<open>What follows a change never fails: it is answered by a redirect that tells of the nodes.\<close>

lemma sync_and_tell_answers: "\<exists>t cs w'. sync_and_tell h r ids p f g w = (Inr (Redirect t cs), w')"
proof -
  have "\<exists>s1 w1. sync_after_change e k s w = (Inr s1, w1)" for e k s w
    by (cases s) (auto simp: sync_after_change_def bindE_def attemptE_def retE_def split: sum.splits prod.splits)
  then obtain s' w' where "forE (sync_after_change (pn_env h)) ids ([], []) w = (Inr s', w')"
    using forE_total by metis
  then show ?thesis
    by (cases s') (auto simp: sync_and_tell_def syncNodesAfterChangeForUI_def syncNodesAfterChange_def redirectWithFlash_def Let_def bindE_def retE_def)
qed

text \<open>
  C19: deleting a user.  Any answer but the internal error means that the user's id was readable
  and that the user and exactly this user's assignments are gone, all other users, assignments
  and nodes being kept, whatever happens in the synchronisations that follow.
\<close>

theorem DeleteUser_removes:
  assumes "handle_DeleteUser h r w = (ans, w')" and "ans \<noteq> Inr (internal_error r)"
  shows "\<exists>key. env_parse_uuid (pn_env h) (URLParam r ''id'') = Some key
    \<and> t_users (w_db w') = filter (\<lambda>u. u_id u \<noteq> key) (t_users (w_db w))
    \<and> t_access (w_db w') = filter (\<lambda>a. a_user_id a \<noteq> key) (t_access (w_db w))
    \<and> n_id ` set (t_nodes (w_db w')) = n_id ` set (t_nodes (w_db w))"
proof -
  let ?e = "pn_env h" and ?id = "URLParam r ''id''"
  obtain got w1 where one: "userNodeIDs ?e ?id w = (got, w1)" by force
  have same: "w_db w1 = w_db w"
    using withinD [OF userNodeIDs_same one] by (simp add: db_rel_def tables_same_def)
  obtain ans2 w2 where two: "UserRepo_Delete ?e ?id w1 = (ans2, w2)" by force
  have run: "got = Inr nodeIDs \<and> ans2 = Inr ()
      \<and> sync_and_tell h r nodeIDs ''/users'' ''user_deleted_sync_failed'' ''user_deleted_synced'' w2 = (ans, w')"
    if "got = Inr nodeIDs" for nodeIDs
    using assms one two that
    by (cases ans2) (auto simp: handle_DeleteUser_def handleErr_def Let_def bindE_def attemptE_def retE_def)
  obtain nodeIDs where got: "got = Inr nodeIDs"
    using assms one by (cases got) (auto simp: handle_DeleteUser_def handleErr_def Let_def bindE_def attemptE_def retE_def)
  note run = run [OF got]
  obtain key where key: "env_parse_uuid ?e ?id = Some key"
      "t_users (w_db w2) = filter (\<lambda>u. u_id u \<noteq> key) (t_users (w_db w1))"
      "t_access (w_db w2) = filter (\<lambda>a. a_user_id a \<noteq> key) (t_access (w_db w1))"
      "t_nodes (w_db w2) = t_nodes (w_db w1)"
    using two run by (auto elim: exec_delete_user)
  have "people_same (w_db w2) (w_db w')" "same_ids (w_db w2) (w_db w')"
    using run withinD [OF sync_and_tell_frames(1)] withinD [OF sync_and_tell_frames(2)] by (auto simp: db_rel_def)
  then show ?thesis using key same by (auto simp: people_same_def same_ids_def)
qed

lemma DeleteUser_removes_witness:
  "t_users (w_db (snd (handle_DeleteUser sample_panel ((sample_request ''POST'' ''/users/u1/delete'')\<lparr>r_params := [(''id'', ''u1'')]\<rparr>)
     sample_world))) = [sample_expired]"
proof -
  let ?r = "(sample_request ''POST'' ''/users/u1/delete'')\<lparr>r_params := [(''id'', ''u1'')]\<rparr>"
  have "\<exists>ids w1. userNodeIDs sample_env ''u1'' sample_world = (Inr ids, w1) \<and> env_fault sample_env (w_tick w1) = None"
    by (simp add: userNodeIDs_def UserRepo_AccessForUser_def bindE_def retE_def exec_def uuid_arg_def reading_def Let_def)
  then obtain ids w1 where one: "userNodeIDs sample_env ''u1'' sample_world = (Inr ids, w1)" by blast
  obtain w2 where two: "UserRepo_Delete sample_env ''u1'' w1 = (Inr (), w2)"
    by (simp add: UserRepo_Delete_def exec_def uuid_arg_def delete_user_def Let_def)
  have at: "URLParam ?r ''id'' = ''u1''" "pn_env sample_panel = sample_env"
    by (simp_all add: URLParam_def first_value_def sample_panel_def)
  let ?told = "sync_and_tell sample_panel ?r ids ''/users'' ''user_deleted_sync_failed'' ''user_deleted_synced''"
  have "handle_DeleteUser sample_panel ?r sample_world = ?told w2"
    unfolding handle_DeleteUser_def handleErr_def Let_def at
    by (simp only: bindE_def attemptE_def one two prod.case sum.case)
  moreover obtain t cs w3 where "?told w2 = (Inr (Redirect t cs), w3)" using sync_and_tell_answers by blast
  ultimately have "fst (handle_DeleteUser sample_panel ?r sample_world) \<noteq> Inr (internal_error ?r)"
    by (simp only: internal_error_def fst_conv sum.inject response.distinct not_False_eq_True)
  from DeleteUser_removes [OF prod.collapse [symmetric] this] show ?thesis
    by (simp add: sample_request_def URLParam_def first_value_def sample_panel_def sample_db_def sample_user_def sample_expired_def)
qed

section \<open>Each listed node once\<close>

text \<open>The step for a node that is named, with the errors as the only variable.\<close>

definition sync_named :: "env \<Rightarrow> string \<Rightarrow> string list \<Rightarrow> string list act" where
  "sync_named e nodeID errs =
     bindE (attemptE (NodeRepo_Get e nodeID)) (\<lambda>got.
       case got of
         Inl err \<Rightarrow> retE (errs @ [formatRawNodeSyncError nodeID err])
       | Inr node \<Rightarrow>
           if \<not> n_enabled node then retE errs
           else bindE (attemptE (SyncNode e nodeID)) (\<lambda>ans. retE (errs @ sync_error nodeID ans)))"

lemma sync_after_change_named:
  "sync_after_change e k (seen, errs) w =
     (if k = [] \<or> k \<in> set seen then (Inr (seen, errs), w)
      else case sync_named e k errs w of (ans, w') \<Rightarrow> (map_sum id (Pair (k # seen)) ans, w'))"
  by (auto simp: sync_after_change_def sync_named_def bindE_def attemptE_def retE_def split: sum.splits prod.splits)

lemma sync_loop_named:
  "(case forE (sync_after_change e) ids (seen, errs) w of (ans, w') \<Rightarrow> (map_sum id snd ans, w'))
     = forE (sync_named e) (dedupe_from seen ids) errs w"
proof (induction ids arbitrary: seen errs w)
  case (Cons k ids)
  show ?case
  proof (cases "k = [] \<or> k \<in> set seen")
    case True
    then have "forE (sync_after_change e) (k # ids) (seen, errs) w = forE (sync_after_change e) ids (seen, errs) w"
      by (simp add: bindE_def sync_after_change_named)
    then show ?thesis using True Cons by simp
  next
    case False
    then show ?thesis
      using Cons [of "k # seen"]
      by (cases "sync_named e k errs w"; cases "fst (sync_named e k errs w)")
        (auto simp: bindE_def sync_after_change_named)
  qed
qed (simp add: retE_def)

text \<open>
  C30: after a change every listed node is synchronised once.  Synchronising a list of node ids
  does exactly what synchronising its distinct non-empty ids in their order does, step for step:
  the same calls, the same errors in the same order and the same final state.
\<close>

theorem syncNodesAfterChange_once_each:
  "syncNodesAfterChange e ids = forE (sync_named e) (dedupeStrings ids) []"
proof
  fix w
  have "syncNodesAfterChange e ids w =
      (case forE (sync_after_change e) ids ([], []) w of (ans, w') \<Rightarrow> (map_sum id snd ans, w'))"
    by (auto simp: syncNodesAfterChange_def bindE_def retE_def split: sum.splits prod.splits)
  then show "syncNodesAfterChange e ids w = forE (sync_named e) (dedupeStrings ids) [] w"
    by (simp add: sync_loop_named dedupeStrings_def)
qed

end
