(* ===== verification/Redirects.thy ===== *)
theory Redirects
  imports View_Helpers
begin

text \<open>
  Where a redirect to a target taken from a form can lead: \<^verbatim>\<open>safeReturnTo\<close> and the
  \<^verbatim>\<open>Location\<close> that \<^verbatim>\<open>http.Redirect\<close> sends for its result stay on the panel's site.
\<close>

section \<open>Targets on this site\<close>

text \<open>
  One slash, not two, no backslash (which browsers read as a slash) and no control character.
\<close>

definition plain_char :: "char \<Rightarrow> bool" where
  "plain_char c \<longleftrightarrow> c \<noteq> CHR 0x5C \<and> 32 \<le> byte c \<and> byte c \<noteq> 127"

definition on_site :: "string \<Rightarrow> bool" where
  "on_site t \<longleftrightarrow> HasPrefix t ''/'' \<and> \<not> HasPrefix t ''//'' \<and> list_all plain_char t"

lemma on_site_root: "on_site ''/''"
  by code_simp

lemma on_site_cases: "on_site t \<longleftrightarrow> (\<exists>u. t = CHR ''/'' # u \<and> (u = [] \<or> hd u \<noteq> CHR ''/'') \<and> list_all plain_char t)"
  by (cases t rule: remdups_adj.cases) (auto simp: on_site_def HasPrefix_def)

section \<open>Parsing keeps the beginning\<close>

lemma CutByte_fst_prefix: "\<exists>t. s = fst (CutByte s c) @ t"
  by (auto simp: CutByte_def split: option.split) (metis append_take_drop_id)

lemma unescape_slash: "unescape (CHR ''/'' # s) encodePath = map_option ((#) (CHR ''/'')) (unescape s encodePath)"
  by (simp add: map_option_case)

lemma ParseRequestURI_rooted:
  assumes "ParseRequestURI v = Some (RootedPath path escaped)" and "unescape escaped encodePath = Some decoded"
    and "HasPrefix decoded ''/''" and "\<not> HasPrefix decoded ''//''" and "CHR 0x5C \<notin> set v"
  shows "on_site v"
proof -
  have control: "list_all (\<lambda>c. 32 \<le> byte c \<and> byte c \<noteq> 127) v" and "v \<noteq> []"
    using assms(1) by (auto simp: ParseRequestURI_def list_all_iff list_ex_iff not_less split: if_split_asm)
  then have plain: "list_all plain_char v" using assms(5) by (auto simp: list_all_iff plain_char_def)
  show ?thesis
  proof (cases "v = ''*''")
    case True
    then have "escaped = ''*''" using assms(1) by (auto simp: ParseRequestURI_def split: if_split_asm)
    then have "decoded = ''*''" using assms(2) by simp
    with assms(3) show ?thesis by (simp add: HasPrefix_def)
  next
    case False
    then obtain rest where scheme: "getScheme v = Some ([], rest)"
      and rooted: "HasPrefix (fst (CutByte rest (CHR ''?''))) ''/''"
      and path: "unescape (fst (CutByte rest (CHR ''?''))) encodePath = Some path"
      and escaped: "escaped = EscapedPath (fst (CutByte rest (CHR ''?''))) path"
      using assms(1) unfolding ParseRequestURI_def Let_def
      by (auto split: if_split_asm option.split_asm)
    have "rest = v" using scheme getScheme_none \<open>v \<noteq> []\<close> unfolding getScheme_def by blast
    have "decoded = path" using assms(2) unfolding escaped unescape_EscapedPath by simp
    obtain u where u: "fst (CutByte v (CHR ''?'')) = CHR ''/'' # u"
      using rooted \<open>rest = v\<close> by (auto simp: HasPrefix_iff)
    have single: "\<not> HasPrefix u ''/''"
    proof
      assume "HasPrefix u ''/''"
      then obtain t where "u = CHR ''/'' # t" by (auto simp: HasPrefix_iff)
      then obtain p where "path = CHR ''/'' # CHR ''/'' # p"
        using path u \<open>rest = v\<close> by (auto simp only: unescape_slash map_option_eq_Some)
      then show False using assms(4) \<open>decoded = path\<close> by (simp add: HasPrefix_def)
    qed
    obtain t where v: "v = CHR ''/'' # u @ t" using CutByte_fst_prefix [of v] u by (metis append_Cons)
    show ?thesis
    proof (cases u)
      case (Cons c u')
      with single have "c \<noteq> CHR ''/''" by (simp add: HasPrefix_def)
      then show ?thesis unfolding on_site_cases using plain v Cons by simp
    next
      case Nil
      have "t = [] \<or> hd t \<noteq> CHR ''/''"
      proof (cases "IndexByte v (CHR ''?'')")
        case None
        then show ?thesis using u v Nil by (simp add: CutByte_def)
      next
        case (Some i)
        then have "take i v = ''/''" using u Nil by (simp add: CutByte_def)
        then have "i = 1 \<or> v = ''/''" using v Nil by (cases i; cases t) auto
        then show ?thesis using Some v Nil by (cases t) (auto split: if_split_asm)
      qed
      then show ?thesis unfolding on_site_cases using plain v Nil by simp
    qed
  qed
qed

lemma safeReturnTo_on_site: "on_site (safeReturnTo s)"
proof (cases "safeReturnTo s = ''/''")
  case True
  then show ?thesis by (simp add: on_site_root)
next
  case False
  then show ?thesis
    unfolding safeReturnTo_def Let_def PathUnescape_def
    by (auto simp: list_ex_iff split: if_split_asm option.split_asm request_uri.split_asm
        intro!: ParseRequestURI_rooted)
qed

section \<open>The Location header\<close>

lemma SplitByte_parts: "w \<in> set (SplitByte s c) \<Longrightarrow> c \<notin> set w \<and> set w \<subseteq> set s"
proof (induction s c arbitrary: w rule: SplitByte.induct)
  case (2 x s sep)
  then show ?case by (cases "SplitByte s sep") (auto split: if_split_asm, blast)
qed simp

lemma clean_parts_set: "w \<in> set (clean_parts out ps) \<Longrightarrow> w \<in> set out \<or> w \<in> set ps \<and> w \<noteq> []"
  by (induction out ps rule: clean_parts.induct) (auto split: if_split_asm dest: in_set_dropD)

lemma set_Join: "set (Join ws sep) \<subseteq> \<Union> (set ` set ws) \<union> set sep"
  by (induction ws sep rule: Join.induct) auto

lemma hd_Join: "Join (w # ws) sep = [] \<or> w = [] \<or> hd (Join (w # ws) sep) = hd w"
  by (cases ws) auto

lemma CleanRooted_on_site:
  assumes "list_all plain_char p"
  shows "on_site (CleanRooted p)"
proof -
  define ws where "ws = clean_parts [] (SplitByte p (CHR ''/''))"
  have part: "w \<noteq> [] \<and> CHR ''/'' \<notin> set w \<and> set w \<subseteq> set p" if "w \<in> set ws" for w
    using clean_parts_set SplitByte_parts that unfolding ws_def by fastforce
  have "Join ws ''/'' = [] \<or> hd (Join ws ''/'') \<noteq> CHR ''/''"
  proof (cases ws)
    case (Cons w rest)
    then show ?thesis using part [of w] hd_Join [of w rest "''/''"] by (metis hd_in_set list.set_intros(1))
  qed simp
  moreover have "list_all plain_char (''/'' @ Join ws ''/'')"
    using set_Join [of ws "''/''"] part assms on_site_root
    by (auto simp: list_all_iff on_site_def)
  ultimately show ?thesis
    unfolding on_site_cases CleanRooted_def ws_def [symmetric] by simp
qed


lemma on_site_append:
  "on_site a \<Longrightarrow> a = ''/'' \<longrightarrow> q = [] \<or> hd q \<noteq> CHR ''/'' \<Longrightarrow> list_all plain_char q \<Longrightarrow> on_site (a @ q)"
  unfolding on_site_cases by (auto simp: hd_append)

lemma list_all_take: "list_all P s \<Longrightarrow> list_all P (take n s)"
  by (auto simp: list_all_iff dest: in_set_takeD)

lemma list_all_drop: "list_all P s \<Longrightarrow> list_all P (drop n s)"
  by (auto simp: list_all_iff dest: in_set_dropD)

lemma IndexByte_at: "IndexByte s c = Some i \<Longrightarrow> i < length s \<and> s ! i = c"
  by (induction s arbitrary: i) (auto split: if_split_asm)

lemma clean_target_on_site:
  assumes "list_all plain_char t"
  shows "on_site (clean_target t)"
proof -
  define p where "p = (case IndexByte t (CHR ''?'') of None \<Rightarrow> t | Some i \<Rightarrow> take i t)"
  define q where "q = (case IndexByte t (CHR ''?'') of None \<Rightarrow> [] | Some i \<Rightarrow> drop i t)"
  have plain: "list_all plain_char p" "list_all plain_char q"
    using assms by (auto simp: p_def q_def list_all_take list_all_drop split: option.split)
  have q: "q = [] \<or> hd q \<noteq> CHR ''/''"
    by (auto simp: q_def hd_drop_conv_nth dest!: IndexByte_at split: option.split)
  have clean: "on_site (CleanRooted p)" using plain(1) by (rule CleanRooted_on_site)
  have "on_site (if HasSuffix p ''/'' \<and> \<not> HasSuffix (CleanRooted p) ''/'' then CleanRooted p @ ''/'' else CleanRooted p)"
  proof (cases "CleanRooted p = ''/''")
    case True
    then show ?thesis by (simp add: on_site_root HasSuffix_def)
  next
    case False
    moreover have "list_all plain_char ''/''" using on_site_root by (simp add: on_site_def)
    ultimately show ?thesis using clean on_site_append [OF clean, of "''/''"] by simp
  qed
  then show ?thesis
    unfolding clean_target_def Let_def p_def [symmetric] q_def [symmetric]
    using q plain(2) by (intro on_site_append) auto
qed

lemma hex_digit_on_site: "plain_char (hex_digit n) \<and> hex_digit n \<noteq> CHR ''/''"
proof -
  have "\<forall>k \<in> set [0..<16]. plain_char (hex_digit k) \<and> hex_digit k \<noteq> CHR ''/''" by code_simp
  then have "plain_char (hex_digit (n mod 16)) \<and> hex_digit (n mod 16) \<noteq> CHR ''/''" by simp
  then show ?thesis by (simp add: hex_digit_def)
qed

lemma hexEscapeNonASCII_on_site:
  assumes "on_site t"
  shows "on_site (hexEscapeNonASCII t)"
proof -
  obtain u where t: "t = CHR ''/'' # u" "u = [] \<or> hd u \<noteq> CHR ''/''" "list_all plain_char u"
    using assms unfolding on_site_cases by auto
  have "plain_char (CHR ''%'')" by code_simp
  then have "list_all plain_char (hexEscapeNonASCII u)"
    using t(3) hex_digit_on_site by (auto simp: hexEscapeNonASCII_def list_all_iff)
  moreover have "hexEscapeNonASCII u = [] \<or> hd (hexEscapeNonASCII u) \<noteq> CHR ''/''"
    using t(2) by (cases u) (auto simp: hexEscapeNonASCII_def)
  moreover have "hexEscapeNonASCII t = CHR ''/'' # hexEscapeNonASCII u"
    by (simp add: t(1) hexEscapeNonASCII_def)
  moreover have "plain_char (CHR ''/'')" by code_simp
  ultimately show ?thesis unfolding on_site_cases by simp
qed

section \<open>The property\<close>

text \<open>
  C23: a redirect whose target comes from a form or from the address of a page stays on the
  panel's site, whatever the text is: the target is the text without its outer spaces or the root,
  and both the target and the \<^verbatim>\<open>Location\<close> sent for it are paths with one leading slash, without
  backslashes and control characters, so that no browser takes them for another host.
\<close>

theorem safeReturnTo_stays_on_site:
  "safeReturnTo s \<in> {''/'', TrimSpace s} \<and> on_site (safeReturnTo s) \<and> on_site (Location (safeReturnTo s))"
proof -
  have "safeReturnTo s \<in> {''/'', TrimSpace s}"
    by (simp add: safeReturnTo_def Let_def split: option.split request_uri.split)
  moreover have "on_site (Location (safeReturnTo s))"
    unfolding Location_def using safeReturnTo_on_site [of s] clean_target_on_site [of "safeReturnTo s"]
    by (intro hexEscapeNonASCII_on_site) (simp add: on_site_def)
  ultimately show ?thesis using safeReturnTo_on_site by blast
qed

end
