(* ===== verification/Migrate.thy ===== *)
theory Migrate
  imports World Go_Unicode
begin

text \<open>
  internal/db/db.go and internal/db/migrations.go: connecting, and bringing the tables to the
  version of the program.  What PostgreSQL makes of the text of a migration is the parameter
  \<open>run_sql\<close> on a schema of any type; each call may be refused or its reply lost, as in the rest
  of the model.
\<close>

section \<open>The migrations\<close>

record Migration =
  mg_version :: string
  mg_SQL :: string

definition sql_001_initial :: string where
  "sql_001_initial =
     Join
     [[],
      ''create extension if not exists pgcrypto;'',
      [],
      ''create table nodes ('',
      ''  id uuid primary key default gen_random_uuid(),'',
      ''  node_id text unique not null,'',
      ''  name text not null,'',
      ''  domain text not null,'',
      ''  api_url text not null,'',
      ''  protocol_type text not null check (protocol_type in ('' @ [CHR 0x27] @ ''naive'' @ [CHR 0x27] @ '', '' @ [CHR 0x27] @ ''mieru'' @ [CHR 0x27] @ '')),'',
      ''  node_secret text not null,'',
      ''  enabled boolean not null default true,'',
      ''  desired_config_version bigint not null default 0,'',
      ''  last_applied_version bigint not null default 0,'',
      ''  last_seen_at timestamptz,'',
      ''  last_status text,'',
      ''  last_error text,'',
      ''  last_sync_at timestamptz,'',
      ''  created_at timestamptz not null default now(),'',
      ''  updated_at timestamptz not null default now()'',
      '');'',
      [],
      ''create table users ('',
      ''  id uuid primary key default gen_random_uuid(),'',
      ''  username text unique not null,'',
      ''  display_name text,'',
      ''  enabled boolean not null default true,'',
      ''  expires_at timestamptz,'',
      ''  subscription_token text unique not null,'',
      ''  notes text,'',
      ''  created_at timestamptz not null default now(),'',
      ''  updated_at timestamptz not null default now()'',
      '');'',
      [],
      ''create table user_node_access ('',
      ''  id uuid primary key default gen_random_uuid(),'',
      ''  user_id uuid not null references users(id) on delete cascade,'',
      ''  node_id uuid not null references nodes(id) on delete cascade,'',
      ''  protocol_type text not null check (protocol_type in ('' @ [CHR 0x27] @ ''naive'' @ [CHR 0x27] @ '', '' @ [CHR 0x27] @ ''mieru'' @ [CHR 0x27] @ '')),'',
      ''  protocol_username text not null,'',
      ''  protocol_password text not null,'',
      ''  enabled boolean not null default true,'',
      ''  created_at timestamptz not null default now(),'',
      ''  updated_at timestamptz not null default now(),'',
      ''  unique(user_id, node_id)'',
      '');'',
      [],
      ''create table node_sync_events ('',
      ''  id uuid primary key default gen_random_uuid(),'',
      ''  node_id uuid references nodes(id) on delete cascade,'',
      ''  config_version bigint not null,'',
      ''  status text not null,'',
      ''  http_status int,'',
      ''  request_json jsonb,'',
      ''  response_json jsonb,'',
      ''  error text,'',
      ''  created_at timestamptz not null default now()'',
      '');'',
      [],
      ''create index idx_user_node_access_node_id on user_node_access(node_id);'',
      ''create index idx_user_node_access_user_id on user_node_access(user_id);'',
      ''create index idx_node_sync_events_node_id_created_at on node_sync_events(node_id, created_at desc);'',
      [],
      ''create or replace function touch_updated_at() returns trigger as $$'',
      ''begin'',
      ''  new.updated_at = now();'',
      ''  return new;'',
      ''end;'',
      ''$$ language plpgsql;'',
      [],
      ''create trigger nodes_touch_updated_at before update on nodes for each row execute function touch_updated_at();'',
      ''create trigger users_touch_updated_at before update on users for each row execute function touch_updated_at();'',
      ''create trigger access_touch_updated_at before update on user_node_access for each row execute function touch_updated_at();'',
      [],
      ''create or replace function enforce_access_protocol() returns trigger as $$'',
      ''declare node_protocol text;'',
      ''begin'',
      ''  select protocol_type into node_protocol from nodes where id = new.node_id;'',
      ''  if node_protocol is null then'',
      ''    raise exception '' @ [CHR 0x27] @ ''node not found'' @ [CHR 0x27] @ '';'',
      ''  end if;'',
      ''  if new.protocol_type <> node_protocol then'',
      ''    raise exception '' @ [CHR 0x27] @ ''access protocol_type must match node protocol_type'' @ [CHR 0x27] @ '';'',
      ''  end if;'',
      ''  return new;'',
      ''end;'',
      ''$$ language plpgsql;'',
      [],
      ''create trigger access_protocol_match before insert or update on user_node_access for each row execute function enforce_access_protocol();'',
      [],
      ''create or replace function prevent_node_protocol_change_with_access() returns trigger as $$'',
      ''begin'',
      ''  if old.protocol_type <> new.protocol_type and exists(select 1 from user_node_access where node_id = old.id) then'',
      ''    raise exception '' @ [CHR 0x27] @ ''cannot change node protocol_type while user assignments exist'' @ [CHR 0x27] @ '';'',
      ''  end if;'',
      ''  return new;'',
      ''end;'',
      ''$$ language plpgsql;'',
      [],
      ''create trigger node_protocol_change_guard before update on nodes for each row execute function prevent_node_protocol_change_with_access();'',
      []] [CHR 0x0A]"

definition sql_002_node_setup_state :: string where
  "sql_002_node_setup_state =
     Join
     [[],
      ''alter table nodes'',
      ''  add column if not exists setup_state text not null default '' @ [CHR 0x27] @ ''planned'' @ [CHR 0x27],
      ''  check (setup_state in ('' @ [CHR 0x27] @ ''planned'' @ [CHR 0x27] @ '', '' @ [CHR 0x27] @ ''connected'' @ [CHR 0x27] @ '', '' @ [CHR 0x27] @ ''unreachable'' @ [CHR 0x27] @ '', '' @ [CHR 0x27] @ ''disabled'' @ [CHR 0x27] @ ''));'',
      []] [CHR 0x0A]"

definition sql_003_node_protocol_settings :: string where
  "sql_003_node_protocol_settings =
     Join
     [[],
      ''alter table nodes'',
      ''  add column if not exists protocol_settings jsonb not null default '' @ [CHR 0x27] @ ''{}'' @ [CHR 0x27] @ ''::jsonb;'',
      []] [CHR 0x0A]"

definition sql_004_user_quota_mb :: string where
  "sql_004_user_quota_mb =
     Join
     [[],
      ''alter table users'',
      ''  add column if not exists quota_mb integer not null default 0;'',
      []] [CHR 0x0A]"

definition sql_005_user_expiry_synced_at :: string where
  "sql_005_user_expiry_synced_at =
     Join
     [[],
      ''alter table users'',
      ''  add column if not exists expiry_synced_at timestamptz;'',
      []] [CHR 0x0A]"

definition Migrations :: "Migration list" where
  "Migrations =
     [\<lparr>mg_version = ''001_initial'', mg_SQL = sql_001_initial\<rparr>,
      \<lparr>mg_version = ''002_node_setup_state'', mg_SQL = sql_002_node_setup_state\<rparr>,
      \<lparr>mg_version = ''003_node_protocol_settings'', mg_SQL = sql_003_node_protocol_settings\<rparr>,
      \<lparr>mg_version = ''004_user_quota_mb'', mg_SQL = sql_004_user_quota_mb\<rparr>,
      \<lparr>mg_version = ''005_user_expiry_synced_at'', mg_SQL = sql_005_user_expiry_synced_at\<rparr>]"

section \<open>Connecting\<close>

text \<open>
  \<^verbatim>\<open>pgxpool.New\<close> and \<^verbatim>\<open>Ping\<close> are parameters; the second component says that the pool
  was closed again.
\<close>

definition Connect :: "(string \<Rightarrow> goerr + 'pool) \<Rightarrow> ('pool \<Rightarrow> goerr option) \<Rightarrow> string \<Rightarrow> (goerr + 'pool) \<times> bool" where
  "Connect new_pool ping databaseURL =
     (case new_pool databaseURL of
        Inl err \<Rightarrow> (Inl err, False)
      | Inr pool \<Rightarrow> (case ping pool of Some err \<Rightarrow> (Inl err, True) | None \<Rightarrow> (Inr pool, False)))"

definition NormalizeProtocol :: "string \<Rightarrow> goerr + string" where
  "NormalizeProtocol p =
     (let protocol = ToLower (TrimSpace p) in
      if protocol \<noteq> ''naive'' \<and> protocol \<noteq> ''mieru''
      then Inl (Errorf ''protocol_type must be naive or mieru'') else Inr protocol)"

section \<open>Migrating\<close>

text \<open>The table \<^verbatim>\<open>schema_migrations\<close>, absent at first, beside everything else the database holds.\<close>

record 's migrator =
  mr_tick :: nat
  mr_versions :: "string list option"
  mr_schema :: 's

type_synonym faults = "nat \<Rightarrow> fault option"

definition call :: "faults \<Rightarrow> ('s migrator \<Rightarrow> goerr + 'a \<times> 's migrator) \<Rightarrow> ('s migrator, 'a) io" where
  "call f stmt w =
     (let w' = w\<lparr>mr_tick := Suc (mr_tick w)\<rparr> in
      case f (mr_tick w) of
        Some (Refused err) \<Rightarrow> (Inl err, w')
      | Some (ReplyLost err) \<Rightarrow> (case stmt w' of Inl err' \<Rightarrow> (Inl err', w') | Inr (x, w'') \<Rightarrow> (Inl err, w''))
      | None \<Rightarrow> (case stmt w' of Inl err' \<Rightarrow> (Inl err', w') | Inr (x, w'') \<Rightarrow> (Inr x, w'')))"

definition create_versions :: "'s migrator \<Rightarrow> goerr + unit \<times> 's migrator" where
  "create_versions w =
     Inr ((), if mr_versions w = None then w\<lparr>mr_versions := Some []\<rparr> else w)"

definition no_relation :: goerr where
  "no_relation = Errorf ''relation schema_migrations does not exist''"

definition version_exists :: "string \<Rightarrow> 's migrator \<Rightarrow> goerr + bool \<times> 's migrator" where
  "version_exists v w =
     (case mr_versions w of None \<Rightarrow> Inl no_relation | Some vs \<Rightarrow> Inr (v \<in> set vs, w))"

definition run_statement :: "(string \<Rightarrow> 's \<Rightarrow> goerr + 's) \<Rightarrow> string \<Rightarrow> 's migrator \<Rightarrow> goerr + unit \<times> 's migrator" where
  "run_statement run_sql sql w =
     (case run_sql sql (mr_schema w) of Inl err \<Rightarrow> Inl err | Inr s \<Rightarrow> Inr ((), w\<lparr>mr_schema := s\<rparr>))"

text \<open>\<^verbatim>\<open>version\<close> is the primary key.\<close>

definition insert_version :: "string \<Rightarrow> 's migrator \<Rightarrow> goerr + unit \<times> 's migrator" where
  "insert_version v w =
     (case mr_versions w of
        None \<Rightarrow> Inl no_relation
      | Some vs \<Rightarrow>
          if v \<in> set vs then Inl (Errorf ''duplicate key value violates unique constraint'')
          else Inr ((), w\<lparr>mr_versions := Some (vs @ [v])\<rparr>))"

text \<open>\<^verbatim>\<open>tx.Rollback\<close>: the tables are those at \<^verbatim>\<open>Begin\<close>.\<close>

definition rolled_back :: "'s migrator \<Rightarrow> 's migrator \<Rightarrow> 's migrator" where
  "rolled_back at_begin w = at_begin\<lparr>mr_tick := mr_tick w\<rparr>"

definition commit :: "faults \<Rightarrow> 's migrator \<Rightarrow> ('s migrator, unit) io" where
  "commit f at_begin w =
     (let w' = w\<lparr>mr_tick := Suc (mr_tick w)\<rparr> in
      case f (mr_tick w) of
        Some (Refused err) \<Rightarrow> (Inl err, rolled_back at_begin w')
      | Some (ReplyLost err) \<Rightarrow> (Inl err, w')
      | None \<Rightarrow> (Inr (), w'))"

definition apply_migration :: "faults \<Rightarrow> (string \<Rightarrow> 's \<Rightarrow> goerr + 's) \<Rightarrow> Migration \<Rightarrow> ('s migrator, unit) io" where
  "apply_migration f run_sql m w =
     (case call f (\<lambda>w. Inr ((), w)) w of
        (Inl err, w1) \<Rightarrow> (Inl err, w1)
      | (Inr _, w1) \<Rightarrow>
          (case call f (run_statement run_sql (mg_SQL m)) w1 of
             (Inl err, w2) \<Rightarrow>
               (Inl (Errorf (''migration '' @ mg_version m @ '': '' @ error_text err)), rolled_back w1 w2)
           | (Inr _, w2) \<Rightarrow>
               (case call f (insert_version (mg_version m)) w2 of
                  (Inl err, w3) \<Rightarrow> (Inl err, rolled_back w1 w3)
                | (Inr _, w3) \<Rightarrow> commit f w1 w3)))"

definition migrate_one :: "faults \<Rightarrow> (string \<Rightarrow> 's \<Rightarrow> goerr + 's) \<Rightarrow> Migration \<Rightarrow> ('s migrator, unit) io" where
  "migrate_one f run_sql m =
     bindE (call f (version_exists (mg_version m))) (\<lambda>found.
       if found then retE () else apply_migration f run_sql m)"

definition MigrateWith :: "faults \<Rightarrow> (string \<Rightarrow> 's \<Rightarrow> goerr + 's) \<Rightarrow> Migration list \<Rightarrow> ('s migrator, unit) io" where
  "MigrateWith f run_sql migrations =
     thenE (call f create_versions) (forE (\<lambda>m _. migrate_one f run_sql m) migrations ())"

definition Migrate :: "faults \<Rightarrow> (string \<Rightarrow> 's \<Rightarrow> goerr + 's) \<Rightarrow> ('s migrator, unit) io" where
  "Migrate f run_sql = MigrateWith f run_sql Migrations"

section \<open>The reference\<close>

text \<open>
  What migrating is meant to do, without failures: the migrations that are not recorded, in
  their order, each with its record.
\<close>

fun pending :: "(string \<Rightarrow> 's \<Rightarrow> goerr + 's) \<Rightarrow> Migration list \<Rightarrow> string list \<times> 's \<Rightarrow> goerr + string list \<times> 's" where
  "pending run_sql [] vs = Inr vs"
| "pending run_sql (m # ms) (vs, s) =
     (if mg_version m \<in> set vs then pending run_sql ms (vs, s)
      else case run_sql (mg_SQL m) s of
             Inl err \<Rightarrow> Inl err
           | Inr s' \<Rightarrow> pending run_sql ms (vs @ [mg_version m], s'))"

definition tables_of :: "'s migrator \<Rightarrow> string list \<times> 's" where
  "tables_of w = ((case mr_versions w of None \<Rightarrow> [] | Some vs \<Rightarrow> vs), mr_schema w)"

lemma pending_append:
  "pending run_sql (ms @ ms') x = (case pending run_sql ms x of Inl err \<Rightarrow> Inl err | Inr y \<Rightarrow> pending run_sql ms' y)"
  by (induction run_sql ms x rule: pending.induct) (auto split: sum.split)

lemma pending_records:
  "pending run_sql ms (vs, s) = Inr (vs', s') \<Longrightarrow> set vs' = set vs \<union> mg_version ` set ms"
  by (induction ms arbitrary: vs s) (auto split: if_split_asm sum.split_asm)

lemma pending_recorded:
  "mg_version ` set ms \<subseteq> set vs \<Longrightarrow> pending run_sql (ms @ ms') (vs, s) = pending run_sql ms' (vs, s)"
  by (induction ms) auto

text \<open>A run cut short after some of the migrations is completed by another run.\<close>

lemma pending_resumes:
  assumes "pending run_sql (take k ms) x = Inr y" and "pending run_sql ms y = Inr z"
  shows "pending run_sql ms x = Inr z"
proof -
  obtain vs s vs' s' where xy: "x = (vs, s)" "y = (vs', s')" by (cases x; cases y) simp
  have "mg_version ` set (take k ms) \<subseteq> set vs'" using pending_records [OF assms(1) [unfolded xy]] by simp
  then have "pending run_sql (take k ms @ drop k ms) y = pending run_sql (drop k ms) y"
    unfolding xy by (rule pending_recorded)
  then show ?thesis using assms pending_append [of run_sql "take k ms" "drop k ms" x] by simp
qed

section \<open>The code's runs\<close>

lemma call_cases:
  assumes "call f stmt w = (ans, w')"
  obtains (kept) err where "ans = Inl err" "w' = w\<lparr>mr_tick := Suc (mr_tick w)\<rparr>"
  | (ran) x where "stmt (w\<lparr>mr_tick := Suc (mr_tick w)\<rparr>) = Inr (x, w')" "ans = Inr x \<or> (\<exists>err. ans = Inl err)"
  using assms by (auto simp: call_def Let_def split: option.splits fault.splits sum.splits prod.splits)

lemma tables_of_rolled_back [simp]:
  "tables_of (rolled_back a b) = tables_of a" "mr_versions (rolled_back a b) = mr_versions a"
  by (simp_all add: rolled_back_def tables_of_def)

lemma tables_of_tick [simp]: "tables_of (w\<lparr>mr_tick := n\<rparr>) = tables_of w"
  by (simp add: tables_of_def)

lemma commit_result:
  assumes "commit f a w = (ans, w')"
  shows "mr_versions w' \<in> {mr_versions a, mr_versions w}"
    and "tables_of w' = tables_of a \<and> ans \<noteq> Inr () \<or> tables_of w' = tables_of w"
  using assms by (auto simp: commit_def Let_def rolled_back_def tables_of_def split: option.splits fault.splits)

lemma apply_migration_result:
  assumes run: "apply_migration f run_sql m w = (ans, w')" and vs: "mr_versions w = Some vs" and new: "mg_version m \<notin> set vs"
  shows "(\<exists>vs'. mr_versions w' = Some vs') \<and>
    (tables_of w' = tables_of w \<and> ans \<noteq> Inr () \<or> pending run_sql [m] (tables_of w) = Inr (tables_of w'))"
proof -
  obtain a1 w1 where c1: "call f (\<lambda>w. Inr ((), w)) w = (a1, w1)" by force
  then have w1: "tables_of w1 = tables_of w" "mr_versions w1 = Some vs" by (auto elim!: call_cases simp: vs)
  obtain a2 w2 where c2: "call f (run_statement run_sql (mg_SQL m)) w1 = (a2, w2)" by force
  obtain a3 w3 where c3: "call f (insert_version (mg_version m)) w2 = (a3, w3)" by force
  show ?thesis
  proof (cases "a1 = Inr () \<and> a2 = Inr () \<and> a3 = Inr ()")
    case False
    then have "(\<exists>err. ans = Inl err) \<and> w' \<in> {w1, rolled_back w1 w2, rolled_back w1 w3}"
      using run c1 c2 c3 by (cases a1; cases a2; cases a3) (auto simp: apply_migration_def)
    then show ?thesis using w1 by auto
  next
    case True
    then have commit: "commit f w1 w3 = (ans, w')" using run c1 c2 c3 by (simp add: apply_migration_def)
    obtain s' where s': "run_sql (mg_SQL m) (mr_schema w1) = Inr s'" and w2: "mr_schema w2 = s'" "mr_versions w2 = Some vs"
      using c2 True w1 by (auto elim!: call_cases simp: run_statement_def split: sum.splits)
    have w3: "mr_schema w3 = s'" "mr_versions w3 = Some (vs @ [mg_version m])"
      using c3 True w2 new by (auto elim!: call_cases simp: insert_version_def split: if_splits)
    have "pending run_sql [m] (tables_of w) = Inr (tables_of w3)"
      unfolding w1(1) [symmetric] using s' w1(2) w3 new by (simp add: tables_of_def)
    then show ?thesis using commit_result [OF commit] w1 w3 by auto
  qed
qed

lemma migrate_one_result:
  assumes "migrate_one f run_sql m w = (ans, w')" and "mr_versions w = Some vs"
  shows "(\<exists>vs'. mr_versions w' = Some vs') \<and>
    (tables_of w' = tables_of w \<and> ans \<noteq> Inr () \<or> pending run_sql [m] (tables_of w) = Inr (tables_of w'))"
proof -
  obtain found w1 where ask: "call f (version_exists (mg_version m)) w = (found, w1)" by force
  then have w1: "mr_versions w1 = Some vs" "tables_of w1 = tables_of w"
    and found: "found = Inr (mg_version m \<in> set vs) \<or> (\<exists>err. found = Inl err)"
    using assms(2) by (auto elim!: call_cases simp: version_exists_def tables_of_def)
  show ?thesis
  proof (cases "found = Inr False")
    case True
    then have "apply_migration f run_sql m w1 = (ans, w')" and "mg_version m \<notin> set vs"
      using assms(1) ask found by (auto simp: migrate_one_def bindE_def)
    from apply_migration_result [OF this(1) w1(1) this(2)] show ?thesis by (simp add: w1)
  next
    case False
    then show ?thesis
      using assms ask found w1 by (auto simp: migrate_one_def bindE_def retE_def tables_of_def split: if_split_asm)
  qed
qed

lemma migrate_loop_result:
  assumes "forE (\<lambda>m _. migrate_one f run_sql m) ms () w = (ans, w')" and "mr_versions w = Some vs"
  shows "\<exists>k. pending run_sql (take k ms) (tables_of w) = Inr (tables_of w') \<and> (ans = Inr () \<longrightarrow> k = length ms)"
  using assms
proof (induction ms arbitrary: w vs)
  case (Cons m ms)
  obtain a1 w1 where one: "migrate_one f run_sql m w = (a1, w1)" by force
  from migrate_one_result [OF this Cons.prems(2)]
  obtain vs1 where vs1: "mr_versions w1 = Some vs1"
    and step: "tables_of w1 = tables_of w \<and> a1 \<noteq> Inr () \<or> pending run_sql [m] (tables_of w) = Inr (tables_of w1)"
    by blast
  show ?case
  proof (cases a1)
    case (Inl err)
    then have "w' = w1" "ans = Inl err" using Cons.prems(1) one by (auto simp: bindE_def)
    moreover have "\<exists>k. pending run_sql (take k (m # ms)) (tables_of w) = Inr (tables_of w1)"
      using step by (metis append_Nil pending.simps(1) take0 take_Suc_Cons)
    ultimately show ?thesis by auto
  next
    case (Inr u)
    then have rest: "forE (\<lambda>m _. migrate_one f run_sql m) ms () w1 = (ans, w')" using Cons.prems(1) one by (simp add: bindE_def)
    obtain k where "pending run_sql (take k ms) (tables_of w1) = Inr (tables_of w')" "ans = Inr () \<longrightarrow> k = length ms"
      using Cons.IH [OF rest vs1] by blast
    moreover have "pending run_sql [m] (tables_of w) = Inr (tables_of w1)" using step Inr by simp
    ultimately have "pending run_sql (take (Suc k) (m # ms)) (tables_of w) = Inr (tables_of w')"
      and "ans = Inr () \<longrightarrow> Suc k = length (m # ms)"
      using pending_append [of run_sql "[m]" "take k ms" "tables_of w"] by simp_all
    then show ?thesis by blast
  qed
qed (auto simp: retE_def)

lemma MigrateWith_result:
  assumes "MigrateWith f run_sql ms w = (ans, w')"
  shows "\<exists>k. pending run_sql (take k ms) (tables_of w) = Inr (tables_of w') \<and> (ans = Inr () \<longrightarrow> k = length ms)"
proof -
  obtain made w1 where make: "call f create_versions w = (made, w1)" by force
  then have w1: "tables_of w1 = tables_of w" "made = Inr () \<longrightarrow> (\<exists>vs. mr_versions w1 = Some vs)"
    by (auto elim!: call_cases simp: create_versions_def tables_of_def)
  show ?thesis
  proof (cases made)
    case (Inl err)
    then have "ans = Inl err" "w' = w1" using assms make by (auto simp: MigrateWith_def thenE_def bindE_def)
    then show ?thesis using w1 by (intro exI [of _ 0]) simp
  next
    case (Inr u)
    then have "forE (\<lambda>m _. migrate_one f run_sql m) ms () w1 = (ans, w')"
      using assms make by (simp add: MigrateWith_def thenE_def bindE_def)
    moreover obtain vs where "mr_versions w1 = Some vs" using w1(2) Inr by auto
    ultimately show ?thesis using migrate_loop_result [of f run_sql ms w1 ans w' vs] w1(1) by simp
  qed
qed

section \<open>The property\<close>

text \<open>
  C22: migrations survive failures.  However many attempts to migrate fail, with whatever errors
  and lost replies at whatever call, an attempt that reports success leaves the database as one
  undisturbed application of the unrecorded migrations, each once and in order, to the database
  before the first attempt would, and every migration is recorded.
\<close>

theorem Migrate_resumes_after_failure:
  assumes "Migrate f1 run_sql w = (ans, w1)" and "Migrate f2 run_sql w1 = (Inr (), w2)"
  shows "pending run_sql Migrations (tables_of w) = Inr (tables_of w2)
    \<and> mg_version ` set Migrations \<subseteq> set (fst (tables_of w2))"
proof -
  from MigrateWith_result [OF assms(1) [unfolded Migrate_def]]
  obtain k where one: "pending run_sql (take k Migrations) (tables_of w) = Inr (tables_of w1)" by blast
  have two: "pending run_sql Migrations (tables_of w1) = Inr (tables_of w2)"
    using MigrateWith_result [OF assms(2) [unfolded Migrate_def]] by auto
  have "pending run_sql Migrations (tables_of w) = Inr (tables_of w2)" by (rule pending_resumes [OF one two])
  then show ?thesis using pending_records by (metis Un_upper2 prod.collapse)
qed

text \<open>
  Without failures, and when every migration runs, an attempt succeeds.
\<close>

lemma undisturbed_one:
  assumes "\<And>sql s. \<exists>s'. run_sql sql s = Inr s'" and "mr_versions w = Some vs"
  shows "\<exists>w' vs'. migrate_one (\<lambda>_. None) run_sql m w = (Inr (), w') \<and> mr_versions w' = Some vs'"
proof -
  obtain s' where "run_sql (mg_SQL m) (mr_schema w) = Inr s'" using assms(1) by blast
  then show ?thesis using assms(2)
    by (simp add: migrate_one_def bindE_def call_def version_exists_def apply_migration_def run_statement_def
        insert_version_def commit_def retE_def Let_def)
qed

lemma undisturbed_loop:
  assumes total: "\<And>sql s. \<exists>s'. run_sql sql s = Inr s'" and "mr_versions w = Some vs"
  shows "\<exists>w'. forE (\<lambda>m _. migrate_one (\<lambda>_. None) run_sql m) ms () w = (Inr (), w')"
  using assms(2)
proof (induction ms arbitrary: w vs)
  case (Cons m ms)
  obtain w1 vs1 where "migrate_one (\<lambda>_. None) run_sql m w = (Inr (), w1)" and "mr_versions w1 = Some vs1"
    using undisturbed_one [of run_sql, OF total Cons.prems] by blast
  then show ?case using Cons.IH by (simp add: bindE_def)
qed (simp add: retE_def)

lemma undisturbed_succeeds:
  assumes "\<And>sql s. \<exists>s'. run_sql sql s = Inr s'"
  shows "\<exists>w'. Migrate (\<lambda>_. None) run_sql w = (Inr (), w')"
proof -
  obtain w1 where "call (\<lambda>_. None) create_versions w = (Inr (), w1)"
    by (simp add: call_def create_versions_def Let_def)
  moreover from this obtain vs where vs: "mr_versions w1 = Some vs"
    by (cases "mr_versions w") (auto elim!: call_cases simp: create_versions_def)
  ultimately show ?thesis
    using undisturbed_loop [of run_sql, OF assms vs] by (simp add: Migrate_def MigrateWith_def thenE_def bindE_def)
qed

text \<open>The reply to the first commit is lost; the second attempt completes.\<close>

definition count_sql :: "string \<Rightarrow> nat \<Rightarrow> goerr + nat" where
  "count_sql sql n = Inr (Suc n)"

definition lost_reply :: faults where
  "lost_reply t = (if t = 5 then Some (ReplyLost (Errorf ''timeout'')) else None)"

lemma Migrate_resumes_after_failure_witness:
  "\<exists>w2. tables_of w2 = ([''001_initial'', ''002_node_setup_state'', ''003_node_protocol_settings'',
        ''004_user_quota_mb'', ''005_user_expiry_synced_at''], 5)
     \<and> Migrate (\<lambda>_. None) count_sql (snd (Migrate lost_reply count_sql \<lparr>mr_tick = 0, mr_versions = None, mr_schema = 0\<rparr>))
        = (Inr (), w2)"
proof -
  let ?w = "\<lparr>mr_tick = 0, mr_versions = None, mr_schema = 0\<rparr> :: nat migrator"
  obtain ans w1 where one: "Migrate lost_reply count_sql ?w = (ans, w1)" by force
  obtain w2 where two: "Migrate (\<lambda>_. None) count_sql w1 = (Inr (), w2)"
    using undisturbed_succeeds [of count_sql] by (auto simp: count_sql_def)
  have "pending count_sql Migrations (tables_of ?w) = Inr (tables_of w2)"
    using Migrate_resumes_after_failure [OF one two] by blast
  moreover have "pending count_sql Migrations (tables_of ?w)
      = Inr ([''001_initial'', ''002_node_setup_state'', ''003_node_protocol_settings'',
          ''004_user_quota_mb'', ''005_user_expiry_synced_at''], 5)"
    unfolding Migrations_def by (simp add: tables_of_def count_sql_def)
  ultimately have "tables_of w2 = ([''001_initial'', ''002_node_setup_state'', ''003_node_protocol_settings'',
        ''004_user_quota_mb'', ''005_user_expiry_synced_at''], 5)" by simp
  then show ?thesis using one two by auto
qed

end
