(* ===== verification/Wire_Agents.thy ===== *)
theory Wire_Agents
  imports Wire Agent_Client
begin

text \<open>
  The environment of the panel with the JSON of \<^verbatim>\<open>encoding/json\<close>: replies of the agents are
  read by the decoders and the payload of a synchronisation is written by the encoders of the
  structs.  The other theories take these four functions as parameters, so that all they show
  holds for this environment.
\<close>

section \<open>The payload\<close>

definition agent_user_json :: "(time \<Rightarrow> string option) \<Rightarrow> AgentUser \<Rightarrow> Json option" where
  "agent_user_json fmt u = struct_json (
     [(''id'', string_json (au_id u)), (''username'', string_json (au_username u)),
      (''password'', string_json (au_password u)), (''enabled'', bool_json (au_enabled u))]
     @ omit_if (au_expires_at u = None) ''expires_at'' (ptr_json (time_json fmt) (au_expires_at u))
     @ [(''quota_mb'', int_json (au_quota_mb u)), (''protocols'', list_json string_json (au_protocols u)),
        (''meta'', Some (json_map (map (\<lambda>(k, v). (k, JString v)) (au_meta u))))])"

definition payload_json :: "(time \<Rightarrow> string option) \<Rightarrow> SyncPayload \<Rightarrow> Json option" where
  "payload_json fmt p = struct_json [
     (''node_id'', string_json (sp_node_id p)), (''config_version'', int_json (sp_config_version p)),
     (''protocol_type'', string_json (sp_protocol_type p)),
     (''users'', list_json (agent_user_json fmt) (sp_users p))]"

section \<open>The environment\<close>

definition zero_AgentResponse :: AgentResponse where
  "zero_AgentResponse =
     \<lparr>ar_ok = False, ar_node_id = [], ar_current_version = 0, ar_applied_version = 0, ar_received_version = 0,
      ar_status = [], ar_changed = False, ar_message = [], ar_error = []\<rparr>"

definition zero_TelemetryResponse :: TelemetryResponse where
  "zero_TelemetryResponse =
     \<lparr>tr_ok = False, tr_node_id = [], tr_protocol_type = [], tr_generated_at = None, tr_collector_status = [],
      tr_session_ttl_seconds = 0, tr_history_ttl_seconds = 0, tr_last_successful_collection_at = None,
      tr_capabilities = \<lparr>tc_client_ip = False, tc_per_user_activity = False, tc_traffic_counters = False,
        tc_first_seen = False, tc_last_seen = False\<rparr>,
      tr_warnings = [], tr_sessions = []\<rparr>"

text \<open>\<open>bad body\<close> is the error for a body that does not decode, \<open>refused\<close> the one of \<^verbatim>\<open>Marshal\<close>.\<close>

definition go_json_env :: "(time \<Rightarrow> string option) \<Rightarrow> (string \<Rightarrow> goerr) \<Rightarrow> goerr \<Rightarrow> env \<Rightarrow> env" where
  "go_json_env fmt bad refused e = e
     \<lparr>env_decode_status := read_into dec_agent_status zero_AgentStatusResponse bad,
      env_decode_response := read_into dec_agent_response zero_AgentResponse bad,
      env_decode_telemetry := read_into dec_telemetry zero_TelemetryResponse bad,
      env_encode_payload := (\<lambda>p. case payload_json fmt p of None \<Rightarrow> Inl refused | Some j \<Rightarrow> Inr (marshal j))\<rparr>"

section \<open>What goes over the wire\<close>

definition agent_user_ok :: "(time \<Rightarrow> string option) \<Rightarrow> AgentUser \<Rightarrow> bool" where
  "agent_user_ok fmt u \<longleftrightarrow>
     list_all utf8 ([au_id u, au_username u, au_password u] @ au_protocols u)
     \<and> list_all (\<lambda>(k, v). utf8 k \<and> utf8 v) (au_meta u)
     \<and> (case au_expires_at u of None \<Rightarrow> True | Some t \<Rightarrow> (case fmt t of None \<Rightarrow> False | Some s \<Rightarrow> utf8 s))"

lemma agent_user_json_ok:
  assumes "agent_user_ok fmt u"
  shows "\<exists>j. agent_user_json fmt u = Some j \<and> json_ok 2 j"
proof -
  have keys: "utf8 ''id''" "utf8 ''username''" "utf8 ''password''" "utf8 ''enabled''" "utf8 ''expires_at''"
      "utf8 ''quota_mb''" "utf8 ''protocols''" "utf8 ''meta''"
    by (rule utf8_ascii, simp)+
  show ?thesis using assms keys
    by (cases "au_expires_at u")
      (auto simp: agent_user_json_def encoder_defs agent_user_ok_def json_map_def time_json_def list_all_iff
        split: option.splits)
qed

lemma payload_on_the_wire:
  assumes "utf8 (sp_node_id p)" and "utf8 (sp_protocol_type p)" and "list_all (agent_user_ok fmt) (sp_users p)"
  shows "\<exists>users. payload_json fmt p = Some (JObject
      [(''node_id'', JString (sp_node_id p)), (''config_version'', JInt (sp_config_version p)),
       (''protocol_type'', JString (sp_protocol_type p)), (''users'', JArray users)])
    \<and> map Some users = map (agent_user_json fmt) (sp_users p)
    \<and> unmarshal (marshal (the (payload_json fmt p))) = payload_json fmt p"
proof -
  let ?users = "map (\<lambda>u. the (agent_user_json fmt u)) (sp_users p)"
  have each: "\<exists>j. agent_user_json fmt u = Some j \<and> json_ok 2 j" if "u \<in> set (sp_users p)" for u
    using assms(3) that agent_user_json_ok by (auto simp: list_all_iff)
  have users: "map Some ?users = map (agent_user_json fmt) (sp_users p)" using each by force
  have json: "payload_json fmt p = Some (JObject
      [(''node_id'', JString (sp_node_id p)), (''config_version'', JInt (sp_config_version p)),
       (''protocol_type'', JString (sp_protocol_type p)), (''users'', JArray ?users)])"
    using each by (force simp: payload_json_def encoder_defs list_all_iff)
  have "utf8 ''node_id''" "utf8 ''config_version''" "utf8 ''protocol_type''" "utf8 ''users''"
    by (rule utf8_ascii, simp)+
  moreover have "\<forall>j \<in> set ?users. json_ok 2 j" using each by force
  ultimately have "json_ok 4 (the (payload_json fmt p))" using assms(1,2) by (simp add: json)
  from unmarshal_marshal [OF this] have "unmarshal (marshal (the (payload_json fmt p))) = payload_json fmt p"
    by (simp add: max_nesting_def json)
  with users json show ?thesis by blast
qed

end
