(* ===== verification/Sync_Interleaving.thy ===== *)
theory Sync_Interleaving
  imports Sync_Claims Panel
begin

text \<open>
  Synchronisations of one node that run at the same time, as goroutines of several requests and
  of the expiry loop do: each is \<^verbatim>\<open>SyncNode\<close> of internal/nodes/manager.go cut at its calls of
  the database, and between any two calls the others and every other operation of the panel may
  commit their statements.
\<close>

section \<open>The system\<close>

text \<open>
  What a goroutine sends: the version it was given and when, and the users it read, at which
  reading of the database's clock and when.  Times are positions in the history of the tables.
\<close>

record node_config =
  kc_version :: int
  kc_bumped :: nat
  kc_users :: "AccessWithUser list"
  kc_clock :: time
  kc_read :: nat

text \<open>Where a goroutine is: before \<^verbatim>\<open>BumpVersion\<close>, before \<^verbatim>\<open>ActiveAccessForNode\<close>, before and after the request.\<close>

datatype phase = Begun | Bumped int nat | Loaded node_config | Told node_config

record sync_system =
  y_db :: db
  y_past :: "db list"
  y_bumps :: "(int \<times> nat) list"
  y_procs :: "nat \<Rightarrow> phase option"
  y_sent :: "node_config list"

definition now_at :: "sync_system \<Rightarrow> nat" where
  "now_at s = length (y_past s)"

definition tables_at :: "sync_system \<Rightarrow> nat \<Rightarrow> db" where
  "tables_at s i = (y_past s @ [y_db s]) ! i"

definition commit_tables :: "db \<Rightarrow> sync_system \<Rightarrow> sync_system" where
  "commit_tables d s = s\<lparr>y_db := d, y_past := y_past s @ [y_db s]\<rparr>"

definition set_phase :: "nat \<Rightarrow> phase \<Rightarrow> sync_system \<Rightarrow> sync_system" where
  "set_phase p ph s = s\<lparr>y_procs := (y_procs s)(p \<mapsto> ph)\<rparr>"

text \<open>
  The steps.  \<open>others\<close> is whatever else the panel commits, no node being deleted.  With \<open>retries\<close>
  a goroutine whose request was refused as stale draws a new version, as
  \<^verbatim>\<open>retryFromAgentResponse\<close> does, and sends the users it has.
\<close>

inductive sync_step :: "bool \<Rightarrow> string \<Rightarrow> sync_system \<Rightarrow> sync_system \<Rightarrow> bool" for retries key where
  others: "sql_reach (y_db s) d \<Longrightarrow> versions_advance (y_db s) d \<Longrightarrow> sync_step retries key s (commit_tables d s)"
| begins: "y_procs s p = None \<Longrightarrow> sync_step retries key s (set_phase p Begun s)"
| bumps: "y_procs s p = Some Begun \<Longrightarrow> bump_version t key (y_db s) = Inr (v, d) \<Longrightarrow>
    s1 = commit_tables d s \<Longrightarrow>
    sync_step retries key s (set_phase p (Bumped v (now_at s1)) (s1\<lparr>y_bumps := y_bumps s @ [(v, now_at s1)]\<rparr>))"
| loads: "y_procs s p = Some (Bumped v b) \<Longrightarrow> set us = set (active_access_rows t key (y_db s)) \<Longrightarrow>
    sync_step retries key s (set_phase p (Loaded \<lparr>kc_version = v, kc_bumped = b,
      kc_users = us, kc_clock = t, kc_read = now_at s\<rparr>) s)"
| sends: "y_procs s p = Some (Loaded c) \<Longrightarrow>
    sync_step retries key s (set_phase p (Told c) (s\<lparr>y_sent := y_sent s @ [c]\<rparr>))"
| retries: "retries \<Longrightarrow> y_procs s p = Some (Told c) \<Longrightarrow> bump_version t key (y_db s) = Inr (v, d) \<Longrightarrow>
    s1 = commit_tables d s \<Longrightarrow>
    sync_step retries key s (set_phase p (Loaded (c\<lparr>kc_version := v, kc_bumped := now_at s1\<rparr>))
      (s1\<lparr>y_bumps := y_bumps s @ [(v, now_at s1)]\<rparr>))"

inductive_cases sync_stepE: "sync_step retries key s s'"

abbreviation sync_run :: "bool \<Rightarrow> string \<Rightarrow> sync_system \<Rightarrow> sync_system \<Rightarrow> bool" where
  "sync_run retries key \<equiv> (sync_step retries key)\<^sup>*\<^sup>*"

definition sync_start :: "db \<Rightarrow> sync_system" where
  "sync_start d = \<lparr>y_db = d, y_past = [], y_bumps = [], y_procs = Map.empty, y_sent = []\<rparr>"

section \<open>Histories\<close>

lemma commit_simps [simp]:
  "y_db (commit_tables d s) = d" "y_procs (commit_tables d s) = y_procs s" "y_sent (commit_tables d s) = y_sent s"
  "y_bumps (commit_tables d s) = y_bumps s" "now_at (commit_tables d s) = Suc (now_at s)"
  by (simp_all add: commit_tables_def now_at_def)

lemma phase_simps [simp]:
  "y_db (set_phase p ph s) = y_db s" "y_sent (set_phase p ph s) = y_sent s" "y_bumps (set_phase p ph s) = y_bumps s"
  "now_at (set_phase p ph s) = now_at s" "tables_at (set_phase p ph s) = tables_at s"
  "y_procs (set_phase p ph s) = (y_procs s)(p \<mapsto> ph)"
  by (simp_all add: set_phase_def now_at_def tables_at_def fun_eq_iff)

lemma update_simps [simp]:
  "tables_at (s\<lparr>y_bumps := bs\<rparr>) = tables_at s" "now_at (s\<lparr>y_bumps := bs\<rparr>) = now_at s"
  "tables_at (s\<lparr>y_sent := cs\<rparr>) = tables_at s" "now_at (s\<lparr>y_sent := cs\<rparr>) = now_at s"
  by (simp_all add: tables_at_def now_at_def fun_eq_iff)

lemma tables_at_commit [simp]: "i \<le> now_at s \<Longrightarrow> tables_at (commit_tables d s) i = tables_at s i"
  by (auto simp: tables_at_def commit_tables_def now_at_def nth_append)

lemma tables_at_now [simp]: "tables_at s (now_at s) = y_db s"
  by (simp add: tables_at_def now_at_def)

section \<open>The invariant\<close>

text \<open>
  Versions and bumps go up together, and the node's version is at least the newest one; every
  goroutine has a version of the record of bumps, and what it read it read after its bump.
\<close>

definition newer :: "int \<times> nat \<Rightarrow> int \<times> nat \<Rightarrow> bool" where
  "newer x y \<longleftrightarrow> fst x < fst y \<and> snd x < snd y"

definition config_ok :: "string \<Rightarrow> sync_system \<Rightarrow> node_config \<Rightarrow> bool" where
  "config_ok key s c \<longleftrightarrow> (kc_version c, kc_bumped c) \<in> set (y_bumps s)
     \<and> kc_bumped c \<le> kc_read c \<and> kc_read c \<le> now_at s
     \<and> set (kc_users c) = set (active_access_rows (kc_clock c) key (tables_at s (kc_read c)))"

fun phase_ok :: "string \<Rightarrow> sync_system \<Rightarrow> phase \<Rightarrow> bool" where
  "phase_ok key s Begun = True"
| "phase_ok key s (Bumped v b) = ((v, b) \<in> set (y_bumps s) \<and> b \<le> now_at s)"
| "phase_ok key s (Loaded c) = config_ok key s c"
| "phase_ok key s (Told c) = config_ok key s c"

definition node_version :: "string \<Rightarrow> db \<Rightarrow> int \<Rightarrow> bool" where
  "node_version key d v \<longleftrightarrow> (\<exists>n \<in> set (t_nodes d). n_id n = key \<and> v \<le> n_desired_config_version n)"

definition procs_ok :: "string \<Rightarrow> sync_system \<Rightarrow> bool" where
  "procs_ok key s \<longleftrightarrow> (\<forall>p ph. y_procs s p = Some ph \<longrightarrow> phase_ok key s ph) \<and> (\<forall>c \<in> set (y_sent s). config_ok key s c)"

definition sync_inv :: "string \<Rightarrow> sync_system \<Rightarrow> bool" where
  "sync_inv key s \<longleftrightarrow> db_ok (y_db s) \<and> sorted_wrt newer (y_bumps s)
     \<and> (\<forall>x \<in> set (y_bumps s). snd x \<le> now_at s \<and> node_version key (y_db s) (fst x))
     \<and> procs_ok key s"

lemma procs_okD:
  assumes "sync_inv key s"
  shows "y_procs s p = Some ph \<Longrightarrow> phase_ok key s ph" and "c \<in> set (y_sent s) \<Longrightarrow> config_ok key s c"
  using assms by (auto simp: sync_inv_def procs_ok_def)

lemma config_ok_later:
  "config_ok key s c \<Longrightarrow> set (y_bumps s) \<subseteq> set (y_bumps s') \<Longrightarrow> now_at s \<le> now_at s' \<Longrightarrow>
   (\<And>i. i \<le> now_at s \<Longrightarrow> tables_at s' i = tables_at s i) \<Longrightarrow> config_ok key s' c"
  by (auto simp: config_ok_def)

lemma phase_ok_later:
  "phase_ok key s ph \<Longrightarrow> set (y_bumps s) \<subseteq> set (y_bumps s') \<Longrightarrow> now_at s \<le> now_at s' \<Longrightarrow>
   (\<And>i. i \<le> now_at s \<Longrightarrow> tables_at s' i = tables_at s i) \<Longrightarrow> phase_ok key s' ph"
  by (cases ph) (auto intro: config_ok_later)

lemma bump_result:
  assumes "bump_version t key d = Inr (v, d')" and "db_ok d"
  shows "db_ok d'" and "node_version key d' v" and "node_version key d w \<Longrightarrow> w < v" and "versions_advance d d'"
    and "people_same d d'"
proof -
  obtain old where old: "find (\<lambda>n. n_id n = key) (t_nodes d) = Some old"
    and up: "update_node t key bump_node d = Inr (Some ((bump_node old)\<lparr>n_updated_at := t\<rparr>), d')"
    and v: "v = n_desired_config_version old + 1"
    using assms(1)
    by (auto simp: bump_version_def one_row_def update_node_def Let_def split: option.splits if_splits sum.splits)
  have member: "old \<in> set (t_nodes d)" "n_id old = key" using find_SomeD [OF old] by auto
  show adv: "versions_advance d d'"
    using update_node_versions [of bump_node t key] up by (auto simp: stmt_within_def)
  then show "db_ok d'" using assms(2) by (simp add: versions_advance_def)
  have "d' = d\<lparr>t_nodes := map (\<lambda>n. if n_id n = key then (bump_node old)\<lparr>n_updated_at := t\<rparr> else n) (t_nodes d)\<rparr>"
    using up old by (auto simp: update_node_def Let_def split: if_splits)
  then have "(bump_node old)\<lparr>n_updated_at := t\<rparr> \<in> set (t_nodes d')" and same: "people_same d d'"
    using member by (force simp: people_same_def)+
  then show "node_version key d' v" by (auto simp: node_version_def v member intro!: bexI)
  show "people_same d d'" by (rule same)
  assume "node_version key d w"
  then obtain n where n: "n \<in> set (t_nodes d)" "n_id n = key" "w \<le> n_desired_config_version n"
    by (auto simp: node_version_def)
  have "n = old" using db_okD(1) [OF assms(2)] n(1,2) member by (auto simp: distinct_map inj_on_def)
  then show "w < v" using n(3) v by simp
qed

lemma node_version_advance: "versions_advance d d' \<Longrightarrow> db_ok d \<Longrightarrow> node_version key d v \<Longrightarrow> node_version key d' v"
  by (fastforce simp: versions_advance_def node_version_def)


text \<open>A step keeps what holds of the past: a shared frame for the cases.\<close>

definition later :: "sync_system \<Rightarrow> sync_system \<Rightarrow> bool" where
  "later s s' \<longleftrightarrow> set (y_bumps s) \<subseteq> set (y_bumps s') \<and> now_at s \<le> now_at s'
     \<and> (\<forall>i \<le> now_at s. tables_at s' i = tables_at s i)"

lemma inv_procs_later:
  assumes "sync_inv key s" and "later s s'"
    and "\<And>p ph. y_procs s' p = Some ph \<Longrightarrow> y_procs s p = Some ph \<or> phase_ok key s' ph"
    and "\<And>c. c \<in> set (y_sent s') \<Longrightarrow> c \<in> set (y_sent s) \<or> config_ok key s' c"
  shows "procs_ok key s'"
proof -
  have "phase_ok key s' ph" if "y_procs s p = Some ph" for p ph
  proof -
    have "phase_ok key s ph" using procs_okD [OF assms(1)] that by blast
    then show ?thesis using assms(2) by (intro phase_ok_later [of key s ph s']) (simp_all add: later_def)
  qed
  moreover have "config_ok key s' c" if "c \<in> set (y_sent s)" for c
  proof -
    have "config_ok key s c" using procs_okD [OF assms(1)] that by blast
    then show ?thesis using assms(2) by (intro config_ok_later [of key s c s']) (simp_all add: later_def)
  qed
  ultimately show ?thesis using assms(3,4) unfolding procs_ok_def by blast
qed

lemma sync_inv_bump:
  assumes inv: "sync_inv key s" and bump: "bump_version t key (y_db s) = Inr (v, d)"
    and s': "y_db s' = d" "y_bumps s' = y_bumps s @ [(v, Suc (now_at s))]" "now_at s' = Suc (now_at s)"
  shows "db_ok (y_db s') \<and> sorted_wrt newer (y_bumps s')
    \<and> (\<forall>x \<in> set (y_bumps s'). snd x \<le> now_at s' \<and> node_version key (y_db s') (fst x))"
proof -
  have ok: "db_ok (y_db s)" using inv by (simp add: sync_inv_def)
  note facts = bump_result [OF bump ok]
  have old: "snd x \<le> now_at s \<and> node_version key (y_db s) (fst x)" if "x \<in> set (y_bumps s)" for x
    using inv that by (simp add: sync_inv_def)
  then have "newer x (v, Suc (now_at s))" if "x \<in> set (y_bumps s)" for x
    using facts(3) [of "fst x"] old [OF that] that by (simp add: newer_def le_imp_less_Suc)
  moreover have "node_version key d (fst x)" if "x \<in> set (y_bumps s)" for x
    using node_version_advance [OF facts(4) ok] old [OF that] by blast
  moreover have "sorted_wrt newer (y_bumps s)" using inv by (simp add: sync_inv_def)
  ultimately show ?thesis
    using facts(1,2) old by (simp add: s' sorted_wrt_append le_SucI ball_Un)
qed

lemma sync_inv_step:
  assumes "sync_step False key s s'" and inv: "sync_inv key s"
  shows "sync_inv key s'"
  using assms(1)
proof cases
  case (others d)
  have ok: "db_ok (y_db s)" using inv by (simp add: sync_inv_def)
  have lat: "later s s'" by (simp add: others later_def)
  have procs: "procs_ok key s'"
    by (rule inv_procs_later [OF inv lat]) (auto simp: others config_ok_def split: if_split_asm)
  moreover have "db_ok d" using ok others(3) by (simp add: versions_advance_def)
  ultimately show ?thesis
    using inv node_version_advance [OF others(3) ok] by (simp add: others(1) sync_inv_def le_SucI)
next
  case (begins p)
  have lat: "later s s'" by (simp add: begins later_def)
  have procs: "procs_ok key s'"
    by (rule inv_procs_later [OF inv lat]) (auto simp: begins config_ok_def split: if_split_asm)
  show ?thesis using inv procs by (simp add: sync_inv_def begins)
next
  case (bumps p t v d s1)
  have lat: "later s s'" by (auto simp: bumps later_def)
  have procs: "procs_ok key s'"
    by (rule inv_procs_later [OF inv lat]) (auto simp: bumps config_ok_def split: if_split_asm)
  show ?thesis using procs sync_inv_bump [OF inv bumps(3), of s'] by (simp add: sync_inv_def bumps)
next
  case (loads p v b us t)
  have "phase_ok key s (Bumped v b)" using procs_okD [OF inv] loads(2) by blast
  then have new: "(v, b) \<in> set (y_bumps s)" "b \<le> now_at s" "set us = set (active_access_rows t key (y_db s))"
    using loads(3) by auto
  have lat: "later s s'" by (simp add: loads later_def)
  have procs: "procs_ok key s'"
    by (rule inv_procs_later [OF inv lat]) (use new in \<open>auto simp: loads config_ok_def split: if_split_asm\<close>)
  show ?thesis using inv procs by (simp add: sync_inv_def loads)
next
  case (sends p c)
  have "phase_ok key s (Loaded c)" using procs_okD [OF inv] sends(2) by blast
  then have new: "config_ok key s' c" by (simp add: config_ok_def sends)
  have lat: "later s s'" by (simp add: sends later_def)
  have procs: "procs_ok key s'"
    by (rule inv_procs_later [OF inv lat]) (use new in \<open>auto simp: sends config_ok_def split: if_split_asm\<close>)
  show ?thesis using inv procs by (simp add: sync_inv_def sends)
qed simp

lemma sync_inv_run: "sync_run False key s s' \<Longrightarrow> sync_inv key s \<Longrightarrow> sync_inv key s'"
  by (induction rule: rtranclp_induct) (auto intro: sync_inv_step)

lemma sync_inv_start: "db_ok d \<Longrightarrow> sync_inv key (sync_start d)"
  by (simp add: sync_inv_def procs_ok_def sync_start_def)

lemma bumps_in_order:
  assumes "sorted_wrt newer xs" and "x \<in> set xs" and "y \<in> set xs" and "fst x \<le> fst y"
  shows "snd x \<le> snd y"
proof -
  obtain i j where "i < length xs" "xs ! i = x" "j < length xs" "xs ! j = y"
    using assms(2,3) by (auto simp: in_set_conv_nth)
  then show ?thesis
    using assms(1,4) unfolding sorted_wrt_iff_nth_less newer_def
    by (cases i j rule: linorder_cases) (auto simp: less_imp_le, force)
qed

section \<open>The operation as a run\<close>

text \<open>
  The operation is a run of these steps up to its first request: what comes before the bump is
  statements of others to the run, and the goroutine then holds the version and the users it
  passes to \<^verbatim>\<open>syncNodeAttempt\<close>.
\<close>

lemma fetch_steps: "within (db_rel sql_reach) (fetchAndReconcileStatus e node)"
  unfolding manager_defs Let_def
  by ((rule within_intros | rule steps.effect_rules)+)

lemma others_run:
  assumes "sql_reach (y_db s) d" and "versions_advance (y_db s) d"
  shows "sync_step retries key s (commit_tables d s)"
  using assms by (rule sync_step.others)

lemma BumpVersion_result:
  assumes "NodeRepo_BumpVersion e key w = (Inr v, w')" and "env_parse_uuid e key = Some k"
  shows "bump_version (env_db_now e (w_tick w)) k (w_db w) = Inr (v, w_db w')"
  using assms by (auto simp: NodeRepo_BumpVersion_def uuid_arg_def elim!: exec_Inr)

lemma status_requests_get:
  "rq \<in> set rs \<Longrightarrow> \<forall>rq \<in> set rs. \<exists>n. rq = status_request n \<Longrightarrow> rq_method rq \<noteq> ''POST''"
  by (fastforce simp: status_request_def agent_request_def)

lemma SyncNode_is_a_run:
  assumes run: "SyncNode e key w = (r, w')" and key: "env_parse_uuid e key = Some k"
  obtains (before) err where "r = Inl err" and "\<forall>rq \<in> set (sent w w'). rq_method rq \<noteq> ''POST''"
    | (attempted) n c s w5 where "sync_run retries k (sync_start (w_db w)) s" and "y_db s = w_db w5"
      and "y_procs s p = Some (Told c)" and "y_sent s = [c]"
      and "\<forall>rq \<in> set (sent w w5). rq_method rq \<noteq> ''POST''"
      and "syncNodeAttempt e n (kc_users c) (kc_version c) True w5 = (r, w')"
  using run
proof (cases rule: SyncNode_cases)
  case (before err rs)
  then show thesis by (intro that(1)) (auto simp: sent_def dest: status_requests_get)
next
  case (attempted n0 n us version rs w0 w1 w2 w3 w4 w5)
  have reach: "sql_reach (w_db u) (w_db u') \<and> versions_advance (w_db u) (w_db u')"
    if "within (db_rel sql_reach) m" and "within (db_rel versions_advance) m" and "m u = (z, u')"
    for m :: "'x act" and u u' z
    using withinD [OF that(1,3)] withinD [OF that(2,3)] by (simp add: db_rel_def)
  note get = reach [OF NodeRepo_steps(2) NodeRepo_versions(2)]
  define s1 where "s1 = commit_tables (w_db w1) (sync_start (w_db w))"
  define s2 where "s2 = commit_tables (w_db w2) s1"
  define s3 where "s3 = commit_tables (w_db w3) s2"
  define s4 where "s4 = set_phase p Begun s3"
  define s5 where "s5 = commit_tables (w_db w4) s4"
  define s6 where "s6 = set_phase p (Bumped version (now_at s5))
    (s5\<lparr>y_bumps := y_bumps s4 @ [(version, now_at s5)]\<rparr>)"
  define c where "c = \<lparr>kc_version = version, kc_bumped = now_at s5, kc_users = us,
    kc_clock = env_db_now e (w_tick w4), kc_read = now_at s6\<rparr>"
  define s7 where "s7 = set_phase p (Loaded c) s6"
  define s8 where "s8 = set_phase p (Told c) (s7\<lparr>y_sent := y_sent s7 @ [c]\<rparr>)"
  note state = s1_def s2_def s3_def s4_def s5_def s6_def s7_def s8_def sync_start_def
  have us: "set us = set (active_access_rows (env_db_now e (w_tick w4)) k (w_db w4))" "w_db w5 = w_db w4"
    using ActiveAccess_result [OF attempted(8) key] by auto
  have "sync_step retries k (sync_start (w_db w)) s1"
    unfolding s1_def by (rule others_run) (use get [OF attempted(4)] in \<open>simp_all add: sync_start_def\<close>)
  moreover have "sync_step retries k s1 s2" unfolding s2_def
    by (rule others_run) (use reach [OF fetch_steps manager_versions(1) attempted(5)] in \<open>simp_all add: s1_def\<close>)
  moreover have "sync_step retries k s2 s3"
    unfolding s3_def by (rule others_run) (use get [OF attempted(6)] in \<open>simp_all add: s2_def\<close>)
  moreover have "sync_step retries k s3 s4" unfolding s4_def by (rule sync_step.begins) (simp add: state)
  moreover have "sync_step retries k s4 s6" unfolding s6_def
    by (rule sync_step.bumps [of s4 p _ _ _ "w_db w4"]) (use BumpVersion_result [OF attempted(7) key] in \<open>simp_all add: state\<close>)
  moreover have "sync_step retries k s6 s7" unfolding s7_def c_def
    by (rule sync_step.loads) (use us in \<open>simp_all add: state\<close>)
  moreover have "sync_step retries k s7 s8" unfolding s8_def by (rule sync_step.sends) (simp add: s7_def)
  ultimately have "sync_run retries k (sync_start (w_db w)) s8"
    by (meson rtranclp.rtrancl_into_rtrancl rtranclp.rtrancl_refl)
  moreover have "y_db s8 = w_db w5" "y_procs s8 p = Some (Told c)" "y_sent s8 = [c]" using us by (simp_all add: state)
  moreover have "\<forall>rq \<in> set (sent w w5). rq_method rq \<noteq> ''POST''" 
    using attempted(2,3) by (auto simp: sent_def dest: status_requests_get)
  ultimately show thesis using attempted(9)
    by (intro that(2) [of s8 w5 c n]) (simp_all add: c_def del: syncNodeAttempt.simps)
qed

section \<open>Properties\<close>

text \<open>
  C5: concurrent synchronisations converge.  However any number of synchronisations of a node are
  interleaved with each other and with all other statements of the panel, as long as none is
  retried and no node is deleted: if since some moment the assignments and users have not changed and a
  synchronisation that drew its version after that moment has been sent, then the configuration
  of the highest version sent to the agent, the one it ends up with, lists exactly the users
  entitled now, judged at the clock reading of its query.
\<close>

theorem newest_config_is_current:
  assumes "sync_run False key (sync_start d) s" and "db_ok d"
    and "x \<in> set (y_sent s)" and "\<forall>i. kc_bumped x \<le> i \<and> i \<le> now_at s \<longrightarrow> people_same (tables_at s i) (y_db s)"
    and "y \<in> set (y_sent s)" and "\<forall>c \<in> set (y_sent s). kc_version c \<le> kc_version y"
  shows "set (kc_users y) = set (active_access_rows (kc_clock y) key (y_db s))"
proof -
  have inv: "sync_inv key s" using sync_inv_run [OF assms(1) sync_inv_start [OF assms(2)]] .
  have ok: "config_ok key s x" "config_ok key s y" using procs_okD [OF inv] assms(3,5) by blast+
  have "kc_bumped x \<le> kc_bumped y"
    using bumps_in_order [of "y_bumps s" "(kc_version x, kc_bumped x)" "(kc_version y, kc_bumped y)"] inv ok assms(3,6)
    by (auto simp: sync_inv_def config_ok_def)
  then have "people_same (tables_at s (kc_read y)) (y_db s)" using assms(4) ok(2) by (auto simp: config_ok_def)
  then show ?thesis using ok(2) by (simp add: config_ok_def active_access_rows_def people_same_def)
qed

text \<open>One synchronisation of the sample node, from its begin to its request.\<close>

definition sample_bumped :: "int \<Rightarrow> db \<Rightarrow> db" where
  "sample_bumped v d = d\<lparr>t_nodes := [sample_node\<lparr>n_desired_config_version := v, n_updated_at := 100\<rparr>]\<rparr>"

definition sample_rows :: "AccessWithUser list" where
  "sample_rows = [\<lparr>wu_access = sample_access ''a1'' ''u1'', wu_username = ''anna'', wu_user_enabled = True,
     wu_user_expires_at = Some 500, wu_user_quota_mb = 10\<rparr>]"

definition sample_config :: node_config where
  "sample_config = \<lparr>kc_version = 4, kc_bumped = 1, kc_users = sample_rows, kc_clock = 100, kc_read = 1\<rparr>"

lemma sample_bump: "bump_version 100 ''n1'' (sample_bumped v d) =
    (if int64_max \<le> v then Inl bigint_out_of_range else Inr (v + 1, sample_bumped (v + 1) d))"
  by (simp add: bump_version_def one_row_def update_node_def bump_node_def sample_bumped_def sample_node_def
      valid_protocol_def valid_setup_state_def node_constants Let_def)

lemma sample_first_bump: "bump_version 100 ''n1'' sample_db = Inr (4, sample_bumped 4 sample_db)"
  by (simp add: bump_version_def one_row_def update_node_def bump_node_def sample_bumped_def sample_node_def
      sample_db_def valid_protocol_def valid_setup_state_def node_constants int64_max_def Let_def)

lemma sample_rows_read: "active_access_rows 100 ''n1'' (sample_bumped v sample_db) = sample_rows"
  by (simp add: active_access_rows_def sample_bumped_def sample_rows_def sample_defs IsExpired_def)

definition sample_sync_end :: sync_system where
  "sample_sync_end = \<lparr>y_db = sample_bumped 4 sample_db, y_past = [sample_db], y_bumps = [(4, 1)],
     y_procs = [0 \<mapsto> Told sample_config], y_sent = [sample_config]\<rparr>"

lemma run_through: "successively (sync_step retries key) (s # ss) \<Longrightarrow> sync_run retries key s (last (s # ss))"
  by (induction ss arbitrary: s) (auto intro: converse_rtranclp_into_rtranclp)

lemma sample_sync_run: "sync_run False ''n1'' (sync_start sample_db) sample_sync_end"
proof -
  define s1 where "s1 = set_phase 0 Begun (sync_start sample_db)"
  define s2 where "s2 = commit_tables (sample_bumped 4 sample_db) s1"
  define s3 where "s3 = set_phase 0 (Bumped 4 (now_at s2)) (s2\<lparr>y_bumps := y_bumps s1 @ [(4, now_at s2)]\<rparr>)"
  define s4 where "s4 = set_phase 0 (Loaded \<lparr>kc_version = 4, kc_bumped = now_at s2, kc_users = sample_rows,
    kc_clock = 100, kc_read = now_at s3\<rparr>) s3"
  note state = s1_def s2_def s3_def s4_def sync_start_def
  have "sync_step False ''n1'' (sync_start sample_db) s1"
    unfolding s1_def by (rule sync_step.begins) (simp add: sync_start_def)
  moreover have "sync_step False ''n1'' s1 s3" unfolding s3_def
    by (rule sync_step.bumps [of s1 0 100 _ _ "sample_bumped 4 sample_db"]) (simp_all add: state sample_first_bump)
  moreover have "sync_step False ''n1'' s3 s4" unfolding s4_def
    by (rule sync_step.loads) (simp_all add: state sample_rows_read)
  moreover have "y_procs s4 0 = Some (Loaded sample_config)"
    by (simp add: state set_phase_def commit_tables_def now_at_def sample_config_def)
  then have "sync_step False ''n1'' s4 (set_phase 0 (Told sample_config) (s4\<lparr>y_sent := y_sent s4 @ [sample_config]\<rparr>))"
    by (rule sync_step.sends)
  moreover have "set_phase 0 (Told sample_config) (s4\<lparr>y_sent := y_sent s4 @ [sample_config]\<rparr>) = sample_sync_end"
    by (simp add: state set_phase_def commit_tables_def now_at_def sample_config_def sample_sync_end_def)
  ultimately have "successively (sync_step False ''n1'') [sync_start sample_db, s1, s3, s4, sample_sync_end]" by simp
  from run_through [OF this] show ?thesis by simp
qed

theorem newest_config_is_current_witness:
  "set (kc_users sample_config) = set (active_access_rows (kc_clock sample_config) ''n1'' (sample_bumped 4 sample_db))"
proof -
  have "people_same (tables_at sample_sync_end i) (y_db sample_sync_end)"
    if "kc_bumped sample_config \<le> i \<and> i \<le> now_at sample_sync_end" for i
  proof -
    have "i = 1" using that by (simp add: sample_sync_end_def sample_config_def now_at_def)
    then show ?thesis by (simp add: sample_sync_end_def tables_at_def people_same_def)
  qed
  with newest_config_is_current [OF sample_sync_run sample_db_ok, of sample_config sample_config]
  show ?thesis by (simp add: sample_sync_end_def)
qed

text \<open>The same synchronisation, overtaken: the user's access is switched off after it read the users.\<close>

definition sample_switched :: db where
  "sample_switched = (sample_bumped 4 sample_db)
     \<lparr>t_access := [(sample_access ''a1'' ''u1'')\<lparr>a_enabled := False, a_updated_at := 100\<rparr>, sample_access ''a2'' ''u2'']\<rparr>"

definition overtaking_config :: node_config where
  "overtaking_config = \<lparr>kc_version = 5, kc_bumped = 3, kc_users = [], kc_clock = 100, kc_read = 3\<rparr>"

definition retried_config :: node_config where
  "retried_config = sample_config\<lparr>kc_version := 6, kc_bumped := 4\<rparr>"

definition overtaken_end :: sync_system where
  "overtaken_end = \<lparr>y_db = sample_bumped 6 sample_switched,
     y_past = [sample_db, sample_bumped 4 sample_db, sample_switched, sample_bumped 5 sample_switched],
     y_bumps = [(4, 1), (5, 3), (6, 4)],
     y_procs = [0 \<mapsto> Told retried_config, 1 \<mapsto> Told overtaking_config],
     y_sent = [overtaking_config, sample_config, retried_config]\<rparr>"

lemma switched_rows: "active_access_rows 100 ''n1'' (sample_bumped v sample_switched) = []"
  by (simp add: active_access_rows_def sample_bumped_def sample_switched_def sample_access_def sample_db_def
      sample_user_def sample_expired_def IsExpired_def)

lemma sample_bumped_people [simp]:
  "t_users (sample_bumped v d) = t_users d" "t_access (sample_bumped v d) = t_access d"
  by (simp_all add: sample_bumped_def)

lemma sample_bumped_self: "sample_switched = sample_bumped 4 sample_switched"
  by (simp add: sample_switched_def sample_bumped_def)

lemma switching_off: "set_access_enabled 100 ''u1'' ''a1'' False (sample_bumped 4 sample_db) = Inr ((), sample_switched)"
  by (simp add: set_access_enabled_def sample_switched_def sample_bumped_def sample_access_def sample_db_def
      enforce_access_protocol_def sample_node_def)

lemma switching_off_step:
  "sql_reach (sample_bumped 4 sample_db) sample_switched" "versions_advance (sample_bumped 4 sample_db) sample_switched"
proof -
  show "sql_reach (sample_bumped 4 sample_db) sample_switched"
    using sql_step.access_switched [OF switching_off] by (rule r_into_rtranclp)
  show "versions_advance (sample_bumped 4 sample_db) sample_switched"
    using stmt_versions_advance(5) [of 100 "''u1''" "''a1''" False] switching_off by (auto simp: stmt_within_def)
qed

lemma second_bump: "bump_version 100 ''n1'' sample_switched = Inr (5, sample_bumped 5 sample_switched)"
  "bump_version 100 ''n1'' (sample_bumped 5 sample_switched) = Inr (6, sample_bumped 6 sample_switched)"
  using sample_bump [of 4 sample_switched] sample_bump [of 5 sample_switched] sample_bumped_self
  by (simp_all add: int64_max_def)

lemma overtaken_run: "sync_run True ''n1'' (sync_start sample_db) overtaken_end"
proof -
  define s1 where "s1 = set_phase 0 Begun (sync_start sample_db)"
  define c2 where "c2 = commit_tables (sample_bumped 4 sample_db) s1"
  define s2 where "s2 = set_phase 0 (Bumped 4 (now_at c2)) (c2\<lparr>y_bumps := y_bumps s1 @ [(4, now_at c2)]\<rparr>)"
  define s3 where "s3 = set_phase 0 (Loaded \<lparr>kc_version = 4, kc_bumped = now_at c2, kc_users = sample_rows,
    kc_clock = 100, kc_read = now_at s2\<rparr>) s2"
  define s4 where "s4 = commit_tables sample_switched s3"
  define s5 where "s5 = set_phase 1 Begun s4"
  define c6 where "c6 = commit_tables (sample_bumped 5 sample_switched) s5"
  define s6 where "s6 = set_phase 1 (Bumped 5 (now_at c6)) (c6\<lparr>y_bumps := y_bumps s5 @ [(5, now_at c6)]\<rparr>)"
  define s7 where "s7 = set_phase 1 (Loaded \<lparr>kc_version = 5, kc_bumped = now_at c6, kc_users = [],
    kc_clock = 100, kc_read = now_at s6\<rparr>) s6"
  define s8 where "s8 = set_phase 1 (Told overtaking_config) (s7\<lparr>y_sent := y_sent s7 @ [overtaking_config]\<rparr>)"
  define s9 where "s9 = set_phase 0 (Told sample_config) (s8\<lparr>y_sent := y_sent s8 @ [sample_config]\<rparr>)"
  define c10 where "c10 = commit_tables (sample_bumped 6 sample_switched) s9"
  define s10 where "s10 = set_phase 0 (Loaded (sample_config\<lparr>kc_version := 6, kc_bumped := now_at c10\<rparr>))
    (c10\<lparr>y_bumps := y_bumps s9 @ [(6, now_at c10)]\<rparr>)"
  note state = s1_def s2_def s3_def s4_def s5_def s6_def s7_def s8_def s9_def s10_def c2_def c6_def c10_def
    sync_start_def now_at_def set_phase_def commit_tables_def sample_config_def overtaking_config_def
    retried_config_def
  have "sync_step True ''n1'' (sync_start sample_db) s1"
    unfolding s1_def by (rule sync_step.begins) (simp add: sync_start_def)
  moreover have "sync_step True ''n1'' s1 s2" unfolding s2_def
    by (rule sync_step.bumps [of s1 0 100 _ _ "sample_bumped 4 sample_db"]) (simp_all add: c2_def s1_def sync_start_def sample_first_bump)
  moreover have "sync_step True ''n1'' s2 s3" unfolding s3_def
    by (rule sync_step.loads) (simp_all add: state sample_rows_read)
  moreover have "sync_step True ''n1'' s3 s4" unfolding s4_def
    by (rule sync_step.others) (simp_all add: s3_def s2_def c2_def switching_off_step)
  moreover have "sync_step True ''n1'' s4 s5" unfolding s5_def by (rule sync_step.begins) (simp add: state)
  moreover have "sync_step True ''n1'' s5 s6" unfolding s6_def
    by (rule sync_step.bumps [of s5 1 100 _ _ "sample_bumped 5 sample_switched"]) (simp_all add: c6_def s5_def s4_def second_bump)
  moreover have "sync_step True ''n1'' s6 s7" unfolding s7_def
    by (rule sync_step.loads) (simp_all add: s6_def c6_def switched_rows)
  moreover have "sync_step True ''n1'' s7 s8" unfolding s8_def by (rule sync_step.sends) (simp add: state)
  moreover have "sync_step True ''n1'' s8 s9" unfolding s9_def by (rule sync_step.sends) (simp add: state)
  moreover have "sync_step True ''n1'' s9 s10" unfolding s10_def
    by (rule sync_step.retries [of _ s9 0 sample_config 100 _ _ "sample_bumped 6 sample_switched"])
      (simp_all add: s9_def c10_def s8_def s7_def s6_def c6_def second_bump)
  moreover have "sync_step True ''n1'' s10 (set_phase 0 (Told retried_config) (s10\<lparr>y_sent := y_sent s10 @ [retried_config]\<rparr>))"
    by (rule sync_step.sends) (simp add: state)
  moreover have "set_phase 0 (Told retried_config) (s10\<lparr>y_sent := y_sent s10 @ [retried_config]\<rparr>) = overtaken_end"
    by (simp add: state overtaken_end_def fun_upd_twist)
  ultimately have "successively (sync_step True ''n1'')
      [sync_start sample_db, s1, s2, s3, s4, s5, s6, s7, s8, s9, s10, overtaken_end]" by simp
  from run_through [OF this] show ?thesis by simp
qed

text \<open>
  The retry of a stale synchronisation can send an older list than the one sent before it.  A run of two synchronisations of one
  node: while the first is between its query and its request, the access of a user is switched off and the second
  one draws version 5, reads no users, and sends them; the first, refused, draws version
  6 and sends the user it had read.  The last configuration sent has the highest version and a user whose
  access is off, though nothing was changed since the second synchronisation began.
\<close>

lemma retry_resends_old_users:
  "sync_run True ''n1'' (sync_start sample_db) overtaken_end
   \<and> map kc_version (y_sent overtaken_end) = [5, 4, 6]
   \<and> map (map wu_username \<circ> kc_users) (y_sent overtaken_end) = [[], [''anna''], [''anna'']]
   \<and> active_access_rows 100 ''n1'' (y_db overtaken_end) = []
   \<and> map kc_bumped (y_sent overtaken_end) = [3, 1, 4]
   \<and> people_same (tables_at overtaken_end 3) (y_db overtaken_end) \<and> now_at overtaken_end = 4"
  using switched_rows overtaken_run
  by (intro conjI) (simp_all add: overtaken_end_def overtaking_config_def sample_config_def retried_config_def
      sample_rows_def tables_at_def now_at_def people_same_def)

end
