(* ===== verification/Sync_Addresses.thy ===== *)
theory Sync_Addresses
  imports Sync_Outcomes
begin

text \<open>
  To whom a synchronisation speaks: every request goes to the node asked for, with the address,
  secret, id and protocol its row has in the tables, also after the row has been written and read again.
\<close>

section \<open>What identifies a node to its agent, and whether it is switched on\<close>

type_synonym node_address = "string \<times> string \<times> string \<times> string \<times> string \<times> bool"

definition address :: "Node \<Rightarrow> node_address" where
  "address n = (n_id n, n_node_id n, n_api_url n, n_node_secret n, n_protocol_type n, n_enabled n)"

definition addresses :: "db \<Rightarrow> node_address set" where
  "addresses d = address ` set (t_nodes d)"

definition addresses_kept :: "db \<Rightarrow> db \<Rightarrow> bool" where
  "addresses_kept d d' \<longleftrightarrow> addresses d' \<subseteq> addresses d"

interpretation addressed: preorder_on_tables addresses_kept
  by unfold_locales (auto simp: addresses_kept_def)

lemma update_node_addresses:
  assumes "\<And>n. address (f n) = address n"
  shows "stmt_within addresses_kept (update_node current key f)"
proof (rule stmt_withinI)
  fix d x d'
  assume "update_node current key f d = Inr (x, d')"
  moreover have "address ((f n)\<lparr>n_updated_at := current\<rparr>) = address n" for n
    using assms [of n] by (simp add: address_def)
  ultimately show "addresses_kept d d'"
    by (auto simp: update_node_def addresses_kept_def addresses_def Let_def split: option.splits if_splits
        dest!: find_SomeD)
qed

lemma stmt_addresses [within_intros]:
  "stmt_within addresses_kept (update_node current key bump_node)"
  "stmt_within addresses_kept (update_node current key (status_node t s m))"
  "stmt_within addresses_kept (update_node current key (remote_state_node t v a err))"
  "stmt_within addresses_kept (update_node current key (success_node t v))"
  "stmt_within addresses_kept (update_node current key (failure_node t s msg))"
  "stmt_within addresses_kept (insert_event ev)"
proof -
  show "stmt_within addresses_kept (insert_event ev)"
    by (auto intro!: stmt_withinI simp: addresses_kept_def addresses_def insert_event_def split: if_splits)
qed (rule update_node_addresses, simp add: address_def bump_node_def status_node_def remote_state_node_def
    success_node_def failure_node_def)+

lemma sync_calls_addresses [within_intros]:
  "within (db_rel addresses_kept) (NodeRepo_Get e key)"
  "within (db_rel addresses_kept) (NodeRepo_SyncRemoteState e key v a err)"
  "within (db_rel addresses_kept) (NodeRepo_BumpVersion e key)"
  "within (db_rel addresses_kept) (NodeRepo_MarkStatus e key s et)"
  "within (db_rel addresses_kept) (NodeRepo_MarkSyncSuccess e key v)"
  "within (db_rel addresses_kept) (NodeRepo_MarkSyncFailure e key s m)"
  "within (db_rel addresses_kept) (NodeRepo_InsertSyncEvent e key v s h rq rs et)"
  "within (db_rel addresses_kept) (UserRepo_ActiveAccessForNode e key)"
  unfolding NodeRepo_defs UserRepo_ActiveAccessForNode_def Let_def
  by ((rule addressed.effect_rules stmt_addresses repo_stmt_intros addressed.D_refl | simp)+)

section \<open>Who is told\<close>

text \<open>
  While the addresses are among \<open>X\<close>, a run keeps them there and sends only requests with \<open>P\<close>.
\<close>

definition tells :: "node_address set \<Rightarrow> (http_request \<Rightarrow> bool) \<Rightarrow> world \<Rightarrow> world \<Rightarrow> bool" where
  "tells X P w w' \<longleftrightarrow> addresses (w_db w) \<subseteq> X \<longrightarrow>
     addresses (w_db w') \<subseteq> X \<and> (\<exists>rs. w_requests w' = w_requests w @ rs \<and> list_all P rs)"

interpretation telling: preorder_on_states "tells X P" for X P
  by unfold_locales (auto simp: tells_def)

lemma tells_silent:
  "within sends_nothing m \<Longrightarrow> within (db_rel addresses_kept) m \<Longrightarrow> within (tells X P) m"
  by (auto simp: within_def tells_def sends_nothing_def db_rel_def addresses_kept_def)

lemma tells_calls:
  "within (tells X P) (NodeRepo_Get e key)"
  "within (tells X P) (NodeRepo_SyncRemoteState e key v a err)"
  "within (tells X P) (NodeRepo_BumpVersion e key)"
  "within (tells X P) (NodeRepo_MarkStatus e key s et)"
  "within (tells X P) (NodeRepo_MarkSyncSuccess e key v)"
  "within (tells X P) (NodeRepo_MarkSyncFailure e key s m)"
  "within (tells X P) (NodeRepo_InsertSyncEvent e key v s h rq rs et)"
  "within (tells X P) (UserRepo_ActiveAccessForNode e key)"
  by (rule tells_silent, rule within_intros, rule within_intros)+

lemma tells_agent_do:
  "P (agent_request node method path body) \<Longrightarrow> within (tells X P) (agent_do e node method path body)"
  by (auto simp: within_def tells_def agent_do_run)

text \<open>What is read from the tables has an address of theirs.\<close>

lemma tells_Get:
  assumes "env_parse_uuid e key = Some k"
    and "\<And>n. n_id n = k \<Longrightarrow> address n \<in> X \<Longrightarrow> within (tells X P) (f n)"
  shows "within (tells X P) (bindE (NodeRepo_Get e key) f)"
proof (rule withinI)
  fix w
  show "tells X P w (snd (bindE (NodeRepo_Get e key) f w))"
  proof (cases "NodeRepo_Get e key w")
    case (Pair r w1)
    have first: "tells X P w w1" using tells_calls(1) Pair by (rule withinD)
    show ?thesis
    proof (cases r)
      case (Inl err)
      then show ?thesis using Pair first by (simp add: bindE_def)
    next
      case (Inr n)
      obtain n0 where n0: "node_row (w_db w) k = Some n0" "n = scanNode n0" "n_id n = k"
        using Get_row [OF Pair [unfolded Inr] assms(1)] by metis
      have "n0 \<in> set (t_nodes (w_db w))" using n0(1) by (auto simp: node_row_def dest: find_SomeD)
      then have member: "address n \<in> addresses (w_db w)"
        using n0(2) by (auto simp: addresses_def scanNode_def address_def)
      have "tells X P w1 (snd (f n w1))" if "address n \<in> X" using assms(2) [OF n0(3) that] by (simp add: within_def)
      then have "tells X P w (snd (f n w1))"
        using member telling.R_trans [OF first] by (cases "addresses (w_db w) \<subseteq> X") (auto simp: tells_def)
      then show ?thesis using Pair Inr by (simp add: bindE_def)
    qed
  qed
qed

section \<open>An attempt\<close>

lemma tells_fail_attempt:
  "within (tells X P) m \<Longrightarrow> within (tells X P) (fail_attempt e n v s r rq et msg m)"
  unfolding fail_attempt_def by (intro telling.rules tells_calls)

lemma tells_retry:
  assumes "env_parse_uuid e k = Some k" and "n_id node = k"
    and "\<And>n v. n_id n = k \<Longrightarrow> address n \<in> X \<Longrightarrow> within (tells X P) (ag n us v)"
  shows "within (tells X P) (retryFromAgentResponse e ag node us version rq r resp)"
  unfolding retryFromAgentResponse_def Let_def assms(2)
  by (intro tells_fail_attempt telling.then_ telling.bind tells_Get [OF assms(1)] tells_calls assms(3))

lemma tells_attempt_body:
  assumes k: "env_parse_uuid e k = Some k" and node: "n_id node = k" "address node \<in> X"
    and P: "\<And>rq. sync_request e node us version rq \<Longrightarrow> P rq"
    and again: "\<And>ag n v. again = Some ag \<Longrightarrow> n_id n = k \<Longrightarrow> address n \<in> X \<Longrightarrow> within (tells X P) (ag n us v)"
  shows "within (tells X P) (attempt_body e again node us version)"
proof -
  have "within (tells X P) (agent_do e node ''POST'' ''/v1/sync'' (Some body))"
    if "env_encode_payload e (sync_payload node us version) = Inr body" for body
    using that by (intro tells_agent_do P) (auto simp: sync_request_def)
  then have sync: "within (tells X P) (Agent_Sync e node (sync_payload node us version))"
    by (auto simp: Agent_Sync_def intro!: telling.rules split: sum.splits)
  have retry: "within (tells X P) (retryFromAgentResponse e ag node us version rq r resp)" if "again = Some ag" for ag rq r resp
    by (rule tells_retry [OF k node(1)]) (rule again [OF that])
  have refused: "within (tells X P) (agent_refused e node version r rq resp)" for r rq resp
    unfolding agent_refused_def Let_def by (intro tells_fail_attempt telling.rules)
  have "within (tells X P) (handle_call_error e again node us version r rq er)" for r rq er
    by (auto simp: handle_call_error_def Let_def retryOnStaleVersion_def
        split: option.splits sum.splits if_splits intro!: tells_fail_attempt telling.pure retry)
  moreover have "within (tells X P) (handle_response e again node us version r rq)" for r rq
    by (auto simp: handle_response_def Let_def split: option.splits sum.splits if_splits
        intro!: tells_fail_attempt telling.pure telling.then_ tells_calls retry refused)
  ultimately show ?thesis unfolding attempt_body_def by (intro telling.rules sync)
qed

text \<open>A sync request to the node \<open>k\<close>, whose address is among \<open>X\<close>.\<close>

definition sync_request_to ::
  "env \<Rightarrow> string \<Rightarrow> node_address set \<Rightarrow> AccessWithUser list \<Rightarrow> http_request \<Rightarrow> bool" where
  "sync_request_to e k X us rq \<longleftrightarrow> (\<exists>n v. n_id n = k \<and> address n \<in> X \<and> sync_request e n us v rq)"

lemma tells_syncNodeAttempt:
  assumes "env_parse_uuid e k = Some k" and "n_id node = k" and "address node \<in> X"
  shows "within (tells X (sync_request_to e k X us)) (syncNodeAttempt e node us version allowRetry)"
proof -
  have off: "within (tells X (sync_request_to e k X us)) (syncNodeAttempt e n us v False)"
    if "n_id n = k" "address n \<in> X" for n v
    unfolding syncNodeAttempt.simps
    by (rule tells_attempt_body [OF assms(1) that]) (use that in \<open>auto simp: sync_request_to_def\<close>)
  have "within (tells X (sync_request_to e k X us)) (syncNodeAttempt e node us version True)"
    unfolding syncNodeAttempt.simps(2)
    by (rule tells_attempt_body [OF assms]) (use assms off in \<open>auto simp: sync_request_to_def\<close>)
  then show ?thesis using off assms(2,3) by (cases allowRetry) simp_all
qed

section \<open>The operation\<close>

lemma agent_calls_addresses [within_intros]:
  "within (db_rel addresses_kept) (Agent_StatusInfo e n)" "within (db_rel addresses_kept) (Agent_Sync e n p)"
  unfolding Agent_StatusInfo_def Agent_Status_def Agent_Sync_def agent_do_def by ((rule addressed.effect_rules)+)

lemma fetch_addresses: "within (db_rel addresses_kept) (fetchAndReconcileStatus e node)"
  unfolding fetchAndReconcileStatus_def recordStatus_def
  by ((rule within_intros | rule addressed.effect_rules)+)

lemma SyncNode_sent_to:
  assumes run: "SyncNode e key w = (r, w')" and key: "env_parse_uuid e key = Some k" and k: "env_parse_uuid e k = Some k"
    and rq: "rq \<in> set (sent w w')" and post: "rq_method rq = ''POST''"
  shows "\<exists>us t. set us = set (active_access_rows (env_db_now e t) k (w_db w))
    \<and> sync_request_to e k (addresses (w_db w)) us rq"
  using run
proof (cases rule: SyncNode_cases)
  case (before err rs)
  then show ?thesis using rq post by (auto simp: sent_def status_request_def agent_request_def)
next
  case (attempted n0 n us version rs w0 w1 w2 w3 w4 w5)
  let ?X = "addresses (w_db w)"
  have rel: "D (w_db u) (w_db u')" if "within (db_rel D) m" "m u = (z, u')" for D and m :: "'x act" and u u' z
    using withinD [OF that] by (simp add: db_rel_def)
  note get = rel [OF sync_calls_addresses(1)]
  have "addresses_kept (w_db w) (w_db w2)" using get [OF attempted(4)] rel [OF fetch_addresses attempted(5)]
    by (rule addressed.D_trans)
  moreover have "addresses_kept (w_db w2) (w_db w5)"
    using get [OF attempted(6)] rel [OF sync_calls_addresses(3) attempted(7)] rel [OF sync_calls_addresses(8) attempted(8)]
      addressed.D_trans by blast
  moreover obtain m where "node_row (w_db w2) k = Some m" "n = scanNode m" and nk: "n_id n = k"
    using Get_row [OF attempted(6) key] by metis
  ultimately have X: "addresses (w_db w5) \<subseteq> ?X" "address n \<in> ?X"
    by (auto simp: addresses_kept_def addresses_def node_row_def scanNode_def address_def dest!: find_SomeD)
  obtain rs' where rs': "w_requests w' = w_requests w5 @ rs'" "list_all (sync_request_to e k ?X us) rs'"
    using withinD [OF tells_syncNodeAttempt [OF k nk X(2)] attempted(9)] X(1) by (auto simp: tells_def)
  have "people_same (w_db w) (w_db w4)"
    using rel [OF node_calls_people_same(2) attempted(4)] rel [OF sync_people_same(1) attempted(5)]
      rel [OF node_calls_people_same(2) attempted(6)] rel [OF node_calls_people_same(4) attempted(7)]
      people.D_trans by blast
  then have "set us = set (active_access_rows (env_db_now e (w_tick w4)) k (w_db w))"
    using ActiveAccess_result [OF attempted(8) key] by (simp add: people_same_def active_access_rows_def)
  moreover have "rq \<in> set rs'"
    using rq post rs'(1) attempted(2,3) by (auto simp: sent_def status_request_def agent_request_def)
  ultimately show ?thesis using rs'(2) by (auto simp: list_all_iff)
qed

end
