(* ===== verification/Wire_Sync.thy ===== *)
theory Wire_Sync
  imports Wire_Agents Sync_Addresses
begin

text \<open>
  A synchronisation down to the bytes: in the environment that writes with the encoders of
  \<^verbatim>\<open>encoding/json\<close>, the bodies \<^verbatim>\<open>SyncNode\<close> sends, read back as JSON.
\<close>

text \<open>The texts of an assignment and its user are UTF-8, and the expiry has an RFC 3339 form.\<close>

definition user_encodes :: "(time \<Rightarrow> string option) \<Rightarrow> Access \<Rightarrow> User \<Rightarrow> bool" where
  "user_encodes fmt a u \<longleftrightarrow>
     utf8 (u_id u) \<and> utf8 (u_username u) \<and> utf8 (a_protocol_username a) \<and> utf8 (a_protocol_password a)
     \<and> (case u_expires_at u of None \<Rightarrow> True | Some t \<Rightarrow> (case fmt t of None \<Rightarrow> False | Some s \<Rightarrow> utf8 s))"

text \<open>The payloads are written as \<open>go_json_env\<close> writes them.\<close>

definition writes_json :: "(time \<Rightarrow> string option) \<Rightarrow> env \<Rightarrow> bool" where
  "writes_json fmt e \<longleftrightarrow>
     (\<forall>p body. env_encode_payload e p = Inr body \<longrightarrow> (\<exists>j. payload_json fmt p = Some j \<and> body = marshal j))"

lemma writes_jsonD:
  "writes_json fmt e \<Longrightarrow> env_encode_payload e p = Inr body \<Longrightarrow> \<exists>j. payload_json fmt p = Some j \<and> body = marshal j"
  by (simp add: writes_json_def)

lemma go_json_env_writes: "writes_json fmt (go_json_env fmt bad refused e)"
  by (auto simp: writes_json_def go_json_env_def split: option.splits)

lemma entitled_user_encodes:
  "user_encodes fmt a u \<Longrightarrow> utf8 (n_protocol_type n) \<Longrightarrow> agent_user_ok fmt (entitled_user n a u)"
  by (auto simp: user_encodes_def agent_user_ok_def entitled_user_def utf8_ascii split: option.splits)

text \<open>The JSON of a list of users is the set of their documents.\<close>

lemma documents_of_users:
  assumes "map Some js = map f us"
  shows "Some ` set js = f ` set us"
  using arg_cong [OF assms, of set] by simp

text \<open>
  C6: what an agent reads.  Every sync request \<open>SyncNode\<close> sends goes to the node asked for, with the
  API address, the id and the secret of its row, and its body is one that a JSON parser reads
  back as an object with the node's id, a version, the node's protocol and an array of users, whose
  elements are exactly the documents of the entitled users - id, credentials, enabled, the
  expiry if there is one, the quota, the protocol and the meta data: no character of a name or a
  password can change the document's shape.
\<close>

theorem SyncNode_body_reads_back:
  assumes json: "writes_json fmt e" and run: "SyncNode e key w = (r, w')"
    and key: "env_parse_uuid e key = Some k" and k: "env_parse_uuid e k = Some k"
    and rq: "rq \<in> set (sent w w')" and post: "rq_method rq = ''POST''"
    and texts: "\<forall>a \<in> set (t_access (w_db w)). \<forall>u \<in> set (t_users (w_db w)). user_encodes fmt a u"
    and names: "\<forall>n \<in> set (t_nodes (w_db w)). utf8 (n_node_id n) \<and> utf8 (n_protocol_type n)"
  shows "\<exists>n v t js. n \<in> set (t_nodes (w_db w)) \<and> n_id n = k
    \<and> rq = agent_request n ''POST'' ''/v1/sync'' (Some (rq_body rq))
    \<and> unmarshal (rq_body rq) = Some (JObject
          [(''node_id'', JString (n_node_id n)), (''config_version'', JInt v),
           (''protocol_type'', JString (n_protocol_type n)), (''users'', JArray js)])
    \<and> Some ` set js = {agent_user_json fmt (entitled_user n a u) | a u. entitled (env_db_now e t) (w_db w) k a u}"
proof -
  obtain us t where us: "set us = set (active_access_rows (env_db_now e t) k (w_db w))"
      and told: "sync_request_to e k (addresses (w_db w)) us rq"
    using SyncNode_sent_to [OF run key k rq post] by blast
  from told obtain m v body where m: "n_id m = k" "address m \<in> addresses (w_db w)"
      and body: "env_encode_payload e (sync_payload m us v) = Inr body"
      and sends: "rq = agent_request m ''POST'' ''/v1/sync'' (Some body)"
    by (auto simp: sync_request_to_def sync_request_def)
  obtain n where n: "n \<in> set (t_nodes (w_db w))" "address m = address n" using m(2) by (auto simp: addresses_def)
  obtain j where doc: "payload_json fmt (sync_payload m us v) = Some j" "body = marshal j"
    using writes_jsonD [OF json body] by blast
  have same: "n_id n = k" "agent_request m = agent_request n" "n_node_id m = n_node_id n"
      "n_protocol_type m = n_protocol_type n" "agent_user m = agent_user n"
    using n(2) m(1) by (auto simp: address_def agent_request_def agent_user_def fun_eq_iff)
  have users: "agent_user n ` set us = {entitled_user n a u | a u. entitled (env_db_now e t) (w_db w) k a u}"
    using us active_access_entitled by simp
  have "agent_user_ok fmt x" if "x \<in> agent_user n ` set us" for x
    using that texts names n(1) unfolding users by (auto simp: entitled_def intro!: entitled_user_encodes)
  then have "list_all (agent_user_ok fmt) (sp_users (sync_payload m us v))"
    by (simp add: sync_payload_def list_all_iff same)
  with payload_on_the_wire [of "sync_payload m us v" fmt] names n(1) doc(1) obtain js where
    shape: "j = JObject [(''node_id'', JString (n_node_id n)), (''config_version'', JInt v),
       (''protocol_type'', JString (n_protocol_type n)), (''users'', JArray js)]"
    and js: "map Some js = map (agent_user_json fmt) (map (agent_user n) us)" and reads: "unmarshal (marshal j) = Some j"
    by (auto simp: sync_payload_def same)
  have "Some ` set js = agent_user_json fmt ` agent_user n ` set us" using documents_of_users [OF js] by simp
  then have "Some ` set js = {agent_user_json fmt (entitled_user n a u) | a u. entitled (env_db_now e t) (w_db w) k a u}"
    by (auto simp: users)
  moreover have "rq_body rq = marshal j" "rq = agent_request n ''POST'' ''/v1/sync'' (Some (marshal j))"
    by (simp_all add: sends doc(2) same agent_request_def body_text_def)
  ultimately show ?thesis using n(1) same(1) reads shape by auto
qed

definition sample_time :: "time \<Rightarrow> string option" where
  "sample_time t = Some ''2030-01-01T00:00:00Z''"

definition writing_env :: env where
  "writing_env = sample_env\<lparr>env_encode_payload := \<lambda>p. Inr (marshal (the (payload_json sample_time p)))\<rparr>"

lemma agent_user_written: "agent_user_json sample_time u \<noteq> None"
  by (cases "au_expires_at u") (simp_all add: agent_user_json_def encoder_defs time_json_def sample_time_def list_all_iff)

lemma payload_written: "\<exists>j. payload_json sample_time p = Some j"
  using agent_user_written by (auto simp: payload_json_def encoder_defs list_all_iff)

lemma writing_env_writes: "writes_json sample_time writing_env"
proof -
  have "payload_json sample_time p = Some (the (payload_json sample_time p))" for p using payload_written [of p] by auto
  then show ?thesis unfolding writes_json_def writing_env_def by auto
qed

lemma sample_sends:
  "map rq_method (sent sample_world (snd (SyncNode (sample_env\<lparr>env_encode_payload := \<lambda>p. Inr (enc p)\<rparr>) ''n1'' sample_world)))
     = [''GET'', ''POST'']"
  by code_simp

lemma sample_users_encode:
  "\<forall>a \<in> set (t_access sample_db). \<forall>u \<in> set (t_users sample_db). user_encodes sample_time a u"
proof -
  have "utf8 ''2030-01-01T00:00:00Z''" "utf8 ''u1''" "utf8 ''u2''" "utf8 ''anna''" "utf8 ''bert''" "utf8 ''pu''" "utf8 ''pp''"
    by (rule utf8_ascii, simp)+
  then show ?thesis by (simp add: user_encodes_def sample_defs sample_time_def)
qed

lemma SyncNode_body_reads_back_witness:
  "\<exists>rq v js. rq \<in> set (sent sample_world (snd (SyncNode writing_env ''n1'' sample_world)))
     \<and> rq = agent_request sample_node ''POST'' ''/v1/sync'' (Some (rq_body rq))
     \<and> unmarshal (rq_body rq) = Some (JObject
          [(''node_id'', JString ''edge''), (''config_version'', JInt v),
           (''protocol_type'', JString ''naive''), (''users'', JArray js)])"
proof -
  let ?w = "snd (SyncNode writing_env ''n1'' sample_world)"
  have "map rq_method (sent sample_world ?w) = [''GET'', ''POST'']" unfolding writing_env_def by (rule sample_sends)
  then obtain rq where rq: "rq \<in> set (sent sample_world ?w)" "rq_method rq = ''POST''" by force
  have ids: "env_parse_uuid writing_env ''n1'' = Some ''n1''" by (simp add: writing_env_def)
  have "utf8 ''edge''" "utf8 ''naive''" by (rule utf8_ascii, simp)+
  then have names: "\<forall>n \<in> set (t_nodes (w_db sample_world)). utf8 (n_node_id n) \<and> utf8 (n_protocol_type n)"
    by (simp add: sample_db_def sample_node_def)
  have users: "\<forall>a \<in> set (t_access (w_db sample_world)). \<forall>u \<in> set (t_users (w_db sample_world)). user_encodes sample_time a u"
    using sample_users_encode by simp
  from SyncNode_body_reads_back [OF writing_env_writes prod.collapse [symmetric] ids ids rq users names] rq(1)
  show ?thesis by (auto simp: sample_db_def sample_node_def)
qed

end
