(* ===== verification/Program.thy ===== *)
theory Program
  imports Config Migrate Server_Claims
begin

text \<open>
  cmd/server/main.go: the program.  The command line, the way from the configuration over the
  database and its migrations to the server, and the goroutines of the running process: the
  listener, the expiry loop and the main one, which waits for a signal.
\<close>

section \<open>The command line\<close>

text \<open>
  \<^verbatim>\<open>flag.Parse\<close> of the standard library for the two boolean flags the program declares:
  one or two dashes, an optional value after \<open>=\<close>, an end at the first argument that is no flag.
  An unknown flag or a bad value ends the process with status 2, an undeclared \<^verbatim>\<open>-h\<close> with 0.
\<close>

datatype command_line = Flags bool bool | UsageShown | BadUsage

definition split_flag :: "string \<Rightarrow> string \<times> string option" where
  "split_flag name =
     (let rest = dropWhile (\<lambda>c. c \<noteq> CHR ''='') (tl name) in
      (hd name # takeWhile (\<lambda>c. c \<noteq> CHR ''='') (tl name), if rest = [] then None else Some (tl rest)))"

definition bool_flag :: "string option \<Rightarrow> bool option" where
  "bool_flag v = (case v of None \<Rightarrow> Some True | Some s \<Rightarrow> ParseBool s)"

fun parse_flags :: "bool \<Rightarrow> bool \<Rightarrow> string list \<Rightarrow> command_line" where
  "parse_flags showHelp migrateOnly [] = Flags showHelp migrateOnly"
| "parse_flags showHelp migrateOnly (s # args) =
     (if length s < 2 \<or> hd s \<noteq> CHR ''-'' \<or> s = ''--'' then Flags showHelp migrateOnly
      else
        (let name = (if s ! 1 = CHR ''-'' then drop 2 s else drop 1 s) in
         if hd name = CHR ''-'' \<or> hd name = CHR ''='' then BadUsage
         else
           (case split_flag name of (key, v) \<Rightarrow>
              if key = ''help'' then
                (case bool_flag v of None \<Rightarrow> BadUsage | Some b \<Rightarrow> parse_flags b migrateOnly args)
              else if key = ''migrate-up'' then
                (case bool_flag v of None \<Rightarrow> BadUsage | Some b \<Rightarrow> parse_flags showHelp b args)
              else if key = ''h'' then UsageShown else BadUsage)))"

section \<open>Up to the server\<close>

datatype start = Exits nat | Serves Config

text \<open>
  \<^verbatim>\<open>main\<close> up to \<^verbatim>\<open>NewServer\<close>: the exit status, or the configuration the server
  gets.
\<close>

definition startup ::
  "(string \<Rightarrow> int \<Rightarrow> int) \<Rightarrow> environment \<Rightarrow> string list \<Rightarrow> (string \<Rightarrow> goerr + 'pool) \<Rightarrow> ('pool \<Rightarrow> goerr option)
   \<Rightarrow> faults \<Rightarrow> (string \<Rightarrow> 's \<Rightarrow> goerr + 's) \<Rightarrow> 's migrator \<Rightarrow> start \<times> 's migrator" where
  "startup frac os args new_pool ping f run_sql w =
     (case parse_flags False False args of
        BadUsage \<Rightarrow> (Exits 2, w)
      | UsageShown \<Rightarrow> (Exits 0, w)
      | Flags showHelp migrateOnly \<Rightarrow>
          if showHelp then (Exits 0, w)
          else
            (let cfg = Load frac os in
             case fst (Connect new_pool ping (cf_database_url cfg)) of
               Inl err \<Rightarrow> (Exits 1, w)
             | Inr pool \<Rightarrow>
                 (case Migrate f run_sql w of
                    (Inl err, w') \<Rightarrow> (Exits 1, w')
                  | (Inr _, w') \<Rightarrow> if migrateOnly then (Exits 0, w') else (Serves cfg, w'))))"

section \<open>The running process\<close>

text \<open>
  The main goroutine waits for a signal, then for the server to drain; the listener has not yet
  begun, accepts requests, or has ended.
\<close>

datatype main_phase = Waiting | Draining | Exited nat
datatype listener = Unopened | Listening

record program =
  pg_cfg :: Config
  pg_phase :: main_phase
  pg_listener :: listener
  pg_server :: server

definition program_start :: "Config \<Rightarrow> world \<Rightarrow> program" where
  "program_start cfg w =
     \<lparr>pg_cfg = cfg, pg_phase = Waiting, pg_listener = Unopened,
      pg_server = \<lparr>running = False, rest_state = w\<rparr>\<rparr>"

text \<open>Has the process ended?\<close>

definition exited :: "program \<Rightarrow> bool" where
  "exited p = (case pg_phase p of Exited _ \<Rightarrow> True | _ \<Rightarrow> False)"

text \<open>
  The steps.  Each request is served with the configuration of the start; the databases', clocks'
  and agents' answers may be others for each.  While the server drains it completes requests; the
  loop's iteration in progress meets a cancelled context, that is refused calls.
\<close>

inductive program_step :: "router \<Rightarrow> (Request \<Rightarrow> answer) \<Rightarrow> program \<Rightarrow> program \<Rightarrow> bool" for match static where
  listens: "pg_phase p = Waiting \<Longrightarrow> pg_listener p = Unopened \<Longrightarrow>
    program_step match static p (p\<lparr>pg_listener := Listening\<rparr>)"
| listener_fails: "\<not> exited p \<Longrightarrow> program_step match static p (p\<lparr>pg_phase := Exited 1\<rparr>)"
| request: "\<not> exited p \<Longrightarrow> pg_listener p = Listening \<Longrightarrow> pn_cfg h = pg_cfg p \<Longrightarrow>
    serve match static h r (pg_server p) = (ans, s) \<Longrightarrow> program_step match static p (p\<lparr>pg_server := s\<rparr>)"
| iteration: "\<not> exited p \<Longrightarrow> cf_expiry_reconcile_enabled (pg_cfg p) \<Longrightarrow>
    runIteration (panel_expiry e) (pg_server p) = (ans, s) \<Longrightarrow> program_step match static p (p\<lparr>pg_server := s\<rparr>)"
| signalled: "pg_phase p = Waiting \<Longrightarrow> program_step match static p (p\<lparr>pg_phase := Draining\<rparr>)"
| drained: "pg_phase p = Draining \<Longrightarrow> program_step match static p (p\<lparr>pg_phase := Exited 0\<rparr>)"
| drain_fails: "pg_phase p = Draining \<Longrightarrow> program_step match static p (p\<lparr>pg_phase := Exited 1\<rparr>)"

inductive_cases program_stepE: "program_step match static p p'"

abbreviation program_run :: "router \<Rightarrow> (Request \<Rightarrow> answer) \<Rightarrow> program \<Rightarrow> program \<Rightarrow> bool" where
  "program_run match static \<equiv> (program_step match static)\<^sup>*\<^sup>*"

section \<open>Runs\<close>

lemma program_run_server:
  assumes "program_run match static p p'"
  shows "server_run match static (pg_server p) (pg_server p') \<and> pg_cfg p' = pg_cfg p"
  using assms
proof (induction rule: rtranclp_induct)
  case base
  show ?case by (simp add: server_run.started)
next
  case (step q q')
  from step.hyps(2) show ?case
    by cases (use step.IH in \<open>auto intro: server_run.request server_run.expiry\<close>)
qed

text \<open>A process that has ended takes no step.\<close>

lemma exited_is_final: "exited p \<Longrightarrow> \<not> program_step match static p p'"
  by (auto simp: exited_def elim!: program_stepE split: main_phase.split_asm)

section \<open>Properties\<close>

text \<open>
  C7: nothing is served before the tables are up to date.  When \<^verbatim>\<open>main\<close> gets as far as
  the server, the migrations that were not recorded have been applied, each once and in order, as
  without failures, all are recorded, the configuration is that of the environment with no
  credential empty, and the command line asked for neither help nor migrations only; every other
  way ends the process, and help and a bad command line end it with the database untouched.
\<close>

theorem startup_serves_only_migrated:
  assumes "startup frac os args new_pool ping f run_sql w = (r, w')"
  shows "case r of
      Serves cfg \<Rightarrow> pending run_sql Migrations (tables_of w) = Inr (tables_of w')
        \<and> mg_version ` set Migrations \<subseteq> set (fst (tables_of w'))
        \<and> cfg = Load frac os \<and> cf_admin_password cfg \<noteq> [] \<and> cf_admin_api_token cfg \<noteq> []
        \<and> parse_flags False False args = Flags False False
    | Exits n \<Rightarrow> n = 0 \<and> w' = w \<and> parse_flags False False args \<noteq> Flags False False
        \<or> n = 0 \<and> parse_flags False False args = Flags False True
            \<and> pending run_sql Migrations (tables_of w) = Inr (tables_of w')
        \<or> n = 1 \<and> (\<exists>k. pending run_sql (take k Migrations) (tables_of w) = Inr (tables_of w'))
        \<or> n = 2 \<and> w' = w \<and> parse_flags False False args = BadUsage"
proof (cases "parse_flags False False args")
  case (Flags showHelp migrateOnly)
  show ?thesis
  proof (cases "showHelp \<or> (\<exists>err. fst (Connect new_pool ping (cf_database_url (Load frac os))) = Inl err)")
    case True
    then show ?thesis
      using assms Flags by (auto simp: startup_def Let_def split: if_splits intro!: exI [of _ "0 :: nat"])
  next
    case False
    then obtain pool where pool: "fst (Connect new_pool ping (cf_database_url (Load frac os))) = Inr pool"
      by (metis sum.exhaust)
    obtain ans v where run: "Migrate f run_sql w = (ans, v)" by force
    obtain k where k: "pending run_sql (take k Migrations) (tables_of w) = Inr (tables_of v)"
        "ans = Inr () \<longrightarrow> k = length Migrations"
      using MigrateWith_result [OF run [unfolded Migrate_def]] by blast
    have all: "mg_version ` set Migrations \<subseteq> set (fst (tables_of v))"
      if "pending run_sql Migrations (tables_of w) = Inr (tables_of v)"
      using pending_records [of run_sql Migrations "fst (tables_of w)" "snd (tables_of w)" "fst (tables_of v)"
          "snd (tables_of v)"] that by simp
    show ?thesis
      using assms Flags False pool run k all Load_credentials [of frac os]
      by (cases ans) (auto simp: startup_def Let_def split: if_splits)
  qed
qed (use assms in \<open>auto simp: startup_def\<close>)

definition no_settings :: environment where
  "no_settings key = []"

lemma migrated_start:
  obtains w where "startup (\<lambda>_ _. 0) no_settings [] Inr (\<lambda>_. None) (\<lambda>_. None) count_sql
      \<lparr>mr_tick = 0, mr_versions = None, mr_schema = 0\<rparr> = (Serves (Load (\<lambda>_ _. 0) no_settings), w)"
proof -
  obtain w where "Migrate (\<lambda>_. None) count_sql \<lparr>mr_tick = 0, mr_versions = None, mr_schema = 0\<rparr> = (Inr (), w)"
    using undisturbed_succeeds [of count_sql] by (auto simp: count_sql_def)
  then show thesis by (intro that [of w]) (simp add: startup_def Let_def Connect_def)
qed

lemma startup_serves_only_migrated_witness:
  "\<exists>w. startup (\<lambda>_ _. 0) no_settings [] Inr (\<lambda>_. None) (\<lambda>_. None) count_sql
      \<lparr>mr_tick = 0, mr_versions = None, mr_schema = 0\<rparr> = (Serves (Load (\<lambda>_ _. 0) no_settings), w)
     \<and> mr_schema w = 5"
proof -
  obtain w where run: "startup (\<lambda>_ _. 0) no_settings [] Inr (\<lambda>_. None) (\<lambda>_. None) count_sql
      \<lparr>mr_tick = 0, mr_versions = None, mr_schema = 0\<rparr> = (Serves (Load (\<lambda>_ _. 0) no_settings), w)"
    by (rule migrated_start)
  have "pending count_sql Migrations (tables_of \<lparr>mr_tick = 0, mr_versions = None, mr_schema = 0\<rparr>) = Inr (tables_of w)"
    using startup_serves_only_migrated [OF run] by simp
  then have "mr_schema w = 5" unfolding Migrations_def by (auto simp: tables_of_def count_sql_def)
  with run show ?thesis by blast
qed

end
