(* ===== verification/Language.thy ===== *)
theory Language
  imports Server_Claims
begin

text \<open>
  What the language of the interface can influence.  Two runs of a handler, on requests that differ
  in cookies only, are compared: \<open>same_effect\<close> says that they leave the same state and that both fail
  or both answer, and the rules compose it along the program.
\<close>

section \<open>Two runs with the same effect\<close>

definition same_effect :: "('w, 'a) io \<Rightarrow> ('w, 'a) io \<Rightarrow> bool" where
  "same_effect m m' \<longleftrightarrow> (\<forall>w. snd (m w) = snd (m' w)
     \<and> (fst (m w) = fst (m' w) \<or> (\<exists>x y. fst (m w) = Inr x \<and> fst (m' w) = Inr y)))"

lemma same_effect_refl [simp, intro]: "same_effect m m"
  by (simp add: same_effect_def)

lemma same_effect_ret: "same_effect (retE x) (retE y)"
  by (simp add: same_effect_def retE_def)

text \<open>The same call first: what follows may use its value.\<close>

lemma same_effect_bind:
  assumes "\<And>x. same_effect (f x) (g x)"
  shows "same_effect (bindE m f) (bindE m g)"
proof -
  have "snd (bindE m f w) = snd (bindE m g w) \<and> (fst (bindE m f w) = fst (bindE m g w)
      \<or> (\<exists>x y. fst (bindE m f w) = Inr x \<and> fst (bindE m g w) = Inr y))" for w
    using assms by (cases "m w") (auto simp: bindE_def same_effect_def split: sum.splits)
  then show ?thesis by (simp add: same_effect_def)
qed

text \<open>Calls that may give other values: what follows must not care.\<close>

lemma same_effect_bind_any:
  assumes "same_effect m m'" and "\<And>x y. same_effect (f x) (g y)"
  shows "same_effect (bindE m f) (bindE m' g)"
proof -
  have "snd (bindE m f w) = snd (bindE m' g w) \<and> (fst (bindE m f w) = fst (bindE m' g w)
      \<or> (\<exists>x y. fst (bindE m f w) = Inr x \<and> fst (bindE m' g w) = Inr y))" for w
  proof -
    obtain r w1 r' where m: "m w = (r, w1)" "m' w = (r', w1)" "r = r' \<or> (\<exists>x y. r = Inr x \<and> r' = Inr y)"
      using assms(1) unfolding same_effect_def by (metis prod.collapse)
    then show ?thesis using assms(2) by (cases r; cases r') (auto simp: bindE_def same_effect_def)
  qed
  then show ?thesis by (simp add: same_effect_def)
qed

lemma same_effect_loop:
  assumes "\<And>x s t. same_effect (body x s) (body' x t)"
  shows "same_effect (forE body xs s) (forE body' xs t)"
proof (induction xs arbitrary: s t)
  case (Cons x xs)
  then show ?case using assms by (auto intro: same_effect_bind_any)
qed (simp add: same_effect_ret)

lemma same_effect_option:
  "same_effect a a' \<Longrightarrow> (\<And>x. same_effect (f x) (g x)) \<Longrightarrow>
     same_effect (case z of None \<Rightarrow> a | Some x \<Rightarrow> f x) (case z of None \<Rightarrow> a' | Some x \<Rightarrow> g x)"
  by (cases z) auto

lemma same_effect_sum:
  "(\<And>x. same_effect (f x) (f' x)) \<Longrightarrow> (\<And>y. same_effect (g y) (g' y)) \<Longrightarrow>
     same_effect (case z of Inl x \<Rightarrow> f x | Inr y \<Rightarrow> g y) (case z of Inl x \<Rightarrow> f' x | Inr y \<Rightarrow> g' y)"
  by (cases z) auto

section \<open>Requests with other cookies\<close>

abbreviation other_cookies :: "(string \<times> string) list \<Rightarrow> Request \<Rightarrow> Request" where
  "other_cookies cs r \<equiv> r\<lparr>r_cookies := cs\<rparr>"

lemma form_simps:
  "URLParam (other_cookies cs r) k = URLParam r k" "QueryGet (other_cookies cs r) k = QueryGet r k"
  "FormValue (other_cookies cs r) k = FormValue r k" "FormValues (other_cookies cs r) k = FormValues r k"
  "boolFromForm (other_cookies cs r) k b = boolFromForm r k b" "r_body (other_cookies cs r) = r_body r"
  by (simp_all add: URLParam_def QueryGet_def FormValue_def FormValues_def boolFromForm_def)

lemma input_simps:
  "nodeInputFromForm (other_cookies cs r) = nodeInputFromForm r"
  "userInputFromForm h (other_cookies cs r) = userInputFromForm h r"
  "node_path (other_cookies cs r) = node_path r" "user_path (other_cookies cs r) = user_path r"
  "decodeJSON h (other_cookies cs r) = decodeJSON h r"
  unfolding nodeInputFromForm_def userInputFromForm_def node_path_def user_path_def decodeJSON_def fun_eq_iff form_simps
  by ((intro allI, rule refl) | rule refl)+

lemmas request_simps = form_simps input_simps

lemma api_handlers_same:
  "APIListNodes h (other_cookies cs r) = APIListNodes h r"
  "APICreateNode h (other_cookies cs r) = APICreateNode h r"
  "APIGetNode h (other_cookies cs r) = APIGetNode h r"
  "APIUpdateNode h (other_cookies cs r) = APIUpdateNode h r"
  "APINodeHealth h (other_cookies cs r) = APINodeHealth h r"
  "APINodeStatus h (other_cookies cs r) = APINodeStatus h r"
  "APISyncNode h (other_cookies cs r) = APISyncNode h r"
  "APISyncAllNodes h (other_cookies cs r) = APISyncAllNodes h r"
  "APICreateUser h (other_cookies cs r) = APICreateUser h r"
  "APIGetUser h (other_cookies cs r) = APIGetUser h r"
  "APIUpdateUser h (other_cookies cs r) = APIUpdateUser h r"
  "APIEnableUser h (other_cookies cs r) = APIEnableUser h r"
  "APIDisableUser h (other_cookies cs r) = APIDisableUser h r"
  "APIAssignNode h (other_cookies cs r) = APIAssignNode h r"
  "APIUnassignNode h (other_cookies cs r) = APIUnassignNode h r"
  "APISyncUser h (other_cookies cs r) = APISyncUser h r"
  "APIUserSubscription h (other_cookies cs r) = APIUserSubscription h r"
  "APIReconcileExpiredUsers h (other_cookies cs r) = APIReconcileExpiredUsers h r"
  unfolding APIListNodes_def APICreateNode_def APIGetNode_def APIUpdateNode_def APINodeHealth_def APINodeStatus_def
    APISyncNode_def APISyncAllNodes_def APICreateUser_def APIGetUser_def APIUpdateUser_def APIEnableUser_def
    APIDisableUser_def APIAssignNode_def APIUnassignNode_def APISyncUser_def APIUserSubscription_def APIReconcileExpiredUsers_def
    api_set_enabled_def request_simps
  by (rule refl)+

lemma api_same:
  "(m, p, f) \<in> set api_routes \<Longrightarrow> f h (other_cookies cs r) = f h r"
  by (auto simp: api_routes_def on_world_def api_handlers_same fun_eq_iff)

lemma subscription_same: "handle_Subscription h (other_cookies cs r) = handle_Subscription h r"
  unfolding handle_Subscription_def request_simps by (rule refl)

section \<open>Handlers of pages\<close>

lemma same_effect_handleErr:
  "(\<And>x. same_effect (f x) (g x)) \<Longrightarrow> same_effect (handleErr r m f) (handleErr r' m g)"
  unfolding handleErr_def by (intro same_effect_bind same_effect_sum same_effect_ret)

lemma same_effect_handleErr_any:
  assumes "same_effect m m'" and "\<And>x y. same_effect (f x) (g y)"
  shows "same_effect (handleErr r m f) (handleErr r' m' g)"
  unfolding same_effect_def
proof
  fix w
  obtain x v x' where m: "m w = (x, v)" "m' w = (x', v)" "x = x' \<or> (\<exists>y z. x = Inr y \<and> x' = Inr z)"
    using assms(1) unfolding same_effect_def by (metis prod.collapse)
  then show "snd (handleErr r m f w) = snd (handleErr r' m' g w) \<and> (fst (handleErr r m f w) = fst (handleErr r' m' g w)
      \<or> (\<exists>a b. fst (handleErr r m f w) = Inr a \<and> fst (handleErr r' m' g w) = Inr b))"
    using assms(2) by (cases x; cases x') (auto simp: handleErr_def bindE_def attemptE_def retE_def same_effect_def)
qed

lemma same_effect_ask_node: "same_effect (ask_node h (other_cookies cs r) m fl s) (ask_node h r m fl s')"
  unfolding ask_node_def Let_def request_simps by (intro same_effect_bind same_effect_sum same_effect_ret)

lemma same_effect_sync_after_change:
  "same_effect (syncNodesAfterChangeForUI h locale ids) (syncNodesAfterChangeForUI h locale' ids)"
  unfolding syncNodesAfterChangeForUI_def by (intro same_effect_bind same_effect_ret)

lemma same_effect_sync_assignments:
  "same_effect (syncUserAssignmentsForUI h locale k) (syncUserAssignmentsForUI h locale' k)"
  unfolding syncUserAssignmentsForUI_def by (intro same_effect_bind same_effect_ret)

lemma same_effect_sync_and_tell:
  "same_effect (sync_and_tell h (other_cookies cs r) ids path fl s) (sync_and_tell h r ids path fl s)"
  unfolding sync_and_tell_def Let_def
  by (rule same_effect_bind_any [OF same_effect_sync_after_change]) (rule same_effect_ret)

lemma same_effect_userStatus: "same_effect (userStatus e locale user) (userStatus e locale' user)"
  unfolding userStatus_def by (auto intro!: same_effect_bind same_effect_ret)

lemma same_effect_list_item: "same_effect (list_item e locale count user) (list_item e locale' count user)"
  unfolding list_item_def
  by (rule same_effect_bind_any [OF same_effect_userStatus]) (auto intro: same_effect_ret split: prod.splits)

lemma same_effect_expiryText: "same_effect (subscriptionExpiryText e format locale t) (subscriptionExpiryText e format locale' t)"
  unfolding subscriptionExpiryText_def by (intro same_effect_bind same_effect_ret)

lemmas same_effect_rules =
  same_effect_ret same_effect_handleErr same_effect_ask_node same_effect_sync_and_tell same_effect_list_item
  same_effect_option same_effect_sum

lemma Dashboard_effect: "same_effect (Dashboard h (other_cookies cs r)) (Dashboard h r)"
  unfolding Dashboard_def Let_def request_simps
  apply (rule same_effect_bind)+
  apply (rule same_effect_bind_any)
  apply (rule same_effect_loop)
  apply (rule same_effect_bind_any [OF same_effect_list_item])
  apply (rule same_effect_ret)
  apply (rule same_effect_ret)
  done

lemma Users_effect: "same_effect (Users h (other_cookies cs r)) (Users h r)"
proof -
  have item: "same_effect (bindE (list_item e l count user) (\<lambda>item. retE (f item)))
      (bindE (list_item e l' count user) (\<lambda>item. retE (g item)))" for e l l' count user f g
    by (rule same_effect_bind_any [OF same_effect_list_item same_effect_ret])
  show ?thesis unfolding Users_def Let_def request_simps
    by (intro same_effect_handleErr same_effect_bind same_effect_bind_any [OF same_effect_loop] item same_effect_ret)
qed

lemma NodeDetail_effect: "same_effect (NodeDetail h (other_cookies cs r)) (NodeDetail h r)"
  unfolding NodeDetail_def Let_def request_simps
  by (intro same_effect_handleErr same_effect_bind) (simp add: same_effect_ret split: prod.split)

lemma UserDetail_effect: "same_effect (UserDetail h (other_cookies cs r)) (UserDetail h r)"
  unfolding UserDetail_def Let_def request_simps
  by (intro same_effect_handleErr same_effect_bind same_effect_bind_any [OF same_effect_userStatus])
    (auto split: prod.split intro!: same_effect_bind same_effect_bind_any [OF same_effect_expiryText] same_effect_ret)

lemma handlers_effect:
  "same_effect (Sessions h (other_cookies cs r)) (Sessions h r)"
  "same_effect (Nodes h (other_cookies cs r)) (Nodes h r)"
  "same_effect (handle_CreateNode h (other_cookies cs r)) (handle_CreateNode h r)"
  "same_effect (EditNodePage h (other_cookies cs r)) (EditNodePage h r)"
  "same_effect (handle_ValidateNodeStatus h (other_cookies cs r)) (handle_ValidateNodeStatus h r)"
  "same_effect (handle_UpdateNode h (other_cookies cs r)) (handle_UpdateNode h r)"
  "same_effect (handle_DeleteNode h (other_cookies cs r)) (handle_DeleteNode h r)"
  "same_effect (NodeHealth h (other_cookies cs r)) (NodeHealth h r)"
  "same_effect (NodeStatus h (other_cookies cs r)) (NodeStatus h r)"
  "same_effect (handle_SyncNode h (other_cookies cs r)) (handle_SyncNode h r)"
  "same_effect (handle_SyncAllNodes h (other_cookies cs r)) (handle_SyncAllNodes h r)"
  "same_effect (handle_CreateUser h (other_cookies cs r)) (handle_CreateUser h r)"
  "same_effect (handle_UpdateUser h (other_cookies cs r)) (handle_UpdateUser h r)"
  "same_effect (handle_DeleteUser h (other_cookies cs r)) (handle_DeleteUser h r)"
  "same_effect (handle_EnableUser h (other_cookies cs r)) (handle_EnableUser h r)"
  "same_effect (handle_DisableUser h (other_cookies cs r)) (handle_DisableUser h r)"
  "same_effect (handle_AssignNode h (other_cookies cs r)) (handle_AssignNode h r)"
  "same_effect (handle_UnassignNode h (other_cookies cs r)) (handle_UnassignNode h r)"
  "same_effect (EnableUserNodeAccess h (other_cookies cs r)) (EnableUserNodeAccess h r)"
  "same_effect (DisableUserNodeAccess h (other_cookies cs r)) (DisableUserNodeAccess h r)"
  unfolding Sessions_def Nodes_def handle_CreateNode_def EditNodePage_def handle_ValidateNodeStatus_def handle_UpdateNode_def
    handle_DeleteNode_def NodeHealth_def NodeStatus_def handle_SyncNode_def handle_SyncAllNodes_def handle_CreateUser_def handle_UpdateUser_def
    handle_DeleteUser_def handle_EnableUser_def handle_DisableUser_def handle_AssignNode_def handle_UnassignNode_def EnableUserNodeAccess_def DisableUserNodeAccess_def
    Let_def request_simps
  by (intro same_effect_rules same_effect_bind)+

lemma SyncUserNodes_effect: "same_effect (SyncUserNodes h (other_cookies cs r)) (SyncUserNodes h r)"
  unfolding SyncUserNodes_def Let_def request_simps
  by (intro same_effect_handleErr_any same_effect_sync_assignments same_effect_ret)

lemma ReconcileExpiredUsers_effect:
  "same_effect (ReconcileExpiredUsers h (other_cookies cs r)) (ReconcileExpiredUsers h r)"
  unfolding ReconcileExpiredUsers_def Let_def
  by (rule same_effect_bind) (auto intro: same_effect_ret)

section \<open>The server\<close>

text \<open>The paths of the interfaces the language must not reach.\<close>

definition language_free :: "string \<Rightarrow> bool" where
  "language_free path \<longleftrightarrow> HasPrefix path ''/api/'' \<or> HasPrefix path ''/sub/''"

lemma other_rows_not_free:
  assumes "(m, p, f) \<in> set (public_routes static) \<and> p \<noteq> ''/sub/{token}'' \<or> (m, p, f) \<in> set ui_routes" and "path_fits p path"
  shows "\<not> language_free path"
proof -
  have other: "literal_part p = p \<and> \<not> language_free p
      \<or> HasPrefix (literal_part p) ''/nodes/'' \<or> HasPrefix (literal_part p) ''/users/'' \<or> HasPrefix (literal_part p) ''/static/''"
  proof (cases "(m, p, f) \<in> set ui_routes")
    case True
    have "list_all (\<lambda>(m, p, f). literal_part p = p \<and> \<not> language_free p
        \<or> HasPrefix (literal_part p) ''/nodes/'' \<or> HasPrefix (literal_part p) ''/users/'') ui_routes"
      unfolding ui_routes_def by (simp, code_simp)
    with True show ?thesis by (auto simp: list_all_iff)
  next
    case False
    then have "p \<in> {''/static/*'', ''/health'', ''/ready'', ''/login'', ''/ui/language''}"
      using assms(1) by (auto simp: public_routes_def)
    then show ?thesis by (auto simp: literal_part_def language_free_def HasPrefix_def)
  qed
  then show ?thesis
    using assms(2) by (auto simp: path_fits_def language_free_def HasPrefix_iff split: if_split_asm)
qed

lemma matched_row:
  assumes "router_ok match" and "match (r_method r) (r_path r) = Some (i, params)"
  obtains m p g where "routes static ! i = (m, p, g)" and "(m, p, g) \<in> set (routes static)" and "path_fits p (r_path r)"
proof -
  have i: "i < length (routes static)" and fits: "row_fits (r_method r) (r_path r) (route_patterns ! i)"
    using assms unfolding router_ok_def route_count [of static, symmetric] by blast+
  obtain m p g where row: "routes static ! i = (m, p, g)" by (cases "routes static ! i")
  have same: "route_patterns = map (\<lambda>(m, p, f). (m, p)) (routes static)"
    by (simp add: route_patterns_def routes_def public_routes_def)
  have "route_patterns ! i = (m, p)" unfolding same using i row by simp
  with fits have "path_fits p (r_path r)" by (simp add: row_fits_def)
  moreover have "(m, p, g) \<in> set (routes static)" using i row nth_mem by metis
  ultimately show thesis using row that by blast
qed

lemma on_world_effect:
  "same_effect (f h r) (f h r') \<Longrightarrow> same_effect (on_world f h r) (on_world f h r')"
  unfolding same_effect_def on_world_def by (auto split: prod.splits) (metis prod.collapse prod.sel)+

lemma public_effect:
  "(m, p, f) \<in> set (public_routes static) \<Longrightarrow> same_effect (f h (other_cookies cs r)) (f h r)"
proof -
  have login: "same_effect (LoginPage (other_cookies cs r)) (LoginPage r)" by (simp add: LoginPage_def same_effect_ret)
  have "r_method (other_cookies cs r) = r_method r" by simp
  then have form: "same_effect (Login h (other_cookies cs r)) (Login h r)"
    unfolding Login_def middleware_Login_def request_simps by (auto split: option.split intro: same_effect_ret)
  have "r_form_error (other_cookies cs r) = r_form_error r" by simp
  then have language: "same_effect (SetLanguage h (other_cookies cs r)) (SetLanguage h r)"
    unfolding SetLanguage_def request_simps by simp
  have ready: "readyHandler h (other_cookies cs r) = readyHandler h r" by (simp add: readyHandler_def)
  show "(m, p, f) \<in> set (public_routes static) \<Longrightarrow> same_effect (f h (other_cookies cs r)) (f h r)"
    using login form language
    by (auto simp: public_routes_def health_def ready subscription_same intro!: on_world_effect same_effect_ret)
qed

lemma ui_effect:
  "(m, p, f) \<in> set ui_routes \<Longrightarrow> same_effect (f h (other_cookies cs r)) (f h r)"
  by (auto simp: ui_routes_def intro!: on_world_effect handlers_effect SyncUserNodes_effect Dashboard_effect Users_effect NodeDetail_effect
      UserDetail_effect ReconcileExpiredUsers_effect)

lemma guarded_effect:
  assumes "same_effect (f h (other_cookies cs r)) (f h r)"
    and "Cookie (other_cookies cs r) ''vetka_admin'' = Cookie r ''vetka_admin''"
  shows "same_effect (UIAuth f h (other_cookies cs r)) (UIAuth f h r)" "same_effect (APIAuth f h (other_cookies cs r)) (APIAuth f h r)"
proof -
  have "r_path (other_cookies cs r) = r_path r" "r_authorization (other_cookies cs r) = r_authorization r" by simp_all
  then show "same_effect (UIAuth f h (other_cookies cs r)) (UIAuth f h r)"
      "same_effect (APIAuth f h (other_cookies cs r)) (APIAuth f h r)"
    unfolding UIAuth_def APIAuth_def Let_def assms(2) using assms(1) by (auto split: option.split)
qed

text \<open>
  C8: the language of the interface changes pages only.  Two requests that differ in cookies other than
  the administrator's - the one that keeps the chosen language among them - leave the same tables, have
  sent the agents the same requests and read the clocks and random numbers equally often; and if the path is
  one of the JSON interface or of the subscriptions, they get the same answer.
\<close>

theorem language_changes_only_pages:
  assumes router: "router_ok match"
    and cookie: "Cookie (other_cookies cs r) ''vetka_admin'' = Cookie r ''vetka_admin''"
    and run: "serve match static h r s = (ans, s1)" and other: "serve match static h (other_cookies cs r) s = (ans', s2)"
  shows "s2 = s1 \<and> (language_free (r_path r) \<longrightarrow> ans' = ans)"
proof (cases "match (r_method r) (r_path r)")
  case None
  then show ?thesis using run other by (simp add: serve_def retE_def)
next
  case (Some row)
  obtain i params where row: "match (r_method r) (r_path r) = Some (i, params)" using Some by (cases row) simp
  obtain m p g where g: "routes static ! i = (m, p, g)" "(m, p, g) \<in> set (routes static)" "path_fits p (r_path r)"
    using matched_row [OF router row] .
  let ?r = "r\<lparr>r_params := params\<rparr>"
  have r': "(other_cookies cs r)\<lparr>r_params := params\<rparr> = other_cookies cs ?r" by simp
  have "g h ((other_cookies cs r)\<lparr>r_params := params\<rparr>) s = (ans', s2)" using other row g(1) by (simp add: serve_def)
  then have runs: "g h ?r s = (ans, s1)" "g h (other_cookies cs ?r) s = (ans', s2)"
    unfolding r' using run row g(1) by (simp_all add: serve_def)
  have cookie': "Cookie (other_cookies cs ?r) ''vetka_admin'' = Cookie ?r ''vetka_admin''"
    using cookie by (simp add: Cookie_def)
  consider (public) "(m, p, g) \<in> set (public_routes static)" | (ui) f where "g = UIAuth f" "(m, p, f) \<in> set ui_routes"
    | (api) f where "g = APIAuth f" "(m, p, f) \<in> set api_routes"
    using g(2) by (auto simp: routes_def guard_route_def)
  then have "same_effect (g h (other_cookies cs ?r)) (g h ?r)
      \<and> (language_free (r_path r) \<longrightarrow> g h (other_cookies cs ?r) = g h ?r)"
  proof cases
    case public
    then show ?thesis
      using public_effect [OF public, of h cs ?r] other_rows_not_free [of m p g static "r_path r"] g(3)
      by (auto simp: public_routes_def on_world_def subscription_same fun_eq_iff)
  next
    case ui
    have "same_effect (UIAuth f h (other_cookies cs ?r)) (UIAuth f h ?r)"
      by (rule guarded_effect(1) [of f h cs ?r, OF ui_effect [OF ui(2), of h cs ?r] cookie'])
    then show ?thesis using ui other_rows_not_free [of m p f static "r_path r"] g(3) by blast
  next
    case api
    have "APIAuth f h (other_cookies cs ?r) = APIAuth f h ?r"
      using api_same [OF api(2), of h cs ?r] by (simp add: APIAuth_def Let_def)
    then show ?thesis using api(1) by simp
  qed
  then show ?thesis using runs by (auto simp: same_effect_def) (metis snd_conv)+
qed

definition list_request :: Request where
  "list_request = (sample_request ''GET'' ''/api/nodes'')\<lparr>r_authorization := ''Bearer key''\<rparr>"

lemma language_changes_only_pages_witness:
  "serve first_match (\<lambda>_. Redirect [] []) sample_panel (other_cookies [(languageCookieName, ''en'')] list_request) sample_server
   = serve first_match (\<lambda>_. Redirect [] []) sample_panel list_request sample_server"
proof -
  have "Cookie (other_cookies [(languageCookieName, ''en'')] list_request) ''vetka_admin'' = Cookie list_request ''vetka_admin''"
    by (simp add: Cookie_def list_request_def sample_request_def languageCookieName_def)
  moreover have "language_free (r_path list_request)"
    by (simp add: language_free_def list_request_def sample_request_def HasPrefix_def)
  ultimately show ?thesis
    using language_changes_only_pages [OF first_match_ok _ prod.collapse [symmetric] prod.collapse [symmetric],
        of "[(languageCookieName, ''en'')]" list_request "\<lambda>_. Redirect [] []" sample_panel sample_server]
    by (metis prod.collapse)
qed

end
