(* ===== verification/Masked_Secrets.thy ===== *)
theory Masked_Secrets
  imports Server_Claims
begin

text \<open>
  What reading nodes over the JSON interface gives away of their secrets: two worlds in which the
  secrets differ only in what has to stay hidden cannot be told apart by \<^verbatim>\<open>GET /api/nodes\<close> and
  \<^verbatim>\<open>GET /api/nodes/\{id\}\<close>.  \<^verbatim>\<open>POST /api/nodes\<close> is meant to return the raw secret once (README).
\<close>

text \<open>
  The same but for what is to stay hidden: everything of a secret of up to eight bytes, and of a longer one all
  but its length and the four bytes at each end.
\<close>

definition hidden_alike :: "string \<Rightarrow> string \<Rightarrow> bool" where
  "hidden_alike s t \<longleftrightarrow>
     (length s \<le> 8 \<and> length t \<le> 8)
     \<or> (\<exists>a x y b. s = a @ x @ b \<and> t = a @ y @ b \<and> length a = 4 \<and> length b = 4 \<and> x \<noteq> [] \<and> length x = length y)"

lemma MaskSecret_hidden_alike: "hidden_alike s t \<Longrightarrow> MaskSecret s = MaskSecret t"
  by (auto simp: hidden_alike_def MaskSecret_def)

definition resecret_node :: "(Node \<Rightarrow> string) \<Rightarrow> Node \<Rightarrow> Node" where
  "resecret_node sec n = n\<lparr>n_node_secret := sec n\<rparr>"

definition resecret :: "(Node \<Rightarrow> string) \<Rightarrow> world \<Rightarrow> world" where
  "resecret sec w = w\<lparr>w_db := (w_db w)\<lparr>t_nodes := map (resecret_node sec) (t_nodes (w_db w))\<rparr>\<rparr>"

lemma insert_by_map: "(\<And>x y. lt (f x) (f y) = lt x y) \<Longrightarrow> insert_by lt (f x) (map f ys) = map f (insert_by lt x ys)"
  by (induction ys) auto

lemma sort_by_map: "(\<And>x y. lt (f x) (f y) = lt x y) \<Longrightarrow> sort_by lt (map f xs) = map f (sort_by lt xs)"
  by (induction xs) (auto simp: insert_by_map)

lemma masked_json:
  assumes "MaskSecret (sec n) = MaskSecret (n_node_secret n)"
  shows "node_json h (scanNode (resecret_node sec n)) False = node_json h (scanNode n) False"
  using assms by (simp add: node_json_def newNodeResponse_def Mask_def scanNode_def resecret_node_def)

lemma find_map_id: "(\<And>n. P (f n) = P n) \<Longrightarrow> find P (map f xs) = map_option f (find P xs)"
  by (induction xs) auto

lemma exec_read_only:
  "exec e (\<lambda>t. reading (q t)) w =
     (case env_fault e (w_tick w) of
        Some (Refused err) \<Rightarrow> Inl err
      | Some (ReplyLost err) \<Rightarrow> (case q (w_tick w) (w_db w) of Inl err' \<Rightarrow> Inl err' | Inr x \<Rightarrow> Inl err)
      | None \<Rightarrow> q (w_tick w) (w_db w), w\<lparr>w_tick := Suc (w_tick w)\<rparr>)"
  by (auto simp: exec_def reading_def Let_def split: option.split fault.split sum.split)

lemma List_of:
  "NodeRepo_List e w =
     (case env_fault e (w_tick w) of
        Some (Refused err) \<Rightarrow> Inl err | Some (ReplyLost err) \<Rightarrow> Inl err
      | None \<Rightarrow> Inr (map scanNode (sort_by (newest_first n_created_at) (t_nodes (w_db w)))),
      w\<lparr>w_tick := Suc (w_tick w)\<rparr>)"
  by (simp add: NodeRepo_List_def query_def exec_read_only split: option.split fault.split)

lemma Get_of:
  "fst (NodeRepo_Get e key w) =
     (case env_fault e (w_tick w) of
        Some (Refused err) \<Rightarrow> Inl err
      | f \<Rightarrow> (case env_parse_uuid e key of
               None \<Rightarrow> Inl (invalid_uuid key)
             | Some k \<Rightarrow> (case find (\<lambda>n. n_id n = k) (t_nodes (w_db w)) of
                 None \<Rightarrow> Inl NoRows
               | Some n \<Rightarrow> (case f of None \<Rightarrow> Inr (scanNode n) | Some (ReplyLost err) \<Rightarrow> Inl err | Some (Refused err) \<Rightarrow> Inl err))))"
  by (auto simp: NodeRepo_Get_def bindE_def retE_def exec_def uuid_arg_def reading_def select_node_def Let_def
      split: option.split fault.split sum.split)

lemma list_json_cong: "map f xs = map g ys \<Longrightarrow> list_json f xs = list_json g ys"
proof -
  have "list_json enc zs = (if list_all (\<lambda>x. x \<noteq> None) (map enc zs) then Some (JArray (map the (map enc zs))) else None)"
    for enc :: "'z \<Rightarrow> Json option" and zs
    by (simp add: list_json_def list_all_iff comp_def)
  from this [of f xs] this [of g ys] show "map f xs = map g ys \<Longrightarrow> list_json f xs = list_json g ys" by metis
qed

lemma answer_of_attempt:
  "fst (bindE (attemptE m) (\<lambda>ans. retE (f ans)) w) = Inr (f (fst (m w)))"
  by (cases "m w") (simp add: bindE_def attemptE_def retE_def)

text \<open>
  C9: reading nodes over the JSON interface gives away no more of a secret than its ends.  If the secrets in the
  tables are replaced by others, those of up to eight bytes by any such and the longer ones
  by others of the same length with the same four bytes at each end, the answers to
  \<^verbatim>\<open>GET /api/nodes\<close> and \<^verbatim>\<open>GET /api/nodes/\{id\}\<close> stay what they are, errors included, whatever the id.
\<close>

theorem API_reads_only_masked_secrets:
  assumes alike: "\<forall>n \<in> set (t_nodes (w_db w)). hidden_alike (sec n) (n_node_secret n)"
  shows "fst (APIListNodes h r (resecret sec w)) = fst (APIListNodes h r w)
    \<and> fst (APIGetNode h r (resecret sec w)) = fst (APIGetNode h r w)"
proof
  let ?lt = "newest_first n_created_at"
  have same: "\<forall>n \<in> set (t_nodes (w_db w)). MaskSecret (sec n) = MaskSecret (n_node_secret n)"
    using alike MaskSecret_hidden_alike by blast
  have "?lt (resecret_node sec x) (resecret_node sec y) = ?lt x y" for x y
    by (simp add: newest_first_def resecret_node_def)
  then have sorted: "sort_by ?lt (map (resecret_node sec) ns) = map (resecret_node sec) (sort_by ?lt ns)" for ns
    by (rule sort_by_map)
  have "list_json (\<lambda>n. node_json h n False) (map scanNode (map (resecret_node sec) ns)) =
      list_json (\<lambda>n. node_json h n False) (map scanNode ns)" if "set ns \<subseteq> set (t_nodes (w_db w))" for ns
    by (rule list_json_cong) (use that same masked_json [of sec] in auto)
  from this [of "sort_by ?lt (t_nodes (w_db w))"]
  show "fst (APIListNodes h r (resecret sec w)) = fst (APIListNodes h r w)"
    unfolding APIListNodes_def answer_of_attempt List_of
    by (auto simp: resecret_def sorted comp_def split: option.split fault.split)
  have "find (\<lambda>n. n_id n = k) (map (resecret_node sec) ns) = map_option (resecret_node sec) (find (\<lambda>n. n_id n = k) ns)" for k ns
    by (rule find_map_id) (simp add: resecret_node_def)
  then show "fst (APIGetNode h r (resecret sec w)) = fst (APIGetNode h r w)"
    unfolding APIGetNode_def answer_of_attempt Get_of
    using same masked_json [of sec]
    by (auto simp: resecret_def split: option.split fault.split dest!: find_SomeD)
qed

text \<open>A short secret, and a long one: nothing but the ends is told.\<close>

definition long_secret_world :: "string \<Rightarrow> world" where
  "long_secret_world secret = sample_world\<lparr>w_db := sample_db\<lparr>t_nodes :=
     [sample_node, sample_node\<lparr>n_id := ''n2'', n_node_id := ''far'', n_node_secret := secret\<rparr>]\<rparr>\<rparr>"

definition far_request :: Request where
  "far_request = (sample_request ''GET'' ''/api/nodes/n2'')\<lparr>r_params := [(''id'', ''n2'')]\<rparr>"

definition timed_panel :: panel where
  "timed_panel = sample_panel\<lparr>pn_json_time := (\<lambda>_. Some ''2026-01-01T00:00:00Z'')\<rparr>"

lemma API_reads_only_masked_secrets_witness:
  "fst (APIGetNode timed_panel far_request
      (resecret (\<lambda>n. if n_id n = ''n1'' then ''hidden'' else ''ns_aXXXXwxyz'') (long_secret_world ''ns_a1234wxyz'')))
   = fst (APIGetNode timed_panel far_request (long_secret_world ''ns_a1234wxyz''))
   \<and> fst (NodeRepo_Get sample_env ''n2'' (long_secret_world ''ns_a1234wxyz'')) \<noteq> Inl NoRows"
proof
  have "hidden_alike ''ns_aXXXXwxyz'' ''ns_a1234wxyz''"
    unfolding hidden_alike_def
    by (intro disjI2 exI [of _ "''ns_a''"] exI [of _ "''XXXX''"] exI [of _ "''1234''"] exI [of _ "''wxyz''"]) simp
  then have "\<forall>n \<in> set (t_nodes (w_db (long_secret_world ''ns_a1234wxyz''))).
      hidden_alike ((\<lambda>n. if n_id n = ''n1'' then ''hidden'' else ''ns_aXXXXwxyz'') n) (n_node_secret n)"
    by (simp add: long_secret_world_def sample_node_def hidden_alike_def)
  from API_reads_only_masked_secrets [OF this]
  show "fst (APIGetNode timed_panel far_request
      (resecret (\<lambda>n. if n_id n = ''n1'' then ''hidden'' else ''ns_aXXXXwxyz'') (long_secret_world ''ns_a1234wxyz'')))
   = fst (APIGetNode timed_panel far_request (long_secret_world ''ns_a1234wxyz''))" by blast
  show "fst (NodeRepo_Get sample_env ''n2'' (long_secret_world ''ns_a1234wxyz'')) \<noteq> Inl NoRows"
    by (simp add: Get_of long_secret_world_def sample_node_def)
qed

end
