(* ===== verification/Revocation.thy ===== *)
theory Revocation
  imports Server_Claims Expiry_Panel Sync_Addresses
begin

text \<open>
  Taking access away, from the click to the agents: what the notice of success after switching off a
  user or an assignment promises.  It puts together the handlers, the repositories and the
  synchronisation of every node concerned.
\<close>

section \<open>What a synchronisation leaves alone\<close>

definition sync_frame :: "db \<Rightarrow> db \<Rightarrow> bool" where
  "sync_frame d d' \<longleftrightarrow> keeps_integrity d d' \<and> same_ids d d' \<and> people_same d d' \<and> addresses_kept d d' \<and> events_grow d d'"

interpretation rounds: preorder_on_tables sync_frame
proof
  show "sync_frame d d" for d
    by (simp add: sync_frame_def integrity.D_refl ids.D_refl people.D_refl addressed.D_refl events.D_refl)
  show "sync_frame d1 d3" if "sync_frame d1 d2" "sync_frame d2 d3" for d1 d2 d3
    using that unfolding sync_frame_def
    by (meson integrity.D_trans ids.D_trans people.D_trans addressed.D_trans events.D_trans)
qed

lemma sync_frame_parts:
  assumes "within (db_rel keeps_integrity) m" and "within (db_rel same_ids) m" and "within (db_rel people_same) m"
    and "within (db_rel addresses_kept) m" and "within (db_rel events_grow) m"
  shows "within (db_rel sync_frame) m"
  using assms by (simp add: within_def db_rel_def sync_frame_def)

lemma round_calls:
  "within (db_rel sync_frame) (SyncNode e k)" "within (db_rel sync_frame) (NodeRepo_Get e k)"
proof -
  have "within (db_rel addresses_kept) (SyncNode e k)"
    by (rule preorder_on_tables.SyncNode_within [OF addressed.preorder_on_tables_axioms]; rule within_intros)
  then show "within (db_rel sync_frame) (SyncNode e k)"
    by (intro sync_frame_parts SyncNode_frames manager_integrity)
  show "within (db_rel sync_frame) (NodeRepo_Get e k)"
    by (rule sync_frame_parts; rule within_intros)
qed

lemmas rounds_within = rounds.sync_round_within [OF round_calls] rounds.sync_loop_within [OF round_calls]
  rounds.sync_and_tell_within [OF round_calls]

definition node_on :: "db \<Rightarrow> string \<Rightarrow> bool" where
  "node_on d k \<longleftrightarrow> (\<exists>n \<in> set (t_nodes d). n_id n = k \<and> n_enabled n)"

lemma node_on_kept:
  assumes "sync_frame d d'" and "db_ok d" and "node_on d k"
  shows "node_on d' k"
proof -
  obtain n where n: "n \<in> set (t_nodes d)" "n_id n = k" "n_enabled n" using assms(3) by (auto simp: node_on_def)
  then have "k \<in> n_id ` set (t_nodes d')" using assms(1) by (auto simp: sync_frame_def same_ids_def)
  then obtain n' where n': "n' \<in> set (t_nodes d')" "n_id n' = k" by auto
  then obtain n0 where n0: "n0 \<in> set (t_nodes d)" "address n' = address n0"
    using assms(1) unfolding sync_frame_def addresses_kept_def addresses_def by blast
  then have "n0 = n" using n n'(2) db_okD(1) [OF assms(2)] by (auto simp: address_def distinct_map inj_on_def)
  then show ?thesis using n n' n0(2) by (auto simp: node_on_def address_def)
qed

lemma told_since_kept:
  assumes "told_since n w k" and "sync_frame (w_db w) (w_db w')" and "m \<le> n"
  shows "told_since m w' k"
proof -
  have "told_since n w' k" using told_since_grow assms(1,2) by (auto simp: sync_frame_def)
  then show ?thesis
    using assms(3) set_drop_subset_set_drop [of m n "t_events (w_db w')"] by (auto simp: told_since_def list_ex_iff)
qed

lemma ids_ok_frame: "sync_frame d d' \<Longrightarrow> ids_ok e d \<Longrightarrow> ids_ok e d'"
  unfolding sync_frame_def by (blast intro: ids_ok_kept)

section \<open>The loop over the nodes\<close>

text \<open>The body of \<open>rq\<close> lists the users that \<open>d\<close> entitles to the node \<open>nid\<close>, and no others.\<close>

definition lists_entitled :: "env \<Rightarrow> db \<Rightarrow> string \<Rightarrow> http_request \<Rightarrow> bool" where
  "lists_entitled e d nid rq \<longleftrightarrow>
     (\<exists>n t p. env_encode_payload e p = Inr (rq_body rq)
        \<and> set (sp_users p) = {entitled_user n a u | a u. entitled (env_db_now e t) d nid a u})"

lemma lists_entitled_people: "people_same d d' \<Longrightarrow> lists_entitled e d' nid rq = lists_entitled e d nid rq"
  by (simp add: lists_entitled_def entitled_def people_same_def)

text \<open>The requests since: their sync requests list the entitled users of nodes among \<open>ks\<close>.\<close>

definition posts_entitled :: "env \<Rightarrow> string set \<Rightarrow> world \<Rightarrow> world \<Rightarrow> bool" where
  "posts_entitled e ks w w' \<longleftrightarrow> (\<exists>rs. w_requests w' = w_requests w @ rs
     \<and> (\<forall>rq \<in> set rs. rq_method rq = ''POST'' \<longrightarrow> (\<exists>k \<in> ks. lists_entitled e (w_db w) k rq)))"

lemma posts_silent: "w_requests w' = w_requests w \<Longrightarrow> posts_entitled e ks w w'"
  by (simp add: posts_entitled_def)

lemma posts_mono: "posts_entitled e ks w w' \<Longrightarrow> ks \<subseteq> ks' \<Longrightarrow> posts_entitled e ks' w w'"
  unfolding posts_entitled_def by blast

lemma posts_trans:
  assumes "posts_entitled e ks w w1" and "people_same (w_db w) (w_db w1)" and "posts_entitled e ks w1 w2"
  shows "posts_entitled e ks w w2"
proof -
  obtain rs1 where rs1: "w_requests w1 = w_requests w @ rs1"
      "\<forall>rq \<in> set rs1. rq_method rq = ''POST'' \<longrightarrow> (\<exists>k \<in> ks. lists_entitled e (w_db w) k rq)"
    using assms(1) by (auto simp: posts_entitled_def)
  obtain rs2 where rs2: "w_requests w2 = w_requests w1 @ rs2"
      "\<forall>rq \<in> set rs2. rq_method rq = ''POST'' \<longrightarrow> (\<exists>k \<in> ks. lists_entitled e (w_db w) k rq)"
    using assms(3) lists_entitled_people [OF assms(2)] by (auto simp: posts_entitled_def)
  have "w_requests w2 = w_requests w @ (rs1 @ rs2)" using rs1(1) rs2(1) by simp
  then show ?thesis unfolding posts_entitled_def using rs1(2) rs2(2) by (metis Un_iff set_append)
qed

lemma SyncNode_posts:
  assumes run: "SyncNode e k w = (r, w')" and k: "env_parse_uuid e k = Some k"
  shows "posts_entitled e {k} w w'"
proof -
  obtain rs where rs: "w_requests w' = w_requests w @ rs" using SyncNode_sent [OF run] by (metis append.assoc)
  then have "sent w w' = rs" by (simp add: sent_def)
  then have "lists_entitled e (w_db w) k rq" if "rq \<in> set rs" "rq_method rq = ''POST''" for rq
    using SyncNode_sends_exactly_entitled [OF run k, of rq] that unfolding lists_entitled_def by blast
  then show ?thesis using rs unfolding posts_entitled_def by blast
qed

text \<open>One round: if it adds no error, an enabled node that was not seen before has confirmed.\<close>

lemma change_round:
  assumes run: "sync_after_change e k s w = (r, w')" and ids: "ids_ok e (w_db w)" and k: "env_parse_uuid e k = Some k"
  obtains seen errs where "r = Inr (seen, snd s @ errs)" and "set seen \<subseteq> insert k (set (fst s))" and "posts_entitled e {k} w w'"
    and "errs = [] \<longrightarrow> k \<notin> set (fst s) \<longrightarrow> k \<noteq> [] \<longrightarrow> node_on (w_db w) k \<longrightarrow>
      told_since (length (t_events (w_db w))) w' k"
proof -
  obtain seen errs where s: "s = (seen, errs)" by force
  obtain got w1 where get: "NodeRepo_Get e k w = (got, w1)" by force
  have quiet: "w_requests w1 = w_requests w" "w_db w1 = w_db w"
    using withinD [OF NodeRepo_silent(2) get] withinD [OF telemetry_reads(2) get]
    by (simp_all add: sends_nothing_def db_rel_def tables_same_def)
  consider (seen) "k = [] \<or> k \<in> set seen" | (absent) err where "k \<noteq> []" "k \<notin> set seen" "got = Inl err"
    | (off) n where "k \<noteq> []" "k \<notin> set seen" "got = Inr n" "\<not> n_enabled n"
    | (on) n where "k \<noteq> []" "k \<notin> set seen" "got = Inr n" "n_enabled n"
    by (cases got) auto
  then show thesis
  proof cases
    case seen
    then have "r = Inr (seen, errs)" "w' = w" using run by (auto simp: s sync_after_change_def retE_def)
    then show ?thesis using seen by (intro that [of seen "[]"]) (auto simp: s posts_silent)
  next
    case absent
    then have "r = Inr (k # seen, errs @ [formatRawNodeSyncError k err])" "w' = w1"
      using run get by (auto simp: s sync_after_change_def bindE_def attemptE_def retE_def)
    then show ?thesis using quiet by (intro that [of "k # seen" "[formatRawNodeSyncError k err]"]) (auto simp: s posts_silent)
  next
    case off
    obtain n0 where "node_row (w_db w) k = Some n0" "n = scanNode n0" "n_id n = k"
      using Get_row [OF get [unfolded off(3)] k] by metis
    then have "\<not> node_on (w_db w) k"
      using off(4) ids db_okD(1) [of "w_db w"]
      by (auto simp: node_on_def scanNode_def node_row_def ids_ok_def distinct_map inj_on_def dest!: find_SomeD)
    moreover have "r = Inr (k # seen, errs)" "w' = w1"
      using run get off by (auto simp: s sync_after_change_def bindE_def attemptE_def retE_def)
    ultimately show ?thesis using quiet by (intro that [of "k # seen" "[]"]) (auto simp: s posts_silent)
  next
    case on
    obtain ans w2 where sync: "SyncNode e k w1 = (ans, w2)" by force
    then have result: "r = Inr (k # seen, errs @ sync_error k ans)" "w' = w2"
      using run get on by (auto simp: s sync_after_change_def bindE_def attemptE_def retE_def)
    have "posts_entitled e {k} w w2"
      using SyncNode_posts [OF sync k] quiet by (simp add: posts_entitled_def)
    moreover have "told_since (length (t_events (w_db w))) w2 k" if clean: "sync_error k ans = []"
    proof -
      obtain resp where "ans = Inr resp" using clean by (cases ans) (auto simp: sync_error_def)
      then have "sync_recorded k resp (w_db w1) (w_db w2)"
        using SyncNode_success [of e k w1 resp w2 k] sync k ids quiet by (simp add: ids_ok_def)
      then show ?thesis using quiet(2) by (auto simp: sync_recorded_def told_since_def)
    qed
    ultimately show ?thesis using result by (intro that [of "k # seen" "sync_error k ans"]) (auto simp: s)
  qed
qed

text \<open>The whole loop.\<close>

lemma change_loop:
  assumes "forE (sync_after_change e) ids s w = (r, w')" and "ids_ok e (w_db w)"
    and "\<forall>k \<in> set ids. env_parse_uuid e k = Some k"
  shows "\<exists>seen errs. r = Inr (seen, snd s @ errs) \<and> posts_entitled e (set ids) w w' \<and> sync_frame (w_db w) (w_db w')
    \<and> (errs = [] \<longrightarrow> (\<forall>k \<in> set ids - set (fst s). k \<noteq> [] \<longrightarrow> node_on (w_db w) k \<longrightarrow>
          told_since (length (t_events (w_db w))) w' k))"
  using assms
proof (induction ids arbitrary: s w)
  case Nil
  then show ?case by (cases s) (auto simp: retE_def posts_silent rounds.D_refl)
next
  case (Cons k ids)
  obtain r1 w1 where one: "sync_after_change e k s w = (r1, w1)" by force
  have k: "env_parse_uuid e k = Some k" using Cons.prems(3) by simp
  obtain seen errs where round: "r1 = Inr (seen, snd s @ errs)" "set seen \<subseteq> insert k (set (fst s))"
      "posts_entitled e {k} w w1"
      "errs = [] \<longrightarrow> k \<notin> set (fst s) \<longrightarrow> k \<noteq> [] \<longrightarrow> node_on (w_db w) k \<longrightarrow>
        told_since (length (t_events (w_db w))) w1 k"
    by (rule change_round [OF one Cons.prems(2) k])
  have frame: "sync_frame (w_db w) (w_db w1)" using withinD [OF rounds_within(1) one] by (simp add: db_rel_def)
  have rest: "forE (sync_after_change e) ids (seen, snd s @ errs) w1 = (r, w')"
    using Cons.prems(1) one round(1) by (simp add: bindE_def)
  from Cons.IH [OF this ids_ok_frame [OF frame Cons.prems(2)]] Cons.prems(3) obtain seen' errs' where
    IH: "r = Inr (seen', (snd s @ errs) @ errs')" "posts_entitled e (set ids) w1 w'" "sync_frame (w_db w1) (w_db w')"
      "errs' = [] \<longrightarrow> (\<forall>j \<in> set ids - set seen. j \<noteq> [] \<longrightarrow> node_on (w_db w1) j \<longrightarrow>
          told_since (length (t_events (w_db w1))) w' j)"
    by auto
  have people: "people_same (w_db w) (w_db w1)" using frame by (simp add: sync_frame_def)
  have posts: "posts_entitled e (set (k # ids)) w w'"
    by (rule posts_trans [OF posts_mono [OF round(3)] people posts_mono [OF IH(2)]]) auto
  have "told_since (length (t_events (w_db w))) w' j"
    if "errs @ errs' = []" "j \<in> set (k # ids) - set (fst s)" "j \<noteq> []" "node_on (w_db w) j" for j
  proof (cases "j = k")
    case True
    then have "told_since (length (t_events (w_db w))) w1 k" using round(4) that by simp
    from told_since_kept [OF this IH(3) order_refl] True show ?thesis by simp
  next
    case False
    have "node_on (w_db w1) j" using node_on_kept [OF frame _ that(4)] Cons.prems(2) by (simp add: ids_ok_def)
    then have "told_since (length (t_events (w_db w1))) w' j" using IH(4) False round(2) that by auto
    moreover have "length (t_events (w_db w)) \<le> length (t_events (w_db w1))"
      using frame by (auto simp: sync_frame_def events_grow_def)
    ultimately show ?thesis using told_since_kept rounds.D_refl by blast
  qed
  then show ?case using IH(1) posts rounds.D_trans [OF frame IH(3)] by auto
qed

section \<open>The notice\<close>

text \<open>The two levels of a notice make different answers, whatever the texts.\<close>

lemma redirect_levels: "redirectWithFlash p msg ''error'' \<noteq> redirectWithFlash p' msg' ''success''"
proof -
  have tail: "\<exists>pre. Encode [(''flash'', m), (''level'', l)] = pre @ QueryEscape l" for m l
    by (auto simp: Encode_def)
  have "QueryEscape ''error'' = ''error''" "QueryEscape ''success'' = ''success''" by code_simp+
  then have ends: "\<exists>pre. Encode [(''flash'', m), (''level'', ''error'')] = pre @ ''erro'' @ ''r''"
      "\<exists>pre. Encode [(''flash'', m), (''level'', ''success'')] = pre @ ''succes'' @ ''s''" for m
    using tail [of m "''error''"] tail [of m "''success''"] by simp_all
  then have "last (Encode [(''flash'', m), (''level'', ''error'')]) = CHR ''r''"
      "last (Encode [(''flash'', m), (''level'', ''success'')]) = CHR ''s''" for m
    by (metis last_snoc append.assoc)+
  moreover have "Encode [(''flash'', m), (''level'', l)] \<noteq> []" for m l by (auto simp: Encode_def)
  ultimately show ?thesis
    unfolding redirectWithFlash_def by (auto dest!: arg_cong [of _ _ last]) 
qed

lemma sync_and_tell_success:
  assumes run: "sync_and_tell h r ids path failed success w = (Inr ans, w')" and "ids_ok (pn_env h) (w_db w)"
    and "\<forall>k \<in> set ids. env_parse_uuid (pn_env h) k = Some k" and notice: "ans = redirectWithFlash p msg ''success''"
  shows "posts_entitled (pn_env h) (set ids) w w' \<and> sync_frame (w_db w) (w_db w')
    \<and> (\<forall>k \<in> set ids. k \<noteq> [] \<longrightarrow> node_on (w_db w) k \<longrightarrow> told_since (length (t_events (w_db w))) w' k)"
proof -
  obtain r1 w1 where loop: "forE (sync_after_change (pn_env h)) ids ([], []) w = (r1, w1)" by force
  from change_loop [OF this assms(2,3)] obtain seen errs where
    told: "r1 = Inr (seen, errs)" "posts_entitled (pn_env h) (set ids) w w1" "sync_frame (w_db w) (w_db w1)"
      "errs = [] \<longrightarrow> (\<forall>k \<in> set ids. k \<noteq> [] \<longrightarrow> node_on (w_db w) k \<longrightarrow>
          told_since (length (t_events (w_db w))) w1 k)"
    by auto
  then have "w' = w1" and "errs = []"
    using run loop notice redirect_levels
    by (auto simp: sync_and_tell_def syncNodesAfterChangeForUI_def syncNodesAfterChange_def bindE_def retE_def Let_def
        sanitizeNodeSyncErrors_def split: if_splits)
  then show ?thesis using told by blast
qed

section \<open>Switching off\<close>

lemma userNodeIDs_result:
  assumes "userNodeIDs e key w = (Inr ids, w')"
  obtains uid where "env_parse_uuid e key = Some uid" and "w_db w' = w_db w" and "w_requests w' = w_requests w"
    and "set ids = a_node_id ` {a \<in> set (t_access (w_db w)). a_user_id a = uid}"
  using assms
  by (auto simp: userNodeIDs_def UserRepo_AccessForUser_def bindE_Inr_iff retE_def uuid_arg_def reading_def
      split: option.splits elim!: exec_Inr)

lemma access_node_canonical:
  assumes "ids_ok e d" and "a \<in> set (t_access d)"
  shows "env_parse_uuid e (a_node_id a) = Some (a_node_id a)"
proof -
  obtain n where "n \<in> set (t_nodes d)" "n_id n = a_node_id a"
    using assms by (auto simp: ids_ok_def db_ok_def access_ok_def)
  then show ?thesis using assms(1) by (metis ids_ok_def)
qed

lemma switches_same_ids:
  "within (db_rel same_ids) (UserRepo_SetEnabled e key b)"
  "within (db_rel same_ids) (UserRepo_SetAccessEnabled e key aid b)"
proof -
  have access: "stmt_within same_ids (set_access_enabled t uid aid b)" for t uid aid
    by (auto intro!: stmt_withinI simp: set_access_enabled_def same_ids_def Let_def split: option.splits)
  show "within (db_rel same_ids) (UserRepo_SetAccessEnabled e key aid b)"
    unfolding UserRepo_SetAccessEnabled_def by ((rule ids.effect_rules access repo_stmt_intros ids.D_refl | simp)+)
  show "within (db_rel same_ids) (UserRepo_SetEnabled e key b)"
    unfolding UserRepo_SetEnabled_def
    by ((rule ids.effect_rules update_user_same_ids repo_stmt_intros ids.D_refl | simp)+)
qed

lemma SetEnabled_result:
  assumes run: "UserRepo_SetEnabled e key b w = (Inr x, w')" and ids: "ids_ok e (w_db w)"
  obtains uid where "env_parse_uuid e key = Some uid" and "\<forall>u \<in> set (t_users (w_db w')). u_id u = uid \<longrightarrow> u_enabled u = b"
    and "w_requests w' = w_requests w" and "w_db w' = (w_db w)\<lparr>t_users := t_users (w_db w')\<rparr>" and "ids_ok e (w_db w')"
proof -
  from run obtain uid y d where key: "env_parse_uuid e key = Some uid"
    and up: "update_user (env_db_now e (w_tick w)) uid (\<lambda>u. u\<lparr>u_enabled := b\<rparr>) (w_db w) = Inr (y, d)"
    and w': "w' = w\<lparr>w_tick := Suc (w_tick w), w_db := d\<rparr>"
    unfolding UserRepo_SetEnabled_def
    by (auto simp: uuid_arg_def no_result_def split: option.splits sum.splits elim!: exec_Inr)
  have "ids_ok e (w_db w')"
    using withinD [OF UserRepo_write_integrity(5) run] withinD [OF switches_same_ids(1) run] ids
    by (auto simp: db_rel_def intro: ids_ok_kept)
  moreover have "d = (w_db w)\<lparr>t_users := t_users d\<rparr> \<and> (\<forall>u \<in> set (t_users d). u_id u = uid \<longrightarrow> u_enabled u = b)"
    using up by (cases rule: update_user_cases) (auto simp: find_None_iff)
  ultimately show thesis using that [OF key] w' by simp
qed


lemma AccessByID_result:
  assumes "UserRepo_AccessByID e key akey w = (Inr a, w')"
  obtains uid where "env_parse_uuid e key = Some uid" and "env_parse_uuid e akey = Some (a_id a)"
    and "a \<in> set (t_access (w_db w))" and "a_user_id a = uid" and "w_db w' = w_db w" and "w_requests w' = w_requests w"
proof -
  from assms obtain uid aid where keys: "env_parse_uuid e key = Some uid" "env_parse_uuid e akey = Some aid"
    and row: "find (\<lambda>a. a_user_id a = uid \<and> a_id a = aid) (t_access (w_db w)) = Some a"
    and w': "w' = w\<lparr>w_tick := Suc (w_tick w)\<rparr>"
    unfolding UserRepo_AccessByID_def
    by (auto simp: uuid_arg_def reading_def split: option.splits elim!: exec_Inr)
  show thesis using that keys find_SomeD [OF row] w' by simp
qed

lemma SetAccessEnabled_result:
  assumes run: "UserRepo_SetAccessEnabled e key (a_id acc) False w = (Inr x, w')" and ids: "ids_ok e (w_db w)"
    and key: "env_parse_uuid e key = Some uid" and aid: "env_parse_uuid e (a_id acc) = Some (a_id acc)"
    and acc: "acc \<in> set (t_access (w_db w))" "a_user_id acc = uid"
  shows "\<forall>b \<in> set (t_access (w_db w')). a_user_id b = uid \<and> a_node_id b = a_node_id acc \<longrightarrow> \<not> a_enabled b"
    and "w_requests w' = w_requests w" and "w_db w' = (w_db w)\<lparr>t_access := t_access (w_db w')\<rparr>" and "ids_ok e (w_db w')"
    and "\<exists>b \<in> set (t_access (w_db w')). a_id b = a_id acc \<and> \<not> a_enabled b"
proof -
  from run key aid obtain d where
      step: "set_access_enabled (env_db_now e (w_tick w)) uid (a_id acc) False (w_db w) = Inr (x, d)"
    and w': "w' = w\<lparr>w_tick := Suc (w_tick w), w_db := d\<rparr>"
    unfolding UserRepo_SetAccessEnabled_def by (auto simp: uuid_arg_def elim!: exec_Inr)
  show "ids_ok e (w_db w')"
    using withinD [OF UserRepo_write_integrity(8) run] withinD [OF switches_same_ids(2) run] ids
    by (auto simp: db_rel_def intro: ids_ok_kept)
  have unique: "b = acc" if "b \<in> set (t_access (w_db w))" "a_id b = a_id acc \<or> (a_user_id b = uid \<and> a_node_id b = a_node_id acc)" for b
    using that acc ids by (auto simp: ids_ok_def db_ok_def distinct_map inj_on_def)
  obtain old where old: "find (\<lambda>a. a_user_id a = uid \<and> a_id a = a_id acc) (t_access (w_db w)) = Some old"
    using acc by (cases "find (\<lambda>a. a_user_id a = uid \<and> a_id a = a_id acc) (t_access (w_db w))") (auto simp: find_None_iff)
  then have "old = acc" using unique by (auto dest!: find_SomeD)
  let ?new = "acc\<lparr>a_enabled := False, a_updated_at := env_db_now e (w_tick w)\<rparr>"
  have d: "d = (w_db w)\<lparr>t_access := map (\<lambda>a. if a_id a = a_id acc then ?new else a) (t_access (w_db w))\<rparr>"
    using step old \<open>old = acc\<close> by (auto simp: set_access_enabled_def Let_def split: option.splits)
  show "w_requests w' = w_requests w" "w_db w' = (w_db w)\<lparr>t_access := t_access (w_db w')\<rparr>" by (simp_all add: w' d)
  have "?new \<in> set (t_access (w_db w'))" using acc(1) by (force simp: w' d)
  then show "\<exists>b \<in> set (t_access (w_db w')). a_id b = a_id acc \<and> \<not> a_enabled b" by (rule bexI [rotated]) simp
  show "\<forall>b \<in> set (t_access (w_db w')). a_user_id b = uid \<and> a_node_id b = a_node_id acc \<longrightarrow> \<not> a_enabled b"
    using unique by (auto simp: w' d)
qed

section \<open>Properties\<close>

text \<open>No sync request since lists the user.\<close>

definition omits_user :: "env \<Rightarrow> string \<Rightarrow> http_request \<Rightarrow> bool" where
  "omits_user e uid rq \<longleftrightarrow> (\<exists>p. env_encode_payload e p = Inr (rq_body rq) \<and> uid \<notin> au_id ` set (sp_users p))"

lemma posts_omit:
  assumes "posts_entitled e ks w w'" and "\<And>t k a u. k \<in> ks \<Longrightarrow> entitled t (w_db w) k a u \<Longrightarrow> u_id u \<noteq> uid"
    and "rq \<in> set (sent w w')" and "rq_method rq = ''POST''"
  shows "omits_user e uid rq"
proof -
  obtain k where "k \<in> ks" "lists_entitled e (w_db w) k rq"
    using assms(1,3,4) by (auto simp: posts_entitled_def sent_def)
  then obtain n t p where "env_encode_payload e p = Inr (rq_body rq)"
      "set (sp_users p) = {entitled_user n a u | a u. entitled (env_db_now e t) (w_db w) k a u}"
    by (auto simp: lists_entitled_def)
  moreover have "uid \<notin> au_id ` {entitled_user n a u | a u. entitled (env_db_now e t) (w_db w) k a u}"
  proof
    assume "uid \<in> au_id ` {entitled_user n a u | a u. entitled (env_db_now e t) (w_db w) k a u}"
    then obtain a u where "entitled (env_db_now e t) (w_db w) k a u" "u_id u = uid" by (auto simp: entitled_user_def)
    with assms(2) [OF \<open>k \<in> ks\<close>] show False by blast
  qed
  ultimately show ?thesis by (auto simp: omits_user_def)
qed

text \<open>
  C2: switching off a user takes effect everywhere.  When the page reports success, the user is
  switched off, every switched-on node to which the user is assigned has confirmed a synchronisation of this
  request, and no sync request of it, to whatever node, lists the user.
\<close>

theorem DisableUser_cuts_off:
  assumes run: "handle_DisableUser h r w = (Inr ans, w')" and ids: "ids_ok (pn_env h) (w_db w)"
    and notice: "ans = redirectWithFlash p msg ''success''"
  shows "\<exists>uid. env_parse_uuid (pn_env h) (URLParam r ''id'') = Some uid
    \<and> (\<forall>u \<in> set (t_users (w_db w')). u_id u = uid \<longrightarrow> \<not> u_enabled u)
    \<and> (\<forall>a \<in> set (t_access (w_db w)). a_user_id a = uid \<longrightarrow> a_node_id a \<noteq> [] \<longrightarrow> node_on (w_db w) (a_node_id a) \<longrightarrow>
          told_since (length (t_events (w_db w))) w' (a_node_id a))
    \<and> (\<forall>rq \<in> set (sent w w'). rq_method rq = ''POST'' \<longrightarrow> omits_user (pn_env h) uid rq)"
proof -
  let ?e = "pn_env h" and ?id = "URLParam r ''id''"
  obtain r1 w1 where one: "UserRepo_SetEnabled ?e ?id False w = (r1, w1)" by force
  obtain r2 w2 where two: "userNodeIDs ?e ?id w1 = (r2, w2)" by force
  have refused: "ans \<noteq> internal_error r" using notice by (simp add: redirectWithFlash_def internal_error_def)
  have r1: "r1 = Inr ()"
    using run one refused by (cases r1) (auto simp: handle_DisableUser_def handleErr_def Let_def bindE_def attemptE_def retE_def)
  then obtain nodeIDs where r2: "r2 = Inr nodeIDs"
    using run one two refused
    by (cases r2) (auto simp: handle_DisableUser_def handleErr_def Let_def bindE_def attemptE_def retE_def)
  have last: "sync_and_tell h r nodeIDs (user_path r) ''user_disabled_sync_failed'' ''user_disabled_synced'' w2 = (Inr ans, w')"
    using run one two r1 r2 by (simp add: handle_DisableUser_def handleErr_def Let_def bindE_def attemptE_def)
  obtain uid where off: "env_parse_uuid ?e ?id = Some uid" "\<forall>u \<in> set (t_users (w_db w1)). u_id u = uid \<longrightarrow> u_enabled u = False"
      "w_requests w1 = w_requests w" "w_db w1 = (w_db w)\<lparr>t_users := t_users (w_db w1)\<rparr>" "ids_ok ?e (w_db w1)"
    by (rule SetEnabled_result [OF one [unfolded r1] ids])
  obtain nodes: "w_db w2 = w_db w1" "w_requests w2 = w_requests w1"
      "set nodeIDs = a_node_id ` {a \<in> set (t_access (w_db w1)). a_user_id a = uid}"
    using userNodeIDs_result [OF two [unfolded r2]] off(1) by (metis option.inject)
  have same: "t_access (w_db w1) = t_access (w_db w)" "t_nodes (w_db w1) = t_nodes (w_db w)" "t_events (w_db w1) = t_events (w_db w)"
    using arg_cong [OF off(4), of t_access] arg_cong [OF off(4), of t_nodes] arg_cong [OF off(4), of t_events] by simp_all
  have canonical: "\<forall>k \<in> set nodeIDs. env_parse_uuid ?e k = Some k"
    using off(5) nodes(3) access_node_canonical by auto
  have told: "posts_entitled ?e (set nodeIDs) w2 w'" "sync_frame (w_db w2) (w_db w')"
      "\<forall>k \<in> set nodeIDs. k \<noteq> [] \<longrightarrow> node_on (w_db w2) k \<longrightarrow> told_since (length (t_events (w_db w2))) w' k"
    using sync_and_tell_success [OF last _ canonical notice] off(5) nodes(1) by simp_all
  have "\<forall>u \<in> set (t_users (w_db w')). u_id u = uid \<longrightarrow> \<not> u_enabled u"
    using told(2) off(2) nodes(1) by (simp add: sync_frame_def people_same_def)
  moreover have "omits_user ?e uid rq" if "rq \<in> set (sent w w')" "rq_method rq = ''POST''" for rq
  proof (rule posts_omit [OF told(1)])
    show "rq \<in> set (sent w2 w')" using that off(3) nodes(2) by (simp add: sent_def)
  qed (use that off(2) nodes(1) in \<open>auto simp: entitled_def\<close>)
  moreover have "told_since (length (t_events (w_db w))) w' (a_node_id a)"
    if "a \<in> set (t_access (w_db w))" "a_user_id a = uid" "a_node_id a \<noteq> []" "node_on (w_db w) (a_node_id a)" for a
    using told(3) that nodes same by (auto simp: node_on_def)
  ultimately show ?thesis using off(1) by blast
qed

definition off_request :: "string \<Rightarrow> Request" where
  "off_request path = (sample_request ''POST'' path)\<lparr>r_params := [(''id'', ''u1''), (''accessID'', ''a1'')]\<rparr>"

lemma off_request_simps [simp]:
  "URLParam (off_request path) ''id'' = ''u1''" "URLParam (off_request path) ''accessID'' = ''a1''"
  "pn_env sample_panel = sample_env"
  by (simp_all add: off_request_def URLParam_def first_value_def sample_panel_def)

text \<open>With a loop without errors the end of a handler is the notice of success.\<close>

lemma sync_and_tell_notice:
  assumes "fst (syncNodesAfterChange (pn_env h) ids w) = Inr []"
  shows "fst (sync_and_tell h r ids path failed success w) =
    Inr (redirectWithFlash path (flashText (ResolveLocale r) success) ''success'')"
  using assms
  by (cases "syncNodesAfterChange (pn_env h) ids w")
    (simp add: sync_and_tell_def syncNodesAfterChangeForUI_def sanitizeNodeSyncErrors_def bindE_def retE_def Let_def)

lemma DisableUser_cuts_off_witness:
  "told_since 0 (snd (handle_DisableUser sample_panel (off_request ''/users/u1/disable'') sample_world)) ''n1''"
proof -
  let ?r = "off_request ''/users/u1/disable''"
  obtain w1 w2 where one: "UserRepo_SetEnabled sample_env ''u1'' False sample_world = (Inr (), w1)"
    and two: "userNodeIDs sample_env ''u1'' w1 = (Inr [''n1''], w2)"
    and loop: "fst (syncNodesAfterChange (pn_env sample_panel) [''n1''] w2) = Inr []"
  proof
    let ?w1 = "snd (UserRepo_SetEnabled sample_env ''u1'' False sample_world)"
    let ?w2 = "snd (userNodeIDs sample_env ''u1'' ?w1)"
    show "UserRepo_SetEnabled sample_env ''u1'' False sample_world = (Inr (), ?w1)"
      by (rule prod_eqI) (code_simp, simp only: snd_conv)
    show "userNodeIDs sample_env ''u1'' ?w1 = (Inr [''n1''], ?w2)" by (rule prod_eqI) (code_simp, simp only: snd_conv)
    show "fst (syncNodesAfterChange (pn_env sample_panel) [''n1''] ?w2) = Inr []" unfolding off_request_simps by code_simp
  qed
  from sync_and_tell_notice [OF loop, of ?r "user_path ?r" "''user_disabled_sync_failed''" "''user_disabled_synced''"]
  have "fst (handle_DisableUser sample_panel ?r sample_world) =
      Inr (redirectWithFlash (user_path ?r) (flashText (ResolveLocale ?r) ''user_disabled_synced'') ''success'')"
    by (simp add: handle_DisableUser_def handleErr_def Let_def bindE_def attemptE_def one two)
  then obtain w' where run: "handle_DisableUser sample_panel ?r sample_world =
      (Inr (redirectWithFlash (user_path ?r) (flashText (ResolveLocale ?r) ''user_disabled_synced'') ''success''), w')"
    by (metis prod.collapse)
  have "ids_ok (pn_env sample_panel) (w_db sample_world)" by (simp add: sample_ids_ok)
  from DisableUser_cuts_off [OF run this refl]
  show ?thesis by (simp add: run) (auto simp: sample_db_def sample_access_def sample_node_def node_on_def)
qed

text \<open>
  C18: switching off one assignment takes effect at its node.  When the page reports success, the
  assignment of the form is switched off, its node, if switched on, has confirmed a synchronisation of this
  request, and no sync request of it lists the user.
\<close>

theorem DisableAccess_cuts_off:
  assumes run: "DisableUserNodeAccess h r w = (Inr ans, w')" and ids: "ids_ok (pn_env h) (w_db w)"
    and rows: "\<forall>a \<in> set (t_access (w_db w)). env_parse_uuid (pn_env h) (a_id a) = Some (a_id a)"
    and notice: "ans = redirectWithFlash p msg ''success''"
  shows "\<exists>uid a. env_parse_uuid (pn_env h) (URLParam r ''id'') = Some uid
    \<and> env_parse_uuid (pn_env h) (URLParam r ''accessID'') = Some (a_id a)
    \<and> a \<in> set (t_access (w_db w)) \<and> a_user_id a = uid
    \<and> (\<exists>b \<in> set (t_access (w_db w')). a_id b = a_id a \<and> \<not> a_enabled b)
    \<and> (a_node_id a \<noteq> [] \<longrightarrow> node_on (w_db w) (a_node_id a) \<longrightarrow>
          told_since (length (t_events (w_db w))) w' (a_node_id a))
    \<and> (\<forall>rq \<in> set (sent w w'). rq_method rq = ''POST'' \<longrightarrow> omits_user (pn_env h) uid rq)"
proof -
  let ?e = "pn_env h" and ?id = "URLParam r ''id''" and ?aid = "URLParam r ''accessID''"
  obtain r1 w1 where one: "UserRepo_AccessByID ?e ?id ?aid w = (r1, w1)" by force
  have refused: "ans \<noteq> internal_error r" using notice by (simp add: redirectWithFlash_def internal_error_def)
  obtain a where r1: "r1 = Inr a"
    using run one refused
    by (cases r1) (auto simp: DisableUserNodeAccess_def handleErr_def Let_def bindE_def attemptE_def retE_def)
  obtain r2 w2 where two: "UserRepo_SetAccessEnabled ?e ?id (a_id a) False w1 = (r2, w2)" by force
  have r2: "r2 = Inr ()"
    using run one two r1 refused
    by (cases r2) (auto simp: DisableUserNodeAccess_def handleErr_def Let_def bindE_def attemptE_def retE_def)
  have last: "sync_and_tell h r [a_node_id a] (user_path r) ''node_access_disabled_sync_failed''
      ''node_access_disabled_synced'' w2 = (Inr ans, w')"
    using run one two r1 r2 by (simp add: DisableUserNodeAccess_def handleErr_def Let_def bindE_def attemptE_def)
  obtain uid where found: "env_parse_uuid ?e ?id = Some uid" "env_parse_uuid ?e ?aid = Some (a_id a)"
      "a \<in> set (t_access (w_db w))" "a_user_id a = uid" "w_db w1 = w_db w" "w_requests w1 = w_requests w"
    by (rule AccessByID_result [OF one [unfolded r1]])
  have acc: "a \<in> set (t_access (w_db w1))" "ids_ok ?e (w_db w1)" "env_parse_uuid ?e (a_id a) = Some (a_id a)"
    using found ids rows by simp_all
  note off = SetAccessEnabled_result [OF two [unfolded r2] acc(2) found(1) acc(3,1) found(4)]
  have same: "t_nodes (w_db w2) = t_nodes (w_db w)" "t_events (w_db w2) = t_events (w_db w)" "t_users (w_db w2) = t_users (w_db w)"
    using arg_cong [OF off(3), of t_nodes] arg_cong [OF off(3), of t_events] arg_cong [OF off(3), of t_users] found(5)
    by simp_all
  have canonical: "\<forall>k \<in> set [a_node_id a]. env_parse_uuid ?e k = Some k" using access_node_canonical [OF ids found(3)] by simp
  note told = sync_and_tell_success [OF last off(4) canonical notice]
  have omitted: "omits_user ?e uid rq" if "rq \<in> set (sent w w')" "rq_method rq = ''POST''" for rq
  proof (rule posts_omit [of ?e "set [a_node_id a]" w2 w'])
    show "rq \<in> set (sent w2 w')" using that off(2) found(6) by (simp add: sent_def)
  qed (use that off(1) told in \<open>auto simp: entitled_def\<close>)
  have switched: "\<exists>b \<in> set (t_access (w_db w')). a_id b = a_id a \<and> \<not> a_enabled b"
    using told off(5) by (simp add: sync_frame_def people_same_def)
  have "told_since (length (t_events (w_db w))) w' (a_node_id a)"
    if "a_node_id a \<noteq> []" "node_on (w_db w) (a_node_id a)"
    using told that same by (simp add: node_on_def)
  then show ?thesis using found(1-4) switched omitted by blast
qed

lemma DisableAccess_cuts_off_witness:
  "told_since 0 (snd (DisableUserNodeAccess sample_panel (off_request ''/users/u1/access/a1/disable'') sample_world)) ''n1''"
proof -
  let ?r = "off_request ''/users/u1/access/a1/disable''" and ?a = "sample_access ''a1'' ''u1''"
  obtain w1 w2 where one: "UserRepo_AccessByID sample_env ''u1'' ''a1'' sample_world = (Inr ?a, w1)"
    and two: "UserRepo_SetAccessEnabled sample_env ''u1'' ''a1'' False w1 = (Inr (), w2)"
    and loop: "fst (syncNodesAfterChange (pn_env sample_panel) [''n1''] w2) = Inr []"
  proof
    let ?w1 = "snd (UserRepo_AccessByID sample_env ''u1'' ''a1'' sample_world)"
    let ?w2 = "snd (UserRepo_SetAccessEnabled sample_env ''u1'' ''a1'' False ?w1)"
    show "UserRepo_AccessByID sample_env ''u1'' ''a1'' sample_world = (Inr ?a, ?w1)"
      by (rule prod_eqI) (code_simp, simp only: snd_conv)
    show "UserRepo_SetAccessEnabled sample_env ''u1'' ''a1'' False ?w1 = (Inr (), ?w2)"
      by (rule prod_eqI) (code_simp, simp only: snd_conv)
    show "fst (syncNodesAfterChange (pn_env sample_panel) [''n1''] ?w2) = Inr []" unfolding off_request_simps by code_simp
  qed
  have ids: "a_id ?a = ''a1''" "a_node_id ?a = ''n1''" by (simp_all add: sample_access_def)
  from sync_and_tell_notice [OF loop, of ?r "user_path ?r" "''node_access_disabled_sync_failed''" "''node_access_disabled_synced''"]
  have "fst (DisableUserNodeAccess sample_panel ?r sample_world) =
      Inr (redirectWithFlash (user_path ?r) (flashText (ResolveLocale ?r) ''node_access_disabled_synced'') ''success'')"
    by (simp add: DisableUserNodeAccess_def handleErr_def Let_def bindE_def attemptE_def one two ids)
  then obtain w' where run: "DisableUserNodeAccess sample_panel ?r sample_world =
      (Inr (redirectWithFlash (user_path ?r) (flashText (ResolveLocale ?r) ''node_access_disabled_synced'') ''success''), w')"
    by (metis prod.collapse)
  have "ids_ok (pn_env sample_panel) (w_db sample_world)" by (simp add: sample_ids_ok)
  from DisableAccess_cuts_off [OF run this _ refl]
  show ?thesis by (simp add: run) (auto simp: sample_db_def sample_access_def sample_node_def node_on_def)
qed

end
