(* ===== verification/Quotas.thy ===== *)
theory Quotas
  imports Server_Claims
begin

text \<open>
  The traffic quota from the form to the client: megabytes in an \<^verbatim>\<open>integer\<close> column, bytes in an
  \<^verbatim>\<open>int64\<close> of the header \<^verbatim>\<open>Subscription-Userinfo\<close>.
\<close>

definition quotas_fit :: "db \<Rightarrow> bool" where
  "quotas_fit d \<longleftrightarrow> (\<forall>u \<in> set (t_users d). fits_int4 (u_quota_mb u))"

lemma update_user_quotas:
  assumes "update_user t key f d = Inr (x, d')" and "\<And>u. fits_int4 (u_quota_mb u) \<Longrightarrow> fits_int4 (u_quota_mb (f u))"
    and "quotas_fit d"
  shows "quotas_fit d'"
  using assms(1)
proof (cases rule: update_user_cases)
  case (updated old new)
  then have "fits_int4 (u_quota_mb new)" using assms(2,3) by (simp add: quotas_fit_def)
  then show ?thesis using updated assms(3) by (auto simp: quotas_fit_def)
qed (use assms(3) in simp)

lemma same_users_quotas: "t_users d' = t_users d \<Longrightarrow> quotas_fit d \<Longrightarrow> quotas_fit d'"
  by (simp add: quotas_fit_def)

lemma sql_step_quotas: "sql_step d d' \<Longrightarrow> quotas_fit d \<Longrightarrow> quotas_fit d'"
proof (induction rule: sql_step.induct)
  case (user_inserted u d x d')
  then show ?case by (auto simp: insert_user_def quotas_fit_def split: if_splits)
next
  case (user_edited ui t key e d x d')
  show ?case by (rule update_user_quotas [OF user_edited(2) _ user_edited(3)]) (simp add: edit_user_def user_edited(1))
next
  case (user_switched t key b d x d')
  show ?case by (rule update_user_quotas [OF user_switched(1) _ user_switched(2)]) simp
next
  case (user_synced t key t' d x d')
  show ?case by (rule update_user_quotas [OF user_synced(1) _ user_synced(2)]) simp
next
  case (user_deleted key d x d')
  then show ?case by (auto simp: delete_user_def quotas_fit_def Let_def split: if_splits)
next
  case (access_switched t uid aid b d x d')
  then show ?case
    by (auto simp: set_access_enabled_def Let_def split: option.splits intro: same_users_quotas)
qed (auto simp: insert_node_def update_node_def delete_node_def upsert_access_def delete_access_def insert_event_def Let_def
    split: if_splits option.splits intro: same_users_quotas)

lemma sql_reach_quotas: "sql_reach d d' \<Longrightarrow> quotas_fit d \<Longrightarrow> quotas_fit d'"
  by (induction rule: rtranclp_induct) (auto intro: sql_step_quotas)

lemma wrap64_id: "- (2 ^ 63) \<le> n \<Longrightarrow> n < 2 ^ 63 \<Longrightarrow> wrap64 n = n"
  by (simp add: wrap64_def)

text \<open>The bytes of a quota, exactly.\<close>

definition quota_bytes :: "int \<Rightarrow> int" where
  "quota_bytes mb = max 0 mb * 2 ^ 20"

lemma subscriptionUserinfo_exact:
  assumes "fits_int4 (u_quota_mb u)"
  shows "subscriptionUserinfo u = ''upload=0; download=0; total='' @ Itoa (quota_bytes (u_quota_mb u)) @ ''; expire=''
      @ Itoa (case u_expires_at u of None \<Rightarrow> 0 | Some t \<Rightarrow> t div 10 ^ 9)"
    and "0 \<le> quota_bytes (u_quota_mb u)" and "quota_bytes (u_quota_mb u) < 2 ^ 51"
proof -
  have "wrap64 (u_quota_mb u * 1024 * 1024) = u_quota_mb u * 1024 * 1024" if "0 < u_quota_mb u"
    by (rule wrap64_id) (use assms that in \<open>simp_all add: fits_int4_def\<close>)
  then show "subscriptionUserinfo u = ''upload=0; download=0; total='' @ Itoa (quota_bytes (u_quota_mb u)) @ ''; expire=''
      @ Itoa (case u_expires_at u of None \<Rightarrow> 0 | Some t \<Rightarrow> t div 10 ^ 9)"
    by (simp add: subscriptionUserinfo_def quota_bytes_def Let_def max_def mult.commute)
qed (use assms in \<open>auto simp: quota_bytes_def fits_int4_def max_def\<close>)

text \<open>
  C20: the total in the header is the quota.  Whatever quotas were sent to the panel, in whatever
  requests: the document behind a subscription link carries for its user the quota of the table in
  bytes, exactly, zero where it is not positive, and below \<open>2^51\<close>, so that the product of the code never wraps.
\<close>

theorem quota_total_exact:
  assumes "router_ok match" and "server_run match static s s'" and "quotas_fit (w_db (rest_state s))"
    and "handle_Subscription h r (rest_state s') = (Inr (Document 200 headers body), w')"
  shows "\<exists>u \<in> set (t_users (w_db (rest_state s'))). u_subscription_token u = URLParam r ''token''
    \<and> map_of headers ''Subscription-Userinfo'' =
        Some (''upload=0; download=0; total='' @ Itoa (quota_bytes (u_quota_mb u)) @ ''; expire=''
          @ Itoa (case u_expires_at u of None \<Rightarrow> 0 | Some t \<Rightarrow> t div 10 ^ 9))
    \<and> 0 \<le> quota_bytes (u_quota_mb u) \<and> quota_bytes (u_quota_mb u) < 2 ^ 51"
proof -
  let ?token = "URLParam r ''token''"
  have fit: "quotas_fit (w_db (rest_state s'))"
    using server_run_steps [OF assms(1,2)] sql_reach_quotas assms(3) by (auto simp: server_rel_def)
  obtain got w1 where get: "UserRepo_GetByToken (pn_env h) ?token (rest_state s') = (got, w1)" by force
  obtain u where u: "got = Inr u"
    using assms(4) get
    by (cases got) (auto simp: handle_Subscription_def bindE_def attemptE_def retE_def Let_def httpErrorRaw_def)
  have row: "u \<in> set (t_users (w_db (rest_state s')))" "u_subscription_token u = ?token"
    using get u by (auto simp: UserRepo_GetByToken_def select_user_by_token_def split: option.splits
        dest!: query_Inr(1) find_SomeD)
  have "map_of headers ''Subscription-Userinfo'' = Some (subscriptionUserinfo u)"
    using assms(4) get u
    by (auto simp: handle_Subscription_def bindE_def attemptE_def retE_def Let_def httpErrorRaw_def
        subscription_headers_def split: prod.splits sum.splits)
  moreover have "fits_int4 (u_quota_mb u)" using fit row(1) by (simp add: quotas_fit_def)
  ultimately show ?thesis using row subscriptionUserinfo_exact by auto
qed

definition link_request :: Request where
  "link_request = (sample_request ''GET'' ''/sub/t1'')\<lparr>r_params := [(''token'', ''t1'')], r_query := [(''format'', ''naive'')]\<rparr>"

lemma link_answered:
  "\<exists>headers body w'. handle_Subscription sample_panel link_request sample_world = (Inr (Document 200 headers body), w')"
proof -
  have "URLParam link_request ''token'' = ''t1''" "QueryGet link_request ''format'' = ''naive''"
    by (simp_all add: link_request_def sample_request_def URLParam_def QueryGet_def first_value_def)
  note at = this
  let ?e = "pn_env sample_panel" and ?sv = "subscription_service (pn_cfg sample_panel)"
  obtain u w1 where one: "UserRepo_GetByToken ?e ''t1'' sample_world = (Inr u, w1)"
    and two: "isl (fst (BuildByToken (panel_subscription ?e) ?sv ''t1'' ''naive'' w1)) = False"
  proof
    let ?w1 = "snd (UserRepo_GetByToken ?e ''t1'' sample_world)"
    show "UserRepo_GetByToken ?e ''t1'' sample_world = (Inr sample_user, ?w1)" by (rule prod_eqI) (code_simp, simp only: snd_conv)
    show "isl (fst (BuildByToken (panel_subscription ?e) ?sv ''t1'' ''naive'' ?w1)) = False" by code_simp
  qed
  then obtain d t w2 where "BuildByToken (panel_subscription ?e) ?sv ''t1'' ''naive'' w1 = (Inr (d, t), w2)"
    by (metis isl_def prod.collapse sum.exhaust_sel surj_pair)
  with one show ?thesis
    by (simp add: handle_Subscription_def bindE_def attemptE_def retE_def Let_def at)
qed

lemma quota_total_exact_witness:
  "\<exists>headers body w'. handle_Subscription sample_panel link_request sample_world = (Inr (Document 200 headers body), w')
     \<and> map_of headers ''Subscription-Userinfo'' =
         Some (''upload=0; download=0; total='' @ Itoa (10 * 2 ^ 20) @ ''; expire='' @ Itoa 0)"
proof -
  obtain headers body w' where answer: "handle_Subscription sample_panel link_request sample_world = (Inr (Document 200 headers body), w')"
    using link_answered by blast
  have token: "URLParam link_request ''token'' = ''t1''"
    by (simp add: link_request_def sample_request_def URLParam_def first_value_def)
  have fit: "quotas_fit (w_db (rest_state sample_server))"
    by (simp add: sample_server_def quotas_fit_def sample_db_def sample_user_def sample_expired_def fits_int4_def)
  from quota_total_exact [OF first_match_ok server_run.started fit, of sample_panel link_request headers body w'] answer
  show ?thesis
    by (simp add: sample_server_def token) (auto simp: sample_db_def sample_user_def sample_expired_def quota_bytes_def)
qed

end
