(* ===== verification/Api_Updates.thy ===== *)
theory Api_Updates
  imports Revocation Wire_Agents
begin

text \<open>
  What \<^verbatim>\<open>PATCH /api/users/\{id\}\<close> does with the members its body leaves out.
\<close>

lemma decode_first_unmarshal: "unmarshal s = Some j \<Longrightarrow> decode_first s = Some j"
  by (auto simp: unmarshal_def decode_first_def split: option.splits prod.splits if_splits)

definition notes_body :: "string \<Rightarrow> Json" where
  "notes_body s = JObject [(''notes'', JString s)]"

lemma decode_notes: "utf8 s \<Longrightarrow> decode_first (marshal (notes_body s)) = Some (notes_body s)"
  by (rule decode_first_unmarshal, rule unmarshal_marshal [of 1])
    (simp_all add: notes_body_def max_nesting_def utf8_ascii)

lemma dec_notes: "dec_user_input (notes_body s) zero_user_input = Some (zero_user_input\<lparr>iu_notes := Some s\<rparr>)"
  by (simp add: dec_user_input_def notes_body_def dec_struct_def fold_key_ascii at_def dec_ptr_def dec_string_def zero_user_input_def)

lemma Update_result:
  assumes run: "UserRepo_Update e key inp w = (Inr x, w')" and ok: "db_ok (w_db w)"
  obtains uid old where "env_parse_uuid e key = Some uid" and "old \<in> set (t_users (w_db w))" and "u_id old = uid"
    and "\<exists>t. set (t_users (w_db w')) = {u \<in> set (t_users (w_db w)). u_id u \<noteq> uid} \<union> {(edit_user e inp old)\<lparr>u_updated_at := t\<rparr>}"
    and "t_access (w_db w') = t_access (w_db w)"
proof -
  from run obtain uid d where key: "env_parse_uuid e key = Some uid"
    and up: "update_user (env_db_now e (w_tick w)) uid (edit_user e inp) (w_db w) = Inr (Some x, d)"
    and w': "w_db w' = d"
    unfolding UserRepo_Update_def
    by (auto simp: int4_arg_def uuid_arg_def one_row_def split: option.splits sum.splits if_splits elim!: exec_Inr)
  from up show thesis
  proof (cases rule: update_user_cases)
    case (updated old new)
    have "set (t_users d) = {u \<in> set (t_users (w_db w)). u_id u \<noteq> uid} \<union> {new}"
      using updated(2,3,7) by (auto simp: image_iff)
    then show thesis using that [OF key updated(2,3)] updated w' by (auto intro: exI)
  qed simp
qed

text \<open>
  C21: a PATCH is no patch.  When the answer to a PATCH whose body holds nothing but the notes has
  the status 200, the user has these notes - and is switched off, has an empty name, no expiry and no
  quota: the members left out are not kept but reset.
\<close>

theorem APIUpdateUser_resets_omitted:
  assumes run: "APIUpdateUser h r w = (Inr (JsonResponse 200 j), w')" and ok: "db_ok (w_db w)"
    and body: "r_body r = marshal (notes_body s)" "utf8 s"
  shows "\<exists>uid old. env_parse_uuid (pn_env h) (URLParam r ''id'') = Some uid
    \<and> old \<in> set (t_users (w_db w)) \<and> u_id old = uid
    \<and> (\<forall>u \<in> set (t_users (w_db w')). u_id u = uid \<longrightarrow> u_notes u = Some s \<and> u_username u = [] \<and> \<not> u_enabled u
          \<and> u_display_name u = None \<and> u_expires_at u = None \<and> u_quota_mb u = 0)
    \<and> {u \<in> set (t_users (w_db w')). u_id u \<noteq> uid} = {u \<in> set (t_users (w_db w)). u_id u \<noteq> uid}"
proof -
  let ?e = "pn_env h" and ?id = "URLParam r ''id''" and ?inp = "zero_user_input\<lparr>iu_notes := Some s\<rparr>"
  obtain r1 w1 where one: "UserRepo_Update ?e ?id ?inp w = (r1, w1)" by force
  obtain r2 w2 where two: "or_zero [] (userNodeIDs ?e ?id) w1 = (r2, w2)" by force
  obtain x where r1: "r1 = Inr x"
    using run one decode_notes [OF body(2)] dec_notes [of s]
    by (cases r1) (auto simp: APIUpdateUser_def decodeJSON_def body(1) writeJSONOrError_def bindE_def attemptE_def retE_def Let_def)
  obtain ids where r2: "r2 = Inr ids"
    using two by (auto simp: or_zero_def bindE_def attemptE_def retE_def split: prod.splits)
  obtain r3 w3 where three: "syncNodesAfterChange ?e ids w2 = (r3, w3)" by force
  have "w' = w3"
    using run one two three r1 r2 decode_notes [OF body(2)] dec_notes [of s]
    by (cases r3) (auto simp: APIUpdateUser_def decodeJSON_def body(1) bindE_def attemptE_def retE_def Let_def)
  moreover have "w_db w2 = w_db w1"
    using withinD [OF same.or_zero_within [OF userNodeIDs_same] two] by (simp add: db_rel_def tables_same_def)
  moreover have "people_same (w_db w2) (w_db w3)"
    using withinD [OF rounds_within(2) three] by (simp add: db_rel_def sync_frame_def)
  ultimately have users: "t_users (w_db w') = t_users (w_db w1)" by (simp add: people_same_def)
  obtain uid old where row: "env_parse_uuid ?e ?id = Some uid" "old \<in> set (t_users (w_db w))" "u_id old = uid"
    and rows: "\<exists>t. set (t_users (w_db w1)) = {u \<in> set (t_users (w_db w)). u_id u \<noteq> uid} \<union> {(edit_user ?e ?inp old)\<lparr>u_updated_at := t\<rparr>}"
    by (rule Update_result [OF one [unfolded r1] ok])
  obtain t where t: "set (t_users (w_db w')) = {u \<in> set (t_users (w_db w)). u_id u \<noteq> uid} \<union> {(edit_user ?e ?inp old)\<lparr>u_updated_at := t\<rparr>}"
    using rows users by auto
  have "\<forall>u \<in> set (t_users (w_db w')). u_id u = uid \<longrightarrow> u_notes u = Some s \<and> u_username u = [] \<and> \<not> u_enabled u
      \<and> u_display_name u = None \<and> u_expires_at u = None \<and> u_quota_mb u = 0"
    unfolding t by (auto simp: edit_user_def zero_user_input_def)
  moreover have "{u \<in> set (t_users (w_db w')). u_id u \<noteq> uid} = {u \<in> set (t_users (w_db w)). u_id u \<noteq> uid}"
    unfolding t using row(3) by (auto simp: edit_user_def)
  ultimately show ?thesis using row by blast
qed

definition notes_request :: Request where
  "notes_request = (sample_request ''PATCH'' ''/api/users/u1'')
     \<lparr>r_params := [(''id'', ''u1'')], r_body := marshal (notes_body ''vip'')\<rparr>"

lemma notes_answered: "\<exists>j w'. APIUpdateUser sample_panel notes_request sample_world = (Inr (JsonResponse 200 j), w')"
proof -
  let ?inp = "zero_user_input\<lparr>iu_notes := Some ''vip''\<rparr>"
  obtain x w1 w2 where one: "UserRepo_Update sample_env ''u1'' ?inp sample_world = (Inr x, w1)"
    and two: "or_zero [] (userNodeIDs sample_env ''u1'') w1 = (Inr [''n1''], w2)"
    and three: "fst (syncNodesAfterChange sample_env [''n1''] w2) = Inr []"
  proof
    let ?w1 = "snd (UserRepo_Update sample_env ''u1'' ?inp sample_world)"
    let ?w2 = "snd (or_zero [] (userNodeIDs sample_env ''u1'') ?w1)"
    let ?x = "(edit_user sample_env ?inp sample_user)\<lparr>u_updated_at := 100\<rparr>"
    show "UserRepo_Update sample_env ''u1'' ?inp sample_world = (Inr ?x, ?w1)"
      by (rule prod_eqI) (code_simp, simp only: snd_conv)
    show "or_zero [] (userNodeIDs sample_env ''u1'') ?w1 = (Inr [''n1''], ?w2)"
      by (rule prod_eqI) (code_simp, simp only: snd_conv)
    show "fst (syncNodesAfterChange sample_env [''n1''] ?w2) = Inr []" by code_simp
  qed
  have "utf8 ''vip''" by (rule utf8_ascii) simp
  note decoded = decode_notes [OF this] dec_notes [of "''vip''"]
  have "URLParam notes_request ''id'' = ''u1''" "r_body notes_request = marshal (notes_body ''vip'')" "pn_env sample_panel = sample_env"
    by (simp_all add: notes_request_def URLParam_def first_value_def sample_panel_def)
  then show ?thesis
    using one two three decoded
    by (cases "syncNodesAfterChange sample_env [''n1''] w2")
      (simp add: APIUpdateUser_def decodeJSON_def writeJSON_def bindE_def attemptE_def retE_def Let_def)
qed

lemma APIUpdateUser_resets_omitted_witness:
  "\<exists>w' j. APIUpdateUser sample_panel notes_request sample_world = (Inr (JsonResponse 200 j), w')
     \<and> filter (\<lambda>u. u_id u = ''u1'' \<and> u_enabled u) (t_users (w_db w')) = []"
proof -
  obtain j w' where run: "APIUpdateUser sample_panel notes_request sample_world = (Inr (JsonResponse 200 j), w')"
    using notes_answered by blast
  have "r_body notes_request = marshal (notes_body ''vip'')" "URLParam notes_request ''id'' = ''u1''" "pn_env sample_panel = sample_env"
    by (simp_all add: notes_request_def URLParam_def first_value_def sample_panel_def)
  moreover have "utf8 ''vip''" by (rule utf8_ascii) simp
  moreover have "db_ok (w_db sample_world)" by (simp add: sample_db_ok)
  ultimately show ?thesis using APIUpdateUser_resets_omitted [OF run] run by (auto simp: filter_empty_conv)
qed

end
