(* ===== verification/Test_Runner.thy ===== *)
theory Test_Runner
  imports Go_Encoding Go_Url
begin

text \<open>
  tools/telemetry-postgres-runner/main.go: the program that starts a throw-away PostgreSQL,
  runs the integration tests against it and takes everything down again.  What \<^verbatim>\<open>deps\<close> holds
  as function values is here a record of operations on a state of any type; the machine the
  properties speak about is one such state, on which every operation may fail.
\<close>

section \<open>Defer and joined errors\<close>

text \<open>\<^verbatim>\<open>fmt.Errorf("p: %w", err)\<close> around the error of a call.\<close>

definition wrapE :: "string \<Rightarrow> ('w, 'a) io \<Rightarrow> ('w, 'a) io" where
  "wrapE p m w = (case m w of (Inl err, w') \<Rightarrow> (Inl (Wrapf p err), w') | (Inr x, w') \<Rightarrow> (Inr x, w'))"

text \<open>
  \<^verbatim>\<open>defer func() \{ if e := m(); e != nil \{ err = errors.Join(err, e) \} \}()\<close> around \<open>body\<close>:
  the texts of the errors on lines of their own.
\<close>

definition join_error :: "goerr + 'a \<Rightarrow> goerr \<Rightarrow> goerr + 'a" where
  "join_error r e =
     Inl (Errorf ((case r of Inl err \<Rightarrow> error_text err @ [CHR 0x0A] | Inr _ \<Rightarrow> []) @ error_text e))"

definition deferE :: "('w, unit) io \<Rightarrow> ('w, 'a) io \<Rightarrow> ('w, 'a) io" where
  "deferE m body w =
     (case body w of
        (r, w1) \<Rightarrow> (case m w1 of (Inl e, w2) \<Rightarrow> (join_error r e, w2) | (Inr _, w2) \<Rightarrow> (r, w2)))"

section \<open>The runner\<close>

definition testDatabaseName :: string where "testDatabaseName = ''vetka_backend_telemetry_test''"
definition testDatabaseUser :: string where "testDatabaseUser = ''postgres''"
definition testDatabasePass :: string where "testDatabasePass = ''postgres''"

text \<open>Durations are nanoseconds.\<close>

definition testTimeout :: int where "testTimeout = 3 * 60 * 10 ^ 9"
definition removeTimeout :: int where "removeTimeout = 5 * 10 ^ 9"

text \<open>One call of \<^verbatim>\<open>commandRunner.Run\<close>.\<close>

record command =
  cm_timeout :: int
  cm_name :: string
  cm_args :: "string list"
  cm_env :: "string list"
  cm_dir :: string

text \<open>
  \<^verbatim>\<open>newDatabase(dir, port).Start()\<close> and \<^verbatim>\<open>.Stop()\<close> are the operations \<open>startDB\<close> and
  \<open>stopDB\<close> of the database with these settings; \<open>environ\<close> is \<^verbatim>\<open>os.Environ()\<close>.
\<close>

record 'w deps =
  makeTempDir :: "('w, string) io"
  removeAll :: "string \<Rightarrow> ('w, unit) io"
  freePort :: "('w, int) io"
  startDB :: "string \<Rightarrow> int \<Rightarrow> ('w, unit) io"
  stopDB :: "string \<Rightarrow> int \<Rightarrow> ('w, unit) io"
  runCommand :: "command \<Rightarrow> ('w, unit) io"
  say :: "string \<Rightarrow> ('w, unit) io"
  environ :: "string list"
  repoRoot :: string
  test_timeout :: int

definition database_url :: "string \<Rightarrow> int \<Rightarrow> string" where
  "database_url pass port =
     ''postgres://'' @ testDatabaseUser @ '':'' @ pass @ ''@127.0.0.1:'' @ Itoa port @ ''/'' @ testDatabaseName
       @ ''?sslmode=disable''"

definition specs :: "(string \<times> string) list" where
  "specs =
     [(''./internal/testsupport'', ''TestAdvisoryLockSerializesConcurrentIntegrationTests''),
      (''./internal/users'', ''TestSessionLookupForNodesIntegration''),
      (''./internal/telemetry'', ''TestUserSessionsIntegrationWithRealRepository'')]"

definition spec_command :: "'w deps \<Rightarrow> int \<Rightarrow> string \<times> string \<Rightarrow> command" where
  "spec_command d port spec =
     \<lparr>cm_timeout = (if test_timeout d \<le> 0 then testTimeout else test_timeout d), cm_name = ''go'',
      cm_args = [''test'', fst spec, ''-run'', snd spec, ''-count=1'', ''-v''],
      cm_env = environ d @ [''TEST_DATABASE_URL='' @ database_url testDatabasePass port,
        ''TEST_DATABASE_NAME='' @ testDatabaseName],
      cm_dir = repoRoot d\<rparr>"

definition run_spec :: "'w deps \<Rightarrow> int \<Rightarrow> string \<times> string \<Rightarrow> ('w, unit) io" where
  "run_spec d port spec =
     wrapE (''go test '' @ fst spec @ '' ('' @ snd spec @ '') failed'') (runCommand d (spec_command d port spec))"

definition runWithDeps :: "'w deps \<Rightarrow> ('w, unit) io" where
  "runWithDeps d =
     bindE (wrapE ''select free port'' (freePort d)) (\<lambda>port.
     bindE (wrapE ''create runtime dir'' (makeTempDir d)) (\<lambda>runtimeDir.
     deferE (wrapE ''remove runtime dir'' (removeAll d runtimeDir))
      (thenE (wrapE ''start embedded postgres'' (startDB d runtimeDir port))
       (deferE (wrapE ''stop embedded postgres'' (stopDB d runtimeDir port))
        (thenE (ignoreE (say d (''TEST_DATABASE_NAME='' @ testDatabaseName @ [CHR 0x0A])))
        (thenE (ignoreE (say d (''TEST_DATABASE_URL='' @ database_url ''***'' port @ [CHR 0x0A])))
         (forE (\<lambda>spec _. run_spec d port spec) specs ())))))))"

text \<open>
  \<^verbatim>\<open>osCommandRunner.Run\<close>: \<open>run timeout\<close> is \<^verbatim>\<open>cmd.Run\<close> under the deadline, with whether
  the deadline had passed.
\<close>

definition osCommandRunner_Run :: "(int \<Rightarrow> goerr option \<times> bool) \<Rightarrow> (int \<Rightarrow> string) \<Rightarrow> int \<Rightarrow> goerr option" where
  "osCommandRunner_Run run duration timeout =
     (let timeout = (if timeout \<le> 0 then testTimeout else timeout) in
      case run timeout of
        (err, True) \<Rightarrow> Some (Errorf (''command timed out after '' @ duration timeout))
      | (err, False) \<Rightarrow> err)"

text \<open>
  \<^verbatim>\<open>removeAllWithRetry\<close>: \<open>remove i\<close> is the outcome of the \<open>i\<close>-th \<^verbatim>\<open>os.RemoveAll\<close>,
  an \<^verbatim>\<open>os.IsNotExist\<close> error being none, \<open>current i\<close> the clock after it.  Whether it returns
  depends on the clock.
\<close>

partial_function (option) removeAllWithRetry ::
  "(nat \<Rightarrow> goerr option) \<Rightarrow> (nat \<Rightarrow> int) \<Rightarrow> int \<Rightarrow> nat \<Rightarrow> (nat \<times> goerr option) option" where
  "removeAllWithRetry remove current deadline i =
     (case remove i of
        None \<Rightarrow> Some (i, None)
      | Some lastErr \<Rightarrow>
          if current i > deadline then Some (i, Some lastErr)
          else removeAllWithRetry remove current deadline (Suc i))"

text \<open>
  \<^verbatim>\<open>freePort\<close>: a listener on port 0 has the port the system chose; closing it is deferred, and
  its error dropped.
\<close>

definition os_freePort :: "('w, 'l) io \<Rightarrow> ('l \<Rightarrow> int) \<Rightarrow> ('l \<Rightarrow> ('w, unit) io) \<Rightarrow> ('w, int) io" where
  "os_freePort listen tcp_port close =
     bindE listen (\<lambda>listener. thenE (ignoreE (close listener)) (retE (tcp_port listener)))"

text \<open>The settings of the database, with the conversion to \<^verbatim>\<open>uint32\<close>; the directory is rooted.\<close>

record embedded_config =
  ec_version :: string
  ec_port :: int
  ec_database :: string
  ec_username :: string
  ec_password :: string
  ec_runtime_path :: string
  ec_data_path :: string
  ec_binaries_path :: string

definition embedded_settings :: "string \<Rightarrow> int \<Rightarrow> embedded_config" where
  "embedded_settings runtimeDir port =
     \<lparr>ec_version = ''V16'', ec_port = port mod 2 ^ 32, ec_database = testDatabaseName, ec_username = testDatabaseUser,
      ec_password = testDatabasePass, ec_runtime_path = CleanRooted (runtimeDir @ ''/runtime''),
      ec_data_path = CleanRooted (runtimeDir @ ''/data''), ec_binaries_path = CleanRooted (runtimeDir @ ''/binaries'')\<rparr>"

text \<open>
  What the runner calls of the system and of embedded-postgres: \<open>os_removeAll\<close> is \<open>removeAllWithRetry\<close> on
  the directory, \<open>os_start\<close> and \<open>os_stop\<close> are those of a database with the settings.
\<close>

record ('w, 'l) os_calls =
  os_getwd :: "goerr + string"
  os_MkdirTemp :: "string \<Rightarrow> string \<Rightarrow> ('w, string) io"
  os_removeAll :: "string \<Rightarrow> ('w, unit) io"
  os_listen :: "string \<Rightarrow> string \<Rightarrow> ('w, 'l) io"
  os_tcp_port :: "'l \<Rightarrow> int"
  os_close :: "'l \<Rightarrow> ('w, unit) io"
  os_start :: "embedded_config \<Rightarrow> ('w, unit) io"
  os_stop :: "embedded_config \<Rightarrow> ('w, unit) io"
  os_run :: "command \<Rightarrow> ('w, unit) io"
  os_print :: "string \<Rightarrow> ('w, unit) io"
  os_environ :: "string list"

definition os_deps :: "('w, 'l) os_calls \<Rightarrow> string \<Rightarrow> 'w deps" where
  "os_deps os root =
     \<lparr>makeTempDir = os_MkdirTemp os [] ''vetka-embedded-postgres-*'', removeAll = os_removeAll os,
      freePort = os_freePort (os_listen os ''tcp'' ''127.0.0.1:0'') (os_tcp_port os) (os_close os),
      startDB = (\<lambda>dir port. os_start os (embedded_settings dir port)),
      stopDB = (\<lambda>dir port. os_stop os (embedded_settings dir port)),
      runCommand = os_run os, say = os_print os, environ = os_environ os, repoRoot = root, test_timeout = testTimeout\<rparr>"

text \<open>\<^verbatim>\<open>runMain\<close> and the exit status of \<^verbatim>\<open>main\<close>; the working directory is rooted.\<close>

definition runMain :: "('w, 'l) os_calls \<Rightarrow> ('w, unit) io" where
  "runMain os =
     (case os_getwd os of
        Inl err \<Rightarrow> failE (Wrapf ''resolve working directory'' err)
      | Inr cwd \<Rightarrow> runWithDeps (os_deps os (CleanRooted (cwd @ ''/../..''))))"

text \<open>A port of the system is not changed by the conversion, and the repository is two levels up.\<close>

lemma embedded_port: "0 \<le> port \<Longrightarrow> port < 65536 \<Longrightarrow> ec_port (embedded_settings dir port) = port"
  by (simp add: embedded_settings_def)

lemma repository_root_example: "CleanRooted (''/src/tools/runner'' @ ''/../..'') = ''/src''"
  by code_simp

definition exit_status :: "goerr + unit \<Rightarrow> nat" where
  "exit_status r = (case r of Inl err \<Rightarrow> 1 | Inr _ \<Rightarrow> 0)"

section \<open>A machine\<close>

text \<open>
  Directories, running databases, the commands run with what was running then, and the output.
  \<open>fails\<close> says which operation fails; a failing one has no effect, but a failing command has run.
\<close>

record machine =
  mc_tick :: nat
  mc_dirs :: "string list"
  mc_running :: "(string \<times> int) list"
  mc_ran :: "(command \<times> (string \<times> int) list) list"
  mc_output :: string

definition operation :: "(nat \<Rightarrow> goerr option) \<Rightarrow> (machine \<Rightarrow> 'a \<times> machine) \<Rightarrow> (machine, 'a) io" where
  "operation fails act w =
     (let w' = w\<lparr>mc_tick := Suc (mc_tick w)\<rparr> in
      case fails (mc_tick w) of Some err \<Rightarrow> (Inl err, w') | None \<Rightarrow> (case act w' of (x, w'') \<Rightarrow> (Inr x, w'')))"

text \<open>\<^verbatim>\<open>os.MkdirTemp\<close> makes a name that is not in use.\<close>

definition unused_name :: "string list \<Rightarrow> string" where
  "unused_name dirs = ''/tmp/vetka-embedded-postgres-'' @ concat dirs"

definition machine_deps :: "(nat \<Rightarrow> goerr option) \<Rightarrow> int \<Rightarrow> string list \<Rightarrow> string \<Rightarrow> int \<Rightarrow> machine deps" where
  "machine_deps fails port env root timeout =
     \<lparr>makeTempDir = operation fails (\<lambda>w. let dir = unused_name (mc_dirs w) in (dir, w\<lparr>mc_dirs := dir # mc_dirs w\<rparr>)),
      removeAll = (\<lambda>dir. operation fails (\<lambda>w. ((), w\<lparr>mc_dirs := filter (\<lambda>x. x \<noteq> dir) (mc_dirs w)\<rparr>))),
      freePort = operation fails (\<lambda>w. (port, w)),
      startDB = (\<lambda>dir p. operation fails (\<lambda>w. ((), w\<lparr>mc_running := (dir, p) # mc_running w\<rparr>))),
      stopDB = (\<lambda>dir p. operation fails (\<lambda>w. ((), w\<lparr>mc_running := remove1 (dir, p) (mc_running w)\<rparr>))),
      runCommand = (\<lambda>cm w. operation fails (\<lambda>w. ((), w)) (w\<lparr>mc_ran := mc_ran w @ [(cm, mc_running w)]\<rparr>)),
      say = (\<lambda>s. operation fails (\<lambda>w. ((), w\<lparr>mc_output := mc_output w @ s\<rparr>))),
      environ = env, repoRoot = root, test_timeout = timeout\<rparr>"

lemma length_le_concat: "x \<in> set xss \<Longrightarrow> length x \<le> length (concat xss)"
  by (induction xss) auto

lemma unused_name_fresh: "unused_name dirs \<notin> set dirs"
  using length_le_concat [of "unused_name dirs" dirs] by (auto simp: unused_name_def)

lemma operation_cases:
  assumes "operation fails act w = (r, w')"
  obtains (failed) err where "r = Inl err" and "w' = w\<lparr>mc_tick := Suc (mc_tick w)\<rparr>"
    | (ok) x where "r = Inr x" and "act (w\<lparr>mc_tick := Suc (mc_tick w)\<rparr>) = (x, w')"
  using assms by (auto simp: operation_def Let_def split: option.splits prod.splits)

lemma wrapE_cases:
  assumes "wrapE p m w = (r, w')"
  obtains (failed) err where "m w = (Inl err, w')" and "r = Inl (Wrapf p err)"
    | (ok) x where "m w = (Inr x, w')" and "r = Inr x"
  using assms by (auto simp: wrapE_def split: prod.splits sum.splits)

text \<open>Beginning with the deferred operation's outcome.\<close>

lemma deferE_cases:
  assumes "deferE m body w = (r, w')"
  obtains (failed) r0 w1 e where "body w = (r0, w1)" and "m w1 = (Inl e, w')" and "r = join_error r0 e"
    | (ok) w1 where "body w = (r, w1)" and "m w1 = (Inr (), w')"
  using assms by (auto simp: deferE_def split: prod.splits sum.splits)

section \<open>What a run leaves behind\<close>

text \<open>The commands of the specs run so far, with the database up.\<close>

definition spec_runs :: "machine deps \<Rightarrow> int \<Rightarrow> (string \<times> int) list \<Rightarrow> (string \<times> string) list \<Rightarrow> (command \<times> (string \<times> int) list) list" where
  "spec_runs d port up ss = map (\<lambda>spec. (spec_command d port spec, up)) ss"

lemma run_specs_machine:
  assumes "forE (\<lambda>spec _. run_spec d port spec) ss () w = (r, w')" and d: "d = machine_deps fails p env root timeout"
  shows "mc_dirs w' = mc_dirs w \<and> mc_running w' = mc_running w
    \<and> (\<exists>k. mc_ran w' = mc_ran w @ spec_runs d port (mc_running w) (take k ss) \<and> (r = Inr () \<longrightarrow> k \<ge> length ss))"
  using assms(1)
proof (induction ss arbitrary: w)
  case Nil
  then show ?case by (auto simp: retE_def spec_runs_def)
next
  case (Cons spec ss)
  obtain r1 w1 where one: "run_spec d port spec w = (r1, w1)" by force
  then have w1: "mc_dirs w1 = mc_dirs w" "mc_running w1 = mc_running w"
      "mc_ran w1 = mc_ran w @ [(spec_command d port spec, mc_running w)]"
    by (auto simp: run_spec_def d machine_deps_def elim!: wrapE_cases operation_cases)
  show ?case
  proof (cases r1)
    case (Inl err)
    then have "r = Inl err" "w' = w1" using Cons.prems one by (auto simp: bindE_def)
    then show ?thesis using w1 by (auto simp: spec_runs_def intro!: exI [of _ "1 :: nat"])
  next
    case (Inr u)
    then have "forE (\<lambda>spec _. run_spec d port spec) ss () w1 = (r, w')" using Cons.prems one by (simp add: bindE_def)
    from Cons.IH [OF this] w1 obtain k where "mc_dirs w' = mc_dirs w" "mc_running w' = mc_running w"
      "mc_ran w' = mc_ran w @ spec_runs d port (mc_running w) (take (Suc k) (spec # ss))" "r = Inr () \<longrightarrow> k \<ge> length ss"
      by (auto simp: spec_runs_def)
    then show ?thesis by (auto intro!: exI [of _ "Suc k"])
  qed
qed

text \<open>The error names the step that failed, wherever it stands among the joined ones.\<close>

definition blames :: "goerr + 'a \<Rightarrow> string \<Rightarrow> bool" where
  "blames r what = (case r of Inl err \<Rightarrow> Contains (error_text err) (what @ '': '') | Inr _ \<Rightarrow> False)"

lemma blames_join [simp]: "blames (join_error r (Wrapf what e)) what"
  by (auto simp: blames_def join_error_def Contains_iff intro: exI [of _ "[]"])

lemma join_error_failed [simp]: "join_error r e \<noteq> Inr x"
  by (simp add: join_error_def)

lemma blames_kept: "blames r what \<Longrightarrow> blames (join_error r e) what"
  by (cases r) (auto simp: blames_def join_error_def Contains_iff, metis append.assoc)

text \<open>With the database up: the tests run, and it is stopped.\<close>

definition with_database :: "machine deps \<Rightarrow> string \<Rightarrow> int \<Rightarrow> (machine, unit) io" where
  "with_database d dir port =
     deferE (wrapE ''stop embedded postgres'' (stopDB d dir port))
      (thenE (ignoreE (say d (''TEST_DATABASE_NAME='' @ testDatabaseName @ [CHR 0x0A])))
      (thenE (ignoreE (say d (''TEST_DATABASE_URL='' @ database_url ''***'' port @ [CHR 0x0A])))
       (forE (\<lambda>spec _. run_spec d port spec) specs ())))"

lemma say_machine:
  assumes "d = machine_deps fails p env root timeout"
  shows "mc_dirs (snd (say d t w)) = mc_dirs w" "mc_running (snd (say d t w)) = mc_running w" "mc_ran (snd (say d t w)) = mc_ran w"
  by (cases "fails (mc_tick w)"; simp add: assms machine_deps_def operation_def)+

lemma with_database_machine:
  assumes run: "with_database d dir port w = (r, w')" and d: "d = machine_deps fails p env root timeout"
  shows "mc_dirs w' = mc_dirs w \<and> (mc_running w' = remove1 (dir, port) (mc_running w) \<or> blames r ''stop embedded postgres'')
    \<and> (\<exists>k. mc_ran w' = mc_ran w @ spec_runs d port (mc_running w) (take k specs) \<and> (r = Inr () \<longrightarrow> k \<ge> length specs))"
proof -
  define w0 where "w0 = snd (say d (''TEST_DATABASE_URL='' @ database_url ''***'' port @ [CHR 0x0A])
    (snd (say d (''TEST_DATABASE_NAME='' @ testDatabaseName @ [CHR 0x0A]) w)))"
  have w0: "mc_dirs w0 = mc_dirs w" "mc_running w0 = mc_running w" "mc_ran w0 = mc_ran w"
    by (simp_all add: w0_def say_machine [OF d])
  obtain r1 w1 where specs: "forE (\<lambda>spec _. run_spec d port spec) specs () w0 = (r1, w1)" by force
  from run_specs_machine [OF this d] w0 obtain k where w1: "mc_dirs w1 = mc_dirs w" "mc_running w1 = mc_running w"
      "mc_ran w1 = mc_ran w @ spec_runs d port (mc_running w) (take k specs)" "r1 = Inr () \<longrightarrow> k \<ge> length specs" by auto
  have "deferE (wrapE ''stop embedded postgres'' (stopDB d dir port)) (\<lambda>_. (r1, w1)) w = (r, w')"
    using run specs by (simp add: with_database_def deferE_def thenE_def bindE_def ignoreE_def w0_def)
  then show ?thesis
  proof (cases rule: deferE_cases)
    case (failed r0 v e)
    then obtain err where "e = Wrapf ''stop embedded postgres'' err" "mc_dirs w' = mc_dirs w1" "mc_ran w' = mc_ran w1"
      by (auto simp: d machine_deps_def elim!: wrapE_cases operation_cases)
    then show ?thesis using failed w1 by (intro conjI disjI2 exI [of _ k]) simp_all
  next
    case (ok v)
    then have "mc_dirs w' = mc_dirs w1" "mc_ran w' = mc_ran w1" "mc_running w' = remove1 (dir, port) (mc_running w1)"
      by (auto simp: d machine_deps_def elim!: wrapE_cases operation_cases)
    then show ?thesis using ok w1 by auto
  qed
qed

lemma no_specs_run: "\<exists>k. xs = xs @ spec_runs d port up (take k specs)"
  by (intro exI [of _ "0 :: nat"]) (simp add: spec_runs_def)

lemma started_machine:
  assumes run: "thenE (wrapE ''start embedded postgres'' (startDB d dir port)) (with_database d dir port) w = (r, w')"
    and d: "d = machine_deps fails p env root timeout"
  shows "mc_dirs w' = mc_dirs w \<and> (mc_running w' = mc_running w \<or> blames r ''stop embedded postgres'')
    \<and> (\<exists>k. mc_ran w' = mc_ran w @ spec_runs d port ((dir, port) # mc_running w) (take k specs)
          \<and> (r = Inr () \<longrightarrow> k \<ge> length specs))"
proof -
  obtain r1 w1 where start: "wrapE ''start embedded postgres'' (startDB d dir port) w = (r1, w1)" by force
  then have w1: "mc_dirs w1 = mc_dirs w" "mc_ran w1 = mc_ran w"
      "r1 = Inr () \<and> mc_running w1 = (dir, port) # mc_running w \<or> (\<exists>err. r1 = Inl err) \<and> mc_running w1 = mc_running w"
    by (auto simp: d machine_deps_def elim!: wrapE_cases operation_cases)
  show ?thesis
  proof (cases "r1 = Inr ()")
    case True
    then have "with_database d dir port w1 = (r, w')" using run start by (simp add: thenE_def bindE_def)
    from with_database_machine [OF this d] True w1 show ?thesis by auto
  next
    case False
    then have "\<exists>err. r = Inl err" "w' = w1" "mc_running w1 = mc_running w"
      using run start w1(3) by (auto simp: thenE_def bindE_def)
    then show ?thesis using w1 no_specs_run by auto
  qed
qed

text \<open>From the directory on: it is removed, whatever happened in it.\<close>

lemma in_directory_machine:
  assumes run: "deferE (wrapE ''remove runtime dir'' (removeAll d dir))
        (thenE (wrapE ''start embedded postgres'' (startDB d dir port)) (with_database d dir port)) w = (r, w')"
    and d: "d = machine_deps fails p env root timeout" and dirs: "mc_dirs w = dir # dirs" "dir \<notin> set dirs"
  shows "(mc_dirs w' = dirs \<or> blames r ''remove runtime dir'')
    \<and> (mc_running w' = mc_running w \<or> blames r ''stop embedded postgres'')
    \<and> (\<exists>k. mc_ran w' = mc_ran w @ spec_runs d port ((dir, port) # mc_running w) (take k specs)
          \<and> (r = Inr () \<longrightarrow> k \<ge> length specs))"
  using run
proof (cases rule: deferE_cases)
  case (failed r0 v e)
  then obtain err where "e = Wrapf ''remove runtime dir'' err" and same: "mc_running w' = mc_running v" "mc_ran w' = mc_ran v"
    by (auto simp: d machine_deps_def elim!: wrapE_cases operation_cases)
  with failed(3) have "blames r ''remove runtime dir''" "r \<noteq> Inr ()" by simp_all
  moreover have "mc_running v = mc_running w \<or> blames r ''stop embedded postgres''"
    using started_machine [OF failed(1) d] blames_kept [of r0 _ e] failed(3) by auto
  moreover have "\<exists>k. mc_ran v = mc_ran w @ spec_runs d port ((dir, port) # mc_running w) (take k specs)"
    using started_machine [OF failed(1) d] by auto
  ultimately show ?thesis unfolding same by blast
next
  case (ok v)
  then have "mc_dirs w' = filter (\<lambda>x. x \<noteq> dir) (mc_dirs v)" "mc_running w' = mc_running v" "mc_ran w' = mc_ran v"
    by (auto simp: d machine_deps_def elim!: wrapE_cases operation_cases)
  moreover have "filter (\<lambda>x. x \<noteq> dir) dirs = dirs" using dirs(2) by (auto simp: filter_id_conv)
  ultimately show ?thesis using started_machine [OF ok(1) d] dirs(1) by auto
qed

text \<open>
  C38: the test runner cleans up.  Wherever a run fails - at the port, the directory, the start of the
  database, a test, an output, the stop or the removal, or at several of them - afterwards its directory is
  gone or the error says that removing it failed, its database is stopped or the error says that
  stopping it failed, and every test ran against the running database, in the order of the list up to the first
  failing one; success means that all of them ran and everything is as before.
\<close>

theorem runWithDeps_cleans_up:
  assumes run: "runWithDeps (machine_deps fails port env root timeout) w = (r, w')"
  shows "(mc_dirs w' = mc_dirs w \<or> blames r ''remove runtime dir'')
    \<and> (mc_running w' = mc_running w \<or> blames r ''stop embedded postgres'')
    \<and> (\<exists>k dir. mc_ran w' = mc_ran w
          @ spec_runs (machine_deps fails port env root timeout) port ((dir, port) # mc_running w) (take k specs)
        \<and> (r = Inr () \<longrightarrow> k \<ge> length specs))"
proof -
  define d where "d = machine_deps fails port env root timeout"
  obtain r1 w1 where get_port: "wrapE ''select free port'' (freePort d) w = (r1, w1)" by force
  then have w1: "mc_dirs w1 = mc_dirs w" "mc_running w1 = mc_running w" "mc_ran w1 = mc_ran w" "r1 = Inr port \<or> (\<exists>err. r1 = Inl err)"
    by (auto simp: d_def machine_deps_def elim!: wrapE_cases operation_cases)
  show ?thesis
  proof (cases "r1 = Inr port")
    case False
    then have "\<exists>err. r = Inl err" "w' = w1" using run get_port w1(4) by (auto simp: runWithDeps_def bindE_def d_def)
    then show ?thesis using w1 by (auto simp: spec_runs_def intro!: exI [of _ "0 :: nat"])
  next
    case True
    obtain r2 w2 where temp: "wrapE ''create runtime dir'' (makeTempDir d) w1 = (r2, w2)" by force
    let ?dir = "unused_name (mc_dirs w)"
    from temp have w2: "mc_running w2 = mc_running w" "mc_ran w2 = mc_ran w"
        "r2 = Inr ?dir \<and> mc_dirs w2 = ?dir # mc_dirs w \<or> (\<exists>err. r2 = Inl err) \<and> mc_dirs w2 = mc_dirs w"
      using w1 by (auto simp: d_def machine_deps_def Let_def elim!: wrapE_cases operation_cases)
    show ?thesis
    proof (cases "r2 = Inr ?dir")
      case False
      then have "\<exists>err. r = Inl err" "w' = w2"
        using run get_port True temp w2(3) by (auto simp: runWithDeps_def bindE_def d_def)
      then show ?thesis using False w2 by (auto simp: spec_runs_def intro!: exI [of _ "0 :: nat"])
    next
      case True
      have "deferE (wrapE ''remove runtime dir'' (removeAll d ?dir))
          (thenE (wrapE ''start embedded postgres'' (startDB d ?dir port)) (with_database d ?dir port)) w2 = (r, w')"
        using run get_port \<open>r1 = Inr port\<close> temp True
        by (simp add: runWithDeps_def bindE_def with_database_def flip: d_def)
      moreover have "mc_dirs w2 = ?dir # mc_dirs w" using w2(3) True by auto
      ultimately show ?thesis
        using in_directory_machine [OF _ d_def _ unused_name_fresh] w2(1,2) unfolding d_def by metis
    qed
  qed
qed

text \<open>The second test fails.\<close>

lemma runWithDeps_cleans_up_witness:
  "\<exists>w'. runWithDeps (machine_deps (\<lambda>t. if t = 6 then Some (Errorf ''exit status 1'') else None) 5432 [] ''/repo'' 0)
        \<lparr>mc_tick = 0, mc_dirs = [''/tmp/other''], mc_running = [], mc_ran = [], mc_output = []\<rparr>
      = (Inl (Wrapf ''go test ./internal/users (TestSessionLookupForNodesIntegration) failed'' (Errorf ''exit status 1'')), w')
    \<and> mc_dirs w' = [''/tmp/other''] \<and> mc_running w' = []"
proof -
  let ?d = "machine_deps (\<lambda>t. if t = 6 then Some (Errorf ''exit status 1'') else None) 5432 [] ''/repo'' 0"
  let ?w = "\<lparr>mc_tick = 0, mc_dirs = [''/tmp/other''], mc_running = [], mc_ran = [], mc_output = []\<rparr>"
  let ?r = "Inl (Wrapf ''go test ./internal/users (TestSessionLookupForNodesIntegration) failed'' (Errorf ''exit status 1'')) :: goerr + unit"
  have r: "fst (runWithDeps ?d ?w) = ?r"
    by (simp add: runWithDeps_def machine_deps_def bindE_def wrapE_def operation_def deferE_def thenE_def ignoreE_def
        specs_def run_spec_def retE_def Let_def)
  have "\<not> blames ?r ''remove runtime dir''" "\<not> blames ?r ''stop embedded postgres''" by code_simp+
  moreover obtain w' where run: "runWithDeps ?d ?w = (?r, w')" using r by (metis prod.collapse)
  ultimately have "mc_dirs w' = [''/tmp/other'']" "mc_running w' = []"
    using runWithDeps_cleans_up [OF run] by simp_all
  with run show ?thesis by blast
qed

text \<open>
  Removing the directory ends.  When a sleep of 200 milliseconds takes at least that long,
  \<^verbatim>\<open>removeAllWithRetry\<close> returns after at most 27 attempts: with no error when the last attempt
  succeeded, otherwise with the last attempt's error and not before five seconds have passed; and all attempts before
  failed.
\<close>

theorem removeAllWithRetry_returns:
  assumes start: "start \<le> current 0" and sleeps: "\<And>i. current i + 200 * 10 ^ 6 \<le> current (Suc i)"
  shows "\<exists>n. n \<le> 26 \<and> removeAllWithRetry remove current (start + removeTimeout) 0 = Some (n, remove n)
    \<and> (\<forall>j < n. remove j \<noteq> None) \<and> (remove n = None \<or> start + removeTimeout < current n)"
proof -
  define stops where "stops i \<longleftrightarrow> remove i = None \<or> start + removeTimeout < current i" for i
  have late: "start + int i * (200 * 10 ^ 6) \<le> current i" for i
  proof (induction i)
    case (Suc i)
    then show ?case using sleeps [of i] by (simp add: algebra_simps)
  qed (use start in simp)
  have "stops 26" using late [of 26] by (simp add: stops_def removeTimeout_def)
  define n where "n = (LEAST i. stops i)"
  have n: "stops n" "n \<le> 26" using \<open>stops 26\<close> by (auto simp: n_def intro: LeastI Least_le)
  have before: "\<not> stops j" if "j < n" for j using that not_less_Least by (auto simp: n_def)
  have "removeAllWithRetry remove current (start + removeTimeout) i = Some (n, remove n)" if "i \<le> n" for i
    using that
  proof (induction i rule: inc_induct)
    case base
    then show ?case using n(1) by (subst removeAllWithRetry.simps) (auto simp: stops_def split: option.split)
  next
    case (step i)
    then show ?case using before [of i] by (subst removeAllWithRetry.simps) (auto simp: stops_def split: option.split)
  qed
  then show ?thesis using n before by (intro exI [of _ n]) (auto simp: stops_def)
qed

lemma removeAllWithRetry_returns_witness:
  "removeAllWithRetry (\<lambda>i. if i < 3 then Some (Errorf ''busy'') else None) (\<lambda>i. int i * 10 ^ 9) (0 + removeTimeout) 0
     = Some (3, None)"
proof -
  let ?remove = "\<lambda>i. if i < 3 then Some (Errorf ''busy'') else None"
  have "int i * 10 ^ 9 + 200 * 10 ^ 6 \<le> int (Suc i) * 10 ^ 9" for i by (simp add: algebra_simps)
  with removeAllWithRetry_returns [of 0 "\<lambda>i. int i * 10 ^ 9" ?remove] obtain n where
    n: "removeAllWithRetry ?remove (\<lambda>i. int i * 10 ^ 9) (0 + removeTimeout) 0 = Some (n, ?remove n)"
      "\<forall>j < n. ?remove j \<noteq> None" "?remove n = None \<or> 0 + removeTimeout < int n * 10 ^ 9" by auto
  have "\<not> 3 < n" using n(2) by (auto dest: spec [of _ 3])
  moreover have "\<not> n < 3" using n(3) by (auto simp: removeTimeout_def)
  ultimately have "n = 3" by simp
  with n(1) show ?thesis by simp
qed

end
