(* ===== verification/Fixtures.thy ===== *)
theory Fixtures
  imports User_Create Samples Go_Strings "HOL-Library.Word"
begin

unbundle bit_operations_syntax

text \<open>
  internal/testsupport/postgres.go: what the integration tests use to get at a database that is
  theirs, to make ids for their rows and to delete them again.
\<close>

section \<open>Dedicated databases\<close>

definition forbiddenTestDatabases :: "string set" where
  "forbiddenTestDatabases = {''postgres'', ''template0'', ''template1'', ''vetka_backend''}"

definition GuardDedicatedTestDatabase :: "string \<Rightarrow> string \<Rightarrow> goerr option" where
  "GuardDedicatedTestDatabase currentDatabase expectedDatabase =
     (let current = TrimSpace currentDatabase; expected = TrimSpace expectedDatabase in
      if expected = [] then Some (Errorf ''TEST_DATABASE_NAME is empty'')
      else if current \<noteq> expected
      then Some (Errorf (''current database '' @ Quote current @ '' does not match TEST_DATABASE_NAME '' @ Quote expected))
      else if ToLower current \<in> forbiddenTestDatabases
      then Some (Errorf (''database '' @ Quote current @ '' is forbidden for integration tests''))
      else if \<not> HasSuffix current ''_test'' \<and> \<not> Contains current ''_test_''
      then Some (Errorf (''database '' @ Quote current @ '' must end with _test or contain _test_''))
      else None)"

lemma guard_accepts:
  "GuardDedicatedTestDatabase current expected = None \<longleftrightarrow>
     TrimSpace current = TrimSpace expected \<and> TrimSpace current \<noteq> []
     \<and> ToLower (TrimSpace current) \<notin> forbiddenTestDatabases
     \<and> (HasSuffix (TrimSpace current) ''_test'' \<or> Contains (TrimSpace current) ''_test_'')"
  by (auto simp: GuardDedicatedTestDatabase_def Let_def)

section \<open>Ids\<close>

text \<open>\<^verbatim>\<open>%x\<close> of bytes.\<close>

definition hex_bytes :: "8 word list \<Rightarrow> string" where
  "hex_bytes bs = concat (map (\<lambda>b. [hex_digit (unat b div 16), hex_digit (unat b)]) bs)"

text \<open>The argument is the outcome of \<^verbatim>\<open>rand.Read\<close> on sixteen bytes; an error ends the test.\<close>

definition NewFixtureUUID :: "goerr + 8 word list \<Rightarrow> string + string" where
  "NewFixtureUUID random =
     (case random of
        Inl err \<Rightarrow> Inl (''generate fixture UUID: '' @ error_text err)
      | Inr raw0 \<Rightarrow>
          (let raw1 = raw0[6 := (raw0 ! 6 AND 0x0F) OR 0x40];
               raw = raw1[8 := (raw1 ! 8 AND 0x3F) OR 0x80] in
           Inr (hex_bytes (take 4 raw) @ ''-'' @ hex_bytes (take 2 (drop 4 raw)) @ ''-''
                @ hex_bytes (take 2 (drop 6 raw)) @ ''-'' @ hex_bytes (take 2 (drop 8 raw)) @ ''-''
                @ hex_bytes (drop 10 raw))))"

definition NewFixtureSuffix :: "goerr + 8 word list \<Rightarrow> string + string" where
  "NewFixtureSuffix random =
     (case NewFixtureUUID random of Inl msg \<Rightarrow> Inl msg | Inr uuid \<Rightarrow> Inr (take 12 (filter (\<lambda>c. c \<noteq> CHR ''-'') uuid)))"

lemma high_digit: "unat (b :: 8 word) div 16 = unat (drop_bit 4 b)"
  using drop_bit_eq_div [of 4 "unat b"] by (simp add: unat_drop_bit_eq)

lemma version_byte: "unat (((b :: 8 word) AND 0x0F) OR 0x40) div 16 = 4"
proof -
  have low: "(b AND 0x0F) = take_bit 4 b" by (simp add: take_bit_eq_mask mask_numeral)
  have "drop_bit 4 (take_bit 4 b OR 0x40 :: 8 word) = 4" by (simp add: drop_bit_or drop_bit_take_bit)
  then show ?thesis by (simp add: high_digit low)
qed

lemma variant_byte: "unat (((b :: 8 word) AND 0x3F) OR 0x80) div 16 \<in> {8, 9, 10, 11}"
proof -
  have low: "(b AND 0x3F) = take_bit 6 b" by (simp add: take_bit_eq_mask mask_numeral)
  define x :: "8 word" where "x = take_bit 2 (drop_bit 4 b)"
  have "drop_bit 4 (take_bit 6 b OR 0x80 :: 8 word) = x OR 8" by (simp add: x_def drop_bit_or drop_bit_take_bit)
  moreover have "unat x = take_bit 2 (unat (drop_bit 4 b))" by (simp only: x_def unsigned_take_bit_eq)
  then have "unat x < 4" by (simp add: take_bit_eq_mod)
  then have "unat x \<in> {0, 1, 2, 3}" by auto
  then have "unat (x OR 8) \<in> {8, 9, 10, 11}" by (auto simp: unsigned_or_eq)
  ultimately show ?thesis by (simp add: high_digit low)
qed

text \<open>The shape of a random UUID: version 4, variant 8 to b, and a suffix of twelve hexadecimal digits.\<close>

lemma length_hex_bytes [simp]: "length (hex_bytes bs) = 2 * length bs"
  by (induction bs) (simp_all add: hex_bytes_def)

lemma NewFixtureUUID_is_version_4:
  assumes "length raw = 16" and "NewFixtureUUID (Inr raw) = Inr uuid"
  shows "length uuid = 36 \<and> uuid ! 14 = CHR ''4'' \<and> uuid ! 19 \<in> set ''89ab''
    \<and> (\<forall>i \<in> {8, 13, 18, 23}. uuid ! i = CHR ''-'')"
proof -
  obtain b0 b1 b2 b3 b4 b5 b6 b7 b8 b9 rest where raw: "raw = b0 # b1 # b2 # b3 # b4 # b5 # b6 # b7 # b8 # b9 # rest"
      and len: "length rest = 6"
    using assms(1) by (auto simp: length_Suc_conv numeral_eq_Suc)
  define v where "v = ((b6 AND 0x0F) OR 0x40)"
  define w where "w = ((b8 AND 0x3F) OR 0x80)"
  have digits: "unat v div 16 = 4" "unat w div 16 \<in> {8, 9, 10, 11}"
    unfolding v_def w_def by (rule version_byte, rule variant_byte)
  have "uuid = hex_bytes [b0, b1, b2, b3] @ ''-'' @ hex_bytes [b4, b5] @ ''-'' @ hex_bytes [v, b7] @ ''-''
      @ hex_bytes [w, b9] @ ''-'' @ hex_bytes rest"
    using assms(2) by (simp add: NewFixtureUUID_def raw v_def w_def Let_def)
  moreover from this have "length uuid = 36" using len by simp
  ultimately have "uuid ! 14 = hex_digit (unat v div 16)" "uuid ! 19 = hex_digit (unat w div 16)"
      "uuid ! 8 = CHR ''-''" "uuid ! 13 = CHR ''-''" "uuid ! 18 = CHR ''-''" "uuid ! 23 = CHR ''-''"
    by (simp_all add: hex_bytes_def)
  moreover have "hex_digit 4 = CHR ''4''" "hex_digit 8 = CHR ''8''" "hex_digit 9 = CHR ''9''" "hex_digit 10 = CHR ''a''"
      "hex_digit 11 = CHR ''b''"
    by (simp_all add: hex_digit_def)
  ultimately show ?thesis using digits \<open>length uuid = 36\<close> by auto
qed

text \<open>
  \<^verbatim>\<open>UUIDArray\<close>: the trimmed ids without repetitions, as \<^verbatim>\<open>pgtype.UUID\<close> reads them.
\<close>

fun UUIDArray_from :: "env \<Rightarrow> string list \<Rightarrow> string list \<Rightarrow> goerr + string list" where
  "UUIDArray_from e seen [] = Inr []"
| "UUIDArray_from e seen (i # ids) =
     (let trimmed = TrimSpace i in
      if trimmed = [] then Inl (Errorf ''fixture UUID must not be empty'')
      else if trimmed \<in> set seen then UUIDArray_from e seen ids
      else case env_scan_uuid e trimmed of
             Inl err \<Rightarrow> Inl (Wrapf (''invalid fixture UUID '' @ Quote trimmed) err)
           | Inr parsed \<Rightarrow>
               (case UUIDArray_from e (trimmed # seen) ids of
                  Inl err \<Rightarrow> Inl err | Inr result \<Rightarrow> Inr (parsed # result)))"

definition UUIDArray :: "env \<Rightarrow> string list \<Rightarrow> goerr + string list" where
  "UUIDArray e ids = UUIDArray_from e [] ids"

section \<open>Deleting the rows of a test\<close>

definition delete_access_of :: "string list \<Rightarrow> string list \<Rightarrow> unit stmt" where
  "delete_access_of us ns d =
     Inr ((), d\<lparr>t_access := filter (\<lambda>a. \<not> (a_user_id a \<in> set us \<or> a_node_id a \<in> set ns)) (t_access d)\<rparr>)"

definition delete_users :: "string list \<Rightarrow> unit stmt" where
  "delete_users us d =
     Inr ((), d\<lparr>t_users := filter (\<lambda>u. u_id u \<notin> set us) (t_users d),
               t_access := filter (\<lambda>a. a_user_id a \<notin> set us) (t_access d)\<rparr>)"

definition delete_nodes :: "string list \<Rightarrow> unit stmt" where
  "delete_nodes ns d =
     Inr ((), d\<lparr>t_nodes := filter (\<lambda>n. n_id n \<notin> set ns) (t_nodes d),
               t_access := filter (\<lambda>a. a_node_id a \<notin> set ns) (t_access d),
               t_events := filter (\<lambda>ev. ev_node_id ev \<notin> set ns) (t_events d)\<rparr>)"

definition cleanup_statements :: "env \<Rightarrow> string list \<Rightarrow> string list \<Rightarrow> unit act" where
  "cleanup_statements e us ns =
     thenE (if us \<noteq> [] \<and> ns \<noteq> [] then exec e (\<lambda>_. delete_access_of us ns)
            else if us \<noteq> [] then exec e (\<lambda>_. delete_access_of us [])
            else if ns \<noteq> [] then exec e (\<lambda>_. delete_access_of [] ns) else retE ())
     (thenE (if us \<noteq> [] then exec e (\<lambda>_. delete_users us) else retE ())
      (if ns \<noteq> [] then exec e (\<lambda>_. delete_nodes ns) else retE ()))"

definition CleanupFixtureRows :: "env \<Rightarrow> string list \<Rightarrow> string list \<Rightarrow> unit act" where
  "CleanupFixtureRows e userIDs nodeIDs =
     bindE (liftE (UUIDArray e userIDs)) (\<lambda>typedUsers.
     bindE (liftE (UUIDArray e nodeIDs)) (\<lambda>typedNodes.
       transaction e (cleanup_statements e typedUsers typedNodes)))"

text \<open>What should be left: no row of these users and nodes, and every other row.\<close>

definition cleaned :: "string list \<Rightarrow> string list \<Rightarrow> db \<Rightarrow> db" where
  "cleaned us ns d = d
     \<lparr>t_users := filter (\<lambda>u. u_id u \<notin> set us) (t_users d), t_nodes := filter (\<lambda>n. n_id n \<notin> set ns) (t_nodes d),
      t_access := filter (\<lambda>a. a_user_id a \<notin> set us \<and> a_node_id a \<notin> set ns) (t_access d),
      t_events := filter (\<lambda>ev. ev_node_id ev \<notin> set ns) (t_events d)\<rparr>"

lemma cleanup_statements_clean:
  assumes "cleanup_statements e us ns w = (Inr x, w')"
  shows "w_db w' = cleaned us ns (w_db w)"
proof -
  have cond: "(if b then exec e f else retE ()) u = (Inr y, u') \<Longrightarrow>
      (if b then f (w_tick u) (w_db u) = Inr (y, w_db u') else w_db u' = w_db u)" for b f y u u'
    by (auto simp: retE_def elim!: exec_Inr)
  have all: "filter (\<lambda>x. True) xs = xs" for xs :: "'x list" by simp
  show ?thesis
    using assms unfolding cleanup_statements_def thenE_def bindE_Inr_iff
    by (cases "us = []"; cases "ns = []")
      (auto dest!: cond simp: retE_def delete_access_of_def delete_users_def delete_nodes_def cleaned_def filter_filter
        elim!: exec_Inr intro!: db.equality filter_cong)
qed

text \<open>All or nothing, and exactly the rows of the test.\<close>

theorem CleanupFixtureRows_exact:
  assumes "CleanupFixtureRows e userIDs nodeIDs w = (r, w')"
    and "UUIDArray e userIDs = Inr us" and "UUIDArray e nodeIDs = Inr ns"
  shows "w_db w' = w_db w \<and> (\<exists>err. r = Inl err)
    \<or> w_db w' = cleaned us ns (w_db w) \<and> (r = Inr () \<or> (\<exists>err t. r = Inl err \<and> env_fault e t = Some (ReplyLost err)))"
proof -
  have "transaction e (cleanup_statements e us ns) w = (r, w')"
    using assms by (simp add: CleanupFixtureRows_def bindE_def liftE_def)
  then show ?thesis
  proof (cases rule: transaction_cases)
    case (committed w1 x w2)
    then show ?thesis using cleanup_statements_clean [OF committed(2)] by auto
  qed blast
qed

section \<open>Advisory locks\<close>

text \<open>
  The locks of the database server, each with the session that holds it - a session may hold one several times -
  and the connections taken from the pool.  \<open>le_fault\<close> says which call fails, a wait for a lock that runs into its
  deadline included, and leaves no lock, \<open>le_conn\<close> which connection the pool hands out.
\<close>

definition migrationLockKey :: int where "migrationLockKey = 5829441072341"

record lock_env =
  le_fault :: "nat \<Rightarrow> goerr option"
  le_conn :: "nat \<Rightarrow> nat"

record locks =
  lk_tick :: nat
  lk_held :: "(int \<times> nat) list"
  lk_conns :: "nat list"

definition pool_Acquire :: "lock_env \<Rightarrow> (locks, nat) io" where
  "pool_Acquire le w =
     (let w' = w\<lparr>lk_tick := Suc (lk_tick w)\<rparr>; conn = le_conn le (lk_tick w) in
      case le_fault le (lk_tick w) of
        Some err \<Rightarrow> (Inl err, w') | None \<Rightarrow> (Inr conn, w'\<lparr>lk_conns := conn # lk_conns w\<rparr>))"

definition conn_Release :: "nat \<Rightarrow> locks \<Rightarrow> locks" where
  "conn_Release conn w = w\<lparr>lk_conns := remove1 conn (lk_conns w)\<rparr>"

text \<open>\<^verbatim>\<open>pg_advisory_lock\<close> waits while another session holds the lock, here until the deadline.\<close>

definition execAdvisoryLock :: "lock_env \<Rightarrow> nat \<Rightarrow> int \<Rightarrow> (locks, unit) io" where
  "execAdvisoryLock le conn key w =
     (let w' = w\<lparr>lk_tick := Suc (lk_tick w)\<rparr> in
      case le_fault le (lk_tick w) of
        Some err \<Rightarrow> (Inl err, w')
      | None \<Rightarrow>
          if list_ex (\<lambda>(k, c). k = key \<and> c \<noteq> conn) (lk_held w) then (Inl (Errorf ''timeout: context deadline exceeded''), w')
          else (Inr (), w'\<lparr>lk_held := (key, conn) # lk_held w\<rparr>))"

definition execAdvisoryUnlock :: "lock_env \<Rightarrow> nat \<Rightarrow> int \<Rightarrow> (locks, bool) io" where
  "execAdvisoryUnlock le conn key w =
     (let w' = w\<lparr>lk_tick := Suc (lk_tick w)\<rparr> in
      case le_fault le (lk_tick w) of
        Some err \<Rightarrow> (Inl err, w')
      | None \<Rightarrow> (Inr ((key, conn) \<in> set (lk_held w)), w'\<lparr>lk_held := remove1 (key, conn) (lk_held w)\<rparr>))"

definition WithIntegrationLock :: "lock_env \<Rightarrow> int \<Rightarrow> (nat \<Rightarrow> (locks, unit) io) \<Rightarrow> (locks, unit) io" where
  "WithIntegrationLock le key fn =
     bindE (pool_Acquire le) (\<lambda>conn w1.
       case execAdvisoryLock le conn key w1 of
         (Inl err, w2) \<Rightarrow> (Inl err, conn_Release conn w2)
       | (Inr _, w2) \<Rightarrow>
           (case fn conn w2 of
              (r, w3) \<Rightarrow> (r, conn_Release conn (snd (execAdvisoryUnlock le conn key w3)))))"

text \<open>A test that cannot go on ends with a message, \<open>Inl\<close>.\<close>

definition acquireMigrationLock :: "lock_env \<Rightarrow> locks \<Rightarrow> (string + nat) \<times> locks" where
  "acquireMigrationLock le w =
     (case pool_Acquire le w of
        (Inl err, w1) \<Rightarrow> (Inl (''acquire migration lock connection: '' @ error_text err), w1)
      | (Inr conn, w1) \<Rightarrow>
          (case execAdvisoryLock le conn migrationLockKey w1 of
             (Inl err, w2) \<Rightarrow> (Inl (''acquire migration lock: '' @ error_text err), conn_Release conn w2)
           | (Inr _, w2) \<Rightarrow> (Inr conn, w2)))"

definition releaseMigrationLock :: "lock_env \<Rightarrow> nat option \<Rightarrow> locks \<Rightarrow> (string + unit) \<times> locks" where
  "releaseMigrationLock le held w =
     (case held of
        None \<Rightarrow> (Inr (), w)
      | Some conn \<Rightarrow>
          (case execAdvisoryUnlock le conn migrationLockKey w of
             (Inl err, w1) \<Rightarrow> (Inl (''release migration lock: '' @ error_text err), conn_Release conn w1)
           | (Inr unlocked, w1) \<Rightarrow>
               (if unlocked then Inr () else Inl ''release migration lock: PostgreSQL returned false'', conn_Release conn w1)))"

text \<open>One session at a time, and every way out gives the connection back and, if the call gets through, the lock.\<close>

definition exclusive :: "locks \<Rightarrow> bool" where
  "exclusive w \<longleftrightarrow> (\<forall>key c c'. (key, c) \<in> set (lk_held w) \<and> (key, c') \<in> set (lk_held w) \<longrightarrow> c = c')"

interpretation locking: preorder_on_states "\<lambda>w w'. exclusive w \<longrightarrow> exclusive w'"
  by unfold_locales auto

lemma calls_exclusive:
  "within (\<lambda>w w'. exclusive w \<longrightarrow> exclusive w') (pool_Acquire le)"
  "within (\<lambda>w w'. exclusive w \<longrightarrow> exclusive w') (execAdvisoryLock le conn key)"
  "within (\<lambda>w w'. exclusive w \<longrightarrow> exclusive w') (execAdvisoryUnlock le conn key)"
  by (auto simp: within_def exclusive_def pool_Acquire_def execAdvisoryLock_def execAdvisoryUnlock_def Let_def
      list_ex_iff split: option.splits dest: notin_set_remove1 set_remove1_subset [THEN subsetD])

lemma Release_exclusive: "exclusive (conn_Release conn w) = exclusive w"
  by (simp add: exclusive_def conn_Release_def)

lemma WithIntegrationLock_exclusive:
  assumes fn: "\<And>conn. within (\<lambda>w w'. exclusive w \<longrightarrow> exclusive w') (fn conn)"
  shows "within (\<lambda>w w'. exclusive w \<longrightarrow> exclusive w') (WithIntegrationLock le key fn)"
  unfolding WithIntegrationLock_def
proof (rule locking.bind [OF calls_exclusive(1)])
  fix conn
  show "within (\<lambda>w w'. exclusive w \<longrightarrow> exclusive w')
    (\<lambda>w1. case execAdvisoryLock le conn key w1 of
         (Inl err, w2) \<Rightarrow> (Inl err, conn_Release conn w2)
       | (Inr _, w2) \<Rightarrow>
           (case fn conn w2 of
              (r, w3) \<Rightarrow> (r, conn_Release conn (snd (execAdvisoryUnlock le conn key w3)))))"
    by (auto simp: Release_exclusive split: prod.splits sum.splits intro!: withinI)
      (metis calls_exclusive(2,3) fn withinD prod.collapse)+
qed

lemma pool_Acquire_cases:
  assumes "pool_Acquire le w = (r, w')"
  obtains (failed) err where "r = Inl err" and "lk_held w' = lk_held w" and "lk_conns w' = lk_conns w"
    | (taken) conn where "r = Inr conn" and "lk_held w' = lk_held w" and "lk_conns w' = conn # lk_conns w"
  using assms by (auto simp: pool_Acquire_def Let_def split: option.splits)

lemma execAdvisoryLock_cases:
  assumes "execAdvisoryLock le conn key w = (r, w')"
  obtains (failed) err where "r = Inl err" and "lk_held w' = lk_held w" and "lk_conns w' = lk_conns w"
    | (locked) "r = Inr ()" and "lk_held w' = (key, conn) # lk_held w" and "lk_conns w' = lk_conns w"
  using assms by (auto simp: execAdvisoryLock_def Let_def split: option.splits if_splits)

lemma execAdvisoryUnlock_state:
  "lk_conns (snd (execAdvisoryUnlock le conn key w)) = lk_conns w"
  "lk_held (snd (execAdvisoryUnlock le conn key w)) = remove1 (key, conn) (lk_held w)
   \<or> lk_held (snd (execAdvisoryUnlock le conn key w)) = lk_held w \<and> (\<exists>t err. le_fault le t = Some err)"
  by (auto simp: execAdvisoryUnlock_def Let_def split: option.splits)

lemma WithIntegrationLock_releases:
  assumes run: "WithIntegrationLock le key fn w = (r, w')"
    and fn: "\<And>conn v. lk_held (snd (fn conn v)) = lk_held v \<and> lk_conns (snd (fn conn v)) = lk_conns v"
  shows "lk_conns w' = lk_conns w
    \<and> (lk_held w' = lk_held w \<or> (\<exists>conn t err. le_fault le t = Some err \<and> lk_held w' = (key, conn) # lk_held w))"
proof -
  obtain r1 w1 where get: "pool_Acquire le w = (r1, w1)" by force
  then show ?thesis
  proof (cases rule: pool_Acquire_cases)
    case (failed err)
    then show ?thesis using run get by (simp add: WithIntegrationLock_def bindE_def)
  next
    case (taken conn)
    obtain r2 w2 where lock: "execAdvisoryLock le conn key w1 = (r2, w2)" by force
    then show ?thesis
    proof (cases rule: execAdvisoryLock_cases)
      case (failed err)
      then show ?thesis using run get lock taken by (auto simp: WithIntegrationLock_def bindE_def conn_Release_def)
    next
      case locked
      let ?w3 = "snd (fn conn w2)"
      have "w' = conn_Release conn (snd (execAdvisoryUnlock le conn key ?w3))"
        using run get lock taken locked by (auto simp: WithIntegrationLock_def bindE_def split: prod.splits)
      then show ?thesis
        using execAdvisoryUnlock_state [of le conn key ?w3] fn [of conn w2] taken locked
        by (auto simp: conn_Release_def)
    qed
  qed
qed

section \<open>Opening the database\<close>

text \<open>
  \<^verbatim>\<open>OpenIntegrationTestDB\<close>: the environment, connecting, \<^verbatim>\<open>select current_database()\<close>, taking the
  lock and migrating are operations on a state of any type; what \<^verbatim>\<open>t.Cleanup\<close> has registered comes
  with the outcome, the last one first, as the test runs them.
\<close>

datatype open_outcome = Skipped string | Fatal string | Opened string
datatype cleanup = CancelContext | ClosePool | ReleaseLock nat

record 'w test_ops =
  to_getenv :: "string \<Rightarrow> string"
  to_connect :: "string \<Rightarrow> ('w, unit) io"
  to_current :: "('w, string) io"
  to_lock :: "'w \<Rightarrow> (string + nat) \<times> 'w"
  to_migrate :: "('w, unit) io"

definition OpenIntegrationTestDB :: "'w test_ops \<Rightarrow> 'w \<Rightarrow> (open_outcome \<times> cleanup list) \<times> 'w" where
  "OpenIntegrationTestDB ops w =
     (let databaseURL = TrimSpace (to_getenv ops ''TEST_DATABASE_URL'');
          expectedName = TrimSpace (to_getenv ops ''TEST_DATABASE_NAME'') in
      if databaseURL = [] then ((Skipped ''TEST_DATABASE_URL is not set'', []), w)
      else if expectedName = []
      then ((Fatal ''TEST_DATABASE_NAME must be set when TEST_DATABASE_URL is provided'', []), w)
      else
        (case to_connect ops databaseURL w of
           (Inl err, w1) \<Rightarrow> ((Fatal (''connect test database: '' @ error_text err), [CancelContext]), w1)
         | (Inr _, w1) \<Rightarrow>
             (case to_current ops w1 of
                (Inl err, w2) \<Rightarrow> ((Fatal (''read current_database(): '' @ error_text err), [ClosePool, CancelContext]), w2)
              | (Inr currentDatabase, w2) \<Rightarrow>
                  (case GuardDedicatedTestDatabase currentDatabase expectedName of
                     Some err \<Rightarrow>
                       ((Fatal (''unsafe integration database: '' @ error_text err), [ClosePool, CancelContext]), w2)
                   | None \<Rightarrow>
                       (case to_lock ops w2 of
                          (Inl msg, w3) \<Rightarrow> ((Fatal msg, [ClosePool, CancelContext]), w3)
                        | (Inr conn, w3) \<Rightarrow>
                            (case to_migrate ops w3 of
                               (Inl err, w4) \<Rightarrow>
                                 ((Fatal (''migrate test database: '' @ error_text err),
                                   [ReleaseLock conn, ClosePool, CancelContext]), w4)
                             | (Inr _, w4) \<Rightarrow>
                                 ((Opened currentDatabase, [ReleaseLock conn, ClosePool, CancelContext]), w4)))))))"

text \<open>
  Integration tests keep their hands off other databases.  If connecting and asking for the
  name changes nothing of what \<open>view\<close> sees, then whatever else changes - locking and migrating -
  happens only in a database whose own name is the one expected, is not one of the forbidden
  ones in any case, and ends in \<^verbatim>\<open>\_test\<close> or contains \<^verbatim>\<open>\_test\_\<close>; and only then a pool is handed out.
\<close>

theorem OpenIntegrationTestDB_only_dedicated:
  assumes "OpenIntegrationTestDB ops w = ((ans, cleanups), w')"
    and "\<And>url v. view (snd (to_connect ops url v)) = view v" and "\<And>v. view (snd (to_current ops v)) = view v"
  shows "view w' = view w \<and> (\<forall>name. ans \<noteq> Opened name)
    \<or> (\<exists>name v v'. to_current ops v = (Inr name, v') \<and> TrimSpace name = TrimSpace (to_getenv ops ''TEST_DATABASE_NAME'')
        \<and> ToLower (TrimSpace name) \<notin> forbiddenTestDatabases
        \<and> (HasSuffix (TrimSpace name) ''_test'' \<or> Contains (TrimSpace name) ''_test_'')
        \<and> (ans = Opened name \<or> (\<exists>msg. ans = Fatal msg)))"
proof -
  let ?url = "TrimSpace (to_getenv ops ''TEST_DATABASE_URL'')" and ?expected = "TrimSpace (to_getenv ops ''TEST_DATABASE_NAME'')"
  obtain r1 w1 where connect: "to_connect ops ?url w = (r1, w1)" by force
  obtain r2 w2 where ask: "to_current ops w1 = (r2, w2)" by force
  have same: "view w1 = view w" "view w2 = view w"
    using assms(2) [of ?url w] assms(3) [of w1] connect ask by simp_all
  show ?thesis
  proof (cases "?url \<noteq> [] \<and> ?expected \<noteq> [] \<and> r1 = Inr () \<and> (\<exists>name. r2 = Inr name \<and> GuardDedicatedTestDatabase name ?expected = None)")
    case True
    then obtain name where name: "r2 = Inr name" "GuardDedicatedTestDatabase name ?expected = None" by blast
    then have "ans = Opened name \<or> (\<exists>msg. ans = Fatal msg)"
      using assms(1) connect ask True
      by (auto simp: OpenIntegrationTestDB_def Let_def split: prod.splits sum.splits)
    then show ?thesis using ask name guard_accepts [of name ?expected] by auto
  next
    case False
    then have "view w' = view w \<and> (\<forall>name. ans \<noteq> Opened name)"
      using assms(1) connect ask same
      by (auto simp: OpenIntegrationTestDB_def Let_def split: prod.splits sum.splits option.splits if_splits)
    then show ?thesis by blast
  qed
qed

definition sample_locks :: locks where
  "sample_locks = \<lparr>lk_tick = 0, lk_held = [], lk_conns = []\<rparr>"

definition sample_ops :: "string \<Rightarrow> locks test_ops" where
  "sample_ops name =
     \<lparr>to_getenv = (\<lambda>key. if key = ''TEST_DATABASE_URL'' then ''postgres://localhost/db'' else ''vetka_test''),
      to_connect = (\<lambda>_. retE ()), to_current = retE name,
      to_lock = acquireMigrationLock \<lparr>le_fault = (\<lambda>_. None), le_conn = (\<lambda>_. 7)\<rparr>, to_migrate = retE ()\<rparr>"

lemma sample_opening:
  "OpenIntegrationTestDB (sample_ops ''vetka_test'') sample_locks =
     ((Opened ''vetka_test'', [ReleaseLock 7, ClosePool, CancelContext]),
      \<lparr>lk_tick = 2, lk_held = [(migrationLockKey, 7)], lk_conns = [7]\<rparr>)"
proof -
  have "TrimSpace ''vetka_test'' = ''vetka_test''" "TrimSpace ''postgres://localhost/db'' = ''postgres://localhost/db''"
      "GuardDedicatedTestDatabase ''vetka_test'' ''vetka_test'' = None"
    by code_simp+
  then show ?thesis
    by (simp add: OpenIntegrationTestDB_def sample_ops_def sample_locks_def retE_def acquireMigrationLock_def
        pool_Acquire_def execAdvisoryLock_def Let_def)
qed

lemma OpenIntegrationTestDB_only_dedicated_witness:
  "\<exists>name v v'. to_current (sample_ops ''vetka_test'') v = (Inr name, v')
     \<and> (HasSuffix (TrimSpace name) ''_test'' \<or> Contains (TrimSpace name) ''_test_'')"
proof -
  have quiet: "lk_held (snd (to_connect (sample_ops ''vetka_test'') url v)) = lk_held v"
      "lk_held (snd (to_current (sample_ops ''vetka_test'') v)) = lk_held v" for url v
    by (simp_all add: sample_ops_def retE_def)
  have "lk_held \<lparr>lk_tick = 2, lk_held = [(migrationLockKey, 7)], lk_conns = [7]\<rparr> \<noteq> lk_held sample_locks"
    by (simp add: sample_locks_def)
  then show ?thesis using OpenIntegrationTestDB_only_dedicated [OF sample_opening, of lk_held, OF quiet] by blast
qed

lemma CleanupFixtureRows_example:
  "w_db (snd (CleanupFixtureRows sample_env [''u2''] [] sample_world))
     = sample_db\<lparr>t_users := [sample_user], t_access := [sample_access ''a1'' ''u1'']\<rparr>"
  by code_simp

end
