(* ===== verification/Spec2Isabelle.thy ===== *)
theory Spec2Isabelle
  imports Sync_Claims User_Create Panel Expiry_Panel Subscription_Panel Telemetry_Panel Server_Claims Redirects
    Migrate Wire_Agents Sync_Interleaving Wire_Sync Program Language Masked_Secrets
    Revocation Quotas Api_Updates Test_Runner Fixtures
begin

text \<open>
  The Vetka panel (the Go program under src/): an administration server that keeps VPN nodes, user
  accounts and their assignments in PostgreSQL, tells the agent of every node which users it has
  to serve, hands subscription documents to the users' clients and shows an administrator the
  state of it all.

  \<^bold>\<open>Parts and how they interact.\<close>  A request comes to the server (http/server.go), passes a guard
  (http/middleware/auth.go) and reaches a handler (http/handlers).  Handlers read and write the
  tables through the two repositories (nodes, users), and call the node manager
  (nodes/manager.go), which asks node agents over HTTP (nodes/agent\_client.go), the telemetry
  service (telemetry), the subscription service (subscriptions) and the expiry reconciler
  (users/expiry\_reconciler.go); the reconciler also runs in a loop of its own.  At the start the
  configuration is read (config), the database is connected and the migrations are run (db)
  before the server listens (cmd/server/main.go).

  \<^bold>\<open>How the code is modelled.\<close>  An operation is a function on the state \<open>world\<close> with a result or
  an error, \<open>(world, 'a) io\<close> (Prelude, World).  The state holds the tables, the requests sent to agents
  and a counter of the interactions.  Everything outside the program is the record \<open>env\<close>, indexed by
  that counter: whether a database call is refused or its reply lost, what an agent answers, the
  clocks, random bytes, new uuids.  So the theorems hold for every behaviour of the database's
  connection and of the agents.  SQL statements are functions on the tables (Schema): keys, checks,
  triggers and cascades of internal/db/migrations.go are their branches.  Go strings are byte
  strings; integers are kept in the range of their type where the code can leave it.

  \<^bold>\<open>Theories and sources.\<close>
  \<^item> Prelude, Go\_Unicode, Go\_Strings, Go\_Encoding, Go\_Json, Go\_Json\_Decode, Go\_Time, Go\_Url, Go\_Http:
    what the program uses of Go's standard library, with round trips (decimal, base64, escaping
    and, in Json\_Roundtrip, \<^verbatim>\<open>json.Marshal\<close> and \<^verbatim>\<open>json.Unmarshal\<close>).
  \<^item> Models, Wire, Wire\_Agents: the structs of nodes/models.go, nodes/telemetry\_models.go and
    users/models.go and their JSON.  Security: security/security.go.
  \<^item> Schema, Schema\_Integrity, World: the tables, the statements, that each keeps the constraints
    (\<open>db_ok\<close>), and the primitive effects.  Node\_Repo, User\_Repo: the repositories.
  \<^item> Agent\_Client, Node\_Manager: requests to agents; creating, checking and synchronising nodes.
    Sync\_Requests, Sync\_Properties, Sync\_Outcomes, Sync\_Claims: what synchronisation sends and records.
    Sync\_Addresses, Wire\_Sync: to whom, and what the bytes read back as.  Sync\_Interleaving:
    synchronisations of one node that run at the same time, as the step relation \<open>sync_step\<close>;
    \<open>SyncNode\<close> alone, up to its request, is a run of it (\<open>SyncNode_is_a_run\<close>).
  \<^item> User\_Create: users/service.go.  Panel: the tables as a transition system of committed
    statements (\<open>sql_step\<close>), which all operations refine.
  \<^item> Expiry, Expiry\_Panel: users/expiry\_reconciler.go against the interface of its dependencies
    (locale \<open>expiry_interface\<close>), interpreted on the repository and \<open>SyncNode\<close>.
  \<^item> Subscription, Subscription\_Panel: subscriptions/subscriptions.go, likewise
    (\<open>subscription_interface\<close>).  Telemetry, Telemetry\_Pool, Telemetry\_Pages, Telemetry\_Panel:
    telemetry/service.go and models.go, likewise (\<open>telemetry_frame\<close>); Telemetry\_Pool has the workers that ask the
    nodes, as the machine of their goroutines, their channel and their wait group.
  \<^item> Config: config/config.go.  I18n: http/handlers/i18n.go.  Redaction, View\_Text, View\_Helpers:
    http/handlers/view\_helpers.go and page\_data.go.  Handlers\_Base, Handlers\_UI, Handlers\_API:
    http/handlers/handlers.go; a handler whose name another operation has is prefixed \<open>handle_\<close>.
  \<^item> Server: http/server.go and http/middleware/auth.go.  Server\_Frames, Server\_Claims, Redirects: what
    serving requests can do.  Language, Masked\_Secrets: what answers do not depend on.  Revocation, Quotas,
    Api\_Updates: requests followed from the handler through tables and agents to the answer.
    Migrate: db/db.go and db/migrations.go.  Samples: concrete inputs.
  \<^item> Program: cmd/server/main.go, from the command line to the goroutines of the running process.
  \<^item> Fixtures: internal/testsupport/postgres.go.  Test\_Runner: tools/telemetry-postgres-runner/main.go,
    with deferred clean-up (\<open>deferE\<close>) on a model of the machine.

  \<^bold>\<open>What the lemmas show.\<close>  \<open>within R m\<close> says that \<open>m\<close> relates the states before and after by \<open>R\<close>,
  however it ends; the locales \<open>preorder_on_states\<close> and \<open>preorder_on_tables\<close> carry one rule per
  construct, so that a frame of an operation is a walk through its text.  They are interpreted
  for: constraints kept, tables or people unchanged, versions not lowered, events only added,
  nothing sent, committed statements only, nothing touched.  On these rest the properties:
  synchronisation sends exactly the entitled users and records what happened (Sync\_Properties,
  Sync\_Claims); requests without credentials do nothing (Server\_Claims), and all tables the code's statements
  reach are consistent (Panel); creation is all or nothing and deletion complete
  (User\_Create, Server\_Claims); subscription documents hold what the user is entitled to, with
  credentials that read back (Subscription\_Panel); the expiry loop marks only what was told
  and, when it reports no error, all that was due
  (Expiry\_Panel); failed migrations are completed (Migrate); redirects stay on the site (Redirects);
  previews hide exactly the values of secret names (Redaction); the pool of workers does what a loop would,
  without a deadlock (Telemetry\_Pool), the page of a user shows sessions of this user only, and rows are
  sorted and counted (Telemetry\_Panel); texts are complete (I18n); settings survive storage (Wire); an agent reads
  exactly the documents of the entitled users (Wire\_Sync); concurrent synchronisations end with the
  entitled users unless one of them is retried, and a retry can send an older list last
  (Sync\_Interleaving); the process serves migrated tables only (Program); a page that reports a user or an assignment as switched off tells the truth about every
  node (Revocation); quotas of any size never wrap on the way to the client (Quotas); a PATCH resets what it
  leaves out (Api\_Updates); the language reaches pages only (Language) and the API's reading routes tell no
  short secret and no long one's middle (Masked\_Secrets); the test tools clean up after themselves and keep to dedicated
  databases (Test\_Runner, Fixtures).

  \<^bold>\<open>Bounds and fuel.\<close>  The JSON reader recurses with the depth left as its argument, from
  \<open>max_nesting\<close> = 10000, the limit of Go's scanner; its loop over elements stops where no byte is
  consumed, which the round trip shows not to happen.  The retry of a synchronisation is bounded
  by its flag, the retries of the code being one.  The body limit of an agent's reply is that of
  the code.  \<open>Run\<close> of the expiry loop takes the number of ticks.  The moves of the telemetry pool are bounded
  by \<open>pool_work\<close>, which every move uses up, so the bound is never what ends a run (\<open>run_pool_returns\<close>).  All other recursion is structural
  or has a measure, so every operation returns.

  \<^bold>\<open>Parameters.\<close>  Outside the repository are the driver's and PostgreSQL's texts of errors,
  collation and uuid syntax, time zones and the layouts of dates (\<open>pn_format\<close>, \<open>pn_parse_local\<close>,
  \<open>pn_json_time\<close>), floating point text in JSON (\<open>pn_float\<close>), the text of a decoder's error
  (\<open>pn_body_error\<close>), the order in which goroutines of the telemetry pool move and the moment its page
  times out (\<open>pn_schedule\<close>), the router chi
  (\<open>router_ok\<close> says what is needed of it, \<open>first_match\<close> is one such router), the file server, what
  PostgreSQL makes of a migration (\<open>run_sql\<close>), and godotenv (Config takes the environment it leaves).
  Instants in JSON are read without escapes in their text.

  \<^bold>\<open>Not modelled.\<close>  The HTML templates, style sheet and scripts and their embedding (a page is the name
  of its template with its data), so the rendering and its error; log lines but the request log and
  the text of a failed ping; PostgreSQL's refusal of texts that are no UTF-8 or hold a zero byte (the model
  stores them, but for settings, where \<^verbatim>\<open>json.Marshal\<close> replaces the bytes that are no UTF-8); timeouts, which are failures of \<open>env\<close>; the truly parallel serving of
  requests as a whole: runs serve one request after another, the interleaving of statements is covered by
  the statement system, and that of synchronisations by Sync\_Interleaving; constructors that only store
  their arguments; two functions nothing calls (\<open>writeJSON\<close> of http/server.go, \<open>includesText\<close> of
  view\_helpers.go, modelled once for telemetry); the function table of the templates;
  shell scripts, containers and the SQL files under
  migrations, which repeat db/migrations.go.
\<close>

end
